(* ===== verification/Prelude.thy ===== *)
theory Prelude
  imports Complex_Main "HOL-Library.Char_ord" "HOL-Library.List_Lexorder"
    "HOL-Library.Product_Lexorder" "HOL-Library.Monad_Syntax"
begin

text \<open>
  Shared vocabulary of the development: the named collections, the errors the fund code
  raises, verdicts and results, references into lists (a position), and the list lemmas the
  components share. Every other theory imports this one, directly or through another.
\<close>

section \<open>Collections\<close>

named_theorems fund_simps \<open>equations of the fund state operations\<close>
named_theorems wf_intros \<open>introduction rules for well-formed fund states\<close>
named_theorems frame_simps \<open>what an operation leaves alone\<close>

section \<open>Times, errors and results\<close>

text \<open>Python floats of seconds, as exact rationals.\<close>
type_synonym time = rat

text \<open>The refusal codes of \<open>rules.deny\<close> and \<open>authz\<close>, one constructor per code string.\<close>

datatype rule_code =
    Unknown_agent | Agent_removed | Agent_not_registered | Not_host | Host_unset
  | Cooldown | Asset_not_usd_pegged | Bad_agent_fee | Agent_fee_too_high | Agent_fee_unknown
  | Bad_topic | Agent_has_open_proposal | Topic_claimed | Agent_has_claim | Fund_full
  | No_legs | Bad_leg | Unlimited_approve | Caps_exceed_capital
  | Bad_capital | Exceeds_max_capital | Bad_drawdown | Exceeds_max_drawdown
  | No_claim | Claim_mismatch
  | Unknown_proposal | Own_proposal | Not_reviewable | Not_member | Voting_closed
  | Bad_transition | Missing_identity | Cannot_remove_host | Unknown_member
  | Already_approved | Missing_address | Approve_too_small | Approve_too_wide
  | Address_taken | Already_registered | No_thesis | Not_draft | Draft_not_ready
  | Bad_side | Locked

text \<open>
  The exceptions of the fund code. \<open>Type_error\<close> and \<open>Value_error\<close> are Python's own;
  \<open>Rule_violation\<close> carries the code of the failed verdict.
\<close>

datatype exn =
    Rule_violation rule_code
  | Fund_not_found | Fund_exists | Store_error | Schema_too_new | Lock_timeout
  | Service_error | Units_error | Tx_builder_error | Fund_action_error "rule_code option"
  | Value_error | Runtime_error | Telegram_error | Type_error | Key_error | Attribute_error | Os_error | Assertion_error | Overflow_error | Index_error

type_synonym 'a result = "exn + 'a"

text \<open>A verdict of the rules: \<open>ALLOW\<close>, or a denial with its code (the prose reason is not kept).\<close>

datatype verdict = Allow | Deny rule_code

definition verdict_ok :: "verdict \<Rightarrow> bool" where
  "verdict_ok v \<longleftrightarrow> v = Allow"

text \<open>\<open>require(v); k\<close>\<close>

definition require :: "verdict \<Rightarrow> 'a result \<Rightarrow> 'a result" where
  "require v k = (case v of Allow \<Rightarrow> k | Deny c \<Rightarrow> Inl (Rule_violation c))"

text \<open>Running \<open>k\<close> on the value of \<open>m\<close>, unless \<open>m\<close> raised.\<close>

definition and_then :: "'a result \<Rightarrow> ('a \<Rightarrow> 'b result) \<Rightarrow> 'b result" where
  "and_then m k = (case m of Inl e \<Rightarrow> Inl e | Inr x \<Rightarrow> k x)"

fun first_failure :: "verdict list \<Rightarrow> verdict" where
  "first_failure [] = Allow"
| "first_failure (v # vs) = (case v of Allow \<Rightarrow> first_failure vs | Deny c \<Rightarrow> v)"

lemma verdict_ok_simps [simp]:
  "verdict_ok Allow" "\<not> verdict_ok (Deny c)"
  by (simp_all add: verdict_ok_def)

lemma require_simps [simp]:
  "require Allow k = k" "require (Deny c) k = Inl (Rule_violation c)"
  by (simp_all add: require_def)

lemma require_Inr_iff [simp]: "require v k = Inr x \<longleftrightarrow> v = Allow \<and> k = Inr x"
  by (cases v) simp_all

lemma and_then_simps [simp]:
  "and_then (Inl e) k = Inl e" "and_then (Inr x) k = k x"
  by (simp_all add: and_then_def)

lemma and_then_Inr_iff: "and_then m k = Inr y \<longleftrightarrow> (\<exists>x. m = Inr x \<and> k x = Inr y)"
  by (cases m) simp_all

lemma first_failure_Allow_iff [simp]:
  "first_failure vs = Allow \<longleftrightarrow> (\<forall>v \<in> set vs. v = Allow)"
  by (induction vs) (auto split: verdict.splits)

lemma first_failure_Deny:
  "first_failure vs = Deny c \<Longrightarrow> Deny c \<in> set vs"
  by (induction vs) (auto split: verdict.splits)

declare first_failure.simps [simp del]

text \<open>\<open>[f(x) for x in xs]\<close> where \<open>f\<close> may raise\<close>

fun mapM :: "('a \<Rightarrow> 'b result) \<Rightarrow> 'a list \<Rightarrow> 'b list result" where
  "mapM f [] = Inr []"
| "mapM f (x # xs) = and_then (f x) (\<lambda>y. and_then (mapM f xs) (\<lambda>ys. Inr (y # ys)))"

lemma mapM_Inr_iff: "mapM f xs = Inr ys \<longleftrightarrow> list_all2 (\<lambda>x y. f x = Inr y) xs ys"
  by (induction xs arbitrary: ys) (auto simp: and_then_Inr_iff list_all2_Cons1)

lemma mapM_total: "(\<And>x. x \<in> set xs \<Longrightarrow> f x = Inr (g x)) \<Longrightarrow> mapM f xs = Inr (map g xs)"
  by (induction xs) simp_all

section \<open>References into lists\<close>

text \<open>
  The code looks an element of a list up and then mutates it in place. Such a reference is
  the position of the element: \<open>find_ix\<close> is the position of the first element that
  satisfies the condition, and a mutation is \<open>xs[i := f (xs ! i)]\<close>.
\<close>

fun find_ix :: "('a \<Rightarrow> bool) \<Rightarrow> 'a list \<Rightarrow> nat option" where
  "find_ix P [] = None"
| "find_ix P (x # xs) = (if P x then Some 0 else map_option Suc (find_ix P xs))"

definition deref :: "'a list \<Rightarrow> nat option \<Rightarrow> 'a option" where
  "deref xs r = map_option (\<lambda>i. xs ! i) r"

definition modify_at :: "nat \<Rightarrow> ('a \<Rightarrow> 'a) \<Rightarrow> 'a list \<Rightarrow> 'a list" where
  "modify_at i f xs = xs[i := f (xs ! i)]"

lemma find_ix_None_iff: "find_ix P xs = None \<longleftrightarrow> (\<forall>x \<in> set xs. \<not> P x)"
  by (induction xs) auto

lemma find_ix_SomeD: "find_ix P xs = Some i \<Longrightarrow> i < length xs \<and> P (xs ! i) \<and> (\<forall>j < i. \<not> P (xs ! j))"
proof (induction xs arbitrary: i)
  case Nil
  then show ?case by simp
next
  case (Cons x xs)
  show ?case
  proof (cases "P x")
    case True
    with Cons.prems show ?thesis by auto
  next
    case False
    with Cons.prems obtain k where k: "find_ix P xs = Some k" "i = Suc k" by auto
    with Cons.IH[OF k(1)] False show ?thesis
      by (auto simp: nth_Cons split: nat.splits)
  qed
qed

lemma find_ix_less: "find_ix P xs = Some i \<Longrightarrow> i < length xs"
  by (simp add: find_ix_SomeD)

lemma find_ix_sat: "find_ix P xs = Some i \<Longrightarrow> P (xs ! i)"
  by (simp add: find_ix_SomeD)

lemma deref_simps [simp]: "deref xs None = None" "deref xs (Some i) = Some (xs ! i)"
  by (simp_all add: deref_def)

lemma deref_find_ix: "deref xs (find_ix P xs) = find P xs"
  by (induction xs) (auto simp: deref_def option.map_comp comp_def)

lemma find_SomeD: "find P xs = Some x \<Longrightarrow> x \<in> set xs \<and> P x"
  by (induction xs) (auto split: if_splits)

lemma length_modify_at [simp]: "length (modify_at i f xs) = length xs"
  by (simp add: modify_at_def)

lemma nth_modify_at: "j < length xs \<Longrightarrow> modify_at i f xs ! j = (if i = j then f (xs ! i) else xs ! j)"
  by (simp add: modify_at_def nth_list_update)

lemma nth_modify_at_eq [simp]: "i < length xs \<Longrightarrow> modify_at i f xs ! i = f (xs ! i)"
  by (simp add: modify_at_def)

lemma map_modify_at_same: "g (f (xs ! i)) = g (xs ! i) \<Longrightarrow> map g (modify_at i f xs) = map g xs"
proof (cases "i < length xs")
  case True
  assume eq: "g (f (xs ! i)) = g (xs ! i)"
  have "map g (modify_at i f xs) = (map g xs)[i := g (f (xs ! i))]"
    by (simp add: modify_at_def map_update)
  also have "\<dots> = (map g xs)[i := (map g xs) ! i]" using True eq by simp
  finally show ?thesis by simp
next
  case False
  then show ?thesis by (simp add: modify_at_def list_update_beyond)
qed

lemma set_modify_at_subset: "set (modify_at i f xs) \<subseteq> insert (f (xs ! i)) (set xs)"
  unfolding modify_at_def by (rule set_update_subset_insert)

lemma modify_at_mem: "y \<in> set (modify_at i f xs) \<Longrightarrow> y = f (xs ! i) \<or> y \<in> set xs"
  using set_modify_at_subset by fastforce

lemma filter_list_update_len:
  assumes "P y \<longrightarrow> P (xs ! i)"
  shows "length (filter P (xs[i := y])) \<le> length (filter P xs)"
  using assms
proof (induction xs arbitrary: i)
  case Nil
  then show ?case by simp
next
  case (Cons x xs)
  then show ?case by (cases i) (auto intro: le_SucI)
qed

text \<open>Counting the elements that satisfy a condition never grows when one element is changed
  to one that satisfies it only if the old one did.\<close>

lemma count_modify_at_le:
  "(P (f (xs ! i)) \<Longrightarrow> P (xs ! i)) \<Longrightarrow> length (filter P (modify_at i f xs)) \<le> length (filter P xs)"
  unfolding modify_at_def by (rule filter_list_update_len) blast

lemma count_map_le:
  "(\<And>x. x \<in> set xs \<Longrightarrow> P (f x) \<Longrightarrow> P x) \<Longrightarrow> length (filter P (map f xs)) \<le> length (filter P xs)"
  by (induction xs) (auto intro: le_SucI)

lemma count_filter_le: "length (filter P (filter Q xs)) \<le> length (filter P xs)"
  by (induction xs) auto

end
