(* ===== verification/Text.thy ===== *)
theory Text
  imports Prelude
begin

text \<open>
  Python's string operations, on ASCII text, as the fund code uses them: \<open>lower\<close>, \<open>upper\<close>,
  \<open>strip\<close>, \<open>rstrip(chars)\<close>, \<open>startswith\<close>, \<open>split()\<close>, \<open>isdigit\<close>, \<open>str(int)\<close>,
  \<open>int(text)\<close>, \<open>int(text, 16)\<close>, and the two regular-expression idioms of the code: a full
  match ended by \<open>$\<close> (which also matches before one final newline) and the substitution of
  maximal runs. The lemmas give the round trip of printing and parsing integers and the
  separation lemma behind every signed message.
\<close>

section \<open>Characters\<close>

definition code_of :: "char \<Rightarrow> int" where
  "code_of c = of_char c"

definition in_range :: "int \<Rightarrow> int \<Rightarrow> char \<Rightarrow> bool" where
  "in_range a b c \<longleftrightarrow> a \<le> code_of c \<and> code_of c \<le> b"

definition is_upper_char :: "char \<Rightarrow> bool" where "is_upper_char = in_range 65 90"
definition is_lower_char :: "char \<Rightarrow> bool" where "is_lower_char = in_range 97 122"
definition is_digit :: "char \<Rightarrow> bool" where "is_digit = in_range 48 57"

definition is_alpha :: "char \<Rightarrow> bool" where
  "is_alpha c \<longleftrightarrow> is_upper_char c \<or> is_lower_char c"

definition is_alnum :: "char \<Rightarrow> bool" where
  "is_alnum c \<longleftrightarrow> is_alpha c \<or> is_digit c"

text \<open>\<open>\w\<close>\<close>

definition is_word_char :: "char \<Rightarrow> bool" where
  "is_word_char c \<longleftrightarrow> is_alnum c \<or> c = CHR ''_''"

definition is_hex :: "char \<Rightarrow> bool" where
  "is_hex c \<longleftrightarrow> is_digit c \<or> in_range 97 102 c \<or> in_range 65 70 c"

text \<open>\<open>str.isspace\<close> on ASCII: tab, newline, vertical tab, form feed, return, 0x1c-0x1f, space.\<close>

definition is_space :: "char \<Rightarrow> bool" where
  "is_space c \<longleftrightarrow> in_range 9 13 c \<or> in_range 28 32 c"

definition lower_char :: "char \<Rightarrow> char" where
  "lower_char c = (if is_upper_char c then char_of (code_of c + 32) else c)"

definition upper_char :: "char \<Rightarrow> char" where
  "upper_char c = (if is_lower_char c then char_of (code_of c - 32) else c)"

section \<open>Strings\<close>

definition lower :: "string \<Rightarrow> string" where "lower = map lower_char"
definition upper :: "string \<Rightarrow> string" where "upper = map upper_char"

definition lstrip :: "string \<Rightarrow> string" where "lstrip = dropWhile is_space"
definition rstrip :: "string \<Rightarrow> string" where "rstrip s = rev (dropWhile is_space (rev s))"
definition strip :: "string \<Rightarrow> string" where "strip s = rstrip (lstrip s)"

definition lstrip_of :: "char \<Rightarrow> string \<Rightarrow> string" where "lstrip_of c = dropWhile (\<lambda>x. x = c)"
definition rstrip_of :: "char \<Rightarrow> string \<Rightarrow> string" where
  "rstrip_of c s = rev (dropWhile (\<lambda>x. x = c) (rev s))"

definition startswith :: "string \<Rightarrow> string \<Rightarrow> bool" where
  "startswith p s \<longleftrightarrow> take (length p) s = p"

definition isdigit :: "string \<Rightarrow> bool" where
  "isdigit s \<longleftrightarrow> s \<noteq> [] \<and> list_all is_digit s"

text \<open>\<open>a or b\<close> on strings\<close>

definition or_else :: "string \<Rightarrow> string \<Rightarrow> string" where
  "or_else a b = (if a = [] then b else a)"

text \<open>\<open>re.match(r"^...$")\<close>: the whole text, or the whole text before one final newline.\<close>

definition dollar_match :: "(string \<Rightarrow> bool) \<Rightarrow> string \<Rightarrow> bool" where
  "dollar_match P s \<longleftrightarrow> P s \<or> (s \<noteq> [] \<and> last s = CHR 0x0A \<and> P (butlast s))"

text \<open>\<open>re.sub(r"[...]+", r, s)\<close>: every maximal run of such characters becomes \<open>r\<close>.\<close>

lemma dropWhile_length_le [termination_simp]: "length (dropWhile P xs) < Suc (length xs)"
  by (simp add: le_imp_less_Suc length_dropWhile_le)

fun sub_runs :: "(char \<Rightarrow> bool) \<Rightarrow> string \<Rightarrow> string \<Rightarrow> string" where
  "sub_runs P r [] = []"
| "sub_runs P r (c # cs) = (if P c then r @ sub_runs P r (dropWhile P cs) else c # sub_runs P r cs)"

text \<open>\<open>s.split()\<close>: the runs of non-space characters (\<open>w\<close> is the current run, reversed).\<close>

fun split_aux :: "string \<Rightarrow> string \<Rightarrow> string list" where
  "split_aux w [] = (if w = [] then [] else [rev w])"
| "split_aux w (c # cs) =
     (if is_space c then (if w = [] then split_aux [] cs else rev w # split_aux [] cs)
      else split_aux (c # w) cs)"

definition split_ws :: "string \<Rightarrow> string list" where
  "split_ws s = split_aux [] s"

text \<open>\<open>sep.join(xs)\<close>\<close>

fun join :: "string \<Rightarrow> string list \<Rightarrow> string" where
  "join sep [] = []"
| "join sep [x] = x"
| "join sep (x # y # xs) = x @ sep @ join sep (y # xs)"

section \<open>Integers as text\<close>

definition digit_char :: "int \<Rightarrow> char" where "digit_char n = char_of (48 + n)"
definition digit_val :: "char \<Rightarrow> int" where "digit_val c = code_of c - 48"

text \<open>The decimal digits of a number that is not negative.\<close>

function str_nat :: "int \<Rightarrow> string" where
  "str_nat n = (if n < 10 then [digit_char n] else str_nat (n div 10) @ [digit_char (n mod 10)])"
  by pat_completeness auto
termination
  by (relation "measure nat") auto

declare str_nat.simps [simp del]

definition str_int :: "int \<Rightarrow> string" where
  "str_int i = (if i < 0 then CHR ''-'' # str_nat (- i) else str_nat i)"

definition digits_val :: "string \<Rightarrow> int" where
  "digits_val = foldl (\<lambda>a c. a * 10 + digit_val c) 0"

text \<open>Digits with single underscores between them (Python's integer literals).\<close>

fun us_seq :: "(char \<Rightarrow> bool) \<Rightarrow> string \<Rightarrow> bool" where
  "us_seq D [] = False"
| "us_seq D [c] = D c"
| "us_seq D (c # d # cs) = (D c \<and> (if d = CHR ''_'' then us_seq D cs else us_seq D (d # cs)))"

definition no_us :: "string \<Rightarrow> string" where
  "no_us = filter (\<lambda>c. c \<noteq> CHR ''_'')"

definition split_sign :: "string \<Rightarrow> bool \<times> string" where
  "split_sign t = (case t of [] \<Rightarrow> (False, [])
     | c # r \<Rightarrow> if c = CHR ''-'' then (True, r) else if c = CHR ''+'' then (False, r) else (False, t))"

text \<open>\<open>int(text)\<close>: \<open>None\<close> is the \<open>ValueError\<close>.\<close>

definition py_int :: "string \<Rightarrow> int option" where
  "py_int s = (case split_sign (strip s) of (neg, body) \<Rightarrow>
     if us_seq is_digit body
     then Some (if neg then - digits_val (no_us body) else digits_val (no_us body))
     else None)"

definition hex_digit_val :: "char \<Rightarrow> int" where
  "hex_digit_val c = (if is_digit c then code_of c - 48
     else if in_range 97 102 c then code_of c - 87 else code_of c - 55)"

definition hex_val :: "string \<Rightarrow> int" where
  "hex_val = foldl (\<lambda>a c. a * 16 + hex_digit_val c) 0"

text \<open>\<open>int(text, 16)\<close>: an optional sign, an optional \<open>0x\<close> (then one underscore may follow).\<close>

definition drop_0x :: "string \<Rightarrow> string" where
  "drop_0x s = (if startswith ''0x'' (lower s)
     then (case drop 2 s of [] \<Rightarrow> [] | c # r \<Rightarrow> if c = CHR ''_'' then r else c # r) else s)"

definition py_int16 :: "string \<Rightarrow> int option" where
  "py_int16 s = (case split_sign (strip s) of (neg, body) \<Rightarrow> let h = drop_0x body in
     if us_seq is_hex h
     then Some (if neg then - hex_val (no_us h) else hex_val (no_us h))
     else None)"

definition is_hex_text :: "string \<Rightarrow> bool" where
  "is_hex_text s \<longleftrightarrow> startswith ''0x'' s \<and> list_all is_hex (drop 2 s)"

text \<open>\<open>_ADDRESS_RE\<close>: \<open>^0x[0-9a-fA-F]{40}$\<close>; \<open>_HEX_RE\<close>: \<open>^0x[0-9a-fA-F]*$\<close>\<close>

definition address_re :: "string \<Rightarrow> bool" where
  "address_re = dollar_match (\<lambda>s. is_hex_text s \<and> length s = 42)"

definition hex_re :: "string \<Rightarrow> bool" where
  "hex_re = dollar_match is_hex_text"

section \<open>Characters: facts\<close>

text \<open>The equations that evaluate a character operation on a literal.\<close>

lemmas char_eval = is_upper_char_def is_lower_char_def is_digit_def in_range_def code_of_def
  char_of_def bit_0

lemma code_of_char_of: "0 \<le> n \<Longrightarrow> n < 256 \<Longrightarrow> code_of (char_of n) = n"
  by (simp add: code_of_def)

lemma code_of_int: "code_of c = int (of_char c)"
  by (simp add: code_of_def of_nat_of_char)

lemma code_of_less [simp]: "code_of c < 256"
proof -
  have "of_char c < (256::nat)" by simp
  then show ?thesis by (simp only: code_of_int)
qed

lemma code_of_nonneg [simp]: "0 \<le> code_of c"
  by (simp add: code_of_int)

lemma code_of_inject [simp]: "code_of c = code_of d \<longleftrightarrow> c = d"
  by (simp add: code_of_def)

lemma code_of_lit [simp]: "code_of (Char a b c d e f g h) = of_char (Char a b c d e f g h)"
  by (simp add: code_of_def)

lemma code_of_lower_char:
  "code_of (lower_char c) = (if is_upper_char c then code_of c + 32 else code_of c)"
  by (simp add: lower_char_def is_upper_char_def in_range_def code_of_char_of)

lemma lower_char_idem [simp]: "lower_char (lower_char c) = lower_char c"
proof -
  have "code_of (lower_char (lower_char c)) = code_of (lower_char c)"
    by (simp add: code_of_lower_char is_upper_char_def in_range_def)
  then show ?thesis by simp
qed

lemma is_space_lower_char [simp]: "is_space (lower_char c) = is_space c"
  by (auto simp: is_space_def in_range_def code_of_lower_char is_upper_char_def)

lemma digit_char_code: "0 \<le> n \<Longrightarrow> n < 10 \<Longrightarrow> code_of (digit_char n) = 48 + n"
  by (simp add: digit_char_def code_of_char_of)

lemma is_digit_digit_char [simp]: "0 \<le> n \<Longrightarrow> n < 10 \<Longrightarrow> is_digit (digit_char n)"
  by (simp add: is_digit_def in_range_def digit_char_code)

lemma digit_val_digit_char [simp]: "0 \<le> n \<Longrightarrow> n < 10 \<Longrightarrow> digit_val (digit_char n) = n"
  by (simp add: digit_val_def digit_char_code)

lemma is_digit_not_special:
  assumes "is_digit c"
  shows "c \<noteq> CHR ''_''" "c \<noteq> CHR ''-''" "c \<noteq> CHR ''+''" "c \<noteq> CHR ''|''" "c \<noteq> CHR '':''"
    "\<not> is_space c" "is_hex c" "c \<noteq> CHR ''.''" "c \<noteq> CHR '',''"
  using assms by (auto simp: is_digit_def in_range_def is_space_def is_hex_def)

section \<open>Strings: facts\<close>

lemma lower_Nil [simp]: "lower [] = []"
  by (simp add: lower_def)

lemma lower_Nil_iff [simp]: "lower s = [] \<longleftrightarrow> s = []"
  by (simp add: lower_def)

lemma lower_append: "lower (s @ t) = lower s @ lower t"
  by (simp add: lower_def)

lemma lower_idem [simp]: "lower (lower s) = lower s"
  by (simp add: lower_def comp_def)

lemma length_lower [simp]: "length (lower s) = length s"
  by (simp add: lower_def)

lemma dropWhile_map_space: "dropWhile is_space (map lower_char s) = map lower_char (dropWhile is_space s)"
  by (simp add: dropWhile_map comp_def)

lemma strip_lower: "strip (lower s) = lower (strip s)"
  by (simp add: strip_def lstrip_def rstrip_def lower_def dropWhile_map_space rev_map)

lemma dropWhile_idem: "dropWhile P (dropWhile P xs) = dropWhile P xs"
  by (induction xs) auto

lemma strip_eq_iff:
  "strip s = s \<longleftrightarrow> (s = [] \<or> (\<not> is_space (hd s) \<and> \<not> is_space (last s)))"
proof
  assume eq: "strip s = s"
  have len: "length (strip s) \<le> length (lstrip s)"
    using length_dropWhile_le [of is_space "rev (lstrip s)"]
    by (simp add: strip_def rstrip_def)
  have l: "lstrip s = s"
  proof (rule ccontr)
    assume "lstrip s \<noteq> s"
    then obtain c cs where "s = c # cs" "is_space c"
      by (cases s) (auto simp: lstrip_def split: if_splits)
    then have "length (lstrip s) < length s"
      using length_dropWhile_le [of is_space cs] by (simp add: lstrip_def)
    with len eq show False by simp
  qed
  with eq have r: "dropWhile is_space (rev s) = rev s"
    by (metis strip_def rstrip_def rev_rev_ident)
  show "s = [] \<or> (\<not> is_space (hd s) \<and> \<not> is_space (last s))"
  proof (cases "s = []")
    case False
    from False l have "\<not> is_space (hd s)"
      by (metis hd_dropWhile lstrip_def)
    moreover from False r have "\<not> is_space (hd (rev s))"
      by (metis hd_dropWhile rev_is_Nil_conv)
    ultimately show ?thesis using False by (simp add: hd_rev)
  qed simp
next
  assume a: "s = [] \<or> (\<not> is_space (hd s) \<and> \<not> is_space (last s))"
  show "strip s = s"
  proof (cases "s = []")
    case False
    with a have "lstrip s = s" by (cases s) (auto simp: lstrip_def)
    moreover from False a obtain t c where "s = t @ [c]" "\<not> is_space c"
      by (metis append_butlast_last_id)
    then have "rstrip s = s" by (simp add: rstrip_def)
    ultimately show ?thesis by (simp add: strip_def)
  qed (simp add: strip_def lstrip_def rstrip_def)
qed

lemma rstrip_last: "rstrip s \<noteq> [] \<Longrightarrow> \<not> is_space (last (rstrip s))"
  using hd_dropWhile [of is_space "rev s"] by (simp add: rstrip_def last_rev)

lemma rstrip_hd: "rstrip s \<noteq> [] \<Longrightarrow> hd (rstrip s) = hd s"
proof -
  assume ne: "rstrip s \<noteq> []"
  have "s = rstrip s @ rev (takeWhile is_space (rev s))"
    unfolding rstrip_def by (metis rev_append rev_rev_ident takeWhile_dropWhile_id)
  then show ?thesis using ne by (metis hd_append2)
qed

lemma strip_strip [simp]: "strip (strip s) = strip s"
proof (cases "strip s = []")
  case False
  have r: "strip s = rstrip (lstrip s)" by (simp add: strip_def)
  with False have ne: "lstrip s \<noteq> []" by (auto simp: rstrip_def)
  have "hd (strip s) = hd (lstrip s)" using r False rstrip_hd by metis
  moreover have "\<not> is_space (hd (lstrip s))" using ne hd_dropWhile by (simp add: lstrip_def)
  moreover have "\<not> is_space (last (strip s))" using r False rstrip_last by metis
  ultimately show ?thesis by (simp add: strip_eq_iff)
next
  case True
  then show ?thesis by (simp add: strip_eq_iff [THEN iffD2])
qed

text \<open>A text without white space is its own \<open>strip\<close>.\<close>

lemma strip_no_space: "list_all (\<lambda>c. \<not> is_space c) s \<Longrightarrow> strip s = s"
  by (cases "s = []") (auto simp: strip_eq_iff list_all_iff)

lemma startswith_append [simp]: "startswith p (p @ s)"
  by (simp add: startswith_def)

text \<open>A separator that neither left part contains splits in one way only.\<close>

lemma sep_inject:
  assumes "a @ c # x = b @ c # y" and "c \<notin> set a" and "c \<notin> set b"
  shows "a = b \<and> x = y"
  using assms
proof (induction a arbitrary: b)
  case Nil
  then show ?case by (cases b) auto
next
  case (Cons d a)
  then show ?case by (cases b) auto
qed

section \<open>Printing and parsing integers\<close>

lemma str_nat_ne [simp]: "str_nat n \<noteq> []"
  by (subst str_nat.simps) simp

lemma str_nat_digits: "0 \<le> n \<Longrightarrow> list_all is_digit (str_nat n)"
proof (induction n rule: str_nat.induct)
  case (1 n)
  then show ?case by (subst str_nat.simps) auto
qed

lemma digits_val_snoc: "digits_val (s @ [c]) = digits_val s * 10 + digit_val c"
  by (simp add: digits_val_def)

lemma digits_val_str_nat [simp]: "0 \<le> n \<Longrightarrow> digits_val (str_nat n) = n"
proof (induction n rule: str_nat.induct)
  case (1 n)
  show ?case
  proof (cases "n < 10")
    case True
    with 1 show ?thesis by (subst str_nat.simps) (simp add: digits_val_def)
  next
    case False
    have "digits_val (str_nat n) = digits_val (str_nat (n div 10) @ [digit_char (n mod 10)])"
      using False by (subst str_nat.simps) simp
    also have "\<dots> = digits_val (str_nat (n div 10)) * 10 + n mod 10"
      by (simp add: digits_val_snoc)
    also have "\<dots> = n" using 1 False by simp
    finally show ?thesis .
  qed
qed

lemma str_nat_inject [simp]: "0 \<le> m \<Longrightarrow> 0 \<le> n \<Longrightarrow> str_nat m = str_nat n \<longleftrightarrow> m = n"
  by (metis digits_val_str_nat)

lemma digits_not_in:
  assumes "list_all is_digit s"
  shows "CHR ''_'' \<notin> set s" "CHR ''-'' \<notin> set s" "CHR ''+'' \<notin> set s" "CHR ''|'' \<notin> set s"
    "CHR '':'' \<notin> set s" "CHR ''.'' \<notin> set s" "CHR '','' \<notin> set s"
proof -
  have "c \<notin> set s" if "\<not> is_digit c" for c using assms that by (auto simp: list_all_iff)
  then show "CHR ''_'' \<notin> set s" "CHR ''-'' \<notin> set s" "CHR ''+'' \<notin> set s" "CHR ''|'' \<notin> set s"
    "CHR '':'' \<notin> set s" "CHR ''.'' \<notin> set s" "CHR '','' \<notin> set s"
    by (simp_all add: is_digit_def in_range_def)
qed

lemma digits_no_space: "list_all is_digit s \<Longrightarrow> list_all (\<lambda>c. \<not> is_space c) s"
  by (auto simp: list_all_iff is_digit_not_special)

lemma no_us_digits: "list_all is_digit s \<Longrightarrow> no_us s = s"
  by (induction s) (auto simp: no_us_def is_digit_not_special)

lemma us_seq_digits: "list_all is_digit s \<Longrightarrow> s \<noteq> [] \<Longrightarrow> us_seq is_digit s"
  by (induction "is_digit" s rule: us_seq.induct) (auto simp: is_digit_not_special)

lemma split_sign_digits: "list_all is_digit s \<Longrightarrow> split_sign s = (False, s)"
  by (cases s) (auto simp: split_sign_def is_digit_not_special)

lemma str_int_no_space: "list_all (\<lambda>c. \<not> is_space c) (str_int i)"
  using digits_no_space [OF str_nat_digits]
  by (auto simp: str_int_def is_space_def in_range_def)

lemma py_int_str_int [simp]: "py_int (str_int i) = Some i"
proof -
  have s: "strip (str_int i) = str_int i" by (rule strip_no_space [OF str_int_no_space])
  show ?thesis
  proof (cases "i < 0")
    case True
    then have "split_sign (str_int i) = (True, str_nat (- i))"
      by (simp add: str_int_def split_sign_def)
    with True s show ?thesis
      by (simp add: py_int_def us_seq_digits str_nat_digits no_us_digits)
  next
    case False
    then have "split_sign (str_int i) = (False, str_nat i)"
      by (simp add: str_int_def split_sign_digits str_nat_digits)
    with False s show ?thesis
      by (simp add: py_int_def us_seq_digits str_nat_digits no_us_digits)
  qed
qed

lemma str_int_inject [simp]: "str_int i = str_int j \<longleftrightarrow> i = j"
  by (metis py_int_str_int option.inject)

lemma str_int_ne [simp]: "str_int i \<noteq> []"
  by (simp add: str_int_def)

lemma str_int_nonneg: "0 \<le> i \<Longrightarrow> str_int i = str_nat i"
  by (simp add: str_int_def)

lemma isdigit_str_int [simp]: "isdigit (str_int i) \<longleftrightarrow> 0 \<le> i"
  using str_nat_digits by (auto simp: isdigit_def str_int_def is_digit_def in_range_def)

lemma str_int_not_in:
  "CHR ''|'' \<notin> set (str_int i)" "CHR '':'' \<notin> set (str_int i)" "CHR ''_'' \<notin> set (str_int i)"
  using digits_not_in [OF str_nat_digits] by (auto simp: str_int_def)

lemma address_re_hex_text:
  "address_re s \<Longrightarrow> last s \<noteq> CHR 0x0A \<Longrightarrow> length s = 42 \<and> is_hex_text s"
  by (simp add: address_re_def dollar_match_def)

end
