(* ===== verification/Units.thy ===== *)
theory Units
  imports Text
begin

text \<open>
  \<open>fund/units.py\<close>: exact decimal to base-unit conversion. A \<open>decimal.Decimal\<close> is a sign, a
  coefficient and a power of ten; the local context's precision of 100 digits is modelled, with
  its rounding (half to even), so what the code does with longer amounts is visible. The lemmas
  show that a conversion is exact up to 100 digits, that printing an amount and parsing it back
  is the identity, and what is refused.
\<close>

section \<open>Decimals\<close>

text \<open>\<open>(neg, coeff, exp)\<close> stands for \<open>\<plusminus>coeff * 10 ^ exp\<close> (\<open>coeff\<close> is never negative).\<close>
type_synonym dec = "bool \<times> int \<times> int"

definition PREC :: nat where "PREC = 100"

definition dec_of_int :: "int \<Rightarrow> dec" where
  "dec_of_int i = (i < 0, \<bar>i\<bar>, 0)"

definition dec_neg :: "dec \<Rightarrow> bool" where
  "dec_neg x = (case x of (s, c, e) \<Rightarrow> s \<and> c \<noteq> 0)"

definition dec_value :: "dec \<Rightarrow> rat" where
  "dec_value x = (case x of (s, c, e) \<Rightarrow>
     (if s then -1 else 1) * of_int c * (if e \<ge> 0 then 10 ^ nat e else 1 / 10 ^ nat (- e)))"

definition half_even :: "int \<Rightarrow> int \<Rightarrow> int" where
  "half_even n d = (let q = n div d; r = n mod d in
     if 2 * r > d \<or> (2 * r = d \<and> odd q) then q + 1 else q)"

text \<open>Rounding a result to the context's precision.\<close>

definition dec_fix :: "dec \<Rightarrow> dec" where
  "dec_fix x = (case x of (s, c, e) \<Rightarrow> let n = length (str_nat c) in
     if n \<le> PREC then x else (s, half_even c (10 ^ (n - PREC)), e + int (n - PREC)))"

definition scaleb :: "dec \<Rightarrow> int \<Rightarrow> dec" where
  "scaleb x k = (case x of (s, c, e) \<Rightarrow> dec_fix (s, c, e + k))"

definition dec_is_int :: "dec \<Rightarrow> bool" where
  "dec_is_int x = (case x of (s, c, e) \<Rightarrow> e \<ge> 0 \<or> c mod 10 ^ nat (- e) = 0)"

definition dec_to_int :: "dec \<Rightarrow> int" where
  "dec_to_int x = (case x of (s, c, e) \<Rightarrow>
     (if s then -1 else 1) * (if e \<ge> 0 then c * 10 ^ nat e else c div 10 ^ nat (- e)))"

text \<open>\<open>quantize\<close> to \<open>p\<close> places: \<open>InvalidOperation\<close> when the result has more digits than the context.\<close>

definition quantize :: "dec \<Rightarrow> nat \<Rightarrow> dec option" where
  "quantize x p = (case x of (s, c, e) \<Rightarrow>
     let c' = (if e \<ge> - int p then c * 10 ^ nat (e + int p) else half_even c (10 ^ nat (- int p - e)))
     in if length (str_nat c') \<le> PREC then Some (s, c', - int p) else None)"

text \<open>\<open>format(value, "f")\<close>\<close>

definition format_f :: "dec \<Rightarrow> string" where
  "format_f x = (case x of (s, c, e) \<Rightarrow>
     (if s then ''-'' else []) @
     (if e \<ge> 0 then str_nat (c * 10 ^ nat e)
      else let k = nat (- e); d = str_nat c;
               t = replicate (Suc k - length d) (CHR ''0'') @ d
           in take (length t - k) t @ CHR ''.'' # drop (length t - k) t))"

text \<open>\<open>_DECIMAL_RE = ^-?\d+(\.\d+)?$\<close>\<close>

definition unsigned_body :: "string \<Rightarrow> string" where
  "unsigned_body t = (case t of [] \<Rightarrow> [] | c # r \<Rightarrow> if c = CHR ''-'' then r else t)"

definition int_part :: "string \<Rightarrow> string" where
  "int_part t = takeWhile (\<lambda>c. c \<noteq> CHR ''.'') t"

definition frac_part :: "string \<Rightarrow> string" where
  "frac_part t = tl (dropWhile (\<lambda>c. c \<noteq> CHR ''.'') t)"

definition decimal_full :: "string \<Rightarrow> bool" where
  "decimal_full s = (let b = unsigned_body s in
     isdigit (int_part b) \<and> (CHR ''.'' \<in> set b \<longrightarrow> isdigit (frac_part b)))"

definition decimal_re :: "string \<Rightarrow> bool" where
  "decimal_re = dollar_match decimal_full"

definition parse_decimal :: "string \<Rightarrow> dec" where
  "parse_decimal text = (let s = strip text; b = unsigned_body s; i = int_part b; f = frac_part b in
     (b \<noteq> s, digits_val (i @ f), - int (length f)))"

section \<open>The conversions\<close>

text \<open>What a caller may pass as an amount.\<close>
datatype amount = A_bool bool | A_float | A_int int | A_str string | A_dec dec

definition amount_value :: "amount \<Rightarrow> dec option" where
  "amount_value a = (case a of
      A_bool b \<Rightarrow> None
    | A_float \<Rightarrow> None
    | A_int i \<Rightarrow> Some (dec_of_int i)
    | A_dec d \<Rightarrow> Some d
    | A_str s \<Rightarrow> (let text = filter (\<lambda>c. c \<noteq> CHR '','' \<and> c \<noteq> CHR ''_'') (strip s) in
        if decimal_re text then Some (parse_decimal text) else None))"

definition to_base_units :: "amount \<Rightarrow> nat \<Rightarrow> bool \<Rightarrow> int result" where
  "to_base_units a decimals allow_negative =
     (case amount_value a of
        None \<Rightarrow> Inl Units_error
      | Some v \<Rightarrow>
          if dec_neg v \<and> \<not> allow_negative then Inl Units_error
          else let scaled = scaleb v (int decimals) in
            if \<not> dec_is_int scaled then Inl Units_error
            else Inr (dec_to_int scaled))"

definition int_full :: "string \<Rightarrow> bool" where
  "int_full s = isdigit (unsigned_body s)"

definition parse_base_units :: "amount \<Rightarrow> bool \<Rightarrow> int result" where
  "parse_base_units a allow_negative =
     (let text = (case a of A_int i \<Rightarrow> Some (str_int i) | A_str s \<Rightarrow> Some (strip s) | _ \<Rightarrow> None) in
      case text of None \<Rightarrow> Inl Units_error
      | Some t \<Rightarrow>
          if \<not> dollar_match int_full t then Inl Units_error
          else (case py_int t of None \<Rightarrow> Inl Value_error
                | Some n \<Rightarrow> if n < 0 \<and> \<not> allow_negative then Inl Units_error else Inr n))"

text \<open>Trailing zeros, then a trailing point.\<close>

definition trim_zeros :: "string \<Rightarrow> string" where
  "trim_zeros t = (if CHR ''.'' \<in> set t then rstrip_of (CHR ''.'') (rstrip_of (CHR ''0'') t) else t)"

definition format_units :: "int \<Rightarrow> nat \<Rightarrow> nat option \<Rightarrow> string result" where
  "format_units units decimals max_places =
     (let v = scaleb (dec_of_int units) (- int decimals) in
      case (case max_places of None \<Rightarrow> Some v | Some p \<Rightarrow> quantize v p) of
        None \<Rightarrow> Inl Value_error
      | Some w \<Rightarrow> Inr (or_else (trim_zeros (format_f w)) ''0''))"

text \<open>\<open>UNLIMITED_THRESHOLD\<close>\<close>

definition UNLIMITED_THRESHOLD :: int where "UNLIMITED_THRESHOLD = 2 ^ 255"

definition UINT256_MAX :: int where "UINT256_MAX = 2 ^ 256 - 1"

definition is_unlimited_int :: "int \<Rightarrow> bool" where
  "is_unlimited_int n \<longleftrightarrow> n \<ge> UNLIMITED_THRESHOLD"

definition is_unlimited :: "string \<Rightarrow> bool" where
  "is_unlimited amount =
     (let text = lower (strip amount) in
      if text \<in> set [''max'', ''unlimited'', ''infinite'', ''uint256max'', ''type(uint256).max''] then True
      else if startswith ''0x'' text then
        (case py_int16 text of None \<Rightarrow> False | Some n \<Rightarrow> is_unlimited_int n)
      else if \<not> isdigit text then False
      else is_unlimited_int (digits_val text))"

section \<open>Digit counts\<close>

lemma length_str_nat_le: "0 \<le> n \<Longrightarrow> n < 10 ^ Suc k \<Longrightarrow> length (str_nat n) \<le> Suc k"
proof (induction k arbitrary: n)
  case 0
  then show ?case by (subst str_nat.simps) simp
next
  case (Suc k)
  show ?case
  proof (cases "n < 10")
    case True
    then show ?thesis by (subst str_nat.simps) simp
  next
    case False
    have "n div 10 < 10 ^ Suc k" using Suc.prems by simp
    with Suc False show ?thesis by (subst str_nat.simps) simp
  qed
qed

lemma length_str_nat_gt: "10 ^ k \<le> n \<Longrightarrow> k < length (str_nat n)"
proof (induction k arbitrary: n)
  case 0
  then show ?case by simp
next
  case (Suc k)
  have "(10::int) \<le> 10 ^ Suc k" by simp
  also note Suc.prems
  finally have "\<not> n < 10" by simp
  moreover have "10 ^ k \<le> n div 10" using Suc.prems by simp
  ultimately show ?case using Suc.IH by (subst str_nat.simps) simp
qed

text \<open>An amount of at most 100 digits: the context never rounds it.\<close>

definition short :: "dec \<Rightarrow> bool" where
  "short x = (case x of (s, c, e) \<Rightarrow> 0 \<le> c \<and> c < 10 ^ PREC)"

lemma dec_fix_short: "short x \<Longrightarrow> dec_fix x = x"
  using length_str_nat_le [of _ 99] by (auto simp: short_def dec_fix_def PREC_def Let_def)

lemma scaleb_short: "short (s, c, e) \<Longrightarrow> scaleb (s, c, e) k = (s, c, e + k)"
  by (simp add: scaleb_def dec_fix_short short_def)

section \<open>Exactness\<close>

lemma dec_value_shift:
  "dec_value (s, c, e + int d) = dec_value (s, c, e) * 10 ^ d"
proof (cases "0 \<le> e")
  case True
  then show ?thesis by (simp add: dec_value_def nat_add_distrib power_add algebra_simps)
next
  case neg: False
  show ?thesis
  proof (cases "0 \<le> e + int d")
    case True
    with neg have "d = nat (e + int d) + nat (- e)" by simp
    then have "(10::rat) ^ d = 10 ^ nat (e + int d) * 10 ^ nat (- e)"
      by (metis power_add)
    with True neg show ?thesis by (simp add: dec_value_def field_simps)
  next
    case False
    with neg have "nat (- e) = nat (- (e + int d)) + d" by simp
    then have "(10::rat) ^ nat (- e) = 10 ^ nat (- (e + int d)) * 10 ^ d"
      by (metis power_add)
    with False neg show ?thesis by (simp add: dec_value_def field_simps)
  qed
qed

lemma dec_to_int_value:
  assumes "dec_is_int x"
  shows "of_int (dec_to_int x) = dec_value x"
proof -
  obtain s c e where x: "x = (s, c, e)" by (cases x) auto
  show ?thesis
  proof (cases "0 \<le> e")
    case True
    with x show ?thesis by (simp add: dec_to_int_def dec_value_def)
  next
    case False
    with assms x have "c mod 10 ^ nat (- e) = 0" by (simp add: dec_is_int_def)
    then have "c div 10 ^ nat (- e) * 10 ^ nat (- e) = c" by auto
    then have "(of_int c :: rat) = of_int (c div 10 ^ nat (- e)) * 10 ^ nat (- e)"
      by (metis of_int_mult of_int_numeral of_int_power)
    with False x show ?thesis by (simp add: dec_to_int_def dec_value_def)
  qed
qed

text \<open>A conversion that succeeds scales the amount exactly, up to 100 digits.\<close>

lemma to_base_units_value:
  assumes "to_base_units a d neg = Inr n" and "amount_value a = Some v" and "short v"
  shows "of_int n = dec_value v * 10 ^ d"
proof -
  obtain s c e where v: "v = (s, c, e)" by (cases v) auto
  from assms v have "n = dec_to_int (s, c, e + int d)" "dec_is_int (s, c, e + int d)"
    by (auto simp: to_base_units_def scaleb_short Let_def split: if_splits)
  then show ?thesis using v by (simp add: dec_to_int_value dec_value_shift)
qed

lemma to_base_units_nonneg:
  assumes "to_base_units a d False = Inr n" and "amount_value a = Some v" and "short v"
  shows "0 \<le> n"
proof -
  obtain s c e where v: "v = (s, c, e)" by (cases v) auto
  from assms v have *: "\<not> (s \<and> c \<noteq> 0)" "0 \<le> c" "n = dec_to_int (s, c, e + int d)"
    by (auto simp: to_base_units_def scaleb_short Let_def dec_neg_def short_def split: if_splits)
  then show ?thesis by (cases s) (auto simp: dec_to_int_def pos_imp_zdiv_nonneg_iff)
qed

section \<open>Printing and parsing back\<close>

lemma digits_val_append: "digits_val (a @ b) = digits_val a * 10 ^ length b + digits_val b"
proof (induction b rule: rev_induct)
  case Nil
  then show ?case by (simp add: digits_val_def)
next
  case (snoc c b)
  have "digits_val (a @ b @ [c]) = digits_val (a @ b) * 10 + digit_val c"
    by (metis append_assoc digits_val_snoc)
  with snoc show ?case by (simp add: digits_val_snoc algebra_simps)
qed

lemma digits_val_zeros [simp]: "digits_val (replicate k CHR ''0'') = 0"
  by (induction k) (simp_all add: digits_val_def digit_val_def)

lemma rstrip_of_split: "\<exists>k. s = rstrip_of c s @ replicate k c"
proof -
  have "s = rstrip_of c s @ rev (takeWhile (\<lambda>x. x = c) (rev s))"
    unfolding rstrip_of_def by (metis rev_append rev_rev_ident takeWhile_dropWhile_id)
  moreover have "rev (takeWhile (\<lambda>x. x = c) (rev s)) = replicate (length (takeWhile (\<lambda>x. x = c) (rev s))) c"
    by (metis (full_types) replicate_length_same rev_replicate set_takeWhileD)
  ultimately show ?thesis by metis
qed

lemma rstrip_of_id: "s = [] \<or> last s \<noteq> c \<Longrightarrow> rstrip_of c s = s"
  by (cases s rule: rev_cases) (auto simp: rstrip_of_def)

lemma rstrip_of_append_ne: "rstrip_of c t \<noteq> [] \<Longrightarrow> rstrip_of c (s @ t) = s @ rstrip_of c t"
  by (auto simp: rstrip_of_def dropWhile_append dropWhile_eq_Nil_conv)

lemma rstrip_of_append_nil: "rstrip_of c t = [] \<Longrightarrow> rstrip_of c (s @ t) = rstrip_of c s"
  by (auto simp: rstrip_of_def dropWhile_append dropWhile_eq_Nil_conv)

lemma rstrip_of_last: "rstrip_of c s \<noteq> [] \<Longrightarrow> last (rstrip_of c s) \<noteq> c"
  using hd_dropWhile [of "\<lambda>x. x = c" "rev s"] by (simp add: rstrip_of_def last_rev)

text \<open>What trimming makes of an integer part and a fraction.\<close>

lemma trim_zeros_parts:
  assumes "list_all is_digit i" "i \<noteq> []" "list_all is_digit f"
  shows "trim_zeros (i @ CHR ''.'' # f) =
    (if rstrip_of CHR ''0'' f = [] then i else i @ CHR ''.'' # rstrip_of CHR ''0'' f)"
proof (cases "rstrip_of CHR ''0'' f = []")
  case True
  have "rstrip_of CHR ''0'' (i @ CHR ''.'' # f) = rstrip_of CHR ''0'' (i @ [CHR ''.''])"
    using rstrip_of_append_nil [OF True, of "i @ [CHR ''.'']"] by simp
  also have "\<dots> = i @ [CHR ''.'']" by (rule rstrip_of_id) simp
  finally have "rstrip_of CHR ''.'' (rstrip_of CHR ''0'' (i @ CHR ''.'' # f)) = rstrip_of CHR ''.'' i"
    by (simp add: rstrip_of_append_nil rstrip_of_def)
  also have "\<dots> = i"
    using assms digits_not_in(6) by (intro rstrip_of_id) (metis last_in_set)
  finally show ?thesis using True by (simp add: trim_zeros_def)
next
  case False
  have eq: "rstrip_of CHR ''0'' (i @ CHR ''.'' # f) = i @ CHR ''.'' # rstrip_of CHR ''0'' f"
    using rstrip_of_append_ne [OF False, of "i @ [CHR ''.'']"] by simp
  have "set (rstrip_of CHR ''0'' f) \<subseteq> set f"
    using set_dropWhileD by (fastforce simp: rstrip_of_def)
  then have "last (rstrip_of CHR ''0'' f) \<noteq> CHR ''.''"
    using False assms(3) digits_not_in(6) by (metis in_mono last_in_set)
  then have "rstrip_of CHR ''.'' (i @ CHR ''.'' # rstrip_of CHR ''0'' f) = i @ CHR ''.'' # rstrip_of CHR ''0'' f"
    using False by (intro rstrip_of_id) simp
  with eq False show ?thesis by (simp add: trim_zeros_def)
qed

definition sign_text :: "bool \<Rightarrow> string" where
  "sign_text neg = (if neg then ''-'' else [])"

lemma format_f_parts:
  assumes "0 \<le> c"
  obtains i f where "list_all is_digit i" "i \<noteq> []" "list_all is_digit f" "length f = d"
    "digits_val (i @ f) = c"
    "format_f (s, c, - int d) = sign_text s @ (if d = 0 then i else i @ CHR ''.'' # f)"
proof (cases "d = 0")
  case True
  with assms show ?thesis
    by (intro that [of "str_nat c" "[]"]) (simp_all add: str_nat_digits format_f_def sign_text_def)
next
  case False
  define t where "t = replicate (Suc d - length (str_nat c)) CHR ''0'' @ str_nat c"
  have len: "d < length t" by (simp add: t_def)
  have dig: "list_all is_digit t"
    using assms by (auto simp: t_def str_nat_digits list_all_iff is_digit_def in_range_def)
      (metis list_all_iff str_nat_digits is_digit_def in_range_def)+
  have val: "digits_val t = c" using assms by (simp add: t_def digits_val_append)
  let ?i = "take (length t - d) t" and ?f = "drop (length t - d) t"
  show ?thesis
  proof (rule that [of ?i ?f])
    show "list_all is_digit ?i" "list_all is_digit ?f"
      using dig by (auto simp: list_all_iff dest: in_set_takeD in_set_dropD)
    show "?i \<noteq> []" "length ?f = d" using len by auto
    show "digits_val (?i @ ?f) = c" using val by simp
    show "format_f (s, c, - int d) = sign_text s @ (if d = 0 then ?i else ?i @ CHR ''.'' # ?f)"
      using False by (simp add: format_f_def sign_text_def t_def Let_def)
  qed
qed

lemma plain_text_facts:
  fixes s :: bool and i f :: string
  assumes "list_all is_digit i" "i \<noteq> []" "list_all is_digit f"
  defines "t \<equiv> sign_text s @ i @ (if f = [] then [] else CHR ''.'' # f)"
  shows "strip t = t" "filter (\<lambda>c. c \<noteq> CHR '','' \<and> c \<noteq> CHR ''_'') t = t"
    "decimal_re t" "parse_decimal t = (s, digits_val (i @ f), - int (length f))"
proof -
  have all: "list_all (\<lambda>c. is_digit c \<or> c = CHR ''-'' \<or> c = CHR ''.'') t"
    using assms by (auto simp: t_def sign_text_def list_all_iff)
  have "list_all (\<lambda>c. \<not> is_space c) t"
    using all by (auto simp: list_all_iff is_digit_def is_space_def in_range_def)
  then show st: "strip t = t" by (rule strip_no_space)
  show "filter (\<lambda>c. c \<noteq> CHR '','' \<and> c \<noteq> CHR ''_'') t = t"
    using all by (auto simp: list_all_iff is_digit_def in_range_def intro!: filter_True)
  obtain c r where i: "i = c # r" "is_digit c" using assms by (cases i) auto
  then have c: "c \<noteq> CHR ''-''" by (auto simp: is_digit_def in_range_def)
  have body: "unsigned_body t = i @ (if f = [] then [] else CHR ''.'' # f)"
    using i c by (auto simp: t_def sign_text_def unsigned_body_def)
  have dot: "CHR ''.'' \<notin> set i" using assms by (intro digits_not_in(6))
  then have ip: "int_part (unsigned_body t) = i" and fp: "frac_part (unsigned_body t) = f"
    by (auto simp: body int_part_def frac_part_def takeWhile_append dropWhile_append
        takeWhile_eq_all_conv dropWhile_eq_Nil_conv)
  have "isdigit i" "f \<noteq> [] \<Longrightarrow> isdigit f" using assms by (auto simp: isdigit_def)
  then have "decimal_full t"
    unfolding decimal_full_def Let_def ip fp using dot by (simp add: body)
  then show "decimal_re t" by (simp add: decimal_re_def dollar_match_def)
  have "unsigned_body t \<noteq> t \<longleftrightarrow> s" unfolding body by (simp add: t_def sign_text_def)
  then show "parse_decimal t = (s, digits_val (i @ f), - int (length f))"
    by (simp add: parse_decimal_def st Let_def ip fp)
qed

text \<open>Printing base units in full and reading the text back gives the same base units.\<close>

lemma format_units_roundtrip:
  assumes "\<bar>u\<bar> < 10 ^ PREC" and "format_units u d None = Inr t"
  shows "to_base_units (A_str t) d True = Inr u"
proof -
  let ?s = "u < 0" and ?c = "\<bar>u\<bar>"
  obtain i f where if_: "list_all is_digit i" "i \<noteq> []" "list_all is_digit f" "length f = d"
    "digits_val (i @ f) = ?c"
    "format_f (?s, ?c, - int d) = sign_text ?s @ (if d = 0 then i else i @ CHR ''.'' # f)"
    using format_f_parts [of ?c d ?s] by auto
  define f' where "f' = rstrip_of CHR ''0'' f"
  obtain k where k: "f = f' @ replicate k CHR ''0''" unfolding f'_def using rstrip_of_split by blast
  have f'd: "list_all is_digit f'" using if_(3) unfolding k by simp
  have sc: "scaleb (dec_of_int u) (- int d) = (?s, ?c, - int d)"
    using assms(1) by (simp add: dec_of_int_def scaleb_short short_def)
  have trim: "trim_zeros (sign_text ?s @ (if d = 0 then i else i @ CHR ''.'' # f))
      = sign_text ?s @ i @ (if f' = [] then [] else CHR ''.'' # f')"
  proof (cases "d = 0")
    case True
    then have "f' = []" using if_(4) k by simp
    moreover have "CHR ''.'' \<notin> set (sign_text ?s @ i)"
      using digits_not_in(6) [OF if_(1)] by (simp add: sign_text_def)
    ultimately show ?thesis using True by (simp add: trim_zeros_def)
  next
    case False
    have "trim_zeros (''-'' @ i @ CHR ''.'' # f) = ''-'' @ trim_zeros (i @ CHR ''.'' # f)"
    proof -
      have "rstrip_of CHR ''0'' (i @ CHR ''.'' # f) \<noteq> []" 
        by (auto simp: rstrip_of_def dropWhile_append)
      moreover from this have "rstrip_of CHR ''.'' (rstrip_of CHR ''0'' (i @ CHR ''.'' # f)) \<noteq> []"
        using trim_zeros_parts [OF if_(1,2,3)] if_(2) by (auto simp: trim_zeros_def split: if_splits)
      ultimately show ?thesis
        by (simp add: trim_zeros_def rstrip_of_append_ne [where s = "''-''", simplified])
    qed
    with False show ?thesis
      by (simp add: sign_text_def trim_zeros_parts [OF if_(1,2,3)] f'_def)
  qed
  have t: "t = sign_text ?s @ i @ (if f' = [] then [] else CHR ''.'' # f')"
    using assms(2) if_(2) by (simp add: format_units_def sc if_(6) trim or_else_def)
  note pl = plain_text_facts [OF if_(1,2) f'd, of ?s, folded t]
  have v: "amount_value (A_str t) = Some (?s, digits_val (i @ f'), - int (length f'))"
    by (simp add: amount_value_def pl)
  have c: "?c = digits_val (i @ f') * 10 ^ k"
    using if_(5) unfolding k by (simp add: digits_val_append [of "i @ f'" "replicate k CHR ''0''", simplified])
  have "0 \<le> digits_val (i @ f')"
    using c by (metis abs_ge_zero zero_le_mult_iff zero_less_numeral zero_less_power not_le)
  moreover have "digits_val (i @ f') \<le> ?c" 
    unfolding c using calculation by (simp add: mult_le_cancel_left1)
  ultimately have sh: "short (?s, digits_val (i @ f'), - int (length f'))"
    using assms(1) by (simp add: short_def)
  have d: "d = length f' + k" using if_(4) unfolding k by simp
  then show ?thesis
    using c by (auto simp: to_base_units_def v scaleb_short [OF sh] dec_is_int_def dec_to_int_def)
qed

end
