(* ===== verification/Models.thy ===== *)
theory Models
  imports Units
begin

text \<open>
  \<open>fund/models.py\<close>: the typed records of a group-chat fund, their defaults, the constants, the
  proposal life cycle's statuses and the lookups of \<open>FundState\<close>. A Python dataclass is a record
  (the fields carry a prefix per class, since Isabelle's field names are global), the status
  strings are a datatype, and a reference into one of the state's lists is a position
  (\<open>..._ix\<close>): the code looks an element up and then mutates it in place.
\<close>

section \<open>Constants\<close>

definition SCHEMA_VERSION :: int where "SCHEMA_VERSION = 1"
definition CHAIN_ID_ROBINHOOD :: int where "CHAIN_ID_ROBINHOOD = 4663"
definition WOOD_DECIMALS :: nat where "WOOD_DECIMALS = 18"
definition DEFAULT_VOTING_PERIOD_SECONDS :: int where "DEFAULT_VOTING_PERIOD_SECONDS = 1800"
definition DEFAULT_VETO_THRESHOLD_BPS :: int where "DEFAULT_VETO_THRESHOLD_BPS = 2000"
definition DEFAULT_COOLDOWN_SECONDS :: int where "DEFAULT_COOLDOWN_SECONDS = 3600"
definition MAX_AGENT_FEE_BPS :: int where "MAX_AGENT_FEE_BPS = 1500"
definition CLAIM_TTL_SECONDS :: int where "CLAIM_TTL_SECONDS = 600"
definition MAX_OPEN_PER_FUND :: nat where "MAX_OPEN_PER_FUND = 2"
definition MAX_OPEN_PER_AGENT :: nat where "MAX_OPEN_PER_AGENT = 1"

definition PROPOSABLE_ASSETS :: "string list" where "PROPOSABLE_ASSETS = [''USDG'']"

definition ASSET_DECIMALS :: "(string \<times> nat) list" where
  "ASSET_DECIMALS = [(''USDG'', 6), (''WETH'', 18)]"

lemmas model_constants = SCHEMA_VERSION_def CHAIN_ID_ROBINHOOD_def WOOD_DECIMALS_def
  DEFAULT_VOTING_PERIOD_SECONDS_def DEFAULT_VETO_THRESHOLD_BPS_def DEFAULT_COOLDOWN_SECONDS_def
  MAX_AGENT_FEE_BPS_def CLAIM_TTL_SECONDS_def MAX_OPEN_PER_FUND_def MAX_OPEN_PER_AGENT_def

section \<open>Proposal statuses\<close>

datatype pstatus = Draft | Proposed | Voting | Passed | Review | Approved | Vetoed | Executed
  | Settled | Cancelled

definition PROPOSAL_STATUSES :: "(pstatus \<times> string) list" where
  "PROPOSAL_STATUSES = [(Draft, ''draft''), (Proposed, ''proposed''), (Voting, ''voting''),
     (Passed, ''passed''), (Review, ''review''), (Approved, ''approved''), (Vetoed, ''vetoed''),
     (Executed, ''executed''), (Settled, ''settled''), (Cancelled, ''cancelled'')]"

fun status_str :: "pstatus \<Rightarrow> string" where
  "status_str Draft = ''draft''"
| "status_str Proposed = ''proposed''"
| "status_str Voting = ''voting''"
| "status_str Passed = ''passed''"
| "status_str Review = ''review''"
| "status_str Approved = ''approved''"
| "status_str Vetoed = ''vetoed''"
| "status_str Executed = ''executed''"
| "status_str Settled = ''settled''"
| "status_str Cancelled = ''cancelled''"

definition parse_status :: "string \<Rightarrow> pstatus option" where
  "parse_status s = map_option fst (find (\<lambda>p. snd p = s) PROPOSAL_STATUSES)"

definition OPEN_STATUSES :: "pstatus set" where
  "OPEN_STATUSES = {Draft, Proposed, Voting, Passed, Review, Approved, Executed}"

definition TERMINAL_STATUSES :: "pstatus set" where
  "TERMINAL_STATUSES = {Vetoed, Settled, Cancelled}"

lemma parse_status_str [simp]: "parse_status (status_str s) = Some s"
  by (cases s) (simp_all add: parse_status_def PROPOSAL_STATUSES_def)

lemma parse_status_Some: "parse_status t = Some s \<Longrightarrow> status_str s = t"
  by (auto simp: parse_status_def PROPOSAL_STATUSES_def split: if_splits)

lemma open_or_terminal: "s \<in> OPEN_STATUSES \<longleftrightarrow> s \<notin> TERMINAL_STATUSES"
  by (cases s) (simp_all add: OPEN_STATUSES_def TERMINAL_STATUSES_def)

text \<open>The order of the life cycle: a status before another in \<open>stage\<close> comes earlier.\<close>

fun stage :: "pstatus \<Rightarrow> nat" where
  "stage Draft = 0"
| "stage Proposed = 1"
| "stage Voting = 2"
| "stage Passed = 3"
| "stage Review = 4"
| "stage Approved = 5"
| "stage Executed = 6"
| "stage Settled = 7"
| "stage Vetoed = 8"
| "stage Cancelled = 9"

lemma stage_inject [simp]: "stage a = stage b \<longleftrightarrow> a = b"
  by (cases a; cases b) simp_all

lemma stage_le: "stage a \<le> 9"
  by (cases a) simp_all

instantiation pstatus :: linorder
begin

definition less_eq_pstatus :: "pstatus \<Rightarrow> pstatus \<Rightarrow> bool" where
  "less_eq_pstatus a b \<longleftrightarrow> stage a \<le> stage b"

definition less_pstatus :: "pstatus \<Rightarrow> pstatus \<Rightarrow> bool" where
  "less_pstatus a b \<longleftrightarrow> stage a < stage b"

instance
  by standard (auto simp: less_eq_pstatus_def less_pstatus_def)

end

section \<open>The records\<close>

record fund =
  f_name :: string
  f_vault :: string
  f_governor :: string
  f_chain_id :: int
  f_asset :: string
  f_host :: string
  f_host_telegram_id :: string
  f_telegram_chat_id :: string
  f_voting_period :: int
  f_veto_threshold_bps :: int
  f_mode :: string
  f_max_capital :: "string option"
  f_max_drawdown_bps :: "int option"
  f_agent_fee_bps :: "int option"
  f_cooldown_period :: int
  f_cooldown_until :: "time option"
  f_created_at :: time

definition new_fund :: "string \<Rightarrow> fund" where
  "new_fund name = \<lparr>f_name = name, f_vault = [], f_governor = [], f_chain_id = CHAIN_ID_ROBINHOOD,
     f_asset = ''USDG'', f_host = [], f_host_telegram_id = [], f_telegram_chat_id = [],
     f_voting_period = DEFAULT_VOTING_PERIOD_SECONDS,
     f_veto_threshold_bps = DEFAULT_VETO_THRESHOLD_BPS, f_mode = ''host'', f_max_capital = None,
     f_max_drawdown_bps = None, f_agent_fee_bps = None,
     f_cooldown_period = DEFAULT_COOLDOWN_SECONDS, f_cooldown_until = None, f_created_at = 0\<rparr>"

definition asset_decimals :: "fund \<Rightarrow> nat" where
  "asset_decimals f = (case map_of ASSET_DECIMALS (upper (f_asset f)) of None \<Rightarrow> 18 | Some d \<Rightarrow> d)"

record member =
  m_telegram_id :: string
  m_address :: string
  m_approved :: bool
  m_joined_at :: time
  m_member_no :: "int option"
  m_deposit_no :: "int option"
  m_approved_at :: "time option"
  m_approve_tx :: string
  m_username :: string

definition new_member :: "string \<Rightarrow> string \<Rightarrow> time \<Rightarrow> member" where
  "new_member tg address joined = \<lparr>m_telegram_id = tg, m_address = address, m_approved = False,
     m_joined_at = joined, m_member_no = None, m_deposit_no = None, m_approved_at = None,
     m_approve_tx = [], m_username = []\<rparr>"

record bond_policy =
  b_bond_bps :: int
  b_approve_buffer_bps :: int
  b_requote_drift_bps :: int
  b_swap_gap_from :: string

definition new_bond_policy :: bond_policy where
  "new_bond_policy = \<lparr>b_bond_bps = 100, b_approve_buffer_bps = 500, b_requote_drift_bps = 500,
     b_swap_gap_from = ''USDG''\<rparr>"

record agent =
  a_name :: string
  a_identity_id :: string
  a_address :: string
  a_role :: string
  a_approved :: bool
  a_registered :: bool
  a_bond_policy :: bond_policy
  a_owner_telegram_id :: string
  a_requested_at :: time
  a_approved_at :: "time option"
  a_registered_at :: "time option"
  a_register_tx :: string
  a_removed :: bool
  a_removed_at :: "time option"

definition new_agent :: "string \<Rightarrow> string \<Rightarrow> string \<Rightarrow> string \<Rightarrow> agent" where
  "new_agent name identity address owner = \<lparr>a_name = name, a_identity_id = identity,
     a_address = address, a_role = ''guest'', a_approved = False, a_registered = False,
     a_bond_policy = new_bond_policy, a_owner_telegram_id = owner, a_requested_at = 0,
     a_approved_at = None, a_registered_at = None, a_register_tx = [], a_removed = False,
     a_removed_at = None\<rparr>"

definition agent_active :: "agent \<Rightarrow> bool" where
  "agent_active a \<longleftrightarrow> a_registered a \<and> \<not> a_removed a"

record claim =
  c_agent :: string
  c_topic :: string
  c_expires_at :: time
  c_created_at :: time
  c_idea_by :: string
  c_pitch :: string
  c_chat_id :: string
  c_source_message_id :: "int option"

record leg =
  l_summary :: string
  l_kind :: string
  l_phase :: string
  l_target :: string
  l_data :: string
  l_value :: string
  l_cap :: string
  l_amount :: string
  l_symbol :: string
  l_weight_bps :: int

definition new_leg :: "string \<Rightarrow> leg" where
  "new_leg summary = \<lparr>l_summary = summary, l_kind = ''call'', l_phase = ''execute'', l_target = [],
     l_data = [], l_value = ''0'', l_cap = ''0'', l_amount = [], l_symbol = [], l_weight_bps = 0\<rparr>"

definition has_call :: "leg \<Rightarrow> bool" where
  "has_call l \<longleftrightarrow> l_target l \<noteq> [] \<and> l_data l \<noteq> []"

record review =
  rv_agent :: string
  rv_verdict :: string
  rv_note :: string
  rv_at :: time

record proposal =
  p_id :: string
  p_proposer_agent :: string
  p_thesis :: string
  p_legs :: "leg list"
  p_max_capital :: string
  p_max_drawdown_bps :: int
  p_bond_wood :: string
  p_status :: pstatus
  p_governor :: string
  p_topic :: string
  p_onchain_id :: "int option"
  p_propose_tx :: string
  p_strategy_duration :: int
  p_backers :: "string list"
  p_objectors :: "string list"
  p_reviews :: "review list"
  p_idea_by :: string
  p_card_message_id :: string
  p_voting_ends_at :: "time option"
  p_against_bps :: int
  p_review_ends_at :: "time option"
  p_guardian_coverage :: string
  p_chain_synced_at :: "time option"
  p_pitch_message_id :: "int option"
  p_quote_usd_per_wood :: string
  p_bond_buffer_status :: string
  p_bond_buffer_note :: string
  p_shipped_at :: "time option"
  p_shipped_by :: string
  p_created_at :: time
  p_updated_at :: time

definition is_open :: "proposal \<Rightarrow> bool" where
  "is_open p \<longleftrightarrow> p_status p \<in> OPEN_STATUSES"

record receipt =
  r_proposal_id :: string
  r_agent :: string
  r_asset :: string
  r_pnl :: string
  r_pnl_bps :: int
  r_tx_hash :: string
  r_onchain_id :: "int option"
  r_idea_by :: string
  r_thesis :: string
  r_settled_at :: time

record fund_state =
  st_fund :: fund
  st_members :: "member list"
  st_agents :: "agent list"
  st_claims :: "claim list"
  st_proposals :: "proposal list"
  st_receipts :: "receipt list"
  st_schema_version :: int
  st_revision :: int
  st_next_proposal_seq :: int
  st_next_member_no :: int
  st_updated_at :: time

definition new_state :: "fund \<Rightarrow> agent list \<Rightarrow> fund_state" where
  "new_state f agents = \<lparr>st_fund = f, st_members = [], st_agents = agents, st_claims = [],
     st_proposals = [], st_receipts = [], st_schema_version = SCHEMA_VERSION, st_revision = 0,
     st_next_proposal_seq = 1, st_next_member_no = 1, st_updated_at = 0\<rparr>"

section \<open>Lookups\<close>

definition agent_ix :: "fund_state \<Rightarrow> string \<Rightarrow> nat option" where
  "agent_ix st name = (let key = lower (strip name) in
     find_ix (\<lambda>a. lower (a_name a) = key) (st_agents st))"

definition agent_of :: "fund_state \<Rightarrow> string \<Rightarrow> agent option" where
  "agent_of st name = deref (st_agents st) (agent_ix st name)"

definition agent_by_address_ix :: "fund_state \<Rightarrow> string \<Rightarrow> nat option" where
  "agent_by_address_ix st address = (let key = lower (strip address) in
     if key = [] then None else find_ix (\<lambda>a. lower (a_address a) = key) (st_agents st))"

definition agent_by_address :: "fund_state \<Rightarrow> string \<Rightarrow> agent option" where
  "agent_by_address st address = deref (st_agents st) (agent_by_address_ix st address)"

definition host_agent :: "fund_state \<Rightarrow> agent option" where
  "host_agent st = find (\<lambda>a. a_role a = ''host'' \<and> \<not> a_removed a) (st_agents st)"

definition member_ix :: "fund_state \<Rightarrow> string \<Rightarrow> nat option" where
  "member_ix st who = (let key = lower (strip who) in
     if key = [] then None
     else find_ix (\<lambda>m. lower (m_telegram_id m) = key \<or> (m_address m \<noteq> [] \<and> lower (m_address m) = key))
            (st_members st))"

definition member_of :: "fund_state \<Rightarrow> string \<Rightarrow> member option" where
  "member_of st who = deref (st_members st) (member_ix st who)"

definition proposal_ix :: "fund_state \<Rightarrow> string \<Rightarrow> nat option" where
  "proposal_ix st proposal_id = (let key = strip proposal_id in
     case find_ix (\<lambda>p. p_id p = key) (st_proposals st) of
       Some i \<Rightarrow> Some i
     | None \<Rightarrow> (let bare = lstrip_of (CHR ''#'') key in
         if isdigit bare
         then find_ix (\<lambda>p. p_onchain_id p = Some (digits_val bare)) (st_proposals st)
         else None))"

definition proposal_of :: "fund_state \<Rightarrow> string \<Rightarrow> proposal option" where
  "proposal_of st proposal_id = deref (st_proposals st) (proposal_ix st proposal_id)"

definition open_proposals :: "fund_state \<Rightarrow> proposal list" where
  "open_proposals st = filter is_open (st_proposals st)"

section \<open>Facts about lookups\<close>

lemma agent_ix_less: "agent_ix st n = Some i \<Longrightarrow> i < length (st_agents st)"
  by (auto simp: agent_ix_def Let_def dest: find_ix_less)

lemma agent_ix_name: "agent_ix st n = Some i \<Longrightarrow> lower (a_name (st_agents st ! i)) = lower (strip n)"
  by (auto simp: agent_ix_def Let_def dest: find_ix_sat)

lemma agent_by_address_ix_less: "agent_by_address_ix st n = Some i \<Longrightarrow> i < length (st_agents st)"
  by (auto simp: agent_by_address_ix_def Let_def dest: find_ix_less split: if_splits)

lemma member_ix_less: "member_ix st n = Some i \<Longrightarrow> i < length (st_members st)"
  by (auto simp: member_ix_def Let_def dest: find_ix_less split: if_splits)

lemma proposal_ix_less: "proposal_ix st n = Some i \<Longrightarrow> i < length (st_proposals st)"
  by (auto simp: proposal_ix_def Let_def dest: find_ix_less split: if_splits option.splits)

lemma agent_of_Some: "agent_of st n = Some a \<Longrightarrow> a \<in> set (st_agents st) \<and> lower (a_name a) = lower (strip n)"
  by (auto simp: agent_of_def deref_def dest: agent_ix_less agent_ix_name)

lemma agent_of_ix: "agent_of st n = Some a \<longleftrightarrow> (\<exists>i. agent_ix st n = Some i \<and> a = st_agents st ! i)"
  by (auto simp: agent_of_def deref_def)

lemma proposal_of_ix: "proposal_of st n = Some p \<longleftrightarrow> (\<exists>i. proposal_ix st n = Some i \<and> p = st_proposals st ! i)"
  by (auto simp: proposal_of_def deref_def)

lemma proposal_of_mem: "proposal_of st n = Some p \<Longrightarrow> p \<in> set (st_proposals st)"
  by (auto simp: proposal_of_ix dest: proposal_ix_less)

lemma member_of_mem: "member_of st n = Some m \<Longrightarrow> m \<in> set (st_members st)"
  by (auto simp: member_of_def deref_def dest: member_ix_less)

lemma agent_by_address_mem: "agent_by_address st n = Some a \<Longrightarrow> a \<in> set (st_agents st)"
  by (auto simp: agent_by_address_def deref_def dest: agent_by_address_ix_less)

text \<open>The local id wins over the on-chain id.\<close>

lemma proposal_ix_local:
  "find_ix (\<lambda>p. p_id p = strip pid) (st_proposals st) = Some i \<Longrightarrow> proposal_ix st pid = Some i"
  by (simp add: proposal_ix_def Let_def)

end
