(* ===== verification/Rules.thy ===== *)
theory Rules
  imports Models
begin

text \<open>
  \<open>fund/rules.py\<close>: the coordination rules, as pure functions that return a verdict. A denial
  keeps its code; the prose reason is not modelled. The keyword defaults of the checks
  (\<open>max_open\<close>, \<open>max_open_per_agent\<close>) are the constants, since no caller passes others. Every
  check is in the order of the code, so the code of the first failing rule is the model's too.
\<close>

section \<open>Addresses and topics\<close>

definition BPS :: int where "BPS = 10000"

definition is_address :: "string \<Rightarrow> bool" where
  "is_address value = address_re value"

definition topic_char :: "char \<Rightarrow> bool" where
  "topic_char c \<longleftrightarrow> is_lower_char c \<or> is_digit c \<or> c \<in> set ''$#./+- ''"

definition normalize_topic :: "string \<Rightarrow> string" where
  "normalize_topic topic =
     (let text = sub_runs (\<lambda>c. \<not> topic_char c) '' '' (lower topic)
      in take 80 (strip (sub_runs is_space '' '' text)))"

section \<open>Claims\<close>

definition claim_expires_at :: "time \<Rightarrow> time" where
  "claim_expires_at now = now + of_int CLAIM_TTL_SECONDS"

definition claim_live :: "time \<Rightarrow> claim \<Rightarrow> bool" where
  "claim_live now c \<longleftrightarrow> c_expires_at c > now"

definition active_claims :: "fund_state \<Rightarrow> time \<Rightarrow> claim list" where
  "active_claims st now = filter (claim_live now) (st_claims st)"

definition claim_of :: "fund_state \<Rightarrow> string \<Rightarrow> time \<Rightarrow> claim option" where
  "claim_of st agent now = find (\<lambda>c. lower (c_agent c) = lower agent) (active_claims st now)"

definition claim_for_topic :: "fund_state \<Rightarrow> string \<Rightarrow> time \<Rightarrow> claim option" where
  "claim_for_topic st topic now =
     (let key = normalize_topic topic in
      find (\<lambda>c. normalize_topic (c_topic c) = key) (active_claims st now))"

definition open_proposals_of :: "fund_state \<Rightarrow> string \<Rightarrow> proposal list" where
  "open_proposals_of st agent =
     filter (\<lambda>p. p_status p \<in> OPEN_STATUSES \<and> lower (p_proposer_agent p) = lower agent) (st_proposals st)"

section \<open>Who may act\<close>

definition check_agent_can_act :: "fund_state \<Rightarrow> string \<Rightarrow> bool \<Rightarrow> verdict" where
  "check_agent_can_act st agent_name need_registered =
     (case agent_of st agent_name of
        None \<Rightarrow> Deny Unknown_agent
      | Some a \<Rightarrow>
          if a_removed a then Deny Agent_removed
          else if need_registered \<and> \<not> a_registered a then Deny Agent_not_registered
          else Allow)"

definition check_host_action :: "fund_state \<Rightarrow> string \<Rightarrow> verdict" where
  "check_host_action st actor =
     (case agent_of st actor of
        None \<Rightarrow> Deny Not_host
      | Some a \<Rightarrow> if a_removed a \<or> a_role a \<noteq> ''host'' then Deny Not_host else Allow)"

definition check_caller_is_host :: "fund_state \<Rightarrow> string option \<Rightarrow> verdict" where
  "check_caller_is_host st caller_telegram_id =
     (case caller_telegram_id of
        None \<Rightarrow> Allow
      | Some c \<Rightarrow>
          if f_host_telegram_id (st_fund st) = [] then Deny Host_unset
          else if c \<noteq> f_host_telegram_id (st_fund st) then Deny Not_host
          else Allow)"

section \<open>Fund-level gates\<close>

definition check_cooldown :: "fund_state \<Rightarrow> time \<Rightarrow> verdict" where
  "check_cooldown st now =
     (case f_cooldown_until (st_fund st) of
        None \<Rightarrow> Allow
      | Some until \<Rightarrow> if now < until then Deny Cooldown else Allow)"

definition check_proposable_asset :: "fund_state \<Rightarrow> verdict" where
  "check_proposable_asset st =
     (if upper (f_asset (st_fund st)) \<notin> set PROPOSABLE_ASSETS then Deny Asset_not_usd_pegged else Allow)"

definition check_agent_fee :: "int option \<Rightarrow> verdict" where
  "check_agent_fee fee_bps =
     (case fee_bps of
        None \<Rightarrow> Allow
      | Some f \<Rightarrow>
          if f < 0 then Deny Bad_agent_fee
          else if f > MAX_AGENT_FEE_BPS then Deny Agent_fee_too_high
          else Allow)"

definition check_fee_recorded :: "fund_state \<Rightarrow> verdict" where
  "check_fee_recorded st =
     (if f_agent_fee_bps (st_fund st) = None then Deny Agent_fee_unknown
      else check_agent_fee (f_agent_fee_bps (st_fund st)))"

definition fund_gates :: "fund_state \<Rightarrow> string \<Rightarrow> time \<Rightarrow> verdict" where
  "fund_gates st agent now = first_failure
     [check_agent_can_act st agent True, check_proposable_asset st, check_fee_recorded st,
      check_cooldown st now]"

section \<open>Claiming a topic\<close>

definition check_claim :: "fund_state \<Rightarrow> string \<Rightarrow> string \<Rightarrow> time \<Rightarrow> verdict" where
  "check_claim st agent topic now =
     (case fund_gates st agent now of Deny c \<Rightarrow> Deny c | Allow \<Rightarrow>
      let key = normalize_topic topic in
      if key = [] then Deny Bad_topic
      else if length (open_proposals_of st agent) \<ge> MAX_OPEN_PER_AGENT then Deny Agent_has_open_proposal
      else
        let holder = claim_for_topic st key now; mine = claim_of st agent now in
        if (case holder of None \<Rightarrow> False | Some h \<Rightarrow> lower (c_agent h) \<noteq> lower agent) then Deny Topic_claimed
        else (case mine of
            Some m \<Rightarrow> if normalize_topic (c_topic m) \<noteq> key then Deny Agent_has_claim else Allow
          | None \<Rightarrow>
              let others = filter (\<lambda>c. lower (c_agent c) \<noteq> lower agent) (active_claims st now);
                  used = length (open_proposals st) + length others
              in if used \<ge> MAX_OPEN_PER_FUND then Deny Fund_full else Allow))"

section \<open>Legs, the envelope and the draft\<close>

definition approve_amount_from_calldata :: "string \<Rightarrow> int result" where
  "approve_amount_from_calldata data =
     (let raw = lower data in
      if \<not> startswith ''0x095ea7b3'' raw \<or> length raw < 10 + 128 then Inr 0
      else (case py_int16 (take 64 (drop (10 + 64) raw)) of
              None \<Rightarrow> Inl Value_error | Some n \<Rightarrow> Inr n))"

text \<open>One turn of the loop over the legs: a refusal, or the leg's cap.\<close>

definition leg_check :: "leg \<Rightarrow> (rule_code + int) result" where
  "leg_check l =
     (if l_phase l \<notin> {''execute'', ''settle''} then Inr (Inl Bad_leg)
      else if l_kind l = ''approve'' \<and> l_amount l \<noteq> [] \<and> is_unlimited (l_amount l)
        then Inr (Inl Unlimited_approve)
      else
        let called = (l_target l \<noteq> [] \<or> l_data l \<noteq> []) in
        if called \<and> \<not> is_address (l_target l) then Inr (Inl Bad_leg)
        else if called \<and> \<not> hex_re (l_data l) then Inr (Inl Bad_leg)
        else and_then (if called then approve_amount_from_calldata (l_data l) else Inr 0)
          (\<lambda>approved.
            if is_unlimited_int approved then Inr (Inl Unlimited_approve)
            else (case py_int (or_else (l_cap l) ''0'') of
                None \<Rightarrow> Inr (Inl Bad_leg)
              | Some cap \<Rightarrow> if cap < 0 then Inr (Inl Bad_leg) else Inr (Inr cap))))"

fun legs_loop :: "leg list \<Rightarrow> int \<Rightarrow> int \<Rightarrow> (rule_code + int \<times> int) result" where
  "legs_loop [] execute_caps settle_caps = Inr (Inr (execute_caps, settle_caps))"
| "legs_loop (l # legs) execute_caps settle_caps =
     and_then (leg_check l) (\<lambda>r. case r of
         Inl c \<Rightarrow> Inr (Inl c)
       | Inr cap \<Rightarrow>
           if l_phase l = ''execute'' then legs_loop legs (execute_caps + cap) settle_caps
           else legs_loop legs execute_caps (settle_caps + cap))"

definition check_legs :: "leg list \<Rightarrow> int \<Rightarrow> verdict result" where
  "check_legs legs max_capital =
     (if legs = [] then Inr (Deny No_legs)
      else and_then (legs_loop legs 0 0) (\<lambda>r. case r of
          Inl c \<Rightarrow> Inr (Deny c)
        | Inr (execute_caps, settle_caps) \<Rightarrow>
            if execute_caps > max_capital then Inr (Deny Caps_exceed_capital)
            else if settle_caps > max_capital then Inr (Deny Caps_exceed_capital)
            else Inr Allow))"

definition drawdown_gate :: "fund \<Rightarrow> int \<Rightarrow> verdict" where
  "drawdown_gate f max_drawdown_bps =
     (if \<not> (0 \<le> max_drawdown_bps \<and> max_drawdown_bps \<le> BPS) then Deny Bad_drawdown
      else (case f_max_drawdown_bps f of
          None \<Rightarrow> Allow
        | Some m \<Rightarrow> if max_drawdown_bps > m then Deny Exceeds_max_drawdown else Allow))"

definition check_envelope :: "fund_state \<Rightarrow> int \<Rightarrow> int \<Rightarrow> verdict result" where
  "check_envelope st max_capital max_drawdown_bps =
     (let f = st_fund st in
      if max_capital \<le> 0 then Inr (Deny Bad_capital)
      else (case f_max_capital f of
          None \<Rightarrow> Inr (drawdown_gate f max_drawdown_bps)
        | Some text \<Rightarrow> (case py_int text of
              None \<Rightarrow> Inl Value_error
            | Some limit \<Rightarrow>
                if max_capital > limit then Inr (Deny Exceeds_max_capital)
                else Inr (drawdown_gate f max_drawdown_bps))))"

definition check_draft ::
  "fund_state \<Rightarrow> string \<Rightarrow> string \<Rightarrow> int \<Rightarrow> int \<Rightarrow> leg list \<Rightarrow> time \<Rightarrow> verdict result" where
  "check_draft st agent topic max_capital max_drawdown_bps legs now =
     (case fund_gates st agent now of Deny c \<Rightarrow> Inr (Deny c) | Allow \<Rightarrow>
      if length (open_proposals_of st agent) \<ge> MAX_OPEN_PER_AGENT then Inr (Deny Agent_has_open_proposal)
      else if length (open_proposals st) \<ge> MAX_OPEN_PER_FUND then Inr (Deny Fund_full)
      else (case claim_of st agent now of
          None \<Rightarrow> Inr (Deny No_claim)
        | Some c \<Rightarrow>
            if normalize_topic (c_topic c) \<noteq> normalize_topic topic then Inr (Deny Claim_mismatch)
            else and_then (check_envelope st max_capital max_drawdown_bps) (\<lambda>v1.
                 and_then (check_legs legs max_capital) (\<lambda>v2. Inr (first_failure [v1, v2])))))"

section \<open>Votes and reviews\<close>

definition VOTABLE_STATUSES :: "pstatus set" where "VOTABLE_STATUSES = {Proposed, Voting}"
definition REVIEWABLE_STATUSES :: "pstatus set" where "REVIEWABLE_STATUSES = {Draft, Proposed, Voting}"

definition check_review :: "fund_state \<Rightarrow> string \<Rightarrow> proposal option \<Rightarrow> verdict" where
  "check_review st agent pr =
     (case check_agent_can_act st agent True of Deny c \<Rightarrow> Deny c | Allow \<Rightarrow>
      (case pr of
         None \<Rightarrow> Deny Unknown_proposal
       | Some p \<Rightarrow>
           if lower (p_proposer_agent p) = lower agent then Deny Own_proposal
           else if p_status p \<notin> REVIEWABLE_STATUSES then Deny Not_reviewable
           else Allow))"

definition check_member_vote :: "member option \<Rightarrow> proposal option \<Rightarrow> time \<Rightarrow> verdict" where
  "check_member_vote mem pr now =
     (if (case mem of None \<Rightarrow> True | Some m \<Rightarrow> \<not> m_approved m) then Deny Not_member
      else (case pr of
          None \<Rightarrow> Deny Unknown_proposal
        | Some p \<Rightarrow>
            if p_status p \<notin> VOTABLE_STATUSES then Deny Voting_closed
            else (case p_voting_ends_at p of
                None \<Rightarrow> Allow
              | Some t \<Rightarrow> if now \<ge> t then Deny Voting_closed else Allow)))"

definition veto_threshold_shares :: "int \<Rightarrow> int \<Rightarrow> int" where
  "veto_threshold_shares total_supply threshold_bps = - ((- total_supply * threshold_bps) div BPS)"

definition is_vetoed :: "int \<Rightarrow> int \<Rightarrow> int \<Rightarrow> bool" where
  "is_vetoed against_shares total_supply threshold_bps =
     (if total_supply \<le> 0 then False
      else against_shares * BPS \<ge> total_supply * threshold_bps)"

section \<open>The life cycle\<close>

fun TRANSITIONS :: "pstatus \<Rightarrow> pstatus set" where
  "TRANSITIONS Draft = {Proposed, Cancelled}"
| "TRANSITIONS Proposed = {Voting, Passed, Review, Vetoed, Cancelled}"
| "TRANSITIONS Voting = {Passed, Review, Vetoed, Cancelled}"
| "TRANSITIONS Passed = {Review, Approved, Executed, Cancelled}"
| "TRANSITIONS Review = {Approved, Vetoed, Cancelled}"
| "TRANSITIONS Approved = {Executed, Cancelled}"
| "TRANSITIONS Executed = {Settled}"
| "TRANSITIONS _ = {}"

definition check_transition :: "pstatus \<Rightarrow> pstatus \<Rightarrow> verdict" where
  "check_transition old new = (if new \<notin> TRANSITIONS old then Deny Bad_transition else Allow)"

section \<open>Host actions\<close>

definition check_approve_agent :: "fund_state \<Rightarrow> string \<Rightarrow> agent option \<Rightarrow> verdict" where
  "check_approve_agent st actor target =
     (case check_host_action st actor of Deny c \<Rightarrow> Deny c | Allow \<Rightarrow>
      (case target of
         None \<Rightarrow> Deny Unknown_agent
       | Some t \<Rightarrow>
           if a_removed t then Deny Agent_removed
           else if a_identity_id t = [] \<or> \<not> is_address (a_address t) then Deny Missing_identity
           else Allow))"

definition check_remove_agent :: "fund_state \<Rightarrow> string \<Rightarrow> agent option \<Rightarrow> verdict" where
  "check_remove_agent st actor target =
     (case check_host_action st actor of Deny c \<Rightarrow> Deny c | Allow \<Rightarrow>
      (case target of
         None \<Rightarrow> Deny Unknown_agent
       | Some t \<Rightarrow>
           if a_removed t then Deny Agent_removed
           else if a_role t = ''host'' then Deny Cannot_remove_host
           else Allow))"

definition check_approve_member :: "fund_state \<Rightarrow> string \<Rightarrow> member option \<Rightarrow> verdict" where
  "check_approve_member st actor mem =
     (case check_host_action st actor of Deny c \<Rightarrow> Deny c | Allow \<Rightarrow>
      (case mem of
         None \<Rightarrow> Deny Unknown_member
       | Some m \<Rightarrow>
           if m_approved m then Deny Already_approved
           else if \<not> is_address (m_address m) then Deny Missing_address
           else Allow))"

section \<open>The bond\<close>

record bond_plan =
  bp_quote :: int
  bp_approve_amount :: int
  bp_wood_balance :: int
  bp_gap :: int

definition swap_first :: "bond_plan \<Rightarrow> bool" where
  "swap_first p \<longleftrightarrow> bp_gap p > 0"

definition required_bond_value :: "int \<Rightarrow> bond_policy \<Rightarrow> int" where
  "required_bond_value max_capital policy = - ((- max_capital * b_bond_bps policy) div BPS)"

definition approve_amount_for :: "int \<Rightarrow> bond_policy \<Rightarrow> int" where
  "approve_amount_for quote policy = - ((- quote * (BPS + b_approve_buffer_bps policy)) div BPS)"

definition plan_bond :: "int \<Rightarrow> int \<Rightarrow> bond_policy \<Rightarrow> bond_plan" where
  "plan_bond quote wood_balance policy =
     (let approve = approve_amount_for quote policy in
      \<lparr>bp_quote = quote, bp_approve_amount = approve, bp_wood_balance = wood_balance,
       bp_gap = max 0 (approve - wood_balance)\<rparr>)"

definition needs_requote :: "int \<Rightarrow> int \<Rightarrow> bond_policy \<Rightarrow> bool" where
  "needs_requote quoted_price current_price policy =
     (if quoted_price \<le> 0 then True
      else \<bar>current_price - quoted_price\<bar> * BPS > quoted_price * b_requote_drift_bps policy)"

definition bond_approve_range :: "int \<Rightarrow> int \<Rightarrow> bond_policy \<Rightarrow> verdict" where
  "bond_approve_range value quote policy =
     (if value < quote then Deny Approve_too_small
      else if value > approve_amount_for quote policy then Deny Approve_too_wide
      else Allow)"

definition check_bond_approve :: "int + string \<Rightarrow> int \<Rightarrow> bond_policy \<Rightarrow> verdict result" where
  "check_bond_approve amount quote policy =
     (case amount of
        Inl value \<Rightarrow>
          if is_unlimited_int value then Inr (Deny Unlimited_approve)
          else Inr (bond_approve_range value quote policy)
      | Inr text \<Rightarrow>
          if is_unlimited text then Inr (Deny Unlimited_approve)
          else (case py_int text of
              None \<Rightarrow> Inl Value_error
            | Some value \<Rightarrow> Inr (bond_approve_range value quote policy)))"

end
