(* ===== verification/RulesFacts.thy ===== *)
theory RulesFacts
  imports Rules
begin

text \<open>
  What the rules of \<open>Rules\<close> promise: the arithmetic of thresholds and bonds, the life cycle's
  order, what an accepted draft and an accepted list of legs guarantee, and when a claim is
  exclusive. The components that call the rules use these facts and not the definitions.
\<close>

section \<open>Ceilings\<close>

lemma le_div_iff_int:
  fixes a b k :: int
  assumes "b > 0"
  shows "k \<le> a div b \<longleftrightarrow> k * b \<le> a"
proof
  assume "k \<le> a div b"
  then have "k * b \<le> a div b * b" using assms by simp
  also have "\<dots> \<le> a" using assms pos_mod_sign [of b a] div_mult_mod_eq [of a b] by linarith
  finally show "k * b \<le> a" .
next
  assume "k * b \<le> a"
  then have "(k * b) div b \<le> a div b" using assms by (rule zdiv_mono1)
  then show "k \<le> a div b" using assms by simp
qed

text \<open>\<open>-(-a // b)\<close> is the least integer whose product with \<open>b\<close> reaches \<open>a\<close>.\<close>

lemma neg_div_le_iff:
  fixes a b x :: int
  assumes "b > 0"
  shows "- ((- a) div b) \<le> x \<longleftrightarrow> a \<le> x * b"
  using le_div_iff_int [OF assms, of "- x" "- a"] by auto

section \<open>The veto and the bond\<close>

lemma veto_threshold_le_iff:
  "veto_threshold_shares supply bps \<le> x \<longleftrightarrow> supply * bps \<le> x * BPS"
  using neg_div_le_iff [of BPS "supply * bps" x] by (simp add: veto_threshold_shares_def BPS_def)

lemma is_vetoed_iff_threshold:
  "0 < supply \<Longrightarrow> is_vetoed against supply bps \<longleftrightarrow> veto_threshold_shares supply bps \<le> against"
  by (simp add: is_vetoed_def veto_threshold_le_iff)

lemma is_vetoed_mono: "is_vetoed a supply bps \<Longrightarrow> a \<le> b \<Longrightarrow> is_vetoed b supply bps"
  by (auto simp: is_vetoed_def BPS_def)

lemma approve_amount_le_iff:
  "approve_amount_for quote policy \<le> x \<longleftrightarrow> quote * (BPS + b_approve_buffer_bps policy) \<le> x * BPS"
  using neg_div_le_iff [of BPS "quote * (BPS + b_approve_buffer_bps policy)" x]
  by (simp add: approve_amount_for_def BPS_def)

lemma required_bond_le_iff:
  "required_bond_value capital policy \<le> x \<longleftrightarrow> capital * b_bond_bps policy \<le> x * BPS"
  using neg_div_le_iff [of BPS "capital * b_bond_bps policy" x]
  by (simp add: required_bond_value_def BPS_def)

lemma approve_amount_ge_quote:
  assumes "0 \<le> quote" and "0 \<le> b_approve_buffer_bps policy"
  shows "quote \<le> approve_amount_for quote policy"
proof (rule ccontr)
  assume "\<not> ?thesis"
  then have "approve_amount_for quote policy \<le> quote - 1" by simp
  then have "quote * (BPS + b_approve_buffer_bps policy) \<le> (quote - 1) * BPS"
    by (simp only: approve_amount_le_iff)
  moreover have "0 \<le> quote * b_approve_buffer_bps policy" using assms by simp
  ultimately show False by (simp add: algebra_simps BPS_def)
qed

text \<open>After buying the gap the balance covers the approval, and no more than needed is bought.\<close>

lemma plan_bond_covers:
  "bp_approve_amount (plan_bond quote balance policy)
     \<le> balance + bp_gap (plan_bond quote balance policy)"
  "bp_gap (plan_bond quote balance policy) > 0 \<Longrightarrow>
     balance + bp_gap (plan_bond quote balance policy) = bp_approve_amount (plan_bond quote balance policy)"
  by (auto simp: plan_bond_def Let_def max_def split: if_splits)

lemma bond_approve_range_Allow:
  "bond_approve_range v quote policy = Allow \<longleftrightarrow>
     quote \<le> v \<and> (v - 1) * BPS < quote * (BPS + b_approve_buffer_bps policy)"
proof -
  have "v > approve_amount_for quote policy \<longleftrightarrow> approve_amount_for quote policy \<le> v - 1" by auto
  also have "\<dots> \<longleftrightarrow> quote * (BPS + b_approve_buffer_bps policy) \<le> (v - 1) * BPS"
    by (rule approve_amount_le_iff)
  finally show ?thesis by (auto simp: bond_approve_range_def)
qed

section \<open>The life cycle\<close>

lemma check_transition_Allow: "check_transition old new = Allow \<longleftrightarrow> new \<in> TRANSITIONS old"
  by (simp add: check_transition_def)

lemma transition_less: "new \<in> TRANSITIONS old \<Longrightarrow> old < new"
  by (cases old) (auto simp: less_pstatus_def)

lemma transition_from_open: "new \<in> TRANSITIONS old \<Longrightarrow> old \<in> OPEN_STATUSES"
  by (cases old) (auto simp: OPEN_STATUSES_def)

lemma terminal_no_transition: "old \<in> TERMINAL_STATUSES \<Longrightarrow> TRANSITIONS old = {}"
  by (auto simp: TERMINAL_STATUSES_def)

text \<open>A path through the life cycle.\<close>

fun legal_path :: "pstatus list \<Rightarrow> bool" where
  "legal_path [] = True"
| "legal_path [s] = True"
| "legal_path (s # t # ss) = (check_transition s t = Allow \<and> legal_path (t # ss))"

lemma legal_path_sorted: "legal_path ss \<Longrightarrow> sorted_wrt (<) ss"
proof (induction ss rule: legal_path.induct)
  case (3 s t ss)
  then have lt: "s < t" by (simp add: check_transition_Allow transition_less)
  from 3 have srt: "sorted_wrt (<) (t # ss)" by simp
  then have "\<forall>u \<in> set ss. t < u" by simp
  with lt srt show ?case by auto
qed simp_all

lemma legal_path_distinct: "legal_path ss \<Longrightarrow> distinct ss"
  using legal_path_sorted strict_sorted_iff by blast

lemma legal_path_length:
  assumes "legal_path ss"
  shows "length ss \<le> 8"
proof -
  have d: "distinct ss" by (rule legal_path_distinct [OF assms])
  have final: "ss \<noteq> [] \<Longrightarrow> set (butlast ss) \<subseteq> OPEN_STATUSES"
    using assms
  proof (induction ss rule: legal_path.induct)
    case (3 s t ss)
    then show ?case by (auto simp: check_transition_Allow dest: transition_from_open)
  qed simp_all
  show ?thesis
  proof (cases "ss = []")
    case False
    have "card (set (butlast ss)) \<le> card OPEN_STATUSES"
      using final [OF False] by (intro card_mono) (auto simp: OPEN_STATUSES_def)
    moreover have "card (set (butlast ss)) = length (butlast ss)"
      using d by (intro distinct_card distinct_butlast)
    ultimately show ?thesis by (simp add: OPEN_STATUSES_def)
  qed simp
qed

section \<open>Calldata\<close>

lemma is_hex_lower_char [simp]: "is_hex (lower_char c) = is_hex c"
  by (auto simp: is_hex_def is_digit_def in_range_def code_of_lower_char is_upper_char_def)

lemma list_all_hex_lower [simp]: "list_all is_hex (lower s) = list_all is_hex s"
  by (simp add: lower_def list_all_iff)

lemma hex_not_special:
  assumes "is_hex c"
  shows "\<not> is_space c" "c \<noteq> CHR ''_''" "c \<noteq> CHR ''-''" "c \<noteq> CHR ''+''" "c \<noteq> CHR ''x''"
  using assms by (auto simp: is_hex_def is_digit_def in_range_def is_space_def)

lemma us_seq_hex: "list_all is_hex s \<Longrightarrow> s \<noteq> [] \<Longrightarrow> us_seq is_hex s"
  by (induction is_hex s rule: us_seq.induct) (auto simp: hex_not_special)

lemma hex_digit_val_nonneg: "is_hex c \<Longrightarrow> 0 \<le> hex_digit_val c \<and> hex_digit_val c < 16"
  by (auto simp: hex_digit_val_def is_hex_def is_digit_def in_range_def)

lemma hex_val_snoc: "hex_val (s @ [c]) = hex_val s * 16 + hex_digit_val c"
  by (simp add: hex_val_def)

lemma hex_val_nonneg: "list_all is_hex s \<Longrightarrow> 0 \<le> hex_val s"
proof (induction s rule: rev_induct)
  case Nil
  then show ?case by (simp add: hex_val_def)
next
  case (snoc c s)
  then show ?case using hex_digit_val_nonneg [of c] by (simp add: hex_val_snoc)
qed

text \<open>\<open>int(text, 16)\<close> of plain hex digits.\<close>

lemma py_int16_hex:
  assumes "list_all is_hex s" "s \<noteq> []"
  shows "py_int16 s = Some (hex_val s)"
proof -
  have "strip s = s" using assms(1) by (intro strip_no_space) (auto simp: list_all_iff hex_not_special)
  moreover have "split_sign s = (False, s)"
    using assms by (cases s) (auto simp: split_sign_def hex_not_special)
  moreover have "\<not> startswith ''0x'' (lower s)"
  proof
    assume a: "startswith ''0x'' (lower s)"
    then have "CHR ''x'' \<in> set (lower s)"
      by (metis in_set_takeD list.set_intros(1) list.set_intros(2) startswith_def)
    then show False using assms(1) hex_not_special(5) by (metis list_all_hex_lower list_all_iff)
  qed
  moreover have "no_us s = s"
    using assms(1) by (auto simp: no_us_def list_all_iff hex_not_special intro!: filter_True)
  ultimately show ?thesis using us_seq_hex [OF assms] by (simp add: py_int16_def drop_0x_def)
qed

lemma py_int16_strip: "py_int16 (strip s) = py_int16 s"
  by (simp add: py_int16_def)

lemma strip_newline: "list_all is_hex s \<Longrightarrow> strip (s @ [CHR 0x0A]) = s"
proof -
  assume h: "list_all is_hex s"
  then have st: "strip s = s" by (intro strip_no_space) (auto simp: list_all_iff hex_not_special)
  have nl: "is_space (CHR 0x0A)" by (simp add: is_space_def in_range_def)
  show ?thesis
  proof (cases s)
    case Nil
    then show ?thesis using nl by (simp add: strip_def lstrip_def rstrip_def)
  next
    case (Cons c r)
    then have "\<not> is_space c" using h by (simp add: hex_not_special)
    then have "lstrip (s @ [CHR 0x0A]) = s @ [CHR 0x0A]" "lstrip s = s" using Cons by (auto simp: lstrip_def)
    then show ?thesis using nl st by (simp add: strip_def rstrip_def)
  qed
qed

text \<open>On calldata that passes \<open>_HEX_RE\<close>, reading the approved amount never raises.\<close>

lemma approve_amount_total:
  assumes "hex_re data"
  obtains n where "approve_amount_from_calldata data = Inr n" "0 \<le> n"
proof (cases "startswith ''0x095ea7b3'' (lower data) \<and> 138 \<le> length data")
  case False
  then show ?thesis by (intro that [of 0]) (auto simp: approve_amount_from_calldata_def)
next
  case True
  let ?sl = "take 64 (drop 74 (lower data))"
  have amt: "approve_amount_from_calldata data =
      (case py_int16 ?sl of None \<Rightarrow> Inl Value_error | Some n \<Rightarrow> Inr n)"
    using True by (simp add: approve_amount_from_calldata_def)
  have sub: "list_all is_hex (take k (drop 74 (lower d)))" if "list_all is_hex (drop 2 d)" for k d
  proof -
    have "drop 74 (lower d) = drop 72 (lower (drop 2 d))" by (simp add: lower_def drop_map)
    moreover have "list_all is_hex (take k (drop 72 xs))" if "list_all is_hex xs" for xs
      using that by (auto simp: list_all_iff dest!: in_set_takeD in_set_dropD)
    ultimately show ?thesis using that by simp
  qed
  from assms consider (full) "list_all is_hex (drop 2 data)"
    | (nl) "data \<noteq> []" "last data = CHR 0x0A" "list_all is_hex (drop 2 (butlast data))"
    by (auto simp: hex_re_def dollar_match_def is_hex_text_def)
  then show ?thesis
  proof cases
    case full
    have h: "list_all is_hex ?sl" by (rule sub [OF full])
    moreover have "?sl \<noteq> []" using True by simp
    ultimately show ?thesis using amt py_int16_hex hex_val_nonneg by (intro that) auto
  next
    case nl
    define d where "d = butlast data"
    have data: "data = d @ [CHR 0x0A]" using nl by (metis append_butlast_last_id d_def)
    have hd: "list_all is_hex (drop 2 d)" using nl by (simp add: d_def)
    have nlc: "lower_char (CHR 0x0A) = CHR 0x0A" by (simp add: lower_char_def is_upper_char_def in_range_def)
    have len: "137 \<le> length d" using True data by simp
    show ?thesis
    proof (cases "138 \<le> length d")
      case True
      then have "?sl = take 64 (drop 74 (lower d))" by (simp add: data lower_def)
      moreover have "list_all is_hex (take 64 (drop 74 (lower d)))" by (rule sub [OF hd])
      moreover have "take 64 (drop 74 (lower d)) \<noteq> []" using True by simp
      ultimately show ?thesis using amt py_int16_hex hex_val_nonneg by (intro that) auto
    next
      case False
      with len have l: "length d = 137" by simp
      let ?h = "take 64 (drop 74 (lower d))"
      have h: "list_all is_hex ?h" by (rule sub [OF hd])
      have hne: "?h \<noteq> []" using l by simp
      have "?sl = ?h @ [CHR 0x0A]" using l nlc by (simp add: data lower_def)
      then have "py_int16 ?sl = py_int16 ?h" using strip_newline [OF h] py_int16_strip by metis
      then show ?thesis using amt py_int16_hex [OF h hne] hex_val_nonneg [OF h] by (intro that) auto
    qed
  qed
qed

text \<open>The ABI encoding of \<open>approve(spender, amount)\<close>: the selector and two 32-byte words.\<close>

definition hex_char :: "int \<Rightarrow> char" where
  "hex_char n = (if n < 10 then char_of (48 + n) else char_of (87 + n))"

fun hex_word :: "nat \<Rightarrow> int \<Rightarrow> string" where
  "hex_word 0 n = []"
| "hex_word (Suc k) n = hex_word k (n div 16) @ [hex_char (n mod 16)]"

definition abi_approve :: "int \<Rightarrow> int \<Rightarrow> string" where
  "abi_approve spender amount = ''0x095ea7b3'' @ hex_word 64 spender @ hex_word 64 amount"

lemma hex_char_facts:
  assumes "0 \<le> n" "n < 16"
  shows "is_hex (hex_char n)" "hex_digit_val (hex_char n) = n" "lower_char (hex_char n) = hex_char n"
proof -
  have c: "code_of (hex_char n) = (if n < 10 then 48 + n else 87 + n)"
    using assms by (simp add: hex_char_def code_of_char_of)
  show "is_hex (hex_char n)" "hex_digit_val (hex_char n) = n"
    using assms by (auto simp: is_hex_def is_digit_def in_range_def c hex_digit_val_def)
  show "lower_char (hex_char n) = hex_char n"
    using assms by (auto simp: lower_char_def is_upper_char_def in_range_def c)
qed

lemma length_hex_word [simp]: "length (hex_word k n) = k"
  by (induction k arbitrary: n) simp_all

lemma hex_word_facts:
  "list_all is_hex (hex_word k n)" "lower (hex_word k n) = hex_word k n"
  "hex_val (hex_word k n) = n mod 16 ^ k"
proof (induction k arbitrary: n)
  case 0
  { case 1 show ?case by simp
  next case 2 show ?case by simp
  next case 3 show ?case by (simp add: hex_val_def) }
next
  case (Suc k)
  have m: "0 \<le> n mod 16" "n mod 16 < 16" for n :: int by simp_all
  { case 1 show ?case using Suc by (simp add: hex_char_facts [OF m])
  next case 2 show ?case using Suc hex_char_facts(3) [OF m] by (simp add: lower_append) (simp add: lower_def)
  next case 3
    have "hex_val (hex_word (Suc k) n) = n div 16 mod 16 ^ k * 16 + n mod 16"
      using Suc by (simp add: hex_val_snoc hex_char_facts [OF m])
    also have "\<dots> = n mod (16 * 16 ^ k)"
      by (simp add: zmod_zmult2_eq mult.commute)
    finally show ?case by simp }
qed

lemma abi_approve_amount:
  assumes "0 \<le> amount" "amount < 2 ^ 256"
  shows "approve_amount_from_calldata (abi_approve spender amount) = Inr amount"
proof -
  have low: "lower (abi_approve spender amount) = abi_approve spender amount"
  proof -
    have "lower ''0x095ea7b3'' = ''0x095ea7b3''" by code_simp
    then show ?thesis by (simp only: abi_approve_def lower_append hex_word_facts)
  qed
  have "take 64 (drop (10 + 64) (abi_approve spender amount)) = hex_word 64 amount"
    by (simp add: abi_approve_def)
  moreover have "(2::int) ^ 256 = 16 ^ 64" by simp
  then have "hex_val (hex_word 64 amount) = amount" using assms by (simp only: hex_word_facts mod_pos_pos_trivial)
  moreover have "hex_word 64 amount \<noteq> []" by (metis length_hex_word list.size(3) zero_neq_numeral)
  then have "py_int16 (hex_word 64 amount) = Some (hex_val (hex_word 64 amount))"
    using py_int16_hex hex_word_facts(1) by blast
  moreover have "startswith ''0x095ea7b3'' (abi_approve spender amount)"
    unfolding abi_approve_def by (rule startswith_append)
  moreover have "\<not> length (abi_approve spender amount) < 10 + 128" by (simp add: abi_approve_def)
  ultimately show ?thesis by (simp only: approve_amount_from_calldata_def low Let_def) simp
qed

section \<open>Legs\<close>

definition leg_called :: "leg \<Rightarrow> bool" where
  "leg_called l \<longleftrightarrow> l_target l \<noteq> [] \<or> l_data l \<noteq> []"

definition leg_cap :: "leg \<Rightarrow> int" where
  "leg_cap l = (case py_int (or_else (l_cap l) ''0'') of None \<Rightarrow> 0 | Some c \<Rightarrow> c)"

text \<open>What it means for a leg to be acceptable.\<close>

definition leg_ok :: "leg \<Rightarrow> bool" where
  "leg_ok l \<longleftrightarrow> l_phase l \<in> {''execute'', ''settle''}
     \<and> \<not> (l_kind l = ''approve'' \<and> l_amount l \<noteq> [] \<and> is_unlimited (l_amount l))
     \<and> (leg_called l \<longrightarrow> is_address (l_target l) \<and> hex_re (l_data l)
          \<and> (\<forall>n. approve_amount_from_calldata (l_data l) = Inr n \<longrightarrow> \<not> is_unlimited_int n))
     \<and> py_int (or_else (l_cap l) ''0'') \<noteq> None \<and> 0 \<le> leg_cap l"

lemma not_unlimited_zero [simp]: "\<not> is_unlimited_int 0"
  by (simp add: is_unlimited_int_def UNLIMITED_THRESHOLD_def)

lemma leg_check_no_raise: "leg_check l \<noteq> Inl e"
proof (cases "hex_re (l_data l)")
  case True
  then obtain n where "approve_amount_from_calldata (l_data l) = Inr n"
    using approve_amount_total by blast
  then show ?thesis by (simp add: leg_check_def Let_def split: option.splits)
next
  case False
  then show ?thesis by (simp add: leg_check_def Let_def split: option.splits)
qed

lemma leg_check_cap_iff: "leg_check l = Inr (Inr cap) \<longleftrightarrow> leg_ok l \<and> cap = leg_cap l"
proof (cases "leg_called l \<and> hex_re (l_data l)")
  case True
  then obtain n where "approve_amount_from_calldata (l_data l) = Inr n"
    using approve_amount_total by blast
  with True show ?thesis
    by (auto simp: leg_check_def leg_ok_def leg_called_def leg_cap_def Let_def split: option.splits)
next
  case False
  then show ?thesis
    by (auto simp: leg_check_def leg_ok_def leg_called_def leg_cap_def Let_def split: option.splits)
qed

definition caps_of :: "string \<Rightarrow> leg list \<Rightarrow> int" where
  "caps_of phase legs = (\<Sum>l \<leftarrow> filter (\<lambda>l. l_phase l = phase) legs. leg_cap l)"

lemma caps_of_simps [simp]:
  "caps_of ph [] = 0"
  "caps_of ph (l # legs) = (if l_phase l = ph then leg_cap l else 0) + caps_of ph legs"
  by (simp_all add: caps_of_def)

lemma legs_loop_no_raise: "legs_loop legs e s \<noteq> Inl x"
  by (induction legs arbitrary: e s) (auto simp: and_then_def leg_check_no_raise split: sum.splits)

lemma legs_loop_iff:
  "legs_loop legs e s = Inr (Inr (e', s')) \<longleftrightarrow>
     (\<forall>l \<in> set legs. leg_ok l) \<and> e' = e + caps_of ''execute'' legs \<and> s' = s + caps_of ''settle'' legs"
proof (induction legs arbitrary: e s)
  case Nil
  then show ?case by auto
next
  case (Cons l legs)
  show ?case
  proof (cases "leg_ok l")
    case True
    then have "leg_check l = Inr (Inr (leg_cap l))" by (simp add: leg_check_cap_iff)
    moreover from True have "l_phase l = ''execute'' \<or> l_phase l = ''settle''" by (auto simp: leg_ok_def)
    ultimately show ?thesis using Cons True by auto
  next
    case False
    then obtain c where "leg_check l = Inr (Inl c)"
      using leg_check_no_raise leg_check_cap_iff by (metis obj_sumE)
    with False show ?thesis by simp
  qed
qed

lemma check_legs_no_raise: "check_legs legs m \<noteq> Inl e"
  using legs_loop_no_raise [of legs 0 0]
  by (auto simp: check_legs_def and_then_def split: sum.splits)

text \<open>Accepted legs: at least one, each acceptable, and neither phase moves more than the capital.\<close>

lemma check_legs_Allow_iff:
  "check_legs legs m = Inr Allow \<longleftrightarrow>
     legs \<noteq> [] \<and> (\<forall>l \<in> set legs. leg_ok l)
     \<and> caps_of ''execute'' legs \<le> m \<and> caps_of ''settle'' legs \<le> m"
proof -
  have "check_legs legs m = Inr Allow \<longleftrightarrow>
      legs \<noteq> [] \<and> (\<exists>e s. legs_loop legs 0 0 = Inr (Inr (e, s)) \<and> e \<le> m \<and> s \<le> m)"
    by (auto simp: check_legs_def and_then_def split: sum.splits if_splits)
  then show ?thesis by (auto simp: legs_loop_iff)
qed

lemma caps_of_nonneg: "(\<forall>l \<in> set legs. leg_ok l) \<Longrightarrow> 0 \<le> caps_of ph legs"
  by (induction legs) (auto simp: leg_ok_def)

lemma leg_cap_le_caps:
  "(\<forall>l \<in> set legs. leg_ok l) \<Longrightarrow> l \<in> set legs \<Longrightarrow> leg_cap l \<le> caps_of (l_phase l) legs"
proof (induction legs)
  case (Cons k legs)
  then have k: "0 \<le> leg_cap k" and nn: "0 \<le> caps_of (l_phase l) legs"
    using caps_of_nonneg by (auto simp: leg_ok_def)
  from Cons show ?case
    by (cases "l = k") (use k nn in auto)
qed simp

section \<open>Topics\<close>

lemma sub_runs_none: "list_all (\<lambda>c. \<not> P c) s \<Longrightarrow> sub_runs P r s = s"
  by (induction s) auto

lemma sub_runs_set: "c \<in> set (sub_runs P r s) \<Longrightarrow> c \<in> set r \<or> (c \<in> set s \<and> \<not> P c)"
  by (induction P r s rule: sub_runs.induct) (auto split: if_splits dest: set_dropWhileD)

fun no_double :: "string \<Rightarrow> bool" where
  "no_double [] = True"
| "no_double [c] = True"
| "no_double (c # d # cs) = (\<not> (is_space c \<and> is_space d) \<and> no_double (d # cs))"

lemma no_double_Cons: "no_double (c # s) \<longleftrightarrow> no_double s \<and> (s = [] \<or> \<not> (is_space c \<and> is_space (hd s)))"
  by (cases s) auto

lemma no_double_drop: "no_double s \<Longrightarrow> no_double (drop n s)"
  by (induction s arbitrary: n) (auto simp: no_double_Cons drop_Cons split: nat.splits)

lemma no_double_take: "no_double s \<Longrightarrow> no_double (take n s)"
proof (induction s arbitrary: n)
  case (Cons c s)
  then show ?case by (cases n; cases s) (auto simp: no_double_Cons hd_take take_Cons')
qed simp

lemma strip_infix: "\<exists>m n. strip s = take m (drop n s)"
proof -
  have "lstrip s = drop (length (takeWhile is_space s)) s" by (simp add: lstrip_def dropWhile_eq_drop)
  moreover have "\<exists>m. rstrip t = take m t" for t
  proof -
    have "t = rstrip t @ rev (takeWhile is_space (rev t))"
      unfolding rstrip_def by (metis rev_append rev_rev_ident takeWhile_dropWhile_id)
    then show ?thesis by (metis append_eq_conv_conj)
  qed
  ultimately show ?thesis by (metis strip_def)
qed

lemma no_double_sub_runs: "no_double (sub_runs is_space '' '' s)"
proof (induction is_space "'' '' :: string" s rule: sub_runs.induct)
  case 1
  then show ?case by simp
next
  case (2 c cs)
  have hd: "sub_runs is_space '' '' t \<noteq> [] \<Longrightarrow> t \<noteq> [] \<and> (\<not> is_space (hd t) \<longrightarrow> hd (sub_runs is_space '' '' t) = hd t)"
    for t by (cases t) auto
  show ?case
  proof (cases "is_space c")
    case True
    let ?t = "dropWhile is_space cs"
    have "sub_runs is_space '' '' ?t \<noteq> [] \<Longrightarrow> \<not> is_space (hd (sub_runs is_space '' '' ?t))"
      using hd [of ?t] hd_dropWhile [of is_space cs] by auto
    then show ?thesis using True 2(1) by (auto simp: no_double_Cons)
  next
    case False
    then show ?thesis using 2 by (auto simp: no_double_Cons)
  qed
qed

lemma sub_runs_single:
  "no_double s \<Longrightarrow> (\<forall>c \<in> set s. is_space c \<longrightarrow> c = CHR '' '') \<Longrightarrow> sub_runs is_space '' '' s = s"
proof (induction s)
  case (Cons c s)
  show ?case
  proof (cases "is_space c")
    case True
    then have "dropWhile is_space s = s" using Cons.prems by (cases s) auto
    with True Cons show ?thesis by (simp add: no_double_Cons)
  next
    case False
    with Cons show ?thesis by (simp add: no_double_Cons)
  qed
qed simp

lemma topic_char_space: "topic_char c \<Longrightarrow> is_space c \<Longrightarrow> c = CHR '' ''"
  by (auto simp: topic_char_def is_lower_char_def is_digit_def in_range_def is_space_def)

lemma topic_char_lower: "topic_char c \<Longrightarrow> lower_char c = c"
  by (auto simp: topic_char_def lower_char_def is_upper_char_def is_lower_char_def is_digit_def in_range_def)

lemma topic_char_blank [simp]: "topic_char CHR '' ''"
  by (simp add: topic_char_def)

lemma normalize_topic_facts:
  "\<forall>c \<in> set (normalize_topic t). topic_char c" "no_double (normalize_topic t)"
  "normalize_topic t \<noteq> [] \<Longrightarrow> \<not> is_space (hd (normalize_topic t))"
proof -
  let ?x = "sub_runs (\<lambda>c. \<not> topic_char c) '' '' (lower t)"
  let ?y = "sub_runs is_space '' '' ?x"
  have k: "normalize_topic t = take 80 (strip ?y)" by (simp add: normalize_topic_def)
  have x: "\<forall>c \<in> set ?x. topic_char c" by (auto dest: sub_runs_set)
  then have y: "\<forall>c \<in> set ?y. topic_char c" by (auto dest: sub_runs_set)
  obtain m n where st: "strip ?y = take m (drop n ?y)" using strip_infix by blast
  show "\<forall>c \<in> set (normalize_topic t). topic_char c"
    unfolding k st using y by (auto dest!: in_set_takeD in_set_dropD)
  show "no_double (normalize_topic t)"
    unfolding k st by (intro no_double_take no_double_drop no_double_sub_runs)
  show "normalize_topic t \<noteq> [] \<Longrightarrow> \<not> is_space (hd (normalize_topic t))"
    using strip_eq_iff [of "strip ?y"] by (auto simp: k hd_take)
qed

text \<open>
  Normalising twice changes nothing, unless the cut at 80 characters left a space at the end.
\<close>

definition topic_stable :: "string \<Rightarrow> bool" where
  "topic_stable t \<longleftrightarrow> normalize_topic t = [] \<or> last (normalize_topic t) \<noteq> CHR '' ''"

lemma normalize_topic_idem:
  assumes "topic_stable t"
  shows "normalize_topic (normalize_topic t) = normalize_topic t"
proof -
  let ?k = "normalize_topic t"
  note f = normalize_topic_facts [of t]
  have low: "lower ?k = ?k" using f(1) by (simp add: lower_def map_idI topic_char_lower)
  have a: "sub_runs (\<lambda>c. \<not> topic_char c) '' '' ?k = ?k"
    using f(1) by (intro sub_runs_none) (simp add: list_all_iff)
  have b: "sub_runs is_space '' '' ?k = ?k"
    using f(1,2) topic_char_space by (intro sub_runs_single) auto
  have c: "strip ?k = ?k"
  proof (cases "?k = []")
    case False
    then have "last ?k \<in> set ?k" by simp
    then have "\<not> is_space (last ?k)"
      using assms False f(1) topic_char_space by (auto simp: topic_stable_def)
    with f(3) False show ?thesis by (simp add: strip_eq_iff)
  qed (simp add: strip_eq_iff)
  have "length ?k \<le> 80" by (simp add: normalize_topic_def)
  then show ?thesis
    by (subst normalize_topic_def) (simp add: low a b c)
qed

section \<open>Claims and drafts\<close>

definition may_act :: "fund_state \<Rightarrow> string \<Rightarrow> bool" where
  "may_act st name \<longleftrightarrow> (\<exists>a. agent_of st name = Some a \<and> a_registered a \<and> \<not> a_removed a)"

lemma check_agent_can_act_Allow: "check_agent_can_act st name True = Allow \<longleftrightarrow> may_act st name"
  by (auto simp: check_agent_can_act_def may_act_def split: option.splits)

lemma check_host_action_Allow:
  "check_host_action st actor = Allow \<longleftrightarrow>
     (\<exists>a. agent_of st actor = Some a \<and> \<not> a_removed a \<and> a_role a = ''host'')"
  by (auto simp: check_host_action_def split: option.splits)

definition cooldown_over :: "fund_state \<Rightarrow> time \<Rightarrow> bool" where
  "cooldown_over st now \<longleftrightarrow> (\<forall>u. f_cooldown_until (st_fund st) = Some u \<longrightarrow> u \<le> now)"

lemma check_cooldown_Allow: "check_cooldown st now = Allow \<longleftrightarrow> cooldown_over st now"
  by (auto simp: check_cooldown_def cooldown_over_def split: option.splits)

definition fee_ok :: "fund_state \<Rightarrow> bool" where
  "fee_ok st \<longleftrightarrow> (\<exists>f. f_agent_fee_bps (st_fund st) = Some f \<and> 0 \<le> f \<and> f \<le> MAX_AGENT_FEE_BPS)"

lemma check_fee_recorded_Allow: "check_fee_recorded st = Allow \<longleftrightarrow> fee_ok st"
  by (auto simp: check_fee_recorded_def check_agent_fee_def fee_ok_def split: option.splits)

definition gates_open :: "fund_state \<Rightarrow> string \<Rightarrow> time \<Rightarrow> bool" where
  "gates_open st agent now \<longleftrightarrow> may_act st agent \<and> upper (f_asset (st_fund st)) = ''USDG''
     \<and> fee_ok st \<and> cooldown_over st now"

lemma fund_gates_Allow: "fund_gates st agent now = Allow \<longleftrightarrow> gates_open st agent now"
  by (auto simp: fund_gates_def gates_open_def check_agent_can_act_Allow check_cooldown_Allow
      check_fee_recorded_Allow check_proposable_asset_def PROPOSABLE_ASSETS_def)

lemma claim_of_SomeD:
  "claim_of st agent now = Some c \<Longrightarrow>
     c \<in> set (st_claims st) \<and> claim_live now c \<and> lower (c_agent c) = lower agent"
  by (auto simp: claim_of_def active_claims_def dest: find_SomeD)

lemma claim_for_topic_None:
  "claim_for_topic st topic now = None \<Longrightarrow> c \<in> set (active_claims st now) \<Longrightarrow>
     normalize_topic (c_topic c) \<noteq> normalize_topic topic"
  by (auto simp: claim_for_topic_def Let_def find_None_iff)

text \<open>An accepted claim: the gates are open, the agent has no open proposal, and there is room.\<close>

lemma check_claim_AllowD:
  assumes "check_claim st agent topic now = Allow"
  shows "gates_open st agent now" "normalize_topic topic \<noteq> []"
    "open_proposals_of st agent = []"
    "claim_of st agent now = None \<Longrightarrow>
      length (open_proposals st)
        + length (filter (\<lambda>c. lower (c_agent c) \<noteq> lower agent) (active_claims st now)) < 2"
    "claim_of st agent now = Some m \<Longrightarrow> normalize_topic (c_topic m) = normalize_topic topic"
  using assms fund_gates_Allow
  by (auto simp: check_claim_def Let_def MAX_OPEN_PER_AGENT_def MAX_OPEN_PER_FUND_def Suc_le_eq
      split: verdict.splits if_splits option.splits)

definition draft_allowed ::
  "fund_state \<Rightarrow> string \<Rightarrow> string \<Rightarrow> int \<Rightarrow> int \<Rightarrow> leg list \<Rightarrow> time \<Rightarrow> bool" where
  "draft_allowed st agent topic max_capital max_drawdown_bps legs now \<longleftrightarrow>
     gates_open st agent now
     \<and> open_proposals_of st agent = []
     \<and> length (open_proposals st) < 2
     \<and> (\<exists>c. claim_of st agent now = Some c \<and> normalize_topic (c_topic c) = normalize_topic topic)
     \<and> 0 < max_capital
     \<and> (\<forall>t. f_max_capital (st_fund st) = Some t \<longrightarrow> (\<exists>m. py_int t = Some m \<and> max_capital \<le> m))
     \<and> 0 \<le> max_drawdown_bps \<and> max_drawdown_bps \<le> 10000
     \<and> (\<forall>m. f_max_drawdown_bps (st_fund st) = Some m \<longrightarrow> max_drawdown_bps \<le> m)
     \<and> legs \<noteq> [] \<and> (\<forall>l \<in> set legs. leg_ok l)
     \<and> caps_of ''execute'' legs \<le> max_capital \<and> caps_of ''settle'' legs \<le> max_capital"

lemma check_envelope_Allow_iff:
  "check_envelope st max_capital dd = Inr Allow \<longleftrightarrow>
     0 < max_capital
     \<and> (\<forall>t. f_max_capital (st_fund st) = Some t \<longrightarrow> (\<exists>m. py_int t = Some m \<and> max_capital \<le> m))
     \<and> 0 \<le> dd \<and> dd \<le> 10000 \<and> (\<forall>m. f_max_drawdown_bps (st_fund st) = Some m \<longrightarrow> dd \<le> m)"
  by (auto simp: check_envelope_def drawdown_gate_def BPS_def Let_def split: option.splits)

lemma check_draft_Allow_iff:
  "check_draft st agent topic mc dd legs now = Inr Allow \<longleftrightarrow>
     draft_allowed st agent topic mc dd legs now"
proof -
  have "check_draft st agent topic mc dd legs now = Inr Allow \<longleftrightarrow>
     fund_gates st agent now = Allow \<and> open_proposals_of st agent = []
     \<and> length (open_proposals st) < 2
     \<and> (\<exists>c. claim_of st agent now = Some c \<and> normalize_topic (c_topic c) = normalize_topic topic)
     \<and> check_envelope st mc dd = Inr Allow \<and> check_legs legs mc = Inr Allow"
    by (auto simp: check_draft_def and_then_Inr_iff MAX_OPEN_PER_AGENT_def MAX_OPEN_PER_FUND_def Suc_le_eq
        split: verdict.splits if_splits option.splits)
  then show ?thesis
    by (auto simp: fund_gates_Allow check_envelope_Allow_iff check_legs_Allow_iff draft_allowed_def)
qed

text \<open>Only an unreadable ceiling in the fund record can make the check raise.\<close>

lemma check_draft_raise:
  assumes "check_draft st agent topic mc dd legs now = Inl e"
  shows "e = Value_error \<and> (\<exists>t. f_max_capital (st_fund st) = Some t \<and> py_int t = None)"
  using assms check_legs_no_raise [of legs mc]
  by (auto simp: check_draft_def check_envelope_def and_then_def Let_def
      split: verdict.splits if_splits option.splits sum.splits)

end
