(* ===== verification/Json.thy ===== *)
theory Json
  imports Text
begin

text \<open>
  JSON values and the Python coercions the code applies to them (\<open>str\<close>, \<open>int\<close>, \<open>float\<close>,
  truth). A number without a fraction is a \<open>JInt\<close>, any other a \<open>JNum\<close>. An object is an
  association list; its order is not observed. \<open>None\<close> stands for the exception of a coercion
  that fails (\<open>ValueError\<close> or \<open>TypeError\<close>), or for a value whose type no record field has.
\<close>

datatype json = JNull | JBool bool | JInt int | JNum rat | JStr string | JList "json list"
  | JObj "(string \<times> json) list"

definition jget :: "json \<Rightarrow> string \<Rightarrow> json option" where
  "jget j k = (case j of JObj o' \<Rightarrow> map_of o' k | _ \<Rightarrow> None)"

text \<open>\<open>d.get(k)\<close>, where an absent key reads as \<open>None\<close>\<close>

definition jget_null :: "json \<Rightarrow> string \<Rightarrow> json" where
  "jget_null j k = (case jget j k of None \<Rightarrow> JNull | Some v \<Rightarrow> v)"

definition is_obj :: "json \<Rightarrow> bool" where
  "is_obj j = (case j of JObj _ \<Rightarrow> True | _ \<Rightarrow> False)"

text \<open>\<open>bool(v)\<close>\<close>

fun truthy :: "json \<Rightarrow> bool" where
  "truthy JNull = False"
| "truthy (JBool b) = b"
| "truthy (JInt i) = (i \<noteq> 0)"
| "truthy (JNum r) = (r \<noteq> 0)"
| "truthy (JStr s) = (s \<noteq> [])"
| "truthy (JList l) = (l \<noteq> [])"
| "truthy (JObj o') = (o' \<noteq> [])"

text \<open>\<open>str(v)\<close> of a scalar; the text of a float, a list or an object is not modelled.\<close>

fun py_str :: "json \<Rightarrow> string option" where
  "py_str JNull = Some ''None''"
| "py_str (JBool b) = Some (if b then ''True'' else ''False'')"
| "py_str (JInt i) = Some (str_int i)"
| "py_str (JStr s) = Some s"
| "py_str _ = None"

definition trunc :: "rat \<Rightarrow> int" where
  "trunc r = (if r < 0 then \<lceil>r\<rceil> else \<lfloor>r\<rfloor>)"

text \<open>\<open>int(v)\<close>\<close>

fun json_int :: "json \<Rightarrow> int option" where
  "json_int (JInt i) = Some i"
| "json_int (JBool b) = Some (of_bool b)"
| "json_int (JNum r) = Some (trunc r)"
| "json_int (JStr s) = py_int s"
| "json_int _ = None"

text \<open>\<open>float(text)\<close> of a decimal literal with an optional exponent (\<open>nan\<close> and \<open>inf\<close> are left out).\<close>

definition split_at :: "(char \<Rightarrow> bool) \<Rightarrow> string \<Rightarrow> string \<times> string option" where
  "split_at P s = (takeWhile (\<lambda>c. \<not> P c) s,
     case dropWhile (\<lambda>c. \<not> P c) s of [] \<Rightarrow> None | c # r \<Rightarrow> Some r)"

definition float_text :: "string \<Rightarrow> rat option" where
  "float_text s = (case split_sign (strip s) of (neg, body) \<Rightarrow>
     case split_at (\<lambda>c. c = CHR ''e'' \<or> c = CHR ''E'') body of (mant, ex) \<Rightarrow>
     case split_at (\<lambda>c. c = CHR ''.'') mant of (ip, fp) \<Rightarrow>
     let f = (case fp of None \<Rightarrow> [] | Some f \<Rightarrow> f);
         ok = (ip = [] \<or> us_seq is_digit ip) \<and> (f = [] \<or> us_seq is_digit f) \<and> (ip \<noteq> [] \<or> f \<noteq> []);
         e = (case ex of None \<Rightarrow> Some 0
              | Some t \<Rightarrow> (case split_sign t of (n, d) \<Rightarrow>
                  if us_seq is_digit d then Some (if n then - digits_val (no_us d) else digits_val (no_us d)) else None));
         m = (of_int (digits_val (no_us ip @ no_us f)) / 10 ^ length (no_us f)) * (if neg then -1 else 1)
     in if \<not> ok then None
        else map_option (\<lambda>k. if k \<ge> 0 then m * 10 ^ nat k else m / 10 ^ nat (- k)) e)"

fun json_float :: "json \<Rightarrow> rat option" where
  "json_float (JInt i) = Some (of_int i)"
| "json_float (JBool b) = Some (of_bool b)"
| "json_float (JNum r) = Some r"
| "json_float (JStr s) = float_text s"
| "json_float _ = None"

section \<open>Readers of typed fields\<close>

fun as_str :: "json \<Rightarrow> string option" where
  "as_str (JStr s) = Some s"
| "as_str _ = None"

fun as_bool :: "json \<Rightarrow> bool option" where
  "as_bool (JBool b) = Some b"
| "as_bool _ = None"

fun as_int :: "json \<Rightarrow> int option" where
  "as_int (JInt i) = Some i"
| "as_int _ = None"

fun as_time :: "json \<Rightarrow> rat option" where
  "as_time (JInt i) = Some (of_int i)"
| "as_time (JNum r) = Some r"
| "as_time _ = None"

text \<open>An optional field: JSON \<open>null\<close> is \<open>None\<close>.\<close>

definition as_opt :: "(json \<Rightarrow> 'a option) \<Rightarrow> json \<Rightarrow> 'a option option" where
  "as_opt f j = (if j = JNull then Some None else map_option Some (f j))"

text \<open>\<open>models._opt_int\<close>: \<open>None\<close> and the empty string are \<open>None\<close>, the rest is \<open>int(v)\<close>.\<close>

definition opt_int :: "json \<Rightarrow> int option option" where
  "opt_int j = (if j = JNull \<or> j = JStr [] then Some None else map_option Some (json_int j))"

text \<open>\<open>str(v)\<close> unless \<open>v\<close> is \<open>None\<close>, which stays (and is no text: the read fails).\<close>

definition str_not_null :: "json \<Rightarrow> string option" where
  "str_not_null j = (if j = JNull then None else py_str j)"

lemma str_not_null_str [simp]: "str_not_null (JStr s) = Some s"
  by (simp add: str_not_null_def)

text \<open>A field of a dataclass: the default when the key is absent (no default: a \<open>TypeError\<close>).\<close>

definition fld :: "(json \<Rightarrow> 'a option) \<Rightarrow> 'a option \<Rightarrow> (string \<times> json) list \<Rightarrow> string \<Rightarrow> 'a option" where
  "fld f dflt o' k = (case map_of o' k of None \<Rightarrow> dflt | Some j \<Rightarrow> f j)"

text \<open>\<open>[f(x) for x in raw]\<close>\<close>

fun dec_list :: "('b \<Rightarrow> 'a option) \<Rightarrow> 'b list \<Rightarrow> 'a list option" where
  "dec_list f [] = Some []"
| "dec_list f (j # js) = (case f j of None \<Rightarrow> None
     | Some x \<Rightarrow> (case dec_list f js of None \<Rightarrow> None | Some xs \<Rightarrow> Some (x # xs)))"

definition as_list :: "(json \<Rightarrow> 'a option) \<Rightarrow> json \<Rightarrow> 'a list option" where
  "as_list f j = (case j of JList js \<Rightarrow> dec_list f js | _ \<Rightarrow> None)"

text \<open>\<open>models._load_list\<close>: \<open>raw or []\<close>\<close>

definition load_list :: "(json \<Rightarrow> 'a option) \<Rightarrow> json \<Rightarrow> 'a list option" where
  "load_list f j = (if \<not> truthy j then Some [] else as_list f j)"

section \<open>Writers\<close>

definition j_opt :: "('a \<Rightarrow> json) \<Rightarrow> 'a option \<Rightarrow> json" where
  "j_opt f x = (case x of None \<Rightarrow> JNull | Some v \<Rightarrow> f v)"

definition j_list :: "('a \<Rightarrow> json) \<Rightarrow> 'a list \<Rightarrow> json" where
  "j_list f xs = JList (map f xs)"

section \<open>Reading back what was written\<close>

lemma as_opt_j_opt [simp]:
  "(\<And>v. f (g v) = Some v) \<Longrightarrow> (\<And>v. g v \<noteq> JNull) \<Longrightarrow> as_opt f (j_opt g x) = Some x"
  by (cases x) (simp_all add: as_opt_def j_opt_def)

lemma opt_int_j_opt [simp]: "opt_int (j_opt JInt x) = Some x"
  by (cases x) (simp_all add: opt_int_def j_opt_def)

lemma dec_list_map [simp]: "(\<And>x. f (g x) = Some x) \<Longrightarrow> dec_list f (map g xs) = Some xs"
  by (induction xs) simp_all

lemma as_list_j_list [simp]: "(\<And>x. f (g x) = Some x) \<Longrightarrow> as_list f (j_list g xs) = Some xs"
  by (simp add: as_list_def j_list_def)

lemma load_list_j_list [simp]: "(\<And>x. f (g x) = Some x) \<Longrightarrow> load_list f (j_list g xs) = Some xs"
  by (cases xs) (simp_all add: load_list_def as_list_def j_list_def)

lemma json_float_num [simp]: "json_float (JNum r) = Some r"
  by simp

lemma dec_list_length: "dec_list f js = Some xs \<Longrightarrow> length xs = length js"
  by (induction js arbitrary: xs) (auto split: option.splits)

lemma fld_Cons [simp]: "fld f d ((k, j) # o') k' = (if k = k' then f j else fld f d o' k')"
  by (simp add: fld_def)

lemma fld_Nil [simp]: "fld f d [] k' = d"
  by (simp add: fld_def)

end
