(* ===== verification/TxBuilder.thy ===== *)
theory TxBuilder
  imports Json Units Models
begin

text \<open>
  \<open>fund/txbuilder.py\<close>: the request bodies of the prepare API, the parsing of its response
  envelope, the batches of calls a wallet gets, and the routes of the client. The transport
  (\<open>post_json\<close>, \<open>get_json\<close>) is an argument: it is an HTTP request. An argument the code
  checks at run time with \<open>isinstance\<close> is a JSON value, with \<open>JNull\<close> for Python's \<open>None\<close>.
  Every refusal is a \<open>TxBuilderError\<close>; its message is not kept.
\<close>

section \<open>Constants\<close>

definition DEFAULT_TX_BUILDER_URL :: string where
  "DEFAULT_TX_BUILDER_URL = ''https://api.sherwood.sh/api/v1''"

definition ROUTES :: "string list" where
  "ROUTES = [''create-fund'', ''approve-depositor'', ''approve-depositors'', ''register-agent'',
     ''deposit'', ''propose'', ''propose-portfolio'', ''vote'', ''execute'', ''settle'', ''redeem'',
     ''identity-mint'', ''governor-set'', ''set-agent-fee'', ''owner-stake'']"

definition AGENT_FEE_MAX_BPS :: int where "AGENT_FEE_MAX_BPS = 2500"

definition VOTES :: "string list" where "VOTES = [''For'', ''Against'', ''Abstain'']"

definition GOVERNOR_PARAMS :: "string list" where
  "GOVERNOR_PARAMS = [''votingPeriod'', ''executionWindow'', ''vetoThresholdBps'',
     ''maxPerformanceFeeBps'', ''maxStrategyDuration'', ''cooldownPeriod'']"

definition UINT_RE :: "string \<Rightarrow> bool" where
  "UINT_RE = dollar_match isdigit"

definition POS_UINT_RE :: "string \<Rightarrow> bool" where
  "POS_UINT_RE = dollar_match (\<lambda>s. isdigit s \<and> hd s \<noteq> CHR ''0'')"

text \<open>\<open>^\d+(\.\d+)?$\<close>\<close>

definition quote_re :: "string \<Rightarrow> bool" where
  "quote_re = dollar_match (\<lambda>s. case split_at (\<lambda>c. c = CHR ''.'') s of
     (ip, None) \<Rightarrow> isdigit ip | (ip, Some fp) \<Rightarrow> isdigit ip \<and> isdigit fp)"

section \<open>Checks of arguments\<close>

text \<open>\<open>isinstance(v, int)\<close>, which a bool satisfies, with the integer\<close>

fun as_pyint :: "json \<Rightarrow> int option" where
  "as_pyint (JInt i) = Some i"
| "as_pyint (JBool b) = Some (of_bool b)"
| "as_pyint _ = None"

text \<open>\<open>str(v)\<close>; the text of a float or a container is outside the model (a \<open>Type_error\<close> here).\<close>

definition text_of :: "json \<Rightarrow> string result" where
  "text_of j = (case py_str j of None \<Rightarrow> Inl Type_error | Some s \<Rightarrow> Inr s)"

definition tb_addr :: "json \<Rightarrow> string result" where
  "tb_addr v = (case v of JStr s \<Rightarrow> if address_re s then Inr s else Inl Tx_builder_error
     | _ \<Rightarrow> Inl Tx_builder_error)"

definition tb_uint :: "bool \<Rightarrow> json \<Rightarrow> string result" where
  "tb_uint positive v =
     (let s = (case v of JInt i \<Rightarrow> str_int i | JStr s \<Rightarrow> s | _ \<Rightarrow> []) in
      if (if positive then POS_UINT_RE s else UINT_RE s) then Inr s else Inl Tx_builder_error)"

definition tb_ipfs :: "json \<Rightarrow> string result" where
  "tb_ipfs v = (case v of
     JStr s \<Rightarrow> if startswith ''ipfs://'' s \<and> length s > 7 then Inr s else Inl Tx_builder_error
   | _ \<Rightarrow> Inl Tx_builder_error)"

definition tb_call :: "json \<Rightarrow> json result" where
  "tb_call c =
     and_then (tb_addr (jget_null c ''target'')) (\<lambda>target.
     case jget_null c ''data'' of
       JStr data \<Rightarrow>
         if \<not> hex_re data then Inl Tx_builder_error
         else and_then (tb_uint False (case jget c ''value'' of None \<Rightarrow> JStr ''0'' | Some v \<Rightarrow> v))
           (\<lambda>value. Inr (JObj [(''target'', JStr target), (''data'', JStr data), (''value'', JStr value)]))
     | _ \<Rightarrow> Inl Tx_builder_error)"

definition tb_calls :: "json list \<Rightarrow> json list result" where
  "tb_calls = mapM tb_call"

definition tb_int_in :: "int \<Rightarrow> int \<Rightarrow> json \<Rightarrow> bool" where
  "tb_int_in lo hi v = (case as_pyint v of None \<Rightarrow> False | Some n \<Rightarrow> lo \<le> n \<and> n \<le> hi)"

section \<open>The propose body\<close>

record propose_args =
  pr_vault :: json
  pr_strategy :: json
  pr_metadata_uri :: json
  pr_strategy_duration :: json
  pr_max_capital :: json
  pr_max_drawdown_bps :: json
  pr_execute_calls :: "json list"
  pr_execute_call_caps :: "json list"
  pr_settlement_calls :: "json list"
  pr_settlement_call_caps :: "json list"
  pr_co_proposers :: json
  pr_chain_id :: int

definition build_propose_body :: "propose_args \<Rightarrow> json result" where
  "build_propose_body a =
     (if length (pr_execute_calls a) \<noteq> length (pr_execute_call_caps a) then Inl Tx_builder_error
      else if length (pr_settlement_calls a) \<noteq> length (pr_settlement_call_caps a) then Inl Tx_builder_error
      else if \<not> tb_int_in 0 10000 (pr_max_drawdown_bps a) then Inl Tx_builder_error
      else
        and_then (tb_addr (pr_vault a)) (\<lambda>vault.
        and_then (tb_addr (pr_strategy a)) (\<lambda>strategy.
        and_then (tb_ipfs (pr_metadata_uri a)) (\<lambda>uri.
        and_then (tb_uint True (pr_strategy_duration a)) (\<lambda>duration.
        and_then (tb_uint True (pr_max_capital a)) (\<lambda>cap.
        and_then (tb_calls (pr_execute_calls a)) (\<lambda>ecalls.
        and_then (mapM (tb_uint False) (pr_execute_call_caps a)) (\<lambda>ecaps.
        and_then (tb_calls (pr_settlement_calls a)) (\<lambda>scalls.
        and_then (mapM (tb_uint False) (pr_settlement_call_caps a)) (\<lambda>scaps.
          Inr (JObj ([(''chainId'', JInt (pr_chain_id a)), (''vault'', JStr vault),
            (''strategy'', JStr strategy), (''metadataURI'', JStr uri),
            (''strategyDuration'', JStr duration),
            (''envelope'', JObj [(''maxCapital'', JStr cap), (''maxDrawdownBps'', pr_max_drawdown_bps a)]),
            (''executeCalls'', JList ecalls), (''executeCallCaps'', JList (map JStr ecaps)),
            (''settlementCalls'', JList scalls), (''settlementCallCaps'', JList (map JStr scaps))]
            @ (if truthy (pr_co_proposers a) then [(''coProposers'', pr_co_proposers a)] else [])))))))))))))"

section \<open>The propose-portfolio body\<close>

record portfolio_args =
  pf_vault :: json
  pf_proposer :: json
  pf_legs :: "json list"
  pf_strategy_duration :: json
  pf_max_capital :: json
  pf_max_capital_decimal :: json
  pf_metadata_uri :: json
  pf_name :: json
  pf_description :: json
  pf_max_drawdown_bps :: json
  pf_bond_buffer_bps :: json
  pf_salt :: json
  pf_chain_id :: int
  pf_fill_bond_buffer :: json
  pf_bond_swap_max_slippage_bps :: json
  pf_bond_swap_max_premium_bps :: json
  pf_allow_bond_swap_premium :: json
  pf_bond_swap_deadline_seconds :: json
  pf_quote_usd_per_wood :: json
  pf_max_drift_bps :: json

text \<open>One turn of the loop over the legs: the weight and the item of the body.\<close>

definition leg_weight :: "json \<Rightarrow> json" where
  "leg_weight leg = (case jget leg ''weightBps'' of Some w \<Rightarrow> w | None \<Rightarrow> jget_null leg ''weight_bps'')"

definition portfolio_leg :: "json \<Rightarrow> (int \<times> json) result" where
  "portfolio_leg leg =
     (let w = leg_weight leg in
      case as_pyint w of
        None \<Rightarrow> Inl Tx_builder_error
      | Some n \<Rightarrow>
          if n \<le> 0 then Inl Tx_builder_error
          else
            and_then
              (if truthy (jget_null leg ''token'')
               then and_then (tb_addr (jget_null leg ''token'')) (\<lambda>t. Inr (''token'', JStr t))
               else if truthy (jget_null leg ''symbol'')
               then and_then (text_of (jget_null leg ''symbol'')) (\<lambda>s. Inr (''symbol'', JStr (upper s)))
               else Inl Tx_builder_error) (\<lambda>item.
            and_then
              (if truthy (jget_null leg ''swapRoute'')
               then and_then (text_of (jget_null leg ''swapRoute'')) (\<lambda>s. Inr [(''swapRoute'', JStr s)])
               else Inr []) (\<lambda>route.
              Inr (n, JObj ([(''weightBps'', w), item] @ route)))))"

definition int_arg :: "string \<Rightarrow> int \<Rightarrow> int \<Rightarrow> json \<Rightarrow> (string \<times> json) list result" where
  "int_arg key lo hi v = (if v = JNull then Inr []
     else if tb_int_in lo hi v then Inr [(key, v)] else Inl Tx_builder_error)"

definition bool_arg :: "string \<Rightarrow> json \<Rightarrow> (string \<times> json) list" where
  "bool_arg key v = (if v = JNull then [] else [(key, JBool (truthy v))])"

definition capital_arg :: "portfolio_args \<Rightarrow> (string \<times> json) result" where
  "capital_arg a = (if pf_max_capital a \<noteq> JNull
     then and_then (tb_uint True (pf_max_capital a)) (\<lambda>s. Inr (''maxCapital'', JStr s))
     else and_then (text_of (pf_max_capital_decimal a)) (\<lambda>s. Inr (''maxCapitalDecimal'', JStr s)))"

definition metadata_arg :: "portfolio_args \<Rightarrow> (string \<times> json) list result" where
  "metadata_arg a = (if pf_metadata_uri a \<noteq> JNull
     then and_then (tb_ipfs (pf_metadata_uri a)) (\<lambda>s. Inr [(''metadataURI'', JStr s)])
     else and_then (text_of (pf_name a)) (\<lambda>n.
       if truthy (pf_description a)
       then and_then (text_of (pf_description a)) (\<lambda>d. Inr [(''name'', JStr n), (''description'', JStr d)])
       else Inr [(''name'', JStr n)]))"

definition quote_arg :: "portfolio_args \<Rightarrow> (string \<times> json) list result" where
  "quote_arg a = (let q = pf_quote_usd_per_wood a in
     if q = JNull \<or> q = JStr [] then Inr []
     else and_then (text_of q) (\<lambda>s.
       if quote_re s then Inr [(''quoteUsdPerWood'', JStr s)] else Inl Tx_builder_error))"

definition build_propose_portfolio_body :: "portfolio_args \<Rightarrow> json result" where
  "build_propose_portfolio_body a =
     (if \<not> (1 \<le> length (pf_legs a) \<and> length (pf_legs a) \<le> 20) then Inl Tx_builder_error
      else
        and_then (mapM portfolio_leg (pf_legs a)) (\<lambda>legs.
        if (\<Sum>l \<leftarrow> legs. fst l) \<noteq> 10000 then Inl Tx_builder_error
        else if (pf_max_capital a = JNull) = (pf_max_capital_decimal a = JNull) then Inl Tx_builder_error
        else if (pf_metadata_uri a = JNull) = (pf_name a = JNull) then Inl Tx_builder_error
        else
          and_then (tb_addr (pf_vault a)) (\<lambda>vault.
          and_then (tb_addr (pf_proposer a)) (\<lambda>proposer.
          and_then (text_of (pf_strategy_duration a)) (\<lambda>duration.
          and_then (capital_arg a) (\<lambda>capital.
          and_then (metadata_arg a) (\<lambda>metadata.
          and_then (int_arg ''maxDrawdownBps'' 0 10000 (pf_max_drawdown_bps a)) (\<lambda>drawdown.
          and_then (int_arg ''bondBufferBps'' 0 2000 (pf_bond_buffer_bps a)) (\<lambda>buffer.
          and_then (int_arg ''bondSwapMaxSlippageBps'' 1 1000 (pf_bond_swap_max_slippage_bps a)) (\<lambda>slip.
          and_then (int_arg ''bondSwapMaxPremiumBps'' 0 5000 (pf_bond_swap_max_premium_bps a)) (\<lambda>prem.
          and_then (int_arg ''bondSwapDeadlineSeconds'' 60 3600 (pf_bond_swap_deadline_seconds a)) (\<lambda>dl.
          and_then (int_arg ''maxDriftBps'' 1 5000 (pf_max_drift_bps a)) (\<lambda>drift.
          and_then (quote_arg a) (\<lambda>quote.
            Inr (JObj ([(''chainId'', JInt (pf_chain_id a)), (''vault'', JStr vault),
              (''proposer'', JStr proposer), (''legs'', JList (map snd legs)),
              (''strategyDuration'', JStr duration), capital] @ metadata @ drawdown @ buffer
              @ (if truthy (pf_salt a) then [(''salt'', pf_salt a)] else [])
              @ slip @ prem @ dl @ drift @ bool_arg ''fillBondBuffer'' (pf_fill_bond_buffer a)
              @ bool_arg ''allowBondSwapPremium'' (pf_allow_bond_swap_premium a) @ quote))))))))))))))))"

section \<open>The response\<close>

record unsigned_tx =
  tx_to :: string
  tx_data :: string
  tx_value :: string
  tx_chain_id :: int

definition as_call :: "unsigned_tx \<Rightarrow> json" where
  "as_call t = JObj [(''to'', JStr (tx_to t)), (''data'', JStr (tx_data t)), (''value'', JStr (tx_value t))]"

record prepared_action =
  pa_command :: string
  pa_txs :: "unsigned_tx list"
  pa_preconditions :: "json list"
  pa_description :: string
  pa_note :: string
  pa_chain_id :: json
  pa_extra :: "(string \<times> json) list"

definition ENVELOPE_KEYS :: "string list" where
  "ENVELOPE_KEYS = [''txs'', ''preconditions'', ''description'', ''note'']"

text \<open>A transaction of the response; a missing field or a bad chain id is the caught exception.\<close>

definition parse_tx :: "json \<Rightarrow> unsigned_tx option" where
  "parse_tx t =
     (case (jget t ''to'', jget t ''data'', jget t ''chainId'') of
        (Some to, Some data, Some chain) \<Rightarrow>
          (case (py_str to, py_str data,
                 py_str (case jget t ''value'' of None \<Rightarrow> JStr ''0x0'' | Some v \<Rightarrow> v), json_int chain) of
             (Some to', Some data', Some value, Some cid) \<Rightarrow>
               Some \<lparr>tx_to = to', tx_data = data', tx_value = value, tx_chain_id = cid\<rparr>
           | _ \<Rightarrow> None)
      | _ \<Rightarrow> None)"

text \<open>\<open>list(v)\<close>\<close>

definition py_list :: "json \<Rightarrow> json list result" where
  "py_list v = (case v of
     JList l \<Rightarrow> Inr l
   | JObj o' \<Rightarrow> Inr (map (JStr \<circ> fst) o')
   | JStr s \<Rightarrow> Inr (map (\<lambda>c. JStr [c]) s)
   | _ \<Rightarrow> Inl Type_error)"

text \<open>\<open>v or {}\<close>, then used as a dictionary\<close>

definition dict_or_empty :: "json \<Rightarrow> (string \<times> json) list result" where
  "dict_or_empty v = (if \<not> truthy v then Inr []
     else (case v of JObj o' \<Rightarrow> Inr o' | _ \<Rightarrow> Inl Attribute_error))"

definition get_or :: "(string \<times> json) list \<Rightarrow> string \<Rightarrow> json \<Rightarrow> json" where
  "get_or o' k d = (case map_of o' k of None \<Rightarrow> d | Some v \<Rightarrow> v)"

definition parse_txs :: "json \<Rightarrow> unsigned_tx list result" where
  "parse_txs v = (case py_list v of
     Inl _ \<Rightarrow> Inl Tx_builder_error
   | Inr l \<Rightarrow> (case dec_list parse_tx l of None \<Rightarrow> Inl Tx_builder_error | Some txs \<Rightarrow> Inr txs))"

definition parse_envelope :: "string \<Rightarrow> int \<Rightarrow> json \<Rightarrow> prepared_action result" where
  "parse_envelope route status payload =
     (if status = 404 \<and> \<not> (is_obj payload \<and> truthy (jget_null payload ''success'')) then Inl Tx_builder_error
      else if \<not> is_obj payload then Inl Tx_builder_error
      else if \<not> truthy (jget_null payload ''success'') then Inl Tx_builder_error
      else
        and_then (dict_or_empty (jget_null payload ''data'')) (\<lambda>data.
        and_then (parse_txs (get_or data ''txs'' (JList []))) (\<lambda>txs.
        and_then (dict_or_empty (jget_null payload ''meta'')) (\<lambda>meta.
        and_then (text_of (get_or meta ''command'' (JStr (''prepare.'' @ route)))) (\<lambda>command.
        and_then (py_list (get_or data ''preconditions'' (JList []))) (\<lambda>pre.
        and_then (text_of (get_or data ''description'' (JStr []))) (\<lambda>desc.
        and_then (let n = get_or data ''note'' (JStr []) in text_of (if truthy n then n else JStr [])) (\<lambda>note.
          Inr \<lparr>pa_command = command, pa_txs = txs, pa_preconditions = pre, pa_description = desc,
            pa_note = note, pa_chain_id = get_or meta ''chainId'' JNull,
            pa_extra = filter (\<lambda>(k, v). k \<notin> set ENVELOPE_KEYS) data\<rparr>))))))))"

section \<open>The line about the bond buffer\<close>

definition BOND_BUFFER_NOTES :: "(string \<times> string) list" where
  "BOND_BUFFER_NOTES =
     [(''swap'', ''bond buffer: the WOOD swap is the first leg of the bundle''),
      (''insufficient-usdg'', ''the proposer's USDG cannot pay the WOOD swap: fund it before propose''),
      (''premium-over-cap'', ''the WOOD swap is priced over the feed cap''),
      (''unavailable'', ''the bond-buffer swap could not be prepared: fund the proposer with WOOD''),
      (''no-route'', ''no USDG->WOOD route on this chain: fund the proposer with WOOD'')]"

text \<open>\<open>f"{n / 100:.2f}"\<close>, exact (the code's float agrees up to 2^53)\<close>

definition fmt_cents :: "int \<Rightarrow> string" where
  "fmt_cents n = (if n < 0 then ''-'' else []) @ str_int (\<bar>n\<bar> div 100) @ ''.''
     @ [digit_char (\<bar>n\<bar> div 10 mod 10), digit_char (\<bar>n\<bar> mod 10)]"

definition premium_texts :: "(string \<times> json) list \<Rightarrow> string \<times> string" where
  "premium_texts data =
     (case (json_int (get_or data ''premiumBps'' JNull), json_int (get_or data ''maxPremiumBps'' JNull)) of
        (Some p, Some m) \<Rightarrow> (''+'' @ fmt_cents p @ ''%'', fmt_cents m @ ''%'')
      | _ \<Rightarrow> (''over'', ''the cap''))"

definition buffer_note :: "(string \<times> json) list \<Rightarrow> string result" where
  "buffer_note data =
     (let status = (case get_or data ''bondBuffer'' JNull of JObj b \<Rightarrow> get_or b ''status'' JNull | _ \<Rightarrow> JNull) in
      and_then (if truthy status then text_of status else Inr []) (\<lambda>key.
        let note = (case map_of BOND_BUFFER_NOTES key of None \<Rightarrow> [] | Some n \<Rightarrow> n) in
        if note \<noteq> [] \<and> status = JStr ''premium-over-cap'' \<and> truthy (get_or data ''bufferNote'' JNull)
        then and_then (text_of (get_or data ''bufferNote'' JNull)) (\<lambda>b. Inr (note @ '' ('' @ b @ '')''))
        else Inr note))"

definition describe_bond_buffer :: "json \<Rightarrow> string result" where
  "describe_bond_buffer d =
     (case d of
        JObj data \<Rightarrow>
          if truthy (get_or data ''requote'' JNull) then
            and_then (text_of (get_or data ''driftBps'' (JStr ''?''))) (\<lambda>drift.
            and_then (text_of (get_or data ''maxDriftBps'' (JStr ''?''))) (\<lambda>m.
              Inr (''the bond's WOOD price moved '' @ drift @ '' bps since the quote (max '' @ m
                @ ''): re-quote before signing'')))
          else if truthy (get_or data ''premiumOverCap'' JNull) then
            (case premium_texts data of (prem, cap) \<Rightarrow>
              let opt = get_or data ''optIn'' JNull in
              and_then (text_of (if truthy opt then opt else JStr ''allowBondSwapPremium: true'')) (\<lambda>o'.
              Inr (''the WOOD bond swap is priced '' @ prem @ '' over the WOOD/USD feed, past '' @ cap
                @ '': the host may accept it on the signing page ('' @ o'
                @ '') or fund the proposer with WOOD'')))
          else buffer_note data
      | _ \<Rightarrow> Inr [])"

section \<open>The batches a wallet gets\<close>

fun hex_nat :: "nat \<Rightarrow> string" where
  "hex_nat n = (let d = (if n mod 16 < 10 then char_of (48 + n mod 16) else char_of (87 + n mod 16)) in
     if n < 16 then [d] else hex_nat (n div 16) @ [d])"

declare hex_nat.simps [simp del]

definition py_hex :: "int \<Rightarrow> string" where
  "py_hex i = (if i < 0 then ''-0x'' @ hex_nat (nat (- i)) else ''0x'' @ hex_nat (nat i))"

text \<open>\<open>batches.setdefault(chain_id, []).append(tx)\<close>: chains in the order they first appear.\<close>

fun batch_add :: "unsigned_tx \<Rightarrow> (int \<times> unsigned_tx list) list \<Rightarrow> (int \<times> unsigned_tx list) list" where
  "batch_add t [] = [(tx_chain_id t, [t])]"
| "batch_add t ((c, ts) # bs) = (if c = tx_chain_id t then (c, ts @ [t]) # bs else (c, ts) # batch_add t bs)"

definition batches :: "unsigned_tx list \<Rightarrow> (int \<times> unsigned_tx list) list" where
  "batches txs = foldl (\<lambda>bs t. batch_add t bs) [] txs"

definition wallet_send_calls :: "prepared_action \<Rightarrow> string \<Rightarrow> json list" where
  "wallet_send_calls a sender = map (\<lambda>(chain, txs). JObj
     [(''version'', JStr ''2.0.0''), (''chainId'', JStr (py_hex chain)), (''from'', JStr sender),
      (''atomicRequired'', JBool False), (''calls'', JList (map as_call txs))]) (batches (pa_txs a))"

definition prepared_to_dict :: "prepared_action \<Rightarrow> json" where
  "prepared_to_dict a = JObj
     ([(''command'', JStr (pa_command a)), (''chainId'', pa_chain_id a),
       (''txs'', JList (map (\<lambda>t. JObj [(''to'', JStr (tx_to t)), (''data'', JStr (tx_data t)),
          (''value'', JStr (tx_value t)), (''chainId'', JInt (tx_chain_id t))]) (pa_txs a))),
       (''preconditions'', JList (pa_preconditions a)), (''description'', JStr (pa_description a)),
       (''note'', JStr (pa_note a))]
      @ (if pa_extra a \<noteq> [] then [(''extra'', JObj (pa_extra a))] else []))"

section \<open>The client\<close>

text \<open>
  The transport: a URL and a body give a status and the parsed reply, or an exception; the code
  turns \<open>OSError\<close> (with its subclasses \<open>URLError\<close> and \<open>TimeoutError\<close>) and \<open>ValueError\<close> into
  a \<open>TxBuilderError\<close>.
\<close>

type_synonym post_json = "string \<Rightarrow> json \<Rightarrow> (int \<times> json) result"
type_synonym get_json = "string \<Rightarrow> (int \<times> json) result"

record client =
  cl_base_url :: string
  cl_chain_id :: int

definition new_client :: "string \<Rightarrow> int \<Rightarrow> client" where
  "new_client base chain =
     \<lparr>cl_base_url = rstrip_of (CHR ''/'') (or_else base DEFAULT_TX_BUILDER_URL), cl_chain_id = chain\<rparr>"

definition url_for :: "client \<Rightarrow> string \<Rightarrow> string" where
  "url_for c route = cl_base_url c @ ''/prepare/'' @ route"

definition transport :: "(int \<times> json) result \<Rightarrow> (int \<times> json) result" where
  "transport r = (case r of
     Inl e \<Rightarrow> if e = Os_error \<or> e = Value_error then Inl Tx_builder_error else Inl e
   | Inr x \<Rightarrow> Inr x)"

text \<open>\<open>{"chainId": ..., **body}\<close>: a key of the body wins.\<close>

definition with_chain :: "int \<Rightarrow> (string \<times> json) list \<Rightarrow> json" where
  "with_chain chain body = JObj (if map_of body ''chainId'' = None then (''chainId'', JInt chain) # body else body)"

definition prepare :: "client \<Rightarrow> post_json \<Rightarrow> string \<Rightarrow> (string \<times> json) list \<Rightarrow> prepared_action result" where
  "prepare c post route body =
     (if route \<notin> set ROUTES then Inl Tx_builder_error
      else and_then (transport (post (url_for c route) (with_chain (cl_chain_id c) body)))
        (\<lambda>(status, parsed). parse_envelope route status parsed))"

text \<open>The fields of a route: a key with a checked text.\<close>

definition checked :: "string \<Rightarrow> string result \<Rightarrow> (string \<times> json) result" where
  "checked key r = and_then r (\<lambda>s. Inr (key, JStr s))"

definition send :: "client \<Rightarrow> post_json \<Rightarrow> string \<Rightarrow> (string \<times> json) result list \<Rightarrow> prepared_action result" where
  "send c post route fs = and_then (mapM (\<lambda>f. f) fs) (prepare c post route)"

definition tb_create_fund ::
  "client \<Rightarrow> post_json \<Rightarrow> json \<Rightarrow> json \<Rightarrow> json \<Rightarrow> json \<Rightarrow> json \<Rightarrow> json \<Rightarrow> json \<Rightarrow> json \<Rightarrow> prepared_action result" where
  "tb_create_fund c post creator asset agent_id uri name symbol subdomain open_deposits =
     send c post ''create-fund''
       [checked ''creator'' (tb_addr creator), checked ''asset'' (tb_addr asset),
        checked ''creatorAgentId'' (tb_uint False agent_id), checked ''metadataURI'' (tb_ipfs uri),
        Inr (''name'', name), Inr (''symbol'', symbol), Inr (''subdomain'', subdomain),
        Inr (''openDeposits'', JBool (truthy open_deposits))]"

definition tb_approve_depositor :: "client \<Rightarrow> post_json \<Rightarrow> json \<Rightarrow> json \<Rightarrow> prepared_action result" where
  "tb_approve_depositor c post vault depositor = send c post ''approve-depositor''
     [checked ''vault'' (tb_addr vault), checked ''depositor'' (tb_addr depositor)]"

definition tb_approve_depositors :: "client \<Rightarrow> post_json \<Rightarrow> json \<Rightarrow> json list \<Rightarrow> prepared_action result" where
  "tb_approve_depositors c post vault depositors =
     (if depositors = [] then Inl Tx_builder_error
      else send c post ''approve-depositors''
        [checked ''vault'' (tb_addr vault),
         and_then (mapM tb_addr depositors) (\<lambda>ds. Inr (''depositors'', JList (map JStr ds)))])"

definition tb_set_agent_fee :: "client \<Rightarrow> post_json \<Rightarrow> json \<Rightarrow> json \<Rightarrow> prepared_action result" where
  "tb_set_agent_fee c post vault bps =
     (if \<not> tb_int_in 0 AGENT_FEE_MAX_BPS bps then Inl Tx_builder_error
      else send c post ''set-agent-fee'' [checked ''vault'' (tb_addr vault), Inr (''bps'', bps)])"

definition tb_owner_stake :: "client \<Rightarrow> post_json \<Rightarrow> json \<Rightarrow> json \<Rightarrow> prepared_action result" where
  "tb_owner_stake c post owner amount = send c post ''owner-stake''
     (checked ''owner'' (tb_addr owner)
      # (if amount \<noteq> JNull then [checked ''amountWood'' (tb_uint False amount)] else []))"

definition tb_register_agent :: "client \<Rightarrow> post_json \<Rightarrow> json \<Rightarrow> json \<Rightarrow> json \<Rightarrow> prepared_action result" where
  "tb_register_agent c post vault agent_address agent_id = send c post ''register-agent''
     [checked ''vault'' (tb_addr vault), checked ''agentAddress'' (tb_addr agent_address),
      checked ''agentId'' (tb_uint False agent_id)]"

definition tb_deposit ::
  "client \<Rightarrow> post_json \<Rightarrow> json \<Rightarrow> json \<Rightarrow> json \<Rightarrow> json \<Rightarrow> json \<Rightarrow> prepared_action result" where
  "tb_deposit c post vault receiver amount amount_decimal wrap_eth =
     (if (amount = JNull) = (amount_decimal = JNull) then Inl Tx_builder_error
      else send c post ''deposit''
        ([checked ''vault'' (tb_addr vault), checked ''receiver'' (tb_addr receiver),
          (if amount \<noteq> JNull then checked ''amount'' (tb_uint True amount)
           else checked ''amountDecimal'' (text_of amount_decimal))]
         @ (if truthy wrap_eth then [Inr (''wrapEth'', JBool True)] else [])))"

definition tb_vote :: "client \<Rightarrow> post_json \<Rightarrow> json \<Rightarrow> json \<Rightarrow> string \<Rightarrow> prepared_action result" where
  "tb_vote c post vault proposal_id v =
     (if v \<notin> set VOTES then Inl Tx_builder_error
      else send c post ''vote'' [checked ''vault'' (tb_addr vault),
        checked ''proposalId'' (tb_uint False proposal_id), Inr (''vote'', JStr v)])"

definition tb_execute :: "client \<Rightarrow> post_json \<Rightarrow> json \<Rightarrow> json \<Rightarrow> prepared_action result" where
  "tb_execute c post vault proposal_id = send c post ''execute''
     [checked ''vault'' (tb_addr vault), checked ''proposalId'' (tb_uint False proposal_id)]"

definition tb_settle :: "client \<Rightarrow> post_json \<Rightarrow> json \<Rightarrow> json \<Rightarrow> prepared_action result" where
  "tb_settle c post vault proposal_id = send c post ''settle''
     [checked ''vault'' (tb_addr vault), checked ''proposalId'' (tb_uint False proposal_id)]"

definition tb_redeem ::
  "client \<Rightarrow> post_json \<Rightarrow> json \<Rightarrow> json \<Rightarrow> json \<Rightarrow> json \<Rightarrow> prepared_action result" where
  "tb_redeem c post vault receiver shares owner = send c post ''redeem''
     ([checked ''vault'' (tb_addr vault), checked ''receiver'' (tb_addr receiver),
       checked ''shares'' (tb_uint True shares)]
      @ (if owner \<noteq> JNull then [checked ''owner'' (tb_addr owner)] else []))"

definition tb_identity_mint :: "client \<Rightarrow> post_json \<Rightarrow> string \<Rightarrow> json \<Rightarrow> json \<Rightarrow> prepared_action result" where
  "tb_identity_mint c post name description img =
     (if name = [] \<or> strip name = [] then Inl Tx_builder_error
      else send c post ''identity-mint''
        (Inr (''name'', JStr name)
         # (if truthy description then [Inr (''description'', description)] else [])
         @ (if truthy img then [Inr (''image'', img)] else [])))"

definition tb_governor_set :: "client \<Rightarrow> post_json \<Rightarrow> json \<Rightarrow> string \<Rightarrow> json \<Rightarrow> prepared_action result" where
  "tb_governor_set c post vault param v =
     (if param \<notin> set GOVERNOR_PARAMS then Inl Tx_builder_error
      else send c post ''governor-set'' [checked ''vault'' (tb_addr vault), Inr (''param'', JStr param),
        checked ''value'' (tb_uint False v)])"

definition fund_card :: "client \<Rightarrow> get_json \<Rightarrow> json \<Rightarrow> json list \<Rightarrow> json result" where
  "fund_card c get vault checks =
     and_then (tb_addr vault) (\<lambda>v.
     and_then (mapM tb_addr checks) (\<lambda>cs.
     and_then (transport (get (cl_base_url c @ ''/funds/'' @ v @ ''/tg-card?chain='' @ str_int (cl_chain_id c)
         @ (if checks = [] then [] else ''&check='' @ join '','' cs)))) (\<lambda>(status, parsed).
       if status = 404 \<and> \<not> (is_obj parsed \<and> truthy (jget_null parsed ''success'')) then Inl Tx_builder_error
       else if \<not> is_obj parsed \<or> \<not> truthy (jget_null parsed ''success'') then Inl Tx_builder_error
       else (case jget_null parsed ''data'' of JObj d \<Rightarrow> Inr (JObj d) | _ \<Rightarrow> Inl Tx_builder_error))))"

section \<open>What the checks guarantee\<close>

lemma tb_addr_Inr: "tb_addr v = Inr s \<longleftrightarrow> v = JStr s \<and> address_re s"
  by (auto simp: tb_addr_def split: json.splits)

lemma tb_addr_Inl: "tb_addr v = Inl e \<Longrightarrow> e = Tx_builder_error"
  by (auto simp: tb_addr_def split: json.splits if_splits)

lemma tb_uint_Inr: "tb_uint pos v = Inr s \<Longrightarrow> if pos then POS_UINT_RE s else UINT_RE s"
  by (auto simp: tb_uint_def Let_def split: if_splits)

lemma tb_uint_Inl: "tb_uint pos v = Inl e \<Longrightarrow> e = Tx_builder_error"
  by (auto simp: tb_uint_def Let_def split: if_splits)

lemma tb_ipfs_Inr: "tb_ipfs v = Inr s \<longleftrightarrow> v = JStr s \<and> startswith ''ipfs://'' s \<and> 7 < length s"
  by (auto simp: tb_ipfs_def split: json.splits)

lemma tb_call_Inr:
  assumes "tb_call c = Inr b"
  shows "\<exists>target data value. b = JObj [(''target'', JStr target), (''data'', JStr data), (''value'', JStr value)]
    \<and> jget_null c ''target'' = JStr target \<and> jget_null c ''data'' = JStr data
    \<and> address_re target \<and> hex_re data \<and> UINT_RE value"
  using assms
  by (cases "jget_null c ''data''")
    (auto simp: tb_call_def and_then_Inr_iff tb_addr_Inr split: if_splits dest: tb_uint_Inr)

lemma list_all2_memD: "list_all2 P xs ys \<Longrightarrow> y \<in> set ys \<Longrightarrow> \<exists>x \<in> set xs. P x y"
  by (induction xs ys rule: list_all2_induct) auto

lemma int_arg_Inr: "int_arg key lo hi v = Inr r \<Longrightarrow> r = [] \<and> v = JNull \<or> r = [(key, v)] \<and> tb_int_in lo hi v"
  by (auto simp: int_arg_def split: if_splits)

lemma portfolio_leg_Inr:
  "portfolio_leg leg = Inr (n, b) \<Longrightarrow>
     0 < n \<and> as_pyint (leg_weight leg) = Some n \<and> jget b ''weightBps'' = Some (leg_weight leg)"
  by (auto simp: portfolio_leg_def Let_def and_then_Inr_iff jget_def split: option.splits if_splits)

section \<open>Batches\<close>

lemma batch_add_fst: "fst ` set (batch_add t bs) = insert (tx_chain_id t) (fst ` set bs)"
  by (induction t bs rule: batch_add.induct) auto

lemma batch_add_distinct: "distinct (map fst bs) \<Longrightarrow> distinct (map fst (batch_add t bs))"
proof (induction t bs rule: batch_add.induct)
  case (2 t c ts bs)
  then show ?case using batch_add_fst [of t bs] by (auto simp flip: image_set)
qed simp

lemma batch_add_map_of:
  "map_of (batch_add t bs) c =
     (if c = tx_chain_id t then Some ((case map_of bs c of None \<Rightarrow> [] | Some ts \<Rightarrow> ts) @ [t]) else map_of bs c)"
  by (induction t bs rule: batch_add.induct) auto

lemma batches_snoc: "batches (txs @ [t]) = batch_add t (batches txs)"
  by (simp add: batches_def)

lemma batches_Nil [simp]: "batches [] = []"
  by (simp add: batches_def)

lemma batches_distinct: "distinct (map fst (batches txs))"
  by (induction txs rule: rev_induct) (simp_all add: batches_snoc batch_add_distinct)

text \<open>The batch of a chain is that chain's transactions, in their order.\<close>

lemma batches_map_of:
  "map_of (batches txs) c =
     (case filter (\<lambda>t. tx_chain_id t = c) txs of [] \<Rightarrow> None | ts \<Rightarrow> Some ts)"
proof (induction txs rule: rev_induct)
  case (snoc t txs)
  then show ?case
    by (cases "filter (\<lambda>t. tx_chain_id t = c) txs") (auto simp: batches_snoc batch_add_map_of)
qed simp

lemma batches_chain: "(c, ts) \<in> set (batches txs) \<longleftrightarrow> ts = filter (\<lambda>t. tx_chain_id t = c) txs \<and> ts \<noteq> []"
proof -
  have "(c, ts) \<in> set (batches txs) \<longleftrightarrow> map_of (batches txs) c = Some ts"
    using batches_distinct by (metis map_of_eq_Some_iff)
  then show ?thesis by (auto simp: batches_map_of split: list.splits)
qed

section \<open>What reaches the wire\<close>

lemma send_refuses:
  assumes "Inl e \<in> set fs" and "\<And>e'. Inl e' \<in> set fs \<Longrightarrow> e' = Tx_builder_error"
  shows "send c post route fs = Inl Tx_builder_error"
proof -
  have "mapM (\<lambda>f. f) fs = Inl Tx_builder_error" using assms
  proof (induction fs)
    case (Cons f fs)
    then show ?case by (cases f) auto
  qed simp
  then show ?thesis by (simp add: send_def)
qed

lemma send_Inr:
  assumes "send c post route fs = Inr a"
  shows "\<exists>bs. list_all2 (\<lambda>f b. f = Inr b) fs bs \<and> route \<in> set ROUTES
    \<and> (\<exists>status reply. post (url_for c route) (with_chain (cl_chain_id c) bs) = Inr (status, reply)
        \<and> parse_envelope route status reply = Inr a)"
  using assms
  by (auto simp: send_def and_then_Inr_iff mapM_Inr_iff prepare_def transport_def split: if_splits sum.splits)

lemma checked_Inl: "checked k r = Inl e \<longleftrightarrow> r = Inl e"
  by (cases r) (simp_all add: checked_def)

lemma checked_Inr: "checked k r = Inr b \<longleftrightarrow> (\<exists>s. r = Inr s \<and> b = (k, JStr s))"
  by (cases r) (auto simp: checked_def)

text \<open>A reply that does not say \<open>success\<close> is a refusal, whatever its status.\<close>

lemma parse_envelope_failure:
  "\<not> truthy (jget_null payload ''success'') \<Longrightarrow> parse_envelope route status payload = Inl Tx_builder_error"
  by (simp add: parse_envelope_def)

end
