(* ===== verification/Payloads.thy ===== *)
theory Payloads
  imports RulesFacts TxBuilder
begin

text \<open>
  The parts of \<open>fund/service.py\<close> that hold no state: the topic of a chat pitch, the test for
  portfolio drafts, the bond section of a draft's reply and the two prepare payloads. A
  payload's \<open>missing\<close> list is kept as a list of reasons instead of prose.
\<close>

section \<open>The topic of a pitch\<close>

text \<open>
  \<open>_TICKER_RE.findall\<close>: a dollar sign, a letter and up to nine letters or digits, then a word
  boundary (the run must not go on, nor an underscore follow).
\<close>

function tickers :: "string \<Rightarrow> string list" where
  "tickers [] = []"
| "tickers (c # cs) =
     (let run = takeWhile is_alnum cs; rest = dropWhile is_alnum cs in
      if c = CHR ''$'' \<and> run \<noteq> [] \<and> is_alpha (hd run) \<and> length run \<le> 10
         \<and> \<not> (rest \<noteq> [] \<and> is_word_char (hd rest))
      then run # tickers rest else tickers cs)"
  by pat_completeness auto
termination
  by (relation "measure length") (auto simp: le_imp_less_Suc length_dropWhile_le)

text \<open>\<open>re.sub(r"@\w+", " ", text)\<close>\<close>

function sub_mentions :: "string \<Rightarrow> string" where
  "sub_mentions [] = []"
| "sub_mentions (c # cs) =
     (if c = CHR ''@'' \<and> takeWhile is_word_char cs \<noteq> []
      then CHR '' '' # sub_mentions (dropWhile is_word_char cs) else c # sub_mentions cs)"
  by pat_completeness auto
termination
  by (relation "measure length") (auto simp: le_imp_less_Suc length_dropWhile_le)

fun dedup_upper :: "string list \<Rightarrow> string list \<Rightarrow> string list" where
  "dedup_upper acc [] = acc"
| "dedup_upper acc (t # ts) = dedup_upper (if upper t \<in> set acc then acc else acc @ [upper t]) ts"

definition pitch_char :: "char \<Rightarrow> bool" where
  "pitch_char c \<longleftrightarrow> is_alnum c \<or> c \<in> set '' $#./+-''"

definition pitch_topic :: "string \<Rightarrow> string" where
  "pitch_topic text =
     (let ts = dedup_upper [] (tickers text) in
      if ts \<noteq> [] then join '' '' (take 4 ts) @ '' pitch''
      else
        let words = split_ws (sub_runs (\<lambda>c. \<not> pitch_char c) '' '' (sub_mentions text))
        in or_else (take 60 (join '' '' (take 6 words))) ''chat pitch'')"

section \<open>Portfolio drafts\<close>

definition execute_legs :: "proposal \<Rightarrow> leg list" where
  "execute_legs r = filter (\<lambda>l. l_phase l = ''execute'') (p_legs r)"

definition settle_legs :: "proposal \<Rightarrow> leg list" where
  "settle_legs r = filter (\<lambda>l. l_phase l = ''settle'') (p_legs r)"

definition is_portfolio :: "proposal \<Rightarrow> bool" where
  "is_portfolio r \<longleftrightarrow> execute_legs r \<noteq> []
     \<and> list_all (\<lambda>l. l_symbol l \<noteq> [] \<and> l_weight_bps l > 0) (execute_legs r)
     \<and> (\<Sum>l \<leftarrow> execute_legs r. l_weight_bps l) = 10000"

section \<open>The bond section\<close>

datatype bond_step = Read_balance | Swap_gap string int | Approve_exactly int string | Then_propose

record bond_section =
  bs_bond_value :: string
  bs_asset :: string
  bs_missing :: bool
  bs_quote :: string
  bs_approve :: string
  bs_balance :: "string option"
  bs_gap :: string
  bs_swap_first :: bool
  bs_steps :: "bond_step list"

text \<open>Without a quote only the first two fields and \<open>missing\<close> are set; the rest stays empty.\<close>

definition bond_section_of ::
  "fund_state \<Rightarrow> agent \<Rightarrow> int \<Rightarrow> int option \<Rightarrow> int option \<Rightarrow> bond_section" where
  "bond_section_of st a max_capital quote balance =
     (let policy = a_bond_policy a; v = str_int (required_bond_value max_capital policy);
          asset = f_asset (st_fund st)
      in case quote of
         None \<Rightarrow> \<lparr>bs_bond_value = v, bs_asset = asset, bs_missing = True, bs_quote = [], bs_approve = [],
           bs_balance = None, bs_gap = [], bs_swap_first = False, bs_steps = []\<rparr>
       | Some q \<Rightarrow>
           let plan = plan_bond q (case balance of None \<Rightarrow> 0 | Some b \<Rightarrow> b) policy;
               first = (case balance of
                   None \<Rightarrow> [Read_balance]
                 | Some _ \<Rightarrow> if swap_first plan then [Swap_gap (b_swap_gap_from policy) (bp_gap plan)] else [])
           in \<lparr>bs_bond_value = v, bs_asset = asset, bs_missing = False,
             bs_quote = str_int (bp_quote plan), bs_approve = str_int (bp_approve_amount plan),
             bs_balance = map_option str_int balance, bs_gap = str_int (bp_gap plan),
             bs_swap_first = swap_first plan,
             bs_steps = first @ [Approve_exactly (bp_approve_amount plan)
               (or_else (f_governor (st_fund st)) ''<governor>''), Then_propose]\<rparr>)"

section \<open>The prepare payloads\<close>

datatype missing = No_vault | No_strategy | No_metadata | No_duration | No_calldata nat | Builder_refused

record payload =
  py_route :: string
  py_url :: string
  py_ready :: bool
  py_missing :: "missing list"
  py_body :: json

definition make_payload :: "string \<Rightarrow> string \<Rightarrow> missing list \<Rightarrow> json \<Rightarrow> payload" where
  "make_payload base route missing body =
     \<lparr>py_route = route, py_url = base @ ''/prepare/'' @ route, py_ready = (missing = []),
      py_missing = missing, py_body = body\<rparr>"

text \<open>\<open>s or None\<close>\<close>

definition str_or_null :: "string \<Rightarrow> json" where
  "str_or_null s = (if s = [] then JNull else JStr s)"

definition portfolio_request :: "fund \<Rightarrow> proposal \<Rightarrow> string \<Rightarrow> string \<Rightarrow> portfolio_args" where
  "portfolio_request f r proposer uri =
     \<lparr>pf_vault = JStr (f_vault f), pf_proposer = JStr proposer,
      pf_legs = map (\<lambda>l. JObj [(''symbol'', JStr (l_symbol l)), (''weightBps'', JInt (l_weight_bps l))])
        (filter (\<lambda>l. l_phase l = ''execute'' \<and> l_symbol l \<noteq> []) (p_legs r)),
      pf_strategy_duration = (if p_strategy_duration r = 0 then JStr [] else JInt (p_strategy_duration r)),
      pf_max_capital = JStr (p_max_capital r), pf_max_capital_decimal = JNull,
      pf_metadata_uri = str_or_null uri,
      pf_name = (if uri \<noteq> [] then JNull
        else JStr (f_name f @ '': '' @ or_else (p_topic r) (take 40 (p_thesis r)))),
      pf_description = (if uri \<noteq> [] then JNull else JStr (p_thesis r)),
      pf_max_drawdown_bps = JInt (p_max_drawdown_bps r), pf_bond_buffer_bps = JNull, pf_salt = JNull,
      pf_chain_id = f_chain_id f, pf_fill_bond_buffer = JNull, pf_bond_swap_max_slippage_bps = JNull,
      pf_bond_swap_max_premium_bps = JInt 300, pf_allow_bond_swap_premium = JNull,
      pf_bond_swap_deadline_seconds = JInt 600,
      pf_quote_usd_per_wood = str_or_null (p_quote_usd_per_wood r),
      pf_max_drift_bps = (if p_quote_usd_per_wood r \<noteq> [] then JInt 500 else JNull)\<rparr>"

text \<open>\<open>except TxBuilderError\<close>: the refusal becomes a reason; any other exception goes on.\<close>

definition catch_builder :: "json result \<Rightarrow> json \<Rightarrow> (missing list \<times> json) result" where
  "catch_builder m body = (case m of
     Inl e \<Rightarrow> if e = Tx_builder_error then Inr ([Builder_refused], body) else Inl e
   | Inr b \<Rightarrow> Inr ([], b))"

definition portfolio_payload :: "string \<Rightarrow> fund \<Rightarrow> proposal \<Rightarrow> string \<Rightarrow> string \<Rightarrow> payload result" where
  "portfolio_payload base f r proposer uri =
     and_then (catch_builder (build_propose_portfolio_body (portfolio_request f r proposer uri)) (JObj []))
       (\<lambda>(missing, body). Inr (make_payload base ''propose-portfolio''
          (missing @ (if p_strategy_duration r \<le> 0 then [No_duration] else [])) body))"

definition call_of :: "leg \<Rightarrow> json" where
  "call_of l = JObj [(''target'', JStr (l_target l)), (''data'', JStr (l_data l)),
     (''value'', JStr (or_else (l_value l) ''0''))]"

fun no_calldata :: "nat \<Rightarrow> leg list \<Rightarrow> missing list" where
  "no_calldata i [] = []"
| "no_calldata i (l # ls) = (if has_call l then [] else [No_calldata i]) @ no_calldata (Suc i) ls"

definition propose_request :: "fund \<Rightarrow> proposal \<Rightarrow> string \<Rightarrow> string \<Rightarrow> propose_args" where
  "propose_request f r strategy uri =
     (let e = filter has_call (execute_legs r); s = filter has_call (settle_legs r) in
      \<lparr>pr_vault = JStr (f_vault f), pr_strategy = JStr strategy, pr_metadata_uri = JStr uri,
       pr_strategy_duration = JInt (p_strategy_duration r), pr_max_capital = JStr (p_max_capital r),
       pr_max_drawdown_bps = JInt (p_max_drawdown_bps r), pr_execute_calls = map call_of e,
       pr_execute_call_caps = map (JStr \<circ> l_cap) e, pr_settlement_calls = map call_of s,
       pr_settlement_call_caps = map (JStr \<circ> l_cap) s, pr_co_proposers = JNull,
       pr_chain_id = f_chain_id f\<rparr>)"

definition draft_body :: "propose_args \<Rightarrow> fund \<Rightarrow> proposal \<Rightarrow> json" where
  "draft_body a f r = JObj
     [(''chainId'', JInt (f_chain_id f)), (''vault'', pr_vault a), (''strategy'', pr_strategy a),
      (''metadataURI'', pr_metadata_uri a), (''strategyDuration'', JStr (str_int (p_strategy_duration r))),
      (''envelope'', JObj [(''maxCapital'', pr_max_capital a), (''maxDrawdownBps'', pr_max_drawdown_bps a)]),
      (''executeCalls'', JList (pr_execute_calls a)), (''executeCallCaps'', JList (pr_execute_call_caps a)),
      (''settlementCalls'', JList (pr_settlement_calls a)),
      (''settlementCallCaps'', JList (pr_settlement_call_caps a))]"

definition propose_missing :: "fund \<Rightarrow> proposal \<Rightarrow> string \<Rightarrow> string \<Rightarrow> missing list" where
  "propose_missing f r strategy uri =
     (if f_vault f = [] then [No_vault] else []) @ (if strategy = [] then [No_strategy] else [])
     @ (if uri = [] then [No_metadata] else []) @ (if p_strategy_duration r \<le> 0 then [No_duration] else [])
     @ no_calldata 0 (p_legs r)"

definition propose_payload :: "string \<Rightarrow> fund \<Rightarrow> proposal \<Rightarrow> string \<Rightarrow> string \<Rightarrow> payload result" where
  "propose_payload base f r strategy uri =
     (let missing = propose_missing f r strategy uri; a = propose_request f r strategy uri in
      and_then (if missing = [] then catch_builder (build_propose_body a) (draft_body a f r)
                else Inr (missing, draft_body a f r))
        (\<lambda>(m, body). Inr (make_payload base ''propose'' m body)))"

section \<open>Facts\<close>

lemma build_propose_body_Inl: "build_propose_body a = Inl e \<Longrightarrow> e = Tx_builder_error"
proof -
  have calls: "tb_calls cs = Inl e \<Longrightarrow> e = Tx_builder_error" for cs e
    unfolding tb_calls_def
  proof (induction cs)
    case (Cons c cs)
    have "tb_call c = Inl e' \<Longrightarrow> e' = Tx_builder_error" for e'
      by (cases "jget_null c ''data''")
        (auto simp: tb_call_def and_then_def split: if_splits sum.splits dest: tb_addr_Inl tb_uint_Inl)
    with Cons show ?case by (auto simp: and_then_def split: sum.splits)
  qed simp
  have uints: "mapM (tb_uint False) cs = Inl e \<Longrightarrow> e = Tx_builder_error" for cs e
    by (induction cs) (auto simp: and_then_def split: sum.splits dest: tb_uint_Inl)
  have ipfs: "tb_ipfs v = Inl e \<Longrightarrow> e = Tx_builder_error" for v e
    by (auto simp: tb_ipfs_def split: json.splits if_splits)
  assume "build_propose_body a = Inl e"
  then show ?thesis
    by (auto simp: build_propose_body_def and_then_def
        split: if_splits sum.splits dest: tb_addr_Inl tb_uint_Inl calls uints ipfs)
qed

lemma propose_payload_total: "\<exists>p. propose_payload base f r strategy uri = Inr p"
  by (auto simp: propose_payload_def Let_def catch_builder_def and_then_def
      split: sum.splits dest: build_propose_body_Inl)

lemma text_of_JStr [simp]: "text_of (JStr s) = Inr s" "text_of (JInt i) = Inr (str_int i)"
  by (simp_all add: text_of_def)

text \<open>What the portfolio route needs of a draft, as one condition.\<close>

definition portfolio_legs_of :: "proposal \<Rightarrow> leg list" where
  "portfolio_legs_of r = filter (\<lambda>l. l_phase l = ''execute'' \<and> l_symbol l \<noteq> []) (p_legs r)"

definition uri_ok :: "string \<Rightarrow> bool" where
  "uri_ok uri \<longleftrightarrow> startswith ''ipfs://'' uri \<and> 7 < length uri"

definition portfolio_ready :: "fund \<Rightarrow> proposal \<Rightarrow> string \<Rightarrow> string \<Rightarrow> bool" where
  "portfolio_ready f r proposer uri \<longleftrightarrow>
     1 \<le> length (portfolio_legs_of r) \<and> length (portfolio_legs_of r) \<le> 20
     \<and> (\<forall>l \<in> set (portfolio_legs_of r). 0 < l_weight_bps l)
     \<and> (\<Sum>l \<leftarrow> portfolio_legs_of r. l_weight_bps l) = 10000
     \<and> address_re (f_vault f) \<and> address_re proposer \<and> POS_UINT_RE (p_max_capital r)
     \<and> (uri = [] \<or> uri_ok uri) \<and> 0 \<le> p_max_drawdown_bps r \<and> p_max_drawdown_bps r \<le> 10000
     \<and> (p_quote_usd_per_wood r = [] \<or> quote_re (p_quote_usd_per_wood r))"

definition symbol_leg :: "leg \<Rightarrow> json" where
  "symbol_leg l = JObj [(''symbol'', JStr (l_symbol l)), (''weightBps'', JInt (l_weight_bps l))]"

lemma portfolio_leg_symbol:
  assumes "l_symbol l \<noteq> []"
  shows "portfolio_leg (symbol_leg l) =
    (if l_weight_bps l \<le> 0 then Inl Tx_builder_error
     else Inr (l_weight_bps l, JObj [(''weightBps'', JInt (l_weight_bps l)), (''symbol'', JStr (upper (l_symbol l)))]))"
  using assms by (simp add: portfolio_leg_def symbol_leg_def leg_weight_def jget_def jget_null_def)

lemma mapM_symbol_legs:
  assumes "\<forall>l \<in> set ls. l_symbol l \<noteq> []"
  shows "mapM portfolio_leg (map symbol_leg ls) =
    (if \<forall>l \<in> set ls. 0 < l_weight_bps l
     then Inr (map (\<lambda>l. (l_weight_bps l, JObj [(''weightBps'', JInt (l_weight_bps l)),
       (''symbol'', JStr (upper (l_symbol l)))])) ls)
     else Inl Tx_builder_error)"
  using assms by (induction ls) (auto simp: portfolio_leg_symbol)

lemma portfolio_request_args:
  "capital_arg (portfolio_request f r proposer uri) =
     (if POS_UINT_RE (p_max_capital r) then Inr (''maxCapital'', JStr (p_max_capital r)) else Inl Tx_builder_error)"
  "\<exists>m. metadata_arg (portfolio_request f r proposer uri) =
     (if uri = [] \<or> uri_ok uri then Inr m else Inl Tx_builder_error)"
  "\<exists>q. quote_arg (portfolio_request f r proposer uri) =
     (if p_quote_usd_per_wood r = [] \<or> quote_re (p_quote_usd_per_wood r) then Inr q else Inl Tx_builder_error)"
  by (auto simp: capital_arg_def metadata_arg_def quote_arg_def portfolio_request_def str_or_null_def
      tb_uint_def tb_ipfs_def uri_ok_def)

lemma portfolio_request_fields:
  "pf_vault (portfolio_request f r proposer uri) = JStr (f_vault f)"
  "pf_proposer (portfolio_request f r proposer uri) = JStr proposer"
  "pf_legs (portfolio_request f r proposer uri) = map symbol_leg (portfolio_legs_of r)"
  "(pf_max_capital (portfolio_request f r proposer uri) = JNull) \<noteq>
     (pf_max_capital_decimal (portfolio_request f r proposer uri) = JNull)"
  "(pf_metadata_uri (portfolio_request f r proposer uri) = JNull) \<noteq>
     (pf_name (portfolio_request f r proposer uri) = JNull)"
  "\<exists>d. text_of (pf_strategy_duration (portfolio_request f r proposer uri)) = Inr d"
  "pf_max_drawdown_bps (portfolio_request f r proposer uri) = JInt (p_max_drawdown_bps r)"
  "pf_bond_buffer_bps (portfolio_request f r proposer uri) = JNull"
  "pf_bond_swap_max_slippage_bps (portfolio_request f r proposer uri) = JNull"
  "pf_bond_swap_max_premium_bps (portfolio_request f r proposer uri) = JInt 300"
  "pf_bond_swap_deadline_seconds (portfolio_request f r proposer uri) = JInt 600"
  "\<exists>d. int_arg ''maxDriftBps'' 1 5000 (pf_max_drift_bps (portfolio_request f r proposer uri)) = Inr d"
  by (auto simp: portfolio_request_def symbol_leg_def portfolio_legs_of_def str_or_null_def int_arg_def tb_int_in_def)

lemma portfolio_body_cases:
  "if portfolio_ready f r proposer uri
   then (\<exists>b. build_propose_portfolio_body (portfolio_request f r proposer uri) = Inr b)
   else build_propose_portfolio_body (portfolio_request f r proposer uri) = Inl Tx_builder_error"
proof -
  note a = portfolio_request_args [of f r proposer uri]
  note fs = portfolio_request_fields [of f r proposer uri]
  let ?a = "portfolio_request f r proposer uri"
  have sym: "\<forall>l \<in> set (portfolio_legs_of r). l_symbol l \<noteq> []" by (simp add: portfolio_legs_of_def)
  obtain m q d e where e: "metadata_arg ?a = (if uri = [] \<or> uri_ok uri then Inr m else Inl Tx_builder_error)"
    "quote_arg ?a = (if p_quote_usd_per_wood r = [] \<or> quote_re (p_quote_usd_per_wood r) then Inr q else Inl Tx_builder_error)"
    "text_of (pf_strategy_duration ?a) = Inr d"
    "int_arg ''maxDriftBps'' 1 5000 (pf_max_drift_bps ?a) = Inr e"
    using a(2,3) fs(6,12) by blast
  have dd: "int_arg ''maxDrawdownBps'' 0 10000 (JInt n) =
      (if 0 \<le> n \<and> n \<le> 10000 then Inr [(''maxDrawdownBps'', JInt n)] else Inl Tx_builder_error)" for n
    by (simp add: int_arg_def tb_int_in_def)
  have const: "int_arg k lo hi JNull = Inr []"
    "int_arg ''bondSwapMaxPremiumBps'' 0 5000 (JInt 300) = Inr [(''bondSwapMaxPremiumBps'', JInt 300)]"
    "int_arg ''bondSwapDeadlineSeconds'' 60 3600 (JInt 600) = Inr [(''bondSwapDeadlineSeconds'', JInt 600)]" for k lo hi
    by (simp_all add: int_arg_def tb_int_in_def)
  have addr: "tb_addr (JStr s) = (if address_re s then Inr s else Inl Tx_builder_error)" for s
    by (simp add: tb_addr_def)
  show ?thesis
    unfolding build_propose_portfolio_body_def portfolio_ready_def
    using fs(4,5)
    by (auto simp: fs(1-3,7-11) mapM_symbol_legs [OF sym] comp_def a(1) e dd const addr)
qed

lemma portfolio_payload_total:
  "\<exists>p. portfolio_payload base f r proposer uri = Inr p
     \<and> (py_ready p \<longleftrightarrow> portfolio_ready f r proposer uri \<and> 0 < p_strategy_duration r)"
  using portfolio_body_cases [of f r proposer uri]
  by (auto simp: portfolio_payload_def catch_builder_def make_payload_def split: if_splits)

lemma is_portfolio_legs:
  "is_portfolio r \<Longrightarrow> portfolio_legs_of r = execute_legs r"
  by (auto simp: is_portfolio_def portfolio_legs_of_def execute_legs_def list_all_iff intro: filter_cong)

end
