(* ===== verification/ModelsJson.thy ===== *)
theory ModelsJson
  imports Models Json
begin

text \<open>
  How the fund state travels through JSON: \<open>to_dict\<close> (\<open>dataclasses.asdict\<close>) and the
  \<open>from_dict\<close> of every record, with its defaults, its coercions and its tolerance of unknown
  keys. \<open>None\<close> is a load that raises, or a field whose JSON type is not the field's (Python would
  keep the value unchecked; the typed record cannot). The round trips show that what a write
  stores, a read gives back, for every record.
\<close>

definition fund_to_dict :: "fund \<Rightarrow> json" where
  "fund_to_dict f = JObj
    [(''name'', JStr (f_name f)),
     (''vault'', JStr (f_vault f)),
     (''governor'', JStr (f_governor f)),
     (''chain_id'', JInt (f_chain_id f)),
     (''asset'', JStr (f_asset f)),
     (''host'', JStr (f_host f)),
     (''host_telegram_id'', JStr (f_host_telegram_id f)),
     (''telegram_chat_id'', JStr (f_telegram_chat_id f)),
     (''voting_period'', JInt (f_voting_period f)),
     (''veto_threshold_bps'', JInt (f_veto_threshold_bps f)),
     (''mode'', JStr (f_mode f)),
     (''max_capital'', j_opt JStr (f_max_capital f)),
     (''max_drawdown_bps'', j_opt JInt (f_max_drawdown_bps f)),
     (''agent_fee_bps'', j_opt JInt (f_agent_fee_bps f)),
     (''cooldown_period'', JInt (f_cooldown_period f)),
     (''cooldown_until'', j_opt JNum (f_cooldown_until f)),
     (''created_at'', JNum (f_created_at f))]"

definition fund_from_dict :: "json \<Rightarrow> fund option" where
  "fund_from_dict j = (case j of
     JObj o' \<Rightarrow> do {
       v_name \<leftarrow> fld as_str None o' ''name'';
       v_vault \<leftarrow> fld as_str (Some []) o' ''vault'';
       v_governor \<leftarrow> fld as_str (Some []) o' ''governor'';
       v_chain_id \<leftarrow> fld as_int (Some CHAIN_ID_ROBINHOOD) o' ''chain_id'';
       v_asset \<leftarrow> fld as_str (Some ''USDG'') o' ''asset'';
       v_host \<leftarrow> fld as_str (Some []) o' ''host'';
       v_host_telegram_id \<leftarrow> fld str_not_null (Some []) o' ''host_telegram_id'';
       v_telegram_chat_id \<leftarrow> fld str_not_null (Some []) o' ''telegram_chat_id'';
       v_voting_period \<leftarrow> fld as_int (Some DEFAULT_VOTING_PERIOD_SECONDS) o' ''voting_period'';
       v_veto_threshold_bps \<leftarrow> fld as_int (Some DEFAULT_VETO_THRESHOLD_BPS) o' ''veto_threshold_bps'';
       v_mode \<leftarrow> fld as_str (Some ''host'') o' ''mode'';
       v_max_capital \<leftarrow> fld (as_opt py_str) (Some None) o' ''max_capital'';
       v_max_drawdown_bps \<leftarrow> fld opt_int (Some None) o' ''max_drawdown_bps'';
       v_agent_fee_bps \<leftarrow> fld opt_int (Some None) o' ''agent_fee_bps'';
       v_cooldown_period \<leftarrow> fld as_int (Some DEFAULT_COOLDOWN_SECONDS) o' ''cooldown_period'';
       v_cooldown_until \<leftarrow> fld (as_opt json_float) (Some None) o' ''cooldown_until'';
       v_created_at \<leftarrow> fld as_time (Some 0) o' ''created_at'';
       Some \<lparr>f_name = v_name, f_vault = v_vault, f_governor = v_governor, f_chain_id =
            v_chain_id, f_asset = v_asset, f_host = v_host, f_host_telegram_id =
            v_host_telegram_id, f_telegram_chat_id = v_telegram_chat_id, f_voting_period =
            v_voting_period, f_veto_threshold_bps = v_veto_threshold_bps, f_mode = v_mode,
            f_max_capital = v_max_capital, f_max_drawdown_bps = v_max_drawdown_bps,
            f_agent_fee_bps = v_agent_fee_bps, f_cooldown_period = v_cooldown_period,
            f_cooldown_until = v_cooldown_until, f_created_at = v_created_at\<rparr>}
   | _ \<Rightarrow> None)"

lemma fund_roundtrip [simp]: "fund_from_dict (fund_to_dict f) = Some f"
  by (simp add: fund_from_dict_def fund_to_dict_def)

definition member_to_dict :: "member \<Rightarrow> json" where
  "member_to_dict m = JObj
    [(''telegram_id'', JStr (m_telegram_id m)),
     (''address'', JStr (m_address m)),
     (''approved'', JBool (m_approved m)),
     (''joined_at'', JNum (m_joined_at m)),
     (''member_no'', j_opt JInt (m_member_no m)),
     (''deposit_no'', j_opt JInt (m_deposit_no m)),
     (''approved_at'', j_opt JNum (m_approved_at m)),
     (''approve_tx'', JStr (m_approve_tx m)),
     (''username'', JStr (m_username m))]"

definition member_from_dict :: "json \<Rightarrow> member option" where
  "member_from_dict j = (case j of
     JObj o' \<Rightarrow> do {
       v_telegram_id \<leftarrow> fld py_str (Some []) o' ''telegram_id'';
       v_address \<leftarrow> fld as_str (Some []) o' ''address'';
       v_approved \<leftarrow> fld as_bool (Some False) o' ''approved'';
       v_joined_at \<leftarrow> fld as_time (Some 0) o' ''joined_at'';
       v_member_no \<leftarrow> fld (as_opt as_int) (Some None) o' ''member_no'';
       v_deposit_no \<leftarrow> fld (as_opt as_int) (Some None) o' ''deposit_no'';
       v_approved_at \<leftarrow> fld (as_opt as_time) (Some None) o' ''approved_at'';
       v_approve_tx \<leftarrow> fld as_str (Some []) o' ''approve_tx'';
       v_username \<leftarrow> fld as_str (Some []) o' ''username'';
       Some \<lparr>m_telegram_id = v_telegram_id, m_address = v_address, m_approved = v_approved,
            m_joined_at = v_joined_at, m_member_no = v_member_no, m_deposit_no =
            v_deposit_no, m_approved_at = v_approved_at, m_approve_tx = v_approve_tx,
            m_username = v_username\<rparr>}
   | _ \<Rightarrow> None)"

lemma member_roundtrip [simp]: "member_from_dict (member_to_dict m) = Some m"
  by (simp add: member_from_dict_def member_to_dict_def)

definition bond_policy_to_dict :: "bond_policy \<Rightarrow> json" where
  "bond_policy_to_dict b = JObj
    [(''bond_bps'', JInt (b_bond_bps b)),
     (''approve_buffer_bps'', JInt (b_approve_buffer_bps b)),
     (''requote_drift_bps'', JInt (b_requote_drift_bps b)),
     (''swap_gap_from'', JStr (b_swap_gap_from b))]"

definition bond_policy_from_dict :: "json \<Rightarrow> bond_policy option" where
  "bond_policy_from_dict j = (case j of
     JObj o' \<Rightarrow> do {
       v_bond_bps \<leftarrow> fld as_int (Some 100) o' ''bond_bps'';
       v_approve_buffer_bps \<leftarrow> fld as_int (Some 500) o' ''approve_buffer_bps'';
       v_requote_drift_bps \<leftarrow> fld as_int (Some 500) o' ''requote_drift_bps'';
       v_swap_gap_from \<leftarrow> fld as_str (Some ''USDG'') o' ''swap_gap_from'';
       Some \<lparr>b_bond_bps = v_bond_bps, b_approve_buffer_bps = v_approve_buffer_bps,
            b_requote_drift_bps = v_requote_drift_bps, b_swap_gap_from = v_swap_gap_from\<rparr>}
   | _ \<Rightarrow> None)"

lemma bond_policy_roundtrip [simp]: "bond_policy_from_dict (bond_policy_to_dict b) = Some b"
  by (simp add: bond_policy_from_dict_def bond_policy_to_dict_def)

text \<open>\<open>BondPolicy.from_dict(raw.get("bond_policy"))\<close>, with \<open>raw or {}\<close>\<close>

definition bond_policy_or_default :: "json \<Rightarrow> bond_policy option" where
  "bond_policy_or_default j = (if \<not> truthy j then Some new_bond_policy else bond_policy_from_dict j)"

lemma bond_policy_or_default_roundtrip [simp]:
  "bond_policy_or_default (bond_policy_to_dict b) = Some b"
proof -
  have "truthy (bond_policy_to_dict b)" by (simp add: bond_policy_to_dict_def)
  then show ?thesis by (simp add: bond_policy_or_default_def)
qed

definition agent_to_dict :: "agent \<Rightarrow> json" where
  "agent_to_dict a = JObj
    [(''name'', JStr (a_name a)),
     (''identity_id'', JStr (a_identity_id a)),
     (''address'', JStr (a_address a)),
     (''role'', JStr (a_role a)),
     (''approved'', JBool (a_approved a)),
     (''registered'', JBool (a_registered a)),
     (''bond_policy'', bond_policy_to_dict (a_bond_policy a)),
     (''owner_telegram_id'', JStr (a_owner_telegram_id a)),
     (''requested_at'', JNum (a_requested_at a)),
     (''approved_at'', j_opt JNum (a_approved_at a)),
     (''registered_at'', j_opt JNum (a_registered_at a)),
     (''register_tx'', JStr (a_register_tx a)),
     (''removed'', JBool (a_removed a)),
     (''removed_at'', j_opt JNum (a_removed_at a))]"

definition agent_from_dict :: "json \<Rightarrow> agent option" where
  "agent_from_dict j = (case j of
     JObj o' \<Rightarrow> do {
       v_name \<leftarrow> fld as_str None o' ''name'';
       v_identity_id \<leftarrow> fld py_str (Some []) o' ''identity_id'';
       v_address \<leftarrow> fld as_str (Some []) o' ''address'';
       v_role \<leftarrow> fld as_str (Some ''guest'') o' ''role'';
       v_approved \<leftarrow> fld as_bool (Some False) o' ''approved'';
       v_registered \<leftarrow> fld as_bool (Some False) o' ''registered'';
       v_bond_policy \<leftarrow> fld bond_policy_or_default (Some new_bond_policy) o' ''bond_policy'';
       v_owner_telegram_id \<leftarrow> fld as_str (Some []) o' ''owner_telegram_id'';
       v_requested_at \<leftarrow> fld as_time (Some 0) o' ''requested_at'';
       v_approved_at \<leftarrow> fld (as_opt as_time) (Some None) o' ''approved_at'';
       v_registered_at \<leftarrow> fld (as_opt as_time) (Some None) o' ''registered_at'';
       v_register_tx \<leftarrow> fld as_str (Some []) o' ''register_tx'';
       v_removed \<leftarrow> fld as_bool (Some False) o' ''removed'';
       v_removed_at \<leftarrow> fld (as_opt as_time) (Some None) o' ''removed_at'';
       Some \<lparr>a_name = v_name, a_identity_id = v_identity_id, a_address = v_address, a_role =
            v_role, a_approved = v_approved, a_registered = v_registered, a_bond_policy =
            v_bond_policy, a_owner_telegram_id = v_owner_telegram_id, a_requested_at =
            v_requested_at, a_approved_at = v_approved_at, a_registered_at =
            v_registered_at, a_register_tx = v_register_tx, a_removed = v_removed,
            a_removed_at = v_removed_at\<rparr>}
   | _ \<Rightarrow> None)"

lemma agent_roundtrip [simp]: "agent_from_dict (agent_to_dict a) = Some a"
  by (simp add: agent_from_dict_def agent_to_dict_def)

definition claim_to_dict :: "claim \<Rightarrow> json" where
  "claim_to_dict c = JObj
    [(''agent'', JStr (c_agent c)),
     (''topic'', JStr (c_topic c)),
     (''expires_at'', JNum (c_expires_at c)),
     (''created_at'', JNum (c_created_at c)),
     (''idea_by'', JStr (c_idea_by c)),
     (''pitch'', JStr (c_pitch c)),
     (''chat_id'', JStr (c_chat_id c)),
     (''source_message_id'', j_opt JInt (c_source_message_id c))]"

definition claim_from_dict :: "json \<Rightarrow> claim option" where
  "claim_from_dict j = (case j of
     JObj o' \<Rightarrow> do {
       v_agent \<leftarrow> fld as_str None o' ''agent'';
       v_topic \<leftarrow> fld as_str None o' ''topic'';
       v_expires_at \<leftarrow> fld as_time None o' ''expires_at'';
       v_created_at \<leftarrow> fld as_time (Some 0) o' ''created_at'';
       v_idea_by \<leftarrow> fld as_str (Some []) o' ''idea_by'';
       v_pitch \<leftarrow> fld as_str (Some []) o' ''pitch'';
       v_chat_id \<leftarrow> fld as_str (Some []) o' ''chat_id'';
       v_source_message_id \<leftarrow> fld (as_opt as_int) (Some None) o' ''source_message_id'';
       Some \<lparr>c_agent = v_agent, c_topic = v_topic, c_expires_at = v_expires_at, c_created_at
            = v_created_at, c_idea_by = v_idea_by, c_pitch = v_pitch, c_chat_id = v_chat_id,
            c_source_message_id = v_source_message_id\<rparr>}
   | _ \<Rightarrow> None)"

lemma claim_roundtrip [simp]: "claim_from_dict (claim_to_dict c) = Some c"
  by (simp add: claim_from_dict_def claim_to_dict_def)

definition leg_to_dict :: "leg \<Rightarrow> json" where
  "leg_to_dict l = JObj
    [(''summary'', JStr (l_summary l)),
     (''kind'', JStr (l_kind l)),
     (''phase'', JStr (l_phase l)),
     (''target'', JStr (l_target l)),
     (''data'', JStr (l_data l)),
     (''value'', JStr (l_value l)),
     (''cap'', JStr (l_cap l)),
     (''amount'', JStr (l_amount l)),
     (''symbol'', JStr (l_symbol l)),
     (''weight_bps'', JInt (l_weight_bps l))]"

definition leg_from_dict :: "json \<Rightarrow> leg option" where
  "leg_from_dict j = (case j of
     JObj o' \<Rightarrow> do {
       v_summary \<leftarrow> fld as_str (Some []) o' ''summary'';
       v_kind \<leftarrow> fld as_str (Some ''call'') o' ''kind'';
       v_phase \<leftarrow> fld as_str (Some ''execute'') o' ''phase'';
       v_target \<leftarrow> fld as_str (Some []) o' ''target'';
       v_data \<leftarrow> fld as_str (Some []) o' ''data'';
       v_value \<leftarrow> fld str_not_null (Some ''0'') o' ''value'';
       v_cap \<leftarrow> fld str_not_null (Some ''0'') o' ''cap'';
       v_amount \<leftarrow> fld str_not_null (Some []) o' ''amount'';
       v_symbol \<leftarrow> fld as_str (Some []) o' ''symbol'';
       v_weight_bps \<leftarrow> fld json_int (Some 0) o' ''weight_bps'';
       Some \<lparr>l_summary = v_summary, l_kind = v_kind, l_phase = v_phase, l_target = v_target,
            l_data = v_data, l_value = v_value, l_cap = v_cap, l_amount = v_amount, l_symbol
            = v_symbol, l_weight_bps = v_weight_bps\<rparr>}
   | JStr s \<Rightarrow> Some (new_leg s)
   | _ \<Rightarrow> None)"

lemma leg_roundtrip [simp]: "leg_from_dict (leg_to_dict l) = Some l"
  by (simp add: leg_from_dict_def leg_to_dict_def)

definition review_to_dict :: "review \<Rightarrow> json" where
  "review_to_dict rv = JObj
    [(''agent'', JStr (rv_agent rv)),
     (''verdict'', JStr (rv_verdict rv)),
     (''note'', JStr (rv_note rv)),
     (''at'', JNum (rv_at rv))]"

definition review_from_dict :: "json \<Rightarrow> review option" where
  "review_from_dict j = (case j of
     JObj o' \<Rightarrow> do {
       v_agent \<leftarrow> fld as_str None o' ''agent'';
       v_verdict \<leftarrow> fld as_str None o' ''verdict'';
       v_note \<leftarrow> fld as_str (Some []) o' ''note'';
       v_at \<leftarrow> fld as_time (Some 0) o' ''at'';
       Some \<lparr>rv_agent = v_agent, rv_verdict = v_verdict, rv_note = v_note, rv_at = v_at\<rparr>}
   | _ \<Rightarrow> None)"

lemma review_roundtrip [simp]: "review_from_dict (review_to_dict rv) = Some rv"
  by (simp add: review_from_dict_def review_to_dict_def)

definition as_status :: "json \<Rightarrow> pstatus option" where
  "as_status j = (case j of JStr s \<Rightarrow> parse_status s | _ \<Rightarrow> None)"

lemma as_status_str [simp]: "as_status (JStr (status_str s)) = Some s"
  by (simp add: as_status_def)

definition proposal_to_dict :: "proposal \<Rightarrow> json" where
  "proposal_to_dict p = JObj
    [(''id'', JStr (p_id p)),
     (''proposer_agent'', JStr (p_proposer_agent p)),
     (''thesis'', JStr (p_thesis p)),
     (''legs'', j_list leg_to_dict (p_legs p)),
     (''max_capital'', JStr (p_max_capital p)),
     (''max_drawdown_bps'', JInt (p_max_drawdown_bps p)),
     (''bond_wood'', JStr (p_bond_wood p)),
     (''status'', JStr (status_str (p_status p))),
     (''governor'', JStr (p_governor p)),
     (''topic'', JStr (p_topic p)),
     (''onchain_id'', j_opt JInt (p_onchain_id p)),
     (''propose_tx'', JStr (p_propose_tx p)),
     (''strategy_duration'', JInt (p_strategy_duration p)),
     (''backers'', j_list JStr (p_backers p)),
     (''objectors'', j_list JStr (p_objectors p)),
     (''reviews'', j_list review_to_dict (p_reviews p)),
     (''idea_by'', JStr (p_idea_by p)),
     (''card_message_id'', JStr (p_card_message_id p)),
     (''voting_ends_at'', j_opt JNum (p_voting_ends_at p)),
     (''against_bps'', JInt (p_against_bps p)),
     (''review_ends_at'', j_opt JNum (p_review_ends_at p)),
     (''guardian_coverage'', JStr (p_guardian_coverage p)),
     (''chain_synced_at'', j_opt JNum (p_chain_synced_at p)),
     (''pitch_message_id'', j_opt JInt (p_pitch_message_id p)),
     (''quote_usd_per_wood'', JStr (p_quote_usd_per_wood p)),
     (''bond_buffer_status'', JStr (p_bond_buffer_status p)),
     (''bond_buffer_note'', JStr (p_bond_buffer_note p)),
     (''shipped_at'', j_opt JNum (p_shipped_at p)),
     (''shipped_by'', JStr (p_shipped_by p)),
     (''created_at'', JNum (p_created_at p)),
     (''updated_at'', JNum (p_updated_at p))]"

definition proposal_from_dict :: "json \<Rightarrow> proposal option" where
  "proposal_from_dict j = (case j of
     JObj o' \<Rightarrow> do {
       v_id \<leftarrow> fld as_str None o' ''id'';
       v_proposer_agent \<leftarrow> fld as_str None o' ''proposer_agent'';
       v_thesis \<leftarrow> fld as_str None o' ''thesis'';
       v_legs \<leftarrow> fld (as_list leg_from_dict) (Some []) o' ''legs'';
       v_max_capital \<leftarrow> fld py_str (Some ''0'') o' ''max_capital'';
       v_max_drawdown_bps \<leftarrow> fld as_int (Some 0) o' ''max_drawdown_bps'';
       v_bond_wood \<leftarrow> fld py_str (Some ''0'') o' ''bond_wood'';
       v_status \<leftarrow> fld as_status (Some Draft) o' ''status'';
       v_governor \<leftarrow> fld as_str (Some []) o' ''governor'';
       v_topic \<leftarrow> fld as_str (Some []) o' ''topic'';
       v_onchain_id \<leftarrow> fld opt_int (Some None) o' ''onchain_id'';
       v_propose_tx \<leftarrow> fld as_str (Some []) o' ''propose_tx'';
       v_strategy_duration \<leftarrow> fld as_int (Some 0) o' ''strategy_duration'';
       v_backers \<leftarrow> fld (as_list py_str) (Some []) o' ''backers'';
       v_objectors \<leftarrow> fld (as_list py_str) (Some []) o' ''objectors'';
       v_reviews \<leftarrow> fld (as_list review_from_dict) (Some []) o' ''reviews'';
       v_idea_by \<leftarrow> fld as_str (Some []) o' ''idea_by'';
       v_card_message_id \<leftarrow> fld as_str (Some []) o' ''card_message_id'';
       v_voting_ends_at \<leftarrow> fld (as_opt as_time) (Some None) o' ''voting_ends_at'';
       v_against_bps \<leftarrow> fld json_int (Some 0) o' ''against_bps'';
       v_review_ends_at \<leftarrow> fld (as_opt as_time) (Some None) o' ''review_ends_at'';
       v_guardian_coverage \<leftarrow> fld as_str (Some []) o' ''guardian_coverage'';
       v_chain_synced_at \<leftarrow> fld (as_opt as_time) (Some None) o' ''chain_synced_at'';
       v_pitch_message_id \<leftarrow> fld opt_int (Some None) o' ''pitch_message_id'';
       v_quote_usd_per_wood \<leftarrow> fld as_str (Some []) o' ''quote_usd_per_wood'';
       v_bond_buffer_status \<leftarrow> fld as_str (Some []) o' ''bond_buffer_status'';
       v_bond_buffer_note \<leftarrow> fld as_str (Some []) o' ''bond_buffer_note'';
       v_shipped_at \<leftarrow> fld (as_opt as_time) (Some None) o' ''shipped_at'';
       v_shipped_by \<leftarrow> fld as_str (Some []) o' ''shipped_by'';
       v_created_at \<leftarrow> fld as_time (Some 0) o' ''created_at'';
       v_updated_at \<leftarrow> fld as_time (Some 0) o' ''updated_at'';
       Some \<lparr>p_id = v_id, p_proposer_agent = v_proposer_agent, p_thesis = v_thesis, p_legs =
            v_legs, p_max_capital = v_max_capital, p_max_drawdown_bps = v_max_drawdown_bps,
            p_bond_wood = v_bond_wood, p_status = v_status, p_governor = v_governor, p_topic
            = v_topic, p_onchain_id = v_onchain_id, p_propose_tx = v_propose_tx,
            p_strategy_duration = v_strategy_duration, p_backers = v_backers, p_objectors =
            v_objectors, p_reviews = v_reviews, p_idea_by = v_idea_by, p_card_message_id =
            v_card_message_id, p_voting_ends_at = v_voting_ends_at, p_against_bps =
            v_against_bps, p_review_ends_at = v_review_ends_at, p_guardian_coverage =
            v_guardian_coverage, p_chain_synced_at = v_chain_synced_at, p_pitch_message_id =
            v_pitch_message_id, p_quote_usd_per_wood = v_quote_usd_per_wood,
            p_bond_buffer_status = v_bond_buffer_status, p_bond_buffer_note =
            v_bond_buffer_note, p_shipped_at = v_shipped_at, p_shipped_by = v_shipped_by,
            p_created_at = v_created_at, p_updated_at = v_updated_at\<rparr>}
   | _ \<Rightarrow> None)"

lemma proposal_roundtrip [simp]: "proposal_from_dict (proposal_to_dict p) = Some p"
  by (simp add: proposal_from_dict_def proposal_to_dict_def)

definition receipt_to_dict :: "receipt \<Rightarrow> json" where
  "receipt_to_dict x = JObj
    [(''proposal_id'', JStr (r_proposal_id x)),
     (''agent'', JStr (r_agent x)),
     (''asset'', JStr (r_asset x)),
     (''pnl'', JStr (r_pnl x)),
     (''pnl_bps'', JInt (r_pnl_bps x)),
     (''tx_hash'', JStr (r_tx_hash x)),
     (''onchain_id'', j_opt JInt (r_onchain_id x)),
     (''idea_by'', JStr (r_idea_by x)),
     (''thesis'', JStr (r_thesis x)),
     (''settled_at'', JNum (r_settled_at x))]"

definition receipt_from_dict :: "json \<Rightarrow> receipt option" where
  "receipt_from_dict j = (case j of
     JObj o' \<Rightarrow> do {
       v_proposal_id \<leftarrow> fld as_str None o' ''proposal_id'';
       v_agent \<leftarrow> fld as_str None o' ''agent'';
       v_asset \<leftarrow> fld as_str None o' ''asset'';
       v_pnl \<leftarrow> fld py_str (Some ''0'') o' ''pnl'';
       v_pnl_bps \<leftarrow> fld as_int (Some 0) o' ''pnl_bps'';
       v_tx_hash \<leftarrow> fld as_str (Some []) o' ''tx_hash'';
       v_onchain_id \<leftarrow> fld opt_int (Some None) o' ''onchain_id'';
       v_idea_by \<leftarrow> fld as_str (Some []) o' ''idea_by'';
       v_thesis \<leftarrow> fld as_str (Some []) o' ''thesis'';
       v_settled_at \<leftarrow> fld as_time (Some 0) o' ''settled_at'';
       Some \<lparr>r_proposal_id = v_proposal_id, r_agent = v_agent, r_asset = v_asset, r_pnl =
            v_pnl, r_pnl_bps = v_pnl_bps, r_tx_hash = v_tx_hash, r_onchain_id =
            v_onchain_id, r_idea_by = v_idea_by, r_thesis = v_thesis, r_settled_at =
            v_settled_at\<rparr>}
   | _ \<Rightarrow> None)"

lemma receipt_roundtrip [simp]: "receipt_from_dict (receipt_to_dict x) = Some x"
  by (simp add: receipt_from_dict_def receipt_to_dict_def)

definition fund_state_to_dict :: "fund_state \<Rightarrow> json" where
  "fund_state_to_dict st = JObj
    [(''fund'', fund_to_dict (st_fund st)),
     (''members'', j_list member_to_dict (st_members st)),
     (''agents'', j_list agent_to_dict (st_agents st)),
     (''claims'', j_list claim_to_dict (st_claims st)),
     (''proposals'', j_list proposal_to_dict (st_proposals st)),
     (''receipts'', j_list receipt_to_dict (st_receipts st)),
     (''schema_version'', JInt (st_schema_version st)),
     (''revision'', JInt (st_revision st)),
     (''next_proposal_seq'', JInt (st_next_proposal_seq st)),
     (''next_member_no'', JInt (st_next_member_no st)),
     (''updated_at'', JNum (st_updated_at st))]"

definition fund_state_from_dict :: "json \<Rightarrow> fund_state option" where
  "fund_state_from_dict j = (case j of
     JObj o' \<Rightarrow> do {
       v_fund \<leftarrow> fld fund_from_dict None o' ''fund'';
       v_members \<leftarrow> fld (load_list member_from_dict) (Some []) o' ''members'';
       v_agents \<leftarrow> fld (load_list agent_from_dict) (Some []) o' ''agents'';
       v_claims \<leftarrow> fld (load_list claim_from_dict) (Some []) o' ''claims'';
       v_proposals \<leftarrow> fld (load_list proposal_from_dict) (Some []) o' ''proposals'';
       v_receipts \<leftarrow> fld (load_list receipt_from_dict) (Some []) o' ''receipts'';
       v_schema_version \<leftarrow> fld json_int (Some SCHEMA_VERSION) o' ''schema_version'';
       v_revision \<leftarrow> fld json_int (Some 0) o' ''revision'';
       v_next_proposal_seq \<leftarrow> fld json_int (Some 1) o' ''next_proposal_seq'';
       v_next_member_no \<leftarrow> fld json_int (Some 1) o' ''next_member_no'';
       v_updated_at \<leftarrow> fld json_float (Some 0) o' ''updated_at'';
       Some \<lparr>st_fund = v_fund, st_members = v_members, st_agents = v_agents, st_claims =
            v_claims, st_proposals = v_proposals, st_receipts = v_receipts,
            st_schema_version = v_schema_version, st_revision = v_revision,
            st_next_proposal_seq = v_next_proposal_seq, st_next_member_no =
            v_next_member_no, st_updated_at = v_updated_at\<rparr>}
   | _ \<Rightarrow> None)"

lemma fund_state_roundtrip [simp]: "fund_state_from_dict (fund_state_to_dict st) = Some st"
  by (simp add: fund_state_from_dict_def fund_state_to_dict_def)

end
