(* ===== verification/Store.thy ===== *)
theory Store
  imports ModelsJson Rules "HOL-Library.AList"
begin

text \<open>
  \<open>fund/store.py\<close>: the shared fund state on disk. The state directory is an association list
  from file names to what their text parses to; a fund's file is its checked name with
  \<open>.json\<close>. Reading, creating and updating follow the code, error for error; a failed operation
  raises and leaves the directory alone, so it returns no directory. Locks, time-outs and
  crashes are the subject of \<open>StoreLock\<close>: here an operation runs alone.

  The locale \<open>fund_backend\<close> is the \<open>FundStateBackend\<close> protocol: the operations the service
  calls, with the laws it relies on. The local backend interprets it.
\<close>

section \<open>Fund names\<close>

definition fund_name_char :: "char \<Rightarrow> bool" where
  "fund_name_char c \<longleftrightarrow> is_lower_char c \<or> is_digit c"

definition FUND_NAME_RE :: "string \<Rightarrow> bool" where
  "FUND_NAME_RE = dollar_match (\<lambda>s. s \<noteq> [] \<and> fund_name_char (hd s)
     \<and> list_all (\<lambda>c. fund_name_char c \<or> c = CHR ''-'') (tl s) \<and> length s \<le> 63)"

definition validate_fund_name :: "string \<Rightarrow> string result" where
  "validate_fund_name name =
     (let clean = lower (strip name) in
      if \<not> FUND_NAME_RE clean then Inl Store_error else Inr clean)"

section \<open>The directory\<close>

datatype fund_file = Not_json | Parsed json

type_synonym dir = "(string \<times> fund_file) list"

definition file_name :: "string \<Rightarrow> string" where
  "file_name clean = clean @ ''.json''"

definition path_for :: "string \<Rightarrow> string result" where
  "path_for fund = and_then (validate_fund_name fund) (\<lambda>clean. Inr (file_name clean))"

definition store_exists :: "dir \<Rightarrow> string \<Rightarrow> bool result" where
  "store_exists d fund = and_then (path_for fund) (\<lambda>path. Inr (map_of d path \<noteq> None))"

text \<open>\<open>int(v)\<close> raises \<open>ValueError\<close> on a text and \<open>TypeError\<close> on any other value it cannot read.\<close>

definition int_error :: "json \<Rightarrow> exn" where
  "int_error j = (case j of JStr _ \<Rightarrow> Value_error | _ \<Rightarrow> Type_error)"

definition check_schema :: "json \<Rightarrow> unit result" where
  "check_schema raw =
     (let v = (case jget raw ''schema_version'' of None \<Rightarrow> JInt 1 | Some j \<Rightarrow> j) in
      case json_int v of
        None \<Rightarrow> Inl (int_error v)
      | Some version \<Rightarrow> if version > SCHEMA_VERSION then Inl Schema_too_new else Inr ())"

text \<open>A record of the wrong shape is a \<open>TypeError\<close> or a \<open>ValueError\<close>; the model keeps one of them.\<close>

definition read_file :: "dir \<Rightarrow> string \<Rightarrow> fund_state result" where
  "read_file d path =
     (case map_of d path of
        None \<Rightarrow> Inl Fund_not_found
      | Some Not_json \<Rightarrow> Inl Store_error
      | Some (Parsed raw) \<Rightarrow>
          if \<not> is_obj raw \<or> jget raw ''fund'' = None then Inl Store_error
          else and_then (check_schema raw) (\<lambda>_.
            case fund_state_from_dict raw of None \<Rightarrow> Inl Type_error | Some st \<Rightarrow> Inr st))"

definition write_file :: "string \<Rightarrow> fund_state \<Rightarrow> dir \<Rightarrow> dir" where
  "write_file path st d = AList.update path (Parsed (fund_state_to_dict st)) d"

section \<open>The protocol's operations\<close>

definition store_load :: "dir \<Rightarrow> string \<Rightarrow> fund_state result" where
  "store_load d fund = and_then (path_for fund) (read_file d)"

definition first_revision :: "time \<Rightarrow> fund_state \<Rightarrow> fund_state" where
  "first_revision now st =
     st\<lparr>st_schema_version := SCHEMA_VERSION, st_revision := 1, st_updated_at := now\<rparr>"

definition store_create :: "dir \<Rightarrow> time \<Rightarrow> fund_state \<Rightarrow> (fund_state \<times> dir) result" where
  "store_create d now st =
     and_then (path_for (f_name (st_fund st))) (\<lambda>path.
       if map_of d path \<noteq> None then Inl Fund_exists
       else let st' = first_revision now st in Inr (st', write_file path st' d))"

definition bump :: "time \<Rightarrow> fund_state \<Rightarrow> fund_state" where
  "bump now st = st\<lparr>st_revision := st_revision st + 1, st_updated_at := now\<rparr>"

text \<open>
  \<open>update(fund, mutate)\<close>: a mutation changes the state in place and returns a value, so here it
  returns both; if it raises nothing is written.
\<close>

definition store_update ::
  "dir \<Rightarrow> time \<Rightarrow> string \<Rightarrow> (fund_state \<Rightarrow> ('r \<times> fund_state) result) \<Rightarrow> ('r \<times> dir) result" where
  "store_update d now fund mutate =
     and_then (path_for fund) (\<lambda>path.
     and_then (read_file d path) (\<lambda>st.
     and_then (mutate st) (\<lambda>(r, st').
       Inr (r, write_file path (bump now st') d))))"

definition stem :: "string \<Rightarrow> string" where
  "stem path = take (length path - 5) path"

definition is_json_name :: "string \<Rightarrow> bool" where
  "is_json_name path \<longleftrightarrow> length path \<ge> 5 \<and> drop (length path - 5) path = ''.json''"

definition list_funds :: "dir \<Rightarrow> string list" where
  "list_funds d =
     sort (filter FUND_NAME_RE (map stem (filter is_json_name (map fst d))))"

section \<open>The backends\<close>

datatype backend = Local_json | Http_stub

definition open_backend :: "string \<Rightarrow> backend result" where
  "open_backend kind =
     (let k = lower (strip (or_else kind ''local'')) in
      if k = ''local'' then Inr Local_json
      else if k = ''http'' then Inr Http_stub
      else Inl Store_error)"

definition http_exists :: "string \<Rightarrow> bool result" where "http_exists fund = Inl Store_error"
definition http_load :: "string \<Rightarrow> fund_state result" where "http_load fund = Inl Store_error"
definition http_create :: "fund_state \<Rightarrow> fund_state result" where "http_create st = Inl Store_error"

definition http_update :: "string \<Rightarrow> (fund_state \<Rightarrow> ('r \<times> fund_state) result) \<Rightarrow> 'r result" where
  "http_update fund mutate = Inl Store_error"

definition http_list_funds :: "string list result" where "http_list_funds = Inl Store_error"

section \<open>Fund names and paths\<close>

lemma path_for_Inr: "path_for f = Inr p \<longleftrightarrow> FUND_NAME_RE (lower (strip f)) \<and> p = file_name (lower (strip f))"
  by (auto simp: path_for_def validate_fund_name_def and_then_Inr_iff Let_def)

lemma path_for_eq: "path_for f = Inr p \<Longrightarrow> path_for g = Inr p \<longleftrightarrow> lower (strip g) = lower (strip f)"
  by (auto simp: path_for_Inr file_name_def)

lemma file_name_stem [simp]: "stem (file_name s) = s" "is_json_name (file_name s)"
  by (simp_all add: stem_def file_name_def is_json_name_def)

lemma is_json_name_file: "is_json_name p \<Longrightarrow> p = file_name (stem p)"
  by (auto simp: is_json_name_def file_name_def stem_def) (metis append_take_drop_id)

text \<open>A checked name holds nothing that could leave the state directory.\<close>

lemma name_re_chars:
  assumes "FUND_NAME_RE s" "c \<in> set s" "c \<noteq> CHR 0x0A"
  shows "fund_name_char c \<or> c = CHR ''-''"
proof -
  have body: "fund_name_char c \<or> c = CHR ''-''"
    if "t \<noteq> []" "fund_name_char (hd t)" "list_all (\<lambda>c. fund_name_char c \<or> c = CHR ''-'') (tl t)"
      "c \<in> set t" for t
    using that by (cases t) (auto simp: list_all_iff)
  show ?thesis
  proof (cases "s \<noteq> [] \<and> last s = CHR 0x0A")
    case True
    then have "set s = insert (CHR 0x0A) (set (butlast s))"
      by (metis Un_insert_right append_butlast_last_id list.set(1) list.simps(15) set_append sup_bot.right_neutral)
    with assms body show ?thesis by (auto simp: FUND_NAME_RE_def dollar_match_def)
  next
    case False
    with assms body show ?thesis by (auto simp: FUND_NAME_RE_def dollar_match_def)
  qed
qed

section \<open>Reading what was written\<close>

definition readable :: "fund_state \<Rightarrow> bool" where
  "readable st \<longleftrightarrow> st_schema_version st \<le> SCHEMA_VERSION"

lemma readable_simps [simp]:
  "readable (bump now st) = readable st" "readable (first_revision now st)"
  by (simp_all add: readable_def bump_def first_revision_def)

lemma dict_has_fund [simp]:
  "is_obj (fund_state_to_dict st)" "jget (fund_state_to_dict st) ''fund'' \<noteq> None"
  "jget (fund_state_to_dict st) ''schema_version'' = Some (JInt (st_schema_version st))"
  by (simp_all add: fund_state_to_dict_def is_obj_def jget_def)

lemma map_of_write_file [simp]:
  "map_of (write_file p st d) q = (if q = p then Some (Parsed (fund_state_to_dict st)) else map_of d q)"
  by (simp add: write_file_def update_conv)

lemma read_write_same: "readable st \<Longrightarrow> read_file (write_file p st d) p = Inr st"
  by (simp add: read_file_def check_schema_def readable_def)

lemma read_write_other: "q \<noteq> p \<Longrightarrow> read_file (write_file p st d) q = read_file d q"
  by (simp add: read_file_def)

lemma read_file_exists: "read_file d p = Inr st \<Longrightarrow> map_of d p \<noteq> None"
  by (auto simp: read_file_def split: option.splits)

lemma load_path: "path_for f = Inr p \<Longrightarrow> store_load d f = read_file d p"
  by (simp add: store_load_def)

lemma store_update_Inr:
  "store_update d now f m = Inr (r, d') \<longleftrightarrow>
     (\<exists>p st st'. path_for f = Inr p \<and> read_file d p = Inr st \<and> m st = Inr (r, st')
        \<and> d' = write_file p (bump now st') d)"
  by (auto simp: store_update_def and_then_Inr_iff)

text \<open>Two names denote the same fund when they are equal after trimming and lower-casing.\<close>

definition same_fund :: "string \<Rightarrow> string \<Rightarrow> bool" where
  "same_fund f g \<longleftrightarrow> lower (strip f) = lower (strip g)"

lemma same_fund_equiv [simp]: "same_fund f f" "same_fund f g \<Longrightarrow> same_fund g f"
  by (auto simp: same_fund_def)

lemma load_same_fund: "same_fund f g \<Longrightarrow> store_load d f = store_load d g"
  by (simp add: store_load_def path_for_def validate_fund_name_def same_fund_def)

lemma load_write:
  assumes "path_for f = Inr p" "readable st"
  shows "store_load (write_file p st d) g = (if same_fund f g then Inr st else store_load d g)"
proof (cases "path_for g")
  case (Inl e)
  moreover have "\<not> same_fund f g"
    using assms(1) Inl by (auto simp: path_for_def validate_fund_name_def same_fund_def Let_def split: if_splits)
  ultimately show ?thesis by (simp add: store_load_def)
next
  case (Inr q)
  then have "q = p \<longleftrightarrow> same_fund f g"
    using path_for_eq [OF assms(1), of g] by (auto simp: same_fund_def path_for_Inr file_name_def)
  then show ?thesis
    using Inr assms(2) by (auto simp: load_path read_write_same read_write_other)
qed

section \<open>The protocol as an interface\<close>

locale fund_backend =
  fixes load :: "'d \<Rightarrow> string \<Rightarrow> fund_state result"
    and create :: "'d \<Rightarrow> time \<Rightarrow> fund_state \<Rightarrow> (fund_state \<times> 'd) result"
    and update :: "'d \<Rightarrow> time \<Rightarrow> string \<Rightarrow> (fund_state \<Rightarrow> ('r \<times> fund_state) result) \<Rightarrow> ('r \<times> 'd) result"
  assumes load_readable: "load d f = Inr st \<Longrightarrow> readable st"
    and load_alias: "same_fund f g \<Longrightarrow> load d f = load d g"
    and load_create: "create d t st = Inr (st', d') \<Longrightarrow>
      st' = first_revision t st
      \<and> load d' g = (if same_fund (f_name (st_fund st)) g then Inr st' else load d g)"
    and create_fresh: "create d t st = Inr (st', d') \<Longrightarrow> \<exists>e. load d (f_name (st_fund st)) = Inl e"
    and update_Inr: "update d t f m = Inr (r, d') \<Longrightarrow> (\<And>s q s'. m s = Inr (q, s') \<Longrightarrow> readable s \<Longrightarrow> readable s') \<Longrightarrow>
      \<exists>st st'. load d f = Inr st \<and> m st = Inr (r, st')
        \<and> (\<forall>g. load d' g = (if same_fund f g then Inr (bump t st') else load d g))"
    and update_total: "load d f = Inr st \<Longrightarrow> m st = Inr (r, st') \<Longrightarrow> \<exists>d'. update d t f m = Inr (r, d')"
    and update_raise: "load d f = Inr st \<Longrightarrow> m st = Inl e \<Longrightarrow> update d t f m = Inl e"
begin

definition keeps_readable :: "(fund_state \<Rightarrow> ('r \<times> fund_state) result) \<Rightarrow> bool" where
  "keeps_readable m \<longleftrightarrow> (\<forall>s q s'. m s = Inr (q, s') \<longrightarrow> readable s \<longrightarrow> readable s')"

lemma update_keeps:
  assumes "update d t f m = Inr (r, d')" and "keeps_readable m"
  shows "\<exists>st st'. load d f = Inr st \<and> m st = Inr (r, st')
    \<and> (\<forall>g. load d' g = (if same_fund f g then Inr (bump t st') else load d g))"
  using assms by (intro update_Inr) (auto simp: keeps_readable_def)

text \<open>A property of states every mutation keeps (and the stamp of a write does not see) is kept.\<close>

lemma update_invariant:
  assumes u: "update d t f m = Inr (r, d')" and k: "keeps_readable m"
    and inv: "\<And>g st. load d g = Inr st \<Longrightarrow> P st"
    and mut: "\<And>st q st'. m st = Inr (q, st') \<Longrightarrow> P st \<Longrightarrow> P st'"
    and stamp: "\<And>st. P st \<Longrightarrow> P (bump t st)"
    and l: "load d' g = Inr st"
  shows "P st"
proof -
  obtain s s' where s: "load d f = Inr s" "m s = Inr (r, s')"
    "\<And>g. load d' g = (if same_fund f g then Inr (bump t s') else load d g)"
    using update_keeps [OF u k] by blast
  from s(1) inv have "P s" by blast
  then have "P (bump t s')" using mut [OF s(2)] stamp by blast
  with l s(3) [of g] inv [of g st] show ?thesis by (auto split: if_splits)
qed

lemma update_revision:
  assumes u: "update d t f m = Inr (r, d')" and k: "keeps_readable m"
    and rev: "\<And>st q st'. m st = Inr (q, st') \<Longrightarrow> st_revision st' = st_revision st"
  shows "\<exists>st st'. load d f = Inr st \<and> load d' f = Inr st' \<and> st_revision st' = st_revision st + 1"
proof -
  obtain s s' where s: "load d f = Inr s" "m s = Inr (r, s')"
    "\<And>g. load d' g = (if same_fund f g then Inr (bump t s') else load d g)"
    using update_keeps [OF u k] by blast
  show ?thesis using s rev [OF s(2)] by (auto simp: bump_def)
qed

lemma update_other:
  assumes u: "update d t f m = Inr (r, d')" and k: "keeps_readable m" and "\<not> same_fund f g"
  shows "load d' g = load d g"
  using update_keeps [OF u k] assms(3) by auto

text \<open>Running a list of updates, skipping those that raise.\<close>

fun run :: "'d \<Rightarrow> (time \<times> string \<times> (fund_state \<Rightarrow> ('r \<times> fund_state) result)) list \<Rightarrow> 'd" where
  "run d [] = d"
| "run d ((t, f, m) # us) = run (case update d t f m of Inl _ \<Rightarrow> d | Inr (_, d') \<Rightarrow> d') us"

lemma run_invariant:
  assumes "\<And>t f m. (t, f, m) \<in> set us \<Longrightarrow> keeps_readable m
      \<and> (\<forall>st q st'. m st = Inr (q, st') \<longrightarrow> P st \<longrightarrow> P st')"
    and "\<And>t st. P st \<Longrightarrow> P (bump t st)"
    and "\<And>g st. load d g = Inr st \<Longrightarrow> P st"
    and "load (run d us) g = Inr st"
  shows "P st"
  using assms
proof (induction us arbitrary: d)
  case Nil
  then show ?case by simp
next
  case (Cons u us)
  obtain t f m where u: "u = (t, f, m)" by (cases u) auto
  let ?d = "case update d t f m of Inl _ \<Rightarrow> d | Inr (_, d') \<Rightarrow> d'"
  have k: "keeps_readable m" and p: "\<And>st q st'. m st = Inr (q, st') \<Longrightarrow> P st \<Longrightarrow> P st'"
    using Cons.prems(1) [of t f m] u by auto
  have inv: "P s" if "load ?d h = Inr s" for h s
  proof (cases "update d t f m")
    case (Inl e)
    with that Cons.prems(3) show ?thesis by simp
  next
    case (Inr x)
    then obtain r d' where "update d t f m = Inr (r, d')" by (cases x) auto
    with that show ?thesis
      using update_invariant [where P = P, OF _ k Cons.prems(3) p Cons.prems(2)] by auto
  qed
  show ?case
  proof (rule Cons.IH [of ?d])
    show "keeps_readable m' \<and> (\<forall>st q st'. m' st = Inr (q, st') \<longrightarrow> P st \<longrightarrow> P st')"
      if "(t', f', m') \<in> set us" for t' f' m'
      by (rule Cons.prems(1) [of t' f']) (use that in simp)
    show "P (bump t' s)" if "P s" for t' s using Cons.prems(2) that .
    show "P s" if "load ?d h = Inr s" for h s using inv that .
    show "load (run ?d us) g = Inr st" using Cons.prems(4) u by simp
  qed
qed

end

section \<open>The local backend keeps the protocol\<close>

lemma from_dict_version:
  "fund_state_from_dict raw = Some st \<Longrightarrow>
     \<exists>o'. raw = JObj o' \<and> fld json_int (Some SCHEMA_VERSION) o' ''schema_version'' = Some (st_schema_version st)"
  unfolding fund_state_from_dict_def
  by (cases raw) (simp_all add: bind_eq_Some_conv, elim exE conjE, fastforce)

lemma check_schema_dict:
  assumes "check_schema raw = Inr ()" and "fund_state_from_dict raw = Some st"
  shows "readable st"
proof -
  obtain o' where o: "raw = JObj o'"
    "fld json_int (Some SCHEMA_VERSION) o' ''schema_version'' = Some (st_schema_version st)"
    using from_dict_version [OF assms(2)] by blast
  show ?thesis
    using assms(1) o by (cases "map_of o' ''schema_version''")
      (auto simp: check_schema_def jget_def readable_def fld_def split: option.splits if_splits)
qed

lemma read_file_readable: "read_file d p = Inr st \<Longrightarrow> readable st"
  using check_schema_dict by (auto simp: read_file_def and_then_Inr_iff split: option.splits fund_file.splits if_splits)

interpretation local_json: fund_backend store_load store_create store_update
proof unfold_locales
  fix d :: dir and f st
  assume "store_load d f = Inr st"
  then show "readable st" by (auto simp: store_load_def and_then_Inr_iff dest: read_file_readable)
next
  fix f g and d :: dir
  assume "same_fund f g"
  then show "store_load d f = store_load d g" by (rule load_same_fund)
next
  fix d :: dir and t st st' d' g
  assume "store_create d t st = Inr (st', d')"
  then show "st' = first_revision t st \<and>
      store_load d' g = (if same_fund (f_name (st_fund st)) g then Inr st' else store_load d g)"
    by (auto simp: store_create_def and_then_Inr_iff Let_def load_write split: if_splits)
next
  fix d :: dir and t st st' d'
  assume "store_create d t st = Inr (st', d')"
  then show "\<exists>e. store_load d (f_name (st_fund st)) = Inl e"
    by (auto simp: store_create_def and_then_Inr_iff Let_def load_path read_file_def split: if_splits)
next
  fix d :: dir and t f and m :: "fund_state \<Rightarrow> ('r \<times> fund_state) result" and r d'
  assume u: "store_update d t f m = Inr (r, d')"
    and k: "\<And>s q s'. m s = Inr (q, s') \<Longrightarrow> readable s \<Longrightarrow> readable s'"
  then obtain p st st' where s: "path_for f = Inr p" "read_file d p = Inr st" "m st = Inr (r, st')"
    "d' = write_file p (bump t st') d"
    by (auto simp: store_update_Inr)
  then have "readable (bump t st')" using k read_file_readable by auto
  with s show "\<exists>st st'. store_load d f = Inr st \<and> m st = Inr (r, st') \<and>
      (\<forall>g. store_load d' g = (if same_fund f g then Inr (bump t st') else store_load d g))"
    using load_write [OF s(1)] by (auto simp: load_path)
next
  fix d :: dir and f st and m :: "fund_state \<Rightarrow> ('r \<times> fund_state) result" and r st' t
  assume "store_load d f = Inr st" "m st = Inr (r, st')"
  then show "\<exists>d'. store_update d t f m = Inr (r, d')"
    by (auto simp: store_load_def and_then_Inr_iff store_update_def)
next
  fix d :: dir and f st and m :: "fund_state \<Rightarrow> ('r \<times> fund_state) result" and e t
  assume "store_load d f = Inr st" "m st = Inl e"
  then show "store_update d t f m = Inl e"
    by (auto simp: store_load_def and_then_Inr_iff store_update_def)
qed

section \<open>Listing\<close>

lemma list_funds_iff:
  "f \<in> set (list_funds d) \<longleftrightarrow> FUND_NAME_RE f \<and> map_of d (file_name f) \<noteq> None"
proof -
  have "map_of d (file_name f) \<noteq> None \<longleftrightarrow> file_name f \<in> fst ` set d"
    by (simp add: map_of_eq_None_iff)
  moreover have "f \<in> set (list_funds d) \<longleftrightarrow>
      FUND_NAME_RE f \<and> (\<exists>p \<in> fst ` set d. is_json_name p \<and> stem p = f)"
    by (auto simp: list_funds_def)
  moreover have "(\<exists>p \<in> fst ` set d. is_json_name p \<and> stem p = f) \<longleftrightarrow> file_name f \<in> fst ` set d"
    by (metis file_name_stem is_json_name_file)
  ultimately show ?thesis by simp
qed

lemma list_funds_sorted: "sorted (list_funds d)"
  by (simp add: list_funds_def)

lemma list_funds_distinct: "distinct (map fst d) \<Longrightarrow> distinct (list_funds d)"
proof -
  assume d: "distinct (map fst d)"
  have "inj_on stem {p. is_json_name p}"
    by (rule inj_onI) (metis is_json_name_file mem_Collect_eq)
  then have "distinct (map stem (filter is_json_name (map fst d)))"
    using d by (simp add: distinct_map inj_on_subset subset_iff)
  then show ?thesis by (simp add: list_funds_def)
qed

lemma write_file_distinct: "distinct (map fst d) \<Longrightarrow> distinct (map fst (write_file p st d))"
  by (simp add: write_file_def distinct_update)

end
