(* ===== verification/Service.thy ===== *)
theory Service
  imports Payloads Store
begin

text \<open>
  \<open>fund/service.py\<close>: the fund's operations. The body of each \<open>mutate\<close> closure is a function
  \<open>..._mutate\<close> from the state to the returned value and the new state, or to the exception;
  the operation itself is one \<open>store_update\<close> with that closure, followed by the events the
  observers get. \<open>now\<close> is the service's clock reading at the start of the operation and \<open>wt\<close>
  the store's reading when it writes. A record the code looks up and then mutates in place is a
  position in its list.
\<close>

section \<open>Changing one record\<close>

definition put_proposal :: "nat \<Rightarrow> proposal \<Rightarrow> fund_state \<Rightarrow> fund_state" where
  "put_proposal i p st = st\<lparr>st_proposals := (st_proposals st)[i := p]\<rparr>"

definition put_member :: "nat \<Rightarrow> member \<Rightarrow> fund_state \<Rightarrow> fund_state" where
  "put_member i m st = st\<lparr>st_members := (st_members st)[i := m]\<rparr>"

definition put_agent :: "nat \<Rightarrow> agent \<Rightarrow> fund_state \<Rightarrow> fund_state" where
  "put_agent i a st = st\<lparr>st_agents := (st_agents st)[i := a]\<rparr>"

text \<open>\<open>r1 or r2\<close> on optional references\<close>

definition ref_or :: "nat option \<Rightarrow> nat option \<Rightarrow> nat option" where
  "ref_or r s = (case r of None \<Rightarrow> s | Some i \<Rightarrow> Some i)"

text \<open>\<open>t or now\<close>, where zero and \<open>None\<close> are both false\<close>

definition time_or :: "time \<Rightarrow> time \<Rightarrow> time" where
  "time_or t now = (if t = 0 then now else t)"

definition opt_time_or :: "time option \<Rightarrow> time \<Rightarrow> time option" where
  "opt_time_or t now = Some (case t of None \<Rightarrow> now | Some u \<Rightarrow> time_or u now)"

section \<open>Events\<close>

datatype event_kind = Ev_draft_requested | Ev_drafted | Ev_shipped | Ev_status | Ev_vote | Ev_tally
  | Ev_settled | Ev_member_requested | Ev_member_approved

record fund_event =
  e_kind :: event_kind
  e_fund :: string
  e_proposal :: "proposal option"
  e_old_status :: "pstatus option"
  e_receipt :: "receipt option"
  e_claim :: "claim option"
  e_member :: "member option"
  e_bond :: "bond_section option"

definition event :: "event_kind \<Rightarrow> string \<Rightarrow> fund_event" where
  "event k fund = \<lparr>e_kind = k, e_fund = fund, e_proposal = None, e_old_status = None,
     e_receipt = None, e_claim = None, e_member = None, e_bond = None\<rparr>"

definition proposal_event :: "event_kind \<Rightarrow> string \<Rightarrow> proposal \<Rightarrow> fund_event" where
  "proposal_event k fund p = (event k fund)\<lparr>e_proposal := Some p\<rparr>"

type_synonym 'r outcome = "('r \<times> dir \<times> fund_event list) result"

text \<open>One update of the store, then the events of its result.\<close>

definition write_op ::
  "dir \<Rightarrow> time \<Rightarrow> string \<Rightarrow> (fund_state \<Rightarrow> ('r \<times> fund_state) result) \<Rightarrow> ('r \<Rightarrow> fund_event list) \<Rightarrow> 'r outcome" where
  "write_op d wt fund mutate evs =
     and_then (store_update d wt fund mutate) (\<lambda>(r, d'). Inr (r, d', evs r))"

section \<open>Reads\<close>

text \<open>\<open>except FundStoreError\<close>: the class with its subclasses\<close>

definition is_store_error :: "exn \<Rightarrow> bool" where
  "is_store_error e \<longleftrightarrow> e \<in> {Store_error, Fund_not_found, Fund_exists, Schema_too_new, Lock_timeout}"

fun bound_fund :: "dir \<Rightarrow> string \<Rightarrow> string list \<Rightarrow> string option result" where
  "bound_fund d chat_id [] = Inr None"
| "bound_fund d chat_id (name # names) =
     (case store_load d name of
        Inl e \<Rightarrow> if is_store_error e then bound_fund d chat_id names else Inl e
      | Inr st \<Rightarrow> if f_telegram_chat_id (st_fund st) = chat_id then Inr (Some name)
          else bound_fund d chat_id names)"

definition resolve_fund :: "dir \<Rightarrow> string \<Rightarrow> string \<Rightarrow> string \<Rightarrow> string result" where
  "resolve_fund d fund chat_id dflt =
     (if fund \<noteq> [] \<and> strip fund \<noteq> [] then validate_fund_name fund
      else
        and_then (if chat_id \<noteq> [] then bound_fund d chat_id (list_funds d) else Inr None) (\<lambda>bound.
        case bound of
          Some name \<Rightarrow> Inr name
        | None \<Rightarrow>
            if dflt \<noteq> [] then validate_fund_name dflt
            else (case list_funds d of
                [name] \<Rightarrow> Inr name
              | _ \<Rightarrow> Inl Service_error)))"

definition service_check_draft ::
  "dir \<Rightarrow> time \<Rightarrow> string \<Rightarrow> string \<Rightarrow> string \<Rightarrow> int \<Rightarrow> int \<Rightarrow> leg list \<Rightarrow> verdict result" where
  "service_check_draft d now fund agent topic max_capital dd legs =
     and_then (store_load d fund) (\<lambda>st. check_draft st agent topic max_capital dd legs now)"

section \<open>Host setup\<close>

definition create_fund :: "dir \<Rightarrow> time \<Rightarrow> time \<Rightarrow> fund \<Rightarrow> agent \<Rightarrow> (fund_state \<times> dir) result" where
  "create_fund d now wt f host =
     require (check_agent_fee (f_agent_fee_bps f))
       (and_then (validate_fund_name (f_name f)) (\<lambda>clean.
          let f' = f\<lparr>f_name := clean, f_created_at := time_or (f_created_at f) now\<rparr>;
              host' = host\<lparr>a_role := ''host'', a_approved := True, a_registered := True,
                a_requested_at := time_or (a_requested_at host) now,
                a_approved_at := opt_time_or (a_approved_at host) now,
                a_registered_at := opt_time_or (a_registered_at host) now\<rparr>
          in store_create d wt (new_state f' [host'])))"

section \<open>Members\<close>

definition request_membership_mutate ::
  "time \<Rightarrow> string \<Rightarrow> string \<Rightarrow> string \<Rightarrow> fund_state \<Rightarrow> (member \<times> fund_state) result" where
  "request_membership_mutate now telegram_id address username st =
     (let found = ref_or (member_ix st telegram_id) (if address \<noteq> [] then member_ix st address else None);
          (st1, i) = (case found of
              Some i \<Rightarrow> (st, i)
            | None \<Rightarrow> (st\<lparr>st_members := st_members st @ [new_member telegram_id [] now]\<rparr>,
                length (st_members st)));
          m = st_members st1 ! i;
          fill = (address \<noteq> [] \<and> m_address m = [])
      in if fill \<and> \<not> is_address address then Inl (Rule_violation Missing_address)
         else
           let m1 = (if fill then m\<lparr>m_address := address\<rparr> else m);
               m2 = (if username \<noteq> [] then m1\<lparr>m_username := username\<rparr> else m1)
           in Inr (m2, put_member i m2 st1))"

definition request_membership ::
  "dir \<Rightarrow> time \<Rightarrow> time \<Rightarrow> string \<Rightarrow> string \<Rightarrow> string \<Rightarrow> string \<Rightarrow> member outcome" where
  "request_membership d now wt fund telegram_id address username =
     write_op d wt fund (request_membership_mutate now telegram_id address username)
       (\<lambda>m. [(event Ev_member_requested fund)\<lparr>e_member := Some m\<rparr>])"

text \<open>The body of the transaction the host signs.\<close>

definition depositor_body :: "fund \<Rightarrow> string \<Rightarrow> json" where
  "depositor_body f address = JObj [(''chainId'', JInt (f_chain_id f)), (''vault'', JStr (f_vault f)),
     (''depositor'', JStr address)]"

definition approve_member_mutate ::
  "time \<Rightarrow> string \<Rightarrow> string \<Rightarrow> string \<Rightarrow> string \<Rightarrow> string option \<Rightarrow> fund_state
     \<Rightarrow> ((member \<times> json) \<times> fund_state) result" where
  "approve_member_mutate now actor who address tx_hash caller st =
     require (check_caller_is_host st caller)
       (let found = ref_or (member_ix st who) (if address \<noteq> [] then member_ix st address else None);
            add = (\<lambda>m. (st\<lparr>st_members := st_members st @ [m]\<rparr>, Some (length (st_members st))));
            (st1, r) = (case found of
                Some i \<Rightarrow> (st, Some i)
              | None \<Rightarrow> if is_address who then add (new_member [] who now)
                  else if address \<noteq> [] then add (new_member who address now)
                  else (st, None));
            st2 = (case r of
                Some i \<Rightarrow> if address \<noteq> [] \<and> m_address (st_members st1 ! i) = []
                  then put_member i ((st_members st1 ! i)\<lparr>m_address := address\<rparr>) st1 else st1
              | None \<Rightarrow> st1)
        in require (check_approve_member st2 actor (deref (st_members st2) r))
             (case r of
                None \<Rightarrow> Inl Assertion_error
              | Some i \<Rightarrow>
                  let m = st_members st2 ! i;
                      m' = m\<lparr>m_approved := True, m_approved_at := Some now,
                        m_approve_tx := or_else tx_hash (m_approve_tx m),
                        m_member_no := Some (st_next_member_no st2)\<rparr>
                  in Inr ((m', depositor_body (st_fund st2) (m_address m')),
                       (put_member i m' st2)\<lparr>st_next_member_no := st_next_member_no st2 + 1\<rparr>)))"

definition approve_member ::
  "dir \<Rightarrow> time \<Rightarrow> time \<Rightarrow> string \<Rightarrow> string \<Rightarrow> string \<Rightarrow> string \<Rightarrow> string \<Rightarrow> string option
     \<Rightarrow> (member \<times> json) outcome" where
  "approve_member d now wt fund actor who address tx_hash caller =
     write_op d wt fund (approve_member_mutate now actor who address tx_hash caller)
       (\<lambda>r. [(event Ev_member_approved fund)\<lparr>e_member := Some (fst r)\<rparr>])"

section \<open>Agents\<close>

definition request_agent_mutate :: "time \<Rightarrow> agent \<Rightarrow> fund_state \<Rightarrow> (agent \<times> fund_state) result" where
  "request_agent_mutate now a st =
     (let taken = (case agent_by_address st (a_address a) of
          None \<Rightarrow> False
        | Some other \<Rightarrow> lower (a_name other) \<noteq> lower (a_name a) \<and> \<not> a_removed other);
        fresh = a\<lparr>a_role := ''guest'', a_approved := False, a_registered := False, a_removed := False,
          a_requested_at := now, a_approved_at := None, a_registered_at := None, a_removed_at := None\<rparr>
      in if taken then Inl (Rule_violation Address_taken)
         else (case agent_ix st (a_name a) of
             None \<Rightarrow> Inr (fresh, st\<lparr>st_agents := st_agents st @ [fresh]\<rparr>)
           | Some i \<Rightarrow>
               let old = st_agents st ! i in
               if \<not> a_removed old then
                 if a_registered old then Inl (Rule_violation Already_registered)
                 else
                   let old' = old\<lparr>a_identity_id := a_identity_id a, a_address := a_address a,
                     a_owner_telegram_id := or_else (a_owner_telegram_id a) (a_owner_telegram_id old)\<rparr>
                   in Inr (old', put_agent i old' st)
               else Inr (fresh, st\<lparr>st_agents := remove1 old (st_agents st) @ [fresh]\<rparr>)))"

definition request_agent :: "dir \<Rightarrow> time \<Rightarrow> time \<Rightarrow> string \<Rightarrow> agent \<Rightarrow> agent outcome" where
  "request_agent d now wt fund a =
     (if a_identity_id a = [] \<or> \<not> is_address (a_address a) then Inl (Rule_violation Missing_identity)
      else write_op d wt fund (request_agent_mutate now a) (\<lambda>_. []))"

definition agent_body :: "fund \<Rightarrow> agent \<Rightarrow> json" where
  "agent_body f a = JObj [(''chainId'', JInt (f_chain_id f)), (''vault'', JStr (f_vault f)),
     (''agentAddress'', JStr (a_address a)), (''agentId'', JStr (a_identity_id a))]"

definition approve_agent_mutate ::
  "time \<Rightarrow> string \<Rightarrow> string \<Rightarrow> string \<Rightarrow> string option \<Rightarrow> fund_state \<Rightarrow> ((agent \<times> json) \<times> fund_state) result" where
  "approve_agent_mutate now actor name tx_hash caller st =
     require (check_caller_is_host st caller)
       (let r = ref_or (agent_ix st name) (agent_by_address_ix st name) in
        require (check_approve_agent st actor (deref (st_agents st) r))
          (case r of
             None \<Rightarrow> Inl Assertion_error
           | Some i \<Rightarrow>
               let a = st_agents st ! i in
               if a_registered a then Inl (Rule_violation Already_registered)
               else
                 let a1 = a\<lparr>a_approved := True, a_approved_at := opt_time_or (a_approved_at a) now\<rparr>;
                     a2 = (if tx_hash \<noteq> []
                       then a1\<lparr>a_registered := True, a_registered_at := Some now, a_register_tx := tx_hash\<rparr>
                       else a1)
                 in Inr ((a2, agent_body (st_fund st) a2), put_agent i a2 st)))"

definition approve_agent ::
  "dir \<Rightarrow> time \<Rightarrow> time \<Rightarrow> string \<Rightarrow> string \<Rightarrow> string \<Rightarrow> string \<Rightarrow> string option \<Rightarrow> (agent \<times> json) outcome" where
  "approve_agent d now wt fund actor name tx_hash caller =
     write_op d wt fund (approve_agent_mutate now actor name tx_hash caller) (\<lambda>_. [])"

definition cancel_draft_of :: "string \<Rightarrow> time \<Rightarrow> proposal \<Rightarrow> proposal" where
  "cancel_draft_of key now p =
     (if lower (p_proposer_agent p) = key \<and> p_status p = Draft
      then p\<lparr>p_status := Cancelled, p_updated_at := now\<rparr> else p)"

definition remove_agent_mutate ::
  "time \<Rightarrow> string \<Rightarrow> string \<Rightarrow> string option \<Rightarrow> fund_state \<Rightarrow> (agent \<times> fund_state) result" where
  "remove_agent_mutate now actor name caller st =
     require (check_caller_is_host st caller)
       (let r = ref_or (agent_ix st name) (agent_by_address_ix st name) in
        require (check_remove_agent st actor (deref (st_agents st) r))
          (case r of
             None \<Rightarrow> Inl Assertion_error
           | Some i \<Rightarrow>
               let a = (st_agents st ! i)\<lparr>a_removed := True, a_removed_at := Some now\<rparr>;
                   key = lower (a_name a)
               in Inr (a, (put_agent i a st)\<lparr>
                    st_claims := filter (\<lambda>c. lower (c_agent c) \<noteq> key) (st_claims st),
                    st_proposals := map (cancel_draft_of key now) (st_proposals st)\<rparr>)))"

definition remove_agent ::
  "dir \<Rightarrow> time \<Rightarrow> time \<Rightarrow> string \<Rightarrow> string \<Rightarrow> string \<Rightarrow> string option \<Rightarrow> agent outcome" where
  "remove_agent d now wt fund actor name caller =
     write_op d wt fund (remove_agent_mutate now actor name caller) (\<lambda>_. [])"

section \<open>Claims\<close>

definition claim_ix :: "fund_state \<Rightarrow> string \<Rightarrow> time \<Rightarrow> nat option" where
  "claim_ix st agent now = find_ix (\<lambda>c. lower (c_agent c) = lower agent \<and> claim_live now c) (st_claims st)"

definition prune_claims :: "time \<Rightarrow> fund_state \<Rightarrow> fund_state" where
  "prune_claims now st = st\<lparr>st_claims := active_claims st now\<rparr>"

definition claim_topic_mutate ::
  "time \<Rightarrow> string \<Rightarrow> string \<Rightarrow> fund_state \<Rightarrow> (claim \<times> fund_state) result" where
  "claim_topic_mutate now agent topic st0 =
     (let st = prune_claims now st0 in
      require (check_claim st agent topic now)
        (case claim_ix st agent now of
           Some i \<Rightarrow>
             let mine = (st_claims st ! i)\<lparr>c_expires_at := claim_expires_at now\<rparr>
             in Inr (mine, st\<lparr>st_claims := (st_claims st)[i := mine]\<rparr>)
         | None \<Rightarrow>
             (case agent_of st agent of
                None \<Rightarrow> Inl Attribute_error
              | Some a \<Rightarrow>
                  let c = \<lparr>c_agent = a_name a, c_topic = strip topic, c_expires_at = claim_expires_at now,
                    c_created_at = now, c_idea_by = [], c_pitch = [], c_chat_id = [],
                    c_source_message_id = None\<rparr>
                  in Inr (c, st\<lparr>st_claims := st_claims st @ [c]\<rparr>))))"

definition claim_topic :: "dir \<Rightarrow> time \<Rightarrow> time \<Rightarrow> string \<Rightarrow> string \<Rightarrow> string \<Rightarrow> claim outcome" where
  "claim_topic d now wt fund agent topic = write_op d wt fund (claim_topic_mutate now agent topic) (\<lambda>_. [])"

definition release_claim_mutate ::
  "time \<Rightarrow> string \<Rightarrow> string \<Rightarrow> fund_state \<Rightarrow> (nat \<times> fund_state) result" where
  "release_claim_mutate now agent topic st =
     (let drop_it = (\<lambda>c. lower (c_agent c) = lower agent
            \<and> (topic = [] \<or> normalize_topic (c_topic c) = normalize_topic topic));
          live = active_claims st now
      in Inr (length (filter drop_it live), st\<lparr>st_claims := filter (\<lambda>c. \<not> drop_it c) live\<rparr>))"

definition release_claim :: "dir \<Rightarrow> time \<Rightarrow> time \<Rightarrow> string \<Rightarrow> string \<Rightarrow> string \<Rightarrow> nat outcome" where
  "release_claim d now wt fund agent topic = write_op d wt fund (release_claim_mutate now agent topic) (\<lambda>_. [])"

definition without_claims_of :: "string \<Rightarrow> claim list \<Rightarrow> claim list" where
  "without_claims_of name cs = filter (\<lambda>c. lower (c_agent c) \<noteq> lower name) cs"

definition request_draft_mutate ::
  "time \<Rightarrow> string \<Rightarrow> string \<Rightarrow> string \<Rightarrow> string \<Rightarrow> int option \<Rightarrow> string \<Rightarrow> fund_state \<Rightarrow> (claim \<times> fund_state) result" where
  "request_draft_mutate now agent idea_by pitch chat_id source_message_id topic st0 =
     (let st = prune_claims now st0 in
      require (check_claim st agent topic now)
        (case agent_of st agent of
           None \<Rightarrow> Inl Assertion_error
         | Some a \<Rightarrow>
             let c = \<lparr>c_agent = a_name a, c_topic = topic, c_expires_at = claim_expires_at now,
               c_created_at = now, c_idea_by = idea_by, c_pitch = take 1000 (strip pitch),
               c_chat_id = chat_id, c_source_message_id = source_message_id\<rparr>
             in Inr (c, st\<lparr>st_claims := without_claims_of (a_name a) (st_claims st) @ [c]\<rparr>)))"

definition request_draft ::
  "dir \<Rightarrow> time \<Rightarrow> time \<Rightarrow> string \<Rightarrow> string \<Rightarrow> string \<Rightarrow> string \<Rightarrow> string \<Rightarrow> int option \<Rightarrow> string \<Rightarrow> claim outcome" where
  "request_draft d now wt fund agent idea_by pitch chat_id source_message_id topic =
     write_op d wt fund
       (request_draft_mutate now agent idea_by pitch chat_id source_message_id
          (strip (or_else topic (pitch_topic pitch))))
       (\<lambda>c. [(event Ev_draft_requested fund)\<lparr>e_claim := Some c\<rparr>])"

section \<open>Drafts\<close>

record draft_args =
  d_topic :: string
  d_thesis :: string
  d_legs :: "leg list"
  d_max_capital :: int
  d_max_drawdown_bps :: int
  d_strategy_duration :: int
  d_bond_quote_wood :: "int option"
  d_wood_balance :: "int option"
  d_idea_by :: string
  d_strategy :: string
  d_metadata_uri :: string
  d_quote_usd_per_wood :: string
  d_bond_buffer_status :: string
  d_bond_buffer_note :: string

record draft_result =
  dr_proposal :: proposal
  dr_prepare :: payload
  dr_bond :: bond_section

definition draft_record :: "time \<Rightarrow> draft_args \<Rightarrow> fund_state \<Rightarrow> agent \<Rightarrow> claim option \<Rightarrow> proposal" where
  "draft_record now x st a c = \<lparr>
     p_id = ''p-'' @ str_int (st_next_proposal_seq st), p_proposer_agent = a_name a,
     p_thesis = strip (d_thesis x), p_legs = d_legs x, p_max_capital = str_int (d_max_capital x),
     p_max_drawdown_bps = d_max_drawdown_bps x,
     p_bond_wood = str_int (case d_bond_quote_wood x of None \<Rightarrow> 0 | Some q \<Rightarrow> q),
     p_status = Draft, p_governor = f_governor (st_fund st), p_topic = strip (d_topic x),
     p_onchain_id = None, p_propose_tx = [], p_strategy_duration = d_strategy_duration x,
     p_backers = [], p_objectors = [], p_reviews = [],
     p_idea_by = or_else (d_idea_by x) (case c of None \<Rightarrow> [] | Some k \<Rightarrow> c_idea_by k),
     p_card_message_id = [], p_voting_ends_at = None, p_against_bps = 0, p_review_ends_at = None,
     p_guardian_coverage = [], p_chain_synced_at = None,
     p_pitch_message_id = (case c of None \<Rightarrow> None | Some k \<Rightarrow> c_source_message_id k),
     p_quote_usd_per_wood = d_quote_usd_per_wood x,
     p_bond_buffer_status = take 32 (d_bond_buffer_status x),
     p_bond_buffer_note = take 200 (d_bond_buffer_note x), p_shipped_at = None, p_shipped_by = [],
     p_created_at = now, p_updated_at = now\<rparr>"

definition draft_proposal_mutate ::
  "string \<Rightarrow> time \<Rightarrow> string \<Rightarrow> draft_args \<Rightarrow> fund_state \<Rightarrow> (draft_result \<times> fund_state) result" where
  "draft_proposal_mutate base now agent x st0 =
     (let st = prune_claims now st0 in
      and_then (check_draft st agent (d_topic x) (d_max_capital x) (d_max_drawdown_bps x) (d_legs x) now) (\<lambda>v.
      require v
        (case agent_of st agent of
           None \<Rightarrow> Inl Assertion_error
         | Some a \<Rightarrow>
             let c = claim_of st agent now;
                 p = draft_record now x st a c;
                 st1 = st\<lparr>st_next_proposal_seq := st_next_proposal_seq st + 1,
                   st_proposals := st_proposals st @ [p],
                   st_claims := without_claims_of (a_name a) (st_claims st)\<rparr>;
                 bond = bond_section_of st1 a (d_max_capital x) (d_bond_quote_wood x) (d_wood_balance x)
             in and_then
                  (if is_portfolio p then portfolio_payload base (st_fund st1) p (a_address a) (d_metadata_uri x)
                   else propose_payload base (st_fund st1) p (d_strategy x) (d_metadata_uri x))
                  (\<lambda>prep. Inr (\<lparr>dr_proposal = p, dr_prepare = prep, dr_bond = bond\<rparr>, st1)))))"

definition draft_proposal ::
  "string \<Rightarrow> dir \<Rightarrow> time \<Rightarrow> time \<Rightarrow> string \<Rightarrow> string \<Rightarrow> draft_args \<Rightarrow> draft_result outcome" where
  "draft_proposal base d now wt fund agent x =
     (if strip (d_thesis x) = [] then Inl (Rule_violation No_thesis)
      else write_op d wt fund (draft_proposal_mutate base now agent x)
        (\<lambda>r. [(proposal_event Ev_drafted fund (dr_proposal r))\<lparr>e_bond := Some (dr_bond r)\<rparr>]))"

text \<open>\<open>not record.legs or int(record.max_capital or 0) <= 0\<close>\<close>

definition not_ready :: "proposal \<Rightarrow> bool result" where
  "not_ready p = (if p_legs p = [] then Inr True
     else if p_max_capital p = [] then Inr True
     else (case py_int (p_max_capital p) of None \<Rightarrow> Inl Value_error | Some n \<Rightarrow> Inr (n \<le> 0)))"

definition ship_draft_mutate ::
  "time \<Rightarrow> string \<Rightarrow> string option \<Rightarrow> fund_state \<Rightarrow> (proposal \<times> fund_state) result" where
  "ship_draft_mutate now proposal_id caller st =
     require (check_caller_is_host st caller)
       (case proposal_ix st proposal_id of
          None \<Rightarrow> Inl (Rule_violation Unknown_proposal)
        | Some i \<Rightarrow>
            let p = st_proposals st ! i in
            if p_status p \<noteq> Draft then Inl (Rule_violation Not_draft)
            else and_then (not_ready p) (\<lambda>nr.
              if nr then Inl (Rule_violation Draft_not_ready)
              else require (check_cooldown st now)
                (let p' = p\<lparr>p_shipped_at := Some now,
                    p_shipped_by := (case caller of None \<Rightarrow> [] | Some c \<Rightarrow> c), p_updated_at := now\<rparr>
                 in Inr (p', put_proposal i p' st))))"

definition ship_draft :: "dir \<Rightarrow> time \<Rightarrow> time \<Rightarrow> string \<Rightarrow> string \<Rightarrow> string option \<Rightarrow> proposal outcome" where
  "ship_draft d now wt fund proposal_id caller =
     write_op d wt fund (ship_draft_mutate now proposal_id caller)
       (\<lambda>p. [proposal_event Ev_shipped fund p])"

section \<open>The life cycle\<close>

definition start_cooldown :: "time \<Rightarrow> fund_state \<Rightarrow> fund_state" where
  "start_cooldown now st =
     (let until = now + of_int (max 0 (f_cooldown_period (st_fund st))) in
      case f_cooldown_until (st_fund st) of
        Some u \<Rightarrow> if until > u then st\<lparr>st_fund := (st_fund st)\<lparr>f_cooldown_until := Some until\<rparr>\<rparr> else st
      | None \<Rightarrow> st\<lparr>st_fund := (st_fund st)\<lparr>f_cooldown_until := Some until\<rparr>\<rparr>)"

definition check_proposer_or_host :: "fund_state \<Rightarrow> string \<Rightarrow> proposal \<Rightarrow> verdict" where
  "check_proposer_or_host st actor p =
     (if lower actor = lower (p_proposer_agent p) then check_agent_can_act st actor True
      else check_host_action st actor)"

definition moved :: "time \<Rightarrow> pstatus \<Rightarrow> proposal \<Rightarrow> proposal" where
  "moved now s p = p\<lparr>p_status := s, p_updated_at := now\<rparr>"

text \<open>The fields a move to \<open>new\<close> writes, in the code's order; \<open>ends\<close> closes a window opened now.\<close>

definition status_fields ::
  "time \<Rightarrow> time \<Rightarrow> pstatus \<Rightarrow> int option \<Rightarrow> string \<Rightarrow> string \<Rightarrow> proposal \<Rightarrow> proposal" where
  "status_fields now ends new onchain_id tx_hash card_message_id p =
     (let p1 = moved now new p;
          p2 = (case onchain_id of None \<Rightarrow> p1 | Some n \<Rightarrow> p1\<lparr>p_onchain_id := Some n\<rparr>);
          p3 = (if new = Proposed
            then p2\<lparr>p_propose_tx := or_else tx_hash (p_propose_tx p2), p_voting_ends_at := Some ends\<rparr>
            else p2);
          p4 = (if new = Review \<and> p_review_ends_at p3 = None
            then p3\<lparr>p_review_ends_at := Some ends\<rparr> else p3)
      in if card_message_id \<noteq> [] then p4\<lparr>p_card_message_id := card_message_id\<rparr> else p4)"

definition set_proposal_status_mutate ::
  "time \<Rightarrow> string \<Rightarrow> string \<Rightarrow> string \<Rightarrow> int option \<Rightarrow> string \<Rightarrow> string \<Rightarrow> fund_state
     \<Rightarrow> ((proposal \<times> pstatus) \<times> fund_state) result" where
  "set_proposal_status_mutate now actor proposal_id status onchain_id tx_hash card_message_id st =
     (case proposal_ix st proposal_id of
        None \<Rightarrow> Inl (Rule_violation Unknown_proposal)
      | Some i \<Rightarrow>
          let p = st_proposals st ! i in
          require (check_proposer_or_host st actor p)
          (case parse_status status of
             None \<Rightarrow> Inl (Rule_violation Bad_transition)
           | Some new \<Rightarrow>
               require (check_transition (p_status p) new)
               (require (if p_status p = Draft \<and> new = Proposed then check_cooldown st now else Allow)
                 (let p' = status_fields now (now + of_int (f_voting_period (st_fund st))) new
                        onchain_id tx_hash card_message_id p;
                      st1 = (if new = Vetoed then start_cooldown now st else st)
                  in Inr ((p', p_status p), put_proposal i p' st1)))))"

definition set_proposal_status ::
  "dir \<Rightarrow> time \<Rightarrow> time \<Rightarrow> string \<Rightarrow> string \<Rightarrow> string \<Rightarrow> string \<Rightarrow> int option \<Rightarrow> string \<Rightarrow> string
     \<Rightarrow> (proposal \<times> pstatus) outcome" where
  "set_proposal_status d now wt fund actor proposal_id status onchain_id tx_hash card_message_id =
     write_op d wt fund
       (set_proposal_status_mutate now actor proposal_id status onchain_id tx_hash card_message_id)
       (\<lambda>(p, old). [(proposal_event Ev_status fund p)\<lparr>e_old_status := Some old\<rparr>])"

text \<open>
  What a chain read says of a proposal; the second component of the value tells whether
  anything but the time of the read changed.
\<close>

definition chain_fields ::
  "int option \<Rightarrow> time option \<Rightarrow> time option \<Rightarrow> string option \<Rightarrow> proposal \<Rightarrow> proposal" where
  "chain_fields against voting_ends review_ends coverage p =
     (let p1 = (case against of None \<Rightarrow> p | Some a \<Rightarrow> p\<lparr>p_against_bps := max 0 a\<rparr>);
          p2 = (case voting_ends of None \<Rightarrow> p1 | Some t \<Rightarrow> p1\<lparr>p_voting_ends_at := Some t\<rparr>);
          p3 = (case review_ends of None \<Rightarrow> p2 | Some t \<Rightarrow> p2\<lparr>p_review_ends_at := Some t\<rparr>)
      in case coverage of None \<Rightarrow> p3 | Some c \<Rightarrow> p3\<lparr>p_guardian_coverage := c\<rparr>)"

definition set_chain_state_mutate ::
  "time \<Rightarrow> string \<Rightarrow> int option \<Rightarrow> time option \<Rightarrow> time option \<Rightarrow> string option \<Rightarrow> fund_state
     \<Rightarrow> ((proposal \<times> bool) \<times> fund_state) result" where
  "set_chain_state_mutate now proposal_id against voting_ends review_ends coverage st =
     (case proposal_ix st proposal_id of
        None \<Rightarrow> Inl (Rule_violation Unknown_proposal)
      | Some i \<Rightarrow>
          let p = st_proposals st ! i;
              p1 = chain_fields against voting_ends review_ends coverage p;
              p2 = p1\<lparr>p_chain_synced_at := Some now\<rparr>
          in Inr ((p2, p1 \<noteq> p), put_proposal i p2 st))"

definition set_chain_state ::
  "dir \<Rightarrow> time \<Rightarrow> time \<Rightarrow> string \<Rightarrow> string \<Rightarrow> int option \<Rightarrow> time option \<Rightarrow> time option \<Rightarrow> string option
     \<Rightarrow> (proposal \<times> bool) outcome" where
  "set_chain_state d now wt fund proposal_id against voting_ends review_ends coverage =
     write_op d wt fund (set_chain_state_mutate now proposal_id against voting_ends review_ends coverage)
       (\<lambda>(p, changed). if changed then [proposal_event Ev_tally fund p] else [])"

definition chain_status_mutate ::
  "time \<Rightarrow> string \<Rightarrow> pstatus \<Rightarrow> fund_state \<Rightarrow> ((proposal \<times> pstatus) \<times> fund_state) result" where
  "chain_status_mutate now proposal_id s st =
     (case proposal_ix st proposal_id of
        None \<Rightarrow> Inl Assertion_error
      | Some i \<Rightarrow>
          let p = st_proposals st ! i; p' = moved now s p;
              st1 = (if s = Vetoed then start_cooldown now st else st)
          in Inr ((p', p_status p), put_proposal i p' st1))"

definition chain_status ::
  "dir \<Rightarrow> time \<Rightarrow> time \<Rightarrow> string \<Rightarrow> string \<Rightarrow> pstatus \<Rightarrow> (proposal \<times> pstatus) outcome" where
  "chain_status d now wt fund proposal_id s =
     write_op d wt fund (chain_status_mutate now proposal_id s)
       (\<lambda>(p, old). [(proposal_event Ev_status fund p)\<lparr>e_old_status := Some old\<rparr>])"

definition set_card_message_mutate :: "string \<Rightarrow> string \<Rightarrow> fund_state \<Rightarrow> (proposal \<times> fund_state) result" where
  "set_card_message_mutate proposal_id card_message_id st =
     (case proposal_ix st proposal_id of
        None \<Rightarrow> Inl (Rule_violation Unknown_proposal)
      | Some i \<Rightarrow>
          let p = (st_proposals st ! i)\<lparr>p_card_message_id := card_message_id\<rparr>
          in Inr (p, put_proposal i p st))"

definition set_card_message :: "dir \<Rightarrow> time \<Rightarrow> string \<Rightarrow> string \<Rightarrow> string \<Rightarrow> proposal outcome" where
  "set_card_message d wt fund proposal_id card_message_id =
     write_op d wt fund (set_card_message_mutate proposal_id card_message_id) (\<lambda>_. [])"

section \<open>Votes and settles\<close>

definition agent_review :: "time \<Rightarrow> string \<Rightarrow> string \<Rightarrow> string \<Rightarrow> proposal \<Rightarrow> proposal" where
  "agent_review now name side note p = p\<lparr>
     p_reviews := filter (\<lambda>r. lower (rv_agent r) \<noteq> lower name) (p_reviews p)
       @ [\<lparr>rv_agent = name, rv_verdict = side, rv_note = note, rv_at = now\<rparr>], p_updated_at := now\<rparr>"

definition member_vote :: "time \<Rightarrow> string \<Rightarrow> string \<Rightarrow> proposal \<Rightarrow> proposal" where
  "member_vote now tid side p =
     (let b = filter (\<lambda>x. x \<noteq> tid) (p_backers p); k = filter (\<lambda>x. x \<noteq> tid) (p_objectors p) in
      p\<lparr>p_backers := (if side = ''back'' then b @ [tid] else b),
        p_objectors := (if side = ''object'' then k @ [tid] else k), p_updated_at := now\<rparr>)"

definition record_vote_mutate ::
  "time \<Rightarrow> string \<Rightarrow> string \<Rightarrow> string \<Rightarrow> string \<Rightarrow> string \<Rightarrow> fund_state \<Rightarrow> (proposal \<times> fund_state) result" where
  "record_vote_mutate now proposal_id voter side voter_kind note st =
     (let r = proposal_ix st proposal_id; pr = deref (st_proposals st) r in
      if voter_kind = ''agent'' then
        require (check_review st voter pr)
          (case r of
             None \<Rightarrow> Inl Assertion_error
           | Some i \<Rightarrow>
               let name = (case agent_of st voter of None \<Rightarrow> voter | Some a \<Rightarrow> a_name a);
                   p = agent_review now name side note (st_proposals st ! i)
               in Inr (p, put_proposal i p st))
      else
        require (check_member_vote (member_of st voter) pr now)
          (case (r, member_of st voter) of
             (Some i, Some m) \<Rightarrow>
               let p = member_vote now (or_else (m_telegram_id m) (m_address m)) side (st_proposals st ! i)
               in Inr (p, put_proposal i p st)
           | _ \<Rightarrow> Inl Assertion_error))"

definition record_vote ::
  "dir \<Rightarrow> time \<Rightarrow> time \<Rightarrow> string \<Rightarrow> string \<Rightarrow> string \<Rightarrow> string \<Rightarrow> string \<Rightarrow> string \<Rightarrow> proposal outcome" where
  "record_vote d now wt fund proposal_id voter side0 voter_kind note =
     (let side = lower (strip side0) in
      if side \<notin> {''back'', ''object'', ''clear''} then Inl (Rule_violation Bad_side)
      else if side = ''clear'' \<and> voter_kind = ''agent'' then Inl (Rule_violation Bad_side)
      else write_op d wt fund (record_vote_mutate now proposal_id voter side voter_kind note)
        (\<lambda>p. [proposal_event Ev_vote fund p]))"

definition settle_receipt :: "time \<Rightarrow> fund \<Rightarrow> proposal \<Rightarrow> int \<Rightarrow> int \<Rightarrow> string \<Rightarrow> receipt" where
  "settle_receipt now f p pnl pnl_bps tx_hash = \<lparr>r_proposal_id = p_id p, r_agent = p_proposer_agent p,
     r_asset = f_asset f, r_pnl = str_int pnl, r_pnl_bps = pnl_bps, r_tx_hash = tx_hash,
     r_onchain_id = p_onchain_id p, r_idea_by = p_idea_by p, r_thesis = p_thesis p, r_settled_at = now\<rparr>"

definition record_settle_mutate ::
  "time \<Rightarrow> string \<Rightarrow> string \<Rightarrow> int \<Rightarrow> int \<Rightarrow> string \<Rightarrow> fund_state
     \<Rightarrow> ((receipt \<times> proposal \<times> pstatus) \<times> fund_state) result" where
  "record_settle_mutate now actor proposal_id pnl pnl_bps tx_hash st =
     (case proposal_ix st proposal_id of
        None \<Rightarrow> Inl (Rule_violation Unknown_proposal)
      | Some i \<Rightarrow>
          let p = st_proposals st ! i in
          require (check_proposer_or_host st actor p)
          (require (check_transition (p_status p) Settled)
            (let p' = moved now Settled p;
                 st1 = start_cooldown now (put_proposal i p' st);
                 r = settle_receipt now (st_fund st1) p' pnl pnl_bps tx_hash
             in Inr ((r, p', p_status p), st1\<lparr>st_receipts := st_receipts st1 @ [r]\<rparr>))))"

definition record_settle ::
  "dir \<Rightarrow> time \<Rightarrow> time \<Rightarrow> string \<Rightarrow> string \<Rightarrow> string \<Rightarrow> int \<Rightarrow> int \<Rightarrow> string
     \<Rightarrow> (receipt \<times> proposal \<times> pstatus) outcome" where
  "record_settle d now wt fund actor proposal_id pnl pnl_bps tx_hash =
     write_op d wt fund (record_settle_mutate now actor proposal_id pnl pnl_bps tx_hash)
       (\<lambda>(r, p, old). [(proposal_event Ev_settled fund p)\<lparr>e_receipt := Some r, e_old_status := Some old\<rparr>])"

section \<open>The leaderboard\<close>

record lb_row =
  lb_tg :: string
  lb_pnl_bps :: int
  lb_ideas :: int
  lb_wins :: int

fun lb_add :: "string \<Rightarrow> int \<Rightarrow> bool \<Rightarrow> lb_row list \<Rightarrow> lb_row list" where
  "lb_add tg bps win [] = [\<lparr>lb_tg = tg, lb_pnl_bps = bps, lb_ideas = 1, lb_wins = of_bool win\<rparr>]"
| "lb_add tg bps win (r # rs) =
     (if lb_tg r = tg
      then r\<lparr>lb_pnl_bps := lb_pnl_bps r + bps, lb_ideas := lb_ideas r + 1, lb_wins := lb_wins r + of_bool win\<rparr> # rs
      else r # lb_add tg bps win rs)"

fun lb_rows :: "receipt list \<Rightarrow> lb_row list \<Rightarrow> lb_row list result" where
  "lb_rows [] rows = Inr rows"
| "lb_rows (r # rs) rows =
     (if r_idea_by r = [] then lb_rows rs rows
      else (case py_int (r_pnl r) of
          None \<Rightarrow> Inl Value_error
        | Some pnl \<Rightarrow> lb_rows rs (lb_add (r_idea_by r) (r_pnl_bps r) (pnl > 0) rows)))"

definition lb_key :: "lb_row \<Rightarrow> int \<times> int \<times> string" where
  "lb_key r = (- lb_pnl_bps r, - lb_ideas r, lb_tg r)"

definition leaderboard_of :: "fund_state \<Rightarrow> lb_row list result" where
  "leaderboard_of st = and_then (lb_rows (st_receipts st) []) (\<lambda>rows. Inr (sort_key lb_key rows))"

definition leaderboard :: "dir \<Rightarrow> string \<Rightarrow> lb_row list result" where
  "leaderboard d fund = and_then (store_load d fund) leaderboard_of"

end
