(* ===== verification/ChainCard.thy ===== *)
theory ChainCard
  imports Service
begin

text \<open>
  \<open>FundService.apply_chain_card\<close> and its helpers: the reading of a tg-card reply and its
  application, as the code runs it: one update of the fund record, one load, then for each
  known proposal an update of its chain fields, a second load, and (when the step from that
  loaded status is legal) an update of its status. \<open>tick n\<close> is the pair of clock readings of
  the n-th update of the call.
\<close>

section \<open>Reading the reply\<close>

text \<open>\<open>service._opt_int\<close> and \<open>service._opt_float\<close>\<close>

definition svc_opt_int :: "json \<Rightarrow> int option" where
  "svc_opt_int j = (if j = JNull \<or> j = JStr [] then None else json_int j)"

definition svc_opt_float :: "json \<Rightarrow> time option" where
  "svc_opt_float j =
     (if j = JNull \<or> j = JStr [] \<or> j = JStr ''0'' \<or> j = JInt 0 \<or> j = JNum 0 \<or> j = JBool False
      then None else json_float j)"

text \<open>\<open>d.get(k) if isinstance(d.get(k), dict) else {}\<close>\<close>

definition sub_dict :: "(string \<times> json) list \<Rightarrow> string \<Rightarrow> (string \<times> json) list" where
  "sub_dict o' k = (case get_or o' k JNull of JObj d \<Rightarrow> d | _ \<Rightarrow> [])"

text \<open>\<open>str(v or "")\<close>, or nothing when it cannot be digits or a key (a float, a container)\<close>

definition str_or_empty :: "json \<Rightarrow> string" where
  "str_or_empty v = (if truthy v then (case py_str v of None \<Rightarrow> [] | Some s \<Rightarrow> s) else [])"

text \<open>\<open>v or []\<close>, iterated\<close>

definition iter_or_empty :: "json \<Rightarrow> json list result" where
  "iter_or_empty v = (if truthy v then py_list v else Inr [])"

fun setdefaults :: "(string \<times> int) list \<Rightarrow> int \<Rightarrow> json list \<Rightarrow> (string \<times> int) list" where
  "setdefaults out i [] = out"
| "setdefaults out i (j # js) = setdefaults
     (case j of JStr s \<Rightarrow> if map_of out (lower s) = None then out @ [(lower s, i)] else out | _ \<Rightarrow> out)
     (i + 1) js"

definition row_number :: "(string \<times> json) list \<Rightarrow> int option" where
  "row_number row =
     (case List.find (\<lambda>k. case svc_opt_int (get_or row k JNull) of None \<Rightarrow> False | Some n \<Rightarrow> n \<noteq> 0)
         [''depositIndex'', ''memberNumber'', ''number''] of
        None \<Rightarrow> None
      | Some k \<Rightarrow> svc_opt_int (get_or row k JNull))"

fun approved_rows :: "(string \<times> int) list \<Rightarrow> json list \<Rightarrow> (string \<times> int) list" where
  "approved_rows out [] = out"
| "approved_rows out (j # js) = approved_rows
     (case j of
        JObj row \<Rightarrow>
          (case (get_or row ''address'' JNull, row_number row) of
             (JStr a, Some n) \<Rightarrow> AList.update (lower a) n out
           | _ \<Rightarrow> out)
      | _ \<Rightarrow> out) js"

definition deposit_order :: "json \<Rightarrow> (string \<times> int) list result" where
  "deposit_order members =
     (case members of
        JObj m \<Rightarrow>
          (let out = (case get_or m ''depositOrder'' JNull of JList l \<Rightarrow> setdefaults [] 1 l | _ \<Rightarrow> []) in
           and_then (iter_or_empty (get_or m ''approved'' JNull)) (\<lambda>rows. Inr (approved_rows out rows)))
      | _ \<Rightarrow> Inr [])"

definition coverage_kind :: "(string \<times> json) list \<Rightarrow> string option result" where
  "coverage_kind row =
     (let rv = sub_dict row ''review''; cov = get_or rv ''coverage'' JNull in
      case cov of
        JObj c \<Rightarrow>
          if truthy (get_or c ''kind'' JNull)
          then and_then (text_of (get_or c ''kind'' JNull)) (\<lambda>s. Inr (Some s))
          else Inr (if truthy (get_or rv ''blocked'' JNull) then Some ''blocked'' else None)
      | JStr s \<Rightarrow>
          if s \<noteq> [] then Inr (Some s)
          else Inr (if truthy (get_or rv ''blocked'' JNull) then Some ''blocked'' else None)
      | _ \<Rightarrow> Inr (if truthy (get_or rv ''blocked'' JNull) then Some ''blocked'' else None))"

definition CHAIN_STATES :: "(string \<times> pstatus) list" where
  "CHAIN_STATES = [(''GuardianReview'', Review), (''Approved'', Approved), (''Executed'', Executed),
     (''Rejected'', Vetoed)]"

text \<open>The part of the reply the call uses.\<close>

record tg_card =
  cd_gov :: "(string \<times> json) list"
  cd_gate :: "(string \<times> json) list"
  cd_fee :: "int option"
  cd_deposits :: "(string \<times> int) list"
  cd_rows :: "(string \<times> json) list list"

definition obj_rows :: "json list \<Rightarrow> (string \<times> json) list list" where
  "obj_rows js = List.map_filter (\<lambda>j. case j of JObj o' \<Rightarrow> Some o' | _ \<Rightarrow> None) js"

definition card_data :: "json \<Rightarrow> (string \<times> json) list result" where
  "card_data c = (case c of
     JObj o' \<Rightarrow> (case get_or o' ''data'' (JObj o') of JObj d \<Rightarrow> Inr d | _ \<Rightarrow> Inl Attribute_error)
   | _ \<Rightarrow> Inr [])"

definition parse_card :: "json \<Rightarrow> tg_card result" where
  "parse_card c =
     and_then (card_data c) (\<lambda>data.
     and_then (dict_or_empty (get_or data ''proposals'' JNull)) (\<lambda>props.
     and_then (iter_or_empty (get_or props ''open'' JNull)) (\<lambda>op.
     and_then (iter_or_empty (get_or props ''recent'' JNull)) (\<lambda>rec.
     and_then (deposit_order (get_or data ''members'' JNull)) (\<lambda>dep.
       Inr \<lparr>cd_gov = sub_dict data ''governor'', cd_gate = sub_dict data ''proposeGate'',
         cd_fee = svc_opt_int (get_or (sub_dict data ''fund'') ''agentFeeBps'' JNull), cd_deposits = dep,
         cd_rows = obj_rows op @ obj_rows rec
           @ (case get_or data ''activeProposal'' JNull of JObj o' \<Rightarrow> [o'] | _ \<Rightarrow> [])\<rparr>)))))"

section \<open>The fund record\<close>

definition digits_field :: "(string \<times> json) list \<Rightarrow> string \<Rightarrow> int option" where
  "digits_field gov k = (let s = str_or_empty (get_or gov k JNull) in
     if isdigit s then json_int (get_or gov k JNull) else None)"

definition chain_fund :: "tg_card \<Rightarrow> fund \<Rightarrow> fund" where
  "chain_fund c f =
     (let f1 = (case digits_field (cd_gov c) ''cooldownPeriod'' of None \<Rightarrow> f | Some n \<Rightarrow> f\<lparr>f_cooldown_period := n\<rparr>);
          f2 = (case digits_field (cd_gov c) ''vetoThresholdBps'' of None \<Rightarrow> f1
                | Some n \<Rightarrow> f1\<lparr>f_veto_threshold_bps := n\<rparr>);
          f3 = (case map_of (cd_gate c) ''cooldownUntil'' of None \<Rightarrow> f2
                | Some j \<Rightarrow> f2\<lparr>f_cooldown_until := svc_opt_float j\<rparr>)
      in (case cd_fee c of None \<Rightarrow> f3 | Some n \<Rightarrow> f3\<lparr>f_agent_fee_bps := Some n\<rparr>))"

definition chain_member :: "(string \<times> int) list \<Rightarrow> member \<Rightarrow> member" where
  "chain_member dep m =
     (if m_address m \<noteq> [] then
        (case map_of dep (lower (m_address m)) of None \<Rightarrow> m | Some n \<Rightarrow> m\<lparr>m_deposit_no := Some n\<rparr>)
      else m)"

definition fund_card_mutate :: "tg_card \<Rightarrow> fund_state \<Rightarrow> (unit \<times> fund_state) result" where
  "fund_card_mutate c st = Inr ((), st\<lparr>st_fund := chain_fund c (st_fund st),
     st_members := map (chain_member (cd_deposits c)) (st_members st)\<rparr>)"

section \<open>The rows\<close>

type_synonym ticks = "nat \<Rightarrow> time \<times> time"

definition onchain_of :: "(string \<times> json) list \<Rightarrow> int option" where
  "onchain_of row = (case py_str (get_or row ''id'' JNull) of None \<Rightarrow> None | Some s \<Rightarrow> py_int s)"

definition target_of :: "(string \<times> json) list \<Rightarrow> pstatus option" where
  "target_of row = map_of CHAIN_STATES (str_or_empty (get_or row ''state'' JNull))"

text \<open>The check of the target status against a freshly loaded state, then the write.\<close>

definition chain_move ::
  "dir \<Rightarrow> time \<times> time \<Rightarrow> string \<Rightarrow> string \<Rightarrow> pstatus option \<Rightarrow> (dir \<times> fund_event list) result" where
  "chain_move d tk fund pid target =
     and_then (store_load d fund) (\<lambda>st.
       case (target, proposal_of st pid) of
         (Some s, Some p) \<Rightarrow>
           if p_status p \<noteq> s \<and> check_transition (p_status p) s = Allow
           then and_then (chain_status d (fst tk) (snd tk) fund pid s) (\<lambda>(_, d', evs). Inr (d', evs))
           else Inr (d, [])
       | _ \<Rightarrow> Inr (d, []))"

definition apply_row ::
  "dir \<Rightarrow> ticks \<Rightarrow> string \<Rightarrow> string \<Rightarrow> (string \<times> json) list \<Rightarrow> (dir \<times> fund_event list) result" where
  "apply_row d tick fund pid row =
     and_then (coverage_kind row) (\<lambda>cov.
     and_then (set_chain_state d (fst (tick 0)) (snd (tick 0)) fund pid
         (svc_opt_int (get_or row ''againstBps'' JNull)) (svc_opt_float (get_or row ''voteEnd'' JNull))
         (svc_opt_float (get_or row ''reviewEnd'' JNull)) cov) (\<lambda>(_, d1, ev1).
     and_then (chain_move d1 (tick 1) fund pid (target_of row)) (\<lambda>(d2, ev2). Inr (d2, ev1 @ ev2))))"

fun apply_rows ::
  "fund_state \<Rightarrow> dir \<Rightarrow> ticks \<Rightarrow> string \<Rightarrow> int list \<Rightarrow> nat \<Rightarrow> (string \<times> json) list list
     \<Rightarrow> (nat \<times> dir \<times> fund_event list) result" where
  "apply_rows st d tick fund seen n [] = Inr (n, d, [])"
| "apply_rows st d tick fund seen n (row # rows) =
     (case onchain_of row of
        None \<Rightarrow> apply_rows st d tick fund seen n rows
      | Some oc \<Rightarrow>
          if oc \<in> set seen then apply_rows st d tick fund seen n rows
          else (case List.find (\<lambda>p. p_onchain_id p = Some oc) (st_proposals st) of
              None \<Rightarrow> apply_rows st d tick fund (oc # seen) n rows
            | Some p \<Rightarrow>
                and_then (apply_row d tick fund (p_id p) row) (\<lambda>(d1, ev1).
                and_then (apply_rows st d1 (\<lambda>i. tick (i + 2)) fund (oc # seen) (n + 1) rows)
                  (\<lambda>(m, d2, ev2). Inr (m, d2, ev1 @ ev2)))))"

definition apply_chain_card :: "dir \<Rightarrow> ticks \<Rightarrow> string \<Rightarrow> json \<Rightarrow> nat outcome" where
  "apply_chain_card d tick fund reply =
     and_then (parse_card reply) (\<lambda>c.
     and_then
       (if cd_gov c \<noteq> [] \<or> cd_gate c \<noteq> [] \<or> cd_fee c \<noteq> None \<or> cd_deposits c \<noteq> []
        then and_then (store_update d (snd (tick 0)) fund (fund_card_mutate c)) (\<lambda>(_, d'). Inr d')
        else Inr d) (\<lambda>d1.
     and_then (store_load d1 fund) (\<lambda>st.
       apply_rows st d1 (\<lambda>i. tick (i + 1)) fund [] 0 (cd_rows c))))"

end
