(* ===== verification/ServiceSteps.thy ===== *)
theory ServiceSteps
  imports ChainCard
begin

text \<open>
  What each operation does to a fund, one fact per operation: which parts of the state it
  changes and how. \<open>evolves\<close> is the change of a proposal any operation may make, \<open>numbered\<close> the
  change of the member list; the invariants of \<open>ServiceInv\<close> rest on these facts only.
\<close>

section \<open>Clean names\<close>

definition clean :: "string \<Rightarrow> bool" where
  "clean s \<longleftrightarrow> strip s = s"

lemma clean_strip [simp]: "clean (strip s)"
  by (simp add: clean_def)

lemma clean_lower [simp]: "clean (lower s) = clean s"
  by (cases s rule: rev_cases; cases s)
    (auto simp: clean_def strip_eq_iff lower_def last_map hd_map simp del: map_append)

lemma agent_of_clean: "agent_of st x = Some a \<Longrightarrow> clean (a_name a)"
  using agent_of_Some [of st x a] clean_lower [of "a_name a"] clean_lower [of "strip x"] clean_strip by metis

lemma agent_of_self: "agent_of st x = Some a \<Longrightarrow> agent_of st (a_name a) = Some a"
  using agent_of_Some [of st x a] agent_of_clean [of st x a]
  by (simp add: agent_of_def agent_ix_def clean_def)

lemma clean_same: "lower x = lower y \<Longrightarrow> clean y \<Longrightarrow> strip x = x"
  using clean_lower [of x] clean_lower [of y] by (simp add: clean_def)

section \<open>What may happen to a proposal\<close>

definition votes_fair :: "proposal \<Rightarrow> bool" where
  "votes_fair p \<longleftrightarrow> distinct (p_backers p) \<and> distinct (p_objectors p)
     \<and> set (p_backers p) \<inter> set (p_objectors p) = {}"

definition has_window :: "proposal \<Rightarrow> bool" where
  "has_window p \<longleftrightarrow> (p_status p = Proposed \<or> p_status p = Voting \<longrightarrow> p_voting_ends_at p \<noteq> None)"

definition evolves :: "proposal \<Rightarrow> proposal \<Rightarrow> bool" where
  "evolves p q \<longleftrightarrow> p_id q = p_id p \<and> p_proposer_agent q = p_proposer_agent p
     \<and> (p_status q = p_status p \<or> p_status q \<in> TRANSITIONS (p_status p))
     \<and> (votes_fair p \<longrightarrow> votes_fair q) \<and> (has_window p \<longrightarrow> has_window q)"

lemma evolves_refl [simp, intro]: "evolves p p"
  by (simp add: evolves_def)

lemma evolves_open: "evolves p q \<Longrightarrow> is_open q \<Longrightarrow> is_open p"
  using transition_from_open by (auto simp: evolves_def is_open_def)

lemma evolves_draft: "evolves p q \<Longrightarrow> p_status q = Draft \<Longrightarrow> p_status p = Draft"
  by (cases "p_status p") (auto simp: evolves_def)

lemma evolves_settled: "evolves p q \<Longrightarrow> p_status p = Settled \<Longrightarrow> p_status q = Settled"
  by (auto simp: evolves_def)

abbreviation progress :: "proposal list \<Rightarrow> proposal list \<Rightarrow> bool" where
  "progress \<equiv> list_all2 evolves"

lemma progress_refl [simp, intro]: "progress ps ps"
  by (simp add: list_all2_refl)

lemma progress_put: "i < length ps \<Longrightarrow> evolves (ps ! i) p \<Longrightarrow> progress ps (ps[i := p])"
  by (auto simp: list_all2_conv_all_nth nth_list_update)

lemma progress_map: "(\<And>p. evolves p (f p)) \<Longrightarrow> progress ps (map f ps)"
  by (simp add: list_all2_conv_all_nth)

text \<open>Changes that leave the identity, the status and the votes of a proposal alone.\<close>

definition same_core :: "proposal \<Rightarrow> proposal \<Rightarrow> bool" where
  "same_core p q \<longleftrightarrow> p_id q = p_id p \<and> p_proposer_agent q = p_proposer_agent p \<and> p_status q = p_status p
     \<and> p_backers q = p_backers p \<and> p_objectors q = p_objectors p
     \<and> (p_voting_ends_at p \<noteq> None \<longrightarrow> p_voting_ends_at q \<noteq> None)"

lemma same_core_evolves: "same_core p q \<Longrightarrow> evolves p q"
  by (auto simp: same_core_def evolves_def votes_fair_def has_window_def)

lemma same_core_trans: "same_core p q \<Longrightarrow> same_core q r \<Longrightarrow> same_core p r"
  by (auto simp: same_core_def)

lemma chain_fields_core: "same_core p (chain_fields a v w c p)"
proof -
  let ?p1 = "case a of None \<Rightarrow> p | Some a \<Rightarrow> p\<lparr>p_against_bps := max 0 a\<rparr>"
  let ?p2 = "case v of None \<Rightarrow> ?p1 | Some t \<Rightarrow> ?p1\<lparr>p_voting_ends_at := Some t\<rparr>"
  let ?p3 = "case w of None \<Rightarrow> ?p2 | Some t \<Rightarrow> ?p2\<lparr>p_review_ends_at := Some t\<rparr>"
  have 1: "same_core p ?p1" by (cases a) (simp_all add: same_core_def)
  have 2: "same_core q (case v of None \<Rightarrow> q | Some t \<Rightarrow> q\<lparr>p_voting_ends_at := Some t\<rparr>)" for q
    by (cases v) (simp_all add: same_core_def)
  have 3: "same_core q (case w of None \<Rightarrow> q | Some t \<Rightarrow> q\<lparr>p_review_ends_at := Some t\<rparr>)" for q
    by (cases w) (simp_all add: same_core_def)
  have 4: "same_core q (case c of None \<Rightarrow> q | Some t \<Rightarrow> q\<lparr>p_guardian_coverage := t\<rparr>)" for q
    by (cases c) (simp_all add: same_core_def)
  show ?thesis
    unfolding chain_fields_def Let_def
    using same_core_trans [OF same_core_trans [OF same_core_trans [OF 1 2] 3] 4] .
qed

lemma status_fields_core:
  "p_id (status_fields now ends s oc tx cm p) = p_id p"
  "p_proposer_agent (status_fields now ends s oc tx cm p) = p_proposer_agent p"
  "p_status (status_fields now ends s oc tx cm p) = s"
  "p_backers (status_fields now ends s oc tx cm p) = p_backers p"
  "p_objectors (status_fields now ends s oc tx cm p) = p_objectors p"
  "p_voting_ends_at (status_fields now ends s oc tx cm p) = (if s = Proposed then Some ends else p_voting_ends_at p)"
  by (simp_all add: status_fields_def Let_def moved_def split: option.split)

lemma status_fields_evolves:
  "s \<in> TRANSITIONS (p_status p) \<Longrightarrow> evolves p (status_fields now ends s oc tx cm p)"
  by (cases "p_status p") (auto simp: evolves_def votes_fair_def has_window_def status_fields_core)

lemma moved_evolves:
  "s \<in> TRANSITIONS (p_status p) \<Longrightarrow> s \<noteq> Proposed \<Longrightarrow> evolves p (moved now s p)"
  by (cases "p_status p") (auto simp: evolves_def moved_def votes_fair_def has_window_def)

lemma cancel_draft_evolves: "evolves p (cancel_draft_of key now p)"
  by (auto simp: evolves_def cancel_draft_of_def votes_fair_def has_window_def)

lemma agent_review_evolves: "evolves p (agent_review now name side note p)"
  by (simp add: evolves_def agent_review_def votes_fair_def has_window_def)

lemma member_vote_evolves: "evolves p (member_vote now tid side p)"
  by (auto simp: evolves_def member_vote_def votes_fair_def has_window_def Let_def)

lemma member_vote_effect:
  assumes "side \<in> {''back'', ''object'', ''clear''}"
  shows "tid \<in> set (p_backers (member_vote now tid side p)) \<longleftrightarrow> side = ''back''"
    "tid \<in> set (p_objectors (member_vote now tid side p)) \<longleftrightarrow> side = ''object''"
    "x \<noteq> tid \<Longrightarrow> x \<in> set (p_backers (member_vote now tid side p)) \<longleftrightarrow> x \<in> set (p_backers p)"
    "x \<noteq> tid \<Longrightarrow> x \<in> set (p_objectors (member_vote now tid side p)) \<longleftrightarrow> x \<in> set (p_objectors p)"
  using assms by (auto simp: member_vote_def Let_def)

section \<open>The fund's own record\<close>

lemma start_cooldown_simps [simp]:
  "st_proposals (start_cooldown now st) = st_proposals st"
  "st_claims (start_cooldown now st) = st_claims st"
  "st_agents (start_cooldown now st) = st_agents st"
  "st_members (start_cooldown now st) = st_members st"
  "st_receipts (start_cooldown now st) = st_receipts st"
  "st_next_proposal_seq (start_cooldown now st) = st_next_proposal_seq st"
  "st_next_member_no (start_cooldown now st) = st_next_member_no st"
  "st_schema_version (start_cooldown now st) = st_schema_version st"
  "st_revision (start_cooldown now st) = st_revision st"
  by (simp_all add: start_cooldown_def Let_def split: option.splits)

lemma start_cooldown_until:
  "\<exists>u. f_cooldown_until (st_fund (start_cooldown now st)) = Some u
     \<and> now + of_int (f_cooldown_period (st_fund st)) \<le> u \<and> now \<le> u"
proof -
  have a: "now + of_int (f_cooldown_period (st_fund st)) \<le> now + of_int (max 0 (f_cooldown_period (st_fund st)))"
    by simp
  have b: "now \<le> now + of_int (max 0 (f_cooldown_period (st_fund st)))" by simp
  show ?thesis
    using a b by (cases "f_cooldown_until (st_fund st)")
      (auto simp: start_cooldown_def Let_def simp del: of_int_max)
qed

lemma put_simps [simp]:
  "st_proposals (put_proposal i p st) = (st_proposals st)[i := p]"
  "st_claims (put_proposal i p st) = st_claims st" "st_agents (put_proposal i p st) = st_agents st"
  "st_members (put_proposal i p st) = st_members st" "st_receipts (put_proposal i p st) = st_receipts st"
  "st_fund (put_proposal i p st) = st_fund st"
  "st_next_proposal_seq (put_proposal i p st) = st_next_proposal_seq st"
  "st_next_member_no (put_proposal i p st) = st_next_member_no st"
  "st_schema_version (put_proposal i p st) = st_schema_version st"
  "st_revision (put_proposal i p st) = st_revision st"
  by (simp_all add: put_proposal_def)

section \<open>Operations that touch only proposals and the fund record\<close>

text \<open>The agents, the members with their numbers, the claims and the counters stay.\<close>

definition only_proposals :: "fund_state \<Rightarrow> fund_state \<Rightarrow> bool" where
  "only_proposals st st' \<longleftrightarrow> progress (st_proposals st) (st_proposals st')
     \<and> st_claims st' = st_claims st \<and> st_agents st' = st_agents st \<and> st_members st' = st_members st
     \<and> st_next_proposal_seq st' = st_next_proposal_seq st \<and> st_next_member_no st' = st_next_member_no st
     \<and> st_schema_version st' = st_schema_version st \<and> st_revision st' = st_revision st"

lemma only_proposals_put:
  assumes "i < length (st_proposals st)" "evolves (st_proposals st ! i) p"
    "st' = put_proposal i p st \<or> st' = put_proposal i p (start_cooldown now st)
      \<or> st' = start_cooldown now (put_proposal i p st)"
  shows "only_proposals st st'" "st_receipts st' = st_receipts st"
  using assms by (auto simp: only_proposals_def intro: progress_put)

lemma ship_draft_effect:
  assumes "ship_draft_mutate now pid caller st = Inr (r, st')"
  shows "only_proposals st st'" "st_receipts st' = st_receipts st"
proof -
  obtain i where i: "proposal_ix st pid = Some i"
    using assms by (auto simp: ship_draft_mutate_def split: option.splits)
  have "evolves (st_proposals st ! i) r \<and> st' = put_proposal i r st"
    using assms i
    by (auto simp: ship_draft_mutate_def and_then_Inr_iff evolves_def votes_fair_def has_window_def Let_def
        split: if_splits)
  then show "only_proposals st st'" "st_receipts st' = st_receipts st"
    using only_proposals_put [OF proposal_ix_less [OF i]] by auto
qed

lemma set_chain_state_effect:
  assumes "set_chain_state_mutate now pid a v w c st = Inr (r, st')"
  shows "only_proposals st st'" "st_receipts st' = st_receipts st"
proof -
  obtain i where i: "proposal_ix st pid = Some i"
    using assms by (auto simp: set_chain_state_mutate_def split: option.splits)
  have "evolves (st_proposals st ! i) (fst r) \<and> st' = put_proposal i (fst r) st"
    using assms i
    using same_core_trans [OF chain_fields_core [of "st_proposals st ! i" a v w c],
        of "fst r", THEN same_core_evolves]
    by (auto simp: set_chain_state_mutate_def same_core_def Let_def)
  then show "only_proposals st st'" "st_receipts st' = st_receipts st"
    using only_proposals_put [OF proposal_ix_less [OF i]] by auto
qed

lemma set_card_message_effect:
  assumes "set_card_message_mutate pid m st = Inr (r, st')"
  shows "only_proposals st st'" "st_receipts st' = st_receipts st"
proof -
  obtain i where i: "proposal_ix st pid = Some i"
    using assms by (auto simp: set_card_message_mutate_def split: option.splits)
  have "evolves (st_proposals st ! i) r \<and> st' = put_proposal i r st"
    using assms i
    by (auto simp: set_card_message_mutate_def evolves_def votes_fair_def has_window_def Let_def)
  then show "only_proposals st st'" "st_receipts st' = st_receipts st"
    using only_proposals_put [OF proposal_ix_less [OF i]] by auto
qed

lemma record_vote_effect:
  assumes "record_vote_mutate now pid voter side kind note st = Inr (r, st')"
  shows "only_proposals st st'" "st_receipts st' = st_receipts st"
proof -
  obtain i where i: "proposal_ix st pid = Some i"
    using assms by (auto simp: record_vote_mutate_def Let_def split: option.splits if_splits)
  have "evolves (st_proposals st ! i) r \<and> st' = put_proposal i r st"
    using assms i
    by (auto simp: record_vote_mutate_def Let_def member_vote_evolves agent_review_evolves
        split: option.splits if_splits)
  then show "only_proposals st st'" "st_receipts st' = st_receipts st"
    using only_proposals_put [OF proposal_ix_less [OF i]] by auto
qed

lemma set_proposal_status_effect:
  assumes "set_proposal_status_mutate now actor pid s oc tx cm st = Inr (r, st')"
  shows "only_proposals st st'" "st_receipts st' = st_receipts st"
proof -
  obtain i new where i: "proposal_ix st pid = Some i" "parse_status s = Some new"
    using assms by (auto simp: set_proposal_status_mutate_def Let_def split: option.splits)
  have t: "new \<in> TRANSITIONS (p_status (st_proposals st ! i))"
    using assms i by (auto simp: set_proposal_status_mutate_def Let_def check_transition_Allow)
  have "evolves (st_proposals st ! i) (fst r)"
    using assms i t by (auto simp: set_proposal_status_mutate_def Let_def status_fields_evolves)
  moreover have "st' = put_proposal i (fst r) st \<or> st' = put_proposal i (fst r) (start_cooldown now st)"
    using assms i by (auto simp: set_proposal_status_mutate_def Let_def split: if_splits)
  ultimately show "only_proposals st st'" "st_receipts st' = st_receipts st"
    using only_proposals_put [OF proposal_ix_less [OF i(1)]] by auto
qed

text \<open>A chain move, when the caller has checked the step.\<close>

lemma chain_status_effect:
  assumes "chain_status_mutate now pid s st = Inr (r, st')"
    and "proposal_of st pid = Some p" "check_transition (p_status p) s = Allow" "s \<noteq> Proposed"
  shows "only_proposals st st'" "st_receipts st' = st_receipts st"
proof -
  obtain i where i: "proposal_ix st pid = Some i" "p = st_proposals st ! i"
    using assms(2) by (auto simp: proposal_of_ix)
  have "evolves p (moved now s p)"
    using assms(3,4) by (intro moved_evolves) (simp_all add: check_transition_Allow)
  moreover have "st' = put_proposal i (moved now s p) st \<or> st' = put_proposal i (moved now s p) (start_cooldown now st)"
    using assms(1) i by (auto simp: chain_status_mutate_def Let_def split: if_splits)
  ultimately show "only_proposals st st'" "st_receipts st' = st_receipts st"
    using only_proposals_put [OF proposal_ix_less [OF i(1)]] i(2) by auto
qed

lemma record_settle_effect:
  assumes "record_settle_mutate now actor pid pnl bps tx st = Inr (r, st')"
  shows "only_proposals st st'"
    "\<exists>i p q. proposal_ix st pid = Some i \<and> p = st_proposals st ! i \<and> p_status p = Executed
       \<and> q = moved now Settled p \<and> st_proposals st' = (st_proposals st)[i := q]
       \<and> st_receipts st' = st_receipts st @ [fst r] \<and> r_proposal_id (fst r) = p_id p
       \<and> st_fund st' = st_fund (start_cooldown now st)"
proof -
  obtain i where i: "proposal_ix st pid = Some i"
    using assms by (auto simp: record_settle_mutate_def split: option.splits)
  let ?p = "st_proposals st ! i"
  have t: "Settled \<in> TRANSITIONS (p_status ?p)"
    using assms i by (auto simp: record_settle_mutate_def Let_def check_transition_Allow)
  have ex: "p_status ?p = Executed" using t by (cases "p_status ?p") auto
  have f: "st_fund (start_cooldown now (put_proposal i q st)) = st_fund (start_cooldown now st)" for q
    by (simp add: start_cooldown_def Let_def split: option.splits)
  show "only_proposals st st'"
    using assms i moved_evolves [OF t, of now] proposal_ix_less [OF i]
    by (auto simp: record_settle_mutate_def Let_def only_proposals_def intro: progress_put)
  show "\<exists>i p q. proposal_ix st pid = Some i \<and> p = st_proposals st ! i \<and> p_status p = Executed
       \<and> q = moved now Settled p \<and> st_proposals st' = (st_proposals st)[i := q]
       \<and> st_receipts st' = st_receipts st @ [fst r] \<and> r_proposal_id (fst r) = p_id p
       \<and> st_fund st' = st_fund (start_cooldown now st)"
    using assms i ex
    by (auto simp: record_settle_mutate_def Let_def settle_receipt_def moved_def f)
qed

section \<open>Members\<close>

definition numbered :: "member \<Rightarrow> bool \<times> int option" where
  "numbered m = (m_approved m, m_member_no m)"

text \<open>The member list with at most one new, unapproved member.\<close>

definition joined :: "member list \<Rightarrow> member list \<Rightarrow> bool" where
  "joined ms ms' \<longleftrightarrow> map numbered ms' = map numbered ms \<or> map numbered ms' = map numbered ms @ [(False, None)]"

lemma map_update_same: "i < length xs \<Longrightarrow> f y = f (xs ! i) \<Longrightarrow> map f (xs[i := y]) = map f xs"
  by (metis list_update_id map_update nth_map length_map)

lemma request_membership_effect:
  assumes "request_membership_mutate now tg address username st = Inr (r, st')"
  shows "\<exists>ms. st' = st\<lparr>st_members := ms\<rparr> \<and> joined (st_members st) ms"
proof -
  obtain st1 i where s1: "(case ref_or (member_ix st tg) (if address \<noteq> [] then member_ix st address else None) of
      Some i \<Rightarrow> (st, i)
    | None \<Rightarrow> (st\<lparr>st_members := st_members st @ [new_member tg [] now]\<rparr>, length (st_members st))) = (st1, i)"
    by fastforce
  have i: "i < length (st_members st1)" and j: "joined (st_members st) (st_members st1)"
    and st1: "st1 = st\<lparr>st_members := st_members st1\<rparr>"
    using s1 by (auto simp: ref_or_def joined_def numbered_def new_member_def dest: member_ix_less
        split: option.splits if_splits)
  have "\<exists>m2. st' = put_member i m2 st1 \<and> numbered m2 = numbered (st_members st1 ! i)"
    using assms s1 by (auto simp: request_membership_mutate_def Let_def numbered_def split: if_splits)
  then obtain m2 where m2: "st' = put_member i m2 st1" "numbered m2 = numbered (st_members st1 ! i)" by blast
  have "st' = st\<lparr>st_members := (st_members st1)[i := m2]\<rparr>"
    using m2(1) by (subst (asm) st1) (simp add: put_member_def)
  moreover have "joined (st_members st) ((st_members st1)[i := m2])"
    using j map_update_same [where f = numbered, OF i m2(2)] by (simp add: joined_def)
  ultimately show ?thesis by blast
qed

lemma approve_member_effect:
  assumes "approve_member_mutate now actor who address tx caller st = Inr (r, st')"
  shows "\<exists>ms ms1 i. st' = st\<lparr>st_members := ms, st_next_member_no := st_next_member_no st + 1\<rparr>
    \<and> joined (st_members st) ms1 \<and> i < length ms1 \<and> \<not> m_approved (ms1 ! i)
    \<and> map numbered ms = (map numbered ms1)[i := (True, Some (st_next_member_no st))]"
proof -
  let ?add = "\<lambda>m. (st\<lparr>st_members := st_members st @ [m]\<rparr>, Some (length (st_members st)))"
  obtain st1 q where s1: "(case ref_or (member_ix st who) (if address \<noteq> [] then member_ix st address else None) of
        Some i \<Rightarrow> (st, Some i)
      | None \<Rightarrow> if is_address who then ?add (new_member [] who now)
          else if address \<noteq> [] then ?add (new_member who address now) else (st, None)) = (st1, q)"
    by fastforce
  obtain i where q: "q = Some i"
    using assms s1 by (auto simp: approve_member_mutate_def Let_def split: option.splits)
  have i: "i < length (st_members st1)" and j: "joined (st_members st) (st_members st1)"
    and st1: "st1 = st\<lparr>st_members := st_members st1\<rparr>"
    using s1 q by (auto simp: ref_or_def joined_def numbered_def new_member_def dest: member_ix_less
        split: option.splits if_splits)
  let ?m1 = "st_members st1 ! i"
  define m where "m = (if address \<noteq> [] \<and> m_address ?m1 = [] then ?m1\<lparr>m_address := address\<rparr> else ?m1)"
  let ?st2 = "if address \<noteq> [] \<and> m_address ?m1 = [] then put_member i (?m1\<lparr>m_address := address\<rparr>) st1 else st1"
  have st2: "?st2 = st1\<lparr>st_members := (st_members st1)[i := m]\<rparr>"
    by (simp add: m_def put_member_def)
  have nm: "numbered m = numbered ?m1" by (simp add: m_def numbered_def)
  have a: "require (check_approve_member ?st2 actor (Some (st_members ?st2 ! i)))
      (let m = st_members ?st2 ! i;
           m' = m\<lparr>m_approved := True, m_approved_at := Some now, m_approve_tx := or_else tx (m_approve_tx m),
             m_member_no := Some (st_next_member_no ?st2)\<rparr>
       in Inr ((m', depositor_body (st_fund ?st2) (m_address m')),
            (put_member i m' ?st2)\<lparr>st_next_member_no := st_next_member_no ?st2 + 1\<rparr>)) = Inr (r, st')"
    using assms s1 q by (simp add: approve_member_mutate_def Let_def split del: if_split)
  have m2: "st_members ?st2 ! i = m" unfolding st2 using i by simp
  have nx: "st_next_member_no ?st2 = st_next_member_no st"
    unfolding st2 using arg_cong [OF st1, of st_next_member_no] by simp
  have na: "\<not> m_approved m"
    using a unfolding m2 by (auto simp: check_approve_member_def split: verdict.splits if_splits)
  then have na1: "\<not> m_approved ?m1" using nm by (simp add: numbered_def)
  obtain m' where m': "st' = (put_member i m' ?st2)\<lparr>st_next_member_no := st_next_member_no st + 1\<rparr>"
    "numbered m' = (True, Some (st_next_member_no st))"
    using a unfolding m2 nx by (auto simp: Let_def numbered_def)
  have "st' = st\<lparr>st_members := (st_members st1)[i := m'], st_next_member_no := st_next_member_no st + 1\<rparr>"
    using m'(1) unfolding st2 by (subst (asm) st1) (simp add: put_member_def)
  moreover have "map numbered ((st_members st1)[i := m'])
      = (map numbered (st_members st1))[i := (True, Some (st_next_member_no st))]"
    by (simp add: map_update m'(2))
  ultimately show ?thesis using j i na1 by blast
qed

section \<open>Agents\<close>

definition hosts :: "fund_state \<Rightarrow> agent list" where
  "hosts st = filter (\<lambda>a. a_role a = ''host'') (st_agents st)"

lemma filter_update_neither: "\<not> P (xs ! i) \<Longrightarrow> \<not> P y \<Longrightarrow> filter P (xs[i := y]) = filter P xs"
  by (induction xs arbitrary: i) (auto split: nat.splits)

lemma find_remove1: "\<not> P x \<Longrightarrow> find P (remove1 x xs) = find P xs"
  by (induction xs) auto

lemma find_append: "find P (xs @ ys) = (case find P xs of None \<Rightarrow> find P ys | Some x \<Rightarrow> Some x)"
  by (induction xs) auto

lemma agent_of_find: "agent_of st n = find (\<lambda>a. lower (a_name a) = lower (strip n)) (st_agents st)"
  by (simp add: agent_of_def agent_ix_def Let_def deref_find_ix)

lemma find_ix_map: "find_ix P (map f xs) = find_ix (\<lambda>x. P (f x)) xs"
  by (induction xs) simp_all

lemma put_agent_ix:
  assumes "i < length (st_agents st)" "a_name a = a_name (st_agents st ! i)"
  shows "agent_ix (put_agent i a st) n = agent_ix st n"
proof -
  have "map a_name ((st_agents st)[i := a]) = map a_name (st_agents st)"
    using assms by (intro map_update_same) simp_all
  then have "find_ix P (map a_name ((st_agents st)[i := a])) = find_ix P (map a_name (st_agents st))" for P
    by simp
  then show ?thesis by (simp add: agent_ix_def put_agent_def Let_def find_ix_map)
qed

lemma put_agent_of:
  assumes "i < length (st_agents st)" "a_name a = a_name (st_agents st ! i)"
  shows "agent_of (put_agent i a st) n = (if agent_ix st n = Some i then Some a else agent_of st n)"
proof -
  have "\<exists>k. agent_ix st n = Some k \<and> k < length (st_agents st)" if "agent_ix st n \<noteq> None"
    using that agent_ix_less by auto
  then show ?thesis
    using assms put_agent_ix [OF assms, of n]
    by (cases "agent_ix st n") (auto simp: agent_of_def put_agent_def nth_list_update)
qed

lemma put_agent_simps [simp]:
  "st_agents (put_agent i a st) = (st_agents st)[i := a]"
  "st_proposals (put_agent i a st) = st_proposals st" "st_claims (put_agent i a st) = st_claims st"
  "st_members (put_agent i a st) = st_members st" "st_receipts (put_agent i a st) = st_receipts st"
  "st_fund (put_agent i a st) = st_fund st"
  by (simp_all add: put_agent_def)

text \<open>Only the agent list changes; the host stays, and whoever may act still may.\<close>

definition agents_grow :: "fund_state \<Rightarrow> fund_state \<Rightarrow> bool" where
  "agents_grow st st' \<longleftrightarrow> (\<exists>as. st' = st\<lparr>st_agents := as\<rparr>) \<and> hosts st' = hosts st
     \<and> (\<forall>n. may_act st n \<longrightarrow> may_act st' n)"

lemma request_agent_effect:
  assumes m: "request_agent_mutate now a st = Inr (r, st')"
    and host: "\<And>h. h \<in> set (hosts st) \<Longrightarrow> a_registered h \<and> \<not> a_removed h"
  shows "agents_grow st st'"
proof -
  define fresh where "fresh = a\<lparr>a_role := ''guest'', a_approved := False, a_registered := False, a_removed := False,
          a_requested_at := now, a_approved_at := None, a_registered_at := None, a_removed_at := None\<rparr>"
  have fr: "a_role fresh = ''guest''" "a_name fresh = a_name a" by (simp_all add: fresh_def)
  show ?thesis
  proof (cases "agent_ix st (a_name a)")
    case None
    then have st': "st' = st\<lparr>st_agents := st_agents st @ [fresh]\<rparr>"
      using m by (auto simp: request_agent_mutate_def Let_def fresh_def split: if_splits)
    have "may_act st' n" if "may_act st n" for n
      using that by (auto simp: st' may_act_def agent_of_find find_append)
    then show ?thesis using fr by (auto simp: st' agents_grow_def hosts_def)
  next
    case (Some i)
    let ?old = "st_agents st ! i"
    have i: "i < length (st_agents st)" and nm: "lower (a_name ?old) = lower (strip (a_name a))"
      using agent_ix_less [OF Some] agent_ix_name [OF Some] by auto
    have first: "agent_of st (a_name a) = Some ?old" using Some by (simp add: agent_of_def)
    show ?thesis
    proof (cases "a_removed ?old")
      case True
      then have st': "st' = st\<lparr>st_agents := remove1 ?old (st_agents st) @ [fresh]\<rparr>"
        using m Some by (auto simp: request_agent_mutate_def Let_def fresh_def split: if_splits)
      have "?old \<in> set (st_agents st)" using i by simp
      then have nh: "a_role ?old \<noteq> ''host''" using host True by (auto simp: hosts_def)
      have "may_act st' n" if n: "may_act st n" for n
      proof -
        have "\<not> lower (a_name ?old) = lower (strip n)"
        proof
          assume "lower (a_name ?old) = lower (strip n)"
          then have "agent_of st n = Some ?old" using first nm by (simp add: agent_of_find)
          with n True show False by (auto simp: may_act_def)
        qed
        with n show ?thesis by (auto simp: st' may_act_def agent_of_find find_append find_remove1)
      qed
      then show ?thesis using fr nh by (auto simp: st' agents_grow_def hosts_def filter_remove1)
    next
      case False
      then obtain a' where st': "st' = put_agent i a' st" and nr: "\<not> a_registered ?old"
        and a': "a_name a' = a_name ?old" "a_role a' = a_role ?old"
        using m Some by (auto simp: request_agent_mutate_def Let_def split: if_splits)
      have "?old \<in> set (st_agents st)" using i by simp
      then have nh: "a_role ?old \<noteq> ''host''" using host nr by (auto simp: hosts_def)
      have "may_act st' n" if "may_act st n" for n
        using that nr i a' by (auto simp: st' may_act_def put_agent_of agent_of_ix)
      moreover have "hosts st' = hosts st"
        using nh a' by (simp add: st' hosts_def filter_update_neither)
      ultimately show ?thesis by (auto simp: st' agents_grow_def put_agent_def)
    qed
  qed
qed

lemma ref_or_Some: "ref_or r s = Some i \<Longrightarrow> r = Some i \<or> s = Some i"
  by (auto simp: ref_or_def split: option.splits)

lemma approve_agent_effect:
  assumes m: "approve_agent_mutate now actor name tx caller st = Inr (r, st')"
    and host: "\<And>h. h \<in> set (hosts st) \<Longrightarrow> a_registered h \<and> \<not> a_removed h"
  shows "agents_grow st st'"
proof -
  obtain i where r: "ref_or (agent_ix st name) (agent_by_address_ix st name) = Some i"
    using m by (auto simp: approve_agent_mutate_def Let_def split: option.splits)
  have i: "i < length (st_agents st)"
    using ref_or_Some [OF r] agent_ix_less agent_by_address_ix_less by blast
  let ?old = "st_agents st ! i"
  obtain a where st': "st' = put_agent i a st" and nr: "\<not> a_registered ?old"
    and a: "a_name a = a_name ?old" "a_role a = a_role ?old"
    using m r by (auto simp: approve_agent_mutate_def Let_def split: if_splits)
  have "?old \<in> set (st_agents st)" using i by simp
  then have nh: "a_role ?old \<noteq> ''host''" using host nr by (auto simp: hosts_def)
  have "may_act st' n" if "may_act st n" for n
    using that nr i a by (auto simp: st' may_act_def put_agent_of agent_of_ix)
  moreover have "hosts st' = hosts st"
    using nh a by (simp add: st' hosts_def filter_update_neither)
  ultimately show ?thesis by (auto simp: st' agents_grow_def put_agent_def)
qed

lemma remove_agent_effect:
  assumes m: "remove_agent_mutate now actor name caller st = Inr (r, st')"
  shows "st_claims st' = filter (\<lambda>c. lower (c_agent c) \<noteq> lower (a_name r)) (st_claims st)"
    "st_proposals st' = map (cancel_draft_of (lower (a_name r)) now) (st_proposals st)"
    "hosts st' = hosts st"
    "may_act st n \<Longrightarrow> lower (strip n) \<noteq> lower (a_name r) \<Longrightarrow> may_act st' n"
    "\<exists>as cs ps. st' = st\<lparr>st_agents := as, st_claims := cs, st_proposals := ps\<rparr>"
proof -
  obtain i where q: "ref_or (agent_ix st name) (agent_by_address_ix st name) = Some i"
    using m by (auto simp: remove_agent_mutate_def Let_def split: option.splits)
  have i: "i < length (st_agents st)"
    using ref_or_Some [OF q] agent_ix_less agent_by_address_ix_less by blast
  let ?old = "st_agents st ! i"
  have st': "st' = (put_agent i r st)\<lparr>
      st_claims := filter (\<lambda>c. lower (c_agent c) \<noteq> lower (a_name r)) (st_claims st),
      st_proposals := map (cancel_draft_of (lower (a_name r)) now) (st_proposals st)\<rparr>"
    and a: "a_name r = a_name ?old" "a_role r = a_role ?old"
    and nh: "a_role ?old \<noteq> ''host''"
    using m q by (auto simp: remove_agent_mutate_def Let_def check_remove_agent_def
        split: verdict.splits if_splits)
  show "st_claims st' = filter (\<lambda>c. lower (c_agent c) \<noteq> lower (a_name r)) (st_claims st)"
    "st_proposals st' = map (cancel_draft_of (lower (a_name r)) now) (st_proposals st)"
    by (simp_all add: st')
  show "hosts st' = hosts st" using nh a by (simp add: st' hosts_def filter_update_neither)
  show "\<exists>as cs ps. st' = st\<lparr>st_agents := as, st_claims := cs, st_proposals := ps\<rparr>"
    by (auto simp: st' put_agent_def)
  assume n: "may_act st n" "lower (strip n) \<noteq> lower (a_name r)"
  then have "agent_ix st n \<noteq> Some i" using a agent_ix_name by metis
  then have "agent_of (put_agent i r st) n = agent_of st n" using put_agent_of [OF i a(1)] by simp
  moreover have "agent_of st' n = agent_of (put_agent i r st) n" by (simp add: st' agent_of_find)
  ultimately show "may_act st' n" using n(1) by (simp add: may_act_def)
qed

section \<open>Claims and drafts\<close>

lemma prune_simps [simp]:
  "st_proposals (prune_claims now st) = st_proposals st" "st_agents (prune_claims now st) = st_agents st"
  "st_claims (prune_claims now st) = active_claims st now" "st_fund (prune_claims now st) = st_fund st"
  "active_claims (prune_claims now st) now = active_claims st now"
  "open_proposals (prune_claims now st) = open_proposals st"
  "open_proposals_of (prune_claims now st) a = open_proposals_of st a"
  "agent_of (prune_claims now st) a = agent_of st a" "may_act (prune_claims now st) a = may_act st a"
  "claim_of (prune_claims now st) a now = claim_of st a now"
  "st_next_proposal_seq (prune_claims now st) = st_next_proposal_seq st"
  by (simp_all add: prune_claims_def active_claims_def open_proposals_def open_proposals_of_def agent_of_find
      may_act_def claim_of_def)

lemma agent_of_frame [simp]:
  "agent_of (st\<lparr>st_claims := cs\<rparr>) n = agent_of st n" "agent_of (st\<lparr>st_proposals := ps\<rparr>) n = agent_of st n"
  "agent_of (st\<lparr>st_next_proposal_seq := k\<rparr>) n = agent_of st n"
  by (simp_all add: agent_of_find)

lemma active_claims_subset: "set (active_claims st now) \<subseteq> set (st_claims st)"
  by (auto simp: active_claims_def)

lemma active_claims_length: "length (active_claims st now) \<le> length (st_claims st)"
  by (simp add: active_claims_def)

text \<open>The claims of a fund belong to agents that may act, under their own names.\<close>

definition claims_ok :: "fund_state \<Rightarrow> bool" where
  "claims_ok st \<longleftrightarrow> (\<forall>c \<in> set (st_claims st). clean (c_agent c) \<and> may_act st (c_agent c))"

definition slots :: "fund_state \<Rightarrow> nat" where
  "slots st = length (open_proposals st) + length (st_claims st)"

text \<open>A claim that is checked takes a slot unless the agent has one already.\<close>

lemma check_claim_slots:
  assumes "check_claim (prune_claims now st) agent topic now = Allow"
  shows "claim_of st agent now = None \<Longrightarrow> length (open_proposals st) + length (active_claims st now) < 2"
    "gates_open (prune_claims now st) agent now"
proof -
  note c = check_claim_AllowD [OF assms]
  show "gates_open (prune_claims now st) agent now" using c(1) .
  assume n: "claim_of st agent now = None"
  then have "filter (\<lambda>c. lower (c_agent c) \<noteq> lower agent) (active_claims st now) = active_claims st now"
    by (auto simp: claim_of_def find_None_iff filter_id_conv)
  with c(4) n show "length (open_proposals st) + length (active_claims st now) < 2" by simp
qed

lemma claim_topic_effect:
  assumes m: "claim_topic_mutate now agent topic st = Inr (r, st')"
  shows "\<exists>cs. st' = st\<lparr>st_claims := cs\<rparr>"
    "claims_ok st \<Longrightarrow> claims_ok st'" "slots st \<le> 2 \<Longrightarrow> slots st' \<le> 2"
proof -
  have chk: "check_claim (prune_claims now st) agent topic now = Allow"
    using m by (auto simp: claim_topic_mutate_def Let_def)
  have gates: "may_act st agent" using check_claim_slots(2) [OF chk] by (simp add: gates_open_def)
  define old where "old = active_claims st now"
  have oldl: "length old \<le> length (st_claims st)" "set old \<subseteq> set (st_claims st)"
    unfolding old_def by (rule active_claims_length active_claims_subset)+
  have cases: "(\<exists>i < length old. st' = st\<lparr>st_claims := old[i := (old ! i)\<lparr>c_expires_at := claim_expires_at now\<rparr>]\<rparr>)
    \<or> (claim_of st agent now = None \<and> (\<exists>a. agent_of st agent = Some a \<and> c_agent r = a_name a
        \<and> st' = st\<lparr>st_claims := old @ [r]\<rparr>))"
  proof (cases "claim_ix (prune_claims now st) agent now")
    case (Some i)
    then have "i < length old" by (auto simp: claim_ix_def old_def dest: find_ix_less)
    then show ?thesis using m Some by (auto simp: claim_topic_mutate_def Let_def old_def prune_claims_def)
  next
    case None
    then have "claim_of st agent now = None"
      by (auto simp: claim_ix_def find_ix_None_iff claim_of_def find_None_iff active_claims_def)
    then show ?thesis
      using m None by (auto simp: claim_topic_mutate_def Let_def old_def prune_claims_def split: option.splits)
  qed
  then show "\<exists>cs. st' = st\<lparr>st_claims := cs\<rparr>" by blast
  have act: "may_act st' n = may_act st n" for n
    using cases by (auto simp: may_act_def agent_of_find)
  show "claims_ok st'" if ok: "claims_ok st"
  proof -
    have "clean (c_agent c) \<and> may_act st (c_agent c)" if c: "c \<in> set (st_claims st')" for c
      using cases
    proof (elim disjE exE conjE)
      fix i assume i: "i < length old" "st' = st\<lparr>st_claims := old[i := (old ! i)\<lparr>c_expires_at := claim_expires_at now\<rparr>]\<rparr>"
      then have "\<exists>c' \<in> set old. c_agent c = c_agent c'"
        using c set_update_subset_insert [of old i] by fastforce
      then show ?thesis using ok oldl(2) by (auto simp: claims_ok_def)
    next
      fix a assume a: "agent_of st agent = Some a" "c_agent r = a_name a" "st' = st\<lparr>st_claims := old @ [r]\<rparr>"
      then have "clean (a_name a)" "may_act st (a_name a)"
        using agent_of_clean [OF a(1)] agent_of_self [OF a(1)] gates by (auto simp: may_act_def)
      then show ?thesis using c a ok oldl(2) by (auto simp: claims_ok_def)
    qed
    then show ?thesis by (simp add: claims_ok_def act)
  qed
  show "slots st' \<le> 2" if s: "slots st \<le> 2"
    using cases
  proof (elim disjE exE conjE)
    fix a assume "claim_of st agent now = None" "st' = st\<lparr>st_claims := old @ [r]\<rparr>"
    then show ?thesis
      using check_claim_slots(1) [OF chk] by (simp add: slots_def open_proposals_def old_def)
  qed (use s oldl in \<open>auto simp: slots_def open_proposals_def\<close>)
qed

lemma release_claim_effect:
  assumes "release_claim_mutate now agent topic st = Inr (r, st')"
  shows "\<exists>cs. st' = st\<lparr>st_claims := cs\<rparr> \<and> set cs \<subseteq> set (st_claims st) \<and> length cs + r \<le> length (st_claims st)"
proof -
  let ?P = "\<lambda>c. lower (c_agent c) = lower agent \<and> (topic = [] \<or> normalize_topic (c_topic c) = normalize_topic topic)"
  have "length (filter (\<lambda>c. \<not> ?P c) (active_claims st now)) + length (filter ?P (active_claims st now))
      \<le> length (st_claims st)"
    using sum_length_filter_compl [of ?P "active_claims st now"] active_claims_length [of st now] by linarith
  moreover have "st' = st\<lparr>st_claims := filter (\<lambda>c. \<not> ?P c) (active_claims st now)\<rparr>"
    "r = length (filter ?P (active_claims st now))"
    using assms by (simp_all add: release_claim_mutate_def Let_def)
  moreover have "set (filter (\<lambda>c. \<not> ?P c) (active_claims st now)) \<subseteq> set (st_claims st)"
    using active_claims_subset [of st now] by auto
  ultimately show ?thesis by blast
qed

text \<open>An agent with a claim is called by its own name, up to case.\<close>

lemma claim_holder:
  assumes "claims_ok st" "claim_of st agent now = Some c" "agent_of st agent = Some a"
  shows "lower (a_name a) = lower agent" "c \<in> set (active_claims st now)" "lower (c_agent c) = lower agent"
proof -
  have c: "c \<in> set (active_claims st now)" "lower (c_agent c) = lower agent"
    using claim_of_SomeD [OF assms(2)] by (simp_all add: active_claims_def)
  then show "c \<in> set (active_claims st now)" "lower (c_agent c) = lower agent" by blast+
  have "clean (c_agent c)" using c assms(1) active_claims_subset by (auto simp: claims_ok_def)
  then have "strip agent = agent" using c(2) clean_same by metis
  then show "lower (a_name a) = lower agent" using agent_of_Some [OF assms(3)] by simp
qed

lemma without_claims_less:
  "c \<in> set cs \<Longrightarrow> lower (c_agent c) = lower n \<Longrightarrow> length (without_claims_of n cs) < length cs"
  unfolding without_claims_of_def by (rule length_filter_less) auto

lemma without_claims_le: "length (without_claims_of n cs) \<le> length cs"
  by (simp add: without_claims_of_def)

lemma request_draft_effect:
  assumes m: "request_draft_mutate now agent idea pitch chat msg topic st = Inr (r, st')"
  shows "\<exists>cs. st' = st\<lparr>st_claims := cs\<rparr>"
    "claims_ok st \<Longrightarrow> claims_ok st'" "claims_ok st \<Longrightarrow> slots st \<le> 2 \<Longrightarrow> slots st' \<le> 2"
proof -
  have chk: "check_claim (prune_claims now st) agent topic now = Allow"
    using m by (auto simp: request_draft_mutate_def Let_def)
  have gates: "may_act st agent" using check_claim_slots(2) [OF chk] by (simp add: gates_open_def)
  define old where "old = active_claims st now"
  obtain a where a: "agent_of st agent = Some a" "c_agent r = a_name a"
    "st' = st\<lparr>st_claims := without_claims_of (a_name a) old @ [r]\<rparr>"
    using m by (auto simp: request_draft_mutate_def Let_def old_def prune_claims_def split: option.splits)
  then show "\<exists>cs. st' = st\<lparr>st_claims := cs\<rparr>" by blast
  have act: "may_act st' n = may_act st n" for n using a(3) by (simp add: may_act_def)
  have self: "clean (a_name a)" "may_act st (a_name a)"
    using agent_of_clean [OF a(1)] agent_of_self [OF a(1)] a(1) gates by (auto simp: may_act_def)
  have sub: "set (without_claims_of (a_name a) old) \<subseteq> set (st_claims st)"
    using active_claims_subset by (auto simp: without_claims_of_def old_def)
  show "claims_ok st'" if "claims_ok st"
    using that self sub a(2) unfolding claims_ok_def act by (auto simp: a(3))
  show "slots st' \<le> 2" if ok: "claims_ok st" and s: "slots st \<le> 2"
  proof -
    have "length (open_proposals st) + length (without_claims_of (a_name a) old) < 2"
    proof (cases "claim_of st agent now")
      case None
      with check_claim_slots(1) [OF chk] show ?thesis
        using without_claims_le [of "a_name a" old] by (simp add: old_def)
    next
      case (Some c)
      then have "length (without_claims_of (a_name a) old) < length old"
        unfolding old_def using claim_holder [OF ok Some a(1)] by (intro without_claims_less) auto
      then show ?thesis using s active_claims_length [of st now] by (simp add: slots_def old_def)
    qed
    then show ?thesis by (simp add: slots_def a(3) open_proposals_def)
  qed
qed

lemma prune_update:
  "(prune_claims now st)\<lparr>st_next_proposal_seq := k, st_proposals := ps, st_claims := cs\<rparr> =
     st\<lparr>st_next_proposal_seq := k, st_proposals := ps, st_claims := cs\<rparr>"
  by (simp add: prune_claims_def)

lemma draft_proposal_effect:
  assumes m: "draft_proposal_mutate base now agent x st = Inr (r, st')"
  shows "\<exists>a c. agent_of st agent = Some a \<and> claim_of st agent now = Some c
      \<and> dr_proposal r = draft_record now x (prune_claims now st) a (Some c)
      \<and> st' = st\<lparr>st_next_proposal_seq := st_next_proposal_seq st + 1,
          st_proposals := st_proposals st @ [dr_proposal r],
          st_claims := without_claims_of (a_name a) (active_claims st now)\<rparr>
      \<and> draft_allowed (prune_claims now st) agent (d_topic x) (d_max_capital x) (d_max_drawdown_bps x) (d_legs x) now"
proof -
  have "check_draft (prune_claims now st) agent (d_topic x) (d_max_capital x) (d_max_drawdown_bps x)
      (d_legs x) now = Inr Allow"
    using m by (auto simp: draft_proposal_mutate_def and_then_Inr_iff Let_def)
  then have ok: "draft_allowed (prune_claims now st) agent (d_topic x) (d_max_capital x)
      (d_max_drawdown_bps x) (d_legs x) now"
    by (simp only: check_draft_Allow_iff)
  then obtain c where c: "claim_of st agent now = Some c" by (auto simp: draft_allowed_def)
  show ?thesis
    using m ok c by (auto simp: draft_proposal_mutate_def and_then_Inr_iff Let_def prune_update split: option.splits)
qed

text \<open>A draft takes the slot of its claim.\<close>

lemma draft_proposal_slots:
  assumes m: "draft_proposal_mutate base now agent x st = Inr (r, st')" and ok: "claims_ok st"
  shows "slots st' \<le> slots st" "claims_ok st'" "may_act st' (p_proposer_agent (dr_proposal r))"
    "lower (p_proposer_agent (dr_proposal r)) = lower agent" "open_proposals_of st agent = []"
proof -
  obtain a c where e: "agent_of st agent = Some a" "claim_of st agent now = Some c"
    "dr_proposal r = draft_record now x (prune_claims now st) a (Some c)"
    "st' = st\<lparr>st_next_proposal_seq := st_next_proposal_seq st + 1,
          st_proposals := st_proposals st @ [dr_proposal r],
          st_claims := without_claims_of (a_name a) (active_claims st now)\<rparr>"
    "draft_allowed (prune_claims now st) agent (d_topic x) (d_max_capital x) (d_max_drawdown_bps x) (d_legs x) now"
    using draft_proposal_effect [OF m] by blast
  note h = claim_holder [OF ok e(2,1)]
  have act: "may_act st' n = may_act st n" for n using e(4) by (simp add: may_act_def)
  have p: "p_proposer_agent (dr_proposal r) = a_name a" by (simp add: e(3) draft_record_def)
  show "lower (p_proposer_agent (dr_proposal r)) = lower agent" using h(1) p by simp
  show "open_proposals_of st agent = []" using e(5) by (simp add: draft_allowed_def)
  have "may_act st agent" using e(5) by (simp add: draft_allowed_def gates_open_def)
  then show "may_act st' (p_proposer_agent (dr_proposal r))"
    using agent_of_self [OF e(1)] e(1) unfolding act p by (simp add: may_act_def)
  show "claims_ok st'"
    using ok active_claims_subset [of st now] unfolding claims_ok_def act
    by (auto simp: e(4) without_claims_of_def)
  have "length (without_claims_of (a_name a) (active_claims st now)) < length (active_claims st now)"
    using h by (intro without_claims_less) auto
  then show "slots st' \<le> slots st"
    using active_claims_length [of st now] by (simp add: slots_def open_proposals_def e(4))
qed

section \<open>The chain's fund record\<close>

lemma fund_card_effect:
  assumes "fund_card_mutate c st = Inr (r, st')"
  shows "\<exists>f ms. st' = st\<lparr>st_fund := f, st_members := ms\<rparr> \<and> map numbered ms = map numbered (st_members st)"
proof -
  have "numbered (chain_member d m) = numbered m" for d m
    by (simp add: chain_member_def numbered_def split: option.split)
  then have "map numbered (map (chain_member (cd_deposits c)) (st_members st)) = map numbered (st_members st)"
    by simp
  moreover have "st' = st\<lparr>st_fund := chain_fund c (st_fund st),
      st_members := map (chain_member (cd_deposits c)) (st_members st)\<rparr>"
    using assms by (simp add: fund_card_mutate_def)
  ultimately show ?thesis by blast
qed

end
