(* ===== verification/Setup.thy ===== *)
theory Setup
  imports ServiceSteps
begin

text \<open>
  The two operations that write the fund's own record: the update of \<open>fund_setup\<close>
  (\<open>fund/tools.py\<close>), which sets a binding once and never changes it, and the operator's
  \<open>fund_bind\<close> (\<open>cli.py\<close>), which may. Both write fields by name, as the code does with
  \<open>getattr\<close> and \<open>setattr\<close>.
\<close>

section \<open>Fields by name\<close>

definition LOCKED_FUND_FIELDS :: "string list" where
  "LOCKED_FUND_FIELDS = [''vault'', ''governor'', ''telegram_chat_id'', ''host_telegram_id'']"

definition get_text :: "fund \<Rightarrow> string \<Rightarrow> string" where
  "get_text f k =
     (if k = ''vault'' then f_vault f
      else if k = ''governor'' then f_governor f
      else if k = ''telegram_chat_id'' then f_telegram_chat_id f
      else if k = ''host_telegram_id'' then f_host_telegram_id f
      else [])"

definition set_text :: "string \<times> string \<Rightarrow> fund \<Rightarrow> fund" where
  "set_text kv f = (case kv of (k, v) \<Rightarrow>
     if k = ''vault'' then f\<lparr>f_vault := v\<rparr>
     else if k = ''governor'' then f\<lparr>f_governor := v\<rparr>
     else if k = ''telegram_chat_id'' then f\<lparr>f_telegram_chat_id := v\<rparr>
     else if k = ''host_telegram_id'' then f\<lparr>f_host_telegram_id := v\<rparr>
     else f)"

definition set_number :: "string \<times> int \<Rightarrow> fund \<Rightarrow> fund" where
  "set_number kv f = (case kv of (k, n) \<Rightarrow>
     if k = ''max_drawdown_bps'' then f\<lparr>f_max_drawdown_bps := Some n\<rparr>
     else if k = ''voting_period'' then f\<lparr>f_voting_period := n\<rparr>
     else if k = ''agent_fee_bps'' then f\<lparr>f_agent_fee_bps := Some n\<rparr>
     else f)"

definition set_capital :: "string option \<Rightarrow> fund \<Rightarrow> fund" where
  "set_capital cap f = (case cap of None \<Rightarrow> f | Some c \<Rightarrow> f\<lparr>f_max_capital := Some c\<rparr>)"

section \<open>The update of an existing fund\<close>

text \<open>
  \<open>limits_for\<close>: the integers as given, and the capital ceiling scaled by the fund's own asset.
\<close>

definition capital_limit :: "string option \<Rightarrow> fund \<Rightarrow> string option result" where
  "capital_limit cap_raw f = (case cap_raw of
     None \<Rightarrow> Inr None
   | Some s \<Rightarrow> and_then (to_base_units (A_str s) (asset_decimals f) False) (\<lambda>n. Inr (Some (str_int n))))"

definition set_limits :: "(string \<times> int) list \<Rightarrow> string option \<Rightarrow> fund \<Rightarrow> fund" where
  "set_limits ints cap f = set_capital cap (fold set_number ints f)"

definition locked_conflict :: "fund \<Rightarrow> (string \<times> string) list \<Rightarrow> string \<Rightarrow> bool" where
  "locked_conflict f texts key =
     (case map_of texts key of
        None \<Rightarrow> False
      | Some v \<Rightarrow> get_text f key \<noteq> [] \<and> lower v \<noteq> lower (get_text f key))"

definition setup_mutate ::
  "string \<Rightarrow> string \<Rightarrow> (string \<times> string) list \<Rightarrow> (string \<times> int) list \<Rightarrow> string option \<Rightarrow> string
     \<Rightarrow> fund_state \<Rightarrow> (fund_state \<times> fund_state) result" where
  "setup_mutate agent asset_arg texts ints cap_raw host_address st =
     require (check_host_action st agent)
       (if asset_arg \<noteq> [] \<and> asset_arg \<noteq> f_asset (st_fund st) then Inl Units_error
        else if list_ex (locked_conflict (st_fund st) texts) LOCKED_FUND_FIELDS
          then Inl (Rule_violation Locked)
        else and_then (capital_limit cap_raw (st_fund st)) (\<lambda>cap.
          let f = set_limits ints cap (fold set_text texts (st_fund st));
              f' = (if host_address \<noteq> [] \<and> f_host f = [] then f\<lparr>f_host := host_address\<rparr> else f);
              st' = st\<lparr>st_fund := f'\<rparr>
          in Inr (st', st')))"

section \<open>The operator's rebind\<close>

definition FUND_BIND_FLAGS :: "string list" where
  "FUND_BIND_FLAGS = [''vault'', ''governor'', ''telegram_chat_id'', ''host_telegram_id'']"

text \<open>\<open>_TG_RE = ^-?\d{1,20}$\<close>\<close>

definition tg_full :: "string \<Rightarrow> bool" where
  "tg_full s = (let b = unsigned_body s in isdigit b \<and> length b \<le> 20)"

definition tg_re :: "string \<Rightarrow> bool" where
  "tg_re = dollar_match tg_full"

definition bind_mutate ::
  "(string \<times> string) list \<Rightarrow> fund_state \<Rightarrow> ((string \<times> string) list \<times> fund_state) result" where
  "bind_mutate values st =
     Inr (map (\<lambda>(k, _). (k, get_text (st_fund st) k)) values,
          st\<lparr>st_fund := fold set_text values (st_fund st)\<rparr>)"

text \<open>The flags given on the command line, stripped.\<close>

definition bind_values :: "(string \<times> string) list \<Rightarrow> (string \<times> string) list" where
  "bind_values args =
     List.map_filter (\<lambda>k. case map_of args k of
         None \<Rightarrow> None
       | Some v \<Rightarrow> if v = [] then None else Some (k, strip v)) FUND_BIND_FLAGS"

definition bad_value :: "(string \<times> string) list \<Rightarrow> bool" where
  "bad_value values \<longleftrightarrow>
     (\<exists>(k, v) \<in> set values. k \<in> {''vault'', ''governor''} \<and> \<not> address_re v)
   \<or> (\<exists>(k, v) \<in> set values. k \<in> {''telegram_chat_id'', ''host_telegram_id''} \<and> \<not> tg_re v)"

text \<open>The exit code and the directory after the command.\<close>

definition fund_bind ::
  "dir \<Rightarrow> time \<Rightarrow> bool \<Rightarrow> string \<Rightarrow> (string \<times> string) list \<Rightarrow> int \<times> dir" where
  "fund_bind d wt messaging_turn fund args =
     (let values = bind_values args in
      if messaging_turn then (3, d)
      else if values = [] then (2, d)
      else if bad_value values then (2, d)
      else (case store_update d wt fund (bind_mutate values) of
          Inl e \<Rightarrow> (1, d)
        | Inr (before, d') \<Rightarrow> (0, d')))"

section \<open>Facts\<close>

lemma get_text_set:
  "get_text (set_text (k, v) f) j = (if j = k \<and> k \<in> set LOCKED_FUND_FIELDS then v else get_text f j)"
proof (cases "k \<in> set LOCKED_FUND_FIELDS")
  case True
  then have "k = ''vault'' \<or> k = ''governor'' \<or> k = ''telegram_chat_id'' \<or> k = ''host_telegram_id''"
    by (simp add: LOCKED_FUND_FIELDS_def)
  then show ?thesis
    by (elim disjE) (simp_all add: get_text_def set_text_def LOCKED_FUND_FIELDS_def)
next
  case False
  then have "set_text (k, v) f = f" by (simp add: set_text_def LOCKED_FUND_FIELDS_def)
  with False show ?thesis by simp
qed

lemma get_text_set_number [simp]: "get_text (set_number kn f) j = get_text f j"
  by (cases kn) (simp add: get_text_def set_number_def)

lemma get_text_set_capital [simp]: "get_text (set_capital c f) j = get_text f j"
  by (cases c) (simp_all add: get_text_def set_capital_def)

lemma get_text_fold_number [simp]: "get_text (fold set_number ns f) j = get_text f j"
  by (induction ns arbitrary: f) simp_all

lemma get_text_set_limits [simp]: "get_text (set_limits ns c f) j = get_text f j"
  by (simp add: set_limits_def)

lemma get_text_host [simp]: "get_text (f\<lparr>f_host := h\<rparr>) j = get_text f j"
  by (simp add: get_text_def)

text \<open>Writing a list of fields with distinct names.\<close>

lemma get_text_fold_text:
  "distinct (map fst kvs) \<Longrightarrow> get_text (fold set_text kvs f) j =
     (case map_of kvs j of Some v \<Rightarrow> if j \<in> set LOCKED_FUND_FIELDS then v else get_text f j
      | None \<Rightarrow> get_text f j)"
proof (induction kvs arbitrary: f)
  case (Cons kv kvs)
  obtain k v where kv: "kv = (k, v)" by (cases kv)
  have "k \<notin> fst ` set kvs" using Cons.prems kv by simp
  then have "map_of kvs k = None" by (simp add: map_of_eq_None_iff)
  then show ?case using Cons kv by (auto simp: get_text_set split: option.splits)
qed simp

lemma setup_effect:
  assumes "setup_mutate agent asset texts ints cap host st = Inr (r, st')"
  shows "r = st' \<and> (\<exists>f. st' = st\<lparr>st_fund := f\<rparr>)" "check_host_action st agent = Allow"
  using assms by (auto simp: setup_mutate_def Let_def and_then_Inr_iff split: if_splits)

text \<open>What is set stays, up to the case of its letters.\<close>

lemma setup_keeps_bindings:
  assumes m: "setup_mutate agent asset texts ints cap host st = Inr (r, st')"
    and d: "distinct (map fst texts)" and k: "k \<in> set LOCKED_FUND_FIELDS"
    and set: "get_text (st_fund st) k \<noteq> []"
  shows "lower (get_text (st_fund st') k) = lower (get_text (st_fund st) k)"
proof -
  have nc: "\<not> locked_conflict (st_fund st) texts k"
    and f: "get_text (st_fund st') k = get_text (fold set_text texts (st_fund st)) k"
    using m k by (auto simp: setup_mutate_def Let_def and_then_Inr_iff list_ex_iff split: if_splits)
  show ?thesis
    using nc set k unfolding f get_text_fold_text [OF d] locked_conflict_def
    by (auto split: option.splits)
qed

lemma bind_effect: "bind_mutate values st = Inr (r, st') \<Longrightarrow> \<exists>f. st' = st\<lparr>st_fund := f\<rparr>"
  by (auto simp: bind_mutate_def)

end
