(* ===== verification/ServiceInv.thy ===== *)
theory ServiceInv
  imports Setup
begin

text \<open>
  The states a fund can reach, and what holds in all of them. \<open>op_step\<close> is one operation of
  the service on the state it loads, \<open>reachable\<close> the states after creation and any sequence of
  operations, each followed by the stamp of the write. The invariants are proved by rule
  induction over the facts of \<open>ServiceSteps\<close>; the last section carries them to the directory:
  every state that can be loaded after any calls of the service is a reachable one.
\<close>

section \<open>Steps and reachable states\<close>

inductive op_step :: "fund_state \<Rightarrow> fund_state \<Rightarrow> bool" where
  request_membership: "request_membership_mutate now tg address username st = Inr (rm, st') \<Longrightarrow> op_step st st'"
| approve_member: "approve_member_mutate now actor who address tx caller st = Inr (ram, st') \<Longrightarrow> op_step st st'"
| request_agent: "request_agent_mutate now a st = Inr (ra, st') \<Longrightarrow> op_step st st'"
| approve_agent: "approve_agent_mutate now actor name tx caller st = Inr (raa, st') \<Longrightarrow> op_step st st'"
| remove_agent: "remove_agent_mutate now actor name caller st = Inr (ra, st') \<Longrightarrow> op_step st st'"
| claim_topic: "claim_topic_mutate now agent topic st = Inr (rc, st') \<Longrightarrow> op_step st st'"
| release_claim: "release_claim_mutate now agent topic st = Inr (rn, st') \<Longrightarrow> op_step st st'"
| request_draft: "request_draft_mutate now agent idea pitch chat msg topic st = Inr (rc, st') \<Longrightarrow> op_step st st'"
| draft_proposal: "draft_proposal_mutate base now agent x st = Inr (rd, st') \<Longrightarrow> op_step st st'"
| ship_draft: "ship_draft_mutate now pid caller st = Inr (rp, st') \<Longrightarrow> op_step st st'"
| set_status: "set_proposal_status_mutate now actor pid s oc tx cm st = Inr (rps, st') \<Longrightarrow> op_step st st'"
| chain_state: "set_chain_state_mutate now pid ag v w cov st = Inr (rpb, st') \<Longrightarrow> op_step st st'"
| chain_move: "proposal_of st pid = Some p \<Longrightarrow> check_transition (p_status p) t = Allow \<Longrightarrow> t \<noteq> Proposed \<Longrightarrow>
    chain_status_mutate now pid t st = Inr (rps, st') \<Longrightarrow> op_step st st'"
| card_message: "set_card_message_mutate pid m st = Inr (rp, st') \<Longrightarrow> op_step st st'"
| record_vote: "record_vote_mutate now pid voter side kind note st = Inr (rp, st') \<Longrightarrow> op_step st st'"
| record_settle: "record_settle_mutate now actor pid pnl bps tx st = Inr (rs, st') \<Longrightarrow> op_step st st'"
| fund_card: "fund_card_mutate c st = Inr (ru, st') \<Longrightarrow> op_step st st'"
| setup_fund: "setup_mutate actor asset texts ints cap h st = Inr (rf, st') \<Longrightarrow> op_step st st'"
| bind_fund: "bind_mutate vals st = Inr (rv, st') \<Longrightarrow> op_step st st'"

inductive reachable :: "fund_state \<Rightarrow> bool" where
  created: "\<not> a_removed h \<Longrightarrow> create_fund d now wt f h = Inr (st, d') \<Longrightarrow> reachable st"
| operated: "reachable st \<Longrightarrow> op_step st st' \<Longrightarrow> reachable (bump wt st')"

section \<open>Progress of the proposals\<close>

lemma progress_map_same:
  "progress ps qs \<Longrightarrow> (\<And>p q. evolves p q \<Longrightarrow> f q = f p) \<Longrightarrow> map f qs = map f ps"
  by (induction rule: list_all2_induct) auto

lemma progress_ids: "progress ps qs \<Longrightarrow> map p_id qs = map p_id ps"
  by (rule progress_map_same) (simp_all add: evolves_def)

lemma progress_count:
  "progress ps qs \<Longrightarrow> (\<And>p q. evolves p q \<Longrightarrow> P q \<Longrightarrow> P p) \<Longrightarrow>
     length (filter P qs) \<le> length (filter P ps)"
  by (induction rule: list_all2_induct) (auto intro: le_SucI)

lemma progress_mem: "progress ps qs \<Longrightarrow> q \<in> set qs \<Longrightarrow> \<exists>p \<in> set ps. evolves p q"
  by (induction rule: list_all2_induct) auto

lemma progress_mem': "progress ps qs \<Longrightarrow> p \<in> set ps \<Longrightarrow> \<exists>q \<in> set qs. evolves p q"
  by (induction rule: list_all2_induct) auto

section \<open>The invariants\<close>

definition one_open_each :: "fund_state \<Rightarrow> bool" where
  "one_open_each st \<longleftrightarrow> (\<forall>a. length (open_proposals_of st a) \<le> 1)"

definition ids_ok :: "fund_state \<Rightarrow> bool" where
  "ids_ok st \<longleftrightarrow> distinct (map p_id (st_proposals st)) \<and> 1 \<le> st_next_proposal_seq st
     \<and> (\<forall>i \<in> set (map p_id (st_proposals st)). \<exists>n. 1 \<le> n \<and> n < st_next_proposal_seq st \<and> i = ''p-'' @ str_int n)"

definition drafts_ok :: "fund_state \<Rightarrow> bool" where
  "drafts_ok st \<longleftrightarrow> (\<forall>p \<in> set (st_proposals st). p_status p = Draft \<longrightarrow>
     clean (p_proposer_agent p) \<and> may_act st (p_proposer_agent p))"

text \<open>A member has a number exactly when approved, and no two have the same.\<close>

definition numbers_ok :: "int \<Rightarrow> (bool \<times> int option) list \<Rightarrow> bool" where
  "numbers_ok next ks \<longleftrightarrow> 1 \<le> next
     \<and> (\<forall>k \<in> set ks. fst k \<longleftrightarrow> snd k \<noteq> None)
     \<and> (\<forall>k \<in> set ks. \<forall>n. snd k = Some n \<longrightarrow> 1 \<le> n \<and> n < next)
     \<and> (\<forall>i < length ks. \<forall>j < length ks. snd (ks ! i) \<noteq> None \<longrightarrow> snd (ks ! i) = snd (ks ! j) \<longrightarrow> i = j)"

definition members_ok :: "fund_state \<Rightarrow> bool" where
  "members_ok st \<longleftrightarrow> numbers_ok (st_next_member_no st) (map numbered (st_members st))"

definition votes_ok :: "fund_state \<Rightarrow> bool" where
  "votes_ok st \<longleftrightarrow> (\<forall>p \<in> set (st_proposals st). votes_fair p \<and> has_window p)"

definition receipts_ok :: "fund_state \<Rightarrow> bool" where
  "receipts_ok st \<longleftrightarrow> distinct (map r_proposal_id (st_receipts st))
     \<and> (\<forall>r \<in> set (st_receipts st). \<exists>p \<in> set (st_proposals st). p_id p = r_proposal_id r \<and> p_status p = Settled)"

definition host_ok :: "fund_state \<Rightarrow> bool" where
  "host_ok st \<longleftrightarrow> (\<exists>h. hosts st = [h] \<and> a_registered h \<and> \<not> a_removed h)"

definition fund_inv :: "fund_state \<Rightarrow> bool" where
  "fund_inv st \<longleftrightarrow> slots st \<le> 2 \<and> one_open_each st \<and> ids_ok st \<and> claims_ok st \<and> drafts_ok st
     \<and> members_ok st \<and> votes_ok st \<and> receipts_ok st \<and> host_ok st"

lemmas inv_defs = fund_inv_def one_open_each_def ids_ok_def drafts_ok_def members_ok_def votes_ok_def
  receipts_ok_def host_ok_def

lemma invD:
  assumes "fund_inv st"
  shows "slots st \<le> 2" "one_open_each st" "ids_ok st" "claims_ok st" "drafts_ok st" "members_ok st"
    "votes_ok st" "receipts_ok st" "host_ok st"
  using assms by (simp_all add: fund_inv_def)

lemma numbers_ok_snoc: "numbers_ok next ks \<Longrightarrow> numbers_ok next (ks @ [(False, None)])"
  unfolding numbers_ok_def by (auto simp: nth_append less_Suc_eq)

lemma numbers_ok_joined:
  "joined ms ms' \<Longrightarrow> numbers_ok next (map numbered ms) \<Longrightarrow> numbers_ok next (map numbered ms')"
  by (auto simp: joined_def numbers_ok_snoc)

lemma numbers_ok_approve:
  assumes ok: "numbers_ok next ks" and i: "i < length ks" "\<not> fst (ks ! i)"
  shows "numbers_ok (next + 1) (ks[i := (True, Some next)])"
proof -
  have old: "snd k = Some n \<Longrightarrow> k \<in> set ks \<Longrightarrow> n < next" for k n
    using ok by (auto simp: numbers_ok_def)
  have a: "k \<in> set (ks[i := (True, Some next)]) \<Longrightarrow> k = (True, Some next) \<or> k \<in> set ks" for k
    using set_update_subset_insert [of ks i] by auto
  have "1 \<le> next" using ok by (simp add: numbers_ok_def)
  moreover have "fst k \<longleftrightarrow> snd k \<noteq> None" if "k \<in> set (ks[i := (True, Some next)])" for k
    using a [OF that] ok by (auto simp: numbers_ok_def)
  moreover have "1 \<le> n \<and> n < next + 1" if "k \<in> set (ks[i := (True, Some next)])" "snd k = Some n" for k n
    using a [OF that(1)] that(2) ok by (fastforce simp: numbers_ok_def)
  moreover have "p = q" if pq: "p < length ks" "q < length ks"
    "snd (ks[i := (True, Some next)] ! p) \<noteq> None"
    "snd (ks[i := (True, Some next)] ! p) = snd (ks[i := (True, Some next)] ! q)" for p q
  proof -
    have ne: "snd (ks ! p) \<noteq> Some next" "snd (ks ! q) \<noteq> Some next"
      using old pq(1,2) nth_mem by blast+
    show ?thesis
      using pq ne ok i(1) by (cases "p = i"; cases "q = i") (auto simp: numbers_ok_def)
  qed
  ultimately show ?thesis unfolding numbers_ok_def by auto
qed

section \<open>Preservation\<close>

lemma inv_only_proposals:
  assumes o: "only_proposals st st'" and inv: "fund_inv st" and r: "receipts_ok st'"
  shows "fund_inv st'"
proof -
  have pg: "progress (st_proposals st) (st_proposals st')" and cl: "st_claims st' = st_claims st"
    and ag: "st_agents st' = st_agents st" and mb: "st_members st' = st_members st"
    and sq: "st_next_proposal_seq st' = st_next_proposal_seq st" "st_next_member_no st' = st_next_member_no st"
    using o by (auto simp: only_proposals_def)
  have act: "may_act st' n = may_act st n" for n using ag by (simp add: may_act_def agent_of_find)
  have open_le: "length (open_proposals st') \<le> length (open_proposals st)"
    unfolding open_proposals_def using pg evolves_open by (rule progress_count)
  have each: "length (open_proposals_of st' a) \<le> length (open_proposals_of st a)" for a
    unfolding open_proposals_of_def using pg
    by (rule progress_count) (use evolves_open in \<open>auto simp: is_open_def evolves_def\<close>)
  have "slots st' \<le> 2" using invD(1) [OF inv] open_le cl by (simp add: slots_def)
  moreover have "one_open_each st'"
    using invD(2) [OF inv] each le_trans unfolding one_open_each_def by blast
  moreover have "ids_ok st'"
    using inv unfolding fund_inv_def ids_ok_def progress_ids [OF pg] sq by blast
  moreover have "claims_ok st'" using inv act cl by (simp add: fund_inv_def claims_ok_def)
  moreover have "drafts_ok st'"
    unfolding drafts_ok_def act
  proof (intro ballI impI)
    fix q assume q: "q \<in> set (st_proposals st')" "p_status q = Draft"
    then obtain p where p: "p \<in> set (st_proposals st)" "evolves p q" using progress_mem [OF pg] by blast
    then show "clean (p_proposer_agent q) \<and> may_act st (p_proposer_agent q)"
      using invD(5) [OF inv] evolves_draft [OF p(2) q(2)] by (auto simp: drafts_ok_def evolves_def)
  qed
  moreover have "members_ok st'" using invD(6) [OF inv] mb sq by (simp add: members_ok_def)
  moreover have "votes_ok st'"
    using invD(7) [OF inv] progress_mem [OF pg] unfolding votes_ok_def evolves_def by blast
  moreover have "host_ok st'" using invD(9) [OF inv] ag by (simp add: host_ok_def hosts_def)
  ultimately show ?thesis using r by (simp add: fund_inv_def)
qed

lemma receipts_progress:
  assumes "receipts_ok st" "progress (st_proposals st) (st_proposals st')" "st_receipts st' = st_receipts st"
  shows "receipts_ok st'"
proof -
  have "\<exists>q \<in> set (st_proposals st'). p_id q = r_proposal_id r \<and> p_status q = Settled"
    if r: "r \<in> set (st_receipts st)" for r
  proof -
    obtain p where p: "p \<in> set (st_proposals st)" "p_id p = r_proposal_id r" "p_status p = Settled"
      using assms(1) r by (auto simp: receipts_ok_def)
    obtain q where q: "q \<in> set (st_proposals st')" "evolves p q"
      using progress_mem' [OF assms(2) p(1)] by blast
    have "p_status q = Settled" by (rule evolves_settled [OF q(2) p(3)])
    moreover have "p_id q = r_proposal_id r" using q(2) p(2) by (simp add: evolves_def)
    ultimately show ?thesis using q(1) by blast
  qed
  then show ?thesis using assms(1,3) by (simp add: receipts_ok_def)
qed

lemma inv_same_receipts:
  "only_proposals st st' \<Longrightarrow> st_receipts st' = st_receipts st \<Longrightarrow> fund_inv st \<Longrightarrow> fund_inv st'"
  by (rule inv_only_proposals) (auto simp: fund_inv_def only_proposals_def intro: receipts_progress)

lemma inv_settle:
  assumes m: "record_settle_mutate now actor pid pnl bps tx st = Inr (r, st')" and inv: "fund_inv st"
  shows "fund_inv st'"
proof -
  note e = record_settle_effect [OF m]
  obtain i p where p: "proposal_ix st pid = Some i" "p = st_proposals st ! i" "p_status p = Executed"
    "st_proposals st' = (st_proposals st)[i := moved now Settled p]"
    "st_receipts st' = st_receipts st @ [fst r]" "r_proposal_id (fst r) = p_id p"
    using e(2) by blast
  have i: "i < length (st_proposals st)" using proposal_ix_less [OF p(1)] .
  let ?st0 = "st'\<lparr>st_receipts := st_receipts st\<rparr>"
  have r0: "receipts_ok ?st0"
    using e(1) by (intro receipts_progress [OF invD(8) [OF inv]]) (auto simp: only_proposals_def)
  have new: "p_id p \<notin> r_proposal_id ` set (st_receipts st)"
  proof
    assume "p_id p \<in> r_proposal_id ` set (st_receipts st)"
    then obtain r1 where "r1 \<in> set (st_receipts st)" "r_proposal_id r1 = p_id p" by auto
    then obtain q where q: "q \<in> set (st_proposals st)" "p_id q = p_id p" "p_status q = Settled"
      using invD(8) [OF inv] by (auto simp: receipts_ok_def)
    have "inj_on p_id (set (st_proposals st))"
      using invD(3) [OF inv] by (simp add: ids_ok_def distinct_map)
    moreover have "p \<in> set (st_proposals st)" using p(2) i by simp
    ultimately have "q = p" using q(1,2) by (auto dest: inj_onD)
    then show False using q(3) p(3) by simp
  qed
  have "moved now Settled p \<in> set (st_proposals st')" using i p(4) by (simp add: set_update_memI)
  then have "\<exists>q \<in> set (st_proposals st'). p_id q = p_id p \<and> p_status q = Settled"
    by (auto simp: moved_def intro!: bexI [of _ "moved now Settled p"])
  then have "receipts_ok st'"
    using r0 new p(5,6) by (auto simp: receipts_ok_def)
  then show ?thesis using inv_only_proposals [OF e(1) inv] by blast
qed

lemma inv_agents_grow:
  assumes "agents_grow st st'" "fund_inv st"
  shows "fund_inv st'"
proof -
  obtain as where st': "st' = st\<lparr>st_agents := as\<rparr>" and h: "hosts st' = hosts st"
    and act: "\<And>n. may_act st n \<Longrightarrow> may_act st' n"
    using assms(1) by (auto simp: agents_grow_def)
  have same: "st_proposals st' = st_proposals st" "st_claims st' = st_claims st" "st_members st' = st_members st"
    "st_receipts st' = st_receipts st" "st_next_proposal_seq st' = st_next_proposal_seq st"
    "st_next_member_no st' = st_next_member_no st"
    by (simp_all add: st')
  show ?thesis
    using assms(2) act unfolding inv_defs claims_ok_def slots_def open_proposals_def open_proposals_of_def same h
    by blast
qed

lemma inv_claims:
  assumes "st' = st\<lparr>st_claims := cs\<rparr>" "claims_ok st'" "slots st' \<le> 2" "fund_inv st"
  shows "fund_inv st'"
proof -
  have act: "may_act st' n = may_act st n" for n using assms(1) by (simp add: may_act_def)
  have same: "st_proposals st' = st_proposals st" "st_members st' = st_members st" "hosts st' = hosts st"
    "st_receipts st' = st_receipts st" "st_next_proposal_seq st' = st_next_proposal_seq st"
    "st_next_member_no st' = st_next_member_no st"
    by (simp_all add: assms(1) hosts_def)
  show ?thesis
    using assms(2-4) unfolding inv_defs open_proposals_of_def same act by blast
qed

lemma inv_members:
  assumes "st' = st\<lparr>st_members := ms, st_next_member_no := k, st_fund := f\<rparr>"
    and "numbers_ok k (map numbered ms)" "fund_inv st"
  shows "fund_inv st'"
proof -
  have act: "may_act st' n = may_act st n" for n using assms(1) by (simp add: may_act_def agent_of_find)
  have same: "st_proposals st' = st_proposals st" "st_claims st' = st_claims st" "hosts st' = hosts st"
    "st_receipts st' = st_receipts st" "st_next_proposal_seq st' = st_next_proposal_seq st"
    "st_members st' = ms" "st_next_member_no st' = k"
    by (simp_all add: assms(1) hosts_def)
  show ?thesis
    using assms(2,3) unfolding inv_defs claims_ok_def slots_def open_proposals_def open_proposals_of_def same act
    by blast
qed

lemma inv_remove_agent:
  assumes m: "remove_agent_mutate now actor name caller st = Inr (r, st')" and inv: "fund_inv st"
  shows "fund_inv st'"
proof -
  note e = remove_agent_effect [OF m]
  have pg: "progress (st_proposals st) (st_proposals st')"
    unfolding e(2) by (intro progress_map cancel_draft_evolves)
  obtain as cs ps where st': "st' = st\<lparr>st_agents := as, st_claims := cs, st_proposals := ps\<rparr>" using e(5) by blast
  let ?st0 = "st\<lparr>st_proposals := st_proposals st'\<rparr>"
  have o: "only_proposals st ?st0" using pg by (simp add: only_proposals_def)
  have i0: "fund_inv ?st0" by (rule inv_same_receipts [OF o _ inv]) simp
  have act0: "may_act ?st0 n = may_act st n" for n by (simp add: may_act_def)
  have keep: "may_act st' n" if "may_act st n" "clean n" "lower n \<noteq> lower (a_name r)" for n
    using e(4) [of n] that by (simp add: clean_def)
  have "claims_ok st'"
    using i0 keep unfolding fund_inv_def claims_ok_def e(1) act0 by auto
  moreover have "drafts_ok st'"
    unfolding drafts_ok_def
  proof (intro ballI impI)
    fix q assume q: "q \<in> set (st_proposals st')" "p_status q = Draft"
    then have "lower (p_proposer_agent q) \<noteq> lower (a_name r)"
      unfolding e(2) by (auto simp: cancel_draft_of_def split: if_splits)
    with q i0 keep show "clean (p_proposer_agent q) \<and> may_act st' (p_proposer_agent q)"
      unfolding fund_inv_def drafts_ok_def act0 by auto
  qed
  moreover have "slots st' \<le> slots ?st0" by (simp add: slots_def open_proposals_def e(1))
  moreover have "slots ?st0 \<le> 2" using i0 by (simp add: fund_inv_def)
  moreover have "one_open_each st'"
    using invD(2) [OF i0] by (simp add: one_open_each_def open_proposals_of_def)
  moreover have "ids_ok st'"
    using invD(3) [OF i0] e(5) by (auto simp: ids_ok_def)
  moreover have "members_ok st'" using invD(6) [OF i0] by (simp add: members_ok_def st')
  moreover have "votes_ok st'" using invD(7) [OF i0] by (simp add: votes_ok_def)
  moreover have "receipts_ok st'" using invD(8) [OF i0] e(5) by (auto simp: receipts_ok_def)
  moreover have "host_ok st'" using invD(9) [OF inv] e(3) by (simp add: host_ok_def)
  ultimately show ?thesis by (simp add: fund_inv_def)
qed

lemma inv_draft:
  assumes m: "draft_proposal_mutate base now agent x st = Inr (r, st')" and inv: "fund_inv st"
  shows "fund_inv st'"
proof -
  obtain a c where e: "agent_of st agent = Some a"
    "dr_proposal r = draft_record now x (prune_claims now st) a (Some c)"
    "st' = st\<lparr>st_next_proposal_seq := st_next_proposal_seq st + 1,
          st_proposals := st_proposals st @ [dr_proposal r],
          st_claims := without_claims_of (a_name a) (active_claims st now)\<rparr>"
    using draft_proposal_effect [OF m] by blast
  have ok: "claims_ok st" using inv by (simp add: fund_inv_def)
  note s = draft_proposal_slots [OF m ok]
  let ?p = "dr_proposal r"
  have p: "p_id ?p = ''p-'' @ str_int (st_next_proposal_seq st)" "p_proposer_agent ?p = a_name a"
    "p_status ?p = Draft" "votes_fair ?p" "has_window ?p"
    by (simp_all add: e(2) draft_record_def votes_fair_def has_window_def)
  have act: "may_act st' n = may_act st n" for n using e(3) by (simp add: may_act_def)
  have "slots st' \<le> 2" using s(1) inv by (simp add: fund_inv_def)
  moreover have "one_open_each st'"
    unfolding one_open_each_def
  proof
    fix b
    show "length (open_proposals_of st' b) \<le> 1"
    proof (cases "lower b = lower agent")
      case True
      then have "open_proposals_of st b = []" using s(5) by (simp add: open_proposals_of_def)
      then show ?thesis by (simp add: open_proposals_of_def e(3))
    next
      case False
      then have "open_proposals_of st' b = open_proposals_of st b"
        using s(4) by (simp add: open_proposals_of_def e(3))
      then show ?thesis using inv by (simp add: inv_defs)
    qed
  qed
  moreover have "ids_ok st'"
    using inv p(1) by (fastforce simp: inv_defs e(3))
  moreover have "drafts_ok st'"
    using inv s(3) agent_of_clean [OF e(1)] p(2) unfolding inv_defs act by (auto simp: e(3))
  moreover have "members_ok st'" "host_ok st'" "votes_ok st'" "receipts_ok st'"
    using inv p by (auto simp: inv_defs e(3) hosts_def)
  ultimately show ?thesis using s(2) by (simp add: fund_inv_def)
qed

lemma host_facts: "fund_inv st \<Longrightarrow> h \<in> set (hosts st) \<Longrightarrow> a_registered h \<and> \<not> a_removed h"
  by (auto simp: inv_defs)

lemma inv_fund:
  assumes "st' = st\<lparr>st_fund := f\<rparr>" "fund_inv st"
  shows "fund_inv st'"
  using assms by (intro inv_members [where st' = st' and st = st and ms = "st_members st"
        and k = "st_next_member_no st" and f = f]) (auto simp: inv_defs)

text \<open>Every operation keeps the invariants.\<close>

lemma op_step_inv: "op_step st st' \<Longrightarrow> fund_inv st \<Longrightarrow> fund_inv st'"
proof (induction rule: op_step.induct)
  case (request_membership now tg address username st rm st')
  then obtain ms where "st' = st\<lparr>st_members := ms\<rparr>" "joined (st_members st) ms"
    using request_membership_effect by blast
  then show ?case
    using request_membership(2)
    by (intro inv_members [where st' = st' and st = st and ms = ms and k = "st_next_member_no st" and f = "st_fund st"])
      (auto simp: inv_defs intro: numbers_ok_joined)
next
  case (approve_member now actor who address tx caller st ram st')
  then obtain ms ms1 i where e: "st' = st\<lparr>st_members := ms, st_next_member_no := st_next_member_no st + 1\<rparr>"
    "joined (st_members st) ms1" "i < length ms1" "\<not> m_approved (ms1 ! i)"
    "map numbered ms = (map numbered ms1)[i := (True, Some (st_next_member_no st))]"
    using approve_member_effect by blast
  have "numbers_ok (st_next_member_no st + 1) (map numbered ms)"
    unfolding e(5) using approve_member(2) e(2-4)
    by (intro numbers_ok_approve numbers_ok_joined [OF e(2)]) (auto simp: inv_defs numbered_def)
  then show ?case
    using approve_member(2) e(1)
    by (intro inv_members [where st' = st' and st = st and ms = ms and k = "st_next_member_no st + 1" and f = "st_fund st"]) auto
next
  case (request_agent now a st ra st')
  then show ?case using inv_agents_grow request_agent_effect host_facts by metis
next
  case (approve_agent now actor name tx caller st raa st')
  then show ?case using inv_agents_grow approve_agent_effect host_facts by metis
next
  case (remove_agent now actor name caller st ra st')
  then show ?case using inv_remove_agent by blast
next
  case (claim_topic now agent topic st rc st')
  then show ?case
    using claim_topic_effect [OF claim_topic(1)] inv_claims by (metis fund_inv_def)
next
  case (release_claim now agent topic st rn st')
  then obtain cs where cs: "st' = st\<lparr>st_claims := cs\<rparr>" "set cs \<subseteq> set (st_claims st)" "length cs \<le> length (st_claims st)"
    using release_claim_effect [OF release_claim(1)] by auto
  have "may_act st' n = may_act st n" for n using cs(1) by (simp add: may_act_def)
  then have "claims_ok st'" "slots st' \<le> 2"
    using cs release_claim(2) by (auto simp: fund_inv_def claims_ok_def slots_def open_proposals_def)
  then show ?case using inv_claims cs(1) release_claim(2) by blast
next
  case (request_draft now agent idea pitch chat msg topic st rc st')
  then show ?case
    using request_draft_effect [OF request_draft(1)] inv_claims by (metis fund_inv_def)
next
  case (draft_proposal base now agent x st rd st')
  then show ?case using inv_draft by blast
next
  case (record_settle now actor pid pnl bps tx st rs st')
  then show ?case using inv_settle by blast
next
  case (fund_card c st ru st')
  then obtain f ms where e: "st' = st\<lparr>st_fund := f, st_members := ms\<rparr>"
    "map numbered ms = map numbered (st_members st)"
    using fund_card_effect by blast
  then show ?case
    using fund_card(2) by (intro inv_members [where st' = st' and st = st and ms = ms and k = "st_next_member_no st" and f = f]) (auto simp: inv_defs)
next
  case (setup_fund actor asset texts ints cap h st rf st')
  then show ?case using setup_effect(1) inv_fund by blast
next
  case (bind_fund vals st rv st')
  then show ?case using bind_effect inv_fund by blast
qed (blast intro: inv_same_receipts ship_draft_effect set_proposal_status_effect set_chain_state_effect
      chain_status_effect set_card_message_effect record_vote_effect)+

lemma fund_inv_stamp [simp]: "fund_inv (bump t st) = fund_inv st"
proof -
  have "may_act (bump t st) n = may_act st n" for n by (simp add: bump_def may_act_def agent_of_find)
  then show ?thesis
    by (simp add: inv_defs claims_ok_def slots_def open_proposals_def open_proposals_of_def hosts_def)
      (simp add: bump_def)
qed

lemma created_inv:
  assumes "\<not> a_removed h" "create_fund d now wt f h = Inr (st, d')"
  shows "fund_inv st"
proof -
  obtain f' h' where st: "st = first_revision wt (new_state f' [h'])" "a_role h' = ''host''" "a_registered h'"
    "\<not> a_removed h'"
    using assms by (auto simp: create_fund_def store_create_def and_then_Inr_iff Let_def split: if_splits)
  have fld: "st_proposals st = []" "st_claims st = []" "st_members st = []" "st_receipts st = []"
    "st_agents st = [h']" "st_next_proposal_seq st = 1" "st_next_member_no st = 1"
    by (simp_all add: st(1) first_revision_def new_state_def)
  show ?thesis
    unfolding inv_defs claims_ok_def slots_def open_proposals_def open_proposals_of_def hosts_def fld
    using st(2-4) by (simp add: numbers_ok_def)
qed

lemma reachable_inv: "reachable st \<Longrightarrow> fund_inv st"
  by (induction rule: reachable.induct) (auto intro: created_inv op_step_inv)

end
