(* ===== verification/Ledger.thy ===== *)
theory Ledger
  imports ServiceInv
begin

text \<open>
  The directory after any calls of the service. \<open>service_call\<close> is one successful call of an
  operation of \<open>FundService\<close> that writes; a call that raises writes nothing, except that
  \<open>apply_chain_card\<close> keeps the updates it made before it raised, so each of its updates is a call
  too. \<open>served\<close> are the directories they lead to. Through the interface of the store, every state that can be loaded from such a
  directory is reachable in the sense of \<open>ServiceInv\<close>, so its invariants hold on disk.
\<close>

section \<open>The version and the revision\<close>

definition same_version :: "fund_state \<Rightarrow> fund_state \<Rightarrow> bool" where
  "same_version st st' \<longleftrightarrow> st_schema_version st' = st_schema_version st \<and> st_revision st' = st_revision st"

lemma put_agent_version [simp]:
  "st_schema_version (put_agent i a st) = st_schema_version st" "st_revision (put_agent i a st) = st_revision st"
  by (simp_all add: put_agent_def)

lemma request_agent_version: "request_agent_mutate now a st = Inr (r, st') \<Longrightarrow> same_version st st'"
  by (auto simp: request_agent_mutate_def same_version_def Let_def split: option.splits if_splits)

lemma approve_agent_version: "approve_agent_mutate now actor name tx caller st = Inr (r, st') \<Longrightarrow> same_version st st'"
  by (auto simp: approve_agent_mutate_def same_version_def Let_def split: option.splits if_splits)

lemma chain_status_version: "chain_status_mutate now pid s st = Inr (r, st') \<Longrightarrow> same_version st st'"
  by (auto simp: chain_status_mutate_def same_version_def Let_def split: option.splits)

lemma only_proposals_version: "only_proposals st st' \<Longrightarrow> same_version st st'"
  by (simp add: only_proposals_def same_version_def)

lemma op_step_version: "op_step st st' \<Longrightarrow> same_version st st'"
proof (induction rule: op_step.induct)
  case (request_membership now tg address username st rm st')
  then show ?case using request_membership_effect [OF request_membership] by (auto simp: same_version_def)
next
  case (approve_member now actor who address tx caller st ram st')
  then show ?case using approve_member_effect [OF approve_member] by (auto simp: same_version_def)
next
  case (remove_agent now actor name caller st ra st')
  then show ?case using remove_agent_effect(5) [OF remove_agent] by (auto simp: same_version_def)
next
  case (claim_topic now agent topic st rc st')
  then show ?case using claim_topic_effect(1) [OF claim_topic] by (auto simp: same_version_def)
next
  case (release_claim now agent topic st rn st')
  then show ?case using release_claim_effect [OF release_claim] by (auto simp: same_version_def)
next
  case (request_draft now agent idea pitch chat msg topic st rc st')
  then show ?case using request_draft_effect(1) [OF request_draft] by (auto simp: same_version_def)
next
  case (draft_proposal base now agent x st rd st')
  then show ?case using draft_proposal_effect [OF draft_proposal] by (auto simp: same_version_def)
next
  case (fund_card c st ru st')
  then show ?case using fund_card_effect [OF fund_card] by (auto simp: same_version_def)
next
  case (setup_fund actor asset texts ints cap h st rf st')
  then show ?case using setup_effect(1) [OF setup_fund] by (auto simp: same_version_def)
next
  case (bind_fund vals st rv st')
  then show ?case using bind_effect [OF bind_fund] by (auto simp: same_version_def)
qed (blast intro: only_proposals_version request_agent_version approve_agent_version chain_status_version
      ship_draft_effect set_proposal_status_effect set_chain_state_effect set_card_message_effect
      record_vote_effect record_settle_effect)+

definition is_op :: "(fund_state \<Rightarrow> ('r \<times> fund_state) result) \<Rightarrow> bool" where
  "is_op m \<longleftrightarrow> (\<forall>st q st'. m st = Inr (q, st') \<longrightarrow> op_step st st')"

lemma keeps_readable_version:
  "(\<And>st q st'. m st = Inr (q, st') \<Longrightarrow> same_version st st') \<Longrightarrow> local_json.keeps_readable m"
  by (auto simp: local_json.keeps_readable_def same_version_def readable_def)

lemma is_op_readable: "is_op m \<Longrightarrow> local_json.keeps_readable m"
  by (rule keeps_readable_version) (auto simp: is_op_def op_step_version)

section \<open>Directories all of whose states are reachable\<close>

definition sound_dir :: "dir \<Rightarrow> bool" where
  "sound_dir d \<longleftrightarrow> (\<forall>f st. store_load d f = Inr st \<longrightarrow> reachable st)"

lemma sound_empty: "sound_dir []"
  by (auto simp: sound_dir_def store_load_def and_then_Inr_iff read_file_def)

lemma sound_create:
  assumes "sound_dir d" "\<not> a_removed h" "create_fund d now wt f h = Inr (st, d')"
  shows "sound_dir d'"
proof -
  obtain st0 where c: "store_create d wt st0 = Inr (st, d')"
    using assms(3) by (auto simp: create_fund_def and_then_Inr_iff Let_def)
  have "reachable st" using assms(2,3) by (rule reachable.created)
  then show ?thesis
    using assms(1) local_json.load_create [OF c] by (auto simp: sound_dir_def split: if_splits)
qed

lemma sound_update:
  assumes s: "sound_dir d" and u: "store_update d wt fund m = Inr (r, d')"
    and k: "local_json.keeps_readable m"
    and st: "\<And>st q st'. store_load d fund = Inr st \<Longrightarrow> m st = Inr (q, st') \<Longrightarrow> op_step st st'"
  shows "sound_dir d'"
proof -
  obtain s0 s1 where l: "store_load d fund = Inr s0" "m s0 = Inr (r, s1)"
    "\<And>g. store_load d' g = (if same_fund fund g then Inr (bump wt s1) else store_load d g)"
    using local_json.update_keeps [OF u k] by blast
  have "reachable (bump wt s1)"
    using s l(1) st [OF l(1,2)] by (auto simp: sound_dir_def intro: reachable.operated)
  then show ?thesis using s l(3) by (auto simp: sound_dir_def split: if_splits)
qed

lemma sound_write:
  assumes "sound_dir d" "is_op m" "write_op d wt fund m evs = Inr (r, d', es)"
  shows "sound_dir d'"
proof -
  have u: "store_update d wt fund m = Inr (r, d')"
    using assms(3) by (auto simp: write_op_def and_then_Inr_iff)
  show ?thesis
    using sound_update [OF assms(1) u is_op_readable [OF assms(2)]] assms(2) by (simp add: is_op_def)
qed

lemma is_op_mutations:
  "is_op (request_membership_mutate now tg address username)"
  "is_op (approve_member_mutate now actor who address tx caller)"
  "is_op (request_agent_mutate now a)"
  "is_op (approve_agent_mutate now actor name tx caller)"
  "is_op (remove_agent_mutate now actor name caller)"
  "is_op (claim_topic_mutate now agent topic)"
  "is_op (release_claim_mutate now agent topic)"
  "is_op (request_draft_mutate now agent idea pitch chat msg topic)"
  "is_op (draft_proposal_mutate base now agent x)"
  "is_op (ship_draft_mutate now pid caller)"
  "is_op (set_proposal_status_mutate now actor pid s oc tx cm)"
  "is_op (set_chain_state_mutate now pid ag v w cov)"
  "is_op (set_card_message_mutate pid m)"
  "is_op (record_vote_mutate now pid voter side kind note)"
  "is_op (record_settle_mutate now actor pid pnl bps tx)"
  "is_op (fund_card_mutate c)"
  "is_op (setup_mutate actor asset texts ints cap h)"
  "is_op (bind_mutate vals)"
  by (auto simp: is_op_def intro: op_step.intros)

section \<open>The chain card\<close>

lemma chain_states_target: "target_of row = Some s \<Longrightarrow> s \<noteq> Proposed"
  by (auto simp: target_of_def CHAIN_STATES_def split: if_splits)

lemma sound_chain_move:
  assumes s: "sound_dir d" and m: "chain_move d tk fund pid target = Inr (d', evs)"
    and t: "\<And>s. target = Some s \<Longrightarrow> s \<noteq> Proposed"
  shows "sound_dir d'"
proof -
  obtain st where st: "store_load d fund = Inr st"
    using m by (auto simp: chain_move_def and_then_Inr_iff)
  show ?thesis
  proof (cases "d' = d")
    case False
    then obtain q p where p: "target = Some q" "proposal_of st pid = Some p"
      "check_transition (p_status p) q = Allow" "\<exists>r es. chain_status d (fst tk) (snd tk) fund pid q = Inr (r, d', es)"
      using m st by (auto simp: chain_move_def and_then_Inr_iff split: option.splits if_splits)
    then obtain r where u: "store_update d (snd tk) fund (chain_status_mutate (fst tk) pid q) = Inr (r, d')"
      by (auto simp: chain_status_def write_op_def and_then_Inr_iff)
    show ?thesis
    proof (rule sound_update [OF s u])
      show "local_json.keeps_readable (chain_status_mutate (fst tk) pid q)"
        by (rule keeps_readable_version) (rule chain_status_version)
      show "op_step st1 st2" if "store_load d fund = Inr st1" "chain_status_mutate (fst tk) pid q st1 = Inr (q', st2)"
        for st1 q' st2
        using that st p(1-3) t by (auto intro: op_step.chain_move)
    qed
  qed (use s in simp)
qed

lemma sound_apply_row:
  assumes "sound_dir d" "apply_row d tick fund pid row = Inr (d', evs)"
  shows "sound_dir d'"
proof -
  obtain cov r d1 ev1 ev2 where 1: "set_chain_state d (fst (tick 0)) (snd (tick 0)) fund pid
      (svc_opt_int (get_or row ''againstBps'' JNull)) (svc_opt_float (get_or row ''voteEnd'' JNull))
      (svc_opt_float (get_or row ''reviewEnd'' JNull)) cov = Inr (r, d1, ev1)"
    "chain_move d1 (tick 1) fund pid (target_of row) = Inr (d', ev2)"
    using assms(2) by (auto simp: apply_row_def and_then_Inr_iff)
  have "sound_dir d1"
    using assms(1) 1(1) unfolding set_chain_state_def by (rule sound_write [OF _ is_op_mutations(12)])
  then show ?thesis using 1(2) chain_states_target by (rule sound_chain_move)
qed

lemma sound_apply_rows:
  "sound_dir d \<Longrightarrow> apply_rows st d tick fund seen n rows = Inr (m, d', evs) \<Longrightarrow> sound_dir d'"
proof (induction rows arbitrary: d tick seen n m d' evs)
  case (Cons row rows)
  show ?case
  proof (cases "onchain_of row")
    case None
    with Cons show ?thesis by auto
  next
    case (Some oc)
    show ?thesis
    proof (cases "oc \<in> set seen \<or> List.find (\<lambda>p. p_onchain_id p = Some oc) (st_proposals st) = None")
      case True
      with Cons Some show ?thesis by (auto split: if_splits)
    next
      case False
      then obtain p where p: "List.find (\<lambda>p. p_onchain_id p = Some oc) (st_proposals st) = Some p" by auto
      with Cons.prems(2) Some False obtain d1 ev1 m2 ev2 where
        d1: "apply_row d tick fund (p_id p) row = Inr (d1, ev1)"
        "apply_rows st d1 (\<lambda>i. tick (i + 2)) fund (oc # seen) (n + 1) rows = Inr (m2, d', ev2)"
        by (auto simp: and_then_Inr_iff)
      then show ?thesis using Cons.IH sound_apply_row [OF Cons.prems(1)] by blast
    qed
  qed
qed simp

lemma sound_apply_chain_card:
  assumes s: "sound_dir d" and c: "apply_chain_card d tick fund reply = Inr (n, d', evs)"
  shows "sound_dir d'"
proof -
  obtain k d1 st where k: "(if cd_gov k \<noteq> [] \<or> cd_gate k \<noteq> [] \<or> cd_fee k \<noteq> None \<or> cd_deposits k \<noteq> []
        then and_then (store_update d (snd (tick 0)) fund (fund_card_mutate k)) (\<lambda>(_, d'). Inr d')
        else Inr d) = (Inr d1 :: dir result)"
    "apply_rows st d1 (\<lambda>i. tick (i + 1)) fund [] 0 (cd_rows k) = Inr (n, d', evs)"
    using c by (auto simp: apply_chain_card_def and_then_Inr_iff)
  have "sound_dir d1"
  proof (cases "d1 = d")
    case False
    then obtain r where "store_update d (snd (tick 0)) fund (fund_card_mutate k) = Inr (r, d1)"
      using k(1) by (auto simp: and_then_Inr_iff split: if_splits)
    then show ?thesis
      using sound_update [OF s] is_op_readable [OF is_op_mutations(16)] is_op_mutations(16)
      by (metis is_op_def)
  qed (use s in simp)
  then show ?thesis using k(2) by (rule sound_apply_rows)
qed

section \<open>Calls of the service\<close>

inductive service_call :: "dir \<Rightarrow> dir \<Rightarrow> bool" where
  "\<not> a_removed h \<Longrightarrow> create_fund d now wt f h = Inr (st, d') \<Longrightarrow> service_call d d'"
| "request_membership d now wt fund tg address username = Inr (r1, d', es) \<Longrightarrow> service_call d d'"
| "approve_member d now wt fund actor who address tx caller = Inr (r2, d', es) \<Longrightarrow> service_call d d'"
| "request_agent d now wt fund a = Inr (r3, d', es) \<Longrightarrow> service_call d d'"
| "approve_agent d now wt fund actor name tx caller = Inr (r4, d', es) \<Longrightarrow> service_call d d'"
| "remove_agent d now wt fund actor name caller = Inr (r3, d', es) \<Longrightarrow> service_call d d'"
| "claim_topic d now wt fund agent topic = Inr (r5, d', es) \<Longrightarrow> service_call d d'"
| "release_claim d now wt fund agent topic = Inr (r6, d', es) \<Longrightarrow> service_call d d'"
| "request_draft d now wt fund agent idea pitch chat msg topic = Inr (r5, d', es) \<Longrightarrow> service_call d d'"
| "draft_proposal base d now wt fund agent x = Inr (r7, d', es) \<Longrightarrow> service_call d d'"
| "ship_draft d now wt fund pid caller = Inr (r8, d', es) \<Longrightarrow> service_call d d'"
| "set_proposal_status d now wt fund actor pid s oc tx cm = Inr (r9, d', es) \<Longrightarrow> service_call d d'"
| "set_chain_state d now wt fund pid ag v w cov = Inr (r10, d', es) \<Longrightarrow> service_call d d'"
| "set_card_message d wt fund pid m = Inr (r8, d', es) \<Longrightarrow> service_call d d'"
| "record_vote d now wt fund pid voter side kind note = Inr (r8, d', es) \<Longrightarrow> service_call d d'"
| "record_settle d now wt fund actor pid pnl bps tx = Inr (r11, d', es) \<Longrightarrow> service_call d d'"
| "apply_chain_card d tick fund reply = Inr (n, d', es) \<Longrightarrow> service_call d d'"
| "store_update d wt fund (setup_mutate actor asset texts ints cap h) = Inr (r12, d') \<Longrightarrow> service_call d d'"
| "fund_bind d wt messaging_turn fund args = (code, d') \<Longrightarrow> service_call d d'"
| "store_update d wt fund (fund_card_mutate c) = Inr (r13, d') \<Longrightarrow> service_call d d'"
| "chain_move d tk fund pid (target_of row) = Inr (d', es) \<Longrightarrow> service_call d d'"

inductive served :: "dir \<Rightarrow> bool" where
  start: "served []"
| call: "served d \<Longrightarrow> service_call d d' \<Longrightarrow> served d'"

lemmas service_ops = request_membership_def approve_member_def request_agent_def approve_agent_def
  remove_agent_def claim_topic_def release_claim_def request_draft_def draft_proposal_def ship_draft_def
  set_proposal_status_def set_chain_state_def set_card_message_def record_vote_def record_settle_def

lemma sound_bind:
  assumes "sound_dir d" "fund_bind d wt messaging_turn fund args = (code, d')"
  shows "sound_dir d'"
proof (cases "d' = d")
  case False
  then obtain r where "store_update d wt fund (bind_mutate (bind_values args)) = Inr (r, d')"
    using assms(2) by (auto simp: fund_bind_def Let_def split: if_splits sum.splits)
  then show ?thesis
    using sound_update [OF assms(1)] is_op_readable [OF is_op_mutations(18)] is_op_mutations(18)
    by (metis is_op_def)
qed (use assms in simp)

lemma sound_setup:
  assumes "sound_dir d" "store_update d wt fund (setup_mutate actor asset texts ints cap h) = Inr (r, d')"
  shows "sound_dir d'"
  using sound_update [OF assms] is_op_readable [OF is_op_mutations(17)] is_op_mutations(17)
  by (metis is_op_def)

lemma sound_service_call: "service_call d d' \<Longrightarrow> sound_dir d \<Longrightarrow> sound_dir d'"
proof (induction rule: service_call.induct)
  case (1 h d now wt f st d')
  then show ?case using sound_create by blast
next
  case (17 d tick fund reply n d' es)
  then show ?case using sound_apply_chain_card by blast
next
  case (18 d wt fund actor asset texts ints cap h r12 d')
  then show ?case using sound_setup by blast
next
  case (19 d wt messaging_turn fund args code d')
  then show ?case using sound_bind by blast
next
  case (20 d wt fund c r13 d')
  then show ?case
    using sound_update is_op_readable [OF is_op_mutations(16)] is_op_mutations(16) by (metis is_op_def)
next
  case (21 d tk fund pid row d' es)
  then show ?case using sound_chain_move chain_states_target by blast
qed (auto simp: service_ops Let_def split: if_splits intro: sound_write [OF _ is_op_mutations(1)]
    sound_write [OF _ is_op_mutations(2)] sound_write [OF _ is_op_mutations(3)]
    sound_write [OF _ is_op_mutations(4)] sound_write [OF _ is_op_mutations(5)]
    sound_write [OF _ is_op_mutations(6)] sound_write [OF _ is_op_mutations(7)]
    sound_write [OF _ is_op_mutations(8)] sound_write [OF _ is_op_mutations(9)]
    sound_write [OF _ is_op_mutations(10)] sound_write [OF _ is_op_mutations(11)]
    sound_write [OF _ is_op_mutations(12)] sound_write [OF _ is_op_mutations(13)]
    sound_write [OF _ is_op_mutations(14)] sound_write [OF _ is_op_mutations(15)])

lemma served_sound: "served d \<Longrightarrow> sound_dir d"
  by (induction rule: served.induct) (auto intro: sound_empty sound_service_call)

lemma served_inv: "served d \<Longrightarrow> store_load d f = Inr st \<Longrightarrow> fund_inv st"
  using served_sound reachable_inv by (auto simp: sound_dir_def)

text \<open>A successful write raises the revision by one, and the next load returns what was written.\<close>

lemma write_op_revision:
  assumes "is_op m" "write_op d wt fund m evs = Inr (r, d', es)"
  shows "\<exists>st st'. store_load d fund = Inr st \<and> m st = Inr (r, st') \<and> store_load d' fund = Inr (bump wt st')
    \<and> st_revision (bump wt st') = st_revision st + 1 \<and> es = evs r"
proof -
  have u: "store_update d wt fund m = Inr (r, d')" and es: "es = evs r"
    using assms(2) by (auto simp: write_op_def and_then_Inr_iff)
  obtain st st' where s: "store_load d fund = Inr st" "m st = Inr (r, st')"
    "\<And>g. store_load d' g = (if same_fund fund g then Inr (bump wt st') else store_load d g)"
    using local_json.update_keeps [OF u is_op_readable [OF assms(1)]] by blast
  have "same_version st st'" using assms(1) s(2) op_step_version by (auto simp: is_op_def)
  then show ?thesis using s es by (auto simp: same_version_def bump_def)
qed

lemma write_op_other:
  assumes "is_op m" "write_op d wt fund m evs = Inr (r, d', es)" "\<not> same_fund fund g"
  shows "store_load d' g = store_load d g"
proof -
  have u: "store_update d wt fund m = Inr (r, d')"
    using assms(2) by (auto simp: write_op_def and_then_Inr_iff)
  show ?thesis by (rule local_json.update_other [OF u is_op_readable [OF assms(1)] assms(3)])
qed

end
