(* ===== verification/Access.thy ===== *)
theory Access
  imports Service
begin

text \<open>
  Who may act: \<open>session.py\<close> (the caller of a turn), \<open>fund/authz.py\<close> (the host's authority) and
  \<open>fund/runtime.py\<close> (which agent and which fund). The session variables of the gateway are the
  arguments of \<open>current_caller\<close>; the hash of the approval key is one too.
\<close>

section \<open>The caller of a turn\<close>

definition NON_MESSAGING :: "string list" where
  "NON_MESSAGING = [[], ''api_server'', ''cli'', ''codex'', ''cron'', ''desktop'', ''gateway'', ''kanban'',
     ''local'', ''msgraph_webhook'', ''tool'', ''tui'', ''webhook'']"

record caller =
  ca_platform :: string
  ca_user_id :: string
  ca_chat_id :: string

definition messaging :: "caller \<Rightarrow> bool" where
  "messaging c \<longleftrightarrow> ca_platform c \<notin> set NON_MESSAGING"

definition telegram_user :: "caller \<Rightarrow> string option" where
  "telegram_user c = (if ca_platform c = ''telegram'' \<and> ca_user_id c \<noteq> [] then Some (ca_user_id c) else None)"

text \<open>A hook's keyword wins over the session variable.\<close>

definition current_caller :: "(string \<times> string) list \<Rightarrow> (string \<Rightarrow> string) \<Rightarrow> caller" where
  "current_caller hook_kwargs session_env =
     (let get = (\<lambda>k v. strip (or_else (case map_of hook_kwargs k of None \<Rightarrow> [] | Some s \<Rightarrow> s) (session_env v))) in
      \<lparr>ca_platform = lower (get ''platform'' ''HERMES_SESSION_PLATFORM''),
       ca_user_id = get ''sender_id'' ''HERMES_SESSION_USER_ID'',
       ca_chat_id = get ''chat_id'' ''HERMES_SESSION_CHAT_ID''\<rparr>)"

section \<open>The host's authority\<close>

definition HOST_TOOLS :: "string list" where
  "HOST_TOOLS = [''fund_setup'', ''fund_approve_member'', ''fund_approve_agent'', ''fund_remove_agent'',
     ''fund_record_settle'', ''fund_set_proposal_status'']"

definition expected_host :: "fund_state option \<Rightarrow> string \<Rightarrow> string" where
  "expected_host st owner = (case st of
     Some s \<Rightarrow> or_else (f_host_telegram_id (st_fund s)) owner
   | None \<Rightarrow> owner)"

definition check_caller :: "fund_state option \<Rightarrow> caller \<Rightarrow> string \<Rightarrow> verdict" where
  "check_caller st c owner =
     (if \<not> messaging c then Allow
      else if ca_platform c \<noteq> ''telegram'' then Deny Not_host
      else let host = expected_host st owner in
        if host = [] then Deny Host_unset
        else if ca_user_id c \<noteq> host then Deny Not_host
        else Allow)"

definition check_member_vote_caller :: "fund_state option \<Rightarrow> caller \<Rightarrow> string \<Rightarrow> string \<Rightarrow> verdict" where
  "check_member_vote_caller st c voter owner =
     (if messaging c \<and> ca_platform c = ''telegram'' \<and> ca_user_id c \<noteq> [] \<and> ca_user_id c = voter then Allow
      else check_caller st c owner)"

definition APPROVAL_KEYS :: "string list" where
  "APPROVAL_KEYS = [''member'', ''address'', ''agent'', ''proposal_id'', ''status'', ''onchain_id'', ''pnl'',
     ''pnl_bps'', ''tx_hash'', ''host_telegram_id'', ''telegram_chat_id'', ''vault'', ''governor'',
     ''max_capital'', ''max_drawdown_bps'', ''agent_fee_bps'', ''voting_period'', ''asset'', ''voter'',
     ''side'', ''voter_kind'']"

text \<open>The arguments an approval is keyed by: those of the list that are present, as text.\<close>

definition approval_args :: "(string \<times> json) list \<Rightarrow> (string \<times> string) list result" where
  "approval_args args =
     mapM (\<lambda>k. and_then (text_of (get_or args k JNull)) (\<lambda>s. Inr (k, s)))
       (filter (\<lambda>k. get_or args k JNull \<noteq> JNull \<and> get_or args k JNull \<noteq> JStr []) APPROVAL_KEYS)"

section \<open>This process\<close>

record settings =
  se_agent_name :: string
  se_agent_identity_id :: string
  se_agent_address :: string
  se_owner_telegram_id :: string
  se_default_fund :: string
  se_tx_builder_url :: string

text \<open>\<open>FundService.__init__\<close>: the base of the builder's URLs\<close>

definition service_url :: "settings \<Rightarrow> string" where
  "service_url s = rstrip_of (CHR ''/'') (or_else (se_tx_builder_url s) DEFAULT_TX_BUILDER_URL)"

definition runtime_agent_name :: "settings \<Rightarrow> string result" where
  "runtime_agent_name s = (let name = strip (se_agent_name s) in if name = [] then Inl Service_error else Inr name)"

definition fund_for :: "dir \<Rightarrow> settings \<Rightarrow> string \<Rightarrow> string \<Rightarrow> string result" where
  "fund_for d s fund chat_id = resolve_fund d fund chat_id (se_default_fund s)"

section \<open>Facts\<close>

text \<open>The caller may use the host's authority: an operator surface, or the host on Telegram.\<close>

lemma check_caller_Allow:
  "check_caller st c owner = Allow \<longleftrightarrow>
     \<not> messaging c \<or> (ca_platform c = ''telegram'' \<and> ca_user_id c \<noteq> [] \<and> ca_user_id c = expected_host st owner)"
  by (auto simp: check_caller_def Let_def)

lemma check_member_vote_caller_Allow:
  "check_member_vote_caller st c voter owner = Allow \<longleftrightarrow>
     \<not> messaging c \<or> (ca_platform c = ''telegram'' \<and> ca_user_id c \<noteq> []
       \<and> (ca_user_id c = voter \<or> ca_user_id c = expected_host st owner))"
  by (auto simp: check_member_vote_caller_def check_caller_Allow)

lemma check_caller_cases: "check_caller st c owner \<in> {Allow, Deny Not_host, Deny Host_unset}"
  by (auto simp: check_caller_def Let_def)

end
