(* ===== verification/Effects.thy ===== *)
theory Effects
  imports Ledger Access
begin

text \<open>
  Calls that use the service several times. A handler of the tools or of the chat commands may
  write, go on, and then raise, so its effect is the directory and the events beside the value or
  the exception. A relation between directories that every single call respects, and that is
  reflexive and transitive, is respected by any sequence of calls; two such relations are used:
  being reachable by calls of the service, and keeping the bindings of every fund.
\<close>

section \<open>Sequences of calls\<close>

type_synonym 'r effect = "dir \<times> fund_event list \<times> 'r result"

definition value_of :: "'r effect \<Rightarrow> 'r result" where
  "value_of eff = snd (snd eff)"

text \<open>A computation that does not write, one call of the service, and one after the other.\<close>

definition pure_eff :: "dir \<Rightarrow> 'r result \<Rightarrow> 'r effect" where
  "pure_eff d r = (d, [], r)"

definition did :: "dir \<Rightarrow> 'r outcome \<Rightarrow> 'r effect" where
  "did d o' = (case o' of Inl e \<Rightarrow> (d, [], Inl e) | Inr (r, d', es) \<Rightarrow> (d', es, Inr r))"

definition then_do :: "'a effect \<Rightarrow> (dir \<Rightarrow> 'a \<Rightarrow> 'b effect) \<Rightarrow> 'b effect" where
  "then_do m k = (case m of (d, es, r) \<Rightarrow> (case r of
     Inl e \<Rightarrow> (d, es, Inl e)
   | Inr x \<Rightarrow> (case k d x of (d', es', r') \<Rightarrow> (d', es @ es', r'))))"

definition need :: "dir \<Rightarrow> 'a result \<Rightarrow> ('a \<Rightarrow> 'b effect) \<Rightarrow> 'b effect" where
  "need d r k = (case r of Inl e \<Rightarrow> (d, [], Inl e) | Inr x \<Rightarrow> k x)"

definition needs :: "dir \<Rightarrow> verdict \<Rightarrow> 'b effect \<Rightarrow> 'b effect" where
  "needs d v k = (case v of Allow \<Rightarrow> k | Deny c \<Rightarrow> (d, [], Inl (Rule_violation c)))"

lemma value_simps [simp]:
  "value_of (d, es, r) = r" "value_of (pure_eff d r) = r" "fst (pure_eff d r) = d"
  by (simp_all add: value_of_def pure_eff_def)

lemma need_simps [simp]: "need d (Inl e) k = (d, [], Inl e)" "need d (Inr x) k = k x"
  by (simp_all add: need_def)

lemma needs_simps [simp]:
  "needs d Allow k = k" "needs d (Deny c) k = (d, [], Inl (Rule_violation c))"
  by (simp_all add: needs_def)

lemma need_done: "value_of (need d r k) = Inr y \<Longrightarrow> \<exists>x. r = Inr x \<and> need d r k = k x"
  by (cases r) simp_all

lemma needs_done: "value_of (needs d v k) = Inr y \<Longrightarrow> v = Allow \<and> needs d v k = k"
  by (cases v) simp_all

section \<open>Relations every call respects\<close>

locale dir_relation =
  fixes R :: "dir \<Rightarrow> dir \<Rightarrow> bool"
  assumes same: "R d d"
    and chain: "R d1 d2 \<Longrightarrow> R d2 d3 \<Longrightarrow> R d1 d3"
begin

definition stays :: "dir \<Rightarrow> 'r effect \<Rightarrow> bool" where
  "stays d eff \<longleftrightarrow> R d (fst eff)"

lemma stays_raise [simp]: "stays d (d, es, r)"
  by (simp add: stays_def same)

lemma stays_pure [simp]: "stays d (pure_eff d r)"
  by (simp add: pure_eff_def)

lemma stays_did:
  assumes "\<And>r d' es. o' = Inr (r, d', es) \<Longrightarrow> R d d'"
  shows "stays d (did d o')"
  using assms by (auto simp: stays_def did_def same split: sum.split prod.split)

lemma stays_then:
  assumes "stays d m" and "\<And>d' x. stays d' (k d' x)"
  shows "stays d (then_do m k)"
proof (cases m)
  case (fields d1 es r)
  show ?thesis
  proof (cases r)
    case (Inl e)
    with fields assms(1) show ?thesis by (simp add: stays_def then_do_def)
  next
    case (Inr x)
    obtain d2 es2 r2 where k: "k d1 x = (d2, es2, r2)" by (cases "k d1 x")
    have "R d d1" "R d1 d2" using assms(1) assms(2) [of d1 x] fields k by (simp_all add: stays_def)
    with fields Inr k show ?thesis by (auto simp: stays_def then_do_def intro: chain)
  qed
qed

lemma stays_need: "(\<And>x. r = Inr x \<Longrightarrow> stays d (k x)) \<Longrightarrow> stays d (need d r k)"
  by (cases r) simp_all

lemma stays_needs: "stays d k \<Longrightarrow> stays d (needs d v k)"
  by (cases v) simp_all

end

section \<open>Directories the service reaches\<close>

definition serves :: "dir \<Rightarrow> dir \<Rightarrow> bool" where
  "serves d d' \<longleftrightarrow> (served d \<longrightarrow> served d')"

interpretation serving: dir_relation serves
  by unfold_locales (auto simp: serves_def)

lemma serves_call: "service_call d d' \<Longrightarrow> serves d d'"
  by (auto simp: serves_def intro: served.call)

section \<open>Bindings\<close>

definition same_bindings :: "fund \<Rightarrow> fund \<Rightarrow> bool" where
  "same_bindings f g \<longleftrightarrow> (\<forall>k \<in> set LOCKED_FUND_FIELDS. get_text f k \<noteq> [] \<longrightarrow> lower (get_text g k) = lower (get_text f k))"

definition bindings_kept :: "dir \<Rightarrow> dir \<Rightarrow> bool" where
  "bindings_kept d d' \<longleftrightarrow> (\<forall>f st. store_load d f = Inr st \<longrightarrow>
     (\<exists>st'. store_load d' f = Inr st' \<and> same_bindings (st_fund st) (st_fund st')))"

lemma same_bindings_refl [simp]: "same_bindings f f"
  by (simp add: same_bindings_def)

lemma same_bindings_trans: "same_bindings f g \<Longrightarrow> same_bindings g h \<Longrightarrow> same_bindings f h"
  unfolding same_bindings_def by (metis lower_Nil_iff)

lemma bindings_same: "bindings_kept d d"
  by (simp add: bindings_kept_def)

lemma bindings_chain: "bindings_kept d1 d2 \<Longrightarrow> bindings_kept d2 d3 \<Longrightarrow> bindings_kept d1 d3"
  unfolding bindings_kept_def using same_bindings_trans by meson

interpretation binding: dir_relation bindings_kept
  by unfold_locales (rule bindings_same, rule bindings_chain)

lemma bindings_create:
  assumes "create_fund d now wt f h = Inr (st, d')"
  shows "bindings_kept d d'"
proof -
  obtain st0 where c: "store_create d wt st0 = Inr (st, d')"
    using assms by (auto simp: create_fund_def and_then_Inr_iff Let_def)
  obtain e where fresh: "store_load d (f_name (st_fund st0)) = Inl e"
    using local_json.create_fresh [OF c] by blast
  have "\<exists>st'. store_load d' g = Inr st' \<and> same_bindings (st_fund s) (st_fund st')"
    if g: "store_load d g = Inr s" for g s
  proof (cases "same_fund (f_name (st_fund st0)) g")
    case True
    with g fresh show ?thesis using load_same_fund [OF True, of d] by simp
  next
    case False
    with g show ?thesis using local_json.load_create [OF c, of g] by simp
  qed
  then show ?thesis by (simp add: bindings_kept_def)
qed

text \<open>A mutation that keeps the bindings of the state it is given keeps those of the directory.\<close>

lemma bindings_readable:
  assumes u: "store_update d wt fund m = Inr (r, d')" and k: "local_json.keeps_readable m"
    and m: "\<And>st q st'. m st = Inr (q, st') \<Longrightarrow> same_bindings (st_fund st) (st_fund st')"
  shows "bindings_kept d d'"
proof -
  obtain s s' where s: "store_load d fund = Inr s" "m s = Inr (r, s')"
    "\<And>g. store_load d' g = (if same_fund fund g then Inr (bump wt s') else store_load d g)"
    using local_json.update_keeps [OF u k] by blast
  have "same_bindings (st_fund s) (st_fund (bump wt s'))" using m [OF s(2)] by (simp add: bump_def)
  then show ?thesis
    using s(1,3) load_same_fund [of fund _ d] by (fastforce simp: bindings_kept_def)
qed

lemma bindings_update:
  assumes "store_update d wt fund m = Inr (r, d')" and "is_op m"
    and "\<And>st q st'. m st = Inr (q, st') \<Longrightarrow> same_bindings (st_fund st) (st_fund st')"
  shows "bindings_kept d d'"
  using assms(1) is_op_readable [OF assms(2)] assms(3) by (rule bindings_readable)

lemma bindings_write:
  assumes "write_op d wt fund m evs = Inr (r, d', es)" "is_op m"
    and "\<And>st q st'. m st = Inr (q, st') \<Longrightarrow> same_bindings (st_fund st) (st_fund st')"
  shows "bindings_kept d d'"
  using assms by (auto simp: write_op_def and_then_Inr_iff intro: bindings_update)

lemma same_bindings_cooldown [simp]: "same_bindings (st_fund st) (st_fund (start_cooldown now st))"
  by (auto simp: same_bindings_def start_cooldown_def Let_def get_text_def split: option.split)

lemma put_fund [simp]:
  "st_fund (put_proposal i p st) = st_fund st" "st_fund (put_member i m st) = st_fund st"
  "st_fund (put_agent i a st) = st_fund st" "st_fund (prune_claims now st) = st_fund st"
  by (simp_all add: put_proposal_def put_member_def put_agent_def prune_claims_def)

lemma fund_of_mutations:
  "request_membership_mutate now tg address username st = Inr (rm, st') \<Longrightarrow> st_fund st' = st_fund st"
  "approve_member_mutate now actor who address tx caller st = Inr (ram, st') \<Longrightarrow> st_fund st' = st_fund st"
  "request_agent_mutate now a st = Inr (ra, st') \<Longrightarrow> st_fund st' = st_fund st"
  "approve_agent_mutate now actor name tx caller st = Inr (raa, st') \<Longrightarrow> st_fund st' = st_fund st"
  "remove_agent_mutate now actor name caller st = Inr (ra, st') \<Longrightarrow> st_fund st' = st_fund st"
  "claim_topic_mutate now agent topic st = Inr (rc, st') \<Longrightarrow> st_fund st' = st_fund st"
  "release_claim_mutate now agent topic st = Inr (rn, st') \<Longrightarrow> st_fund st' = st_fund st"
  "draft_proposal_mutate base now agent x st = Inr (rd, st') \<Longrightarrow> st_fund st' = st_fund st"
  "record_vote_mutate now pid voter side kind note st = Inr (rp, st') \<Longrightarrow> st_fund st' = st_fund st"
  subgoal using request_membership_effect by fastforce
  subgoal using approve_member_effect by fastforce
  subgoal by (auto simp: request_agent_mutate_def Let_def split: option.splits if_splits)
  subgoal by (auto simp: approve_agent_mutate_def Let_def split: option.splits if_splits)
  subgoal using remove_agent_effect(5) by fastforce
  subgoal using claim_topic_effect(1) by fastforce
  subgoal using release_claim_effect by fastforce
  subgoal using draft_proposal_effect by fastforce
  subgoal by (auto simp: record_vote_mutate_def Let_def split: option.splits if_splits)
  done

lemma bindings_of_status:
  "set_proposal_status_mutate now actor pid s oc tx cm st = Inr (r, st') \<Longrightarrow>
     same_bindings (st_fund st) (st_fund st')"
  by (auto simp: set_proposal_status_mutate_def Let_def split: option.splits if_splits)

lemma bindings_of_settle:
  "record_settle_mutate now actor pid pnl bps tx st = Inr (r, st') \<Longrightarrow> same_bindings (st_fund st) (st_fund st')"
  using record_settle_effect(2) [of now actor pid pnl bps tx st r st'] by auto

end
