(* ===== verification/AppLink.thy ===== *)
theory AppLink
  imports Effects
begin

text \<open>
  \<open>fund/applink.py\<close>: the wallet a Telegram user linked in the app. The HTTP call is the argument
  \<open>fetch\<close>, which answers a URL and a bearer token; \<open>token\<close> is the stored secret. \<open>urlsplit\<close> is the
  part of \<open>urllib.parse\<close> the code uses, on ASCII text (CPython 3.11 or later); an authority with
  a bracket (an IPv6 literal) is refused here, where Python refuses only a malformed one. The
  facts show that the token only ever leaves for an allowlisted host over https.
\<close>

section \<open>URLs\<close>

definition url_clean :: "string \<Rightarrow> string" where
  "url_clean url = filter (\<lambda>c. code_of c \<notin> {9, 10, 13}) (dropWhile (\<lambda>c. code_of c \<le> 32) url)"

definition scheme_char :: "char \<Rightarrow> bool" where
  "scheme_char c \<longleftrightarrow> is_alnum c \<or> c \<in> set ''+-.''"

definition is_delim :: "char \<Rightarrow> bool" where
  "is_delim c \<longleftrightarrow> c \<in> set ''/?#''"

text \<open>The scheme, and what follows its colon.\<close>

definition split_scheme :: "string \<Rightarrow> string \<times> string" where
  "split_scheme url =
     (let s = takeWhile (\<lambda>c. c \<noteq> CHR '':'') url in
      if s \<noteq> [] \<and> CHR '':'' \<in> set url \<and> is_alpha (hd url) \<and> list_all scheme_char s
      then (lower s, drop (length s + 1) url) else ([], url))"

record url_parts =
  up_scheme :: string
  up_netloc :: string

definition urlsplit :: "string \<Rightarrow> url_parts result" where
  "urlsplit url =
     (let (scheme, rest) = split_scheme (url_clean url);
          netloc = (if take 2 rest = ''//'' then takeWhile (\<lambda>c. \<not> is_delim c) (drop 2 rest) else [])
      in if CHR ''['' \<in> set netloc \<or> CHR '']'' \<in> set netloc then Inl Value_error
         else Inr \<lparr>up_scheme = scheme, up_netloc = netloc\<rparr>)"

text \<open>Around the last \<open>@\<close>, then around the first colon.\<close>

definition user_info :: "url_parts \<Rightarrow> string" where
  "user_info u = (if CHR ''@'' \<in> set (up_netloc u)
     then rev (tl (dropWhile (\<lambda>c. c \<noteq> CHR ''@'') (rev (up_netloc u)))) else [])"

definition host_info :: "url_parts \<Rightarrow> string" where
  "host_info u = rev (takeWhile (\<lambda>c. c \<noteq> CHR ''@'') (rev (up_netloc u)))"

definition up_username :: "url_parts \<Rightarrow> string" where
  "up_username u = takeWhile (\<lambda>c. c \<noteq> CHR '':'') (user_info u)"

definition up_password :: "url_parts \<Rightarrow> string" where
  "up_password u = tl (dropWhile (\<lambda>c. c \<noteq> CHR '':'') (user_info u))"

text \<open>\<open>(parts.hostname or "").lower()\<close>\<close>

definition host_of :: "url_parts \<Rightarrow> string" where
  "host_of u = lower (takeWhile (\<lambda>c. c \<noteq> CHR '':'') (host_info u))"

definition port_of :: "url_parts \<Rightarrow> int option result" where
  "port_of u =
     (let p = tl (dropWhile (\<lambda>c. c \<noteq> CHR '':'') (host_info u)) in
      if p = [] then Inr None
      else if \<not> isdigit p then Inl Value_error
      else if digits_val p > 65535 then Inl Value_error
      else Inr (Some (digits_val p)))"

text \<open>\<open>urllib.parse.quote_plus\<close>, as \<open>urlencode\<close> uses it\<close>

definition hex_digit :: "int \<Rightarrow> char" where
  "hex_digit n = (if n < 10 then char_of (48 + n) else char_of (55 + n))"

fun quote_plus :: "string \<Rightarrow> string" where
  "quote_plus [] = []"
| "quote_plus (c # cs) =
     (if is_alnum c \<or> c \<in> set ''_.-~'' then [c]
      else if c = CHR '' '' then ''+''
      else [CHR ''%'', hex_digit (code_of c div 16), hex_digit (code_of c mod 16)]) @ quote_plus cs"

section \<open>The client\<close>

definition DEFAULT_APP_LINK_HOSTS :: "string list" where
  "DEFAULT_APP_LINK_HOSTS = [''app.sherwood.sh'']"

fun split_on :: "char \<Rightarrow> string \<Rightarrow> string \<Rightarrow> string list" where
  "split_on sep w [] = [rev w]"
| "split_on sep w (c # cs) = (if c = sep then rev w # split_on sep [] cs else split_on sep (c # w) cs)"

definition clean_hosts :: "string list \<Rightarrow> string list" where
  "clean_hosts items =
     (let hs = map (\<lambda>h. lower (strip h)) (filter (\<lambda>h. strip h \<noteq> []) items)
      in if hs = [] then DEFAULT_APP_LINK_HOSTS else hs)"

text \<open>\<open>parse_hosts\<close> of a text (the settings), of a list, and of nothing\<close>

datatype hosts_arg = Hosts_text string | Hosts_list "string list" | No_hosts

fun parse_hosts :: "hosts_arg \<Rightarrow> string list" where
  "parse_hosts (Hosts_text raw) = clean_hosts (split_on (CHR '','') [] raw)"
| "parse_hosts (Hosts_list items) = clean_hosts items"
| "parse_hosts No_hosts = clean_hosts []"

record app_client =
  ac_base_url :: string
  ac_allowed_hosts :: "string list"

definition new_app_client :: "string \<Rightarrow> hosts_arg \<Rightarrow> app_client" where
  "new_app_client base allowed = \<lparr>ac_base_url = rstrip_of (CHR ''/'') base, ac_allowed_hosts = parse_hosts allowed\<rparr>"

definition base_ok :: "app_client \<Rightarrow> bool result" where
  "base_ok c = (case urlsplit (ac_base_url c) of
     Inl e \<Rightarrow> Inr False
   | Inr u \<Rightarrow>
       if up_scheme u = ''https'' \<and> host_of u \<in> set (ac_allowed_hosts c) \<and> up_username u = [] \<and> up_password u = []
       then and_then (port_of u) (\<lambda>p. Inr (p = None \<or> p = Some 443))
       else Inr False)"

text \<open>An optional minus signs, then digits: what the code takes for a Telegram id.\<close>

definition is_tg_id :: "string \<Rightarrow> bool" where
  "is_tg_id s = isdigit (lstrip_of (CHR ''-'') s)"

text \<open>The request a lookup makes: its URL and its bearer token, if it makes one.\<close>

definition lookup_request ::
  "app_client \<Rightarrow> string option \<Rightarrow> string \<Rightarrow> string \<Rightarrow> (string \<times> string) option result" where
  "lookup_request c token vault telegram_id =
     (let tg = strip telegram_id in
      if ac_base_url c = [] \<or> \<not> address_re vault \<or> \<not> is_tg_id tg then Inr None
      else and_then (base_ok c) (\<lambda>good.
        if \<not> good then Inr None
        else (case token of
            None \<Rightarrow> Inr None
          | Some t \<Rightarrow>
              if t = [] then Inr None
              else Inr (Some (ac_base_url c @ ''/api/tg/link?fund='' @ quote_plus (lower vault)
                     @ ''&tg='' @ quote_plus tg, t)))))"

text \<open>\<open>_address_in\<close>: at most three levels of \<open>data\<close> or \<open>linked\<close>.\<close>

fun address_steps :: "nat \<Rightarrow> json \<Rightarrow> string option" where
  "address_steps 0 node = None"
| "address_steps (Suc n) node = (case node of
     JObj o' \<Rightarrow>
       (let next_node = (case get_or o' ''data'' JNull of JObj d \<Rightarrow> JObj d | _ \<Rightarrow> get_or o' ''linked'' JNull) in
        case get_or o' ''address'' JNull of
          JStr a \<Rightarrow> if address_re a then Some a else address_steps n next_node
        | _ \<Rightarrow> address_steps n next_node)
   | _ \<Rightarrow> None)"

definition address_in :: "json \<Rightarrow> string option" where
  "address_in payload = address_steps 3 payload"

type_synonym link_fetch = "string \<Rightarrow> string \<Rightarrow> (int \<times> json) result"

definition lookup :: "app_client \<Rightarrow> string option \<Rightarrow> link_fetch \<Rightarrow> string \<Rightarrow> string \<Rightarrow> string option result" where
  "lookup c token fetch vault telegram_id =
     and_then (lookup_request c token vault telegram_id) (\<lambda>req. case req of
       None \<Rightarrow> Inr None
     | Some (url, bearer) \<Rightarrow> and_then (fetch url bearer) (\<lambda>(status, payload).
         if status \<noteq> 200 then Inr None else Inr (address_in payload)))"

definition linked_address :: "app_client \<Rightarrow> string option \<Rightarrow> link_fetch \<Rightarrow> string \<Rightarrow> string \<Rightarrow> string option" where
  "linked_address c token fetch vault telegram_id =
     (case lookup c token fetch vault telegram_id of Inl e \<Rightarrow> None | Inr a \<Rightarrow> a)"

section \<open>Filling in a member's wallet\<close>

text \<open>\<open>client\<close> is \<open>None\<close> when the runtime has no app client; the value is the address on record.\<close>

type_synonym link = "string \<Rightarrow> string \<Rightarrow> string option"

definition fill_address ::
  "link option \<Rightarrow> dir \<Rightarrow> time \<Rightarrow> time \<Rightarrow> string \<Rightarrow> string \<Rightarrow> fund_state \<Rightarrow> string effect" where
  "fill_address client d now wt fund who st =
     (if \<not> is_tg_id who then pure_eff d (Inr [])
      else (case (case client of None \<Rightarrow> None | Some link \<Rightarrow> link (f_vault (st_fund st)) who) of
          None \<Rightarrow> pure_eff d (Inr [])
        | Some a \<Rightarrow> if a = [] then pure_eff d (Inr [])
            else then_do (did d (request_membership d now wt fund who a [])) (\<lambda>d' m'. pure_eff d' (Inr a))))"

definition ensure_member_address ::
  "link option \<Rightarrow> dir \<Rightarrow> time \<Rightarrow> time \<Rightarrow> string \<Rightarrow> string \<Rightarrow> string effect" where
  "ensure_member_address client d now wt fund who =
     need d (store_load d fund) (\<lambda>st.
       case member_of st who of
         Some m \<Rightarrow> if m_address m \<noteq> [] then pure_eff d (Inr (m_address m))
           else fill_address client d now wt fund who st
       | None \<Rightarrow> fill_address client d now wt fund who st)"

section \<open>Share images\<close>

text \<open>\<open>Some True\<close> servable, \<open>None\<close> not yet, \<open>Some False\<close> never\<close>

definition image_ready :: "hosts_arg \<Rightarrow> (string \<Rightarrow> int result) \<Rightarrow> string \<Rightarrow> bool option" where
  "image_ready allowed get_status url =
     (case urlsplit url of
        Inl e \<Rightarrow> Some False
      | Inr u \<Rightarrow>
          if up_scheme u \<noteq> ''https'' \<or> host_of u \<notin> set (parse_hosts allowed) then Some False
          else (case get_status url of
              Inl e \<Rightarrow> Some False
            | Inr status \<Rightarrow> if status = 200 then Some True else if status = 503 then None else Some False))"

section \<open>Facts\<close>

text \<open>
  Appending to a URL whose host was checked does not move it: what is added starts with a
  delimiter or comes after one.
\<close>

lemma takeWhile_append_stop:
  "(\<exists>x \<in> set xs. \<not> P x) \<Longrightarrow> takeWhile P (xs @ ys) = takeWhile P xs"
  by (induction xs) auto

lemma dropWhile_append_stop:
  "(\<exists>x \<in> set xs. \<not> P x) \<Longrightarrow> dropWhile P (xs @ ys) = dropWhile P xs @ ys"
  by (induction xs) auto

lemma takeWhile_shorter: "x \<in> set xs \<Longrightarrow> \<not> P x \<Longrightarrow> length (takeWhile P xs) < length xs"
  by (induction xs) auto

lemma split_scheme_append:
  assumes "fst (split_scheme s) \<noteq> []"
  shows "split_scheme (s @ t) = (fst (split_scheme s), snd (split_scheme s) @ t)"
proof -
  let ?p = "takeWhile (\<lambda>c. c \<noteq> CHR '':'') s"
  have ok: "?p \<noteq> []" "CHR '':'' \<in> set s" "is_alpha (hd s)" "list_all scheme_char ?p"
    using assms by (auto simp: split_scheme_def Let_def split: if_splits)
  have w: "takeWhile (\<lambda>c. c \<noteq> CHR '':'') (s @ t) = ?p" using ok(2) by (intro takeWhile_append_stop) auto
  have "s \<noteq> []" using ok(2) by auto
  moreover have "length ?p < length s"
    using ok(2) by (rule takeWhile_shorter) simp
  ultimately show ?thesis using ok w by (simp add: split_scheme_def Let_def)
qed

lemma urlsplit_append:
  assumes u: "urlsplit s = Inr u" and https: "up_scheme u \<noteq> []" "up_netloc u \<noteq> []"
  shows "urlsplit (s @ CHR ''/'' # t) = Inr u"
proof -
  let ?f = "filter (\<lambda>c. code_of c \<notin> {9, 10, 13})"
  obtain sc0 r where sr: "split_scheme (url_clean s) = (sc0, r)" by (cases "split_scheme (url_clean s)")
  define nl0 where "nl0 = (if take 2 r = ''//'' then takeWhile (\<lambda>c. \<not> is_delim c) (drop 2 r) else [])"
  have e: "(if CHR ''['' \<in> set nl0 \<or> CHR '']'' \<in> set nl0 then Inl Value_error
      else Inr \<lparr>up_scheme = sc0, up_netloc = nl0\<rparr>) = (Inr u :: url_parts result)"
    using u unfolding urlsplit_def sr nl0_def by (simp only: Let_def prod.case)
  have sc: "fst (split_scheme (url_clean s)) = up_scheme u" and nl: "up_netloc u = nl0"
    and br: "CHR ''['' \<notin> set (up_netloc u)" "CHR '']'' \<notin> set (up_netloc u)"
    using e sr by (auto split: if_splits)
  have r2: "take 2 r = ''//''" using nl https(2) unfolding nl0_def by (rule_tac ccontr) simp
  then have nl1: "up_netloc u = takeWhile (\<lambda>c. \<not> is_delim c) (drop 2 r)" using nl by (simp add: nl0_def)
  have "length (take 2 r) = 2" by (simp only: r2) simp
  then have len: "2 \<le> length r" by simp
  have "\<exists>x \<in> set s. \<not> code_of x \<le> 32"
  proof (rule ccontr)
    assume "\<not> ?thesis"
    then have "dropWhile (\<lambda>c. code_of c \<le> 32) s = []" by (simp add: dropWhile_eq_Nil_conv)
    then have "url_clean s = []" by (simp only: url_clean_def filter.simps)
    with sc https(1) show False by (simp add: split_scheme_def)
  qed
  then have clean: "url_clean (s @ CHR ''/'' # t) = url_clean s @ CHR ''/'' # ?f t"
    by (simp add: url_clean_def dropWhile_append_stop)
  have split: "split_scheme (url_clean (s @ CHR ''/'' # t)) = (up_scheme u, r @ CHR ''/'' # ?f t)"
    unfolding clean using split_scheme_append [of "url_clean s"] sc https(1) sr by simp
  have "takeWhile (\<lambda>c. \<not> is_delim c) (drop 2 (r @ CHR ''/'' # ?f t)) = up_netloc u"
    using len nl1 by (simp add: takeWhile_tail is_delim_def)
  moreover have "take 2 (r @ CHR ''/'' # ?f t) = ''//''" using len r2 by simp
  ultimately show ?thesis
    using split br unfolding urlsplit_def Let_def by (simp only: prod.case if_True simp_thms if_False) simp
qed

text \<open>A request goes to an allowlisted host, over https, on the default port, without credentials.\<close>

definition trusted :: "string list \<Rightarrow> string \<Rightarrow> bool" where
  "trusted allowed url = (case urlsplit url of
     Inl e \<Rightarrow> False
   | Inr u \<Rightarrow> up_scheme u = ''https'' \<and> host_of u \<in> set allowed \<and> up_username u = [] \<and> up_password u = []
       \<and> (port_of u = Inr None \<or> port_of u = Inr (Some 443)))"

lemma base_ok_trusted: "base_ok c = Inr True \<longleftrightarrow> trusted (ac_allowed_hosts c) (ac_base_url c)"
  by (auto simp: base_ok_def trusted_def and_then_Inr_iff split: sum.split)

lemma hosts_not_empty: "[] \<notin> set (clean_hosts items)"
proof -
  have "[] \<notin> set (map (\<lambda>h. lower (strip h)) (filter (\<lambda>h. strip h \<noteq> []) items))"
    by (fastforce dest: sym [of "[]"])
  then show ?thesis by (simp add: clean_hosts_def Let_def DEFAULT_APP_LINK_HOSTS_def)
qed

lemma parse_hosts_not_empty: "[] \<notin> set (parse_hosts allowed)"
  by (cases allowed) (simp_all add: hosts_not_empty)

lemma trusted_append:
  assumes "trusted allowed s" "[] \<notin> set allowed"
  shows "trusted allowed (s @ CHR ''/'' # t)"
proof -
  obtain u where u: "urlsplit s = Inr u" "up_scheme u = ''https''" "host_of u \<in> set allowed"
    using assms(1) by (auto simp: trusted_def split: sum.splits)
  have "up_netloc u \<noteq> []" using u(3) assms(2) by (auto simp: host_of_def host_info_def)
  then have "urlsplit (s @ CHR ''/'' # t) = Inr u" using u urlsplit_append by simp
  then show ?thesis using assms(1) u(1) by (simp add: trusted_def)
qed

lemma lookup_request_trusted:
  assumes "lookup_request c token vault tg = Inr (Some (url, bearer))" "[] \<notin> set (ac_allowed_hosts c)"
  shows "trusted (ac_allowed_hosts c) url \<and> token = Some bearer \<and> bearer \<noteq> []"
proof -
  have ok: "base_ok c = Inr True" and t: "token = Some bearer" "bearer \<noteq> []"
    and url: "\<exists>r. url = ac_base_url c @ CHR ''/'' # r"
    using assms(1) by (auto simp: lookup_request_def Let_def and_then_Inr_iff split: if_splits option.splits)
  then show ?thesis using trusted_append [OF _ assms(2)] base_ok_trusted by auto
qed

text \<open>Any relation the membership request respects, the filling in of an address respects.\<close>

context dir_relation
begin

lemma stays_ensure:
  assumes "\<And>d d' now wt fund tg address username r es.
    request_membership d now wt fund tg address username = Inr (r, d', es) \<Longrightarrow> R d d'"
  shows "stays d (ensure_member_address client d now wt fund who)"
  unfolding ensure_member_address_def fill_address_def
  by (auto split: option.split intro!: stays_need stays_then stays_did assms)

end

end
