(* ===== verification/Tools.thy ===== *)
theory Tools
  imports AppLink
begin

text \<open>
  \<open>fund/tools.py\<close>: the tools a model may call. A handler takes the JSON arguments, resolves the
  fund, checks who started the turn where the tool acts with the host's authority, converts
  amounts to base units and calls the service; \<open>guarded\<close> turns exceptions into replies. The
  rendered texts (cards, receipts, advice) are not kept; the data of the replies is. The text of
  a number with a fraction, of a list or of an object is outside the model (a \<open>Type_error\<close>).
\<close>

section \<open>Arguments\<close>

type_synonym args = "(string \<times> json) list"

definition arg :: "args \<Rightarrow> string \<Rightarrow> json" where
  "arg a k = get_or a k JNull"

text \<open>\<open>args.get(k) not in (None, "")\<close>\<close>

definition given :: "args \<Rightarrow> string \<Rightarrow> bool" where
  "given a k \<longleftrightarrow> arg a k \<noteq> JNull \<and> arg a k \<noteq> JStr []"

text \<open>\<open>str(args.get(k) or "")\<close>, \<open>int(v)\<close> and \<open>int(args.get(k) or 0)\<close>\<close>

definition str_arg :: "args \<Rightarrow> string \<Rightarrow> string result" where
  "str_arg a k = (if truthy (arg a k) then text_of (arg a k) else Inr [])"

definition int_of_json :: "json \<Rightarrow> int result" where
  "int_of_json j = (case json_int j of None \<Rightarrow> Inl (int_error j) | Some n \<Rightarrow> Inr n)"

definition int_or_zero :: "args \<Rightarrow> string \<Rightarrow> int result" where
  "int_or_zero a k = (if truthy (arg a k) then int_of_json (arg a k) else Inr 0)"

text \<open>
  A leg of the arguments: a \<open>null\<close> amount reads as no amount, as every reader of it does.
\<close>

definition leg_item :: "json \<Rightarrow> leg result" where
  "leg_item item =
     (let item' = (case item of
          JObj o' \<Rightarrow> JObj (map (\<lambda>(k, v). (k, if k \<in> {''value'', ''cap'', ''amount''} \<and> v = JNull then JStr [] else v)) o')
        | _ \<Rightarrow> item)
      in case leg_from_dict item' of
        Some l \<Rightarrow> Inr l
      | None \<Rightarrow> Inl (if is_obj item then Type_error else Attribute_error))"

definition parse_leg :: "nat \<Rightarrow> json \<Rightarrow> leg result" where
  "parse_leg decimals item =
     and_then (leg_item item) (\<lambda>l.
     and_then (to_base_units (A_str (or_else (l_cap l) ''0'')) decimals False) (\<lambda>cap.
     and_then (parse_base_units (A_str (or_else (l_value l) ''0'')) False) (\<lambda>v.
       Inr (l\<lparr>l_cap := str_int cap, l_value := str_int v\<rparr>))))"

definition parse_legs :: "json \<Rightarrow> nat \<Rightarrow> leg list result" where
  "parse_legs raw decimals = (case raw of
     JList items \<Rightarrow> mapM (parse_leg decimals) items
   | _ \<Rightarrow> Inl Units_error)"

text \<open>An optional WOOD amount.\<close>

definition wood_arg :: "args \<Rightarrow> string \<Rightarrow> int option result" where
  "wood_arg a k =
     (if \<not> given a k then Inr None
      else and_then (text_of (arg a k)) (\<lambda>s. and_then (to_base_units (A_str s) WOOD_DECIMALS False) (\<lambda>n. Inr (Some n))))"

definition parse_draft_args :: "args \<Rightarrow> fund_state \<Rightarrow> draft_args result" where
  "parse_draft_args a st =
     (let decimals = asset_decimals (st_fund st) in
      case json_int (arg a ''max_drawdown_bps'') of
        None \<Rightarrow> Inl Units_error
      | Some drawdown \<Rightarrow>
          and_then (str_arg a ''topic'') (\<lambda>topic.
          and_then (str_arg a ''thesis'') (\<lambda>thesis.
          and_then (parse_legs (if truthy (arg a ''legs'') then arg a ''legs'' else JList []) decimals) (\<lambda>legs.
          and_then (text_of (get_or a ''max_capital'' (JStr []))) (\<lambda>cap.
          and_then (to_base_units (A_str cap) decimals False) (\<lambda>max_capital.
          and_then (int_or_zero a ''strategy_duration_seconds'') (\<lambda>duration.
          and_then (wood_arg a ''bond_quote_wood'') (\<lambda>quote.
          and_then (wood_arg a ''wood_balance'') (\<lambda>balance.
          and_then (str_arg a ''idea_by'') (\<lambda>idea_by.
          and_then (str_arg a ''strategy'') (\<lambda>strategy.
          and_then (str_arg a ''metadata_uri'') (\<lambda>uri.
            Inr \<lparr>d_topic = topic, d_thesis = thesis, d_legs = legs, d_max_capital = max_capital,
              d_max_drawdown_bps = drawdown, d_strategy_duration = duration, d_bond_quote_wood = quote,
              d_wood_balance = balance, d_idea_by = idea_by, d_strategy = strategy,
              d_metadata_uri = uri, d_quote_usd_per_wood = [], d_bond_buffer_status = [],
              d_bond_buffer_note = []\<rparr>))))))))))))"

section \<open>The process a handler runs in\<close>

record tool_ctx =
  tc_settings :: settings
  tc_caller :: caller
  tc_link :: "link option"
  tc_ticks :: ticks

text \<open>The clock of the service's \<open>i\<close>-th operation, and of its write.\<close>

abbreviation clock :: "tool_ctx \<Rightarrow> nat \<Rightarrow> time" where
  "clock ctx i \<equiv> fst (tc_ticks ctx i)"

abbreviation wtime :: "tool_ctx \<Rightarrow> nat \<Rightarrow> time" where
  "wtime ctx i \<equiv> snd (tc_ticks ctx i)"

abbreviation base_of :: "tool_ctx \<Rightarrow> string" where
  "base_of ctx \<equiv> service_url (tc_settings ctx)"

abbreviation my_name :: "tool_ctx \<Rightarrow> string result" where
  "my_name ctx \<equiv> runtime_agent_name (tc_settings ctx)"

definition fund_arg :: "tool_ctx \<Rightarrow> dir \<Rightarrow> args \<Rightarrow> string result" where
  "fund_arg ctx d a = and_then (str_arg a ''fund'') (\<lambda>f. fund_for d (tc_settings ctx) f [])"

text \<open>The state an authority check reads: none when the fund does not exist yet.\<close>

definition gate_state :: "dir \<Rightarrow> string \<Rightarrow> fund_state option result" where
  "gate_state d fund =
     (if fund = [] then Inr None
      else (case store_load d fund of
          Inr st \<Rightarrow> Inr (Some st)
        | Inl e \<Rightarrow> if e = Fund_not_found then Inr None else Inl e))"

definition host_gate :: "tool_ctx \<Rightarrow> dir \<Rightarrow> string \<Rightarrow> string option result" where
  "host_gate ctx d fund =
     and_then (gate_state d fund) (\<lambda>st.
       require (check_caller st (tc_caller ctx) (se_owner_telegram_id (tc_settings ctx)))
         (Inr (telegram_user (tc_caller ctx))))"

section \<open>Replies\<close>

record status_reply =
  sr_fund :: string
  sr_you :: "(string \<times> string \<times> bool) option"
  sr_open :: "proposal list"
  sr_claims :: "claim list"
  sr_agents :: "agent list"
  sr_approved :: nat
  sr_waiting :: nat
  sr_cooldown_until :: "time option"
  sr_pitch_claims :: "claim list"

datatype setup_note = Asset_note | Fee_note

record setup_reply =
  su_created :: bool
  su_fund :: fund
  su_notes :: "setup_note list"
  su_prepare :: "json option"

datatype tool_reply = R_status status_reply | R_setup setup_reply | R_claim claim | R_released nat
  | R_draft draft_result | R_proposal proposal | R_settle receipt | R_member member json
  | R_agent agent "json option" | R_removed agent

text \<open>\<open>{"route", "url", "body"}\<close>\<close>

definition prepare_note :: "tool_ctx \<Rightarrow> string \<Rightarrow> json \<Rightarrow> json" where
  "prepare_note ctx route body = JObj [(''route'', JStr route),
     (''url'', JStr (base_of ctx @ ''/prepare/'' @ route)), (''body'', body)]"

section \<open>Reading\<close>

definition status_of :: "tool_ctx \<Rightarrow> fund_state \<Rightarrow> time \<Rightarrow> status_reply" where
  "status_of ctx st now =
     (let me = se_agent_name (tc_settings ctx); live = active_claims st now in
      \<lparr>sr_fund = f_name (st_fund st),
       sr_you = (if me = [] then None else map_option (\<lambda>a. (a_name a, a_role a, a_registered a)) (agent_of st me)),
       sr_open = open_proposals st, sr_claims = live, sr_agents = st_agents st,
       sr_approved = length (filter m_approved (st_members st)),
       sr_waiting = length (filter (\<lambda>m. \<not> m_approved m) (st_members st)),
       sr_cooldown_until = f_cooldown_until (st_fund st),
       sr_pitch_claims = filter (\<lambda>c. c_idea_by c \<noteq> []) live\<rparr>)"

definition fund_status :: "tool_ctx \<Rightarrow> dir \<Rightarrow> args \<Rightarrow> tool_reply effect" where
  "fund_status ctx d a =
     need d (fund_arg ctx d a) (\<lambda>fund.
     need d (store_load d fund) (\<lambda>st. pure_eff d (Inr (R_status (status_of ctx st (clock ctx 0))))))"

section \<open>Setting a fund up\<close>

text \<open>\<open>fields_\<close>: the bindings given, as text, in the order of the tuple.\<close>

definition setup_texts :: "args \<Rightarrow> (string \<times> string) list result" where
  "setup_texts a = mapM (\<lambda>k. and_then (text_of (arg a k)) (\<lambda>s. Inr (k, s))) (filter (given a) LOCKED_FUND_FIELDS)"

definition SETUP_INTS :: "string list" where
  "SETUP_INTS = [''max_drawdown_bps'', ''voting_period'', ''agent_fee_bps'']"

definition setup_ints :: "args \<Rightarrow> (string \<times> int) list result" where
  "setup_ints a = mapM (\<lambda>k. and_then (int_of_json (arg a k)) (\<lambda>n. Inr (k, n))) (filter (given a) SETUP_INTS)"

definition setup_cap :: "args \<Rightarrow> string option result" where
  "setup_cap a = (if given a ''max_capital''
     then and_then (text_of (arg a ''max_capital'')) (\<lambda>s. Inr (Some s)) else Inr None)"

definition bad_binding :: "(string \<times> string) list \<Rightarrow> bool" where
  "bad_binding texts \<longleftrightarrow> list_ex (\<lambda>k. case map_of texts k of None \<Rightarrow> False | Some v \<Rightarrow> \<not> is_address v)
     [''vault'', ''governor'']"

definition setup_fund_record ::
  "string \<Rightarrow> string \<Rightarrow> string \<Rightarrow> (string \<times> string) list \<Rightarrow> fund" where
  "setup_fund_record name asset host texts =
     fold set_text texts ((new_fund name)\<lparr>f_asset := or_else asset ''USDG'', f_host := host\<rparr>)"

definition host_agent_record :: "tool_ctx \<Rightarrow> string \<Rightarrow> agent" where
  "host_agent_record ctx name = new_agent name (se_agent_identity_id (tc_settings ctx))
     (se_agent_address (tc_settings ctx)) (se_owner_telegram_id (tc_settings ctx))"

text \<open>
  The fund is created, or updated when it exists. The record for a new fund is built (and its
  ceiling scaled by the asset argument, or USDG) in both cases.
\<close>

definition setup_write ::
  "tool_ctx \<Rightarrow> dir \<Rightarrow> string \<Rightarrow> string \<Rightarrow> (string \<times> string) list \<Rightarrow> string \<Rightarrow> (string \<times> int) list
     \<Rightarrow> string option \<Rightarrow> string \<Rightarrow> (bool \<times> fund_state) effect" where
  "setup_write ctx d name agent texts asset ints cap_raw host =
     (let fresh = setup_fund_record name asset host texts in
      case and_then (capital_limit cap_raw fresh) (\<lambda>cap.
             create_fund d (clock ctx 0) (wtime ctx 0) (set_limits ints cap fresh) (host_agent_record ctx agent)) of
        Inr (st, d') \<Rightarrow> (d', [], Inr (True, st))
      | Inl e \<Rightarrow>
          if e = Fund_exists
          then (case store_update d (wtime ctx 1) name (setup_mutate agent asset texts ints cap_raw host) of
              Inl e' \<Rightarrow> (d, [], Inl e')
            | Inr (st, d') \<Rightarrow> (d', [], Inr (False, st)))
          else (d, [], Inl e))"

definition TOKEN_ADDRESSES_4663 :: "(string \<times> string) list" where
  "TOKEN_ADDRESSES_4663 =
     [(''USDG'', ''0x5fc5360D0400a0Fd4f2af552ADD042D716F1d168''),
      (''WETH'', ''0x0Bd7D308f8E1639FAb988df18A8011f41EAcAD73''),
      (''WOOD'', ''0xF8BC08092C06dB6148114DCf82AF881F1085f92b'')]"

definition create_body :: "tool_ctx \<Rightarrow> args \<Rightarrow> fund \<Rightarrow> json result" where
  "create_body ctx a f =
     (case map_of TOKEN_ADDRESSES_4663 (f_asset f) of
        None \<Rightarrow> Inl Key_error
      | Some token \<Rightarrow>
          and_then (str_arg a ''metadata_uri'') (\<lambda>uri.
            Inr (prepare_note ctx ''create-fund'' (JObj
              [(''chainId'', JInt (f_chain_id f)),
               (''creator'', JStr (or_else (f_host f) ''<host wallet>'')),
               (''asset'', JStr token),
               (''creatorAgentId'', JStr (or_else (se_agent_identity_id (tc_settings ctx)) ''<host ERC-8004 id>'')),
               (''metadataURI'', JStr (or_else uri ''<ipfs:// fund metadata>'')),
               (''name'', JStr (f_name f)),
               (''symbol'', JStr (filter (\<lambda>c. c \<noteq> CHR ''-'') (upper (take 8 (f_name f))))),
               (''subdomain'', JStr (f_name f)),
               (''openDeposits'', JBool False)]))))"

definition setup_answer :: "tool_ctx \<Rightarrow> args \<Rightarrow> bool \<Rightarrow> fund_state \<Rightarrow> setup_reply result" where
  "setup_answer ctx a created st =
     and_then (if f_vault (st_fund st) = [] then and_then (create_body ctx a (st_fund st)) (\<lambda>b. Inr (Some b)) else Inr None)
       (\<lambda>prep. Inr \<lparr>su_created = created, su_fund = st_fund st,
          su_notes = (if check_proposable_asset st = Allow then [] else [Asset_note])
            @ (if f_agent_fee_bps (st_fund st) = None then [Fee_note] else []),
          su_prepare = prep\<rparr>)"

definition fund_setup :: "tool_ctx \<Rightarrow> dir \<Rightarrow> args \<Rightarrow> tool_reply effect" where
  "fund_setup ctx d a =
     need d (fund_arg ctx d a) (\<lambda>name.
     need d (host_gate ctx d name) (\<lambda>_.
     need d (my_name ctx) (\<lambda>agent.
     need d (setup_texts a) (\<lambda>texts.
     need d (and_then (str_arg a ''asset'') (\<lambda>s.
         if s \<noteq> [] \<and> upper s \<notin> {''USDG'', ''WETH''} then Inl Units_error else Inr (upper s))) (\<lambda>asset.
     need d (setup_ints a) (\<lambda>ints.
     needs d (case map_of ints ''agent_fee_bps'' of None \<Rightarrow> Allow | Some n \<Rightarrow> check_agent_fee (Some n)) (
     need d (setup_cap a) (\<lambda>cap_raw.
     need d (if truthy (arg a ''host_address'') then text_of (arg a ''host_address'')
             else Inr (se_agent_address (tc_settings ctx))) (\<lambda>host.
       if bad_binding texts then pure_eff d (Inl Units_error)
       else then_do (setup_write ctx d name agent texts asset ints cap_raw host) (\<lambda>d' (created, st).
         need d' (setup_answer ctx a created st) (\<lambda>r. pure_eff d' (Inr (R_setup r)))))))))))))"

section \<open>Claims and drafts\<close>

definition fund_claim_topic :: "tool_ctx \<Rightarrow> dir \<Rightarrow> args \<Rightarrow> tool_reply effect" where
  "fund_claim_topic ctx d a =
     need d (fund_arg ctx d a) (\<lambda>fund.
     need d (my_name ctx) (\<lambda>agent.
     need d (str_arg a ''topic'') (\<lambda>topic.
       then_do (did d (claim_topic d (clock ctx 0) (wtime ctx 0) fund agent topic))
         (\<lambda>d' c. pure_eff d' (Inr (R_claim c))))))"

text \<open>\<open>args.get("topic") or None\<close>: a topic that is not a text has no \<open>lower\<close>.\<close>

definition release_topic :: "args \<Rightarrow> string result" where
  "release_topic a = (if \<not> truthy (arg a ''topic'') then Inr []
     else (case arg a ''topic'' of JStr s \<Rightarrow> Inr s | _ \<Rightarrow> Inl Attribute_error))"

definition fund_release_claim :: "tool_ctx \<Rightarrow> dir \<Rightarrow> args \<Rightarrow> tool_reply effect" where
  "fund_release_claim ctx d a =
     need d (fund_arg ctx d a) (\<lambda>fund.
     need d (my_name ctx) (\<lambda>agent.
     need d (release_topic a) (\<lambda>topic.
       then_do (did d (release_claim d (clock ctx 0) (wtime ctx 0) fund agent topic))
         (\<lambda>d' n. pure_eff d' (Inr (R_released n))))))"

definition fund_draft_proposal :: "tool_ctx \<Rightarrow> dir \<Rightarrow> args \<Rightarrow> tool_reply effect" where
  "fund_draft_proposal ctx d a =
     need d (fund_arg ctx d a) (\<lambda>fund.
     need d (store_load d fund) (\<lambda>st.
     need d (parse_draft_args a st) (\<lambda>x.
     need d (my_name ctx) (\<lambda>agent.
     need d (str_arg a ''quote_usd_per_wood'') (\<lambda>quote.
     need d (str_arg a ''bond_buffer_status'') (\<lambda>status.
     need d (str_arg a ''bond_buffer_note'') (\<lambda>note.
       then_do (did d (draft_proposal (base_of ctx) d (clock ctx 0) (wtime ctx 0) fund agent
           (x\<lparr>d_quote_usd_per_wood := quote, d_bond_buffer_status := status, d_bond_buffer_note := note\<rparr>)))
         (\<lambda>d' r. pure_eff d' (Inr (R_draft r))))))))))"

section \<open>The life of a proposal\<close>

definition fund_set_proposal_status :: "tool_ctx \<Rightarrow> dir \<Rightarrow> args \<Rightarrow> tool_reply effect" where
  "fund_set_proposal_status ctx d a =
     need d (fund_arg ctx d a) (\<lambda>fund.
     need d (host_gate ctx d fund) (\<lambda>_.
     need d (my_name ctx) (\<lambda>agent.
     need d (str_arg a ''proposal_id'') (\<lambda>pid.
     need d (str_arg a ''status'') (\<lambda>status.
     need d (if given a ''onchain_id'' then and_then (int_of_json (arg a ''onchain_id'')) (\<lambda>n. Inr (Some n))
             else Inr None) (\<lambda>onchain.
     need d (str_arg a ''tx_hash'') (\<lambda>tx.
     need d (str_arg a ''card_message_id'') (\<lambda>card_id.
       then_do (did d (set_proposal_status d (clock ctx 0) (wtime ctx 0) fund agent pid status onchain tx card_id))
         (\<lambda>d' (p, old). pure_eff d' (Inr (R_proposal p)))))))))))"

text \<open>Who votes: a member named by the arguments, or this agent.\<close>

definition vote_kind :: "args \<Rightarrow> string result" where
  "vote_kind a = (if truthy (arg a ''voter_kind'') then text_of (arg a ''voter_kind'')
     else Inr (if truthy (arg a ''voter'') then ''member'' else ''agent''))"

definition vote_caller_check :: "tool_ctx \<Rightarrow> dir \<Rightarrow> string \<Rightarrow> string \<Rightarrow> string \<Rightarrow> unit result" where
  "vote_caller_check ctx d fund kind voter =
     (if kind \<noteq> ''member'' then Inr ()
      else and_then (store_load d fund) (\<lambda>st.
        require (check_member_vote_caller (Some st) (tc_caller ctx) voter (se_owner_telegram_id (tc_settings ctx))) (Inr ())))"

definition fund_record_vote :: "tool_ctx \<Rightarrow> dir \<Rightarrow> args \<Rightarrow> tool_reply effect" where
  "fund_record_vote ctx d a =
     need d (vote_kind a) (\<lambda>kind.
     need d (if kind = ''member'' then str_arg a ''voter'' else my_name ctx) (\<lambda>voter.
     need d (fund_arg ctx d a) (\<lambda>fund.
     need d (vote_caller_check ctx d fund kind voter) (\<lambda>_.
     need d (str_arg a ''proposal_id'') (\<lambda>pid.
     need d (str_arg a ''side'') (\<lambda>side.
     need d (str_arg a ''note'') (\<lambda>note.
       then_do (did d (record_vote d (clock ctx 0) (wtime ctx 0) fund pid voter side kind note))
         (\<lambda>d' p. pure_eff d' (Inr (R_proposal p))))))))))"

definition fund_record_settle :: "tool_ctx \<Rightarrow> dir \<Rightarrow> args \<Rightarrow> tool_reply effect" where
  "fund_record_settle ctx d a =
     need d (fund_arg ctx d a) (\<lambda>fund.
     need d (host_gate ctx d fund) (\<lambda>_.
     need d (store_load d fund) (\<lambda>st.
     need d (and_then (text_of (get_or a ''pnl'' (JStr [])))
         (\<lambda>s. to_base_units (A_str s) (asset_decimals (st_fund st)) True)) (\<lambda>pnl.
     need d (my_name ctx) (\<lambda>agent.
     need d (str_arg a ''proposal_id'') (\<lambda>pid.
     need d (int_or_zero a ''pnl_bps'') (\<lambda>bps.
     need d (str_arg a ''tx_hash'') (\<lambda>tx.
       then_do (did d (record_settle d (clock ctx 0) (wtime ctx 0) fund agent pid pnl bps tx))
         (\<lambda>d' (r, p, old). need d' (store_load d' fund) (\<lambda>_. pure_eff d' (Inr (R_settle r)))))))))))) "

section \<open>Members and agents\<close>

definition fund_approve_member :: "tool_ctx \<Rightarrow> dir \<Rightarrow> args \<Rightarrow> tool_reply effect" where
  "fund_approve_member ctx d a =
     need d (fund_arg ctx d a) (\<lambda>fund.
     need d (host_gate ctx d fund) (\<lambda>caller_tg.
     need d (store_load d fund) (\<lambda>st.
     needs d (check_caller_is_host st caller_tg) (
     need d (my_name ctx) (\<lambda>agent.
     needs d (check_host_action st agent) (
     need d (str_arg a ''member'') (\<lambda>who.
     need d (str_arg a ''address'') (\<lambda>address.
       then_do (if truthy (arg a ''address'') then pure_eff d (Inr [])
                else ensure_member_address (tc_link ctx) d (clock ctx 0) (wtime ctx 0) fund who) (\<lambda>d1 _.
       need d1 (str_arg a ''tx_hash'') (\<lambda>tx.
       then_do (did d1 (approve_member d1 (clock ctx 1) (wtime ctx 1) fund agent who address tx caller_tg))
         (\<lambda>d' (m, body). pure_eff d' (Inr (R_member m (prepare_note ctx ''approve-depositor'' body))))))))))))))"

definition fund_approve_agent :: "tool_ctx \<Rightarrow> dir \<Rightarrow> args \<Rightarrow> tool_reply effect" where
  "fund_approve_agent ctx d a =
     need d (fund_arg ctx d a) (\<lambda>fund.
     need d (host_gate ctx d fund) (\<lambda>caller_tg.
     need d (my_name ctx) (\<lambda>agent.
     need d (str_arg a ''agent'') (\<lambda>name.
     need d (str_arg a ''tx_hash'') (\<lambda>tx.
       then_do (did d (approve_agent d (clock ctx 0) (wtime ctx 0) fund agent name tx caller_tg))
         (\<lambda>d' (g, body). pure_eff d' (Inr (R_agent g
            (if a_registered g then None else Some (prepare_note ctx ''register-agent'' body))))))))))"

definition fund_remove_agent :: "tool_ctx \<Rightarrow> dir \<Rightarrow> args \<Rightarrow> tool_reply effect" where
  "fund_remove_agent ctx d a =
     need d (fund_arg ctx d a) (\<lambda>fund.
     need d (host_gate ctx d fund) (\<lambda>caller_tg.
     need d (my_name ctx) (\<lambda>agent.
     need d (str_arg a ''agent'') (\<lambda>name.
       then_do (did d (remove_agent d (clock ctx 0) (wtime ctx 0) fund agent name caller_tg))
         (\<lambda>d' g. pure_eff d' (Inr (R_removed g)))))))"

section \<open>Dispatch and replies\<close>

definition TOOLS :: "(string \<times> (tool_ctx \<Rightarrow> dir \<Rightarrow> args \<Rightarrow> tool_reply effect)) list" where
  "TOOLS = [(''fund_status'', fund_status), (''fund_setup'', fund_setup),
     (''fund_claim_topic'', fund_claim_topic), (''fund_release_claim'', fund_release_claim),
     (''fund_draft_proposal'', fund_draft_proposal), (''fund_set_proposal_status'', fund_set_proposal_status),
     (''fund_record_vote'', fund_record_vote), (''fund_record_settle'', fund_record_settle),
     (''fund_approve_member'', fund_approve_member), (''fund_approve_agent'', fund_approve_agent),
     (''fund_remove_agent'', fund_remove_agent)]"

text \<open>What \<open>_guarded\<close> catches; anything else leaves the handler.\<close>

definition caught :: "exn \<Rightarrow> bool" where
  "caught e \<longleftrightarrow> is_store_error e \<or> e \<in> {Service_error, Units_error, Tx_builder_error, Value_error, Type_error}"

datatype answer = Answer_ok tool_reply | Answer_blocked rule_code | Answer_error exn | Answer_raise exn

definition guarded :: "tool_reply result \<Rightarrow> answer" where
  "guarded r = (case r of
     Inr x \<Rightarrow> Answer_ok x
   | Inl e \<Rightarrow> (case e of Rule_violation c \<Rightarrow> Answer_blocked c
       | _ \<Rightarrow> if caught e then Answer_error e else Answer_raise e))"

definition call_tool :: "tool_ctx \<Rightarrow> string \<Rightarrow> dir \<Rightarrow> args \<Rightarrow> (dir \<times> fund_event list \<times> answer) option" where
  "call_tool ctx name d a = (case map_of TOOLS name of
     None \<Rightarrow> None
   | Some f \<Rightarrow> (case f ctx d a of (d', es, r) \<Rightarrow> Some (d', es, guarded r)))"

end
