(* ===== verification/ToolFacts.thy ===== *)
theory ToolFacts
  imports Tools
begin

text \<open>
  What holds of every tool. \<open>call_relation\<close> collects what a relation between directories must
  respect for the tools to respect it: the single calls of the service. It is interpreted twice:
  the tools only ever reach directories the service reaches, and no tool changes a binding of a
  fund. The last section shows who may use the host's tools and whose votes a turn records.
\<close>

section \<open>From calls of the service to tools\<close>

locale call_relation = dir_relation +
  assumes of_create: "\<not> a_removed h \<Longrightarrow> create_fund d now wt f h = Inr (st, d') \<Longrightarrow> R d d'"
    and of_setup: "distinct (map fst texts) \<Longrightarrow>
      store_update d wt fund (setup_mutate actor asset texts ints cap host) = Inr (st', d') \<Longrightarrow> R d d'"
    and of_request_membership: "request_membership d now wt fund tg address username = Inr (m, d', es) \<Longrightarrow> R d d'"
    and of_approve_member: "approve_member d now wt fund actor who address tx caller = Inr (mb, d', es) \<Longrightarrow> R d d'"
    and of_request_agent: "request_agent d now wt fund g = Inr (ra, d', es) \<Longrightarrow> R d d'"
    and of_approve_agent: "approve_agent d now wt fund actor name tx caller = Inr (ab, d', es) \<Longrightarrow> R d d'"
    and of_remove_agent: "remove_agent d now wt fund actor name caller = Inr (a, d', es) \<Longrightarrow> R d d'"
    and of_claim_topic: "claim_topic d now wt fund agent topic = Inr (c, d', es) \<Longrightarrow> R d d'"
    and of_release_claim: "release_claim d now wt fund agent topic = Inr (n, d', es) \<Longrightarrow> R d d'"
    and of_draft_proposal: "draft_proposal base d now wt fund agent x = Inr (dr, d', es) \<Longrightarrow> R d d'"
    and of_set_status: "set_proposal_status d now wt fund actor pid s oc tx cm = Inr (ps, d', es) \<Longrightarrow> R d d'"
    and of_record_vote: "record_vote d now wt fund pid voter side kind note = Inr (p, d', es) \<Longrightarrow> R d d'"
    and of_record_settle: "record_settle d now wt fund actor pid pnl bps tx = Inr (rs, d', es) \<Longrightarrow> R d d'"
begin

lemmas of_calls = of_request_membership of_approve_member of_request_agent of_approve_agent of_remove_agent
  of_claim_topic of_release_claim of_draft_proposal of_set_status of_record_vote of_record_settle

lemmas stays_rules = stays_need stays_needs stays_then stays_did stays_raise stays_pure stays_ensure

lemma stays_ensure_member: "stays d (ensure_member_address client d now wt fund who)"
  by (rule stays_ensure) (rule of_request_membership)

lemma stays_setup_write:
  assumes "distinct (map fst texts)"
  shows "stays d (setup_write ctx d name agent texts asset ints cap host)"
proof -
  let ?c = "and_then (capital_limit cap (setup_fund_record name asset host texts)) (\<lambda>c.
      create_fund d (clock ctx 0) (wtime ctx 0) (set_limits ints c (setup_fund_record name asset host texts))
        (host_agent_record ctx agent))"
  have here: "\<not> a_removed (host_agent_record ctx agent)"
    by (simp add: host_agent_record_def new_agent_def)
  have c: "R d d'" if "?c = Inr (st, d')" for st d'
    using that of_create [OF here] by (auto simp: and_then_Inr_iff)
  have u: "R d d'" if "store_update d (wtime ctx 1) name (setup_mutate agent asset texts ints cap host) = Inr (st, d')"
    for st d' using assms that by (rule of_setup)
  show ?thesis
    using c u by (auto simp: setup_write_def stays_def same Let_def split: sum.split prod.split)
qed

lemma stays_fund_setup: "stays d (fund_setup ctx d a)"
proof -
  have "distinct (map fst texts)" if "setup_texts a = Inr texts" for texts
  proof -
    have "map fst texts = filter (given a) LOCKED_FUND_FIELDS"
      using that unfolding setup_texts_def mapM_Inr_iff
      by (induction rule: list_all2_induct) (auto simp: and_then_Inr_iff)
    then show ?thesis by (simp add: LOCKED_FUND_FIELDS_def)
  qed
  then show ?thesis
    unfolding fund_setup_def
    by (auto split: prod.split intro!: stays_need stays_needs stays_then stays_setup_write)
qed

lemma stays_tool:
  assumes "(name, f) \<in> set TOOLS"
  shows "stays d (f ctx d a)"
proof -
  have "stays d (fund_status ctx d a)" "stays d (fund_claim_topic ctx d a)" "stays d (fund_release_claim ctx d a)"
    "stays d (fund_draft_proposal ctx d a)" "stays d (fund_set_proposal_status ctx d a)"
    "stays d (fund_record_vote ctx d a)" "stays d (fund_record_settle ctx d a)"
    "stays d (fund_approve_member ctx d a)" "stays d (fund_approve_agent ctx d a)"
    "stays d (fund_remove_agent ctx d a)"
    unfolding fund_status_def fund_claim_topic_def fund_release_claim_def fund_draft_proposal_def
      fund_set_proposal_status_def fund_record_vote_def fund_record_settle_def fund_approve_member_def
      fund_approve_agent_def fund_remove_agent_def
    by (auto split: prod.split if_split intro!: stays_need stays_needs stays_then stays_did stays_ensure_member
        intro: of_calls)
  then show ?thesis using assms stays_fund_setup by (auto simp: TOOLS_def)
qed

lemma stays_call: "call_tool ctx name d a = Some (d', es, r) \<Longrightarrow> R d d'"
  using stays_tool [of name _ d ctx a]
  by (fastforce simp: call_tool_def stays_def dest!: map_of_SomeD split: option.splits prod.splits)

end

section \<open>The two relations\<close>

interpretation serving: call_relation serves
  by unfold_locales (auto intro: serves_call service_call.intros)

lemma setup_is_op: "is_op (setup_mutate actor asset texts ints cap h)"
  by (rule is_op_mutations(17))

lemma bindings_by_write:
  assumes "write_op d wt fund m evs = Inr (r, d', es)" "is_op m"
    and "\<And>st q st'. m st = Inr (q, st') \<Longrightarrow> st_fund st' = st_fund st"
  shows "bindings_kept d d'"
  using assms(1,2) by (rule bindings_write) (simp add: assms(3))

interpretation binding: call_relation bindings_kept
proof unfold_locales
  fix d now wt f h st d'
  assume "create_fund d now wt f h = Inr (st, d')"
  then show "bindings_kept d d'" by (rule bindings_create)
next
  fix texts d wt fund actor asset ints cap host st' d'
  assume t: "distinct (map fst (texts :: (string \<times> string) list))"
    and u: "store_update d wt fund (setup_mutate actor asset texts ints cap host) = Inr (st', d')"
  from u setup_is_op show "bindings_kept d d'"
    by (rule bindings_update) (auto simp: same_bindings_def intro: setup_keeps_bindings [OF _ t])
qed (auto simp: service_ops Let_def split: if_splits intro: bindings_by_write [OF _ is_op_mutations(1)]
    bindings_by_write [OF _ is_op_mutations(2)] bindings_by_write [OF _ is_op_mutations(3)]
    bindings_by_write [OF _ is_op_mutations(4)] bindings_by_write [OF _ is_op_mutations(5)]
    bindings_by_write [OF _ is_op_mutations(6)] bindings_by_write [OF _ is_op_mutations(7)]
    bindings_by_write [OF _ is_op_mutations(9)] bindings_write [OF _ is_op_mutations(11)]
    bindings_by_write [OF _ is_op_mutations(14)] bindings_write [OF _ is_op_mutations(15)]
    fund_of_mutations bindings_of_status bindings_of_settle)

section \<open>Who may act\<close>

text \<open>A sender the host check refuses: on a chat surface, and not the host the fund names.\<close>

definition refused :: "tool_ctx \<Rightarrow> dir \<Rightarrow> string \<Rightarrow> bool" where
  "refused ctx d fund \<longleftrightarrow> (\<forall>st. gate_state d fund = Inr st \<longrightarrow>
     check_caller st (tc_caller ctx) (se_owner_telegram_id (tc_settings ctx)) \<noteq> Allow)"

lemma host_gate_refused: "refused ctx d fund \<Longrightarrow> \<exists>e. host_gate ctx d fund = Inl e"
  by (cases "gate_state d fund"; cases "host_gate ctx d fund")
    (auto simp: refused_def host_gate_def and_then_Inr_iff)

lemma HOST_TOOLS_gated:
  assumes "(name, f) \<in> set TOOLS" "name \<in> set HOST_TOOLS"
  shows "\<exists>k. \<forall>ctx d a. f ctx d a = need d (fund_arg ctx d a) (\<lambda>fund. need d (host_gate ctx d fund) (k ctx d a fund))"
  using assms unfolding TOOLS_def HOST_TOOLS_def
  by (auto simp: fun_eq_iff fund_setup_def fund_set_proposal_status_def fund_record_settle_def
      fund_approve_member_def fund_approve_agent_def fund_remove_agent_def)

text \<open>A host tool in a turn somebody else started fails and writes nothing.\<close>

lemma host_tool_refused:
  assumes t: "(name, f) \<in> set TOOLS" "name \<in> set HOST_TOOLS"
    and r: "\<And>fund. fund_arg ctx d a = Inr fund \<Longrightarrow> refused ctx d fund"
  shows "\<exists>e. f ctx d a = (d, [], Inl e)"
proof -
  obtain k where k: "f ctx d a = need d (fund_arg ctx d a) (\<lambda>fund. need d (host_gate ctx d fund) (k ctx d a fund))"
    using HOST_TOOLS_gated [OF t] by blast
  show ?thesis
  proof (cases "fund_arg ctx d a")
    case (Inl e)
    with k show ?thesis by simp
  next
    case (Inr fund)
    with host_gate_refused [OF r] k show ?thesis by fastforce
  qed
qed

end
