(* ===== verification/ServiceFacts.thy ===== *)
theory ServiceFacts
  imports ServiceSteps
begin

text \<open>
  What single operations guarantee beyond the invariants: the cool-down after a settle or a
  veto, the leaderboard's totals, exclusive topics, the record a draft leaves, and what approved
  payloads carry.
\<close>

section \<open>The cool-down\<close>

lemma cooldown_blocks:
  assumes "f_cooldown_until (st_fund st) = Some u" "now < u"
  shows "check_claim st agent topic now \<noteq> Allow" "check_draft st agent topic mc dd legs now \<noteq> Inr Allow"
proof -
  have g: "\<not> gates_open st agent now" using assms by (auto simp: gates_open_def cooldown_over_def)
  then show "check_claim st agent topic now \<noteq> Allow" using check_claim_AllowD(1) by blast
  show "check_draft st agent topic mc dd legs now \<noteq> Inr Allow"
    using g check_draft_Allow_iff [of st agent topic mc dd legs now] by (simp add: draft_allowed_def)
qed

lemma settle_cooldown:
  assumes "record_settle_mutate now actor pid pnl bps tx st = Inr (r, st')"
  shows "\<exists>u. f_cooldown_until (st_fund st') = Some u \<and> now + of_int (f_cooldown_period (st_fund st)) \<le> u"
  using record_settle_effect(2) [OF assms] start_cooldown_until [of now st] by auto

lemma set_status_vetoed:
  assumes "set_proposal_status_mutate now actor pid ''vetoed'' oc tx cm st = Inr (r, st')"
  shows "\<exists>u. f_cooldown_until (st_fund st') = Some u \<and> now + of_int (f_cooldown_period (st_fund st)) \<le> u"
proof -
  have "parse_status ''vetoed'' = Some Vetoed" by (simp add: parse_status_def PROPOSAL_STATUSES_def)
  then have "st_fund st' = st_fund (start_cooldown now st)"
    using assms by (auto simp: set_proposal_status_mutate_def Let_def split: option.splits)
  then show ?thesis using start_cooldown_until [of now st] by auto
qed

section \<open>The leaderboard\<close>

definition ideas_of :: "string \<Rightarrow> receipt list \<Rightarrow> receipt list" where
  "ideas_of tg rs = filter (\<lambda>r. r_idea_by r = tg) rs"

text \<open>The rows account for the receipts \<open>rs\<close>.\<close>

definition lb_ok :: "receipt list \<Rightarrow> lb_row list \<Rightarrow> bool" where
  "lb_ok rs rows \<longleftrightarrow> distinct (map lb_tg rows)
     \<and> lb_tg ` set rows = {r_idea_by r | r. r \<in> set rs \<and> r_idea_by r \<noteq> []}
     \<and> (\<forall>row \<in> set rows. lb_pnl_bps row = (\<Sum>r \<leftarrow> ideas_of (lb_tg row) rs. r_pnl_bps r)
          \<and> lb_ideas row = int (length (ideas_of (lb_tg row) rs)))"

lemma lb_add_tgs: "lb_tg ` set (lb_add tg b w rows) = insert tg (lb_tg ` set rows)"
  by (induction rows) auto

lemma lb_add_distinct: "distinct (map lb_tg rows) \<Longrightarrow> distinct (map lb_tg (lb_add tg b w rows))"
proof (induction rows)
  case (Cons r rows)
  then show ?case using lb_add_tgs [of tg b w rows] by (auto simp flip: image_set)
qed simp

lemma lb_add_mem:
  assumes "distinct (map lb_tg rows)" "row \<in> set (lb_add tg b w rows)"
  shows "if lb_tg row = tg
     then (\<exists>r \<in> set rows. lb_tg r = tg \<and> lb_pnl_bps row = lb_pnl_bps r + b \<and> lb_ideas row = lb_ideas r + 1)
       \<or> (tg \<notin> lb_tg ` set rows \<and> lb_pnl_bps row = b \<and> lb_ideas row = 1)
     else row \<in> set rows"
  using assms
proof (induction rows)
  case (Cons r rows)
  show ?case
  proof (cases "lb_tg r = tg")
    case True
    then have "row = r\<lparr>lb_pnl_bps := lb_pnl_bps r + b, lb_ideas := lb_ideas r + 1, lb_wins := lb_wins r + of_bool w\<rparr>
        \<or> row \<in> set rows"
      using Cons.prems(2) by simp
    moreover have "row \<in> set rows \<Longrightarrow> lb_tg row \<noteq> tg" using Cons.prems(1) True by (metis distinct.simps(2) image_eqI list.simps(9) list.set_map)
    ultimately show ?thesis using True by auto
  next
    case False
    with Cons show ?thesis by (cases "row = r") (auto split: if_splits)
  qed
qed simp

lemma lb_add_ok:
  assumes ok: "lb_ok rs rows" and ne: "r_idea_by r \<noteq> []"
  shows "lb_ok (rs @ [r]) (lb_add (r_idea_by r) (r_pnl_bps r) w rows)"
proof -
  let ?rows = "lb_add (r_idea_by r) (r_pnl_bps r) w rows"
  have d: "distinct (map lb_tg rows)" using ok by (simp add: lb_ok_def)
  have a: "lb_tg ` set ?rows = {r_idea_by x | x. x \<in> set (rs @ [r]) \<and> r_idea_by x \<noteq> []}"
    using ok ne unfolding lb_add_tgs lb_ok_def by auto
  have b: "lb_pnl_bps row = (\<Sum>x \<leftarrow> ideas_of (lb_tg row) (rs @ [r]). r_pnl_bps x)
      \<and> lb_ideas row = int (length (ideas_of (lb_tg row) (rs @ [r])))" if row: "row \<in> set ?rows" for row
  proof (cases "lb_tg row = r_idea_by r")
    case False
    then have "row \<in> set rows" using lb_add_mem [OF d row] by simp
    then show ?thesis using ok False by (auto simp: lb_ok_def ideas_of_def)
  next
    case True
    have none: "ideas_of (r_idea_by r) rs = []" if "r_idea_by r \<notin> lb_tg ` set rows"
    proof -
      have "x \<notin> set (ideas_of (r_idea_by r) rs)" for x
        using ok ne that by (auto simp: lb_ok_def ideas_of_def)
      then show ?thesis by (meson list.set_sel(1))
    qed
    show ?thesis
      using lb_add_mem [OF d row] True ok none by (auto simp: lb_ok_def ideas_of_def)
  qed
  show ?thesis using lb_add_distinct [OF d] a b by (simp add: lb_ok_def)
qed

lemma lb_rows_ok: "lb_ok rs0 rows \<Longrightarrow> lb_rows rs rows = Inr rows' \<Longrightarrow> lb_ok (rs0 @ rs) rows'"
proof (induction rs arbitrary: rs0 rows)
  case (Cons r rs)
  show ?case
  proof (cases "r_idea_by r = []")
    case True
    have "lb_ok (rs0 @ [r]) rows"
      unfolding lb_ok_def
    proof (intro conjI ballI)
      show "distinct (map lb_tg rows)" using Cons.prems(1) by (simp add: lb_ok_def)
      show "lb_tg ` set rows = {r_idea_by x |x. x \<in> set (rs0 @ [r]) \<and> r_idea_by x \<noteq> []}"
        using Cons.prems(1) True by (auto simp: lb_ok_def)
      fix row assume row: "row \<in> set rows"
      then have "lb_tg row \<in> {r_idea_by x |x. x \<in> set rs0 \<and> r_idea_by x \<noteq> []}"
        using Cons.prems(1) unfolding lb_ok_def by blast
      then have same: "ideas_of (lb_tg row) (rs0 @ [r]) = ideas_of (lb_tg row) rs0"
        using True by (auto simp: ideas_of_def)
      show "lb_pnl_bps row = (\<Sum>x\<leftarrow>ideas_of (lb_tg row) (rs0 @ [r]). r_pnl_bps x)"
        "lb_ideas row = int (length (ideas_of (lb_tg row) (rs0 @ [r])))"
        using Cons.prems(1) row unfolding same lb_ok_def by blast+
    qed
    with Cons.IH [of "rs0 @ [r]" rows] Cons.prems(2) True show ?thesis by simp
  next
    case False
    obtain n where n: "py_int (r_pnl r) = Some n" using Cons.prems(2) False by (auto split: option.splits)
    have "lb_ok (rs0 @ [r]) (lb_add (r_idea_by r) (r_pnl_bps r) (n > 0) rows)"
      by (rule lb_add_ok [OF Cons.prems(1) False])
    with Cons.IH [of "rs0 @ [r]"] Cons.prems(2) False n show ?thesis by simp
  qed
qed simp

lemma leaderboard_ok:
  assumes "leaderboard_of st = Inr rows"
  shows "lb_ok (st_receipts st) rows" "sorted (map lb_key rows)"
proof -
  obtain rs where rs: "lb_rows (st_receipts st) [] = Inr rs" "rows = sort_key lb_key rs"
    using assms by (auto simp: leaderboard_of_def and_then_Inr_iff)
  have "lb_ok [] []" by (simp add: lb_ok_def)
  then have "lb_ok (st_receipts st) rs" using lb_rows_ok [of "[]" "[]"] rs(1) by simp
  moreover have "distinct (map lb_tg (sort_key lb_key rs)) = distinct (map lb_tg rs)"
    by (simp add: distinct_map)
  ultimately show "lb_ok (st_receipts st) rows" by (simp add: lb_ok_def rs(2))
  show "sorted (map lb_key rows)" by (simp add: rs(2))
qed

section \<open>Exclusive topics\<close>

lemma check_claim_exclusive:
  assumes chk: "check_claim st agent topic now = Allow" and stable: "topic_stable topic"
    and mine: "claim_of st agent now = None" and c: "c \<in> set (active_claims st now)"
  shows "normalize_topic (c_topic c) \<noteq> normalize_topic topic"
proof
  assume same: "normalize_topic (c_topic c) = normalize_topic topic"
  let ?k = "normalize_topic topic"
  have "claim_for_topic st ?k now \<noteq> None"
    using c same normalize_topic_idem [OF stable] by (auto simp: claim_for_topic_def Let_def find_None_iff)
  then obtain h where h: "claim_for_topic st ?k now = Some h" by auto
  then have "h \<in> set (active_claims st now)" by (auto simp: claim_for_topic_def Let_def dest: find_SomeD)
  moreover have "lower (c_agent h) = lower agent"
    using chk h by (auto simp: check_claim_def Let_def split: verdict.splits if_splits)
  ultimately show False using mine by (auto simp: claim_of_def find_None_iff)
qed

section \<open>What accepted legs carry\<close>

lemma accepted_leg_approval:
  assumes "leg_ok l" "l_data l = abi_approve spender amount" "0 \<le> amount" "amount < 2 ^ 256"
  shows "amount < 2 ^ 255"
proof -
  have "l_data l \<noteq> []" using assms(2) by (simp add: abi_approve_def)
  then have "leg_called l" by (simp add: leg_called_def)
  then have "\<not> is_unlimited_int amount"
    using assms abi_approve_amount [of amount spender] by (simp add: leg_ok_def)
  then show ?thesis by (simp add: is_unlimited_int_def UNLIMITED_THRESHOLD_def)
qed

lemma draft_legs_ok:
  assumes "draft_proposal_mutate base now agent x st = Inr (r, st')"
  shows "p_legs (dr_proposal r) = d_legs x" "\<forall>l \<in> set (d_legs x). leg_ok l"
    "caps_of ''execute'' (d_legs x) \<le> d_max_capital x" "caps_of ''settle'' (d_legs x) \<le> d_max_capital x"
proof -
  obtain a c where e: "dr_proposal r = draft_record now x (prune_claims now st) a (Some c)"
    "draft_allowed (prune_claims now st) agent (d_topic x) (d_max_capital x) (d_max_drawdown_bps x) (d_legs x) now"
    using draft_proposal_effect [OF assms] by blast
  show "p_legs (dr_proposal r) = d_legs x" by (simp add: e(1) draft_record_def)
  show "\<forall>l \<in> set (d_legs x). leg_ok l" "caps_of ''execute'' (d_legs x) \<le> d_max_capital x"
    "caps_of ''settle'' (d_legs x) \<le> d_max_capital x"
    using e(2) by (simp_all add: draft_allowed_def)
qed

section \<open>The prepare payload of a draft\<close>

lemma draft_prepare:
  assumes "draft_proposal_mutate base now agent x st = Inr (r, st')"
  shows "is_portfolio (dr_proposal r) \<Longrightarrow> py_route (dr_prepare r) = ''propose-portfolio''"
    "\<not> is_portfolio (dr_proposal r) \<Longrightarrow> py_route (dr_prepare r) = ''propose''"
  using assms
  by (auto simp: draft_proposal_mutate_def Let_def and_then_Inr_iff portfolio_payload_def propose_payload_def
      make_payload_def split: option.splits if_splits)

text \<open>A draft never fails once its checks pass: the payload is always built.\<close>

lemma draft_total:
  assumes "check_draft (prune_claims now st) agent (d_topic x) (d_max_capital x) (d_max_drawdown_bps x)
      (d_legs x) now = Inr Allow"
  shows "\<exists>r st'. draft_proposal_mutate base now agent x st = Inr (r, st')"
proof -
  have "may_act st agent"
    using assms by (simp add: check_draft_Allow_iff draft_allowed_def gates_open_def)
  then obtain a where a: "agent_of st agent = Some a" by (auto simp: may_act_def)
  have p: "\<exists>q. portfolio_payload base f p s u = Inr q" for f p s u using portfolio_payload_total by blast
  show ?thesis
    using assms a
    by (simp add: draft_proposal_mutate_def Let_def and_then_def p propose_payload_total split: sum.splits)
      (metis (no_types, lifting) p propose_payload_total Inl_Inr_False)
qed

end
