(* ===== verification/Guard.thy ===== *)
theory Guard
  imports ToolFacts ServiceFacts
begin

text \<open>
  \<open>fund/guard.py\<close>: the hook that runs before a tool. It answers nothing (the tool runs), a block,
  or a request that a human approves. The spellings of the state directory depend on the file
  system and are an argument (\<open>dirs\<close>). The facts show that the guard fails closed: a draft it
  lets through is one the tool accepts, and a host tool it does not block was started by the host.
\<close>

section \<open>Directives\<close>

datatype directive = Block_rebind | Block_unreadable exn | Block_action rule_code
  | Block_unverified exn | Block_draft rule_code
  | Ask_human string string "(string \<times> string) list"

definition GUARDED_TOOLS :: "string list" where
  "GUARDED_TOOLS = ''fund_draft_proposal'' # HOST_TOOLS @ [''fund_record_vote'']"

text \<open>\<open>GUARD_ERRORS\<close>\<close>

definition guard_error :: "exn \<Rightarrow> bool" where
  "guard_error e \<longleftrightarrow> is_store_error e \<or> e \<in> {Service_error, Units_error, Value_error, Type_error}"

section \<open>Commands that change bindings\<close>

definition REBIND_MARKERS :: "string list" where
  "REBIND_MARKERS = [''fund-bind'', ''fund_bind'', ''config.yaml'', ''sherwood-monitor/funds'',
     ''sherwood-monitor'' @ [CHR 0x5C] @ ''funds'', ''plugins/sherwood-monitor'']"

text \<open>Every text of the arguments, at most six levels deep.\<close>

fun strings :: "nat \<Rightarrow> json \<Rightarrow> string list" where
  "strings 0 j = []"
| "strings (Suc n) j = (case j of
     JStr s \<Rightarrow> [s]
   | JObj o' \<Rightarrow> concat (map (\<lambda>(k, v). strings n v) o')
   | JList l \<Rightarrow> concat (map (strings n) l)
   | _ \<Rightarrow> [])"

fun contains :: "string \<Rightarrow> string \<Rightarrow> bool" where
  "contains m [] = (m = [])"
| "contains m (c # cs) = (startswith m (c # cs) \<or> contains m cs)"

definition rebind_markers :: "string list \<Rightarrow> string list" where
  "rebind_markers dirs = map lower REBIND_MARKERS
     @ remdups (map (\<lambda>p. lower (rstrip_of (CHR ''/'') p)) (filter (\<lambda>p. rstrip_of (CHR ''/'') p \<noteq> []) dirs))"

definition rebind_block :: "string list \<Rightarrow> caller \<Rightarrow> string \<Rightarrow> args \<Rightarrow> bool" where
  "rebind_block markers c tool a =
     (\<not> startswith ''fund_'' tool \<and> \<not> startswith ''sherwood_monitor_'' tool \<and> messaging c
      \<and> list_ex (\<lambda>text. list_ex (\<lambda>m. contains m (lower text)) markers) (strings 7 (JObj a)))"

section \<open>Host actions and member votes\<close>

definition ask_human :: "string \<Rightarrow> string \<Rightarrow> args \<Rightarrow> directive option result" where
  "ask_human tool fund a = and_then (approval_args a) (\<lambda>keyed. Inr (Some (Ask_human tool fund keyed)))"

definition guard_fund :: "tool_ctx \<Rightarrow> dir \<Rightarrow> args \<Rightarrow> string result" where
  "guard_fund ctx d a = (case fund_arg ctx d a of
     Inr f \<Rightarrow> Inr f
   | Inl e \<Rightarrow> if guard_error e then Inr [] else Inl e)"

text \<open>The verdict on the caller, then the human.\<close>

definition gate_then_ask :: "verdict \<Rightarrow> string \<Rightarrow> string \<Rightarrow> args \<Rightarrow> directive option result" where
  "gate_then_ask v tool fund a = (case v of
     Deny c \<Rightarrow> Inr (Some (Block_action c))
   | Allow \<Rightarrow> ask_human tool fund a)"

definition vote_directive ::
  "tool_ctx \<Rightarrow> fund_state option \<Rightarrow> string \<Rightarrow> args \<Rightarrow> directive option result" where
  "vote_directive ctx st fund a =
     and_then (vote_kind a) (\<lambda>kind.
       if kind \<noteq> ''member'' then Inr None
       else and_then (str_arg a ''voter'') (\<lambda>voter.
         if telegram_user (tc_caller ctx) \<noteq> None \<and> ca_user_id (tc_caller ctx) = voter then Inr None
         else gate_then_ask (check_member_vote_caller st (tc_caller ctx) voter (se_owner_telegram_id (tc_settings ctx)))
                ''fund_record_vote'' fund a))"

definition host_directive :: "tool_ctx \<Rightarrow> string \<Rightarrow> dir \<Rightarrow> args \<Rightarrow> directive option result" where
  "host_directive ctx tool d a =
     and_then (guard_fund ctx d a) (\<lambda>fund.
     case gate_state d fund of
       Inl e \<Rightarrow> if guard_error e then Inr (Some (Block_unreadable e)) else Inl e
     | Inr st \<Rightarrow>
         if tool = ''fund_record_vote'' then vote_directive ctx st fund a
         else gate_then_ask (check_caller st (tc_caller ctx) (se_owner_telegram_id (tc_settings ctx))) tool fund a)"

section \<open>Drafts\<close>

definition draft_verdict :: "tool_ctx \<Rightarrow> dir \<Rightarrow> args \<Rightarrow> verdict result" where
  "draft_verdict ctx d a =
     and_then (fund_arg ctx d a) (\<lambda>fund.
     and_then (store_load d fund) (\<lambda>st.
     and_then (parse_draft_args a st) (\<lambda>x.
     and_then (my_name ctx) (\<lambda>agent.
       check_draft st agent (d_topic x) (d_max_capital x) (d_max_drawdown_bps x) (d_legs x) (clock ctx 0)))))"

definition guard :: "string list \<Rightarrow> tool_ctx \<Rightarrow> string \<Rightarrow> dir \<Rightarrow> args \<Rightarrow> directive option result" where
  "guard markers ctx tool d a =
     (if rebind_block markers (tc_caller ctx) tool a then Inr (Some Block_rebind)
      else if tool \<notin> set GUARDED_TOOLS then Inr None
      else if tool \<noteq> ''fund_draft_proposal'' then host_directive ctx tool d a
      else (case draft_verdict ctx d a of
          Inl e \<Rightarrow> if guard_error e then Inr (Some (Block_unverified e)) else Inl e
        | Inr v \<Rightarrow> (case v of Allow \<Rightarrow> Inr None | Deny c \<Rightarrow> Inr (Some (Block_draft c)))))"

section \<open>Facts\<close>

lemma draft_verdict_Allow:
  "draft_verdict ctx d a = Inr Allow \<longleftrightarrow> (\<exists>fund st x agent. fund_arg ctx d a = Inr fund \<and> store_load d fund = Inr st
     \<and> parse_draft_args a st = Inr x \<and> my_name ctx = Inr agent
     \<and> check_draft st agent (d_topic x) (d_max_capital x) (d_max_drawdown_bps x) (d_legs x) (clock ctx 0) = Inr Allow)"
  by (auto simp: draft_verdict_def and_then_Inr_iff)

lemma guard_draft:
  "guard markers ctx ''fund_draft_proposal'' d a = Inr None \<longleftrightarrow> draft_verdict ctx d a = Inr Allow"
proof -
  have "\<not> rebind_block markers c ''fund_draft_proposal'' a" for c
    by (simp add: rebind_block_def startswith_def)
  moreover have "''fund_draft_proposal'' \<in> set GUARDED_TOOLS" by (simp add: GUARDED_TOOLS_def)
  ultimately show ?thesis by (auto simp: guard_def split: sum.split verdict.split)
qed

lemma check_draft_prune:
  "check_draft st agent topic cap dd legs now = Inr Allow \<Longrightarrow>
     check_draft (prune_claims now st) agent topic cap dd legs now = Inr Allow"
  unfolding check_draft_Allow_iff draft_allowed_def gates_open_def by (simp add: fee_ok_def cooldown_over_def)

lemma host_directive_gate:
  assumes "host_directive ctx tool d a = Inr r" "tool \<noteq> ''fund_record_vote''" "\<nexists>e. r = Some (Block_unreadable e)"
    "\<nexists>c. r = Some (Block_action c)"
  shows "\<exists>fund st. gate_state d fund = Inr st
    \<and> check_caller st (tc_caller ctx) (se_owner_telegram_id (tc_settings ctx)) = Allow
    \<and> (fund_arg ctx d a = Inr fund \<or> (fund = [] \<and> (\<exists>e. fund_arg ctx d a = Inl e)))"
proof -
  obtain fund where f: "guard_fund ctx d a = Inr fund"
    using assms(1) by (auto simp: host_directive_def and_then_Inr_iff)
  have fa: "fund_arg ctx d a = Inr fund \<or> (fund = [] \<and> (\<exists>e. fund_arg ctx d a = Inl e))"
    using f by (auto simp: guard_fund_def split: sum.splits if_splits)
  obtain st where st: "gate_state d fund = Inr st"
    using assms(1,3) f by (cases "gate_state d fund") (auto simp: host_directive_def split: if_splits)
  have "check_caller st (tc_caller ctx) (se_owner_telegram_id (tc_settings ctx)) = Allow"
    using assms(1,2,4) f st by (auto simp: host_directive_def gate_then_ask_def split: verdict.splits)
  with st fa show ?thesis by blast
qed

end
