(* ===== verification/Commands.thy ===== *)
theory Commands
  imports ToolFacts
begin

text \<open>
  \<open>fund/commands.py\<close>: the slash commands of a chat session. A command gets the rest of the line
  and the session's user and chat, when the platform names them. The texts of the answers are not
  kept; the data and the kind of answer are.
\<close>

section \<open>Sessions and answers\<close>

text \<open>\<open>session_ids\<close>: falsy values are \<open>None\<close>.\<close>

record session =
  ss_user :: "string option"
  ss_chat :: "string option"

definition session_ids :: "string option \<Rightarrow> string option \<Rightarrow> session" where
  "session_ids user chat =
     \<lparr>ss_user = (if user = Some [] then None else user), ss_chat = (if chat = Some [] then None else chat)\<rparr>"

datatype command_reply = C_usage | C_no_owner | C_not_owner | C_no_identity "string list"
  | C_fund fund_state | C_joined string agent | C_agent agent "json option" | C_no_wallet string
  | C_member member json | C_agents fund_state | C_board string "lb_row list"

definition tx_re :: "string \<Rightarrow> bool" where
  "tx_re = dollar_match (\<lambda>s. is_hex_text s \<and> length s = 66)"

definition chat_text :: "session \<Rightarrow> string" where
  "chat_text ss = (case ss_chat ss of None \<Rightarrow> [] | Some c \<Rightarrow> c)"

text \<open>\<open>rt.fund_for(raw.split()[0] if raw else None, chat_id=chat)\<close>; \<open>raw\<close> is stripped.\<close>

definition command_fund :: "tool_ctx \<Rightarrow> dir \<Rightarrow> string \<Rightarrow> session \<Rightarrow> string result" where
  "command_fund ctx d raw ss = fund_for d (tc_settings ctx) (if raw = [] then [] else hd (split_ws raw)) (chat_text ss)"

section \<open>The commands\<close>

definition cmd_fund :: "tool_ctx \<Rightarrow> dir \<Rightarrow> string \<Rightarrow> session \<Rightarrow> command_reply effect" where
  "cmd_fund ctx d raw ss =
     need d (command_fund ctx d raw ss) (\<lambda>fund.
     need d (store_load d fund) (\<lambda>st. pure_eff d (Inr (C_fund st))))"

definition missing_identity :: "settings \<Rightarrow> string list" where
  "missing_identity s = map fst (filter (\<lambda>(k, v). v = [])
     [(''agent_name'', se_agent_name s), (''agent_identity_id'', se_agent_identity_id s),
      (''agent_address'', se_agent_address s)])"

definition cmd_join_fund :: "tool_ctx \<Rightarrow> dir \<Rightarrow> string \<Rightarrow> session \<Rightarrow> command_reply effect" where
  "cmd_join_fund ctx d raw ss =
     (let s = tc_settings ctx; user = ss_user ss; name = hd (split_ws raw) in
      if raw = [] then pure_eff d (Inr C_usage)
      else if user \<noteq> None \<and> se_owner_telegram_id s = [] then pure_eff d (Inr C_no_owner)
      else if user \<noteq> None \<and> user \<noteq> Some (se_owner_telegram_id s) then pure_eff d (Inr C_not_owner)
      else if missing_identity s \<noteq> [] then pure_eff d (Inr (C_no_identity (missing_identity s)))
      else need d (fund_for d s name []) (\<lambda>fund.
        then_do (did d (request_agent d (clock ctx 0) (wtime ctx 0) fund
            (new_agent (se_agent_name s) (se_agent_identity_id s) (se_agent_address s)
               (or_else (se_owner_telegram_id s) (case user of None \<Rightarrow> [] | Some u \<Rightarrow> u)))))
          (\<lambda>d' a. pure_eff d' (Inr (C_joined name a)))))"

text \<open>\<open>except RuleViolation\<close> with the code \<open>missing_address\<close>: an answer instead\<close>

definition or_no_wallet :: "string \<Rightarrow> (member \<times> json) effect \<Rightarrow> command_reply effect" where
  "or_no_wallet who eff = (case eff of (d, es, r) \<Rightarrow>
     (d, es, case r of
        Inr (m, body) \<Rightarrow> Inr (C_member m body)
      | Inl e \<Rightarrow> if e = Rule_violation Missing_address then Inr (C_no_wallet who) else Inl e))"

definition first_match :: "(string \<Rightarrow> bool) \<Rightarrow> string list \<Rightarrow> string" where
  "first_match P xs = (case List.find P xs of None \<Rightarrow> [] | Some x \<Rightarrow> x)"

definition cmd_fund_approve :: "tool_ctx \<Rightarrow> dir \<Rightarrow> string \<Rightarrow> session \<Rightarrow> command_reply effect" where
  "cmd_fund_approve ctx d raw ss =
     (case split_ws raw of
        [] \<Rightarrow> pure_eff d (Inr C_usage)
      | who # extra \<Rightarrow>
          let address = first_match is_address extra; tx = first_match tx_re extra; user = ss_user ss in
          need d (fund_for d (tc_settings ctx) [] (chat_text ss)) (\<lambda>fund.
          need d (my_name ctx) (\<lambda>actor.
          need d (store_load d fund) (\<lambda>st.
            if agent_of st who \<noteq> None \<or> agent_by_address st who \<noteq> None
            then then_do (did d (approve_agent d (clock ctx 0) (wtime ctx 0) fund actor who tx user))
              (\<lambda>d' (a, body). pure_eff d' (Inr (C_agent a (if a_registered a then None else Some body))))
            else
              needs d (check_caller_is_host st user) (
              needs d (check_host_action st actor) (
              then_do (if address \<noteq> [] then pure_eff d (Inr [])
                       else ensure_member_address (tc_link ctx) d (clock ctx 0) (wtime ctx 0) fund who)
                (\<lambda>d1 _. or_no_wallet who
                   (did d1 (approve_member d1 (clock ctx 1) (wtime ctx 1) fund actor who address tx user)))))))))"

definition cmd_fund_agents :: "tool_ctx \<Rightarrow> dir \<Rightarrow> string \<Rightarrow> session \<Rightarrow> command_reply effect" where
  "cmd_fund_agents ctx d raw ss =
     need d (command_fund ctx d raw ss) (\<lambda>fund.
     need d (store_load d fund) (\<lambda>st. pure_eff d (Inr (C_agents st))))"

definition cmd_leaderboard :: "tool_ctx \<Rightarrow> dir \<Rightarrow> string \<Rightarrow> session \<Rightarrow> command_reply effect" where
  "cmd_leaderboard ctx d raw ss =
     need d (command_fund ctx d raw ss) (\<lambda>fund.
     need d (leaderboard d fund) (\<lambda>rows. pure_eff d (Inr (C_board fund (take 10 rows)))))"

definition COMMANDS :: "(string \<times> (tool_ctx \<Rightarrow> dir \<Rightarrow> string \<Rightarrow> session \<Rightarrow> command_reply effect)) list" where
  "COMMANDS = [(''fund'', cmd_fund), (''join-fund'', cmd_join_fund), (''fund-approve'', cmd_fund_approve),
     (''fund-agents'', cmd_fund_agents), (''leaderboard'', cmd_leaderboard)]"

text \<open>What \<open>_safe\<close> turns into an answer.\<close>

datatype command_answer = Said command_reply | Not_done exn | No_fund | Raised exn

definition safe :: "command_reply result \<Rightarrow> command_answer" where
  "safe r = (case r of
     Inr x \<Rightarrow> Said x
   | Inl e \<Rightarrow>
       if e = Fund_not_found then No_fund
       else (case e of Rule_violation c \<Rightarrow> Not_done e
         | _ \<Rightarrow> if is_store_error e \<or> e \<in> {Service_error, Units_error, Value_error} then Not_done e else Raised e))"

definition run_command ::
  "tool_ctx \<Rightarrow> string \<Rightarrow> dir \<Rightarrow> string \<Rightarrow> session \<Rightarrow> (dir \<times> fund_event list \<times> command_answer) option" where
  "run_command ctx name d raw_args ss = (case map_of COMMANDS name of
     None \<Rightarrow> None
   | Some f \<Rightarrow> (case f ctx d (strip raw_args) ss of (d', es, r) \<Rightarrow> Some (d', es, safe r)))"

section \<open>Facts\<close>

context call_relation
begin

lemma stays_or_no_wallet: "stays d eff \<Longrightarrow> stays d (or_no_wallet who eff)"
  by (auto simp: or_no_wallet_def stays_def split: prod.split)

lemma stays_command:
  assumes "(name, f) \<in> set COMMANDS"
  shows "stays d (f ctx d raw ss)"
proof -
  have "stays d (cmd_fund ctx d raw ss)" "stays d (cmd_join_fund ctx d raw ss)"
    "stays d (cmd_fund_approve ctx d raw ss)" "stays d (cmd_fund_agents ctx d raw ss)"
    "stays d (cmd_leaderboard ctx d raw ss)"
    unfolding cmd_fund_def cmd_join_fund_def cmd_fund_approve_def cmd_fund_agents_def cmd_leaderboard_def Let_def
    by (auto split: prod.split if_split list.split intro!: stays_need stays_needs stays_then stays_did
        stays_ensure_member stays_or_no_wallet intro: of_calls)
  then show ?thesis using assms by (auto simp: COMMANDS_def)
qed

lemma stays_run_command: "run_command ctx name d raw ss = Some (d', es, r) \<Longrightarrow> R d d'"
  using stays_command [of name _ d ctx "strip raw" ss]
  by (fastforce simp: run_command_def stays_def dest!: map_of_SomeD split: option.splits prod.splits)

end

text \<open>Only this process's owner volunteers it from a chat.\<close>

lemma join_fund_owner:
  assumes "value_of (cmd_join_fund ctx d raw ss) = Inr (C_joined name a)" "ss_user ss = Some u"
  shows "u = se_owner_telegram_id (tc_settings ctx) \<and> u \<noteq> []"
  using assms by (auto simp: cmd_join_fund_def Let_def split: if_splits)

end
