(* ===== verification/StoreLock.thy ===== *)
theory StoreLock
  imports ServiceInv
begin

text \<open>
  \<open>LocalJsonBackend._locked\<close> with \<open>load\<close> and \<open>update\<close>, run by any number of processes at once
  on the file of one fund. A process waits for the advisory lock (shared for \<open>load\<close>, exclusive
  for \<open>update\<close>) until its deadline, reads the file, mutates its copy, writes a temporary file,
  replaces the fund's file by it and unlocks; it may be killed at any point, and then the
  kernel drops its lock. The steps of the processes interleave in any order. The file is the
  \<open>FundState\<close> it parses to; \<open>sy_log\<close> is a ghost field, the processes that replaced the file.
\<close>

section \<open>Processes\<close>

type_synonym mutation = "fund_state \<Rightarrow> (unit \<times> fund_state) result"

datatype request = Load | Update mutation

datatype phase = Ready | Waiting time | Holding | Has_read fund_state | Has_temp fund_state | Replaced
  | Returned | Raised exn | Killed

record sys =
  sy_file :: fund_state
  sy_clock :: time
  sy_phase :: "nat \<Rightarrow> phase"
  sy_log :: "nat list"

text \<open>What the processes run, their lock timeout, and their clock when they write.\<close>

record program =
  pg_request :: "nat \<Rightarrow> request"
  pg_timeout :: time
  pg_wt :: "nat \<Rightarrow> time"

definition exclusive :: "program \<Rightarrow> nat \<Rightarrow> bool" where
  "exclusive pg p = (case pg_request pg p of Load \<Rightarrow> False | Update _ \<Rightarrow> True)"

fun in_lock :: "phase \<Rightarrow> bool" where
  "in_lock Holding = True"
| "in_lock (Has_read _) = True"
| "in_lock (Has_temp _) = True"
| "in_lock Replaced = True"
| "in_lock _ = False"

definition holds :: "sys \<Rightarrow> nat \<Rightarrow> bool" where
  "holds s p = in_lock (sy_phase s p)"

text \<open>\<open>flock(fd, mode | LOCK_NB)\<close> succeeds: no other holder, unless all are shared.\<close>

definition lock_free :: "program \<Rightarrow> sys \<Rightarrow> nat \<Rightarrow> bool" where
  "lock_free pg s p \<longleftrightarrow> (\<forall>q. q \<noteq> p \<longrightarrow> holds s q \<longrightarrow> \<not> exclusive pg p \<and> \<not> exclusive pg q)"

definition phase_to :: "nat \<Rightarrow> phase \<Rightarrow> sys \<Rightarrow> sys" where
  "phase_to p ph s = s\<lparr>sy_phase := (sy_phase s)(p := ph)\<rparr>"

inductive lock_step :: "program \<Rightarrow> sys \<Rightarrow> sys \<Rightarrow> bool" for pg where
  begin_wait: "sy_phase s p = Ready \<Longrightarrow> lock_step pg s (phase_to p (Waiting (sy_clock s + pg_timeout pg)) s)"
| tick: "sy_clock s < t \<Longrightarrow> lock_step pg s (s\<lparr>sy_clock := t\<rparr>)"
| acquire: "sy_phase s p = Waiting dl \<Longrightarrow> lock_free pg s p \<Longrightarrow> lock_step pg s (phase_to p Holding s)"
| time_out: "sy_phase s p = Waiting dl \<Longrightarrow> \<not> lock_free pg s p \<Longrightarrow> sy_clock s \<ge> dl \<Longrightarrow>
    lock_step pg s (phase_to p (Raised Lock_timeout) s)"
| read: "sy_phase s p = Holding \<Longrightarrow> lock_step pg s (phase_to p (Has_read (sy_file s)) s)"
| load_return: "sy_phase s p = Has_read st \<Longrightarrow> pg_request pg p = Load \<Longrightarrow> lock_step pg s (phase_to p Returned s)"
| mutate_raise: "sy_phase s p = Has_read st \<Longrightarrow> pg_request pg p = Update m \<Longrightarrow> m st = Inl e \<Longrightarrow>
    lock_step pg s (phase_to p (Raised e) s)"
| write_temp: "sy_phase s p = Has_read st \<Longrightarrow> pg_request pg p = Update m \<Longrightarrow> m st = Inr (u, st') \<Longrightarrow>
    lock_step pg s (phase_to p (Has_temp (bump (pg_wt pg p) st')) s)"
| replace: "sy_phase s p = Has_temp st \<Longrightarrow>
    lock_step pg s ((phase_to p Replaced s)\<lparr>sy_file := st, sy_log := sy_log s @ [p]\<rparr>)"
| unlock: "sy_phase s p = Replaced \<Longrightarrow> lock_step pg s (phase_to p Returned s)"
| kill: "sy_phase s p \<notin> {Returned, Killed} \<Longrightarrow> (\<forall>e. sy_phase s p \<noteq> Raised e) \<Longrightarrow> lock_step pg s (phase_to p Killed s)"

inductive_cases lock_stepE: "lock_step pg s s'"

definition start :: "fund_state \<Rightarrow> time \<Rightarrow> sys" where
  "start st t = \<lparr>sy_file = st, sy_clock = t, sy_phase = (\<lambda>_. Ready), sy_log = []\<rparr>"

inductive runs :: "program \<Rightarrow> fund_state \<Rightarrow> sys \<Rightarrow> bool" for pg st0 where
  init: "runs pg st0 (start st0 t)"
| more: "runs pg st0 s \<Longrightarrow> lock_step pg s s' \<Longrightarrow> runs pg st0 s'"

section \<open>Mutual exclusion\<close>

definition exclusion :: "program \<Rightarrow> sys \<Rightarrow> bool" where
  "exclusion pg s \<longleftrightarrow> (\<forall>p q. p \<noteq> q \<longrightarrow> holds s p \<longrightarrow> holds s q \<longrightarrow> \<not> exclusive pg p \<and> \<not> exclusive pg q)"

lemma phase_to_simps [simp]:
  "sy_phase (phase_to p ph s) q = (if q = p then ph else sy_phase s q)"
  "sy_file (phase_to p ph s) = sy_file s" "sy_clock (phase_to p ph s) = sy_clock s" "sy_log (phase_to p ph s) = sy_log s"
  "holds (phase_to p ph s) q = (if q = p then in_lock ph else holds s q)"
  by (simp_all add: phase_to_def holds_def)

lemma holds_frame [simp]:
  "holds (s\<lparr>sy_clock := t\<rparr>) q = holds s q" "holds (s\<lparr>sy_file := st, sy_log := l\<rparr>) q = holds s q"
  by (simp_all add: holds_def)

lemma exclusion_sub: "exclusion pg s \<Longrightarrow> (\<And>q. holds s' q \<Longrightarrow> holds s q) \<Longrightarrow> exclusion pg s'"
  unfolding exclusion_def by blast

lemma exclusion_step:
  assumes "lock_step pg s s'" "exclusion pg s"
  shows "exclusion pg s'"
  using assms
proof (induction rule: lock_step.induct)
  case (acquire s p dl)
  then show ?case by (auto simp: exclusion_def lock_free_def)
qed (auto elim!: exclusion_sub simp: holds_def split: if_splits)

section \<open>What a process knows\<close>

text \<open>
  A process inside the lock of an update sees the file as it is: what it read is the file, and
  the temporary file is the result of its mutation on the file.
\<close>

fun fresh_for :: "program \<Rightarrow> fund_state \<Rightarrow> nat \<Rightarrow> phase \<Rightarrow> bool" where
  "fresh_for pg f p (Has_read st) = (st = f)"
| "fresh_for pg f p (Has_temp st) =
     (\<exists>m u st'. pg_request pg p = Update m \<and> m f = Inr (u, st') \<and> st = bump (pg_wt pg p) st')"
| "fresh_for pg f p _ = True"

definition fresh_copy :: "program \<Rightarrow> sys \<Rightarrow> nat \<Rightarrow> bool" where
  "fresh_copy pg s p = fresh_for pg (sy_file s) p (sy_phase s p)"

lemma fresh_copy_other: "\<not> holds s p \<Longrightarrow> fresh_copy pg s p"
  by (cases "sy_phase s p") (simp_all add: holds_def fresh_copy_def)

lemma fresh_step:
  assumes "lock_step pg s s'" "exclusion pg s" "\<forall>p. fresh_copy pg s p"
  shows "\<forall>p. fresh_copy pg s' p"
  using assms
proof (induction rule: lock_step.induct)
  case (replace s p st)
  have ex: "exclusive pg p" "holds s p"
    using replace.hyps spec [OF replace.prems(2), of p] by (auto simp: fresh_copy_def exclusive_def holds_def)
  show ?case
  proof
    fix q
    show "fresh_copy pg ((phase_to p Replaced s)\<lparr>sy_file := st, sy_log := sy_log s @ [p]\<rparr>) q"
    proof (cases "q = p")
      case False
      then have "\<not> holds s q" using ex replace.prems(1) by (auto simp: exclusion_def)
      then show ?thesis using False by (intro fresh_copy_other) simp
    qed (simp add: fresh_copy_def)
  qed
next
  case (write_temp s p st m u st')
  then have "st = sy_file s" by (auto simp: fresh_copy_def dest!: spec [of _ p])
  with write_temp show ?case by (auto simp: fresh_copy_def)
qed (auto simp: fresh_copy_def)

section \<open>Commits are serial\<close>

text \<open>One committed update, alone on the state \<open>st\<close>, and a sequence of them.\<close>

inductive serial :: "program \<Rightarrow> fund_state \<Rightarrow> nat list \<Rightarrow> fund_state \<Rightarrow> bool" for pg st0 where
  none: "serial pg st0 [] st0"
| next_commit: "serial pg st0 ps st \<Longrightarrow> pg_request pg p = Update m \<Longrightarrow> m st = Inr (u, st') \<Longrightarrow>
    serial pg st0 (ps @ [p]) (bump (pg_wt pg p) st')"

lemma runs_inv:
  "runs pg st0 s \<Longrightarrow> exclusion pg s \<and> (\<forall>p. fresh_copy pg s p) \<and> serial pg st0 (sy_log s) (sy_file s)"
proof (induction rule: runs.induct)
  case (init t)
  show ?case
    by (auto simp: start_def exclusion_def holds_def fresh_copy_def intro: serial.none)
next
  case (more s s')
  have ser: "serial pg st0 (sy_log s') (sy_file s')"
    using more.hyps(2) more.IH
  proof (induction rule: lock_step.induct)
    case (replace s p st)
    then obtain m u st' where "pg_request pg p = Update m" "m (sy_file s) = Inr (u, st')"
      "st = bump (pg_wt pg p) st'"
      by (auto simp: fresh_copy_def dest!: spec [of _ p])
    then show ?case using replace by (auto intro: serial.next_commit)
  qed auto
  show ?case using more.IH more.hyps(2) exclusion_step fresh_step ser by blast
qed

text \<open>No update is lost: the revision counts the commits.\<close>

lemma serial_revision:
  assumes "serial pg st0 ps st"
    and "\<And>p m st q st'. pg_request pg p = Update m \<Longrightarrow> m st = Inr (q, st') \<Longrightarrow> st_revision st' = st_revision st"
  shows "st_revision st = st_revision st0 + int (length ps)"
  using assms by (induction rule: serial.induct) (auto simp: bump_def)

text \<open>Operations of the service keep the file in a reachable state, whatever the interleaving.\<close>

lemma serial_reachable:
  assumes "serial pg st0 ps st" "reachable st0"
    and "\<And>p m st q st'. pg_request pg p = Update m \<Longrightarrow> m st = Inr (q, st') \<Longrightarrow> op_step st st'"
  shows "reachable st"
  using assms by (induction rule: serial.induct) (auto intro: reachable.operated)

text \<open>A process commits at most once, and one that raised never did.\<close>

definition log_phase :: "sys \<Rightarrow> bool" where
  "log_phase s \<longleftrightarrow> distinct (sy_log s)
     \<and> (\<forall>p \<in> set (sy_log s). sy_phase s p = Replaced \<or> sy_phase s p = Returned \<or> sy_phase s p = Killed)
     \<and> (\<forall>p. sy_phase s p = Replaced \<longrightarrow> p \<in> set (sy_log s))"

lemma log_phase_step: "lock_step pg s s' \<Longrightarrow> log_phase s \<Longrightarrow> log_phase s'"
proof (induction rule: lock_step.induct)
  case (kill s p)
  then show ?case unfolding log_phase_def by auto
qed (fastforce simp: log_phase_def)+

lemma runs_log_phase: "runs pg st0 s \<Longrightarrow> log_phase s"
  by (induction rule: runs.induct) (simp add: log_phase_def start_def, rule log_phase_step)

text \<open>A waiting process can always take the lock when nobody holds it.\<close>

lemma waiting_can_acquire:
  "sy_phase s p = Waiting dl \<Longrightarrow> (\<forall>q. \<not> holds s q) \<Longrightarrow> lock_step pg s (phase_to p Holding s)"
  by (auto intro: lock_step.acquire simp: lock_free_def)

text \<open>A holder can always go on, so the lock is released unless the process sleeps.\<close>

lemma holder_can_step:
  assumes "runs pg st0 s" "holds s p"
  shows "\<exists>ph s'. lock_step pg s s' \<and> sy_phase s' p = ph \<and> ph \<noteq> sy_phase s p \<and> ph \<noteq> Killed"
proof (cases "sy_phase s p")
  case Holding
  then show ?thesis using lock_step.read by fastforce
next
  case (Has_read st)
  show ?thesis
  proof (cases "pg_request pg p")
    case Load
    then show ?thesis using Has_read lock_step.load_return by fastforce
  next
    case (Update m)
    show ?thesis
    proof (cases "m st")
      case (Inl e)
      then show ?thesis using Has_read Update lock_step.mutate_raise by fastforce
    next
      case (Inr r)
      then show ?thesis using Has_read Update lock_step.write_temp [of s p st pg m]
        by (cases r) fastforce
    qed
  qed
next
  case (Has_temp st)
  then show ?thesis using lock_step.replace by fastforce
next
  case Replaced
  then show ?thesis using lock_step.unlock by fastforce
qed (use assms in \<open>auto simp: holds_def\<close>)

end
