(* ===== verification/Demo.thy ===== *)
theory Demo
  imports Ledger StoreLock
begin

text \<open>
  One concrete fund, at which the properties are instantiated: it is created, its host claims a
  topic, drafts a proposal and moves it. Every directory is computed by the model's operations.
\<close>

definition demo_addr :: string where
  "demo_addr = ''0x'' @ replicate 40 (CHR ''a'')"

definition demo_fund :: fund where
  "demo_fund = (new_fund ''alpha'')\<lparr>f_vault := demo_addr, f_host_telegram_id := ''7'', f_telegram_chat_id := ''-100'',
     f_agent_fee_bps := Some 1000, f_max_capital := Some ''5000000''\<rparr>"

definition demo_host :: agent where
  "demo_host = new_agent ''Hermes'' ''12'' demo_addr ''7''"

definition demo_leg :: leg where
  "demo_leg = (new_leg ''buy'')\<lparr>l_symbol := ''NVDA'', l_weight_bps := 10000, l_cap := ''1000000''\<rparr>"

definition demo_draft :: draft_args where
  "demo_draft = \<lparr>d_topic = ''NVDA dip'', d_thesis = ''mean reversion'', d_legs = [demo_leg],
     d_max_capital = 1000000, d_max_drawdown_bps = 500, d_strategy_duration = 3600,
     d_bond_quote_wood = Some 100, d_wood_balance = Some 0, d_idea_by = [], d_strategy = [],
     d_metadata_uri = [], d_quote_usd_per_wood = [], d_bond_buffer_status = [],
     d_bond_buffer_note = []\<rparr>"

definition result_dir :: "'r outcome \<Rightarrow> dir" where
  "result_dir o' = (case o' of Inr (_, d, _) \<Rightarrow> d | Inl _ \<Rightarrow> [])"

definition ok :: "'a result \<Rightarrow> bool" where
  "ok r = (case r of Inl _ \<Rightarrow> False | Inr _ \<Rightarrow> True)"

text \<open>The same fund as states, without the files.\<close>

definition result_state :: "('r \<times> fund_state) result \<Rightarrow> fund_state" where
  "result_state o' = (case o' of Inr (_, s) \<Rightarrow> s | Inl _ \<Rightarrow> new_state demo_fund [])"

definition demo_s1 :: fund_state where
  "demo_s1 = first_revision 101 (new_state (demo_fund\<lparr>f_created_at := 100\<rparr>)
     [demo_host\<lparr>a_role := ''host'', a_approved := True, a_registered := True, a_requested_at := 100,
        a_approved_at := Some 100, a_registered_at := Some 100\<rparr>])"

definition demo_s2 :: fund_state where
  "demo_s2 = bump 111 (result_state (claim_topic_mutate 110 ''hermes'' ''NVDA dip'' demo_s1))"

definition demo_s3 :: fund_state where
  "demo_s3 = bump 121 (result_state (draft_proposal_mutate DEFAULT_TX_BUILDER_URL 120 ''hermes'' demo_draft demo_s2))"

definition demo_s4 :: fund_state where
  "demo_s4 = bump 131 (result_state (set_proposal_status_mutate 130 ''hermes'' ''p-1'' ''proposed'' (Some 4) [] [] demo_s3))"

definition demo_s5 :: fund_state where
  "demo_s5 = bump 2001 (result_state (set_proposal_status_mutate 2000 ''hermes'' ''p-1'' ''passed'' None [] [] demo_s4))"

definition demo_s6 :: fund_state where
  "demo_s6 = bump 2011 (result_state (set_proposal_status_mutate 2010 ''hermes'' ''p-1'' ''executed'' None [] [] demo_s5))"

definition demo_s7 :: fund_state where
  "demo_s7 = bump 3001 (result_state (record_settle_mutate 3000 ''hermes'' ''p-1'' 25 10 [] demo_s6))"

definition demo_sm :: fund_state where
  "demo_sm = bump 116 (result_state (approve_member_mutate 115 ''hermes'' ''9'' demo_addr [] (Some ''7'') demo_s2))"

text \<open>And as directories.\<close>

definition demo_d1 :: dir where
  "demo_d1 = (case create_fund [] 100 101 demo_fund demo_host of Inr (_, d) \<Rightarrow> d | Inl _ \<Rightarrow> [])"

definition demo_d2 :: dir where
  "demo_d2 = result_dir (claim_topic demo_d1 110 111 ''alpha'' ''hermes'' ''NVDA dip'')"

definition demo_d3 :: dir where
  "demo_d3 = result_dir (draft_proposal DEFAULT_TX_BUILDER_URL demo_d2 120 121 ''alpha'' ''hermes'' demo_draft)"

definition demo_d4 :: dir where
  "demo_d4 = result_dir (set_proposal_status demo_d3 130 131 ''alpha'' ''hermes'' ''p-1'' ''proposed'' (Some 4) [] [])"

definition demo_d5 :: dir where
  "demo_d5 = result_dir (set_proposal_status demo_d4 2000 2001 ''alpha'' ''hermes'' ''p-1'' ''passed'' None [] [])"

definition demo_d6 :: dir where
  "demo_d6 = result_dir (set_proposal_status demo_d5 2010 2011 ''alpha'' ''hermes'' ''p-1'' ''executed'' None [] [])"

definition demo_d7 :: dir where
  "demo_d7 = result_dir (record_settle demo_d6 3000 3001 ''alpha'' ''hermes'' ''p-1'' 25 10 [])"

text \<open>After the claim, the host approves a member.\<close>

definition demo_dm :: dir where
  "demo_dm = result_dir (approve_member demo_d2 115 116 ''alpha'' ''hermes'' ''9'' demo_addr [] (Some ''7''))"

lemma result_dirD: "ok o' \<Longrightarrow> \<exists>r es. o' = Inr (r, result_dir o', es)"
  by (auto simp: ok_def result_dir_def split: sum.splits)

lemma demo_created: "create_fund [] 100 101 demo_fund demo_host = Inr (demo_s1, demo_d1)"
proof -
  have "map_sum id fst (create_fund [] 100 101 demo_fund demo_host) = Inr demo_s1" by code_simp
  then show ?thesis by (auto simp: demo_d1_def split: sum.splits)
qed

text \<open>One operation: the file and the state move together.\<close>

lemma demo_step:
  assumes l: "store_load d ''alpha'' = Inr st" and op: "is_op m" and k: "ok (m st)"
    and d': "d' = result_dir (write_op d wt ''alpha'' m evs)"
  shows "\<exists>r es. write_op d wt ''alpha'' m evs = Inr (r, d', es)"
    "store_load d' ''alpha'' = Inr (bump wt (result_state (m st)))"
proof -
  obtain r st' where m: "m st = Inr (r, st')" using k by (auto simp: ok_def split: sum.splits)
  obtain d1 where "store_update d wt ''alpha'' m = Inr (r, d1)"
    using local_json.update_total [of d "''alpha''" st m, OF l m] by blast
  then have w: "write_op d wt ''alpha'' m evs = Inr (r, d1, evs r)" by (simp add: write_op_def)
  with d' have "d1 = d'" by (simp add: result_dir_def)
  with w show "\<exists>r es. write_op d wt ''alpha'' m evs = Inr (r, d', es)" by blast
  show "store_load d' ''alpha'' = Inr (bump wt (result_state (m st)))"
    using write_op_revision [OF op w] l m \<open>d1 = d'\<close> by (auto simp: result_state_def)
qed

lemma demo_oks:
  "ok (claim_topic_mutate 110 ''hermes'' ''NVDA dip'' demo_s1)"
  "ok (draft_proposal_mutate DEFAULT_TX_BUILDER_URL 120 ''hermes'' demo_draft demo_s2)"
  "ok (set_proposal_status_mutate 130 ''hermes'' ''p-1'' ''proposed'' (Some 4) [] [] demo_s3)"
  "ok (set_proposal_status_mutate 2000 ''hermes'' ''p-1'' ''passed'' None [] [] demo_s4)"
  "ok (set_proposal_status_mutate 2010 ''hermes'' ''p-1'' ''executed'' None [] [] demo_s5)"
  "ok (record_settle_mutate 3000 ''hermes'' ''p-1'' 25 10 [] demo_s6)"
  "ok (approve_member_mutate 115 ''hermes'' ''9'' demo_addr [] (Some ''7'') demo_s2)"
  by code_simp+

lemma demo_host_present: "\<not> a_removed demo_host"
  by (simp add: demo_host_def new_agent_def)

lemma demo_thesis: "strip (d_thesis demo_draft) \<noteq> []"
  by code_simp

lemma demo_load_1: "store_load demo_d1 ''alpha'' = Inr demo_s1"
proof -
  obtain st where c: "store_create [] 101 st = Inr (demo_s1, demo_d1)"
    and n: "f_name (st_fund st) = lower (strip (f_name demo_fund))"
    using demo_created
    by (fastforce simp: create_fund_def and_then_Inr_iff Let_def validate_fund_name_def new_state_def split: if_splits)
  have "same_fund (lower (strip (f_name demo_fund))) ''alpha''" by code_simp
  then show ?thesis using local_json.load_create [OF c, of "''alpha''"] n by simp
qed

lemma demo_draft_write:
  "draft_proposal DEFAULT_TX_BUILDER_URL d now wt ''alpha'' ''hermes'' demo_draft =
     write_op d wt ''alpha'' (draft_proposal_mutate DEFAULT_TX_BUILDER_URL now ''hermes'' demo_draft)
       (\<lambda>r. [(proposal_event Ev_drafted ''alpha'' (dr_proposal r))\<lparr>e_bond := Some (dr_bond r)\<rparr>])"
  using demo_thesis by (simp add: draft_proposal_def)

text \<open>Each directory holds its state, and each is the result of one more call of the service.\<close>

lemmas demo_move_2 = demo_step [OF demo_load_1 is_op_mutations(6) demo_oks(1) demo_d2_def [unfolded claim_topic_def]]

lemma demo_load_2: "store_load demo_d2 ''alpha'' = Inr demo_s2"
  unfolding demo_s2_def by (rule demo_move_2(2))

lemma demo_call_2: "\<exists>r es. claim_topic demo_d1 110 111 ''alpha'' ''hermes'' ''NVDA dip'' = Inr (r, demo_d2, es)"
  unfolding claim_topic_def by (rule demo_move_2(1))

lemmas demo_move_3 = demo_step [OF demo_load_2 is_op_mutations(9) demo_oks(2) demo_d3_def [unfolded demo_draft_write]]

lemma demo_load_3: "store_load demo_d3 ''alpha'' = Inr demo_s3"
  unfolding demo_s3_def by (rule demo_move_3(2))

lemma demo_call_3: "\<exists>r es. draft_proposal DEFAULT_TX_BUILDER_URL demo_d2 120 121 ''alpha'' ''hermes'' demo_draft = Inr (r, demo_d3, es)"
  unfolding demo_draft_write by (rule demo_move_3(1))

lemmas demo_move_4 = demo_step [OF demo_load_3 is_op_mutations(11) demo_oks(3) demo_d4_def [unfolded set_proposal_status_def]]

lemma demo_load_4: "store_load demo_d4 ''alpha'' = Inr demo_s4"
  unfolding demo_s4_def by (rule demo_move_4(2))

lemma demo_call_4: "\<exists>r es. set_proposal_status demo_d3 130 131 ''alpha'' ''hermes'' ''p-1'' ''proposed'' (Some 4) [] [] = Inr (r, demo_d4, es)"
  unfolding set_proposal_status_def by (rule demo_move_4(1))

lemmas demo_move_5 = demo_step [OF demo_load_4 is_op_mutations(11) demo_oks(4) demo_d5_def [unfolded set_proposal_status_def]]

lemma demo_load_5: "store_load demo_d5 ''alpha'' = Inr demo_s5"
  unfolding demo_s5_def by (rule demo_move_5(2))

lemma demo_call_5: "\<exists>r es. set_proposal_status demo_d4 2000 2001 ''alpha'' ''hermes'' ''p-1'' ''passed'' None [] [] = Inr (r, demo_d5, es)"
  unfolding set_proposal_status_def by (rule demo_move_5(1))

lemmas demo_move_6 = demo_step [OF demo_load_5 is_op_mutations(11) demo_oks(5) demo_d6_def [unfolded set_proposal_status_def]]

lemma demo_load_6: "store_load demo_d6 ''alpha'' = Inr demo_s6"
  unfolding demo_s6_def by (rule demo_move_6(2))

lemma demo_call_6: "\<exists>r es. set_proposal_status demo_d5 2010 2011 ''alpha'' ''hermes'' ''p-1'' ''executed'' None [] [] = Inr (r, demo_d6, es)"
  unfolding set_proposal_status_def by (rule demo_move_6(1))

lemmas demo_move_7 = demo_step [OF demo_load_6 is_op_mutations(15) demo_oks(6) demo_d7_def [unfolded record_settle_def]]

lemma demo_load_7: "store_load demo_d7 ''alpha'' = Inr demo_s7"
  unfolding demo_s7_def by (rule demo_move_7(2))

lemma demo_call_7: "\<exists>r es. record_settle demo_d6 3000 3001 ''alpha'' ''hermes'' ''p-1'' 25 10 [] = Inr (r, demo_d7, es)"
  unfolding record_settle_def by (rule demo_move_7(1))

lemmas demo_move_m = demo_step [OF demo_load_2 is_op_mutations(2) demo_oks(7) demo_dm_def [unfolded approve_member_def]]

lemma demo_load_m: "store_load demo_dm ''alpha'' = Inr demo_sm"
  unfolding demo_sm_def by (rule demo_move_m(2))

lemma demo_call_m: "\<exists>r es. approve_member demo_d2 115 116 ''alpha'' ''hermes'' ''9'' demo_addr [] (Some ''7'') = Inr (r, demo_dm, es)"
  unfolding approve_member_def by (rule demo_move_m(1))

lemmas demo_loads = demo_load_1 demo_load_2 demo_load_3 demo_load_4 demo_load_5 demo_load_6 demo_load_7 demo_load_m

lemma demo_served: "served demo_d1" "served demo_d2" "served demo_d3" "served demo_d4" "served demo_d5"
  "served demo_d6" "served demo_d7" "served demo_dm"
proof -
  show s1: "served demo_d1"
    using demo_created served.call [OF served.start service_call.intros(1) [OF demo_host_present]] by blast
  show s2: "served demo_d2" using demo_call_2 served.call [OF s1 service_call.intros(7)] by blast
  show s3: "served demo_d3" using demo_call_3 served.call [OF s2 service_call.intros(10)] by blast
  show s4: "served demo_d4" using demo_call_4 served.call [OF s3 service_call.intros(12)] by blast
  show s5: "served demo_d5" using demo_call_5 served.call [OF s4 service_call.intros(12)] by blast
  show s6: "served demo_d6" using demo_call_6 served.call [OF s5 service_call.intros(12)] by blast
  show "served demo_d7" using demo_call_7 served.call [OF s6 service_call.intros(16)] by blast
  show "served demo_dm" using demo_call_m served.call [OF s2 service_call.intros(3)] by blast
qed

end
