(* ===== verification/AccessProps.thy ===== *)
theory AccessProps
  imports Guard Commands Demo
begin

text \<open>
  The properties of the ways into a fund: the model's tools, the guard before them, the chat
  commands and the app lookup. The witnesses run them on the demo fund.
\<close>

section \<open>Concrete turns\<close>

definition demo_settings :: settings where
  "demo_settings = \<lparr>se_agent_name = ''hermes'', se_agent_identity_id = ''12'', se_agent_address = demo_addr,
     se_owner_telegram_id = ''7'', se_default_fund = ''alpha'', se_tx_builder_url = []\<rparr>"

definition demo_ctx :: "string \<Rightarrow> tool_ctx" where
  "demo_ctx user = \<lparr>tc_settings = demo_settings,
     tc_caller = \<lparr>ca_platform = ''telegram'', ca_user_id = user, ca_chat_id = ''-100''\<rparr>,
     tc_link = None, tc_ticks = (\<lambda>i. (120 + of_nat i, 121 + of_nat i))\<rparr>"

definition demo_draft_call :: args where
  "demo_draft_call = [(''topic'', JStr ''NVDA dip''), (''thesis'', JStr ''mean reversion''),
     (''legs'', JList [JObj [(''summary'', JStr ''buy''), (''symbol'', JStr ''NVDA''),
        (''weight_bps'', JInt 10000), (''cap'', JStr ''1'')]]),
     (''max_capital'', JStr ''1.5''), (''max_drawdown_bps'', JInt 500)]"

lemma demo_fund_arg:
  "fund_arg (demo_ctx u) d demo_draft_call = Inr ''alpha''" "fund_arg (demo_ctx u) d [] = Inr ''alpha''"
  by code_simp+

lemma call_toolE:
  assumes "call_tool ctx name d a = Some (d', es, r)"
  obtains f x where "map_of TOOLS name = Some f" "f ctx d a = (d', es, x)" "r = guarded x"
  using assms by (auto simp: call_tool_def split: option.splits prod.splits)

lemma guarded_ok: "guarded x = Answer_ok y \<longleftrightarrow> x = Inr y"
  by (auto simp: guarded_def split: sum.splits exn.splits)

lemma HOST_TOOLS_apart: "''fund_draft_proposal'' \<notin> set HOST_TOOLS" "''fund_record_vote'' \<notin> set HOST_TOOLS"
  by code_simp+

lemma TOOLS_at:
  "map_of TOOLS ''fund_record_vote'' = Some fund_record_vote"
  "map_of TOOLS ''fund_draft_proposal'' = Some fund_draft_proposal"
  "map_of TOOLS ''fund_remove_agent'' = Some fund_remove_agent"
  "map_of TOOLS ''fund_setup'' = Some fund_setup"
  by (simp_all add: TOOLS_def)

lemma call_tool_total: "map_of TOOLS name = Some f \<Longrightarrow> \<exists>d' es r. call_tool ctx name d a = Some (d', es, r)"
  by (auto simp: call_tool_def split: prod.split)

section \<open>The host's tools\<close>


lemma demo_refused: "refused (demo_ctx ''9'') demo_d1 ''alpha''"
proof -
  have "check_caller (Some demo_s1) (tc_caller (demo_ctx ''9'')) (se_owner_telegram_id (tc_settings (demo_ctx ''9''))) \<noteq> Allow"
    by code_simp
  then show ?thesis by (simp add: refused_def gate_state_def demo_load_1)
qed


text \<open>
  C16: No tool, called by anybody with any arguments, changes the vault, the governor, the chat or
  the host of a fund once it is set (its letters may change case), and no fund disappears.
\<close>

theorem tools_keep_bindings:
  assumes "call_tool ctx name d a = Some (d', es, r)" and "store_load d fund = Inr st"
    and "k \<in> set LOCKED_FUND_FIELDS" and "get_text (st_fund st) k \<noteq> []"
  shows "\<exists>st'. store_load d' fund = Inr st' \<and> lower (get_text (st_fund st') k) = lower (get_text (st_fund st) k)"
  using binding.stays_call [OF assms(1)] assms(2-4) unfolding bindings_kept_def same_bindings_def by meson

definition demo_rebind :: args where
  "demo_rebind = [(''vault'', JStr (''0x'' @ replicate 40 (CHR ''b'')))]"

theorem tools_keep_bindings_witness:
  "\<exists>d' es r st'. call_tool (demo_ctx ''7'') ''fund_setup'' demo_d1 demo_rebind = Some (d', es, r)
    \<and> store_load d' ''alpha'' = Inr st' \<and> lower (f_vault (st_fund st')) = lower demo_addr"
proof -
  obtain d' es r where c: "call_tool (demo_ctx ''7'') ''fund_setup'' demo_d1 demo_rebind = Some (d', es, r)"
    using call_tool_total TOOLS_at(4) by blast
  have v: "get_text (st_fund demo_s1) ''vault'' = demo_addr" "''vault'' \<in> set LOCKED_FUND_FIELDS" "demo_addr \<noteq> []"
    by code_simp+
  obtain st' where "store_load d' ''alpha'' = Inr st'" "lower (get_text (st_fund st') ''vault'') = lower demo_addr"
    using tools_keep_bindings [OF c demo_load_1 v(2)] v by auto
  with c show ?thesis by (auto simp: get_text_def)
qed

text \<open>
  Every call of a tool and every chat command leaves a directory that calls of the service
  can produce, also when it fails half way: what holds of all of those (C1 to C5) holds after it.
\<close>

theorem tools_and_commands_stay_served:
  assumes "served d"
    and "call_tool ctx name d a = Some (d1, es1, r1)" and "run_command ctx cmd d raw ss = Some (d2, es2, r2)"
  shows "served d1 \<and> served d2"
  using serving.stays_call [OF assms(2)] serving.stays_run_command [OF assms(3)] assms(1)
  by (simp add: serves_def)

theorem tools_and_commands_stay_served_witness:
  "\<exists>d1 es r. call_tool (demo_ctx ''7'') ''fund_draft_proposal'' demo_d2 demo_draft_call = Some (d1, es, r) \<and> served d1"
proof -
  obtain d1 es1 r1 where t: "call_tool (demo_ctx ''7'') ''fund_draft_proposal'' demo_d2 demo_draft_call = Some (d1, es1, r1)"
    using call_tool_total TOOLS_at(2) by blast
  have "\<exists>d2 es2 r2. run_command (demo_ctx ''7'') ''fund'' demo_d2 [] (session_ids None None) = Some (d2, es2, r2)"
    by (auto simp: run_command_def COMMANDS_def split: prod.split)
  then obtain d2 es2 r2 where
    k: "run_command (demo_ctx ''7'') ''fund'' demo_d2 [] (session_ids None None) = Some (d2, es2, r2)" by blast
  from tools_and_commands_stay_served [OF demo_served(2) t k] t show ?thesis by blast
qed

section \<open>The guard and the tools together\<close>


lemma demo_draft_verdict: "draft_verdict (demo_ctx ''9'') demo_d2 demo_draft_call = Inr Allow"
proof -
  define v where "v = and_then (parse_draft_args demo_draft_call demo_s2) (\<lambda>x. and_then (my_name (demo_ctx ''9'')) (\<lambda>agent.
      check_draft demo_s2 agent (d_topic x) (d_max_capital x) (d_max_drawdown_bps x) (d_legs x) (clock (demo_ctx ''9'') 0)))"
  have "v = Inr Allow" unfolding v_def by code_simp
  then show ?thesis by (simp add: draft_verdict_def demo_fund_arg demo_load_2 v_def)
qed


text \<open>
  The guard asks the human about a host's tool only in a turn that no chat platform carries,
  or that the host of the fund (before there is one, the owner of this process) started on Telegram.
\<close>

theorem guard_asks_only_for_the_host:
  assumes "tool \<in> set HOST_TOOLS" and "guard markers ctx tool d a = Inr (Some (Ask_human tool' fund' keyed))"
    and "messaging (tc_caller ctx)"
  shows "ca_platform (tc_caller ctx) = ''telegram''
    \<and> (\<exists>fund st. gate_state d fund = Inr st
         \<and> ca_user_id (tc_caller ctx) = expected_host st (se_owner_telegram_id (tc_settings ctx)))"
proof -
  have n: "tool \<noteq> ''fund_draft_proposal'' \<and> tool \<noteq> ''fund_record_vote''"
    using assms(1) HOST_TOOLS_apart by blast
  have "host_directive ctx tool d a = Inr (Some (Ask_human tool' fund' keyed))"
    using assms(2) n by (auto simp: guard_def split: if_splits)
  from host_directive_gate [OF this] n show ?thesis using assms(3) by (fastforce simp: check_caller_Allow)
qed

theorem guard_asks_only_for_the_host_witness:
  "\<exists>fund st. gate_state demo_d1 fund = Inr st \<and> ca_user_id (tc_caller (demo_ctx ''7'')) = expected_host st ''7''"
proof -
  have "map_sum id (\<lambda>x. x \<noteq> None) (ask_human ''fund_remove_agent'' ''alpha'' []) = Inr True"
    "\<not> rebind_block [] (tc_caller (demo_ctx ''7'')) ''fund_remove_agent'' []"
    "''fund_remove_agent'' \<in> set GUARDED_TOOLS" "''fund_remove_agent'' \<in> set HOST_TOOLS"
    "check_caller (Some demo_s1) (tc_caller (demo_ctx ''7'')) (se_owner_telegram_id (tc_settings (demo_ctx ''7''))) = Allow"
    "messaging (tc_caller (demo_ctx ''7''))" "se_owner_telegram_id (tc_settings (demo_ctx ''7'')) = ''7''"
    "ask_human ''fund_remove_agent'' ''alpha'' [] = Inr (Some (Ask_human ''fund_remove_agent'' ''alpha'' []))"
    by code_simp+
  note f = this
  have "guard [] (demo_ctx ''7'') ''fund_remove_agent'' demo_d1 [] = Inr (Some (Ask_human ''fund_remove_agent'' ''alpha'' []))"
    using f by (simp add: guard_def host_directive_def guard_fund_def demo_fund_arg gate_state_def demo_load_1 gate_then_ask_def)
  from guard_asks_only_for_the_host [OF f(4) this f(6)] show ?thesis unfolding f(7) by blast
qed

section \<open>Votes and the app token\<close>

text \<open>
  C18: A tool records a member's vote in a chat turn only on Telegram, and only for the member who
  started the turn or in a turn the fund's host started.
\<close>

theorem members_vote_for_themselves:
  assumes "call_tool ctx ''fund_record_vote'' d a = Some (d', es, Answer_ok r)"
    and "vote_kind a = Inr ''member''" and "messaging (tc_caller ctx)"
  shows "ca_platform (tc_caller ctx) = ''telegram''
    \<and> (\<exists>voter fund st. str_arg a ''voter'' = Inr voter \<and> fund_arg ctx d a = Inr fund \<and> store_load d fund = Inr st
        \<and> ca_user_id (tc_caller ctx) \<in> {voter, expected_host (Some st) (se_owner_telegram_id (tc_settings ctx))})"
proof -
  obtain x where x: "fund_record_vote ctx d a = (d', es, Inr x)"
    using assms(1) by (rule call_toolE) (metis TOOLS_at(1) guarded_ok option.inject)
  obtain voter fund where v: "str_arg a ''voter'' = Inr voter" "fund_arg ctx d a = Inr fund"
    using x assms(2) by (cases "str_arg a ''voter''"; cases "fund_arg ctx d a") (auto simp: fund_record_vote_def)
  have "vote_caller_check ctx d fund ''member'' voter = Inr ()"
    using x assms(2) v by (cases "vote_caller_check ctx d fund ''member'' voter") (auto simp: fund_record_vote_def)
  then obtain st where "store_load d fund = Inr st"
    "check_member_vote_caller (Some st) (tc_caller ctx) voter (se_owner_telegram_id (tc_settings ctx)) = Allow"
    by (auto simp: vote_caller_check_def and_then_Inr_iff)
  then show ?thesis using v assms(3) by (auto simp: check_member_vote_caller_Allow)
qed

definition demo_sv :: fund_state where
  "demo_sv = bump 136 (result_state (approve_member_mutate 135 ''hermes'' ''9'' demo_addr [] (Some ''7'') demo_s4))"

definition demo_dv :: dir where
  "demo_dv = result_dir (approve_member demo_d4 135 136 ''alpha'' ''hermes'' ''9'' demo_addr [] (Some ''7''))"

lemma demo_load_v: "store_load demo_dv ''alpha'' = Inr demo_sv"
proof -
  have "ok (approve_member_mutate 135 ''hermes'' ''9'' demo_addr [] (Some ''7'') demo_s4)" by code_simp
  from demo_step(2) [OF demo_load_4 is_op_mutations(2) this demo_dv_def [unfolded approve_member_def]]
  show ?thesis unfolding demo_sv_def .
qed

definition demo_vote_call :: args where
  "demo_vote_call = [(''voter'', JStr ''9''), (''side'', JStr ''back''), (''proposal_id'', JStr ''p-1'')]"

lemma demo_vote: "\<exists>d' es r. call_tool (demo_ctx ''9'') ''fund_record_vote'' demo_dv demo_vote_call = Some (d', es, Answer_ok r)"
proof -
  let ?m = "record_vote_mutate 120 ''p-1'' ''9'' ''back'' ''member'' []"
  have k: "ok (?m demo_sv)" by code_simp
  have side: "lower (strip ''back'') = ''back''" by code_simp
  obtain p d' es where "write_op demo_dv 121 ''alpha'' ?m (\<lambda>p. [proposal_event Ev_vote ''alpha'' p]) = Inr (p, d', es)"
    using demo_step(1) [OF demo_load_v is_op_mutations(14) k refl] by blast
  moreover have "record_vote demo_dv 120 121 ''alpha'' ''p-1'' ''9'' ''back'' ''member'' [] =
      write_op demo_dv 121 ''alpha'' ?m (\<lambda>p. [proposal_event Ev_vote ''alpha'' p])"
    using side by (simp add: record_vote_def Let_def)
  ultimately have w: "record_vote demo_dv (clock (demo_ctx ''9'') 0) (wtime (demo_ctx ''9'') 0) ''alpha'' ''p-1'' ''9'' ''back'' ''member'' []
      = Inr (p, d', es)"
    by (simp add: demo_ctx_def)
  have a: "vote_kind demo_vote_call = Inr ''member''" "str_arg demo_vote_call ''voter'' = Inr ''9''"
    "str_arg demo_vote_call ''proposal_id'' = Inr ''p-1''" "str_arg demo_vote_call ''side'' = Inr ''back''"
    "str_arg demo_vote_call ''note'' = Inr []" "fund_arg (demo_ctx ''9'') demo_dv demo_vote_call = Inr ''alpha''"
    by code_simp+
  have "check_member_vote_caller (Some demo_sv) (tc_caller (demo_ctx ''9'')) ''9''
      (se_owner_telegram_id (tc_settings (demo_ctx ''9''))) = Allow" by code_simp
  then have "vote_caller_check (demo_ctx ''9'') demo_dv ''alpha'' ''member'' ''9'' = Inr ()"
    by (simp add: vote_caller_check_def demo_load_v)
  then have "fund_record_vote (demo_ctx ''9'') demo_dv demo_vote_call = (d', es, Inr (R_proposal p))"
    unfolding fund_record_vote_def by (simp add: a w did_def then_do_def pure_eff_def)
  then show ?thesis by (auto simp: call_tool_def TOOLS_at guarded_def)
qed

theorem members_vote_for_themselves_witness:
  "\<exists>voter. str_arg demo_vote_call ''voter'' = Inr voter \<and> ca_user_id (tc_caller (demo_ctx ''9'')) \<in> {voter, ''7''}"
proof -
  have k: "vote_kind demo_vote_call = Inr ''member''" "messaging (tc_caller (demo_ctx ''9''))" by code_simp+
  obtain fund st voter where "store_load demo_dv fund = Inr st" "fund_arg (demo_ctx ''9'') demo_dv demo_vote_call = Inr fund"
    "str_arg demo_vote_call ''voter'' = Inr voter"
    "ca_user_id (tc_caller (demo_ctx ''9'')) \<in> {voter, expected_host (Some st) (se_owner_telegram_id (tc_settings (demo_ctx ''9'')))}"
    using demo_vote members_vote_for_themselves [OF _ k] by metis
  moreover have "fund_arg (demo_ctx ''9'') demo_dv demo_vote_call = Inr ''alpha''"
    "expected_host (Some demo_sv) (se_owner_telegram_id (tc_settings (demo_ctx ''9''))) = ''7''" by code_simp+
  ultimately show ?thesis using demo_load_v by auto
qed

text \<open>
  C19: The app token leaves this process only in a request to an allowlisted host, over https, on
  the default port and without credentials in the URL.
\<close>

theorem app_token_stays_home:
  assumes "lookup_request (new_app_client base allowed) token vault tg = Inr (Some (url, bearer))"
  shows "trusted (parse_hosts allowed) url \<and> token = Some bearer"
  using lookup_request_trusted [OF assms] parse_hosts_not_empty by (simp add: new_app_client_def)

theorem app_token_stays_home_witness:
  "trusted (parse_hosts No_hosts) (''https://app.sherwood.sh/api/tg/link?fund='' @ demo_addr @ ''&tg=9'')"
proof -
  have "lookup_request (new_app_client ''https://app.sherwood.sh/'' No_hosts) (Some ''t'') demo_addr ''9'' =
      Inr (Some (''https://app.sherwood.sh/api/tg/link?fund='' @ demo_addr @ ''&tg=9'', ''t''))"
    by code_simp
  from app_token_stays_home [OF this] show ?thesis by blast
qed

end
