(* ===== verification/MoneyProps.thy ===== *)
theory MoneyProps
  imports Demo Commands
begin

text \<open>
  The properties of what the program computes about money: amounts, the bond, the veto, and the
  requests a wallet is asked to sign.
\<close>

section \<open>Amounts\<close>

text \<open>
  C20: An amount of at most a hundred digits that is accepted is scaled to base units exactly, and
  without leave for negative amounts the result is not negative.
\<close>

theorem amounts_are_exact:
  assumes "to_base_units a d neg = Inr n" and "amount_value a = Some v" and "short v"
  shows "of_int n = dec_value v * 10 ^ d \<and> (neg \<or> 0 \<le> n)"
proof (cases neg)
  case True
  then show ?thesis using to_base_units_value [OF assms] by simp
next
  case False
  then have "to_base_units a d False = Inr n" using assms(1) by simp
  with to_base_units_value [OF assms] to_base_units_nonneg assms(2,3) show ?thesis by blast
qed

theorem amounts_are_exact_witness:
  "to_base_units (A_str ''1,000.25'') 6 False = Inr 1000250000 \<and> (0::int) \<le> 1000250000"
proof -
  have a: "to_base_units (A_str ''1,000.25'') 6 False = Inr 1000250000"
    "amount_value (A_str ''1,000.25'') = Some (False, 100025, -2)" "short (False, 100025, -2)"
    by code_simp+
  from amounts_are_exact [OF a] a(1) show ?thesis by simp
qed

text \<open>
  A number of base units below 10 ^ 100, printed in decimal with any number of places, parses
  back as itself.
\<close>

theorem amounts_read_back:
  assumes "\<bar>u\<bar> < 10 ^ PREC" and "format_units u d None = Inr t"
  shows "to_base_units (A_str t) d True = Inr u"
  by (rule format_units_roundtrip [OF assms])

theorem amounts_read_back_witness: "to_base_units (A_str ''-12.05'') 6 True = Inr (- 12050000)"
proof -
  have "format_units (- 12050000) 6 None = Inr ''-12.05''" "\<bar>- 12050000 :: int\<bar> < 10 ^ PREC"
    by code_simp+
  from amounts_read_back [OF this(2,1)] show ?thesis .
qed

section \<open>The bond and the veto\<close>

text \<open>
  The approval planned for a bond is the least number of base units that covers the quote
  with its buffer; the check accepts it, and accepts exactly the amounts from the quote up to it;
  the balance and the gap to buy cover it.
\<close>

theorem bond_is_exact:
  assumes "0 \<le> quote" and "0 \<le> b_approve_buffer_bps policy" and "approve_amount_for quote policy < 2 ^ 255"
  shows "(bp_approve_amount (plan_bond quote balance policy) \<le> v
        \<longleftrightarrow> quote * (BPS + b_approve_buffer_bps policy) \<le> v * BPS)
    \<and> check_bond_approve (Inl (bp_approve_amount (plan_bond quote balance policy))) quote policy = Inr Allow
    \<and> (check_bond_approve (Inl v) quote policy = Inr Allow
        \<longleftrightarrow> quote \<le> v \<and> v \<le> bp_approve_amount (plan_bond quote balance policy))
    \<and> bp_approve_amount (plan_bond quote balance policy) \<le> balance + bp_gap (plan_bond quote balance policy)"
proof -
  have p: "bp_approve_amount (plan_bond quote balance policy) = approve_amount_for quote policy"
    by (simp add: plan_bond_def Let_def)
  have "check_bond_approve (Inl w) quote policy = Inr Allow \<longleftrightarrow> quote \<le> w \<and> w \<le> approve_amount_for quote policy" for w
    using assms(3) by (auto simp: check_bond_approve_def bond_approve_range_def is_unlimited_int_def UNLIMITED_THRESHOLD_def)
  moreover have "approve_amount_for quote policy \<le> balance + bp_gap (plan_bond quote balance policy)"
    using plan_bond_covers(1) [of quote balance policy] unfolding p .
  ultimately show ?thesis
    unfolding p using approve_amount_le_iff [of quote policy v] approve_amount_ge_quote [OF assms(1,2)] by simp
qed

theorem bond_is_exact_witness:
  "check_bond_approve (Inl 1050) 1000 new_bond_policy = Inr Allow \<and> check_bond_approve (Inl 1051) 1000 new_bond_policy \<noteq> Inr Allow"
proof -
  have a: "(0::int) \<le> 1000" "0 \<le> b_approve_buffer_bps new_bond_policy" "approve_amount_for 1000 new_bond_policy < 2 ^ 255"
    "bp_approve_amount (plan_bond 1000 0 new_bond_policy) = 1050"
    by code_simp+
  from bond_is_exact [OF a(1-3), of 0 1050] bond_is_exact [OF a(1-3), of 0 1051] show ?thesis unfolding a(4) by simp
qed

text \<open>
  A proposal over coverage is vetoed exactly when the objecting shares reach the threshold
  shown beside the vote, and more objections never take a veto back.
\<close>

theorem veto_at_threshold:
  assumes "0 < supply"
  shows "(is_vetoed against supply bps \<longleftrightarrow> veto_threshold_shares supply bps \<le> against)
    \<and> (is_vetoed against supply bps \<longrightarrow> against \<le> after \<longrightarrow> is_vetoed after supply bps)"
  using is_vetoed_iff_threshold [OF assms] is_vetoed_mono by blast

theorem veto_at_threshold_witness: "is_vetoed 34 101 3333 \<and> \<not> is_vetoed 33 101 3333"
proof -
  have s: "(0::int) < 101" "veto_threshold_shares 101 3333 = 34" by code_simp+
  from veto_at_threshold [OF s(1), of 34 3333] veto_at_threshold [OF s(1), of 33 3333]
  show ?thesis unfolding s(2) by simp
qed

section \<open>What a wallet is asked to sign\<close>

definition call_wire_ok :: "json \<Rightarrow> bool" where
  "call_wire_ok c \<longleftrightarrow> (\<exists>target data value. c = JObj [(''target'', JStr target), (''data'', JStr data), (''value'', JStr value)]
     \<and> address_re target \<and> hex_re data \<and> UINT_RE value)"

lemma tb_calls_wire:
  assumes "tb_calls cs = Inr bs"
  shows "length bs = length cs" "\<forall>b \<in> set bs. call_wire_ok b"
proof -
  have l: "list_all2 (\<lambda>c b. tb_call c = Inr b) cs bs"
    using assms by (simp add: tb_calls_def mapM_Inr_iff)
  then show "length bs = length cs" by (simp add: list_all2_lengthD)
  show "\<forall>b \<in> set bs. call_wire_ok b"
    using list_all2_memD [OF l] tb_call_Inr by (metis call_wire_ok_def)
qed

lemma tb_uints_length: "mapM (tb_uint False) cs = Inr bs \<Longrightarrow> length bs = length cs"
  by (auto simp: mapM_Inr_iff dest: list_all2_lengthD)

text \<open>
  C21: A propose request that passes the checks carries a vault and a strategy that are addresses,
  a positive capital, one cap per call in both phases, and calls with an address, hex calldata
  and a number as value.
\<close>

theorem propose_body_is_safe:
  assumes "build_propose_body a = Inr b"
  shows "\<exists>vault strategy cap ecalls ecaps scalls scaps.
      jget b ''vault'' = Some (JStr vault) \<and> jget b ''strategy'' = Some (JStr strategy)
    \<and> address_re vault \<and> address_re strategy
    \<and> jget b ''envelope'' = Some (JObj [(''maxCapital'', JStr cap), (''maxDrawdownBps'', pr_max_drawdown_bps a)])
    \<and> POS_UINT_RE cap \<and> tb_int_in 0 10000 (pr_max_drawdown_bps a)
    \<and> jget b ''executeCalls'' = Some (JList ecalls) \<and> jget b ''executeCallCaps'' = Some (JList (map JStr ecaps))
    \<and> jget b ''settlementCalls'' = Some (JList scalls) \<and> jget b ''settlementCallCaps'' = Some (JList (map JStr scaps))
    \<and> length ecaps = length ecalls \<and> length scaps = length scalls
    \<and> (\<forall>c \<in> set ecalls \<union> set scalls. call_wire_ok c)"
proof -
  have l: "length (pr_execute_calls a) = length (pr_execute_call_caps a)"
    "length (pr_settlement_calls a) = length (pr_settlement_call_caps a)" "tb_int_in 0 10000 (pr_max_drawdown_bps a)"
    using assms by (auto simp: build_propose_body_def split: if_splits)
  obtain vault strategy uri duration cap ecalls ecaps scalls scaps where
    w: "tb_addr (pr_vault a) = Inr vault" "tb_addr (pr_strategy a) = Inr strategy"
      "tb_uint True (pr_max_capital a) = Inr cap"
      "tb_calls (pr_execute_calls a) = Inr ecalls" "mapM (tb_uint False) (pr_execute_call_caps a) = Inr ecaps"
      "tb_calls (pr_settlement_calls a) = Inr scalls" "mapM (tb_uint False) (pr_settlement_call_caps a) = Inr scaps"
    and b: "b = JObj ([(''chainId'', JInt (pr_chain_id a)), (''vault'', JStr vault),
            (''strategy'', JStr strategy), (''metadataURI'', JStr uri),
            (''strategyDuration'', JStr duration),
            (''envelope'', JObj [(''maxCapital'', JStr cap), (''maxDrawdownBps'', pr_max_drawdown_bps a)]),
            (''executeCalls'', JList ecalls), (''executeCallCaps'', JList (map JStr ecaps)),
            (''settlementCalls'', JList scalls), (''settlementCallCaps'', JList (map JStr scaps))]
            @ (if truthy (pr_co_proposers a) then [(''coProposers'', pr_co_proposers a)] else []))"
    using assms by (auto simp: build_propose_body_def and_then_Inr_iff split: if_splits)
  have "length ecaps = length ecalls" "length scaps = length scalls"
    using tb_calls_wire(1) [OF w(4)] tb_calls_wire(1) [OF w(6)] tb_uints_length [OF w(5)] tb_uints_length [OF w(7)] l
    by simp_all
  moreover have "\<forall>c \<in> set ecalls \<union> set scalls. call_wire_ok c"
    using tb_calls_wire(2) [OF w(4)] tb_calls_wire(2) [OF w(6)] by blast
  moreover have "POS_UINT_RE cap" using tb_uint_Inr [OF w(3)] by simp
  moreover have "jget b ''vault'' = Some (JStr vault)" "jget b ''strategy'' = Some (JStr strategy)"
    "jget b ''envelope'' = Some (JObj [(''maxCapital'', JStr cap), (''maxDrawdownBps'', pr_max_drawdown_bps a)])"
    "jget b ''executeCalls'' = Some (JList ecalls)" "jget b ''executeCallCaps'' = Some (JList (map JStr ecaps))"
    "jget b ''settlementCalls'' = Some (JList scalls)" "jget b ''settlementCallCaps'' = Some (JList (map JStr scaps))"
    by (simp_all add: b jget_def)
  moreover have "address_re vault" "address_re strategy" using w(1,2) by (simp_all add: tb_addr_Inr)
  ultimately show ?thesis using l(3) by blast
qed

definition demo_propose :: propose_args where
  "demo_propose = \<lparr>pr_vault = JStr demo_addr, pr_strategy = JStr demo_addr, pr_metadata_uri = JStr ''ipfs://Qm'',
     pr_strategy_duration = JInt 3600, pr_max_capital = JInt 1000, pr_max_drawdown_bps = JInt 500,
     pr_execute_calls = [JObj [(''target'', JStr demo_addr), (''data'', JStr ''0xab'')]],
     pr_execute_call_caps = [JInt 1000], pr_settlement_calls = [], pr_settlement_call_caps = [],
     pr_co_proposers = JNull, pr_chain_id = 8453\<rparr>"

theorem propose_body_is_safe_witness:
  "\<exists>b vault. build_propose_body demo_propose = Inr b \<and> jget b ''vault'' = Some (JStr vault) \<and> address_re vault"
proof -
  have "ok (build_propose_body demo_propose)" by code_simp
  then obtain b where b: "build_propose_body demo_propose = Inr b" by (auto simp: ok_def split: sum.splits)
  from propose_body_is_safe [OF b] b show ?thesis by blast
qed

text \<open>
  The payload of a portfolio draft never fails, and says it is ready exactly when it has a
  duration and one to twenty legs of positive weights that add up to 10000, the vault and the
  proposer are addresses, the capital is a positive number, the drawdown is within 100 percent
  and the quote and the metadata are well formed.
\<close>

theorem portfolio_payload_ready:
  "\<exists>p. portfolio_payload base f r proposer uri = Inr p
     \<and> (py_ready p \<longleftrightarrow> 0 < p_strategy_duration r
       \<and> 1 \<le> length (portfolio_legs_of r) \<and> length (portfolio_legs_of r) \<le> 20
       \<and> list_all (\<lambda>l. 0 < l_weight_bps l) (portfolio_legs_of r)
       \<and> (\<Sum>l \<leftarrow> portfolio_legs_of r. l_weight_bps l) = 10000
       \<and> address_re (f_vault f) \<and> address_re proposer \<and> POS_UINT_RE (p_max_capital r)
       \<and> uri \<in> {u. u = [] \<or> uri_ok u} \<and> 0 \<le> p_max_drawdown_bps r \<and> p_max_drawdown_bps r \<le> 10000
       \<and> p_quote_usd_per_wood r \<in> {q. q = [] \<or> quote_re q})"
  using portfolio_payload_total [of base f r proposer uri] unfolding portfolio_ready_def list_all_iff mem_Collect_eq by blast

text \<open>
  The batches a wallet gets hold every transaction of the action, in its order, one batch per
  chain, and no batch is empty.
\<close>

theorem wallet_batches_partition:
  "distinct (map fst (batches txs))
   \<and> ((c, ts) \<in> set (batches txs) \<longleftrightarrow> ts = filter (\<lambda>t. tx_chain_id t = c) txs \<and> ts \<noteq> [])
   \<and> length (wallet_send_calls a sender) = length (batches (pa_txs a))
   \<and> (t \<in> set txs \<longleftrightarrow> (\<exists>ts. (tx_chain_id t, ts) \<in> set (batches txs) \<and> t \<in> set ts))"
proof -
  have "t \<in> set txs \<longleftrightarrow> (\<exists>ts. (tx_chain_id t, ts) \<in> set (batches txs) \<and> t \<in> set ts)"
    unfolding batches_chain by (auto simp: filter_empty_conv)
  then show ?thesis using batches_distinct batches_chain by (simp add: wallet_send_calls_def)
qed


definition demo_reply :: json where
  "demo_reply = JObj [(''success'', JBool True), (''data'', JObj [(''txs'', JList [JObj [(''to'', JStr demo_addr),
     (''data'', JStr ''0x''), (''chainId'', JInt 8453)]])])]"

definition demo_post :: post_json where
  "demo_post url body = Inr (200, demo_reply)"


section \<open>Who volunteers the wallet of this process\<close>

text \<open>
  \<open>/join-fund\<close> from a chat user volunteers this process's identity only when the user is the
  configured owner.
\<close>

theorem join_fund_needs_the_owner:
  assumes "run_command ctx ''join-fund'' d raw ss = Some (d', es, Said (C_joined name a))" and "ss_user ss = Some u"
  shows "u = se_owner_telegram_id (tc_settings ctx) \<and> u \<noteq> []"
proof -
  have "value_of (cmd_join_fund ctx d (strip raw) ss) = Inr (C_joined name a)"
    using assms(1) by (auto simp: run_command_def COMMANDS_def safe_def split: prod.splits sum.splits exn.splits if_splits)
  from join_fund_owner [OF this assms(2)] show ?thesis .
qed

definition guest_addr :: string where
  "guest_addr = ''0x'' @ replicate 40 (CHR ''b'')"

definition demo_guest_ctx :: tool_ctx where
  "demo_guest_ctx = \<lparr>tc_settings = \<lparr>se_agent_name = ''scout'', se_agent_identity_id = ''13'', se_agent_address = guest_addr,
       se_owner_telegram_id = ''8'', se_default_fund = [], se_tx_builder_url = []\<rparr>,
     tc_caller = \<lparr>ca_platform = [], ca_user_id = [], ca_chat_id = []\<rparr>,
     tc_link = None, tc_ticks = (\<lambda>i. (120, 121))\<rparr>"

lemma demo_join: "\<exists>d' es a. run_command demo_guest_ctx ''join-fund'' demo_d1 ''alpha'' (session_ids (Some ''8'') None)
    = Some (d', es, Said (C_joined ''alpha'' a))"
proof -
  let ?a = "new_agent ''scout'' ''13'' guest_addr ''8''"
  have k: "ok (request_agent_mutate 120 ?a demo_s1)" by code_simp
  obtain r d' es where "write_op demo_d1 121 ''alpha'' (request_agent_mutate 120 ?a) (\<lambda>_. []) = Inr (r, d', es)"
    using demo_step(1) [OF demo_load_1 is_op_mutations(3) k refl] by blast
  moreover have "a_identity_id ?a \<noteq> []" "is_address (a_address ?a)" by code_simp+
  ultimately have w: "request_agent demo_d1 120 121 ''alpha'' ?a = Inr (r, d', es)"
    by (simp add: request_agent_def)
  have f: "fund_for demo_d1 (tc_settings demo_guest_ctx) ''alpha'' [] = Inr ''alpha''" by code_simp
  have g: "missing_identity (tc_settings demo_guest_ctx) = []" "split_ws ''alpha'' = [''alpha'']" "strip ''alpha'' = ''alpha''"
    by code_simp+
  have b: "ss_user (session_ids (Some ''8'') None) = Some ''8''" "se_owner_telegram_id (tc_settings demo_guest_ctx) = ''8''"
    "se_agent_name (tc_settings demo_guest_ctx) = ''scout''" "se_agent_identity_id (tc_settings demo_guest_ctx) = ''13''"
    "se_agent_address (tc_settings demo_guest_ctx) = guest_addr" "or_else ''8'' ''8'' = ''8''"
    "clock demo_guest_ctx 0 = 120" "wtime demo_guest_ctx 0 = 121"
    by code_simp+
  have "cmd_join_fund demo_guest_ctx demo_d1 ''alpha'' (session_ids (Some ''8'') None) = (d', es, Inr (C_joined ''alpha'' r))"
    using w f g b unfolding cmd_join_fund_def Let_def
    by (simp add: did_def then_do_def pure_eff_def)
  then show ?thesis using g(3) by (simp add: run_command_def COMMANDS_def safe_def)
qed

theorem join_fund_needs_the_owner_witness:
  "ss_user (session_ids (Some ''8'') None) = Some (se_owner_telegram_id (tc_settings demo_guest_ctx))"
proof -
  have u: "ss_user (session_ids (Some ''8'') None) = Some ''8''" by code_simp
  obtain d' es a where c: "run_command demo_guest_ctx ''join-fund'' demo_d1 ''alpha'' (session_ids (Some ''8'') None)
      = Some (d', es, Said (C_joined ''alpha'' a))" using demo_join by blast
  from join_fund_needs_the_owner [OF c u] u show ?thesis by simp
qed

end
