(* ===== verification/Links.thy ===== *)
theory Links
  imports AppLink
begin

text \<open>
  \<open>telegram/links.py\<close>: the signed links from the chat into the web app, the signed image URLs and
  the payloads of \<open>/start\<close>. The keyed hash (\<open>hmac\<close> with SHA-256, in hex) is the argument \<open>mac\<close>,
  the keccak digest of the checksum the argument \<open>keccak\<close>; nothing is assumed of them. Ids that
  callers pass as an integer or a text are JSON values. The facts show that one signed message
  never reads as another, and that what is encoded decodes.
\<close>

section \<open>Canonical parts\<close>

definition DEFAULT_APP_BASE_URL :: string where
  "DEFAULT_APP_BASE_URL = ''https://app.sherwood.sh''"

definition FUND_LINK_KINDS :: "string list" where
  "FUND_LINK_KINDS = [''join'', ''deposit'', ''withdraw'']"

definition VOTE_LINK_KIND :: string where "VOTE_LINK_KIND = ''vote''"

definition SIGN_LINK_KIND :: string where "SIGN_LINK_KIND = ''sign''"

definition LINK_TTL_S :: "(string \<times> int) list" where
  "LINK_TTL_S = [(''join'', 15 * 60), (''deposit'', 24 * 3600), (''withdraw'', 24 * 3600),
     (''vote'', 24 * 3600), (''sign'', 15 * 60)]"

definition LINK_FUTURE_SKEW_S :: int where "LINK_FUTURE_SKEW_S = 5 * 60"

definition RECOMMENDED_LINK_TTL_S :: int where "RECOMMENDED_LINK_TTL_S = 15 * 60"

definition link_ttl_s :: "string \<Rightarrow> int" where
  "link_ttl_s kind = (case map_of LINK_TTL_S (if kind = ''propose'' then ''sign'' else kind) of
     None \<Rightarrow> RECOMMENDED_LINK_TTL_S | Some n \<Rightarrow> n)"

definition canonical_address :: "string \<Rightarrow> string result" where
  "canonical_address a = (if address_re (strip a) then Inr (lower (strip a)) else Inl Value_error)"

definition id_char :: "char \<Rightarrow> bool" where
  "id_char c \<longleftrightarrow> is_alnum c \<or> c = CHR ''_'' \<or> c = CHR ''-''"

definition PROPOSAL_ID_RE :: "string \<Rightarrow> bool" where
  "PROPOSAL_ID_RE = dollar_match (\<lambda>s. 1 \<le> length s \<and> length s \<le> 78 \<and> list_all id_char s)"

definition canonical_proposal_id :: "json \<Rightarrow> string result" where
  "canonical_proposal_id pid = and_then (text_of pid) (\<lambda>s.
     if PROPOSAL_ID_RE (strip s) then Inr (strip s) else Inl Value_error)"

definition canonical_tg :: "json \<Rightarrow> string result" where
  "canonical_tg tg_user_id = (case json_int tg_user_id of
     None \<Rightarrow> Inl (int_error tg_user_id)
   | Some tg \<Rightarrow> if tg \<le> 0 then Inl Value_error else Inr (str_int tg))"

section \<open>Signing\<close>

type_synonym mac = "string \<Rightarrow> string \<Rightarrow> string"

definition sign_link :: "mac \<Rightarrow> string \<Rightarrow> string \<Rightarrow> string result" where
  "sign_link mac secret message = (if secret = [] then Inl Value_error else Inr (mac secret message))"

definition bar :: "string list \<Rightarrow> string" where
  "bar = join ''|''"

definition fund_link_message :: "string \<Rightarrow> string \<Rightarrow> json \<Rightarrow> int \<Rightarrow> string result" where
  "fund_link_message kind vault tg ts =
     (if kind \<notin> set FUND_LINK_KINDS then Inl Value_error
      else and_then (canonical_address vault) (\<lambda>v.
           and_then (canonical_tg tg) (\<lambda>t. Inr (bar [kind, v, t, str_int ts]))))"

definition vote_link_message :: "string \<Rightarrow> json \<Rightarrow> json \<Rightarrow> int \<Rightarrow> string result" where
  "vote_link_message governor proposal_id tg ts =
     and_then (canonical_address governor) (\<lambda>g.
     and_then (canonical_proposal_id proposal_id) (\<lambda>p.
     and_then (canonical_tg tg) (\<lambda>t. Inr (bar [VOTE_LINK_KIND, g @ '':'' @ p, t, str_int ts]))))"

definition app_base :: "string \<Rightarrow> string" where
  "app_base base_url = rstrip_of (CHR ''/'') (or_else base_url DEFAULT_APP_BASE_URL)"

text \<open>\<open>urllib.parse.quote(s, safe=...)\<close>\<close>

fun quote_text :: "string \<Rightarrow> string \<Rightarrow> string" where
  "quote_text safe [] = []"
| "quote_text safe (c # cs) =
     (if is_alnum c \<or> c \<in> set ''_.-~'' \<or> c \<in> set safe then [c]
      else [CHR ''%'', hex_digit (code_of c div 16), hex_digit (code_of c mod 16)]) @ quote_text safe cs"

text \<open>\<open>&tg=...&ts=...&sig=...\<close>\<close>

definition signed_tail :: "string \<Rightarrow> int \<Rightarrow> string \<Rightarrow> string" where
  "signed_tail tg ts sig = ''&tg='' @ tg @ ''&ts='' @ str_int ts @ ''&sig='' @ sig"

record link_args =
  la_tg_user_id :: json
  la_base_url :: string
  la_fund :: "string option"
  la_governor :: "string option"
  la_proposal_id :: json
  la_ts :: "int option"

definition link_ts :: "int option \<Rightarrow> time \<Rightarrow> int" where
  "link_ts ts now = (case ts of None \<Rightarrow> trunc now | Some t \<Rightarrow> t)"

definition build_link :: "mac \<Rightarrow> string \<Rightarrow> time \<Rightarrow> string \<Rightarrow> link_args \<Rightarrow> string result" where
  "build_link mac secret now kind a =
     (let ts = link_ts (la_ts a) now in
      and_then (canonical_tg (la_tg_user_id a)) (\<lambda>tg.
        if kind \<in> set FUND_LINK_KINDS then
          (case la_fund a of
             None \<Rightarrow> Inl Value_error
           | Some fund \<Rightarrow>
               and_then (canonical_address fund) (\<lambda>vault.
               and_then (fund_link_message kind vault (JStr tg) ts) (\<lambda>m.
               and_then (sign_link mac secret m) (\<lambda>sig.
                 Inr (app_base (la_base_url a) @ ''/tg/'' @ kind @ ''?fund='' @ vault @ signed_tail tg ts sig)))))
        else if kind = VOTE_LINK_KIND then
          (case la_governor a of
             None \<Rightarrow> Inl Value_error
           | Some governor \<Rightarrow>
               if la_proposal_id a = JNull then Inl Value_error
               else
               and_then (canonical_address governor) (\<lambda>gov.
               and_then (canonical_proposal_id (la_proposal_id a)) (\<lambda>pid.
               and_then (vote_link_message gov (JStr pid) (JStr tg) ts) (\<lambda>m.
               and_then (sign_link mac secret m) (\<lambda>sig.
                 Inr (app_base (la_base_url a) @ ''/tg/vote?proposal='' @ quote_text '':'' (gov @ '':'' @ pid)
                   @ signed_tail tg ts sig))))))
        else Inl Value_error))"

definition verify_link_signature ::
  "mac \<Rightarrow> string \<Rightarrow> string \<Rightarrow> string \<Rightarrow> int \<Rightarrow> time \<Rightarrow> int \<Rightarrow> int \<Rightarrow> bool result" where
  "verify_link_signature mac secret message sig ts now max_age skew =
     (if of_int ts > now + of_int skew \<or> now - of_int ts > of_int max_age then Inr False
      else and_then (sign_link mac secret message) (\<lambda>expected. Inr (expected = lower (strip sig))))"

section \<open>Host signing links\<close>

definition SIGN_ACTIONS :: "string list" where
  "SIGN_ACTIONS = [''approve-depositor'', ''approve-depositors'', ''register-agent'', ''propose-portfolio'',
     ''propose'', ''set-agent-fee'']"

definition SIGN_URL_MAX :: nat where "SIGN_URL_MAX = 2048"

text \<open>
  \<open>json.dumps(body, separators=(",", ":"), sort_keys=True)\<close> on ASCII text; a number with a fraction
  has no text here.
\<close>

definition json_escape :: "char \<Rightarrow> string" where
  "json_escape c =
     (if c = CHR 0x22 then [CHR 0x5C, CHR 0x22]
      else if c = CHR 0x5C then [CHR 0x5C, CHR 0x5C]
      else if c = CHR 0x0A then [CHR 0x5C, CHR ''n'']
      else if c = CHR 0x0D then [CHR 0x5C, CHR ''r'']
      else if c = CHR 0x09 then [CHR 0x5C, CHR ''t'']
      else if c = CHR 0x0C then [CHR 0x5C, CHR ''f'']
      else if c = CHR 0x08 then [CHR 0x5C, CHR ''b'']
      else if code_of c < 32 \<or> code_of c > 126 then
        [CHR 0x5C, CHR ''u'', CHR ''0'', CHR ''0'', lower_char (hex_digit (code_of c div 16)),
         lower_char (hex_digit (code_of c mod 16))]
      else [c])"

definition json_string :: "string \<Rightarrow> string" where
  "json_string s = CHR 0x22 # concat (map json_escape s) @ [CHR 0x22]"

definition all_some :: "'a option list \<Rightarrow> 'a list option" where
  "all_some xs = (if None \<in> set xs then None else Some (map the xs))"

fun json_dumps :: "json \<Rightarrow> string option" where
  "json_dumps JNull = Some ''null''"
| "json_dumps (JBool b) = Some (if b then ''true'' else ''false'')"
| "json_dumps (JInt i) = Some (str_int i)"
| "json_dumps (JNum r) = None"
| "json_dumps (JStr s) = Some (json_string s)"
| "json_dumps (JList l) = map_option (\<lambda>ts. ''['' @ join '','' ts @ '']'') (all_some (map json_dumps l))"
| "json_dumps (JObj o') = map_option (\<lambda>ts. ''{'' @ join '','' ts @ ''}'')
     (all_some (map (\<lambda>(k, v). map_option (\<lambda>t. json_string k @ '':'' @ t) v)
       (sort_key fst (map (\<lambda>(k, v). (k, json_dumps v)) o'))))"

text \<open>\<open>base64.urlsafe_b64encode\<close>\<close>

definition b64_char :: "int \<Rightarrow> char" where
  "b64_char n = (if n < 26 then char_of (65 + n) else if n < 52 then char_of (71 + n)
     else if n < 62 then char_of (n - 4) else if n = 62 then CHR ''-'' else CHR ''_'')"

fun b64_encode :: "string \<Rightarrow> string" where
  "b64_encode [] = []"
| "b64_encode [a] = [b64_char (code_of a div 4), b64_char (code_of a mod 4 * 16), CHR ''='', CHR ''='']"
| "b64_encode [a, b] = [b64_char (code_of a div 4), b64_char (code_of a mod 4 * 16 + code_of b div 16),
     b64_char (code_of b mod 16 * 4), CHR ''='']"
| "b64_encode (a # b # c # cs) = b64_char (code_of a div 4) # b64_char (code_of a mod 4 * 16 + code_of b div 16)
     # b64_char (code_of b mod 16 * 4 + code_of c div 64) # b64_char (code_of c mod 64) # b64_encode cs"

text \<open>
  \<open>base64.urlsafe_b64decode\<close>: other characters are skipped, padding after two characters of a group
  ends the text, and a group left open is an error. \<open>q\<close> counts the characters of the group,
  \<open>left\<close> holds its bits that are not written yet, \<open>pads\<close> counts the padding.
\<close>

definition b64_val :: "char \<Rightarrow> int option" where
  "b64_val c = (let n = code_of c in
     if is_upper_char c then Some (n - 65) else if is_lower_char c then Some (n - 71)
     else if is_digit c then Some (n + 4) else if c = CHR ''-'' \<or> c = CHR ''+'' then Some 62
     else if c = CHR ''_'' \<or> c = CHR ''/'' then Some 63 else None)"

fun b64_decode :: "nat \<Rightarrow> int \<Rightarrow> nat \<Rightarrow> string \<Rightarrow> string result" where
  "b64_decode q left pads [] = (if q = 0 then Inr [] else Inl Value_error)"
| "b64_decode q left pads (c # cs) =
     (if c = CHR ''='' then
        (if 2 \<le> q \<and> 4 \<le> q + pads + 1 then Inr []
         else b64_decode q left (if 2 \<le> q then pads + 1 else pads) cs)
      else case b64_val c of
        None \<Rightarrow> b64_decode q left pads cs
      | Some v \<Rightarrow>
          if q = 0 then b64_decode 1 v 0 cs
          else if q = 1 then and_then (b64_decode 2 (v mod 16) 0 cs) (\<lambda>r. Inr (char_of (left * 4 + v div 16) # r))
          else if q = 2 then and_then (b64_decode 3 (v mod 4) 0 cs) (\<lambda>r. Inr (char_of (left * 16 + v div 4) # r))
          else and_then (b64_decode 0 0 0 cs) (\<lambda>r. Inr (char_of (left * 64 + v) # r)))"

definition encode_bytes :: "string \<Rightarrow> string" where
  "encode_bytes raw = rstrip_of (CHR ''='') (b64_encode raw)"

definition encode_sign_body :: "json \<Rightarrow> string option" where
  "encode_sign_body body = map_option encode_bytes (json_dumps body)"

text \<open>The bytes \<open>decode_sign_body\<close> hands to \<open>json.loads\<close>: the padding is \<open>-len(encoded) % 4\<close>.\<close>

definition decode_bytes :: "string \<Rightarrow> string result" where
  "decode_bytes encoded = b64_decode 0 0 0 (encoded @ replicate (nat (- int (length encoded) mod 4)) (CHR ''=''))"

definition decode_sign_body :: "(string \<Rightarrow> json result) \<Rightarrow> string \<Rightarrow> json result" where
  "decode_sign_body loads encoded = and_then (decode_bytes encoded) loads"

definition sign_link_message :: "string \<Rightarrow> string \<Rightarrow> string \<Rightarrow> json \<Rightarrow> int \<Rightarrow> string result" where
  "sign_link_message vault action body tg ts =
     (if action \<notin> set SIGN_ACTIONS then Inl Value_error
      else and_then (canonical_address vault) (\<lambda>v.
           and_then (canonical_tg tg) (\<lambda>t. Inr (bar [SIGN_LINK_KIND, v, action, body, t, str_int ts]))))"

text \<open>\<open>Inr None\<close>: the URL would be too long for a button.\<close>

definition build_sign_link ::
  "mac \<Rightarrow> string \<Rightarrow> time \<Rightarrow> string \<Rightarrow> string \<Rightarrow> json \<Rightarrow> json \<Rightarrow> string \<Rightarrow> int option \<Rightarrow> string option result" where
  "build_sign_link mac secret now vault action body tg_user_id base_url ts0 =
     (let ts = link_ts ts0 now in
      and_then (canonical_address vault) (\<lambda>v.
      and_then (canonical_tg tg_user_id) (\<lambda>tg.
      case encode_sign_body body of
        None \<Rightarrow> Inl Type_error
      | Some encoded \<Rightarrow>
          and_then (sign_link_message v action encoded (JStr tg) ts) (\<lambda>m.
          and_then (sign_link mac secret m) (\<lambda>sig.
            let url = app_base base_url @ ''/tg/sign?fund='' @ v @ ''&action='' @ action @ ''&body='' @ encoded
              @ signed_tail tg ts sig
            in Inr (if length url \<le> SIGN_URL_MAX then Some url else None))))))"

section \<open>Share images\<close>

definition ATTRIB_MAX_PAIRS :: nat where "ATTRIB_MAX_PAIRS = 100"

text \<open>EIP-55; \<open>keccak\<close> gives the 64 hex digits of the digest.\<close>

definition checksum_address :: "(string \<Rightarrow> string) \<Rightarrow> string \<Rightarrow> string result" where
  "checksum_address keccak address = and_then (canonical_address address) (\<lambda>a.
     let l = drop 2 a in
     Inr (''0x'' @ map2 (\<lambda>c d. if is_alpha c \<and> 8 \<le> hex_digit_val d then upper_char c else c) l (keccak l)))"

text \<open>\<open>str(v or "")\<close>\<close>

definition text_or_empty :: "json \<Rightarrow> string result" where
  "text_or_empty v = (if truthy v then text_of v else Inr [])"

definition social_handle :: "json \<Rightarrow> string result" where
  "social_handle handle = and_then (text_or_empty handle) (\<lambda>s.
     Inr (take 32 (filter is_word_char (lstrip_of (CHR ''@'') s))))"

definition proposal_ref :: "json \<Rightarrow> string result" where
  "proposal_ref proposal_id = and_then (text_of proposal_id) (\<lambda>s.
     if isdigit (strip s) then Inr (strip s) else Inl Value_error)"

definition int_text :: "json \<Rightarrow> string result" where
  "int_text v = (case json_int v of None \<Rightarrow> Inl (int_error v) | Some n \<Rightarrow> Inr (str_int n))"

definition backers_text :: "json \<Rightarrow> string result" where
  "backers_text backers = and_then (text_of backers) (\<lambda>t.
     if strip t \<in> {[], ''None''} then Inr [] else int_text backers)"

definition receipt_image_message ::
  "(string \<Rightarrow> string) \<Rightarrow> string \<Rightarrow> json \<Rightarrow> json \<Rightarrow> json \<Rightarrow> string result" where
  "receipt_image_message keccak vault proposal_id by_name backers =
     and_then (social_handle by_name) (\<lambda>b.
     and_then (backers_text backers) (\<lambda>n.
     and_then (checksum_address keccak vault) (\<lambda>v.
     and_then (proposal_ref proposal_id) (\<lambda>p.
       Inr (bar [''receipt'', v @ '':'' @ p, b, n])))))"

text \<open>\<open>^\d{4}-\d{2}-\d{2}$\<close>\<close>

definition DATE_RE :: "string \<Rightarrow> bool" where
  "DATE_RE = dollar_match (\<lambda>s. length s = 10 \<and> list_all is_digit (take 4 s) \<and> s ! 4 = CHR ''-''
     \<and> list_all is_digit (take 2 (drop 5 s)) \<and> s ! 7 = CHR ''-'' \<and> list_all is_digit (drop 8 s))"

definition member_image_message ::
  "(string \<Rightarrow> string) \<Rightarrow> string \<Rightarrow> json \<Rightarrow> json \<Rightarrow> string \<Rightarrow> string result" where
  "member_image_message keccak vault n handle since =
     (if since \<noteq> [] \<and> \<not> DATE_RE since then Inl Value_error
      else and_then (checksum_address keccak vault) (\<lambda>v.
           and_then (int_text n) (\<lambda>k.
           and_then (social_handle handle) (\<lambda>h. Inr (bar [''member'', v @ '':'' @ k, h, since])))))"

fun attrib_items :: "(json \<times> json) list \<Rightarrow> string list result" where
  "attrib_items [] = Inr []"
| "attrib_items ((pid, handle) # pairs) =
     and_then (social_handle handle) (\<lambda>h.
     and_then (if h = [] then Inr [] else and_then (text_of pid) (\<lambda>t.
         if isdigit (strip t) then and_then (int_text pid) (\<lambda>k. Inr [k @ '':'' @ h]) else Inr [])) (\<lambda>item.
     and_then (attrib_items pairs) (\<lambda>items. Inr (item @ items))))"

definition leaderboard_attrib :: "(json \<times> json) list \<Rightarrow> string result" where
  "leaderboard_attrib pairs = and_then (attrib_items (take ATTRIB_MAX_PAIRS pairs)) (\<lambda>items. Inr (join '','' items))"

definition attrib_image_message :: "(string \<Rightarrow> string) \<Rightarrow> string \<Rightarrow> string \<Rightarrow> string result" where
  "attrib_image_message keccak vault attrib =
     and_then (checksum_address keccak vault) (\<lambda>v. Inr (bar [''attrib'', v, attrib]))"

text \<open>\<open>urlencode(..., safe=":,")\<close>: a space becomes a plus sign.\<close>

definition quote_value :: "string \<Rightarrow> string" where
  "quote_value s = concat (map (\<lambda>c. if c = CHR '' '' then ''+'' else quote_text '':,'' [c]) s)"

definition image_url :: "string \<Rightarrow> (string \<times> string) list \<Rightarrow> string \<Rightarrow> string" where
  "image_url path params base_url =
     (let query = join ''&'' (map (\<lambda>(k, v). quote_value k @ ''='' @ quote_value v) (filter (\<lambda>(k, v). v \<noteq> []) params))
      in app_base base_url @ path @ (if query \<noteq> [] then ''?'' @ query else []))"

text \<open>The fields are read back from the message; a message of other than four parts is a \<open>ValueError\<close>.\<close>

definition receipt_image_url ::
  "(string \<Rightarrow> string) \<Rightarrow> mac \<Rightarrow> string \<Rightarrow> string \<Rightarrow> json \<Rightarrow> json \<Rightarrow> json \<Rightarrow> string \<Rightarrow> string result" where
  "receipt_image_url keccak mac secret vault proposal_id by_name backers base_url =
     and_then (checksum_address keccak vault) (\<lambda>v.
     and_then (proposal_ref proposal_id) (\<lambda>pid.
     and_then (receipt_image_message keccak v (JStr pid) by_name backers) (\<lambda>m.
     case split_on (CHR ''|'') [] m of
       [_, _, b, n] \<Rightarrow> and_then (sign_link mac secret m) (\<lambda>sig.
         Inr (image_url (''/tg/receipt/'' @ v @ ''/'' @ pid @ ''.png'')
           [(''by'', b), (''backers'', n), (''sig'', sig)] base_url))
     | _ \<Rightarrow> Inl Value_error)))"

definition member_image_url ::
  "(string \<Rightarrow> string) \<Rightarrow> mac \<Rightarrow> string \<Rightarrow> string \<Rightarrow> json \<Rightarrow> json \<Rightarrow> string \<Rightarrow> string \<Rightarrow> string result" where
  "member_image_url keccak mac secret vault n handle since base_url =
     and_then (checksum_address keccak vault) (\<lambda>v.
     and_then (member_image_message keccak v n handle since) (\<lambda>m.
     and_then (sign_link mac secret m) (\<lambda>sig.
     and_then (int_text n) (\<lambda>k.
     and_then (social_handle handle) (\<lambda>h.
       Inr (image_url (''/tg/member/'' @ v @ ''/'' @ k @ ''.png'')
         [(''handle'', h), (''joined'', since), (''sig'', sig)] base_url))))))"

definition leaderboard_image_url ::
  "(string \<Rightarrow> string) \<Rightarrow> mac \<Rightarrow> string \<Rightarrow> string \<Rightarrow> string \<Rightarrow> string \<Rightarrow> string \<Rightarrow> string result" where
  "leaderboard_image_url keccak mac secret vault attrib window base_url =
     and_then (checksum_address keccak vault) (\<lambda>v.
     and_then (attrib_image_message keccak v attrib) (\<lambda>m.
     and_then (sign_link mac secret m) (\<lambda>sig.
       Inr (image_url (''/tg/leaderboard/'' @ v @ ''.png'')
         [(''window'', window), (''attrib'', attrib), (''sig'', sig)] base_url))))"

definition fund_card_image_url :: "(string \<Rightarrow> string) \<Rightarrow> string \<Rightarrow> bool \<Rightarrow> string \<Rightarrow> string result" where
  "fund_card_image_url keccak vault square base_url =
     and_then (checksum_address keccak vault) (\<lambda>v.
       Inr (app_base base_url @ ''/tg/fund/'' @ v @ ''/card.png'' @ (if square then ''?square=1'' else [])))"

definition fund_page_url :: "string \<Rightarrow> string \<Rightarrow> string result" where
  "fund_page_url vault base_url =
     and_then (canonical_address vault) (\<lambda>v. Inr (app_base base_url @ ''/tg/fund/'' @ v))"

section \<open>Start payloads\<close>

definition START_KINDS :: "(string \<times> string) list" where
  "START_KINDS = [(''join'', ''j''), (''deposit'', ''d''), (''withdraw'', ''w''), (''vote'', ''v''), (''propose'', ''p'')]"

definition START_PAYLOAD_MAX :: nat where "START_PAYLOAD_MAX = 64"

definition START_KINDS_REV :: "(string \<times> string) list" where
  "START_KINDS_REV = map (\<lambda>(k, v). (v, k)) START_KINDS"

definition item_full :: "string \<Rightarrow> bool" where
  "item_full s \<longleftrightarrow> 1 \<le> length s \<and> length s \<le> 40 \<and> list_all id_char s"

definition encode_start_payload :: "string \<Rightarrow> string \<Rightarrow> json \<Rightarrow> string result" where
  "encode_start_payload kind vault item_id =
     (case map_of START_KINDS kind of
        None \<Rightarrow> Inl Value_error
      | Some code \<Rightarrow>
          and_then (canonical_address vault) (\<lambda>v.
          and_then (if item_id = JNull then Inr [] else and_then (text_of item_id) (\<lambda>item.
              if dollar_match item_full item then Inr (''_'' @ item) else Inl Value_error)) (\<lambda>tail.
            let payload = ''sf'' @ code @ ''_'' @ drop 2 v @ tail in
            if length payload > START_PAYLOAD_MAX then Inl Value_error else Inr payload)))"

text \<open>\<open>_START_RE\<close>: the letter, the 40 hex digits and the item id.\<close>

definition lower_hex :: "char \<Rightarrow> bool" where
  "lower_hex c \<longleftrightarrow> is_digit c \<or> in_range 97 102 c"

definition start_parts :: "string \<Rightarrow> (string \<times> string \<times> string option) option" where
  "start_parts s =
     (let body = take 40 (drop 4 s); rest = drop 44 s in
      if take 2 s = ''sf'' \<and> 44 \<le> length s \<and> is_lower_char (s ! 2) \<and> s ! 3 = CHR ''_'' \<and> list_all lower_hex body
      then (if rest = [] then Some ([s ! 2], body, None)
            else if hd rest = CHR ''_'' \<and> item_full (tl rest) then Some ([s ! 2], body, Some (tl rest))
            else None)
      else None)"

definition decode_start_payload :: "string \<Rightarrow> (string \<times> string \<times> string option) option" where
  "decode_start_payload payload =
     (case start_parts (strip payload) of
        None \<Rightarrow> None
      | Some (code, body, item) \<Rightarrow>
          (case map_of START_KINDS_REV code of
             None \<Rightarrow> None
           | Some kind \<Rightarrow> Some (kind, ''0x'' @ body, item)))"

end
