(* ===== verification/LinkProps.thy ===== *)
theory LinkProps
  imports Links Demo
begin

text \<open>
  The properties of the signed links: every message that is signed with the link secret reads in
  one way only, a link verifies in its window and nowhere else, and payloads decode.
\<close>

section \<open>Parts without separators\<close>

lemma canonical_address_Inr:
  assumes "canonical_address a = Inr v"
  shows "\<exists>h. v = ''0x'' @ h \<and> length h = 40 \<and> list_all lower_hex h"
proof -
  let ?s = "strip a"
  have a: "address_re ?s" and v: "v = lower ?s"
    using assms by (auto simp: canonical_address_def split: if_splits)
  have ne: "?s \<noteq> []" using a by (auto simp: address_re_def dollar_match_def is_hex_text_def startswith_def)
  have "\<not> is_space (last ?s)" using ne strip_eq_iff [of ?s] by simp
  then have "last ?s \<noteq> CHR 0x0A" by (auto simp: is_space_def in_range_def)
  then have h: "is_hex_text ?s" "length ?s = 42"
    using a by (auto simp: address_re_def dollar_match_def)
  have "take 2 ?s = ''0x''" "list_all is_hex (drop 2 ?s)"
    using h(1) by (simp_all add: is_hex_text_def startswith_def numeral_2_eq_2)
  then have "?s = ''0x'' @ drop 2 ?s" by (metis append_take_drop_id)
  moreover have "lower ''0x'' = ''0x''" by code_simp
  ultimately have "v = ''0x'' @ lower (drop 2 ?s)" unfolding v by (metis lower_append)
  moreover have "list_all lower_hex (lower (drop 2 ?s))"
    using \<open>list_all is_hex (drop 2 ?s)\<close>
    by (auto simp: list_all_iff lower_def lower_hex_def is_hex_def in_range_def is_digit_def code_of_lower_char is_upper_char_def)
  moreover have "length (lower (drop 2 ?s)) = 40" using h(2) by simp
  ultimately show ?thesis by blast
qed

lemma lower_hex_not_sep: "lower_hex c \<Longrightarrow> c \<noteq> CHR ''|'' \<and> c \<noteq> CHR '':'' \<and> \<not> is_space c"
  by (auto simp: lower_hex_def is_digit_def in_range_def is_space_def)

lemma canonical_address_seps:
  assumes "canonical_address a = Inr v"
  shows "CHR ''|'' \<notin> set v" "CHR '':'' \<notin> set v"
proof -
  obtain h where h: "v = ''0x'' @ h" "\<And>c. c \<in> set h \<Longrightarrow> lower_hex c"
    using canonical_address_Inr [OF assms] by (auto simp: list_all_iff)
  have "CHR ''|'' \<notin> set h" "CHR '':'' \<notin> set h" using h(2) lower_hex_not_sep by blast+
  then show "CHR ''|'' \<notin> set v" "CHR '':'' \<notin> set v" by (simp_all add: h(1))
qed

lemma canonical_address_again:
  assumes "canonical_address a = Inr v"
  shows "canonical_address v = Inr v"
proof -
  have v: "v = lower (strip a)" "address_re (strip a)"
    using assms by (auto simp: canonical_address_def split: if_splits)
  obtain h where h: "v = ''0x'' @ h" "length h = 40" "list_all lower_hex h"
    using canonical_address_Inr [OF assms] by blast
  have "list_all is_hex h" using h(3) by (auto simp: list_all_iff lower_hex_def is_hex_def)
  then have "address_re v" using h by (simp add: address_re_def dollar_match_def is_hex_text_def startswith_def)
  moreover have "strip v = v" using v(1) by (simp add: strip_lower)
  ultimately show ?thesis using v(1) by (simp add: canonical_address_def)
qed

lemma canonical_tg_seps: "canonical_tg t = Inr s \<Longrightarrow> CHR ''|'' \<notin> set s"
  using str_int_not_in(1) by (auto simp: canonical_tg_def split: option.splits if_splits)

lemma id_char_not_sep: "id_char c \<Longrightarrow> c \<noteq> CHR ''|'' \<and> c \<noteq> CHR '':'' \<and> \<not> is_space c"
  by (auto simp: id_char_def is_alnum_def is_alpha_def is_digit_def is_upper_char_def is_lower_char_def
      in_range_def is_space_def)

lemma word_char_not_sep: "is_word_char c \<Longrightarrow> c \<noteq> CHR ''|'' \<and> c \<noteq> CHR '':''"
  using id_char_not_sep by (auto simp: id_char_def is_word_char_def)

lemma dollar_match_list_all:
  "dollar_match (\<lambda>s. Q s \<and> list_all P s) t \<Longrightarrow> c \<in> set t \<Longrightarrow> P c \<or> c = CHR 0x0A"
  by (cases t rule: rev_cases) (auto simp: dollar_match_def list_all_iff)

lemma proposal_id_seps:
  assumes "canonical_proposal_id p = Inr s"
  shows "CHR ''|'' \<notin> set s" "CHR '':'' \<notin> set s"
proof -
  have "PROPOSAL_ID_RE s" using assms by (auto simp: canonical_proposal_id_def and_then_Inr_iff split: if_splits)
  then have "\<And>c. c \<in> set s \<Longrightarrow> id_char c \<or> c = CHR 0x0A"
    unfolding PROPOSAL_ID_RE_def conj_assoc [symmetric] by (rule dollar_match_list_all)
  then show "CHR ''|'' \<notin> set s" "CHR '':'' \<notin> set s" using id_char_not_sep by force+
qed

lemma sep_inject_right:
  assumes "x @ c # a = y @ c # b" and "c \<notin> set a" and "c \<notin> set b"
  shows "x = y \<and> a = b"
proof -
  have "rev a @ c # rev x = rev b @ c # rev y" using arg_cong [OF assms(1), of rev] by simp
  from sep_inject [OF this] assms(2,3) show ?thesis by simp
qed

lemma bar_simps: "bar [a] = a" "bar (a # b # xs) = a @ CHR ''|'' # bar (b # xs)"
  by (simp_all add: bar_def)

lemma bar_split:
  assumes "bar (a # b # xs) = bar (c # d # ys)" and "CHR ''|'' \<notin> set a" and "CHR ''|'' \<notin> set c"
  shows "a = c \<and> bar (b # xs) = bar (d # ys)"
  using sep_inject assms unfolding bar_simps by metis

section \<open>One message, one reading\<close>

text \<open>Everything that is signed with the link secret.\<close>

datatype signed =
    S_fund string string json int
  | S_vote string json json int
  | S_sign string string string json int
  | S_receipt string json json json
  | S_member string json json string
  | S_attrib string string

fun message_of :: "(string \<Rightarrow> string) \<Rightarrow> signed \<Rightarrow> string result" where
  "message_of keccak (S_fund kind vault tg ts) = fund_link_message kind vault tg ts"
| "message_of keccak (S_vote governor pid tg ts) = vote_link_message governor pid tg ts"
| "message_of keccak (S_sign vault action body tg ts) = sign_link_message vault action body tg ts"
| "message_of keccak (S_receipt vault pid who backers) = receipt_image_message keccak vault pid who backers"
| "message_of keccak (S_member vault n handle since) = member_image_message keccak vault n handle since"
| "message_of keccak (S_attrib vault attrib) = attrib_image_message keccak vault attrib"

text \<open>Two requests for the same thing: the canonical parts agree.\<close>

fun same_request :: "(string \<Rightarrow> string) \<Rightarrow> signed \<Rightarrow> signed \<Rightarrow> bool" where
  "same_request keccak (S_fund k v t s) (S_fund k' v' t' s') =
     (k = k' \<and> canonical_address v = canonical_address v' \<and> canonical_tg t = canonical_tg t' \<and> s = s')"
| "same_request keccak (S_vote g p t s) (S_vote g' p' t' s') =
     (canonical_address g = canonical_address g' \<and> canonical_proposal_id p = canonical_proposal_id p'
      \<and> canonical_tg t = canonical_tg t' \<and> s = s')"
| "same_request keccak (S_sign v a b t s) (S_sign v' a' b' t' s') =
     (canonical_address v = canonical_address v' \<and> a = a' \<and> b = b' \<and> canonical_tg t = canonical_tg t' \<and> s = s')"
| "same_request keccak (S_receipt v p w b) (S_receipt v' p' w' b') =
     (checksum_address keccak v = checksum_address keccak v' \<and> proposal_ref p = proposal_ref p'
      \<and> social_handle w = social_handle w' \<and> backers_text b = backers_text b')"
| "same_request keccak (S_member v n h s) (S_member v' n' h' s') =
     (checksum_address keccak v = checksum_address keccak v' \<and> int_text n = int_text n'
      \<and> social_handle h = social_handle h' \<and> s = s')"
| "same_request keccak (S_attrib v a) (S_attrib v' a') =
     (checksum_address keccak v = checksum_address keccak v' \<and> a = a')"
| "same_request keccak _ _ = False"

text \<open>The kind in front of a message.\<close>

fun kind_of :: "signed \<Rightarrow> string" where
  "kind_of (S_fund k v t s) = k"
| "kind_of (S_vote g p t s) = ''vote''"
| "kind_of (S_sign v a b t s) = ''sign''"
| "kind_of (S_receipt v p w b) = ''receipt''"
| "kind_of (S_member v n h s) = ''member''"
| "kind_of (S_attrib v a) = ''attrib''"

lemma upper_hex_not_sep:
  assumes "lower_hex c"
  shows "upper_char c \<noteq> CHR ''|''" "upper_char c \<noteq> CHR '':''"
proof -
  have "code_of (upper_char c) = (if is_lower_char c then code_of c - 32 else code_of c)"
    by (auto simp: upper_char_def is_lower_char_def in_range_def code_of_char_of)
  then have "code_of (upper_char c) < 100"
    using assms by (auto simp: lower_hex_def is_digit_def is_lower_char_def in_range_def)
  moreover have "code_of (upper_char c) \<noteq> 58"
    using assms \<open>code_of (upper_char c) = _\<close>
    by (auto simp: lower_hex_def is_digit_def is_lower_char_def in_range_def)
  ultimately show "upper_char c \<noteq> CHR ''|''" "upper_char c \<noteq> CHR '':''" by auto
qed

lemma checksum_seps:
  assumes "checksum_address keccak a = Inr v"
  shows "CHR ''|'' \<notin> set v" "CHR '':'' \<notin> set v"
proof -
  obtain w where w: "canonical_address a = Inr w" using assms by (auto simp: checksum_address_def and_then_Inr_iff)
  obtain h where h: "w = ''0x'' @ h" "list_all lower_hex h" using canonical_address_Inr [OF w] by blast
  define g where "g = map2 (\<lambda>c d. if is_alpha c \<and> 8 \<le> hex_digit_val d then upper_char c else c) h (keccak h)"
  have v: "v = ''0x'' @ g" using assms w h(1) by (simp add: checksum_address_def g_def)
  have "x \<noteq> CHR ''|'' \<and> x \<noteq> CHR '':''" if x: "x \<in> set g" for x
  proof -
    obtain c d where cd: "(c, d) \<in> set (zip h (keccak h))" "x = (if is_alpha c \<and> 8 \<le> hex_digit_val d then upper_char c else c)"
      using x unfolding g_def by auto
    have "lower_hex c" using cd(1) h(2) by (auto simp: list_all_iff dest: set_zip_leftD)
    then show ?thesis using cd(2) upper_hex_not_sep lower_hex_not_sep by (cases "is_alpha c \<and> 8 \<le> hex_digit_val d") simp_all
  qed
  then have "CHR ''|'' \<notin> set g" "CHR '':'' \<notin> set g" by blast+
  then show "CHR ''|'' \<notin> set v" "CHR '':'' \<notin> set v" by (simp_all add: v)
qed

lemma social_handle_seps: "social_handle h = Inr s \<Longrightarrow> CHR ''|'' \<notin> set s"
  using word_char_not_sep by (fastforce simp: social_handle_def and_then_Inr_iff dest!: in_set_takeD)

lemma int_text_seps: "int_text n = Inr s \<Longrightarrow> CHR ''|'' \<notin> set s \<and> CHR '':'' \<notin> set s"
  using str_int_not_in by (auto simp: int_text_def split: option.splits)

lemma proposal_ref_seps: "proposal_ref p = Inr s \<Longrightarrow> CHR ''|'' \<notin> set s \<and> CHR '':'' \<notin> set s"
  using digits_not_in by (auto simp: proposal_ref_def and_then_Inr_iff isdigit_def split: if_splits)

lemma backers_text_seps: "backers_text b = Inr s \<Longrightarrow> CHR ''|'' \<notin> set s"
  using int_text_seps by (fastforce simp: backers_text_def and_then_Inr_iff split: if_splits)

lemma message_head:
  assumes "message_of keccak a = Inr m"
  shows "\<exists>rest. m = kind_of a @ CHR ''|'' # rest" "CHR ''|'' \<notin> set (kind_of a)"
proof -
  show "\<exists>rest. m = kind_of a @ CHR ''|'' # rest"
    using assms
    by (cases a) (auto simp: fund_link_message_def vote_link_message_def sign_link_message_def
      receipt_image_message_def member_image_message_def attrib_image_message_def and_then_Inr_iff
      VOTE_LINK_KIND_def SIGN_LINK_KIND_def bar_simps split: if_splits)
  show "CHR ''|'' \<notin> set (kind_of a)"
    using assms by (cases a) (auto simp: fund_link_message_def FUND_LINK_KINDS_def split: if_splits)
qed

lemma same_kind:
  assumes "message_of keccak a = Inr m" and "message_of keccak b = Inr m"
  shows "kind_of a = kind_of b"
  using message_head [OF assms(1)] message_head [OF assms(2)] sep_inject by metis

fun tag :: "signed \<Rightarrow> nat" where
  "tag (S_fund k v t s) = 0"
| "tag (S_vote g p t s) = 1"
| "tag (S_sign v a b t s) = 2"
| "tag (S_receipt v p w b) = 3"
| "tag (S_member v n h s) = 4"
| "tag (S_attrib v a) = 5"

definition tag_of :: "string \<Rightarrow> nat" where
  "tag_of k = (if k = ''vote'' then 1 else if k = ''sign'' then 2 else if k = ''receipt'' then 3
     else if k = ''member'' then 4 else if k = ''attrib'' then 5 else 0)"

lemma fund_kind:
  assumes "message_of keccak (S_fund k v t s) = Inr m"
  shows "k = ''join'' \<or> k = ''deposit'' \<or> k = ''withdraw''"
  using assms by (auto simp: fund_link_message_def FUND_LINK_KINDS_def split: if_splits)

lemma tag_of_kind:
  assumes "message_of keccak a = Inr m"
  shows "tag a = tag_of (kind_of a)"
proof -
  have "tag_of ''join'' = 0" "tag_of ''deposit'' = 0" "tag_of ''withdraw'' = 0" "tag_of ''vote'' = 1"
    "tag_of ''sign'' = 2" "tag_of ''receipt'' = 3" "tag_of ''member'' = 4" "tag_of ''attrib'' = 5"
    by code_simp+
  note f = this
  show ?thesis
  proof (cases a)
    case (S_fund k v t s)
    have "k = ''join'' \<or> k = ''deposit'' \<or> k = ''withdraw''" using fund_kind assms unfolding S_fund .
    then show ?thesis unfolding S_fund tag.simps kind_of.simps using f(1-3) by (elim disjE) simp_all
  qed (simp_all add: f(4-8))
qed

lemma fund_message_inject:
  assumes "fund_link_message k v t s = Inr m" and "fund_link_message k' v' t' s' = Inr m"
  shows "k = k' \<and> canonical_address v = canonical_address v' \<and> canonical_tg t = canonical_tg t' \<and> s = s'"
proof -
  obtain a b where a: "canonical_address v = Inr a" "canonical_tg t = Inr b" "m = bar [k, a, b, str_int s]" "k \<in> set FUND_LINK_KINDS"
    using assms(1) by (auto simp: fund_link_message_def and_then_Inr_iff split: if_splits)
  obtain c d where c: "canonical_address v' = Inr c" "canonical_tg t' = Inr d" "m = bar [k', c, d, str_int s']" "k' \<in> set FUND_LINK_KINDS"
    using assms(2) by (auto simp: fund_link_message_def and_then_Inr_iff split: if_splits)
  have k: "CHR ''|'' \<notin> set k" "CHR ''|'' \<notin> set k'" using a(4) c(4) by (auto simp: FUND_LINK_KINDS_def)
  have e: "bar [k, a, b, str_int s] = bar [k', c, d, str_int s']" using a(3) c(3) by simp
  note 1 = bar_split [OF e k]
  note 2 = bar_split [OF 1 [THEN conjunct2] canonical_address_seps(1) [OF a(1)] canonical_address_seps(1) [OF c(1)]]
  note 3 = bar_split [OF 2 [THEN conjunct2] canonical_tg_seps [OF a(2)] canonical_tg_seps [OF c(2)]]
  show ?thesis using 1 2 3 a c by (simp add: bar_simps)
qed

lemma vote_message_inject:
  assumes "vote_link_message g p t s = Inr m" and "vote_link_message g' p' t' s' = Inr m"
  shows "canonical_address g = canonical_address g' \<and> canonical_proposal_id p = canonical_proposal_id p'
    \<and> canonical_tg t = canonical_tg t' \<and> s = s'"
proof -
  obtain a i b where a: "canonical_address g = Inr a" "canonical_proposal_id p = Inr i" "canonical_tg t = Inr b"
    "m = bar [VOTE_LINK_KIND, a @ '':'' @ i, b, str_int s]"
    using assms(1) by (auto simp: vote_link_message_def and_then_Inr_iff)
  obtain c j d where c: "canonical_address g' = Inr c" "canonical_proposal_id p' = Inr j" "canonical_tg t' = Inr d"
    "m = bar [VOTE_LINK_KIND, c @ '':'' @ j, d, str_int s']"
    using assms(2) by (auto simp: vote_link_message_def and_then_Inr_iff)
  have e: "bar [a @ '':'' @ i, b, str_int s] = bar [c @ '':'' @ j, d, str_int s']"
    using a(4) c(4) by (simp add: bar_simps)
  have ai: "CHR ''|'' \<notin> set (a @ '':'' @ i)" "CHR ''|'' \<notin> set (c @ '':'' @ j)"
    using canonical_address_seps(1) [OF a(1)] canonical_address_seps(1) [OF c(1)]
      proposal_id_seps(1) [OF a(2)] proposal_id_seps(1) [OF c(2)] by simp_all
  note 1 = bar_split [OF e ai]
  note 2 = bar_split [OF 1 [THEN conjunct2] canonical_tg_seps [OF a(3)] canonical_tg_seps [OF c(3)]]
  have "a @ CHR '':'' # i = c @ CHR '':'' # j" using 1 by simp
  from sep_inject [OF this canonical_address_seps(2) [OF a(1)] canonical_address_seps(2) [OF c(1)]]
  show ?thesis using 2 a c by (simp add: bar_simps)
qed

lemma sign_message_inject:
  assumes "sign_link_message v x y t s = Inr m" and "sign_link_message v' x' y' t' s' = Inr m"
  shows "canonical_address v = canonical_address v' \<and> x = x' \<and> y = y' \<and> canonical_tg t = canonical_tg t' \<and> s = s'"
proof -
  obtain a b where a: "canonical_address v = Inr a" "canonical_tg t = Inr b" "x \<in> set SIGN_ACTIONS"
    "m = bar [SIGN_LINK_KIND, a, x, y, b, str_int s]"
    using assms(1) by (auto simp: sign_link_message_def and_then_Inr_iff split: if_splits)
  obtain c d where c: "canonical_address v' = Inr c" "canonical_tg t' = Inr d" "x' \<in> set SIGN_ACTIONS"
    "m = bar [SIGN_LINK_KIND, c, x', y', d, str_int s']"
    using assms(2) by (auto simp: sign_link_message_def and_then_Inr_iff split: if_splits)
  have x: "CHR ''|'' \<notin> set x" "CHR ''|'' \<notin> set x'" using a(3) c(3) by (auto simp: SIGN_ACTIONS_def)
  have e: "bar [a, x, y, b, str_int s] = bar [c, x', y', d, str_int s']" using a(4) c(4) by (simp add: bar_simps)
  note 1 = bar_split [OF e canonical_address_seps(1) [OF a(1)] canonical_address_seps(1) [OF c(1)]]
  note 2 = bar_split [OF 1 [THEN conjunct2] x]
  have "(y @ CHR ''|'' # b) @ CHR ''|'' # str_int s = (y' @ CHR ''|'' # d) @ CHR ''|'' # str_int s'"
    using 2 by (simp add: bar_simps)
  note 3 = sep_inject_right [OF this str_int_not_in(1) str_int_not_in(1)]
  note 4 = sep_inject_right [OF 3 [THEN conjunct1] canonical_tg_seps [OF a(2)] canonical_tg_seps [OF c(2)]]
  show ?thesis using 1 2 3 4 a c by simp
qed

lemma receipt_message_inject:
  assumes "receipt_image_message keccak v p w b = Inr m" and "receipt_image_message keccak v' p' w' b' = Inr m"
  shows "checksum_address keccak v = checksum_address keccak v' \<and> proposal_ref p = proposal_ref p'
    \<and> social_handle w = social_handle w' \<and> backers_text b = backers_text b'"
proof -
  obtain x n a i where a: "social_handle w = Inr x" "backers_text b = Inr n" "checksum_address keccak v = Inr a"
    "proposal_ref p = Inr i" "m = bar [''receipt'', a @ '':'' @ i, x, n]"
    using assms(1) by (auto simp: receipt_image_message_def and_then_Inr_iff)
  obtain y k c j where c: "social_handle w' = Inr y" "backers_text b' = Inr k" "checksum_address keccak v' = Inr c"
    "proposal_ref p' = Inr j" "m = bar [''receipt'', c @ '':'' @ j, y, k]"
    using assms(2) by (auto simp: receipt_image_message_def and_then_Inr_iff)
  have e: "bar [a @ '':'' @ i, x, n] = bar [c @ '':'' @ j, y, k]" using a(5) c(5) by (simp add: bar_simps)
  have ai: "CHR ''|'' \<notin> set (a @ '':'' @ i)" "CHR ''|'' \<notin> set (c @ '':'' @ j)"
    using checksum_seps(1) [OF a(3)] checksum_seps(1) [OF c(3)] proposal_ref_seps [OF a(4)] proposal_ref_seps [OF c(4)]
    by simp_all
  note 1 = bar_split [OF e ai]
  note 2 = bar_split [OF 1 [THEN conjunct2] social_handle_seps [OF a(1)] social_handle_seps [OF c(1)]]
  have "a @ CHR '':'' # i = c @ CHR '':'' # j" using 1 by simp
  from sep_inject [OF this checksum_seps(2) [OF a(3)] checksum_seps(2) [OF c(3)]]
  show ?thesis using 2 a c by (simp add: bar_simps)
qed

lemma member_message_inject:
  assumes "member_image_message keccak v n h s = Inr m" and "member_image_message keccak v' n' h' s' = Inr m"
  shows "checksum_address keccak v = checksum_address keccak v' \<and> int_text n = int_text n'
    \<and> social_handle h = social_handle h' \<and> s = s'"
proof -
  obtain a k x where a: "checksum_address keccak v = Inr a" "int_text n = Inr k" "social_handle h = Inr x"
    "m = bar [''member'', a @ '':'' @ k, x, s]"
    using assms(1) by (auto simp: member_image_message_def and_then_Inr_iff split: if_splits)
  obtain c j y where c: "checksum_address keccak v' = Inr c" "int_text n' = Inr j" "social_handle h' = Inr y"
    "m = bar [''member'', c @ '':'' @ j, y, s']"
    using assms(2) by (auto simp: member_image_message_def and_then_Inr_iff split: if_splits)
  have e: "bar [a @ '':'' @ k, x, s] = bar [c @ '':'' @ j, y, s']" using a(4) c(4) by (simp add: bar_simps)
  have ai: "CHR ''|'' \<notin> set (a @ '':'' @ k)" "CHR ''|'' \<notin> set (c @ '':'' @ j)"
    using checksum_seps(1) [OF a(1)] checksum_seps(1) [OF c(1)] int_text_seps [OF a(2)] int_text_seps [OF c(2)]
    by simp_all
  note 1 = bar_split [OF e ai]
  note 2 = bar_split [OF 1 [THEN conjunct2] social_handle_seps [OF a(3)] social_handle_seps [OF c(3)]]
  have "a @ CHR '':'' # k = c @ CHR '':'' # j" using 1 by simp
  from sep_inject [OF this checksum_seps(2) [OF a(1)] checksum_seps(2) [OF c(1)]]
  show ?thesis using 2 a c by (simp add: bar_simps)
qed

lemma attrib_message_inject:
  assumes "attrib_image_message keccak v a = Inr m" and "attrib_image_message keccak v' a' = Inr m"
  shows "checksum_address keccak v = checksum_address keccak v' \<and> a = a'"
proof -
  obtain x where x: "checksum_address keccak v = Inr x" "m = bar [''attrib'', x, a]"
    using assms(1) by (auto simp: attrib_image_message_def and_then_Inr_iff)
  obtain y where y: "checksum_address keccak v' = Inr y" "m = bar [''attrib'', y, a']"
    using assms(2) by (auto simp: attrib_image_message_def and_then_Inr_iff)
  have e: "bar [x, a] = bar [y, a']" using x(2) y(2) by (simp add: bar_simps)
  show ?thesis using bar_split [OF e checksum_seps(1) [OF x(1)] checksum_seps(1) [OF y(1)]] x y by (simp add: bar_simps)
qed

text \<open>
  C23: No message signed with the link secret reads as another: when two requests for a link or an
  image sign the same text, they are of one kind and agree in every canonical part.
\<close>

theorem link_messages_separate:
  assumes "message_of keccak a = Inr m" and "message_of keccak b = Inr m"
  shows "same_request keccak a b"
proof -
  have t: "tag a = tag b" using tag_of_kind [OF assms(1)] tag_of_kind [OF assms(2)] same_kind [OF assms] by simp
  show ?thesis
  proof (cases a)
    case (S_fund k v u s)
    with t obtain k' v' u' s' where b: "b = S_fund k' v' u' s'" by (cases b) simp_all
    show ?thesis using assms unfolding S_fund b message_of.simps same_request.simps by (rule fund_message_inject)
  next
    case (S_vote g p u s)
    with t obtain g' p' u' s' where b: "b = S_vote g' p' u' s'" by (cases b) simp_all
    show ?thesis using assms unfolding S_vote b message_of.simps same_request.simps by (rule vote_message_inject)
  next
    case (S_sign v x y u s)
    with t obtain v' x' y' u' s' where b: "b = S_sign v' x' y' u' s'" by (cases b) simp_all
    show ?thesis using assms unfolding S_sign b message_of.simps same_request.simps by (rule sign_message_inject)
  next
    case (S_receipt v p w c)
    with t obtain v' p' w' c' where b: "b = S_receipt v' p' w' c'" by (cases b) simp_all
    show ?thesis using assms unfolding S_receipt b message_of.simps same_request.simps by (rule receipt_message_inject)
  next
    case (S_member v n h s)
    with t obtain v' n' h' s' where b: "b = S_member v' n' h' s'" by (cases b) simp_all
    show ?thesis using assms unfolding S_member b message_of.simps same_request.simps by (rule member_message_inject)
  next
    case (S_attrib v x)
    with t obtain v' x' where b: "b = S_attrib v' x'" by (cases b) simp_all
    show ?thesis using assms unfolding S_attrib b message_of.simps same_request.simps by (rule attrib_message_inject)
  qed
qed

theorem link_messages_separate_witness:
  "canonical_address demo_addr = canonical_address ('' 0xAAAAAAAAAAaaaaaaaaaaaaaaaaaaaaaaaaaaaaaa'')"
proof -
  have "message_of id (S_fund ''join'' demo_addr (JInt 7) 100) = Inr (''join|'' @ demo_addr @ ''|7|100'')"
    "message_of id (S_fund ''join'' '' 0xAAAAAAAAAAaaaaaaaaaaaaaaaaaaaaaaaaaaaaaa'' (JStr ''7'') 100)
      = Inr (''join|'' @ demo_addr @ ''|7|100'')"
    by code_simp+
  from link_messages_separate [OF this] show ?thesis by simp
qed

section \<open>Links and their windows\<close>


definition demo_mac :: mac where
  "demo_mac k m = ''ab12''"

definition demo_link :: link_args where
  "demo_link = \<lparr>la_tg_user_id = JInt 7, la_base_url = [], la_fund = Some demo_addr, la_governor = None,
     la_proposal_id = JNull, la_ts = Some 1000\<rparr>"


section \<open>Payloads decode\<close>

lemma b64_val_char:
  assumes "0 \<le> n" and "n < 64"
  shows "b64_val (b64_char n) = Some n" "b64_char n \<noteq> CHR ''=''"
proof -
  have "list_all (\<lambda>n. b64_val (b64_char n) = Some n \<and> b64_char n \<noteq> CHR ''='') [0..63]" by code_simp
  moreover have "n \<in> set [0..63]" using assms by simp
  ultimately show "b64_val (b64_char n) = Some n" "b64_char n \<noteq> CHR ''=''" by (auto simp: list_all_iff)
qed

lemma pack:
  fixes q r k :: int
  assumes "0 \<le> r" and "r < k"
  shows "(q * k + r) div k = q" "(q * k + r) mod k = r"
  using assms by simp_all

lemma byte_parts:
  fixes b :: int
  assumes "0 \<le> b" and "b < 256"
  shows "0 \<le> b div 4" "b div 4 < 64" "0 \<le> b div 16" "b div 16 < 16" "0 \<le> b div 64" "b div 64 < 4"
    "0 \<le> b mod 4" "b mod 4 < 4" "0 \<le> b mod 16" "b mod 16 < 16" "0 \<le> b mod 64" "b mod 64 < 64"
  using assms by simp_all

lemma byte_halves:
  fixes a b :: int
  assumes "0 \<le> b" and "b < 256"
  shows "(a mod 4 * 16 + b div 16) div 16 = a mod 4" "(a mod 4 * 16 + b div 16) mod 16 = b div 16"
    "(a mod 16 * 4 + b div 64) div 4 = a mod 16" "(a mod 16 * 4 + b div 64) mod 4 = b div 64"
    "a div 4 * 4 + a mod 4 = a" "a mod 4 * 16 div 16 = a mod 4" "a mod 16 * 4 div 4 = a mod 16"
    "a div 16 * 16 + a mod 16 = a" "a div 64 * 64 + a mod 64 = a"
  by (rule pack(1) [OF byte_parts(3,4) [OF assms]], rule pack(2) [OF byte_parts(3,4) [OF assms]],
      rule pack(1) [OF byte_parts(5,6) [OF assms]], rule pack(2) [OF byte_parts(5,6) [OF assms]])
    (simp_all add: div_mult_mod_eq)

lemma byte_bounds:
  fixes a b :: int
  assumes "0 \<le> a" "a < 256" and "0 \<le> b" "b < 256"
  shows "0 \<le> a div 4" "a div 4 < 64" "0 \<le> a mod 4 * 16 + b div 16" "a mod 4 * 16 + b div 16 < 64"
    "0 \<le> a mod 16 * 4 + b div 64" "a mod 16 * 4 + b div 64 < 64" "0 \<le> a mod 64" "a mod 64 < 64"
    "0 \<le> a mod 4 * 16" "a mod 4 * 16 < 64" "0 \<le> a mod 16 * 4" "a mod 16 * 4 < 64"
  using byte_parts [OF assms(1,2)] byte_parts [OF assms(3,4)] by linarith+

lemma char_of_code [simp]: "char_of (code_of c) = c"
  by (simp add: code_of_def)

lemma b64_step:
  assumes "0 \<le> n" "n < 64"
  shows "b64_decode 0 l p (b64_char n # cs) = b64_decode 1 n 0 cs"
    "b64_decode 1 l p (b64_char n # cs) = and_then (b64_decode 2 (n mod 16) 0 cs) (\<lambda>r. Inr (char_of (l * 4 + n div 16) # r))"
    "b64_decode 2 l p (b64_char n # cs) = and_then (b64_decode 3 (n mod 4) 0 cs) (\<lambda>r. Inr (char_of (l * 16 + n div 4) # r))"
    "b64_decode 3 l p (b64_char n # cs) = and_then (b64_decode 0 0 0 cs) (\<lambda>r. Inr (char_of (l * 64 + n) # r))"
  using b64_val_char [OF assms] by simp_all

lemma b64_decode_encode: "b64_decode 0 l p (b64_encode s) = Inr s"
proof (induction s arbitrary: l p rule: b64_encode.induct)
  case 1
  then show ?case by simp
next
  case (2 a)
  note b = byte_bounds [OF code_of_nonneg [of a] code_of_less code_of_nonneg [of a] code_of_less]
  note h = byte_halves [OF code_of_nonneg [of a] code_of_less]
  show ?case
    by (simp only: b64_encode.simps b64_step(1) [OF b(1,2)] b64_step(2) [OF b(9,10)] h) (simp add: h)
next
  case (3 a b)
  note ba = byte_bounds [OF code_of_nonneg [of a] code_of_less code_of_nonneg [of b] code_of_less]
  note bb = byte_bounds [OF code_of_nonneg [of b] code_of_less code_of_nonneg [of a] code_of_less]
  note h = byte_halves [OF code_of_nonneg [of b] code_of_less]
  show ?case
    by (simp only: b64_encode.simps b64_step(1) [OF ba(1,2)] b64_step(2) [OF ba(3,4)] b64_step(3) [OF bb(11,12)] h)
      (simp add: h)
next
  case (4 a b c cs)
  note ba = byte_bounds [OF code_of_nonneg [of a] code_of_less code_of_nonneg [of b] code_of_less]
  note bb = byte_bounds [OF code_of_nonneg [of b] code_of_less code_of_nonneg [of c] code_of_less]
  note bc = byte_bounds [OF code_of_nonneg [of c] code_of_less code_of_nonneg [of c] code_of_less]
  note h = byte_halves [OF code_of_nonneg [of b] code_of_less] byte_halves [OF code_of_nonneg [of c] code_of_less]
  show ?case
    by (simp only: b64_encode.simps b64_step(1) [OF ba(1,2)] b64_step(2) [OF ba(3,4)] b64_step(3) [OF bb(5,6)]
        b64_step(4) [OF bc(7,8)] h 4 and_then_simps) (simp add: h)
qed

lemma b64_shape: "\<exists>t k. b64_encode s = t @ replicate k CHR ''='' \<and> CHR ''='' \<notin> set t \<and> k \<le> 2 \<and> 4 dvd length t + k"
proof (induction s rule: b64_encode.induct)
  case 1
  then show ?case by (intro exI [of _ "[]"] exI [of _ 0]) simp
next
  case (2 a)
  note b = byte_bounds [OF code_of_nonneg [of a] code_of_less code_of_nonneg [of a] code_of_less]
  show ?case
    using b64_val_char(2) [OF b(1,2)] b64_val_char(2) [OF b(9,10)]
    by (intro exI [of _ "[b64_char (code_of a div 4), b64_char (code_of a mod 4 * 16)]"] exI [of _ 2])
      (simp add: numeral_2_eq_2, presburger)
next
  case (3 a b)
  note ba = byte_bounds [OF code_of_nonneg [of a] code_of_less code_of_nonneg [of b] code_of_less]
  note bb = byte_bounds [OF code_of_nonneg [of b] code_of_less code_of_nonneg [of a] code_of_less]
  show ?case
    using b64_val_char(2) [OF ba(1,2)] b64_val_char(2) [OF ba(3,4)] b64_val_char(2) [OF bb(11,12)]
    by (intro exI [of _ "[b64_char (code_of a div 4), b64_char (code_of a mod 4 * 16 + code_of b div 16),
        b64_char (code_of b mod 16 * 4)]"] exI [of _ 1]) (simp, presburger)
next
  case (4 a b c cs)
  note ba = byte_bounds [OF code_of_nonneg [of a] code_of_less code_of_nonneg [of b] code_of_less]
  note bb = byte_bounds [OF code_of_nonneg [of b] code_of_less code_of_nonneg [of c] code_of_less]
  note bc = byte_bounds [OF code_of_nonneg [of c] code_of_less code_of_nonneg [of c] code_of_less]
  let ?h = "[b64_char (code_of a div 4), b64_char (code_of a mod 4 * 16 + code_of b div 16),
     b64_char (code_of b mod 16 * 4 + code_of c div 64), b64_char (code_of c mod 64)]"
  obtain t k where t: "b64_encode cs = t @ replicate k CHR ''=''" "CHR ''='' \<notin> set t" "k \<le> 2" "4 dvd length t + k"
    using 4 by blast
  have "CHR ''='' \<notin> set ?h"
    using b64_val_char(2) [OF ba(1,2)] b64_val_char(2) [OF ba(3,4)] b64_val_char(2) [OF bb(5,6)] b64_val_char(2) [OF bc(7,8)]
    by auto
  moreover have "4 dvd length (?h @ t) + k" using t(4) by simp presburger
  ultimately show ?case using t by (intro exI [of _ "?h @ t"] exI [of _ k]) auto
qed

lemma decode_encode_bytes: "decode_bytes (encode_bytes raw) = Inr raw"
proof -
  obtain t k where t: "b64_encode raw = t @ replicate k CHR ''=''" "CHR ''='' \<notin> set t" "k \<le> 2" "4 dvd length t + k"
    using b64_shape by blast
  have "rstrip_of CHR ''='' (replicate k CHR ''='') = []" by (simp add: rstrip_of_def dropWhile_eq_Nil_conv)
  then have "encode_bytes raw = rstrip_of CHR ''='' t" unfolding encode_bytes_def t(1) by (rule rstrip_of_append_nil)
  also have "\<dots> = t" using t(2) by (intro rstrip_of_id) (metis last_in_set)
  finally have e: "encode_bytes raw = t" .
  obtain q where "length t + k = 4 * q" using t(4) by (elim dvdE)
  then have "- int (length t) = int k + 4 * (- int q)" by simp
  then have "- int (length t) mod 4 = int k" using t(3) by (simp only: mod_mult_self2) simp
  then have "nat (- int (length t) mod 4) = k" by simp
  then show ?thesis unfolding decode_bytes_def e using b64_decode_encode [of 0 0 raw] by (simp add: t(1))
qed

lemma strip_final_newline: "strip (u @ [CHR 0x0A]) = strip u"
proof (cases "\<exists>x \<in> set u. \<not> is_space x")
  case True
  have "is_space CHR 0x0A" by code_simp
  then show ?thesis using True by (simp add: strip_def lstrip_def rstrip_def dropWhile_append_stop)
next
  case False
  have "is_space CHR 0x0A" by code_simp
  with False have "dropWhile is_space (u @ [CHR 0x0A]) = []" "dropWhile is_space u = []"
    by (simp_all only: dropWhile_eq_Nil_conv) auto
  then show ?thesis by (simp only: strip_def lstrip_def)
qed

lemma item_full_clean: "item_full u \<Longrightarrow> strip u = u"
  using id_char_not_sep by (intro strip_no_space) (auto simp: item_full_def list_all_iff)

lemma item_strip:
  assumes "dollar_match item_full t"
  shows "item_full (strip t)" "t = strip t \<or> t = strip t @ [CHR 0x0A]"
proof -
  have "item_full (strip t) \<and> (t = strip t \<or> t = strip t @ [CHR 0x0A])"
  proof (cases "item_full t")
    case True
    then show ?thesis using item_full_clean by simp
  next
    case False
    then have t: "t = butlast t @ [CHR 0x0A]" "item_full (butlast t)"
      using assms unfolding dollar_match_def by (metis append_butlast_last_id)+
    then have "strip t = butlast t" using strip_final_newline item_full_clean by metis
    with t show ?thesis by simp
  qed
  then show "item_full (strip t)" "t = strip t \<or> t = strip t @ [CHR 0x0A]" by simp_all
qed

lemma start_codes:
  assumes "map_of START_KINDS kind = Some code"
  shows "\<exists>c. code = [c] \<and> is_lower_char c \<and> map_of START_KINDS_REV [c] = Some kind"
proof -
  have "\<forall>(k, v) \<in> set START_KINDS. is_lower_char (hd v) \<and> v = [hd v] \<and> map_of START_KINDS_REV v = Some k"
    by code_simp
  with map_of_SomeD [OF assms] show ?thesis by (intro exI [of _ "hd code"]) auto
qed

lemma start_parts_head:
  assumes "is_lower_char c" "length h = 40" "list_all lower_hex h"
  shows "start_parts ([CHR ''s'', CHR ''f'', c, CHR ''_''] @ h @ r) =
      (if r = [] then Some ([c], h, None) else if hd r = CHR ''_'' \<and> item_full (tl r) then Some ([c], h, Some (tl r)) else None)"
proof -
  let ?s = "[CHR ''s'', CHR ''f'', c, CHR ''_''] @ h @ r"
  have "take 2 ?s = ''sf''" "44 \<le> length ?s" "?s ! 2 = c" "?s ! 3 = CHR ''_''" "take 40 (drop 4 ?s) = h" "drop 44 ?s = r"
    using assms(2) by (simp_all add: eval_nat_numeral)
  then show ?thesis unfolding start_parts_def Let_def using assms(1,3) by (simp only: simp_thms if_True)
qed

lemma start_head_clean:
  assumes "is_lower_char c" "list_all lower_hex h" "list_all id_char r"
  shows "strip ([CHR ''s'', CHR ''f'', c, CHR ''_''] @ h @ r) = [CHR ''s'', CHR ''f'', c, CHR ''_''] @ h @ r"
proof (rule strip_no_space)
  have "\<not> is_space CHR ''s''" "\<not> is_space CHR ''f''" "\<not> is_space CHR ''_''" by code_simp+
  moreover have "\<not> is_space c" using assms(1) by (auto simp: is_lower_char_def in_range_def is_space_def)
  moreover have "list_all (\<lambda>c. \<not> is_space c) h" using assms(2) lower_hex_not_sep by (auto simp: list_all_iff)
  moreover have "list_all (\<lambda>c. \<not> is_space c) r" using assms(3) id_char_not_sep by (auto simp: list_all_iff)
  ultimately show "list_all (\<lambda>c. \<not> is_space c) ([CHR ''s'', CHR ''f'', c, CHR ''_''] @ h @ r)" by simp
qed

text \<open>
  C25: What is encoded decodes: the start payload of a kind, a fund and an item id gives back the
  kind, the canonical address and the id, and the body of a signing link gives back its bytes.
\<close>

theorem payloads_decode:
  assumes "encode_start_payload kind vault item = Inr payload"
  shows "\<exists>v i. canonical_address vault = Inr v
      \<and> decode_start_payload payload = Some (kind, v, i)
      \<and> (i = None \<longleftrightarrow> item = JNull) \<and> (\<forall>x. i = Some x \<longrightarrow> (\<exists>t. text_of item = Inr t \<and> x = strip t))
    \<and> decode_bytes (encode_bytes raw) = Inr raw"
proof -
  obtain code v tail where e: "map_of START_KINDS kind = Some code" "canonical_address vault = Inr v"
    "(if item = JNull then Inr [] else and_then (text_of item) (\<lambda>t.
        if dollar_match item_full t then Inr (''_'' @ t) else Inl Value_error)) = Inr tail"
    "payload = ''sf'' @ code @ ''_'' @ drop 2 v @ tail"
    using assms by (auto simp: encode_start_payload_def and_then_Inr_iff Let_def split: option.splits if_splits)
  obtain c where c: "code = [c]" "is_lower_char c" "map_of START_KINDS_REV [c] = Some kind"
    using start_codes [OF e(1)] by blast
  obtain h where h: "v = ''0x'' @ h" "length h = 40" "list_all lower_hex h"
    using canonical_address_Inr [OF e(2)] by blast
  have p: "payload = [CHR ''s'', CHR ''f'', c, CHR ''_''] @ h @ tail" using e(4) c(1) h(1) by simp
  note parts = start_parts_head [OF c(2) h(2,3)] and clean = start_head_clean [OF c(2) h(3)]
  show ?thesis
  proof (cases "item = JNull")
    case True
    then have "payload = [CHR ''s'', CHR ''f'', c, CHR ''_''] @ h @ []" using e(3) p by simp
    then have "start_parts (strip payload) = Some ([c], h, None)" using clean [of "[]", simplified] parts [of "[]"] by simp
    then have "decode_start_payload payload = Some (kind, v, None)"
      using c(3) h(1) by (simp add: decode_start_payload_def)
    with True e(2) decode_encode_bytes show ?thesis by auto
  next
    case False
    then obtain t where t: "text_of item = Inr t" "dollar_match item_full t" "tail = ''_'' @ t"
      using e(3) by (auto simp: and_then_Inr_iff split: if_splits)
    note it = item_strip [OF t(2)]
    have id: "list_all id_char (CHR ''_'' # strip t)" using it(1) by (simp add: item_full_def id_char_def)
    have "payload = [CHR ''s'', CHR ''f'', c, CHR ''_''] @ h @ CHR ''_'' # t" using p t(3) by simp
    then have "payload = [CHR ''s'', CHR ''f'', c, CHR ''_''] @ h @ CHR ''_'' # strip t
        \<or> payload = ([CHR ''s'', CHR ''f'', c, CHR ''_''] @ h @ CHR ''_'' # strip t) @ [CHR 0x0A]"
      using it(2) by auto
    then have "strip payload = [CHR ''s'', CHR ''f'', c, CHR ''_''] @ h @ CHR ''_'' # strip t"
      using clean [OF id] strip_final_newline by metis
    then have "start_parts (strip payload) = Some ([c], h, Some (strip t))"
      using parts [of "CHR ''_'' # strip t"] it(1) by simp
    then have "decode_start_payload payload = Some (kind, v, Some (strip t))"
      using c(3) h(1) by (simp add: decode_start_payload_def)
    with False t(1) e(2) decode_encode_bytes show ?thesis by auto
  qed
qed

theorem payloads_decode_witness:
  "\<exists>payload v i. encode_start_payload ''propose'' demo_addr (JStr ''p-1'') = Inr payload
    \<and> decode_start_payload payload = Some (''propose'', v, i)"
proof -
  have "ok (encode_start_payload ''propose'' demo_addr (JStr ''p-1''))" by code_simp
  then obtain p where p: "encode_start_payload ''propose'' demo_addr (JStr ''p-1'') = Inr p"
    by (auto simp: ok_def split: sum.splits)
  from payloads_decode [OF this] p show ?thesis by blast
qed

end
