(* ===== verification/PitchFlow.thy ===== *)
theory PitchFlow
  imports Guard Payloads
begin

text \<open>
  \<open>telegram/flow.py\<close>: from a pitch in the chat to the request for a draft. Pitches are objects that
  two tables share, so they live in a heap and the tables hold references (positions). A handler
  is cut where it waits for somebody else: it stops, it asks who the host is, or it has marked a
  pitch as drafted and hands the request out; other handlers may run in between. Texts are UTF-8
  bytes, with ASCII letters and spaces; the prose of the queued contexts is not kept.
\<close>

section \<open>Reading a message\<close>

text \<open>The default emoji, and the variation selector that may follow it.\<close>

definition FIRE :: string where
  "FIRE = [CHR 0xF0, CHR 0x9F, CHR 0x94, CHR 0xA5]"

definition VS16 :: string where
  "VS16 = [CHR 0xEF, CHR 0xB8, CHR 0x8F]"

text \<open>\<open>(?<![\w$])\$[A-Za-z][A-Za-z0-9]{0,9}\b\<close>, all matches; \<open>p\<close> is the character before.\<close>

function flow_tickers :: "char option \<Rightarrow> string \<Rightarrow> string list" where
  "flow_tickers p [] = []"
| "flow_tickers p (c # cs) =
     (let run = takeWhile is_alnum cs; rest = dropWhile is_alnum cs in
      if c = CHR ''$'' \<and> \<not> (case p of None \<Rightarrow> False | Some b \<Rightarrow> is_word_char b \<or> b = CHR ''$'')
         \<and> run \<noteq> [] \<and> is_alpha (hd run) \<and> length run \<le> 10 \<and> \<not> (rest \<noteq> [] \<and> is_word_char (hd rest))
      then (c # run) # flow_tickers (Some (last run)) rest
      else flow_tickers (Some c) cs)"
  by pat_completeness auto
termination
  by (relation "measure (length \<circ> snd)") (auto simp: le_imp_less_Suc length_dropWhile_le)

definition IDEA_WORDS :: "string list" where
  "IDEA_WORDS = [''long'', ''short'', ''buy'', ''sell'', ''ape'', ''bid'', ''fade'', ''hedge'', ''rotate'', ''rotation'',
     ''trade'', ''position'', ''call'', ''calls'', ''put'', ''puts'', ''lever'', ''leverage'', ''stake'', ''farm'',
     ''yield'', ''bet'', ''accumulate'', ''dca'', ''swap'', ''breakout'', ''earnings'', ''pitch'', ''idea'', ''thesis'',
     ''undervalued'', ''overvalued'', ''moon'']"

text \<open>The maximal runs of word characters: a word between two \<open>\b\<close> is one of them.\<close>

fun word_runs :: "string \<Rightarrow> string \<Rightarrow> string list" where
  "word_runs w [] = (if w = [] then [] else [rev w])"
| "word_runs w (c # cs) =
     (if is_word_char c then word_runs (c # w) cs
      else if w = [] then word_runs [] cs else rev w # word_runs [] cs)"

definition is_trade_idea :: "string \<Rightarrow> bool" where
  "is_trade_idea text \<longleftrightarrow> flow_tickers None text \<noteq> [] \<or> list_ex (\<lambda>w. lower w \<in> set IDEA_WORDS) (word_runs [] text)"

text \<open>\<open>@\w+\<close>, all matches\<close>

function mentions :: "string \<Rightarrow> string list" where
  "mentions [] = []"
| "mentions (c # cs) =
     (let run = takeWhile is_word_char cs in
      if c = CHR ''@'' \<and> run \<noteq> [] then (c # run) # mentions (dropWhile is_word_char cs) else mentions cs)"
  by pat_completeness auto
termination
  by (relation "measure length") (auto simp: le_imp_less_Suc length_dropWhile_le)

text \<open>\<open>^\W*(?:ship\s*it|shipit)\b\<close>, in any case\<close>

definition SHIP_IT_RE :: "string \<Rightarrow> bool" where
  "SHIP_IT_RE s =
     (let a = lower (dropWhile (\<lambda>c. \<not> is_word_char c) s); b = dropWhile is_space (drop 4 a); c = drop 2 b in
      startswith ''ship'' a \<and> startswith ''it'' b \<and> \<not> (c \<noteq> [] \<and> is_word_char (hd c)))"

definition is_ship_it :: "string \<Rightarrow> bool" where
  "is_ship_it text = SHIP_IT_RE (strip (sub_mentions text))"

text \<open>One or more of the emoji, with spaces around; the emoji is not the empty text.\<close>

function fire_body :: "string \<Rightarrow> string \<Rightarrow> bool" where
  "fire_body fire s =
     (if fire \<noteq> [] \<and> startswith fire s then
        (let r = drop (length fire) s;
             r' = dropWhile is_space (if startswith VS16 r then drop (length VS16) r else r)
         in r' = [] \<or> fire_body fire r')
      else False)"
  by pat_completeness auto
termination
proof (relation "measure (length \<circ> snd)")
  fix fire s :: string and r r'
  assume a: "fire \<noteq> [] \<and> startswith fire s" "r = drop (length fire) s"
    "r' = dropWhile is_space (if startswith VS16 r then drop (length VS16) r else r)"
  have "0 < length fire" using a(1) by simp
  moreover have "length fire \<le> length s"
    using a(1) unfolding startswith_def by (metis length_take min.cobounded1)
  ultimately have "length r < length s" unfolding a(2) length_drop by linarith
  moreover have "length r' \<le> length (if startswith VS16 r then drop (length VS16) r else r)"
    unfolding a(3) by (rule length_dropWhile_le)
  ultimately have "length r' < length s" by (auto split: if_splits)
  then show "((fire, r'), (fire, s)) \<in> measure (length \<circ> snd)" by simp
qed simp

declare fire_body.simps [simp del]

definition fire_only :: "string \<Rightarrow> string \<Rightarrow> bool" where
  "fire_only fire s = fire_body fire (dropWhile is_space s)"

text \<open>\<open>_norm\<close>\<close>

definition norm_text :: "string \<Rightarrow> string" where
  "norm_text s = join '' '' (split_ws (lower (sub_mentions s)))"

section \<open>Data\<close>

record message =
  ms_chat_id :: int
  ms_message_id :: int
  ms_user_id :: "int option"
  ms_text :: string
  ms_is_bot :: bool
  ms_username :: string
  ms_first_name :: string
  ms_last_name :: string
  ms_mentions_bot :: bool
  ms_reply_to :: "int option"
  ms_reply_to_is_bot :: bool
  ms_thread_id :: "int option"
  ms_is_command :: bool

definition initial :: "string \<Rightarrow> string" where
  "initial p = (if p = [] then [] else [upper_char (hd p)])"

definition handle :: "message \<Rightarrow> string" where
  "handle m =
     (if ms_username m \<noteq> [] then ''@'' @ ms_username m
      else or_else (initial (ms_first_name m) @ initial (ms_last_name m))
        (''user'' @ (case ms_user_id m of None \<Rightarrow> ''None'' | Some u \<Rightarrow> str_int u)))"

record reaction =
  rc_chat_id :: int
  rc_message_id :: int
  rc_user_id :: "int option"
  rc_old :: "string list"
  rc_new :: "string list"
  rc_user_is_bot :: bool

text \<open>
  A pitch; the dictionary \<open>reaction_fires\<close> is the set of its keys and the set of its pairs of a
  message and a user.
\<close>

record pitch =
  pt_chat_id :: int
  pt_message_id :: int
  pt_author_id :: int
  pt_author_name :: string
  pt_text :: string
  pt_created_at :: time
  pt_riff_ids :: "int set"
  pt_reaction_keys :: "int set"
  pt_reaction_fires :: "(int \<times> int) set"
  pt_reply_fires :: "int set"
  pt_drafted :: bool

definition fire_users :: "pitch \<Rightarrow> int set" where
  "fire_users p = (pt_reply_fires p \<union> snd ` pt_reaction_fires p) - {pt_author_id p}"

datatype trigger = T_fire | T_ship_it

record draft_requested =
  dq_idea_by :: int
  dq_text :: string
  dq_source_message_id :: int
  dq_chat_id :: int
  dq_trigger :: trigger
  dq_triggered_by :: int
  dq_fire_count :: nat
  dq_idea_by_name :: string
  dq_created_at :: time

text \<open>What a queued context says.\<close>

datatype context_text = Pitch_context string string | Requested_context string

record queued =
  qx_created_at :: time
  qx_key :: string
  qx_text :: context_text
  qx_chat_id :: int
  qx_sender_id :: "int option"

record flow_config =
  fc_threshold :: int
  fc_emoji :: string
  fc_ttl :: time
  fc_window :: int
  fc_context_ttl :: time
  fc_max_pitches :: int

record flow =
  fl_heap :: "pitch list"
  fl_pitches :: "int \<Rightarrow> nat list"
  fl_by_msg :: "int \<times> int \<Rightarrow> nat option"
  fl_seen :: "int \<Rightarrow> int list"
  fl_seen_set :: "int \<Rightarrow> int set"
  fl_cards :: "(int \<times> int) set"
  fl_context :: "queued list"

definition new_flow :: flow where
  "new_flow = \<lparr>fl_heap = [], fl_pitches = (\<lambda>c. []), fl_by_msg = (\<lambda>k. None), fl_seen = (\<lambda>c. []),
     fl_seen_set = (\<lambda>c. {}), fl_cards = {}, fl_context = []\<rparr>"

definition default_config :: flow_config where
  "default_config = \<lparr>fc_threshold = 3, fc_emoji = FIRE, fc_ttl = 6 * 3600, fc_window = 20,
     fc_context_ttl = 600, fc_max_pitches = 20\<rparr>"

abbreviation pitch_at :: "flow \<Rightarrow> nat \<Rightarrow> pitch" where
  "pitch_at f r \<equiv> fl_heap f ! r"

definition set_pitch :: "nat \<Rightarrow> (pitch \<Rightarrow> pitch) \<Rightarrow> flow \<Rightarrow> flow" where
  "set_pitch r g f = f\<lparr>fl_heap := modify_at r g (fl_heap f)\<rparr>"

section \<open>Classification\<close>

definition names_pitch :: "string \<Rightarrow> pitch \<Rightarrow> bool" where
  "names_pitch said p =
     (list_ex (\<lambda>t. upper t \<in> set (map upper (flow_tickers None said))) (flow_tickers None (pt_text p))
      \<or> (let h = lower (pt_author_name p) in startswith ''@'' h \<and> h \<in> set (map lower (mentions said))))"

definition is_pitch :: "message \<Rightarrow> bool" where
  "is_pitch m \<longleftrightarrow> ms_user_id m \<noteq> None \<and> \<not> ms_is_bot m \<and> ms_mentions_bot m \<and> \<not> ms_is_command m \<and> is_trade_idea (ms_text m)"

definition is_fire_reply :: "flow_config \<Rightarrow> message \<Rightarrow> bool" where
  "is_fire_reply cfg m \<longleftrightarrow> ms_reply_to m \<noteq> None \<and> fire_only (fc_emoji cfg) (ms_text m)"

section \<open>The tables\<close>

definition note_bot_card :: "int \<Rightarrow> int \<Rightarrow> flow \<Rightarrow> flow" where
  "note_bot_card chat mid f = f\<lparr>fl_cards := insert (chat, mid) (fl_cards f)\<rparr>"

definition add_riff :: "int \<Rightarrow> int \<Rightarrow> nat \<Rightarrow> flow \<Rightarrow> flow" where
  "add_riff chat mid r f =
     (let f1 = set_pitch r (\<lambda>p. p\<lparr>pt_riff_ids := insert mid (pt_riff_ids p)\<rparr>) f
      in f1\<lparr>fl_by_msg := (fl_by_msg f1)((chat, mid) := Some r)\<rparr>)"

definition link_riff :: "int \<Rightarrow> int \<Rightarrow> int \<Rightarrow> flow \<Rightarrow> bool \<times> flow" where
  "link_riff chat pitch_mid riff_mid f =
     (case fl_by_msg f (chat, pitch_mid) of
        None \<Rightarrow> (False, f)
      | Some r \<Rightarrow> if pt_message_id (pitch_at f r) \<noteq> pitch_mid then (False, f) else (True, add_riff chat riff_mid r f))"

text \<open>A deque of a thousand message ids, and the set of its members.\<close>

definition note_seen :: "int \<Rightarrow> int \<Rightarrow> flow \<Rightarrow> flow" where
  "note_seen chat mid f =
     (let dq = fl_seen f chat; full = (length dq = 1000);
          st = (if full then fl_seen_set f chat - {hd dq} else fl_seen_set f chat)
      in f\<lparr>fl_seen := (fl_seen f)(chat := (if full then tl dq else dq) @ [mid]),
           fl_seen_set := (fl_seen_set f)(chat := insert mid st)\<rparr>)"

text \<open>\<open>xs[-n:]\<close>\<close>

definition last_of :: "int \<Rightarrow> 'a list \<Rightarrow> 'a list" where
  "last_of n xs = (if n > 0 then drop (length xs - nat n) xs else drop (nat (- n)) xs)"

definition forget :: "int \<Rightarrow> pitch \<Rightarrow> (int \<times> int \<Rightarrow> nat option) \<Rightarrow> int \<times> int \<Rightarrow> nat option" where
  "forget chat p m = (\<lambda>(c, i). if c = chat \<and> (i = pt_message_id p \<or> i \<in> pt_riff_ids p) then None else m (c, i))"

definition prune :: "flow_config \<Rightarrow> time \<Rightarrow> int \<Rightarrow> flow \<Rightarrow> flow" where
  "prune cfg now chat f =
     (let refs = fl_pitches f chat;
          keep = last_of (fc_max_pitches cfg) (filter (\<lambda>r. now - pt_created_at (pitch_at f r) \<le> fc_ttl cfg) refs);
          dropped = filter (\<lambda>r. pitch_at f r \<notin> (\<lambda>k. pitch_at f k) ` set keep) refs
      in if refs = [] then f
         else f\<lparr>fl_by_msg := fold (\<lambda>r. forget chat (pitch_at f r)) dropped (fl_by_msg f),
               fl_pitches := (fl_pitches f)(chat := keep)\<rparr>)"

definition open_pitches :: "flow_config \<Rightarrow> time \<Rightarrow> int \<Rightarrow> flow \<Rightarrow> nat list \<times> flow" where
  "open_pitches cfg now chat f = (let f' = prune cfg now chat f in (fl_pitches f' chat, f'))"

definition pitch_for_target ::
  "flow_config \<Rightarrow> time \<Rightarrow> int \<Rightarrow> int \<Rightarrow> bool \<Rightarrow> flow \<Rightarrow> nat option \<times> flow" where
  "pitch_for_target cfg now chat target target_is_bot f =
     (case fl_by_msg f (chat, target) of
        Some r \<Rightarrow> (Some r, f)
      | None \<Rightarrow>
          if (chat, target) \<in> fl_cards f then (None, f)
          else if \<not> target_is_bot \<and> target \<in> fl_seen_set f chat then (None, f)
          else (case open_pitches cfg now chat f of (refs, f') \<Rightarrow>
            (case List.find (\<lambda>r. pt_message_id (pitch_at f' r) < target
                 \<and> target \<le> pt_message_id (pitch_at f' r) + fc_window cfg) (rev refs) of
               None \<Rightarrow> (None, f')
             | Some r \<Rightarrow> (Some r, add_riff chat target r f'))))"

section \<open>Queued context\<close>

definition queue_context :: "time \<Rightarrow> string \<Rightarrow> int \<Rightarrow> int option \<Rightarrow> context_text \<Rightarrow> flow \<Rightarrow> flow" where
  "queue_context now source chat sender text f =
     f\<lparr>fl_context := last_of 50 (fl_context f @ [\<lparr>qx_created_at = now, qx_key = take 80 (norm_text source),
        qx_text = text, qx_chat_id = chat, qx_sender_id = sender\<rparr>])\<rparr>"

text \<open>\<open>int(str(v)) if v not in (None, "")\<close>: an outer \<open>None\<close> is the \<open>ValueError\<close>.\<close>

definition id_arg :: "string \<Rightarrow> int option option" where
  "id_arg v = (if v = [] then Some None else map_option Some (py_int v))"

definition take_context ::
  "flow_config \<Rightarrow> time \<Rightarrow> string \<Rightarrow> string \<Rightarrow> string \<Rightarrow> flow \<Rightarrow> context_text option \<times> flow" where
  "take_context cfg now user_message chat_id sender_id f =
     (let live = dropWhile (\<lambda>e. now - qx_created_at e > fc_context_ttl cfg) (fl_context f);
          f1 = f\<lparr>fl_context := live\<rparr>
      in case (id_arg chat_id, id_arg sender_id) of
           (Some (Some chat), Some sender) \<Rightarrow>
             (let mine = filter (\<lambda>e. qx_chat_id e = chat \<and> (qx_sender_id e = None \<or> qx_sender_id e = sender)) live;
                  haystack = norm_text user_message
              in case List.find (\<lambda>e. qx_key e \<noteq> [] \<and> contains (qx_key e) haystack) (rev mine) of
                   Some e \<Rightarrow> (Some (qx_text e), f\<lparr>fl_context := remove1 e live\<rparr>)
                 | None \<Rightarrow>
                     if length mine = 1 \<and> now - qx_created_at (hd mine) \<le> 120
                     then (Some (qx_text (hd mine)), f\<lparr>fl_context := remove1 (hd mine) live\<rparr>)
                     else (None, f1))
         | _ \<Rightarrow> (None, f1))"

definition pre_llm_call :: "flow_config \<Rightarrow> time \<Rightarrow> caller \<Rightarrow> string \<Rightarrow> flow \<Rightarrow> context_text option \<times> flow" where
  "pre_llm_call cfg now c user_message f =
     (if ca_platform c \<noteq> ''telegram'' \<or> ca_chat_id c = [] then (None, f)
      else take_context cfg now user_message (ca_chat_id c) (ca_user_id c) f)"

section \<open>Drafting\<close>

text \<open>
  Where a handler stops: for good, at the lookup of the host, or with a request to hand out (with
  the message whose context follows the delivery, if any).
\<close>

datatype pause = Stop | Ask_host message | Hand_out nat draft_requested "message option"

definition emit :: "time \<Rightarrow> nat \<Rightarrow> trigger \<Rightarrow> int \<Rightarrow> message option \<Rightarrow> flow \<Rightarrow> pause \<times> flow" where
  "emit now r trig by_user after f =
     (let p = pitch_at f r in
      (Hand_out r \<lparr>dq_idea_by = pt_author_id p, dq_text = pt_text p, dq_source_message_id = pt_message_id p,
         dq_chat_id = pt_chat_id p, dq_trigger = trig, dq_triggered_by = by_user, dq_fire_count = card (fire_users p),
         dq_idea_by_name = pt_author_name p, dq_created_at = now\<rparr> after,
       set_pitch r (\<lambda>p. p\<lparr>pt_drafted := True\<rparr>) f))"

definition maybe_trigger :: "flow_config \<Rightarrow> time \<Rightarrow> nat \<Rightarrow> int \<Rightarrow> flow \<Rightarrow> pause \<times> flow" where
  "maybe_trigger cfg now r by_user f =
     (if pt_drafted (pitch_at f r) \<or> int (card (fire_users (pitch_at f r))) < fc_threshold cfg then (Stop, f)
      else emit now r T_fire by_user None f)"

text \<open>The delivery returned, or raised.\<close>

definition delivered :: "time \<Rightarrow> nat \<Rightarrow> message option \<Rightarrow> flow \<Rightarrow> flow" where
  "delivered now r after f = (case after of
     None \<Rightarrow> f
   | Some m \<Rightarrow> if ms_mentions_bot m \<or> ms_reply_to_is_bot m
       then queue_context now (ms_text m) (ms_chat_id m) (ms_user_id m) (Requested_context (pt_author_name (pitch_at f r))) f
       else f)"

definition not_delivered :: "nat \<Rightarrow> flow \<Rightarrow> flow" where
  "not_delivered r f = set_pitch r (\<lambda>p. p\<lparr>pt_drafted := False\<rparr>) f"

section \<open>Events\<close>

text \<open>The gateway's check of a sender: none, or a function that may raise, which means no.\<close>

type_synonym sender_check = "(int \<Rightarrow> int \<Rightarrow> bool result) option"

definition allowed :: "sender_check \<Rightarrow> int \<Rightarrow> int \<Rightarrow> bool" where
  "allowed check chat user = (case check of None \<Rightarrow> True
   | Some f \<Rightarrow> (case f chat user of Inl e \<Rightarrow> False | Inr b \<Rightarrow> b))"

definition reply_fire :: "flow_config \<Rightarrow> time \<Rightarrow> message \<Rightarrow> int \<Rightarrow> int \<Rightarrow> flow \<Rightarrow> pause \<times> flow" where
  "reply_fire cfg now m target user f =
     (case pitch_for_target cfg now (ms_chat_id m) target (ms_reply_to_is_bot m) f of
        (None, f1) \<Rightarrow> (Stop, f1)
      | (Some r, f1) \<Rightarrow>
          if pt_drafted (pitch_at f1 r) then (Stop, f1)
          else maybe_trigger cfg now r user
            (set_pitch r (\<lambda>p. p\<lparr>pt_reply_fires := insert user (pt_reply_fires p)\<rparr>) f1))"

definition add_pitch :: "flow_config \<Rightarrow> time \<Rightarrow> message \<Rightarrow> int \<Rightarrow> flow \<Rightarrow> flow" where
  "add_pitch cfg now m user f =
     (let chat = ms_chat_id m; r = length (fl_heap f);
          p = \<lparr>pt_chat_id = chat, pt_message_id = ms_message_id m, pt_author_id = user, pt_author_name = handle m,
               pt_text = ms_text m, pt_created_at = now, pt_riff_ids = {}, pt_reaction_keys = {},
               pt_reaction_fires = {}, pt_reply_fires = {}, pt_drafted = False\<rparr>;
          f1 = f\<lparr>fl_heap := fl_heap f @ [p], fl_pitches := (fl_pitches f)(chat := fl_pitches f chat @ [r]),
                 fl_by_msg := (fl_by_msg f)((chat, ms_message_id m) := Some r)\<rparr>
      in queue_context now (ms_text m) chat (Some user) (Pitch_context (handle m) (ms_text m)) (prune cfg now chat f1))"

text \<open>\<open>on_message\<close> of an authorized sender, up to where it waits.\<close>

definition message_part :: "flow_config \<Rightarrow> time \<Rightarrow> message \<Rightarrow> int \<Rightarrow> flow \<Rightarrow> pause \<times> flow" where
  "message_part cfg now m user f =
     (let chat = ms_chat_id m;
          f1 = prune cfg now chat (note_seen chat (ms_message_id m) f);
          f2 = (case ms_reply_to m of
             None \<Rightarrow> f1
           | Some t \<Rightarrow> if ms_reply_to_is_bot m then snd (pitch_for_target cfg now chat t True f1) else f1)
      in if is_fire_reply cfg m then reply_fire cfg now m (the (ms_reply_to m)) user f2
         else if is_ship_it (ms_text m) then (Ask_host m, f2)
         else if is_pitch m then (Stop, add_pitch cfg now m user f2)
         else (Stop, f2))"

text \<open>\<open>on_message\<close> once the host is known.\<close>

definition named_pitch :: "flow_config \<Rightarrow> time \<Rightarrow> message \<Rightarrow> flow \<Rightarrow> nat option \<times> flow" where
  "named_pitch cfg now m f =
     (case open_pitches cfg now (ms_chat_id m) f of (refs, f1) \<Rightarrow>
        (case filter (\<lambda>r. \<not> pt_drafted (pitch_at f1 r) \<and> names_pitch (ms_text m) (pitch_at f1 r)) refs of
           [r] \<Rightarrow> (Some r, f1)
         | _ \<Rightarrow> (None, f1)))"

definition host_part :: "flow_config \<Rightarrow> time \<Rightarrow> message \<Rightarrow> int option \<Rightarrow> flow \<Rightarrow> pause \<times> flow" where
  "host_part cfg now m host f =
     (if host = None \<or> host \<noteq> ms_user_id m then (Stop, f)
      else
        (let (replied, f1) = (case ms_reply_to m of
               None \<Rightarrow> (None, f)
             | Some t \<Rightarrow> pitch_for_target cfg now (ms_chat_id m) t (ms_reply_to_is_bot m) f);
             (found, f2) = (case replied of Some r \<Rightarrow> (Some r, f1) | None \<Rightarrow> named_pitch cfg now m f1)
         in case found of
              None \<Rightarrow> (Stop, f2)
            | Some r \<Rightarrow> if pt_drafted (pitch_at f2 r) then (Stop, f2)
                else emit now r T_ship_it (the host) (Some m) f2))"

text \<open>\<open>on_reaction\<close> of an authorized user\<close>

definition reaction_part :: "flow_config \<Rightarrow> time \<Rightarrow> reaction \<Rightarrow> int \<Rightarrow> flow \<Rightarrow> pause \<times> flow" where
  "reaction_part cfg now c user f =
     (let had = fc_emoji cfg \<in> set (rc_old c); has = fc_emoji cfg \<in> set (rc_new c); mid = rc_message_id c in
      if had = has then (Stop, f)
      else (case pitch_for_target cfg now (rc_chat_id c) mid False f of
          (None, f1) \<Rightarrow> (Stop, f1)
        | (Some r, f1) \<Rightarrow>
            let f2 = set_pitch r (\<lambda>p. p\<lparr>pt_reaction_keys := insert mid (pt_reaction_keys p)\<rparr>) f1 in
            if \<not> has then (Stop, set_pitch r (\<lambda>p. p\<lparr>pt_reaction_fires := pt_reaction_fires p - {(mid, user)}\<rparr>) f2)
            else
              let f3 = set_pitch r (\<lambda>p. p\<lparr>pt_reaction_fires := insert (mid, user) (pt_reaction_fires p)\<rparr>) f2 in
              if pt_drafted (pitch_at f3 r) then (Stop, f3)
              else maybe_trigger cfg now r user f3))"

end
