(* ===== verification/FlowProps.thy ===== *)
theory FlowProps
  imports PitchFlow Demo
begin

text \<open>
  The pitch flow as a system: messages, reactions, answers about the host and deliveries come in
  any order, and a handler that waits is a pending task. The property is about every run.
\<close>

section \<open>Well-formed tables\<close>

definition pitch_ok :: "sender_check \<Rightarrow> pitch \<Rightarrow> bool" where
  "pitch_ok check p \<longleftrightarrow> (\<forall>u \<in> pt_reply_fires p \<union> snd ` pt_reaction_fires p. allowed check (pt_chat_id p) u)"

definition ref_ok :: "flow \<Rightarrow> int \<Rightarrow> nat \<Rightarrow> bool" where
  "ref_ok f chat r \<longleftrightarrow> r < length (fl_heap f) \<and> pt_chat_id (pitch_at f r) = chat"

definition flow_ok :: "sender_check \<Rightarrow> flow \<Rightarrow> bool" where
  "flow_ok check f \<longleftrightarrow> (\<forall>c i r. fl_by_msg f (c, i) = Some r \<longrightarrow> ref_ok f c r)
     \<and> (\<forall>c. \<forall>r \<in> set (fl_pitches f c). ref_ok f c r) \<and> (\<forall>p \<in> set (fl_heap f). pitch_ok check p)"

text \<open>A step that drafts nothing: the pitches stay in place, and so do their marks.\<close>

definition quiet :: "sender_check \<Rightarrow> flow \<Rightarrow> flow \<Rightarrow> bool" where
  "quiet check f f' \<longleftrightarrow> flow_ok check f' \<and> map pt_drafted (fl_heap f') = map pt_drafted (fl_heap f)"

lemma quiet_refl: "flow_ok check f \<Longrightarrow> quiet check f f"
  by (simp add: quiet_def)

lemma quiet_trans: "quiet check f g \<Longrightarrow> quiet check g h \<Longrightarrow> quiet check f h"
  by (simp add: quiet_def)

lemma quiet_ok: "quiet check f g \<Longrightarrow> flow_ok check g"
  by (simp add: quiet_def)

lemma set_pitch_simps [simp]:
  "fl_by_msg (set_pitch r g f) = fl_by_msg f" "fl_pitches (set_pitch r g f) = fl_pitches f"
  "length (fl_heap (set_pitch r g f)) = length (fl_heap f)"
  "r < length (fl_heap f) \<Longrightarrow> pitch_at (set_pitch r g f) r = g (pitch_at f r)"
  by (simp_all add: set_pitch_def)

lemma set_pitch_ok:
  assumes "flow_ok check f" and "ref_ok f c r"
    and "pt_chat_id (g (pitch_at f r)) = c" and "pitch_ok check (g (pitch_at f r))"
  shows "flow_ok check (set_pitch r g f)"
proof -
  have chat: "ref_ok (set_pitch r g f) d i \<longleftrightarrow> ref_ok f d i" for d i
    using assms(2,3) by (auto simp: ref_ok_def set_pitch_def nth_modify_at)
  have "set (fl_heap (set_pitch r g f)) \<subseteq> insert (g (pitch_at f r)) (set (fl_heap f))"
    using set_modify_at_subset by (simp add: set_pitch_def)
  then show ?thesis using assms(1,4) unfolding flow_ok_def chat by auto
qed

lemma flow_okD:
  assumes "flow_ok check f"
  shows "fl_by_msg f (c, i) = Some r \<Longrightarrow> ref_ok f c r" "r \<in> set (fl_pitches f c) \<Longrightarrow> ref_ok f c r"
    "r < length (fl_heap f) \<Longrightarrow> pitch_ok check (pitch_at f r)"
  using assms by (auto simp: flow_ok_def)

section \<open>Steps that draft nothing\<close>

lemma add_riff_quiet:
  assumes "flow_ok check f" and "ref_ok f chat r"
  shows "quiet check f (add_riff chat mid r f)"
proof -
  let ?f1 = "set_pitch r (\<lambda>p. p\<lparr>pt_riff_ids := insert mid (pt_riff_ids p)\<rparr>) f"
  have "pitch_ok check (pitch_at f r)" using flow_okD(3) [OF assms(1)] assms(2) by (simp add: ref_ok_def)
  then have ok: "flow_ok check ?f1"
    using assms by (intro set_pitch_ok [OF assms]) (simp_all add: ref_ok_def pitch_ok_def)
  have r: "ref_ok ?f1 chat r" using assms(2) by (simp add: ref_ok_def)
  have "flow_ok check (add_riff chat mid r f)"
    using ok r unfolding add_riff_def Let_def flow_ok_def by (auto simp: ref_ok_def)
  moreover have "map pt_drafted (fl_heap (add_riff chat mid r f)) = map pt_drafted (fl_heap f)"
    by (simp add: add_riff_def set_pitch_def map_modify_at_same)
  ultimately show ?thesis by (simp add: quiet_def)
qed

lemma last_of_subset: "set (last_of n xs) \<subseteq> set xs"
  by (auto simp: last_of_def dest: in_set_dropD)

lemma forget_sub: "fold (\<lambda>r. forget chat (h r)) rs m k = Some x \<Longrightarrow> m k = Some x"
proof (induction rs arbitrary: m)
  case (Cons r rs)
  then have "forget chat (h r) m k = Some x" by simp
  then show ?case by (cases k) (auto simp: forget_def split: if_splits)
qed simp

lemma prune_heap [simp]: "fl_heap (prune cfg now chat f) = fl_heap f"
  by (simp add: prune_def Let_def)

lemma prune_sub:
  "fl_by_msg (prune cfg now chat f) k = Some x \<Longrightarrow> fl_by_msg f k = Some x"
  "r \<in> set (fl_pitches (prune cfg now chat f) c) \<Longrightarrow> r \<in> set (fl_pitches f c)"
proof -
  show "fl_by_msg (prune cfg now chat f) k = Some x \<Longrightarrow> fl_by_msg f k = Some x"
    by (auto simp: prune_def Let_def dest: forget_sub split: if_splits)
  assume "r \<in> set (fl_pitches (prune cfg now chat f) c)"
  then have "r \<in> set (fl_pitches f c)
      \<or> (c = chat \<and> r \<in> set (last_of (fc_max_pitches cfg) (filter (\<lambda>r. now - pt_created_at (pitch_at f r) \<le> fc_ttl cfg) (fl_pitches f chat))))"
    by (auto simp: prune_def Let_def split: if_splits)
  then show "r \<in> set (fl_pitches f c)" using last_of_subset by fastforce
qed

lemma prune_quiet: "flow_ok check f \<Longrightarrow> quiet check f (prune cfg now chat f)"
  using prune_sub unfolding quiet_def flow_ok_def ref_ok_def by (metis prune_heap)

lemma note_seen_quiet: "flow_ok check f \<Longrightarrow> quiet check f (note_seen chat mid f)"
  by (simp add: quiet_def flow_ok_def note_seen_def Let_def ref_ok_def)

lemma note_bot_card_quiet: "flow_ok check f \<Longrightarrow> quiet check f (note_bot_card chat mid f)"
  by (simp add: quiet_def flow_ok_def note_bot_card_def ref_ok_def)

lemma queue_context_quiet: "flow_ok check f \<Longrightarrow> quiet check f (queue_context now src chat sender t f)"
  by (simp add: quiet_def flow_ok_def queue_context_def ref_ok_def)

lemma take_context_quiet:
  "flow_ok check f \<Longrightarrow> quiet check f (snd (take_context cfg now msg chat sender f))"
  by (auto simp: quiet_def flow_ok_def take_context_def ref_ok_def Let_def split: option.split)

lemma pitch_for_target_quiet:
  assumes "flow_ok check f" and "pitch_for_target cfg now chat t b f = (x, f')"
  shows "quiet check f f'" "x = Some r \<Longrightarrow> ref_ok f' chat r"
proof -
  have "quiet check f f' \<and> (x = Some r \<longrightarrow> ref_ok f' chat r)"
  proof (cases "fl_by_msg f (chat, t)")
    case (Some i)
    then show ?thesis using assms flow_okD(1) quiet_refl by (auto simp: pitch_for_target_def)
  next
    case None
    let ?f1 = "prune cfg now chat f"
    let ?P = "\<lambda>r. pt_message_id (pitch_at ?f1 r) < t \<and> t \<le> pt_message_id (pitch_at ?f1 r) + fc_window cfg"
    have q: "quiet check f ?f1" by (rule prune_quiet [OF assms(1)])
    show ?thesis
    proof (cases "List.find ?P (rev (fl_pitches ?f1 chat))")
      case n: None
      then show ?thesis using None assms q quiet_refl
        by (auto simp: pitch_for_target_def open_pitches_def Let_def split: if_splits)
    next
      case (Some i)
      have i: "ref_ok ?f1 chat i"
        using find_SomeD [OF Some] flow_okD(2) [OF quiet_ok [OF q]] by simp
      note a = add_riff_quiet [OF quiet_ok [OF q] i, of t]
      have "ref_ok (add_riff chat t i ?f1) chat i"
        using i by (simp add: ref_ok_def add_riff_def Let_def set_pitch_def)
      then show ?thesis using None Some assms q quiet_refl quiet_trans [OF q a]
        by (auto simp: pitch_for_target_def open_pitches_def Let_def split: if_splits)
    qed
  qed
  then show "quiet check f f'" "x = Some r \<Longrightarrow> ref_ok f' chat r" by simp_all
qed

section \<open>Steps that may hand a request out\<close>

type_synonym record_made = "nat \<times> draft_requested \<times> int set"

fun hand_ref :: "pause \<Rightarrow> nat list" where
  "hand_ref (Hand_out r d after) = [r]"
| "hand_ref _ = []"

text \<open>The request, with the people who had backed the pitch then.\<close>

fun made :: "flow \<Rightarrow> pause \<Rightarrow> record_made list" where
  "made f (Hand_out r d after) = [(r, d, fire_users (pitch_at f r))]"
| "made f _ = []"

definition made_ok :: "flow_config \<Rightarrow> sender_check \<Rightarrow> (int \<Rightarrow> int option \<Rightarrow> bool) \<Rightarrow> record_made \<Rightarrow> bool" where
  "made_ok cfg check is_host x = (case x of (r, d, us) \<Rightarrow>
     dq_fire_count d = card us \<and> dq_idea_by d \<notin> us \<and> (\<forall>u \<in> us. allowed check (dq_chat_id d) u)
     \<and> (dq_trigger d = T_fire \<longrightarrow> fc_threshold cfg \<le> int (card us))
     \<and> (dq_trigger d = T_ship_it \<longrightarrow> is_host (dq_chat_id d) (Some (dq_triggered_by d))))"

text \<open>
  What a handler may do until it waits: at most one pitch becomes drafted, it was not before, and
  its request is in order.
\<close>

definition part_ok ::
  "flow_config \<Rightarrow> sender_check \<Rightarrow> (int \<Rightarrow> int option \<Rightarrow> bool) \<Rightarrow> flow \<Rightarrow> pause \<times> flow \<Rightarrow> bool" where
  "part_ok cfg check is_host f x = (case x of (t, f') \<Rightarrow>
     flow_ok check f' \<and> length (fl_heap f) \<le> length (fl_heap f')
     \<and> (\<forall>r < length (fl_heap f). pt_drafted (pitch_at f' r) = (pt_drafted (pitch_at f r) \<or> r \<in> set (hand_ref t)))
     \<and> (\<forall>r \<in> set (hand_ref t). r < length (fl_heap f) \<and> \<not> pt_drafted (pitch_at f r))
     \<and> (\<forall>x \<in> set (made f' t). made_ok cfg check is_host x))"

lemma quiet_nth:
  assumes "quiet check f g"
  shows "length (fl_heap g) = length (fl_heap f)"
    "r < length (fl_heap f) \<Longrightarrow> pt_drafted (pitch_at g r) = pt_drafted (pitch_at f r)"
proof -
  have m: "map pt_drafted (fl_heap g) = map pt_drafted (fl_heap f)" using assms by (simp add: quiet_def)
  show l: "length (fl_heap g) = length (fl_heap f)" using map_eq_imp_length_eq [OF m] .
  show "r < length (fl_heap f) \<Longrightarrow> pt_drafted (pitch_at g r) = pt_drafted (pitch_at f r)"
    using arg_cong [OF m, of "\<lambda>xs. xs ! r"] l by simp
qed

lemma part_after_quiet: "quiet check f g \<Longrightarrow> part_ok cfg check is_host g x \<Longrightarrow> part_ok cfg check is_host f x"
  using quiet_nth [of check f g] by (auto simp: part_ok_def split: prod.splits)

lemma part_quiet: "quiet check f g \<Longrightarrow> hand_ref t = [] \<Longrightarrow> made g t = [] \<Longrightarrow> part_ok cfg check is_host f (t, g)"
  using quiet_nth [of check f g] by (simp add: part_ok_def quiet_def)

lemma part_stop: "quiet check f g \<Longrightarrow> part_ok cfg check is_host f (Stop, g)"
  by (rule part_quiet) simp_all

lemma emit_part:
  assumes "flow_ok check f" and "r < length (fl_heap f)" and "\<not> pt_drafted (pitch_at f r)"
    and "trig = T_fire \<Longrightarrow> fc_threshold cfg \<le> int (card (fire_users (pitch_at f r)))"
    and "trig = T_ship_it \<Longrightarrow> is_host (pt_chat_id (pitch_at f r)) (Some u)"
  shows "part_ok cfg check is_host f (emit now r trig u after f)"
proof -
  let ?g = "\<lambda>p. p\<lparr>pt_drafted := True\<rparr>"
  have r: "ref_ok f (pt_chat_id (pitch_at f r)) r" using assms(2) by (simp add: ref_ok_def)
  have p: "pitch_ok check (pitch_at f r)" using flow_okD(3) [OF assms(1,2)] .
  have ok: "flow_ok check (set_pitch r ?g f)"
    using p by (intro set_pitch_ok [OF assms(1) r]) (simp_all add: pitch_ok_def)
  have users: "fire_users (?g (pitch_at f r)) = fire_users (pitch_at f r)" by (simp add: fire_users_def)
  have auth: "\<forall>u \<in> fire_users (pitch_at f r). allowed check (pt_chat_id (pitch_at f r)) u"
    using p by (auto simp: pitch_ok_def fire_users_def)
  have author: "pt_author_id (pitch_at f r) \<notin> fire_users (pitch_at f r)" by (simp add: fire_users_def)
  have marks: "pt_drafted (pitch_at (set_pitch r ?g f) i) = (pt_drafted (pitch_at f i) \<or> i = r)" if "i < length (fl_heap f)" for i
    using that by (simp add: set_pitch_def nth_modify_at)
  show ?thesis
    using ok marks assms(2-5) auth author by (simp add: part_ok_def emit_def Let_def made_ok_def users)
qed

lemma trigger_part:
  assumes "flow_ok check f" and "r < length (fl_heap f)"
  shows "part_ok cfg check is_host f (maybe_trigger cfg now r u f)"
  using assms part_stop [OF quiet_refl [OF assms(1)]] by (auto simp: maybe_trigger_def intro!: emit_part)

lemma fire_quiet:
  assumes "flow_ok check f" and "ref_ok f chat r" and "allowed check chat u"
    and "g = (\<lambda>p. p\<lparr>pt_reply_fires := insert u (pt_reply_fires p)\<rparr>)
      \<or> g = (\<lambda>p. p\<lparr>pt_reaction_fires := insert (mid, u) (pt_reaction_fires p)\<rparr>)
      \<or> g = (\<lambda>p. p\<lparr>pt_reaction_fires := pt_reaction_fires p - {(mid, u)}\<rparr>)
      \<or> g = (\<lambda>p. p\<lparr>pt_reaction_keys := insert mid (pt_reaction_keys p)\<rparr>)"
  shows "quiet check f (set_pitch r g f)" "ref_ok (set_pitch r g f) chat r"
proof -
  have p: "pitch_ok check (pitch_at f r)" and c: "pt_chat_id (pitch_at f r) = chat" and l: "r < length (fl_heap f)"
    using flow_okD(3) [OF assms(1)] assms(2) by (simp_all add: ref_ok_def)
  have g: "pt_chat_id (g x) = pt_chat_id x" "pt_drafted (g x) = pt_drafted x" for x using assms(4) by auto
  have "pitch_ok check (g (pitch_at f r))"
    using assms(3,4) p c by (elim disjE) (auto simp: pitch_ok_def)
  then have "flow_ok check (set_pitch r g f)" using g(1) c by (intro set_pitch_ok [OF assms(1,2)]) simp_all
  moreover have "map pt_drafted (fl_heap (set_pitch r g f)) = map pt_drafted (fl_heap f)"
    unfolding set_pitch_def using g(2) by (simp add: map_modify_at_same)
  ultimately show "quiet check f (set_pitch r g f)" by (simp add: quiet_def)
  show "ref_ok (set_pitch r g f) chat r" using g(1) c l by (simp add: ref_ok_def)
qed

lemma reply_fire_part:
  assumes "flow_ok check f" and "allowed check (ms_chat_id m) u"
  shows "part_ok cfg check is_host f (reply_fire cfg now m t u f)"
proof -
  obtain x f1 where x: "pitch_for_target cfg now (ms_chat_id m) t (ms_reply_to_is_bot m) f = (x, f1)" by fastforce
  note q = pitch_for_target_quiet [OF assms(1) x]
  show ?thesis
  proof (cases x)
    case None
    then show ?thesis using x part_stop [OF q(1)] by (simp add: reply_fire_def)
  next
    case (Some r)
    let ?g = "\<lambda>p. p\<lparr>pt_reply_fires := insert u (pt_reply_fires p)\<rparr>"
    note r = q(2) [OF Some]
    have "quiet check f1 (set_pitch r ?g f1)" "ref_ok (set_pitch r ?g f1) (ms_chat_id m) r"
      using fire_quiet [OF quiet_ok [OF q(1)] r assms(2)] by blast+
    then have "part_ok cfg check is_host f (maybe_trigger cfg now r u (set_pitch r ?g f1))"
      using q(1) by (meson part_after_quiet quiet_ok quiet_trans ref_ok_def trigger_part)
    then show ?thesis using Some x part_stop [OF q(1)] by (simp add: reply_fire_def)
  qed
qed

lemma add_pitch_part:
  assumes "flow_ok check f"
  shows "part_ok cfg check is_host f (Stop, add_pitch cfg now m u f)"
proof -
  let ?p = "\<lparr>pt_chat_id = ms_chat_id m, pt_message_id = ms_message_id m, pt_author_id = u, pt_author_name = handle m,
     pt_text = ms_text m, pt_created_at = now, pt_riff_ids = {}, pt_reaction_keys = {},
     pt_reaction_fires = {}, pt_reply_fires = {}, pt_drafted = False\<rparr>"
  let ?r = "length (fl_heap f)"
  let ?f1 = "f\<lparr>fl_heap := fl_heap f @ [?p], fl_pitches := (fl_pitches f)(ms_chat_id m := fl_pitches f (ms_chat_id m) @ [?r]),
     fl_by_msg := (fl_by_msg f)((ms_chat_id m, ms_message_id m) := Some ?r)\<rparr>"
  have old: "ref_ok f c r \<Longrightarrow> ref_ok ?f1 c r" for c r by (auto simp: ref_ok_def nth_append)
  have new: "ref_ok ?f1 (ms_chat_id m) ?r" by (simp add: ref_ok_def)
  have "flow_ok check ?f1"
    using assms old new unfolding flow_ok_def by (auto simp: pitch_ok_def)
  note ok = prune_quiet [OF this, of cfg now "ms_chat_id m"]
  have q: "quiet check ?f1 (add_pitch cfg now m u f)"
    unfolding add_pitch_def Let_def by (rule quiet_trans [OF ok queue_context_quiet [OF quiet_ok [OF ok]]])
  show ?thesis
    using quiet_ok [OF q] quiet_nth(1) [OF q] quiet_nth(2) [OF q] by (simp add: part_ok_def nth_append)
qed

lemma message_part_ok:
  assumes "flow_ok check f" and "allowed check (ms_chat_id m) u"
  shows "part_ok cfg check is_host f (message_part cfg now m u f)"
proof -
  let ?f1 = "prune cfg now (ms_chat_id m) (note_seen (ms_chat_id m) (ms_message_id m) f)"
  let ?f2 = "case ms_reply_to m of None \<Rightarrow> ?f1
    | Some t \<Rightarrow> if ms_reply_to_is_bot m then snd (pitch_for_target cfg now (ms_chat_id m) t True ?f1) else ?f1"
  note seen = note_seen_quiet [OF assms(1), of "ms_chat_id m" "ms_message_id m"]
  have q1: "quiet check f ?f1" by (rule quiet_trans [OF seen prune_quiet [OF quiet_ok [OF seen]]])
  have q2: "quiet check f ?f2"
    using q1 quiet_trans [OF q1] pitch_for_target_quiet(1) [OF quiet_ok [OF q1]]
    by (auto split: option.split) (metis prod.collapse)
  have "part_ok cfg check is_host ?f2 (message_part cfg now m u f)"
    using reply_fire_part [OF quiet_ok [OF q2] assms(2)] add_pitch_part [OF quiet_ok [OF q2]]
      part_stop [OF quiet_refl [OF quiet_ok [OF q2]]]
      part_quiet [OF quiet_refl [OF quiet_ok [OF q2]], of "Ask_host m"]
    unfolding message_part_def Let_def by simp
  then show ?thesis by (rule part_after_quiet [OF q2])
qed

lemma named_pitch_quiet:
  assumes "flow_ok check f" and "named_pitch cfg now m f = (x, f')"
  shows "quiet check f f'" "x = Some r \<Longrightarrow> ref_ok f' (ms_chat_id m) r"
proof -
  let ?f1 = "prune cfg now (ms_chat_id m) f"
  have q: "quiet check f ?f1" by (rule prune_quiet [OF assms(1)])
  have f': "f' = ?f1"
    using assms(2) by (auto simp: named_pitch_def open_pitches_def Let_def split: list.splits)
  show "quiet check f f'" using q f' by simp
  assume "x = Some r"
  then have "[r] = filter (\<lambda>r. \<not> pt_drafted (pitch_at ?f1 r) \<and> names_pitch (ms_text m) (pitch_at ?f1 r)) (fl_pitches ?f1 (ms_chat_id m))"
    using assms(2) by (auto simp: named_pitch_def open_pitches_def Let_def split: list.splits)
  then have "r \<in> set (fl_pitches ?f1 (ms_chat_id m))" by (metis filter_is_subset list.set_intros(1) subsetD)
  then show "ref_ok f' (ms_chat_id m) r" using flow_okD(2) [OF quiet_ok [OF q]] f' by simp
qed

lemma host_part_ok:
  assumes "flow_ok check f" and "is_host (ms_chat_id m) h"
  shows "part_ok cfg check is_host f (host_part cfg now m h f)"
proof (cases "h = None \<or> h \<noteq> ms_user_id m")
  case True
  then show ?thesis using part_stop [OF quiet_refl [OF assms(1)]] by (simp add: host_part_def)
next
  case False
  then obtain u where h: "h = Some u" "ms_user_id m = Some u" by auto
  let ?look = "case ms_reply_to m of None \<Rightarrow> (None, f)
    | Some t \<Rightarrow> pitch_for_target cfg now (ms_chat_id m) t (ms_reply_to_is_bot m) f"
  obtain x f1 where x: "?look = (x, f1)" by fastforce
  have q1: "quiet check f f1" and r1: "\<And>r. x = Some r \<Longrightarrow> ref_ok f1 (ms_chat_id m) r"
    using x quiet_refl [OF assms(1)] pitch_for_target_quiet [OF assms(1)] by (auto split: option.splits)
  obtain y f2 where y: "(case x of Some r \<Rightarrow> (Some r, f1) | None \<Rightarrow> named_pitch cfg now m f1) = (y, f2)" by fastforce
  have q2: "quiet check f1 f2" and r2: "\<And>r. y = Some r \<Longrightarrow> ref_ok f2 (ms_chat_id m) r"
    using y r1 quiet_refl [OF quiet_ok [OF q1]] named_pitch_quiet [OF quiet_ok [OF q1]] by (auto split: option.splits)
  note q = quiet_trans [OF q1 q2]
  show ?thesis
  proof (cases y)
    case None
    then show ?thesis using x y h part_stop [OF q] by (simp add: host_part_def)
  next
    case (Some r)
    note r = r2 [OF Some]
    have "part_ok cfg check is_host f2 (emit now r T_ship_it u (Some m) f2)" if "\<not> pt_drafted (pitch_at f2 r)"
      using that r assms(2) h by (intro emit_part [OF quiet_ok [OF q]]) (simp_all add: ref_ok_def)
    then show ?thesis using x y h Some part_stop [OF q] part_after_quiet [OF q] by (simp add: host_part_def)
  qed
qed

lemma reaction_part_ok:
  assumes "flow_ok check f" and "allowed check (rc_chat_id c) u"
  shows "part_ok cfg check is_host f (reaction_part cfg now c u f)"
proof -
  obtain x f1 where x: "pitch_for_target cfg now (rc_chat_id c) (rc_message_id c) False f = (x, f1)" by fastforce
  note q1 = pitch_for_target_quiet [OF assms(1) x]
  show ?thesis
  proof (cases x)
    case None
    then show ?thesis using x part_stop [OF q1(1)] part_stop [OF quiet_refl [OF assms(1)]]
      by (simp add: reaction_part_def Let_def)
  next
    case (Some r)
    let ?f2 = "set_pitch r (\<lambda>p. p\<lparr>pt_reaction_keys := insert (rc_message_id c) (pt_reaction_keys p)\<rparr>) f1"
    let ?on = "set_pitch r (\<lambda>p. p\<lparr>pt_reaction_fires := insert (rc_message_id c, u) (pt_reaction_fires p)\<rparr>) ?f2"
    let ?off = "set_pitch r (\<lambda>p. p\<lparr>pt_reaction_fires := pt_reaction_fires p - {(rc_message_id c, u)}\<rparr>) ?f2"
    note r1 = q1(2) [OF Some]
    have q2: "quiet check f ?f2" and r2: "ref_ok ?f2 (rc_chat_id c) r"
      using fire_quiet [OF quiet_ok [OF q1(1)] r1 assms(2)] quiet_trans [OF q1(1)] by blast+
    have q3: "quiet check f ?on" "quiet check f ?off" and r3: "ref_ok ?on (rc_chat_id c) r"
      using fire_quiet [OF quiet_ok [OF q2] r2 assms(2)] quiet_trans [OF q2] by blast+
    have "part_ok cfg check is_host f (maybe_trigger cfg now r u ?on)"
      using r3 by (intro part_after_quiet [OF q3(1)] trigger_part [OF quiet_ok [OF q3(1)]]) (simp add: ref_ok_def)
    then show ?thesis
      using Some x part_stop [OF quiet_refl [OF assms(1)]] part_stop [OF q3(1)] part_stop [OF q3(2)]
      by (simp add: reaction_part_def Let_def)
  qed
qed

section \<open>The system\<close>

text \<open>
  The tables, the handlers that wait, the requests handed out so far, and the pitches whose request
  was delivered.
\<close>

record flow_sys =
  fs_flow :: flow
  fs_tasks :: "pause list"
  fs_made :: "record_made list"
  fs_done :: "nat list"

definition new_sys :: flow_sys where
  "new_sys = \<lparr>fs_flow = new_flow, fs_tasks = [], fs_made = [], fs_done = []\<rparr>"

definition waiting :: "pause \<Rightarrow> pause list" where
  "waiting t = (if t = Stop then [] else [t])"

text \<open>A handler ran until \<open>t\<close> and left the tables as \<open>f\<close>.\<close>

definition advance :: "pause \<times> flow \<Rightarrow> pause list \<Rightarrow> flow_sys \<Rightarrow> flow_sys" where
  "advance x ts s = (case x of (t, f) \<Rightarrow>
     s\<lparr>fs_flow := f, fs_tasks := ts @ waiting t, fs_made := fs_made s @ made f t\<rparr>)"

inductive flow_step ::
  "flow_config \<Rightarrow> sender_check \<Rightarrow> (int \<Rightarrow> int option \<Rightarrow> bool) \<Rightarrow> flow_sys \<Rightarrow> flow_sys \<Rightarrow> bool"
  for cfg check is_host where
  said: "flow_step cfg check is_host s (advance (message_part cfg now m u (fs_flow s)) (fs_tasks s) s)"
    if "ms_user_id m = Some u" "\<not> ms_is_bot m" "allowed check (ms_chat_id m) u"
| reacted: "flow_step cfg check is_host s (advance (reaction_part cfg now c u (fs_flow s)) (fs_tasks s) s)"
    if "rc_user_id c = Some u" "\<not> rc_user_is_bot c" "allowed check (rc_chat_id c) u"
| host_known: "flow_step cfg check is_host s (advance (host_part cfg now m h (fs_flow s)) (xs @ ys) s)"
    if "fs_tasks s = xs @ Ask_host m # ys" "is_host (ms_chat_id m) h"
| host_unknown: "flow_step cfg check is_host s (s\<lparr>fs_tasks := xs @ ys\<rparr>)"
    if "fs_tasks s = xs @ Ask_host m # ys"
| drafted: "flow_step cfg check is_host s
      (s\<lparr>fs_flow := delivered now r after (fs_flow s), fs_tasks := xs @ ys, fs_done := r # fs_done s\<rparr>)"
    if "fs_tasks s = xs @ Hand_out r d after # ys"
| not_drafted: "flow_step cfg check is_host s (s\<lparr>fs_flow := not_delivered r (fs_flow s), fs_tasks := xs @ ys\<rparr>)"
    if "fs_tasks s = xs @ Hand_out r d after # ys"
| card_sent: "flow_step cfg check is_host s (s\<lparr>fs_flow := note_bot_card chat mid (fs_flow s)\<rparr>)"
| riff_sent: "flow_step cfg check is_host s (s\<lparr>fs_flow := snd (link_riff chat mid riff (fs_flow s))\<rparr>)"
| model_called: "flow_step cfg check is_host s (s\<lparr>fs_flow := snd (pre_llm_call cfg now c words (fs_flow s))\<rparr>)"

inductive flow_run ::
  "flow_config \<Rightarrow> sender_check \<Rightarrow> (int \<Rightarrow> int option \<Rightarrow> bool) \<Rightarrow> flow_sys \<Rightarrow> bool"
  for cfg check is_host where
  start: "flow_run cfg check is_host new_sys"
| next_step: "flow_run cfg check is_host s \<Longrightarrow> flow_step cfg check is_host s s' \<Longrightarrow> flow_run cfg check is_host s'"

section \<open>What every run keeps\<close>

definition hand_refs :: "pause list \<Rightarrow> nat list" where
  "hand_refs ts = concat (map hand_ref ts)"

lemma hand_refs_simps [simp]:
  "hand_refs [] = []" "hand_refs (t # ts) = hand_ref t @ hand_refs ts" "hand_refs (ts @ us) = hand_refs ts @ hand_refs us"
  by (simp_all add: hand_refs_def)

lemma hand_refs_waiting [simp]: "hand_refs (waiting t) = hand_ref t"
  by (cases t) (simp_all add: waiting_def)

definition marked :: "flow \<Rightarrow> nat list \<Rightarrow> bool" where
  "marked f rs \<longleftrightarrow> distinct rs \<and> (\<forall>r \<in> set rs. r < length (fl_heap f) \<and> pt_drafted (pitch_at f r))"

definition run_ok ::
  "flow_config \<Rightarrow> sender_check \<Rightarrow> (int \<Rightarrow> int option \<Rightarrow> bool) \<Rightarrow> flow_sys \<Rightarrow> bool" where
  "run_ok cfg check is_host s \<longleftrightarrow> flow_ok check (fs_flow s) \<and> marked (fs_flow s) (hand_refs (fs_tasks s) @ fs_done s)
     \<and> (\<forall>x \<in> set (fs_made s). made_ok cfg check is_host x)"

lemma new_sys_ok: "run_ok cfg check is_host new_sys"
  by (simp add: run_ok_def new_sys_def new_flow_def flow_ok_def marked_def)

lemma advance_ok:
  assumes "run_ok cfg check is_host s" and "part_ok cfg check is_host (fs_flow s) x"
    and "hand_refs ts = hand_refs (fs_tasks s)"
  shows "run_ok cfg check is_host (advance x ts s)"
proof -
  obtain t f where x: "x = (t, f)" by (cases x)
  let ?rs = "hand_refs (fs_tasks s)"
  have p: "flow_ok check f" "length (fl_heap (fs_flow s)) \<le> length (fl_heap f)"
      "\<And>r. r < length (fl_heap (fs_flow s)) \<Longrightarrow> pt_drafted (pitch_at f r) = (pt_drafted (pitch_at (fs_flow s) r) \<or> r \<in> set (hand_ref t))"
      "\<And>r. r \<in> set (hand_ref t) \<Longrightarrow> r < length (fl_heap (fs_flow s)) \<and> \<not> pt_drafted (pitch_at (fs_flow s) r)"
      "\<And>x. x \<in> set (made f t) \<Longrightarrow> made_ok cfg check is_host x"
    using assms(2) by (auto simp: part_ok_def x)
  have old: "distinct (?rs @ fs_done s)"
      "\<And>r. r \<in> set (?rs @ fs_done s) \<Longrightarrow> r < length (fl_heap (fs_flow s)) \<and> pt_drafted (pitch_at (fs_flow s) r)"
    using assms(1) by (auto simp: run_ok_def marked_def)
  have d: "distinct (hand_ref t)" by (cases t) simp_all
  have new: "set (hand_ref t) \<inter> set (?rs @ fs_done s) = {}" using old(2) p(4) by blast
  have "distinct ((?rs @ hand_ref t) @ fs_done s)" using old(1) d new by auto
  moreover have "r < length (fl_heap f) \<and> pt_drafted (pitch_at f r)" if "r \<in> set ((?rs @ hand_ref t) @ fs_done s)" for r
    using that old(2) [of r] p(2) p(3) [of r] p(4) [of r] by auto
  ultimately have "marked f ((?rs @ hand_ref t) @ fs_done s)" unfolding marked_def by blast
  then show ?thesis using assms(1,3) p(1,5) by (auto simp: run_ok_def advance_def x)
qed

lemma quiet_run_ok:
  assumes "run_ok cfg check is_host s" and "quiet check (fs_flow s) f"
  shows "run_ok cfg check is_host (s\<lparr>fs_flow := f\<rparr>)"
  using assms quiet_nth [OF assms(2)] quiet_ok [OF assms(2)] by (simp add: run_ok_def marked_def)

lemma link_riff_quiet: "flow_ok check f \<Longrightarrow> quiet check f (snd (link_riff chat mid riff f))"
  by (auto simp: link_riff_def quiet_refl intro: add_riff_quiet flow_okD split: option.split)

lemma pre_llm_quiet: "flow_ok check f \<Longrightarrow> quiet check f (snd (pre_llm_call cfg now c words f))"
  using take_context_quiet quiet_refl by (simp add: pre_llm_call_def)

lemma delivered_quiet: "flow_ok check f \<Longrightarrow> quiet check f (delivered now r after f)"
  using queue_context_quiet quiet_refl by (simp add: delivered_def split: option.split)

lemma not_delivered_ok:
  assumes "flow_ok check f" and "marked f (xs @ r # ys)"
  shows "flow_ok check (not_delivered r f)" "marked (not_delivered r f) (xs @ ys)"
proof -
  have r: "ref_ok f (pt_chat_id (pitch_at f r)) r" using assms(2) by (simp add: marked_def ref_ok_def)
  have "pitch_ok check (pitch_at f r)" using flow_okD(3) [OF assms(1)] r by (simp add: ref_ok_def)
  then show "flow_ok check (not_delivered r f)"
    unfolding not_delivered_def by (intro set_pitch_ok [OF assms(1) r]) (simp_all add: pitch_ok_def)
  show "marked (not_delivered r f) (xs @ ys)"
    using assms(2) by (auto simp: marked_def not_delivered_def set_pitch_def nth_modify_at)
qed

lemma step_ok:
  assumes "flow_step cfg check is_host s s'" and "run_ok cfg check is_host s"
  shows "run_ok cfg check is_host s'"
proof -
  have ok: "flow_ok check (fs_flow s)" using assms(2) by (simp add: run_ok_def)
  note keep = quiet_run_ok [OF assms(2)]
  show ?thesis
    using assms(1)
  proof cases
    case (said m u now)
    then show ?thesis using advance_ok [OF assms(2) message_part_ok [OF ok]] by simp
  next
    case (reacted c u now)
    then show ?thesis using advance_ok [OF assms(2) reaction_part_ok [OF ok]] by simp
  next
    case (host_known xs m ys h now)
    then show ?thesis using advance_ok [OF assms(2) host_part_ok [OF ok]] by simp
  next
    case (host_unknown xs m ys)
    then show ?thesis using assms(2) by (simp add: run_ok_def)
  next
    case (drafted xs r d after ys now)
    have "run_ok cfg check is_host (s\<lparr>fs_flow := delivered now r after (fs_flow s)\<rparr>)"
      by (rule keep [OF delivered_quiet [OF ok]])
    then show ?thesis using drafted by (auto simp: run_ok_def marked_def)
  next
    case (not_drafted xs r d after ys)
    then have "marked (fs_flow s) (hand_refs xs @ r # (hand_refs ys @ fs_done s))"
      using assms(2) by (simp add: run_ok_def)
    then show ?thesis using not_drafted assms(2) not_delivered_ok [OF ok] by (auto simp: run_ok_def)
  next
    case (card_sent chat mid)
    then show ?thesis using keep [OF note_bot_card_quiet [OF ok]] by simp
  next
    case (riff_sent chat mid riff)
    then show ?thesis using keep [OF link_riff_quiet [OF ok]] by simp
  next
    case (model_called now c said)
    then show ?thesis using keep [OF pre_llm_quiet [OF ok]] by simp
  qed
qed

lemma run_keeps_ok: "flow_run cfg check is_host s \<Longrightarrow> run_ok cfg check is_host s"
  by (induction rule: flow_run.induct) (auto intro: new_sys_ok step_ok)

section \<open>The property\<close>

text \<open>
  C26: Whatever the order of messages, reactions, answers about the host and deliveries: a pitch has
  at most one request under way or delivered, and every request handed out carries the number of
  people who backed the pitch at that moment, the author not among them and each of them allowed in
  the chat; a request by fires has reached the threshold, a request by "ship it" comes from a user
  that the lookup of the host named.
\<close>

theorem drafts_are_earned:
  assumes "flow_run cfg check is_host s"
  shows "distinct (hand_refs (fs_tasks s) @ fs_done s)
    \<and> (\<forall>(r, d, us) \<in> set (fs_made s).
         dq_fire_count d = card us \<and> dq_idea_by d \<notin> us \<and> (\<forall>u \<in> us. allowed check (dq_chat_id d) u)
         \<and> (dq_trigger d = T_fire \<longrightarrow> fc_threshold cfg \<le> int (card us))
         \<and> (dq_trigger d = T_ship_it \<longrightarrow> is_host (dq_chat_id d) (Some (dq_triggered_by d))))"
  using run_keeps_ok [OF assms] by (auto simp: run_ok_def marked_def made_ok_def split: prod.splits)

section \<open>A run: a pitch, three fires, a request that fails and is handed out again\<close>

definition demo_message :: "int \<Rightarrow> int \<Rightarrow> string \<Rightarrow> int option \<Rightarrow> message" where
  "demo_message mid u t re = \<lparr>ms_chat_id = 5, ms_message_id = mid, ms_user_id = Some u, ms_text = t, ms_is_bot = False,
     ms_username = ''u'', ms_first_name = [], ms_last_name = [], ms_mentions_bot = True, ms_reply_to = re,
     ms_reply_to_is_bot = False, ms_thread_id = None, ms_is_command = False\<rparr>"

definition say :: "int \<Rightarrow> int \<Rightarrow> string \<Rightarrow> int option \<Rightarrow> flow_sys \<Rightarrow> flow_sys" where
  "say mid u t re s = advance (message_part default_config 0 (demo_message mid u t re) u (fs_flow s)) (fs_tasks s) s"

lemma say_run: "flow_run default_config None h s \<Longrightarrow> flow_run default_config None h (say mid u t re s)"
  unfolding say_def by (erule next_step, rule said) (simp_all add: demo_message_def allowed_def)

definition demo_pitched :: flow_sys where
  "demo_pitched = say 13 4 FIRE (Some 10) (say 12 3 FIRE (Some 10) (say 11 2 FIRE (Some 10) (say 10 1 ''long $ETH'' None new_sys)))"

definition demo_request :: "nat \<Rightarrow> int \<Rightarrow> pause" where
  "demo_request n by_user = Hand_out 0 \<lparr>dq_idea_by = 1, dq_text = ''long $ETH'', dq_source_message_id = 10, dq_chat_id = 5,
     dq_trigger = T_fire, dq_triggered_by = by_user, dq_fire_count = n, dq_idea_by_name = ''@u'', dq_created_at = 0\<rparr> None"

definition demo_failed :: flow_sys where
  "demo_failed = demo_pitched\<lparr>fs_flow := not_delivered 0 (fs_flow demo_pitched), fs_tasks := []\<rparr>"

definition demo_again :: flow_sys where
  "demo_again = say 14 5 FIRE (Some 10) demo_failed"

definition demo_done :: flow_sys where
  "demo_done = demo_again\<lparr>fs_flow := delivered 0 0 None (fs_flow demo_again), fs_tasks := [], fs_done := 0 # fs_done demo_again\<rparr>"

lemma demo_pitched_tasks: "fs_tasks demo_pitched = [] @ demo_request 3 4 # []"
  by code_simp

lemma demo_again_tasks: "fs_tasks demo_again = [] @ demo_request 4 5 # []"
  by code_simp

lemma demo_flow_run: "flow_run default_config None h demo_done"
proof -
  have "flow_run default_config None h demo_pitched"
    unfolding demo_pitched_def by (intro say_run start)
  then have "flow_run default_config None h demo_failed"
    using not_drafted [OF demo_pitched_tasks [unfolded demo_request_def]]
    unfolding demo_failed_def by (auto intro: next_step)
  then have "flow_run default_config None h demo_again"
    unfolding demo_again_def by (rule say_run)
  then show ?thesis
    using drafted [OF demo_again_tasks [unfolded demo_request_def]] unfolding demo_done_def by (auto intro: next_step)
qed

lemma demo_made:
  "map (\<lambda>(r, d, us). (r, dq_fire_count d)) (fs_made demo_done) = [(0, 3), (0, 4)]"
  "list_all (\<lambda>(r, d, us). dq_trigger d = T_fire) (fs_made demo_done)"
  by code_simp+

theorem drafts_are_earned_witness:
  "flow_run default_config None (\<lambda>c h. False) demo_done
   \<and> map (\<lambda>(r, d, us). (r, dq_fire_count d)) (fs_made demo_done) = [(0, 3), (0, 4)]
   \<and> distinct (hand_refs (fs_tasks demo_done) @ fs_done demo_done)
   \<and> list_all (\<lambda>(r, d, us). dq_fire_count d = card us \<and> dq_idea_by d \<notin> us
        \<and> fc_threshold default_config \<le> int (card us)) (fs_made demo_done)"
proof -
  note run = demo_flow_run [of "\<lambda>c h. False"]
  have "list_all (\<lambda>(r, d, us). dq_fire_count d = card us \<and> dq_idea_by d \<notin> us
        \<and> fc_threshold default_config \<le> int (card us)) (fs_made demo_done)"
    using drafts_are_earned [OF run] demo_made(2) unfolding list_all_iff by fastforce
  then show ?thesis using run demo_made(1) drafts_are_earned [OF run] by blast
qed

end
