(* ===== verification/Findings.thy ===== *)
theory Findings
  imports Demo Commands
begin

text \<open>
  What modelling showed: concrete runs in which the code does not do what it or its documentation
  says. Each theorem evaluates the model's definitions; the fund is the demo fund.
\<close>

section \<open>Coordination\<close>

definition two_agents :: fund_state where
  "two_agents = demo_s1\<lparr>st_agents := st_agents demo_s1
     @ [(new_agent ''scout'' ''13'' demo_addr ''8'')\<lparr>a_registered := True\<rparr>]\<rparr>"

definition cut_topic :: string where
  "cut_topic = replicate 79 (CHR ''a'') @ '' b''"

text \<open>
  \<open>normalize_topic\<close> cuts after it strips, so normalizing twice differs from normalizing once, and
  two agents hold a claim on the same topic.
\<close>

lemma topic_claimed_twice:
  "check_claim (result_state (claim_topic_mutate 110 ''hermes'' cut_topic two_agents)) ''scout'' cut_topic 120 = Allow"
  "map c_topic (st_claims (result_state (claim_topic_mutate 110 ''hermes'' cut_topic two_agents))) = [cut_topic]"
  by code_simp+

text \<open>
  An agent that the host approved and that is not registered yet asks again with another identity
  and another wallet, and stays approved.
\<close>

definition approved_guest :: fund_state where
  "approved_guest = result_state (approve_agent_mutate 112 ''hermes'' ''scout'' [] (Some ''7'')
     (result_state (request_agent_mutate 111 (new_agent ''scout'' ''13'' (''0x'' @ replicate 40 (CHR ''b'')) ''8'') demo_s1)))"

lemma approved_agent_replaced:
  "map (\<lambda>a. (a_identity_id a, a_approved a)) (st_agents (result_state (request_agent_mutate 113
     (new_agent ''scout'' ''99'' (''0x'' @ replicate 40 (CHR ''c'')) ''8'') approved_guest)))
   = [(''12'', True), (''99'', True)]"
  by code_simp

section \<open>The life cycle\<close>

text \<open>
  \<open>set_proposal_status\<close> takes an executed proposal to \<open>settled\<close>: no receipt, no cool-down.
\<close>

lemma settled_without_receipt:
  "(let st = result_state (set_proposal_status_mutate 2020 ''hermes'' ''p-1'' ''settled'' None [] [] demo_s6)
    in (map p_status (st_proposals st), st_receipts st, f_cooldown_until (st_fund st))) = ([Settled], [], None)"
  by code_simp

text \<open>
  The write of a chain status checks nothing: after the check and before the write somebody else
  can settle the proposal, and the write takes it back to \<open>executed\<close> beside its receipt.
\<close>

lemma settled_goes_back:
  "(let st = result_state (chain_status_mutate 3010 ''p-1'' Executed demo_s7)
    in (map p_status (st_proposals st), map r_proposal_id (st_receipts st))) = ([Executed], [''p-1''])"
  by code_simp

section \<open>Amounts and arguments\<close>

text \<open>An amount of 102 digits is rounded to 100 instead of being refused.\<close>

lemma long_amount_rounded:
  "to_base_units (A_str (CHR ''1'' # replicate 100 (CHR ''0'') @ ''.5'')) 0 False = Inr (10 ^ 100)"
proof -
  have a: "amount_value (A_str (CHR ''1'' # replicate 100 (CHR ''0'') @ ''.5'')) = Some (False, 10 ^ 101 + 5, - 1)"
    by code_simp
  have "length (str_nat (10 ^ 101 + 5)) = 102"
    using length_str_nat_gt [of 101 "10 ^ 101 + 5"] length_str_nat_le [of "10 ^ 101 + 5" 101] by simp
  then have "scaleb (False, 10 ^ 101 + 5, - 1) 0 = (False, 10 ^ 99, 1)"
    by (simp add: scaleb_def dec_fix_def PREC_def half_even_def)
  then show ?thesis by (simp add: to_base_units_def a dec_neg_def dec_is_int_def dec_to_int_def)
qed

text \<open>
  Setting up a fund that exists scales the ceiling by the asset argument first, USDG when there
  is none: a WETH fund's ceiling of seven decimals is refused, though its own scale takes it.
\<close>

lemma weth_ceiling_refused:
  "snd (snd (setup_write ctx d name agent [] [] [] (Some ''0.0000001'') host)) = Inl Units_error"
  "capital_limit (Some ''0.0000001'') ((new_fund name)\<lparr>f_asset := ''WETH''\<rparr>) = Inr (Some ''100000000000'')"
proof -
  have "to_base_units (A_str ''0.0000001'') 6 False = Inl Units_error"
    "to_base_units (A_str ''0.0000001'') 18 False = Inr 100000000000" "str_int 100000000000 = ''100000000000''"
    "asset_decimals ((new_fund [])\<lparr>f_asset := ''USDG''\<rparr>) = 6" "asset_decimals ((new_fund [])\<lparr>f_asset := ''WETH''\<rparr>) = 18"
    by code_simp+
  then show "snd (snd (setup_write ctx d name agent [] [] [] (Some ''0.0000001'') host)) = Inl Units_error"
    "capital_limit (Some ''0.0000001'') ((new_fund name)\<lparr>f_asset := ''WETH''\<rparr>) = Inr (Some ''100000000000'')"
    by (simp_all add: setup_write_def capital_limit_def setup_fund_record_def or_else_def asset_decimals_def)
qed

text \<open>Python's \<open>$\<close> also matches before a final newline, so the checks accept one.\<close>

lemma newline_accepted:
  "is_address (demo_addr @ [CHR 0x0A])" "FUND_NAME_RE (''alpha'' @ [CHR 0x0A])" "UINT_RE (''5'' @ [CHR 0x0A])"
  by code_simp+

end
