(* ===== verification/Views.thy ===== *)
theory Views
  imports ChainCard
begin

text \<open>
  \<open>telegram/types.py\<close> and the mapping of \<open>fund/telegram.py\<close>: what the cards show of a fund. The
  code goes from the records over dictionaries (\<open>fund_dict\<close>, \<open>proposal_dict\<close>) to the views; here
  that is one step. Fields the dictionaries never carry (\<open>nav\<close>, \<open>positions\<close>, the names of a
  member) keep their defaults and are left out; a float is its exact fraction.
\<close>

section \<open>People\<close>

record person =
  pe_tg_id :: int
  pe_username :: string
  pe_first_name :: string
  pe_last_name :: string

definition first_upper :: "string \<Rightarrow> string" where
  "first_upper part = (if strip part = [] then [] else [upper_char (hd (strip part))])"

definition person_handle :: "person \<Rightarrow> string" where
  "person_handle p =
     (if pe_username p \<noteq> [] then ''@'' @ lstrip_of (CHR ''@'') (pe_username p)
      else or_else (first_upper (pe_first_name p) @ first_upper (pe_last_name p)) (''user'' @ str_int (pe_tg_id p)))"

section \<open>Proposals\<close>

definition DEFAULT_THRESHOLD_BPS :: int where "DEFAULT_THRESHOLD_BPS = 2000"

record leg_view =
  lv_symbol :: string
  lv_weight_bps :: int

record proposal_view =
  pv_id :: string
  pv_governor :: string
  pv_proposer :: string
  pv_thesis :: string
  pv_legs :: "leg_view list"
  pv_max_capital :: rat
  pv_max_drawdown_bps :: int
  pv_bond_wood :: rat
  pv_status :: pstatus
  pv_backers :: "int list"
  pv_objectors :: "int list"
  pv_idea_by :: "int option"
  pv_card_message_id :: "int option"
  pv_voting_ends_at :: "int option"
  pv_against_bps :: int
  pv_threshold_bps :: int
  pv_image_url :: "string option"
  pv_capital_symbol :: string
  pv_onchain_id :: "int option"
  pv_review_ends_at :: "int option"
  pv_guardian_coverage :: string
  pv_bond_buffer_status :: string
  pv_bond_buffer_note :: string

definition int_or_none :: "string \<Rightarrow> int option" where
  "int_or_none v = (if v = [] then None else py_int v)"

text \<open>The ids that are numbers, each once, in order.\<close>

fun ids_from :: "int list \<Rightarrow> string list \<Rightarrow> int list" where
  "ids_from out [] = out"
| "ids_from out (v # vs) = (case int_or_none v of
     None \<Rightarrow> ids_from out vs
   | Some i \<Rightarrow> ids_from (if i \<in> set out then out else out @ [i]) vs)"

text \<open>\<open>_decimal\<close>: zero when the text is no number\<close>

definition decimal_of :: "string \<Rightarrow> nat \<Rightarrow> rat" where
  "decimal_of units decimals =
     (if units = [] then 0
      else case py_int units of None \<Rightarrow> 0 | Some n \<Rightarrow> of_int n / 10 ^ decimals)"

definition display_id :: "proposal \<Rightarrow> string" where
  "display_id p = (case p_onchain_id p of Some n \<Rightarrow> str_int n | None \<Rightarrow> p_id p)"

definition leg_view_of :: "leg \<Rightarrow> leg_view" where
  "leg_view_of l = \<lparr>lv_symbol = or_else (or_else (l_symbol l) (l_summary l)) ''?'', lv_weight_bps = l_weight_bps l\<rparr>"

definition shown_legs :: "proposal \<Rightarrow> leg list" where
  "shown_legs p = (let e = execute_legs p in if e = [] then p_legs p else e)"

definition proposal_to_view :: "fund_state \<Rightarrow> proposal \<Rightarrow> proposal_view" where
  "proposal_to_view st p = \<lparr>
     pv_id = display_id p, pv_governor = or_else (p_governor p) (f_governor (st_fund st)),
     pv_proposer = p_proposer_agent p, pv_thesis = p_thesis p, pv_legs = map leg_view_of (shown_legs p),
     pv_max_capital = decimal_of (p_max_capital p) (asset_decimals (st_fund st)),
     pv_max_drawdown_bps = p_max_drawdown_bps p, pv_bond_wood = decimal_of (p_bond_wood p) WOOD_DECIMALS,
     pv_status = p_status p, pv_backers = ids_from [] (p_backers p), pv_objectors = ids_from [] (p_objectors p),
     pv_idea_by = int_or_none (p_idea_by p), pv_card_message_id = int_or_none (p_card_message_id p),
     pv_voting_ends_at = map_option trunc (p_voting_ends_at p), pv_against_bps = p_against_bps p,
     pv_threshold_bps = (if f_veto_threshold_bps (st_fund st) = 0 then DEFAULT_THRESHOLD_BPS
       else f_veto_threshold_bps (st_fund st)),
     pv_image_url = None, pv_capital_symbol = f_asset (st_fund st), pv_onchain_id = p_onchain_id p,
     pv_review_ends_at = map_option trunc (p_review_ends_at p), pv_guardian_coverage = p_guardian_coverage p,
     pv_bond_buffer_status = p_bond_buffer_status p, pv_bond_buffer_note = p_bond_buffer_note p\<rparr>"

section \<open>Members and funds\<close>

record member_view =
  mv_tg_id :: int
  mv_number :: int
  mv_share_bps :: int
  mv_joined_at :: "int option"
  mv_username :: string
  mv_address :: string

definition int_or_zero_opt :: "int option \<Rightarrow> int" where
  "int_or_zero_opt n = (case n of None \<Rightarrow> 0 | Some k \<Rightarrow> k)"

definition member_to_view :: "member \<Rightarrow> member_view option" where
  "member_to_view m = map_option (\<lambda>tg. \<lparr>mv_tg_id = tg, mv_number = int_or_zero_opt (m_deposit_no m), mv_share_bps = 0,
     mv_joined_at = Some (trunc (m_joined_at m)), mv_username = m_username m, mv_address = []\<rparr>)
     (int_or_none (m_telegram_id m))"

definition some_values :: "'a option list \<Rightarrow> 'a list" where
  "some_values xs = map the (filter (\<lambda>x. x \<noteq> None) xs)"

definition member_views :: "fund_state \<Rightarrow> member_view list" where
  "member_views st = some_values (map member_to_view
     (filter (\<lambda>m. m_approved m \<and> m_telegram_id m \<noteq> []) (st_members st)))"

record fund_view =
  fv_vault :: string
  fv_governor :: string
  fv_name :: string
  fv_telegram_chat_id :: "int option"
  fv_host_tg_id :: "int option"
  fv_members :: "member_view list"
  fv_agents :: "string list"
  fv_open_proposals :: "proposal_view list"
  fv_nav_symbol :: string
  fv_cooldown_until :: "int option"

definition fund_to_view :: "fund_state \<Rightarrow> fund_view" where
  "fund_to_view st = (let f = st_fund st in \<lparr>
     fv_vault = f_vault f, fv_governor = f_governor f, fv_name = f_name f,
     fv_telegram_chat_id = int_or_none (f_telegram_chat_id f), fv_host_tg_id = int_or_none (f_host_telegram_id f),
     fv_members = member_views st,
     fv_agents = map a_name (filter (\<lambda>a. \<not> a_removed a \<and> (a_registered a \<or> a_role a = ''host'')) (st_agents st)),
     fv_open_proposals = map (proposal_to_view st) (filter (\<lambda>p. p_status p \<noteq> Draft) (open_proposals st)),
     fv_nav_symbol = f_asset f, fv_cooldown_until = map_option trunc (f_cooldown_until f)\<rparr>)"

record receipt_view =
  rw_proposal_id :: string
  rw_pnl_bps :: int
  rw_symbol :: string
  rw_idea_by :: "int option"
  rw_backers :: int

record leader_row =
  lr_tg_id :: int
  lr_pnl_bps :: int
  lr_ideas :: int
  lr_wins :: int

definition leader_rows :: "lb_row list \<Rightarrow> leader_row list" where
  "leader_rows rows = some_values (map (\<lambda>r. map_option (\<lambda>tg. \<lparr>lr_tg_id = tg, lr_pnl_bps = lb_pnl_bps r,
     lr_ideas = lb_ideas r, lr_wins = lb_wins r\<rparr>) (int_or_none (lb_tg r))) rows)"

definition or_the_trade :: "string \<Rightarrow> string" where
  "or_the_trade s = or_else s ''the trade''"

definition receipt_symbol :: "proposal option \<Rightarrow> string" where
  "receipt_symbol r = (case r of
     None \<Rightarrow> ''the trade''
   | Some p \<Rightarrow>
       let symbols = map l_symbol (filter (\<lambda>l. l_symbol l \<noteq> [] \<and> l_phase l = ''execute'') (p_legs p)) in
       if symbols \<noteq> [] then join ''/'' (take 3 symbols)
       else or_the_trade (or_else (p_topic p) (take 24 (p_thesis p))))"

end
