(* ===== verification/Bridge.thy ===== *)
theory Bridge
  imports Views Commands Links PitchFlow
begin

text \<open>
  \<open>fund/telegram.py\<close>: the fund behind the Telegram side. The gateway callables act on the fund whose
  chat the button or message came from, with the service calls of the fund; the observer turns the
  events of the service into cards to post; the chat context waits for the turn it is meant for.
  The app lookup, the share image host and the price feed are arguments.
\<close>

section \<open>The bridge\<close>

record bridge_ctx =
  bx_settings :: settings
  bx_host_cosigns :: bool
  bx_app_base_url :: string
  bx_link_hosts :: hosts_arg
  bx_link :: "link option"
  bx_ticks :: ticks
  bx_mac :: mac
  bx_keccak :: "string \<Rightarrow> string"
  bx_secret :: "string option"

text \<open>\<open>FundSettings.host_cosigns\<close>\<close>

definition host_cosigns :: "string \<Rightarrow> bool" where
  "host_cosigns proposal_signer \<longleftrightarrow> proposal_signer \<noteq> ''agent''"

abbreviation bclock :: "bridge_ctx \<Rightarrow> nat \<Rightarrow> time" where
  "bclock bx i \<equiv> fst (bx_ticks bx i)"

abbreviation bwtime :: "bridge_ctx \<Rightarrow> nat \<Rightarrow> time" where
  "bwtime bx i \<equiv> snd (bx_ticks bx i)"

section \<open>Lookups\<close>

definition bridge_load :: "dir \<Rightarrow> string \<Rightarrow> fund_state option result" where
  "bridge_load d name = (case store_load d name of
     Inr st \<Rightarrow> Inr (Some st)
   | Inl e \<Rightarrow> if is_store_error e then Inr None else Inl e)"

fun first_state :: "(fund \<Rightarrow> bool) \<Rightarrow> dir \<Rightarrow> string list \<Rightarrow> fund_state option result" where
  "first_state P d [] = Inr None"
| "first_state P d (name # names) = and_then (bridge_load d name) (\<lambda>s. case s of
     None \<Rightarrow> first_state P d names
   | Some st \<Rightarrow> if P (st_fund st) then Inr (Some st) else first_state P d names)"

definition state_for_chat :: "dir \<Rightarrow> int \<Rightarrow> fund_state option result" where
  "state_for_chat d chat_id =
     first_state (\<lambda>f. f_telegram_chat_id f \<noteq> [] \<and> f_telegram_chat_id f = str_int chat_id) d (list_funds d)"

definition state_for_vault :: "dir \<Rightarrow> string \<Rightarrow> fund_state option result" where
  "state_for_vault d vault = first_state (\<lambda>f. f_vault f \<noteq> [] \<and> lower (f_vault f) = lower vault) d (list_funds d)"

definition host_actor :: "fund_state \<Rightarrow> string result" where
  "host_actor st = (case host_agent st of None \<Rightarrow> Inl (Fund_action_error None) | Some h \<Rightarrow> Inr (a_name h))"

text \<open>\<open>_agent\<close>: the configured agent, else the host agent\<close>

definition draft_agent :: "bridge_ctx \<Rightarrow> fund_state \<Rightarrow> string result" where
  "draft_agent bx st = (let name = strip (se_agent_name (bx_settings bx)) in if name \<noteq> [] then Inr name else host_actor st)"

section \<open>Actions of the fund\<close>

text \<open>\<open>except RuleViolation as exc: raise FundActionError(...)\<close>\<close>

definition as_action :: "'r effect \<Rightarrow> 'r effect" where
  "as_action eff = (case eff of (d, es, r) \<Rightarrow> (d, es, case r of
     Inl (Rule_violation c) \<Rightarrow> Inl (Fund_action_error (Some c)) | _ \<Rightarrow> r))"

definition toggle_backer :: "bridge_ctx \<Rightarrow> dir \<Rightarrow> string \<Rightarrow> string \<Rightarrow> int \<Rightarrow> proposal_view option effect" where
  "toggle_backer bx d name proposal_id tg_id =
     need d (bridge_load d name) (\<lambda>s.
       case (case s of None \<Rightarrow> None | Some st \<Rightarrow> proposal_of st proposal_id) of
         None \<Rightarrow> pure_eff d (Inr None)
       | Some p \<Rightarrow>
           let side = (if str_int tg_id \<in> set (p_backers p) then ''clear'' else ''back'') in
           then_do (as_action (did d (record_vote d (bclock bx 0) (bwtime bx 0) name (p_id p) (str_int tg_id) side ''member'' [])))
             (\<lambda>d' updated. need d' (store_load d' name) (\<lambda>st'. pure_eff d' (Inr (Some (proposal_to_view st' updated))))))"

text \<open>A refusal of the rules is only logged.\<close>

definition set_card_message_id :: "bridge_ctx \<Rightarrow> dir \<Rightarrow> string \<Rightarrow> string \<Rightarrow> int \<Rightarrow> unit effect" where
  "set_card_message_id bx d name proposal_id message_id =
     (case did d (set_card_message d (bwtime bx 0) name proposal_id (str_int message_id)) of
        (d', es, r) \<Rightarrow> (d', es, case r of Inl (Rule_violation c) \<Rightarrow> Inr () | Inl e \<Rightarrow> Inl e | Inr p \<Rightarrow> Inr ()))"

definition bridge_ship_draft :: "bridge_ctx \<Rightarrow> dir \<Rightarrow> string \<Rightarrow> string \<Rightarrow> int \<Rightarrow> proposal effect" where
  "bridge_ship_draft bx d name draft_id by_tg =
     as_action (did d (ship_draft d (bclock bx 0) (bwtime bx 0) name draft_id (Some (str_int by_tg))))"

text \<open>The host and the actor are checked before the app is asked for the member's wallet.\<close>

definition bridge_approve_member :: "bridge_ctx \<Rightarrow> dir \<Rightarrow> string \<Rightarrow> int \<Rightarrow> int \<Rightarrow> (member \<times> json) effect" where
  "bridge_approve_member bx d name tg_id by_tg =
     need d (store_load d name) (\<lambda>st.
     need d (host_actor st) (\<lambda>actor.
     then_do (as_action (needs d (check_caller_is_host st (Some (str_int by_tg)))
         (needs d (check_host_action st actor) (pure_eff d (Inr ()))))) (\<lambda>d0 _.
     then_do (ensure_member_address (bx_link bx) d0 (bclock bx 0) (bwtime bx 0) name (str_int tg_id)) (\<lambda>d1 _.
     need d1 (store_load d1 name) (\<lambda>st1.
     as_action (need d1 (host_actor st1) (\<lambda>actor1.
       did d1 (approve_member d1 (bclock bx 1) (bwtime bx 1) name actor1 (str_int tg_id) [] [] (Some (str_int by_tg))))))))))"

definition bridge_approve_agent :: "bridge_ctx \<Rightarrow> dir \<Rightarrow> string \<Rightarrow> string \<Rightarrow> int \<Rightarrow> (agent \<times> json) effect" where
  "bridge_approve_agent bx d name agent_name by_tg =
     need d (store_load d name) (\<lambda>st.
     as_action (need d (host_actor st) (\<lambda>actor.
       did d (approve_agent d (bclock bx 0) (bwtime bx 0) name actor agent_name [] (Some (str_int by_tg))))))"

definition bridge_remove_agent :: "bridge_ctx \<Rightarrow> dir \<Rightarrow> string \<Rightarrow> string \<Rightarrow> int \<Rightarrow> agent effect" where
  "bridge_remove_agent bx d name agent_name by_tg =
     need d (store_load d name) (\<lambda>st.
     as_action (need d (host_actor st) (\<lambda>actor.
       did d (remove_agent d (bclock bx 0) (bwtime bx 0) name actor agent_name (Some (str_int by_tg))))))"

text \<open>At most one card an hour for each user of each fund: the times of the last ones.\<close>

type_synonym join_cards = "string \<times> string \<Rightarrow> time option"

definition JOIN_CARD_INTERVAL_S :: time where "JOIN_CARD_INTERVAL_S = 3600"

definition bridge_request_membership ::
  "bridge_ctx \<Rightarrow> time \<Rightarrow> join_cards \<Rightarrow> dir \<Rightarrow> string \<Rightarrow> person \<Rightarrow> (bool \<times> join_cards) effect" where
  "bridge_request_membership bx now cards d name p =
     (let tg = str_int (pe_tg_id p); key = (name, tg) in
      if (case cards key of None \<Rightarrow> False | Some t \<Rightarrow> now - t < JOIN_CARD_INTERVAL_S) then pure_eff d (Inr (False, cards))
      else need d (store_load d name) (\<lambda>st.
        if (case member_of st tg of None \<Rightarrow> False | Some m \<Rightarrow> m_approved m \<or> m_joined_at m \<noteq> 0)
        then pure_eff d (Inr (False, cards(key := Some now)))
        else then_do (did d (request_membership d (bclock bx 0) (bwtime bx 0) name tg [] (pe_username p)))
          (\<lambda>d' _. pure_eff d' (Inr (True, cards(key := Some now))))))"

section \<open>Signing links\<close>

text \<open>No secret, or parts that are no address or id: no link.\<close>

definition sign_url :: "bridge_ctx \<Rightarrow> time \<Rightarrow> fund \<Rightarrow> string \<Rightarrow> json \<Rightarrow> int \<Rightarrow> string option result" where
  "sign_url bx now f action body host_tg = (case bx_secret bx of
     None \<Rightarrow> Inr None
   | Some secret \<Rightarrow>
       if secret = [] then Inr None
       else (case build_sign_link (bx_mac bx) secret now (f_vault f) action body (JInt host_tg) (bx_app_base_url bx) None of
           Inr url \<Rightarrow> Inr url
         | Inl e \<Rightarrow> if e = Value_error then Inr None else Inl e))"

text \<open>The request a draft maps to: a portfolio, or calls with neither strategy nor metadata.\<close>

definition host_prepare :: "bridge_ctx \<Rightarrow> fund \<Rightarrow> proposal \<Rightarrow> payload result" where
  "host_prepare bx f r =
     (if is_portfolio r then portfolio_payload (service_url (bx_settings bx)) f r (f_host f) []
      else propose_payload (service_url (bx_settings bx)) f r [] [])"

definition host_signing_url :: "bridge_ctx \<Rightarrow> time \<Rightarrow> dir \<Rightarrow> string \<Rightarrow> string \<Rightarrow> int \<Rightarrow> string option result" where
  "host_signing_url bx now d name draft_id host_tg =
     and_then (bridge_load d name) (\<lambda>s. case s of
       None \<Rightarrow> Inr None
     | Some st \<Rightarrow> (case proposal_of st draft_id of
         None \<Rightarrow> Inr None
       | Some r \<Rightarrow>
           if p_status r \<noteq> Draft then Inr None
           else if f_host_telegram_id (st_fund st) = [] \<or> str_int host_tg \<noteq> f_host_telegram_id (st_fund st) then Inr None
           else and_then (host_prepare bx (st_fund st) r) (\<lambda>prep.
             if \<not> py_ready prep then Inr None
             else sign_url bx now (st_fund st) (py_route prep) (py_body prep) host_tg)))"

definition host_action_url ::
  "bridge_ctx \<Rightarrow> time \<Rightarrow> dir \<Rightarrow> string \<Rightarrow> string \<Rightarrow> string \<Rightarrow> int \<Rightarrow> string option result" where
  "host_action_url bx now d name action who by_tg =
     and_then (bridge_load d name) (\<lambda>s. case s of
       None \<Rightarrow> Inr None
     | Some st \<Rightarrow>
         let f = st_fund st in
         if action = ''approve_member'' then
           (case member_of st who of
              None \<Rightarrow> Inr None
            | Some m \<Rightarrow> if m_address m = [] then Inr None
                else sign_url bx now f ''approve-depositor'' (JObj [(''chainId'', JInt (f_chain_id f)),
                  (''vault'', JStr (f_vault f)), (''depositor'', JStr (m_address m))]) by_tg)
         else if action = ''approve_agent'' then
           (case agent_of st who of
              None \<Rightarrow> Inr None
            | Some a \<Rightarrow> sign_url bx now f ''register-agent'' (JObj [(''chainId'', JInt (f_chain_id f)),
                (''vault'', JStr (f_vault f)), (''agentAddress'', JStr (a_address a)),
                (''agentId'', JStr (a_identity_id a))]) by_tg)
         else Inr None)"

section \<open>A pitch that earned its draft\<close>

text \<open>What is said in the chat when the claim is refused, or the files are busy.\<close>

datatype said = Cant_draft exn | Busy

definition on_draft_requested :: "bridge_ctx \<Rightarrow> dir \<Rightarrow> draft_requested \<Rightarrow> said option effect" where
  "on_draft_requested bx d ev =
     need d (state_for_chat d (dq_chat_id ev)) (\<lambda>s. case s of
       None \<Rightarrow> pure_eff d (Inr None)
     | Some st \<Rightarrow>
         (case need d (draft_agent bx st) (\<lambda>agent.
            did d (request_draft d (bclock bx 0) (bwtime bx 0) (f_name (st_fund st)) agent (str_int (dq_idea_by ev))
              (dq_text ev) (str_int (dq_chat_id ev)) (Some (dq_source_message_id ev)) [])) of
            (d', es, r) \<Rightarrow> (d', es, case r of
              Inr c \<Rightarrow> Inr None
            | Inl e \<Rightarrow> (case e of
                  Rule_violation c \<Rightarrow> Inr (Some (Cant_draft e))
                | Fund_action_error c \<Rightarrow> Inr (Some (Cant_draft e))
                | _ \<Rightarrow> if is_store_error e then Inr (Some Busy) else Inl e))))"

section \<open>The gateway\<close>

text \<open>
  \<open>CallbackFundGateway\<close> over these callables: the fund is the one of the chat; an action without a
  fund is refused, a read without one finds nothing.
\<close>

definition gw_action :: "dir \<Rightarrow> int \<Rightarrow> (string \<Rightarrow> 'r effect) \<Rightarrow> 'r effect" where
  "gw_action d chat_id k = need d (state_for_chat d chat_id) (\<lambda>s. case s of
     None \<Rightarrow> pure_eff d (Inl (Fund_action_error None))
   | Some st \<Rightarrow> k (f_name (st_fund st)))"

definition gw_read :: "dir \<Rightarrow> int \<Rightarrow> 'r \<Rightarrow> (string \<Rightarrow> 'r effect) \<Rightarrow> 'r effect" where
  "gw_read d chat_id none k = need d (state_for_chat d chat_id) (\<lambda>s. case s of
     None \<Rightarrow> pure_eff d (Inr none)
   | Some st \<Rightarrow> k (f_name (st_fund st)))"

definition gw_fund_for_chat :: "dir \<Rightarrow> int \<Rightarrow> fund_view option result" where
  "gw_fund_for_chat d chat_id = and_then (state_for_chat d chat_id) (\<lambda>s. Inr (map_option fund_to_view s))"

definition gw_fund_by_vault :: "dir \<Rightarrow> string \<Rightarrow> fund_view option result" where
  "gw_fund_by_vault d vault = and_then (state_for_vault d vault) (\<lambda>s. Inr (map_option fund_to_view s))"

definition gw_toggle_backer :: "bridge_ctx \<Rightarrow> dir \<Rightarrow> int \<Rightarrow> string \<Rightarrow> int \<Rightarrow> proposal_view option effect" where
  "gw_toggle_backer bx d chat_id pid tg = gw_read d chat_id None (\<lambda>name. toggle_backer bx d name pid tg)"

definition gw_set_card_message_id :: "bridge_ctx \<Rightarrow> dir \<Rightarrow> int \<Rightarrow> string \<Rightarrow> int \<Rightarrow> unit effect" where
  "gw_set_card_message_id bx d chat_id pid mid = gw_read d chat_id () (\<lambda>name. set_card_message_id bx d name pid mid)"

definition gw_ship_draft :: "bridge_ctx \<Rightarrow> dir \<Rightarrow> int \<Rightarrow> string \<Rightarrow> int \<Rightarrow> proposal effect" where
  "gw_ship_draft bx d chat_id draft_id tg = gw_action d chat_id (\<lambda>name. bridge_ship_draft bx d name draft_id tg)"

definition gw_host_signing_url :: "bridge_ctx \<Rightarrow> time \<Rightarrow> dir \<Rightarrow> int \<Rightarrow> string \<Rightarrow> int \<Rightarrow> string option effect" where
  "gw_host_signing_url bx now d chat_id draft_id tg =
     gw_read d chat_id None (\<lambda>name. pure_eff d (host_signing_url bx now d name draft_id tg))"

definition gw_host_action_url ::
  "bridge_ctx \<Rightarrow> time \<Rightarrow> dir \<Rightarrow> int \<Rightarrow> string \<Rightarrow> string \<Rightarrow> int \<Rightarrow> string option effect" where
  "gw_host_action_url bx now d chat_id action who tg =
     gw_read d chat_id None (\<lambda>name. pure_eff d (host_action_url bx now d name action who tg))"

definition gw_request_membership ::
  "bridge_ctx \<Rightarrow> time \<Rightarrow> join_cards \<Rightarrow> dir \<Rightarrow> int \<Rightarrow> person \<Rightarrow> (bool \<times> join_cards) effect" where
  "gw_request_membership bx now cards d chat_id p =
     gw_read d chat_id (False, cards) (\<lambda>name. bridge_request_membership bx now cards d name p)"

definition gw_approve_member :: "bridge_ctx \<Rightarrow> dir \<Rightarrow> int \<Rightarrow> int \<Rightarrow> int \<Rightarrow> (member \<times> json) effect" where
  "gw_approve_member bx d chat_id tg by_tg = gw_action d chat_id (\<lambda>name. bridge_approve_member bx d name tg by_tg)"

definition gw_approve_agent :: "bridge_ctx \<Rightarrow> dir \<Rightarrow> int \<Rightarrow> string \<Rightarrow> int \<Rightarrow> (agent \<times> json) effect" where
  "gw_approve_agent bx d chat_id agent_name by_tg =
     gw_action d chat_id (\<lambda>name. bridge_approve_agent bx d name agent_name by_tg)"

definition gw_remove_agent :: "bridge_ctx \<Rightarrow> dir \<Rightarrow> int \<Rightarrow> string \<Rightarrow> int \<Rightarrow> agent effect" where
  "gw_remove_agent bx d chat_id agent_name by_tg =
     gw_action d chat_id (\<lambda>name. bridge_remove_agent bx d name agent_name by_tg)"

definition gw_leaderboard :: "dir \<Rightarrow> int \<Rightarrow> leader_row list effect" where
  "gw_leaderboard d chat_id = gw_read d chat_id []
     (\<lambda>name. need d (leaderboard d name) (\<lambda>rows. pure_eff d (Inr (leader_rows rows))))"

end
