(* ===== verification/BridgeEvents.thy ===== *)
theory BridgeEvents
  imports Bridge
begin

text \<open>
  The rest of \<open>fund/telegram.py\<close>: reads of the chain when they are due, the observer of the fund's
  events, the cards it asks for, the context that waits for an agent's turn, and the price of WOOD.
\<close>

section \<open>Reading the chain\<close>

text \<open>\<open>apply_chain_card\<close> as an effect: the updates before an exception stay.\<close>

definition row_eff :: "dir \<Rightarrow> ticks \<Rightarrow> string \<Rightarrow> string \<Rightarrow> (string \<times> json) list \<Rightarrow> unit effect" where
  "row_eff d tick fund pid row =
     need d (coverage_kind row) (\<lambda>cov.
     then_do (did d (set_chain_state d (fst (tick 0)) (snd (tick 0)) fund pid
         (svc_opt_int (get_or row ''againstBps'' JNull)) (svc_opt_float (get_or row ''voteEnd'' JNull))
         (svc_opt_float (get_or row ''reviewEnd'' JNull)) cov)) (\<lambda>d1 _.
       did d1 (and_then (chain_move d1 (tick 1) fund pid (target_of row)) (\<lambda>(d2, es). Inr ((), d2, es)))))"

fun rows_eff :: "fund_state \<Rightarrow> dir \<Rightarrow> ticks \<Rightarrow> string \<Rightarrow> int list \<Rightarrow> nat \<Rightarrow> (string \<times> json) list list \<Rightarrow> nat effect" where
  "rows_eff st d tick fund seen n [] = pure_eff d (Inr n)"
| "rows_eff st d tick fund seen n (row # rows) =
     (case onchain_of row of
        None \<Rightarrow> rows_eff st d tick fund seen n rows
      | Some oc \<Rightarrow>
          if oc \<in> set seen then rows_eff st d tick fund seen n rows
          else (case List.find (\<lambda>p. p_onchain_id p = Some oc) (st_proposals st) of
              None \<Rightarrow> rows_eff st d tick fund (oc # seen) n rows
            | Some p \<Rightarrow> then_do (row_eff d tick fund (p_id p) row)
                (\<lambda>d1 _. rows_eff st d1 (\<lambda>i. tick (i + 2)) fund (oc # seen) (n + 1) rows)))"

definition card_eff :: "dir \<Rightarrow> ticks \<Rightarrow> string \<Rightarrow> json \<Rightarrow> nat effect" where
  "card_eff d tick fund reply =
     need d (parse_card reply) (\<lambda>c.
     then_do
       (if cd_gov c \<noteq> [] \<or> cd_gate c \<noteq> [] \<or> cd_fee c \<noteq> None \<or> cd_deposits c \<noteq> []
        then did d (and_then (store_update d (snd (tick 0)) fund (fund_card_mutate c)) (\<lambda>(_, d'). Inr ((), d', [])))
        else pure_eff d (Inr ()))
       (\<lambda>d1 _. need d1 (store_load d1 fund) (\<lambda>st. rows_eff st d1 (\<lambda>i. tick (i + 1)) fund [] 0 (cd_rows c))))"

text \<open>\<open>ChainSync\<close>: the time of the next read of each fund; a refused read carries its HTTP status.\<close>

record chain_sync =
  cs_interval :: time
  cs_backoff :: time
  cs_next :: "string \<Rightarrow> time option"

definition new_chain_sync :: chain_sync where
  "new_chain_sync = \<lparr>cs_interval = 30, cs_backoff = 600, cs_next = (\<lambda>f. None)\<rparr>"

definition sync_due :: "chain_sync \<Rightarrow> time \<Rightarrow> string \<Rightarrow> bool" where
  "sync_due cs now fund \<longleftrightarrow> (case cs_next cs fund of None \<Rightarrow> 0 | Some t \<Rightarrow> t) \<le> now"

definition next_read :: "string \<Rightarrow> time \<Rightarrow> chain_sync \<Rightarrow> chain_sync" where
  "next_read fund t cs = cs\<lparr>cs_next := (cs_next cs)(fund := Some t)\<rparr>"

type_synonym card_read = "int option + json"

definition chain_sync_read ::
  "chain_sync \<Rightarrow> time \<times> time \<Rightarrow> card_read \<Rightarrow> dir \<Rightarrow> ticks \<Rightarrow> string \<Rightarrow> string \<Rightarrow> chain_sync \<times> nat effect" where
  "chain_sync_read cs now reply d tick fund vault =
     (if vault = [] then (cs, pure_eff d (Inr 0))
      else
        let cs1 = next_read fund (fst now + cs_interval cs) cs in
        case reply of
          Inl status \<Rightarrow>
            (next_read fund (snd now + (if status = Some 404 then cs_backoff cs else cs_interval cs)) cs1, pure_eff d (Inr 0))
        | Inr c \<Rightarrow> (cs1, case card_eff d tick fund c of (d', es, r) \<Rightarrow> (d', es, case r of
              Inr n \<Rightarrow> Inr n
            | Inl e \<Rightarrow> (case e of Rule_violation code \<Rightarrow> Inr 0
                | _ \<Rightarrow> if is_store_error e \<or> e = Value_error then Inr 0 else Inl e))))"

definition SYNCED_STATUSES :: "pstatus list" where
  "SYNCED_STATUSES = [Proposed, Voting, Review, Approved]"

text \<open>The record as the file has it after the read, or as it was.\<close>

definition get_proposal ::
  "chain_sync option \<Rightarrow> time \<times> time \<times> time \<Rightarrow> card_read \<Rightarrow> dir \<Rightarrow> ticks \<Rightarrow> string \<Rightarrow> string
     \<Rightarrow> chain_sync option \<times> proposal_view option effect" where
  "get_proposal sync now reply d tick name proposal_id =
     (case bridge_load d name of
        Inl e \<Rightarrow> (sync, d, [], Inl e)
      | Inr None \<Rightarrow> (sync, pure_eff d (Inr None))
      | Inr (Some st) \<Rightarrow>
          (case proposal_of st proposal_id of
             None \<Rightarrow> (sync, pure_eff d (Inr None))
           | Some r \<Rightarrow>
               (case sync of
                  None \<Rightarrow> (sync, pure_eff d (Inr (Some (proposal_to_view st r))))
                | Some cs \<Rightarrow>
                    if p_onchain_id r = None \<or> p_status r \<notin> set SYNCED_STATUSES \<or> \<not> sync_due cs (fst now) name
                    then (sync, pure_eff d (Inr (Some (proposal_to_view st r))))
                    else (case chain_sync_read cs (snd now) reply d tick name (f_vault (st_fund st)) of (cs', eff) \<Rightarrow>
                      (Some cs', then_do eff (\<lambda>d' _. need d' (bridge_load d' name) (\<lambda>s'.
                        let st' = (case s' of None \<Rightarrow> st | Some x \<Rightarrow> x);
                            r' = (case proposal_of st' proposal_id of None \<Rightarrow> r | Some x \<Rightarrow> x)
                        in pure_eff d' (Inr (Some (proposal_to_view st' r'))))))))))"

section \<open>Context for the agent's turn\<close>

datatype fund_context = Draft_request_context string claim | Shipped_context string proposal

record chat_entry =
  ce_created :: time
  ce_chat :: string
  ce_senders :: "string list"
  ce_text :: fund_context

definition CONTEXT_TTL_S :: time where "CONTEXT_TTL_S = 900"

definition queue_chat_context ::
  "time \<Rightarrow> string \<Rightarrow> string list \<Rightarrow> fund_context \<Rightarrow> chat_entry list \<Rightarrow> chat_entry list" where
  "queue_chat_context now chat senders t q =
     (if chat = [] then q
      else last_of 50 (q @ [\<lparr>ce_created = now, ce_chat = chat, ce_senders = filter (\<lambda>s. s \<noteq> []) senders, ce_text = t\<rparr>]))"

definition meant_for :: "string \<Rightarrow> string \<Rightarrow> chat_entry \<Rightarrow> bool" where
  "meant_for chat sender e \<longleftrightarrow> ce_chat e = chat \<and> (ce_senders e = [] \<or> sender \<in> set (ce_senders e))"

text \<open>What is for this turn is handed over; what is too old is dropped; the rest stays.\<close>

definition take_chat_context ::
  "time \<Rightarrow> string \<Rightarrow> string \<Rightarrow> chat_entry list \<Rightarrow> fund_context list \<times> chat_entry list" where
  "take_chat_context now chat sender q =
     (let live = filter (\<lambda>e. now - ce_created e \<le> CONTEXT_TTL_S) q in
      (map ce_text (filter (meant_for chat sender) live), filter (\<lambda>e. \<not> meant_for chat sender e) live))"

text \<open>\<open>pre_llm_context\<close>: only a Telegram turn of a chat; the pitch first.\<close>

definition pre_llm_context ::
  "flow_config \<Rightarrow> time \<Rightarrow> caller \<Rightarrow> string \<Rightarrow> flow \<times> chat_entry list
     \<Rightarrow> (context_text option \<times> fund_context list) \<times> flow \<times> chat_entry list" where
  "pre_llm_context cfg now c user_message s = (case s of (f, q) \<Rightarrow>
     if ca_platform c \<noteq> ''telegram'' \<or> ca_chat_id c = [] then ((None, []), f, q)
     else (case pre_llm_call cfg now c user_message f of (pitch, f') \<Rightarrow>
           (case take_chat_context now (ca_chat_id c) (ca_user_id c) q of (texts, q') \<Rightarrow> ((pitch, texts), f', q'))))"

section \<open>From events to cards\<close>

text \<open>What the observer submits to the bot's loop.\<close>

datatype card_job =
    Post_draft int string "rat option" bool "int option"
  | Sync_card int string string
  | Post_receipt int receipt_view "string option"
  | Post_member int member_view

text \<open>\<open>_receipt_image\<close>: the signed image URL, when there is a secret, an on-chain id and a vault\<close>

definition receipt_image :: "bridge_ctx \<Rightarrow> fund_state \<Rightarrow> proposal option \<Rightarrow> receipt \<Rightarrow> string option result" where
  "receipt_image bx st rec r =
     (case (bx_secret bx, r_onchain_id r) of
        (Some secret, Some oc) \<Rightarrow>
          if secret = [] \<or> f_vault (st_fund st) = [] then Inr None
          else
            let author = (if r_idea_by r = [] then None else member_of st (r_idea_by r));
                by_name = (case author of None \<Rightarrow> [] | Some m \<Rightarrow> m_username m);
                backers = (case rec of None \<Rightarrow> 0 | Some p \<Rightarrow> int (length (p_backers p)))
            in (case receipt_image_url (bx_keccak bx) (bx_mac bx) secret (f_vault (st_fund st)) (JInt oc) (JStr by_name)
                  (JInt backers) (bx_app_base_url bx) of
                Inr url \<Rightarrow> Inr (Some url)
              | Inl e \<Rightarrow> if e = Value_error then Inr None else Inl e)
      | _ \<Rightarrow> Inr None)"

definition member_card_view :: "member \<Rightarrow> member_view option" where
  "member_card_view m = map_option (\<lambda>v. v\<lparr>mv_address := m_address m\<rparr>) (member_to_view m)"

definition receipt_to_view :: "proposal option \<Rightarrow> receipt \<Rightarrow> receipt_view" where
  "receipt_to_view rec r = \<lparr>
     rw_proposal_id = (case r_onchain_id r of Some n \<Rightarrow> str_int n | None \<Rightarrow> r_proposal_id r),
     rw_pnl_bps = r_pnl_bps r, rw_symbol = receipt_symbol rec, rw_idea_by = int_or_none (r_idea_by r),
     rw_backers = (case rec of None \<Rightarrow> 0 | Some p \<Rightarrow> int (length (p_backers p)))\<rparr>"

text \<open>The WOOD that is missing for the bond, when the draft came with a quote.\<close>

definition shortfall :: "fund_event \<Rightarrow> rat option" where
  "shortfall ev =
     (let units = (case e_bond ev of None \<Rightarrow> [] | Some b \<Rightarrow> bs_gap b); w = decimal_of units WOOD_DECIMALS
      in if units = [] \<or> w = 0 then None else Some w)"

definition event_jobs :: "bridge_ctx \<Rightarrow> fund_state \<Rightarrow> int \<Rightarrow> fund_event \<Rightarrow> card_job list result" where
  "event_jobs bx st chat ev =
     (case (e_kind ev, e_proposal ev) of
        (Ev_drafted, Some p) \<Rightarrow> Inr [Post_draft chat (p_id p) (shortfall ev) (bx_host_cosigns bx) (p_pitch_message_id p)]
      | (Ev_status, Some p) \<Rightarrow> Inr [Sync_card chat (e_fund ev) (p_id p)]
      | (Ev_vote, Some p) \<Rightarrow> Inr [Sync_card chat (e_fund ev) (p_id p)]
      | (Ev_tally, Some p) \<Rightarrow> Inr [Sync_card chat (e_fund ev) (p_id p)]
      | (Ev_settled, rec) \<Rightarrow>
          (case e_receipt ev of
             None \<Rightarrow> Inr []
           | Some r \<Rightarrow> and_then (receipt_image bx st rec r) (\<lambda>image.
               Inr ((case rec of None \<Rightarrow> [] | Some p \<Rightarrow> [Sync_card chat (e_fund ev) (p_id p)])
                 @ [Post_receipt chat (receipt_to_view rec r) image])))
      | (Ev_member_approved, _) \<Rightarrow>
          (case e_member ev of
             None \<Rightarrow> Inr []
           | Some m \<Rightarrow> Inr (case member_card_view m of None \<Rightarrow> [] | Some v \<Rightarrow> [Post_member chat v]))
      | _ \<Rightarrow> Inr [])"

definition on_event ::
  "bridge_ctx \<Rightarrow> time \<Rightarrow> dir \<Rightarrow> fund_event \<Rightarrow> chat_entry list \<Rightarrow> (card_job list \<times> chat_entry list) result" where
  "on_event bx now d ev q =
     and_then (bridge_load d (e_fund ev)) (\<lambda>s.
       case (e_kind ev, e_claim ev) of
         (Ev_draft_requested, Some c) \<Rightarrow>
           let host = (case s of None \<Rightarrow> [] | Some st \<Rightarrow> f_host_telegram_id (st_fund st));
               chat = or_else (c_chat_id c) (case s of None \<Rightarrow> [] | Some st \<Rightarrow> f_telegram_chat_id (st_fund st))
           in Inr ([], queue_chat_context now chat [c_idea_by c, host] (Draft_request_context (e_fund ev) c) q)
       | _ \<Rightarrow>
         (case s of
            None \<Rightarrow> Inr ([], q)
          | Some st \<Rightarrow>
              let f = st_fund st;
                  q' = (case (e_kind ev, e_proposal ev) of
                      (Ev_shipped, Some p) \<Rightarrow> if bx_host_cosigns bx then q
                        else queue_chat_context now (f_telegram_chat_id f) [f_host_telegram_id f] (Shipped_context (e_fund ev) p) q
                    | _ \<Rightarrow> q)
              in (case int_or_none (f_telegram_chat_id f) of
                    None \<Rightarrow> Inr ([], q')
                  | Some chat \<Rightarrow> and_then (event_jobs bx st chat ev) (\<lambda>jobs. Inr (jobs, q')))))"

text \<open>\<open>_sync_card\<close> under the lock of the proposal, decided on the record as it is now.\<close>

datatype card_op = No_card | Refresh_card string | Post_card string

definition sync_card :: "dir \<Rightarrow> string \<Rightarrow> string \<Rightarrow> card_op result" where
  "sync_card d fund local_id =
     and_then (bridge_load d fund) (\<lambda>s.
       case (case s of None \<Rightarrow> None | Some st \<Rightarrow> proposal_of st local_id) of
         None \<Rightarrow> Inr No_card
       | Some p \<Rightarrow>
           Inr (if p_card_message_id p \<noteq> [] then Refresh_card (display_id p)
                else if p_status p \<in> {Proposed, Voting} then Post_card (display_id p)
                else No_card))"

text \<open>\<open>_post_receipt\<close>: the image is asked for at most three times, until the host decides.\<close>

definition image_retry_delays :: "time list" where "image_retry_delays = [5, 15]"

definition settled_image :: "hosts_arg \<Rightarrow> (nat \<Rightarrow> string \<Rightarrow> int result) \<Rightarrow> string \<Rightarrow> string option" where
  "settled_image link_hosts get_status url =
     (if url = [] then None
      else case List.find (\<lambda>x. x \<noteq> None) (map (\<lambda>i. image_ready link_hosts (get_status i) url) [0..<Suc (length image_retry_delays)]) of
          Some (Some True) \<Rightarrow> Some url
        | _ \<Rightarrow> None)"

section \<open>The price of WOOD\<close>

text \<open>A depth-first search from the last value; the sizes of the values on the stack go down.\<close>

definition json_items :: "json \<Rightarrow> json list" where
  "json_items j = (case j of JObj o' \<Rightarrow> map snd o' | JList l \<Rightarrow> l | _ \<Rightarrow> [])"

definition priced :: "string \<Rightarrow> json \<Rightarrow> json option" where
  "priced symbol j = (case j of
     JObj o' \<Rightarrow> (case (py_str (get_or o' ''symbol'' (JStr [])), get_or o' ''price_usd'' JNull) of
         (_, JNull) \<Rightarrow> None
       | (Some s, v) \<Rightarrow> if upper s = symbol then Some v else None
       | _ \<Rightarrow> None)
   | _ \<Rightarrow> None)"

lemma items_smaller: "sum_list (map (Suc \<circ> size) (json_items j)) \<le> size j"
proof (cases j)
  case (JObj o')
  have "sum_list (map (Suc \<circ> (size \<circ> snd)) o') \<le> size_list (size_prod (\<lambda>x. 0) size) o'" for o' :: "(string \<times> json) list"
    by (induction o') auto
  then show ?thesis using JObj by (simp add: json_items_def comp_assoc le_SucI)
next
  case (JList l)
  have "sum_list (map (Suc \<circ> size) l) \<le> size_list size l" for l :: "json list" by (induction l) auto
  then show ?thesis using JList by (simp add: json_items_def le_SucI)
qed (simp_all add: json_items_def)

function find_price :: "string \<Rightarrow> json list \<Rightarrow> rat option" where
  "find_price symbol [] = None"
| "find_price symbol (node # stack) = (case priced symbol node of
     Some v \<Rightarrow> (case json_float v of Some p \<Rightarrow> if p > 0 then Some p else None | None \<Rightarrow> None)
   | None \<Rightarrow> find_price symbol (rev (json_items node) @ stack))"
  by pat_completeness auto
termination
  using items_smaller
  by (relation "measure (\<lambda>(_, ns). sum_list (map (Suc \<circ> size) ns))")
    (auto simp: rev_map [symmetric] sum_list_rev less_Suc_eq_le)

record wood_price =
  wp_ttl :: time
  wp_value :: "rat option"
  wp_at :: "time option"

text \<open>A read, or an error, is kept for ten minutes; \<open>fetch\<close> is \<open>None\<close> when it raised.\<close>

definition wood_price_read :: "time \<Rightarrow> json option \<Rightarrow> wood_price \<Rightarrow> rat option \<times> wood_price" where
  "wood_price_read now fetch w =
     (if (case wp_at w of None \<Rightarrow> False | Some t \<Rightarrow> now - t < wp_ttl w) then (wp_value w, w)
      else (let v = (case fetch of None \<Rightarrow> None | Some payload \<Rightarrow> find_price ''WOOD'' [payload])
            in (v, w\<lparr>wp_value := v, wp_at := Some now\<rparr>)))"

end
