(* ===== verification/LiveCards.thy ===== *)
theory LiveCards
  imports BridgeEvents
begin

text \<open>
  \<open>telegram/cards_live.py\<close>: posting cards, editing them in place, and the refresh of a card while its
  proposal is voting. The text and keyboard of a card come from the renderer, an argument; so does
  the digest of what was sent last. A call of the Bot API is a value, and its reply an argument.
\<close>

section \<open>Calls and replies\<close>

record card_ref =
  cr_chat_id :: int
  cr_message_id :: int
  cr_image_url :: "string option"

datatype 'm call =
    Send_photo int string string "'m option" "int option" "int option"
  | Send_text int string "'m option" "int option" "int option"
  | Edit_media card_ref string string "'m option"
  | Edit_caption card_ref string "'m option"
  | Edit_text card_ref string "'m option"

datatype reply = R_ok | R_bad_request string | R_forbidden | R_retry_after | R_error

type_synonym 'm digest = "string \<Rightarrow> 'm option \<Rightarrow> string option \<Rightarrow> string"

definition CAPTION_LIMIT :: nat where "CAPTION_LIMIT = 1024"

definition TEXT_LIMIT :: nat where "TEXT_LIMIT = 4096"

definition ELLIPSIS :: string where "ELLIPSIS = [CHR 0xE2, CHR 0x80, CHR 0xA6]"

definition clip :: "string \<Rightarrow> nat \<Rightarrow> string" where
  "clip t limit = (if length t \<le> limit then t else take (limit - 1) t @ ELLIPSIS)"

definition is_not_modified :: "string \<Rightarrow> bool" where
  "is_not_modified msg = contains ''not modified'' (lower msg)"

definition is_gone :: "string \<Rightarrow> bool" where
  "is_gone msg = list_ex (\<lambda>s. contains s (lower msg))
     [''message to edit not found'', ''message can'' @ [CHR 0x27] @ ''t be edited'', ''message_id_invalid'', ''chat not found'']"

section \<open>Cards\<close>

record live =
  lc_last :: "int \<times> int \<Rightarrow> string option"
  lc_refs :: "string \<Rightarrow> card_ref option"

definition new_live :: live where
  "new_live = \<lparr>lc_last = (\<lambda>k. None), lc_refs = (\<lambda>k. None)\<rparr>"

abbreviation ref_key :: "card_ref \<Rightarrow> int \<times> int" where
  "ref_key r \<equiv> (cr_chat_id r, cr_message_id r)"

text \<open>\<open>if image_url\<close>\<close>

definition has_image :: "string option \<Rightarrow> bool" where
  "has_image i \<longleftrightarrow> i \<noteq> None \<and> i \<noteq> Some []"

definition post_call :: "int \<Rightarrow> string \<Rightarrow> 'm option \<Rightarrow> string option \<Rightarrow> int option \<Rightarrow> int option \<Rightarrow> 'm call" where
  "post_call chat t markup img reply_to thread =
     (if has_image img then Send_photo chat (the img) (clip t CAPTION_LIMIT) markup reply_to thread
      else Send_text chat (clip t TEXT_LIMIT) markup reply_to thread)"

text \<open>The card was sent as message \<open>mid\<close>.\<close>

definition live_posted ::
  "'m digest \<Rightarrow> int \<Rightarrow> string \<Rightarrow> 'm option \<Rightarrow> string option \<Rightarrow> int \<Rightarrow> live \<Rightarrow> card_ref \<times> live" where
  "live_posted digest chat t markup img mid lv =
     (let r = \<lparr>cr_chat_id = chat, cr_message_id = mid, cr_image_url = img\<rparr>
      in (r, lv\<lparr>lc_last := (lc_last lv)(ref_key r := Some (digest t markup img))\<rparr>))"

definition edit_call :: "card_ref \<Rightarrow> string \<Rightarrow> 'm option \<Rightarrow> string option \<Rightarrow> 'm call" where
  "edit_call r t markup img =
     (if has_image img then
        if img \<noteq> cr_image_url r then Edit_media r (the img) (clip t CAPTION_LIMIT) markup
        else Edit_caption r (clip t CAPTION_LIMIT) markup
      else Edit_text r (clip t TEXT_LIMIT) markup)"

datatype edit_result = Changed bool | Card_gone

text \<open>The call that was made, if any, with the result and what is known of the message now.\<close>

definition live_edit ::
  "'m digest \<Rightarrow> card_ref \<Rightarrow> string \<Rightarrow> 'm option \<Rightarrow> string option \<Rightarrow> reply \<Rightarrow> live
     \<Rightarrow> edit_result \<times> 'm call option \<times> live" where
  "live_edit digest r t markup new_img reply lv =
     (let key = ref_key r;
          img = (case new_img of None \<Rightarrow> cr_image_url r | Some i \<Rightarrow> Some i);
          fp = digest t markup img; call = edit_call r t markup img;
          known = lv\<lparr>lc_last := (lc_last lv)(key := Some fp)\<rparr>
      in if lc_last lv key = Some fp then (Changed False, None, lv)
         else case reply of
             R_ok \<Rightarrow> (Changed True, Some call, known)
           | R_bad_request msg \<Rightarrow>
               if is_not_modified msg then (Changed False, Some call, known)
               else if is_gone msg then (Card_gone, Some call, lv\<lparr>lc_last := (lc_last lv)(key := None)\<rparr>)
               else (Changed False, Some call, lv)
           | _ \<Rightarrow> (Changed False, Some call, lv))"

definition live_forget :: "card_ref \<Rightarrow> live \<Rightarrow> live" where
  "live_forget r lv = lv\<lparr>lc_last := (lc_last lv)(ref_key r := None)\<rparr>"

section \<open>Refresh jobs\<close>

text \<open>
  A refresh is a repeating job of the job queue, or, without one, a loop in a task. \<open>rg_jobs\<close> and
  \<open>rg_tasks\<close> are the two dictionaries; \<open>rg_running\<close> are the jobs and tasks that are really there, each
  with its card's key and whether it was cancelled.
\<close>

record runner =
  rn_id :: nat
  rn_key :: string
  rn_cancelled :: bool

record registry =
  rg_queue :: bool
  rg_jobs :: "string \<Rightarrow> nat option"
  rg_tasks :: "string \<Rightarrow> nat option"
  rg_running :: "runner list"
  rg_next :: nat

definition new_registry :: "bool \<Rightarrow> registry" where
  "new_registry queue = \<lparr>rg_queue = queue, rg_jobs = (\<lambda>k. None), rg_tasks = (\<lambda>k. None), rg_running = [], rg_next = 0\<rparr>"

definition is_refreshing :: "string \<Rightarrow> registry \<Rightarrow> bool" where
  "is_refreshing key rg \<longleftrightarrow> rg_jobs rg key \<noteq> None \<or> rg_tasks rg key \<noteq> None"

definition start_refresh :: "string \<Rightarrow> registry \<Rightarrow> registry" where
  "start_refresh key rg =
     (if is_refreshing key rg then rg
      else
        let n = rg_next rg; runs = rg_running rg @ [\<lparr>rn_id = n, rn_key = key, rn_cancelled = False\<rparr>] in
        if rg_queue rg then rg\<lparr>rg_jobs := (rg_jobs rg)(key := Some n), rg_running := runs, rg_next := n + 1\<rparr>
        else rg\<lparr>rg_tasks := (rg_tasks rg)(key := Some n), rg_running := runs, rg_next := n + 1\<rparr>)"

text \<open>A removed job is gone; a cancelled task ends when it runs next. \<open>cur\<close> is the task that asks.\<close>

definition stop_refresh :: "nat option \<Rightarrow> string \<Rightarrow> registry \<Rightarrow> registry" where
  "stop_refresh cur key rg =
     (let run1 = (case rg_jobs rg key of None \<Rightarrow> rg_running rg
            | Some n \<Rightarrow> filter (\<lambda>r. rn_id r \<noteq> n) (rg_running rg));
          run2 = (case rg_tasks rg key of None \<Rightarrow> run1
            | Some n \<Rightarrow> if cur = Some n then run1
                else map (\<lambda>r. if rn_id r = n then r\<lparr>rn_cancelled := True\<rparr> else r) run1)
      in rg\<lparr>rg_jobs := (rg_jobs rg)(key := None), rg_tasks := (rg_tasks rg)(key := None), rg_running := run2\<rparr>)"

text \<open>\<open>_job\<close> and \<open>_loop\<close>: what follows a tick that says to go on or not.\<close>

definition job_ticked :: "string \<Rightarrow> bool \<Rightarrow> registry \<Rightarrow> registry" where
  "job_ticked key keep rg = (if keep then rg else stop_refresh None key rg)"

definition loop_ends :: "runner \<Rightarrow> registry \<Rightarrow> registry" where
  "loop_ends r rg = rg\<lparr>rg_tasks := (rg_tasks rg)(rn_key r := None),
     rg_running := filter (\<lambda>x. rn_id x \<noteq> rn_id r) (rg_running rg)\<rparr>"

definition loop_ticked :: "runner \<Rightarrow> bool \<Rightarrow> registry \<Rightarrow> registry" where
  "loop_ticked r keep rg = (if keep then rg else loop_ends r rg)"

text \<open>\<open>_safe_tick\<close>: a card that is gone is final, any other exception is not.\<close>

datatype tick_result = Ticked bool | Tick_gone | Tick_raised

fun safe_tick :: "tick_result \<Rightarrow> bool" where
  "safe_tick (Ticked keep) = keep"
| "safe_tick Tick_gone = False"
| "safe_tick Tick_raised = True"

section \<open>Proposal cards\<close>

definition card_key :: "int \<Rightarrow> string \<Rightarrow> string" where
  "card_key chat pid = str_int chat @ '':'' @ pid"

definition ref_for :: "int \<Rightarrow> proposal_view \<Rightarrow> live \<Rightarrow> card_ref option \<times> live" where
  "ref_for chat v lv =
     (let key = card_key chat (pv_id v) in
      case lc_refs lv key of
        Some r \<Rightarrow> (Some r, lv)
      | None \<Rightarrow>
          (case pv_card_message_id v of
             None \<Rightarrow> (None, lv)
           | Some mid \<Rightarrow>
               if mid = 0 then (None, lv)
               else let r = \<lparr>cr_chat_id = chat, cr_message_id = mid, cr_image_url = pv_image_url v\<rparr>
                    in (Some r, lv\<lparr>lc_refs := (lc_refs lv)(key := Some r)\<rparr>)))"

text \<open>\<open>render\<close> is the text and keyboard of the view, or the exception of a read it needs.\<close>

definition cards_refresh ::
  "'m digest \<Rightarrow> (proposal_view \<Rightarrow> (string \<times> 'm) result) \<Rightarrow> int \<Rightarrow> proposal_view \<Rightarrow> reply \<Rightarrow> live
     \<Rightarrow> edit_result result \<times> 'm call option \<times> live" where
  "cards_refresh digest render chat v reply lv =
     (case ref_for chat v lv of
        (None, lv1) \<Rightarrow> (Inr (Changed False), None, lv1)
      | (Some r, lv1) \<Rightarrow>
          (case render v of
             Inl e \<Rightarrow> (Inl e, None, lv1)
           | Inr (t, markup) \<Rightarrow>
               (case live_edit digest r t (Some markup) (pv_image_url v) reply lv1 of (res, call, lv2) \<Rightarrow> (Inr res, call, lv2))))"

definition still_voting :: "time \<Rightarrow> proposal_view \<Rightarrow> bool" where
  "still_voting now v \<longleftrightarrow> pv_status v = Voting
     \<and> \<not> (case pv_voting_ends_at v of None \<Rightarrow> False | Some ends \<Rightarrow> of_int ends \<le> now)"

text \<open>\<open>_tick\<close> of \<open>watch\<close>; \<open>current\<close> is what the gateway answers.\<close>

definition watch_tick ::
  "'m digest \<Rightarrow> (proposal_view \<Rightarrow> (string \<times> 'm) result) \<Rightarrow> int \<Rightarrow> time \<Rightarrow> proposal_view option result \<Rightarrow> reply \<Rightarrow> live
     \<Rightarrow> tick_result \<times> 'm call option \<times> live" where
  "watch_tick digest render chat now current reply lv =
     (case current of
        Inl e \<Rightarrow> (Tick_raised, None, lv)
      | Inr None \<Rightarrow> (Ticked False, None, lv)
      | Inr (Some v) \<Rightarrow>
          (case cards_refresh digest render chat v reply lv of
             (Inl e, call, lv1) \<Rightarrow> (Tick_raised, call, lv1)
           | (Inr Card_gone, call, lv1) \<Rightarrow> (Tick_gone, call, lv1)
           | (Inr (Changed b), call, lv1) \<Rightarrow> (Ticked (still_voting now v), call, lv1)))"

text \<open>One run of the job of a card: the clock, the gateway and the Bot API answer.\<close>

definition refresh_tick ::
  "'m digest \<Rightarrow> (proposal_view \<Rightarrow> (string \<times> 'm) result) \<Rightarrow> int \<Rightarrow> string \<Rightarrow> time \<times> proposal_view option result \<times> reply
     \<Rightarrow> live \<times> registry \<Rightarrow> 'm call option \<times> live \<times> registry" where
  "refresh_tick digest render chat pid i s = (case (i, s) of ((now, current, reply), (lv, rg)) \<Rightarrow>
     (case watch_tick digest render chat now current reply lv of
        (t, call, lv1) \<Rightarrow> (call, lv1, job_ticked (card_key chat pid) (safe_tick t) rg)))"

definition watch :: "int \<Rightarrow> string \<Rightarrow> proposal_view option \<Rightarrow> registry \<Rightarrow> registry" where
  "watch chat pid v rg =
     (if (case v of None \<Rightarrow> False | Some x \<Rightarrow> pv_status x \<noteq> Voting) then rg else start_refresh (card_key chat pid) rg)"

definition unwatch :: "nat option \<Rightarrow> int \<Rightarrow> string \<Rightarrow> registry \<Rightarrow> registry" where
  "unwatch cur chat pid rg = stop_refresh cur (card_key chat pid) rg"

text \<open>\<open>ProposalCards.post\<close> after the card was sent: its reference is kept, and the refresh starts.\<close>

definition cards_posted ::
  "'m digest \<Rightarrow> int \<Rightarrow> string \<Rightarrow> proposal_view \<Rightarrow> string \<Rightarrow> 'm \<Rightarrow> int \<Rightarrow> live \<times> registry \<Rightarrow> card_ref \<times> live \<times> registry" where
  "cards_posted digest chat pid v t markup mid s = (case s of (lv, rg) \<Rightarrow>
     (case live_posted digest chat t (Some markup) (pv_image_url v) mid lv of (r, lv1) \<Rightarrow>
        (r, lv1\<lparr>lc_refs := (lc_refs lv1)(card_key chat pid := Some r)\<rparr>, watch chat pid (Some v) rg)))"

text \<open>\<open>TelegramRuntime.refresh_proposal_card\<close> with the view of the gateway\<close>

definition refresh_proposal_card ::
  "'m digest \<Rightarrow> (proposal_view \<Rightarrow> (string \<times> 'm) result) \<Rightarrow> nat option \<Rightarrow> int \<Rightarrow> string \<Rightarrow> proposal_view option \<Rightarrow> reply
     \<Rightarrow> live \<times> registry \<Rightarrow> bool result \<times> 'm call option \<times> live \<times> registry" where
  "refresh_proposal_card digest render cur chat pid view reply s = (case s of (lv, rg) \<Rightarrow>
     (case view of
        None \<Rightarrow> (Inr False, None, lv, rg)
      | Some v \<Rightarrow>
          (case cards_refresh digest render chat v reply lv of
             (Inl e, call, lv1) \<Rightarrow> (Inl e, call, lv1, rg)
           | (Inr Card_gone, call, lv1) \<Rightarrow> (Inr False, call, lv1, unwatch cur chat pid rg)
           | (Inr (Changed b), call, lv1) \<Rightarrow>
               (Inr b, call, lv1, if pv_status v = Voting then watch chat pid (Some v) rg else unwatch cur chat pid rg))))"

end
