(* ===== verification/TgRuntime.thy ===== *)
theory TgRuntime
  imports LiveCards
begin

text \<open>
  \<open>telegram/settings.py\<close> and \<open>telegram/runtime.py\<close>: the chats the bot serves, who may speak in them,
  whom it has seen, and what Telegram delivers to it. \<open>env\<close> is the lookup of a secret by name.
\<close>

section \<open>Settings\<close>

definition PERSONAL_LINK_MODES :: "string list" where
  "PERSONAL_LINK_MODES = [''ephemeral'', ''dm'']"

record tg_settings =
  ts_app_base_url :: string
  ts_bot_username :: string
  ts_allowed_chat_ids :: "int list"
  ts_fire_threshold :: int
  ts_fire_emoji :: string
  ts_refresh_interval :: time
  ts_veto_threshold_bps :: int
  ts_personal_link_mode :: string
  ts_pitch_ttl :: time

text \<open>\<open>get_secret\<close> outside of Hermes: the stripped value, if it is not empty\<close>

definition env_secret :: "(string \<Rightarrow> string option) \<Rightarrow> string \<Rightarrow> string option" where
  "env_secret env name = (case env name of
     None \<Rightarrow> None
   | Some v \<Rightarrow> if strip v = [] then None else Some (strip v))"

text \<open>Parts that are no number are ignored.\<close>

definition parse_chat_ids :: "string option \<Rightarrow> int list" where
  "parse_chat_ids raw =
     some_values (map (\<lambda>part. if strip part = [] then None else py_int (strip part))
       (split_on (CHR '','') [] (map (\<lambda>c. if c = CHR '';'' then CHR '','' else c) (case raw of None \<Rightarrow> [] | Some r \<Rightarrow> r))))"

definition link_mode :: "string option \<Rightarrow> string" where
  "link_mode v = (let m = lower (case v of None \<Rightarrow> ''ephemeral'' | Some x \<Rightarrow> x)
     in if m \<in> set PERSONAL_LINK_MODES then m else ''ephemeral'')"

definition or_text :: "string option \<Rightarrow> string \<Rightarrow> string" where
  "or_text v dflt = (case v of None \<Rightarrow> dflt | Some x \<Rightarrow> x)"

definition settings_from_env :: "(string \<Rightarrow> string option) \<Rightarrow> tg_settings" where
  "settings_from_env env = (let read = env_secret env in \<lparr>
     ts_app_base_url = rstrip_of (CHR ''/'') (or_text (read ''APP_BASE_URL'') DEFAULT_APP_BASE_URL),
     ts_bot_username = lstrip_of (CHR ''@'') (or_text (read ''TELEGRAM_BOT_USERNAME'') []),
     ts_allowed_chat_ids = parse_chat_ids (read ''TELEGRAM_GROUP_ALLOWED_CHATS''),
     ts_fire_threshold = 3, ts_fire_emoji = FIRE, ts_refresh_interval = 60, ts_veto_threshold_bps = 2000,
     ts_personal_link_mode = link_mode (read ''SHERWOOD_TG_PERSONAL_LINKS''), ts_pitch_ttl = 6 * 3600\<rparr>)"

text \<open>An empty list allows every chat.\<close>

definition chat_allowed :: "tg_settings \<Rightarrow> int \<Rightarrow> bool" where
  "chat_allowed ts chat_id \<longleftrightarrow> ts_allowed_chat_ids ts = [] \<or> chat_id \<in> set (ts_allowed_chat_ids ts)"

text \<open>\<open>TelegramRuntime.__init__\<close>: the pitch flow of these settings\<close>

definition flow_settings :: "tg_settings \<Rightarrow> flow_config" where
  "flow_settings ts = default_config\<lparr>fc_threshold := ts_fire_threshold ts, fc_emoji := ts_fire_emoji ts,
     fc_ttl := ts_pitch_ttl ts\<rparr>"

section \<open>Who may speak\<close>

text \<open>
  The check of the platform decides, and fails closed; without one, the host and the approved members
  of the fund of the chat.
\<close>

definition user_authorized :: "sender_check \<Rightarrow> dir \<Rightarrow> int \<Rightarrow> int \<Rightarrow> bool result" where
  "user_authorized check d chat_id user_id = (case check of
     Some f \<Rightarrow> (case f chat_id user_id of Inl e \<Rightarrow> Inr False | Inr b \<Rightarrow> Inr b)
   | None \<Rightarrow> and_then (gw_fund_for_chat d chat_id) (\<lambda>v. Inr (case v of
       None \<Rightarrow> False
     | Some fund \<Rightarrow> fv_host_tg_id fund = Some user_id \<or> user_id \<in> set (map mv_tg_id (fv_members fund)))))"

definition host_for_chat :: "dir \<Rightarrow> int \<Rightarrow> int option result" where
  "host_for_chat d chat_id = and_then (gw_fund_for_chat d chat_id)
     (\<lambda>v. Inr (case v of None \<Rightarrow> None | Some fund \<Rightarrow> fv_host_tg_id fund))"

section \<open>People\<close>

type_synonym people = "int \<Rightarrow> int \<Rightarrow> person option"

definition note_person :: "int option \<Rightarrow> person option \<Rightarrow> people \<Rightarrow> people" where
  "note_person chat_id p ps = (case (chat_id, p) of
     (Some c, Some x) \<Rightarrow> ps(c := (ps c)(pe_tg_id x := Some x))
   | _ \<Rightarrow> ps)"

text \<open>\<open>CallbackFundGateway.people\<close>: the members whose names are known\<close>

definition gw_people :: "fund_state option \<Rightarrow> int \<Rightarrow> person option" where
  "gw_people s = (case s of
     None \<Rightarrow> (\<lambda>tg. None)
   | Some st \<Rightarrow> map_of (rev (map (\<lambda>m. (mv_tg_id m, \<lparr>pe_tg_id = mv_tg_id m, pe_username = mv_username m,
       pe_first_name = [], pe_last_name = []\<rparr>)) (filter (\<lambda>m. mv_username m \<noteq> []) (member_views st)))))"

text \<open>The names of the fund win over those seen in the chat.\<close>

definition merged_people :: "dir \<Rightarrow> int \<Rightarrow> people \<Rightarrow> (int \<Rightarrow> person option) result" where
  "merged_people d chat_id ps = and_then (state_for_chat d chat_id) (\<lambda>s.
     Inr (\<lambda>tg. case gw_people s tg of Some p \<Rightarrow> Some p | None \<Rightarrow> ps chat_id tg))"

section \<open>What Telegram delivers\<close>

record chat_caps =
  cc_is_admin :: bool
  cc_reads_all :: bool
  cc_checked_at :: time

definition CAPS_TTL_S :: time where "CAPS_TTL_S = 600"

definition caps_mode :: "chat_caps \<Rightarrow> string" where
  "caps_mode c = (if cc_is_admin c then ''full'' else if cc_reads_all c then ''all_messages'' else ''mention_only'')"

text \<open>Only the full mode has no notice for the chat.\<close>

definition caps_notice :: "chat_caps \<Rightarrow> bool" where
  "caps_notice c \<longleftrightarrow> caps_mode c \<in> {''all_messages'', ''mention_only''}"

record caps_state =
  cp_caps :: "int \<Rightarrow> chat_caps option"
  cp_warned :: "int list"

text \<open>\<open>reads\<close>: the flag of the bot; \<open>status\<close>: its status in the chat, or \<open>None\<close> when the call raised.\<close>

definition capabilities :: "time \<Rightarrow> bool \<Rightarrow> string option \<Rightarrow> int \<Rightarrow> caps_state \<Rightarrow> chat_caps \<times> caps_state" where
  "capabilities now reads status chat_id cs =
     (let fresh =
        (let admin = (case status of None \<Rightarrow> False | Some s \<Rightarrow> s \<in> {''administrator'', ''creator''});
             c = \<lparr>cc_is_admin = admin, cc_reads_all = reads \<or> admin, cc_checked_at = now\<rparr>;
             cs1 = cs\<lparr>cp_caps := (cp_caps cs)(chat_id := Some c)\<rparr>
         in (c, if caps_mode c \<noteq> ''full'' \<and> chat_id \<notin> set (cp_warned cs)
             then cs1\<lparr>cp_warned := chat_id # cp_warned cs\<rparr> else cs1))
      in case cp_caps cs chat_id of
           Some c \<Rightarrow> if now - cc_checked_at c < CAPS_TTL_S then (c, cs) else fresh
         | None \<Rightarrow> fresh)"

section \<open>Posting cards\<close>

text \<open>
  A card that goes out once. What is sent is a note for the flow as well: the card is no riff.
  \<open>mid\<close> is the message the bot gets back, \<open>render\<close> the text and keyboard, or the exception of a read
  it needs.
\<close>

definition send_card ::
  "'m digest \<Rightarrow> int \<Rightarrow> (string \<times> 'm) result \<Rightarrow> string option \<Rightarrow> int option \<Rightarrow> int \<Rightarrow> live \<times> flow
     \<Rightarrow> int option result \<times> 'm call option \<times> live \<times> flow" where
  "send_card digest chat_id render img reply_to mid s = (case s of (lv, f) \<Rightarrow> (case render of
     Inl e \<Rightarrow> (Inl e, None, lv, f)
   | Inr (t, markup) \<Rightarrow> (case live_posted digest chat_id t (Some markup) img mid lv of (r, lv1) \<Rightarrow>
       (Inr (Some (cr_message_id r)), Some (post_call chat_id t (Some markup) img reply_to None), lv1,
        note_bot_card chat_id (cr_message_id r) f))))"

text \<open>\<open>_require\<close>: an exception while the adapter is not up\<close>

definition when_up ::
  "bool \<Rightarrow> live \<times> flow \<Rightarrow> int option result \<times> 'm call option \<times> live \<times> flow \<Rightarrow> int option result \<times> 'm call option \<times> live \<times> flow" where
  "when_up up s k = (if up then k else (Inl Runtime_error, None, s))"

text \<open>The fund card, the member card, a join request and an agent card need the fund.\<close>

definition post_fund_card ::
  "'m digest \<Rightarrow> bool \<Rightarrow> dir \<Rightarrow> int \<Rightarrow> (fund_view \<Rightarrow> (string \<times> 'm) result) \<Rightarrow> int \<Rightarrow> live \<times> flow
     \<Rightarrow> int option result \<times> 'm call option \<times> live \<times> flow" where
  "post_fund_card digest up d chat_id render mid s =
     when_up up s (case gw_fund_for_chat d chat_id of
       Inl e \<Rightarrow> (Inl e, None, s)
     | Inr None \<Rightarrow> (Inr None, None, s)
     | Inr (Some fund) \<Rightarrow> send_card digest chat_id (render fund) None None mid s)"

text \<open>The receipt does without.\<close>

definition post_receipt ::
  "'m digest \<Rightarrow> bool \<Rightarrow> dir \<Rightarrow> int \<Rightarrow> (fund_view option \<Rightarrow> (string \<times> 'm) result) \<Rightarrow> string option \<Rightarrow> int \<Rightarrow> live \<times> flow
     \<Rightarrow> int option result \<times> 'm call option \<times> live \<times> flow" where
  "post_receipt digest up d chat_id render img mid s =
     when_up up s (case gw_fund_for_chat d chat_id of
       Inl e \<Rightarrow> (Inl e, None, s)
     | Inr fund \<Rightarrow> send_card digest chat_id (render fund) img None mid s)"

text \<open>The draft card needs the draft, which the gateway answers as \<open>view\<close>.\<close>

definition post_draft_card ::
  "'m digest \<Rightarrow> bool \<Rightarrow> proposal_view option \<Rightarrow> dir \<Rightarrow> int \<Rightarrow> (proposal_view \<Rightarrow> fund_view option \<Rightarrow> (string \<times> 'm) result)
     \<Rightarrow> int option \<Rightarrow> int \<Rightarrow> live \<times> flow \<Rightarrow> int option result \<times> 'm call option \<times> live \<times> flow" where
  "post_draft_card digest up view d chat_id render reply_to mid s =
     when_up up s (case view of
       None \<Rightarrow> (Inr None, None, s)
     | Some v \<Rightarrow> (case gw_fund_for_chat d chat_id of
         Inl e \<Rightarrow> (Inl e, None, s)
       | Inr fund \<Rightarrow> send_card digest chat_id (render v fund) (pv_image_url v) reply_to mid s))"

end
