(* ===== verification/Handler.thy ===== *)
theory Handler
  imports TgRuntime
begin

text \<open>
  \<open>telegram/handler.py\<close> with the callback data of \<open>telegram/cards.py\<close>: what a button, a command or a
  message of the chat does. A handler leaves the files and the join cards as they are at its end,
  the list of what it showed, and the exception that the wrapper \<open>_safe\<close> swallows. What is shown is a
  value: answers name their kind, and links name who can see them. The replies of the Bot API, the
  clock and what the chain answers are inputs.
\<close>

section \<open>Callback data\<close>

definition CALLBACK_MAX_BYTES :: nat where "CALLBACK_MAX_BYTES = 64"

definition HOST_ONLY_ACTIONS :: "string list" where
  "HOST_ONLY_ACTIONS = [''shipit'', ''propose'', ''approve_member'', ''approve_agent'', ''remove_agent'']"

definition cb :: "string \<Rightarrow> string \<Rightarrow> string result" where
  "cb action who = (let data = ''shfund:'' @ action @ '':'' @ who in
     if length data > CALLBACK_MAX_BYTES then Inl Value_error else Inr data)"

definition parse_cb :: "string \<Rightarrow> (string \<times> string) option" where
  "parse_cb data = (case split_at (\<lambda>c. c = CHR '':'') data of
     (prefix, Some rest) \<Rightarrow>
       (case split_at (\<lambda>c. c = CHR '':'') rest of
          (action, Some who) \<Rightarrow> if prefix = ''shfund'' \<and> action \<noteq> [] then Some (action, who) else None
        | _ \<Rightarrow> None)
   | _ \<Rightarrow> None)"

section \<open>Messages\<close>

record tg_user =
  tu_id :: int
  tu_is_bot :: bool
  tu_username :: string
  tu_first_name :: string
  tu_last_name :: string

definition person_from_user :: "tg_user option \<Rightarrow> person option" where
  "person_from_user u = map_option (\<lambda>x. \<lparr>pe_tg_id = tu_id x, pe_username = tu_username x,
     pe_first_name = tu_first_name x, pe_last_name = tu_last_name x\<rparr>) u"

text \<open>An entity with its text; \<open>Text_mention\<close> carries the user it points at.\<close>

datatype entity_type = Mention | Text_mention "tg_user option" | Bot_command | Other_entity

record entity =
  en_type :: entity_type
  en_offset :: int
  en_text :: string

text \<open>\<open>tm_reply\<close>: the message replied to, with its sender\<close>

record tg_message =
  tm_chat_id :: int
  tm_group :: bool
  tm_message_id :: int
  tm_from :: "tg_user option"
  tm_text :: string
  tm_caption :: string
  tm_entities :: "entity list"
  tm_caption_entities :: "entity list"
  tm_reply :: "(int \<times> int option) option"
  tm_thread_id :: "int option"
  tm_is_topic :: bool

definition mentions_bot :: "int option \<Rightarrow> string \<Rightarrow> entity \<Rightarrow> bool" where
  "mentions_bot bot_id bot_username e = (case en_type e of
     Mention \<Rightarrow> bot_username \<noteq> [] \<and> lower (en_text e) = ''@'' @ lower bot_username
   | Text_mention (Some u) \<Rightarrow> (case bot_id of None \<Rightarrow> False | Some b \<Rightarrow> b \<noteq> 0 \<and> tu_id u = b)
   | _ \<Rightarrow> False)"

definition incoming_from_message :: "int option \<Rightarrow> string \<Rightarrow> tg_message \<Rightarrow> message" where
  "incoming_from_message bot_id bot_username m =
     (let es = (if tm_text m \<noteq> [] then tm_entities m else tm_caption_entities m);
          field = (\<lambda>g. case tm_from m of None \<Rightarrow> [] | Some u \<Rightarrow> g u)
      in \<lparr>ms_chat_id = tm_chat_id m, ms_message_id = tm_message_id m, ms_user_id = map_option tu_id (tm_from m),
          ms_text = or_else (tm_text m) (tm_caption m),
          ms_is_bot = (case tm_from m of None \<Rightarrow> False | Some u \<Rightarrow> tu_is_bot u),
          ms_username = field tu_username, ms_first_name = field tu_first_name, ms_last_name = field tu_last_name,
          ms_mentions_bot = list_ex (mentions_bot bot_id bot_username) es,
          ms_reply_to = map_option fst (tm_reply m),
          ms_reply_to_is_bot = (case tm_reply m of Some (_, Some u) \<Rightarrow> bot_id = Some u | _ \<Rightarrow> False),
          ms_thread_id = (if tm_is_topic m then tm_thread_id m else None),
          ms_is_command = list_ex (\<lambda>e. en_type e = Bot_command \<and> en_offset e = 0) es\<rparr>)"

section \<open>What a handler shows\<close>

datatype notice = N_none | N_expired | N_no_fund | N_host_only | N_unknown_action | N_refused "rule_code option"
  | N_not_found | N_backing | N_not_backing | N_voting_closed | N_not_onchain | N_no_links | N_other_fund
  | N_shipped proposal | N_not_signable | N_bad_data | N_member member | N_agent_in agent | N_agent_out agent
  | N_sent_in_dm | N_press_start | N_not_linked | N_not_here | N_host_only_sign

text \<open>
  \<open>Answer\<close> is a toast of the one who pressed. A link goes out as a message of the chat that only its
  receiver sees, as a private message, as the URL a tap opens, or as a reply in a private chat.
\<close>

datatype ui =
    Answer notice
  | Group_link int int string "int option"
  | Private_link int string
  | Start_link string
  | Reply_link string
  | Say notice
  | Note_person int person
  | Edit_card int string proposal_view
  | Join_card int person
  | Clear_buttons
  | Stamp string
  | Fund_card int fund_view
  | Note_card int int
  | Board_card int "leader_row list"

record tg_state =
  tg_join :: join_cards
  tg_sync :: "chain_sync option"

record inputs =
  in_settings :: tg_settings
  in_bridge :: bridge_ctx
  in_now :: time
  in_sync_now :: "time \<times> time \<times> time"
  in_sync_ticks :: ticks
  in_card :: card_read
  in_connected :: bool
  in_bot_username :: string
  in_sent :: "int option"
  in_ephemeral :: reply
  in_dm :: reply
  in_start :: reply

record handled =
  hd_dir :: dir
  hd_events :: "fund_event list"
  hd_state :: tg_state
  hd_ui :: "ui list"
  hd_raised :: "exn option"

definition showing :: "dir \<Rightarrow> tg_state \<Rightarrow> ui list \<Rightarrow> handled" where
  "showing d s us = \<lparr>hd_dir = d, hd_events = [], hd_state = s, hd_ui = us, hd_raised = None\<rparr>"

definition raising :: "dir \<Rightarrow> tg_state \<Rightarrow> exn \<Rightarrow> handled" where
  "raising d s e = \<lparr>hd_dir = d, hd_events = [], hd_state = s, hd_ui = [], hd_raised = Some e\<rparr>"

text \<open>What was shown and written before the rest of the handler\<close>

definition after :: "ui list \<Rightarrow> handled \<Rightarrow> handled" where
  "after us h = h\<lparr>hd_ui := us @ hd_ui h\<rparr>"

definition with_eff :: "tg_state \<Rightarrow> 'r effect \<Rightarrow> (dir \<Rightarrow> 'r result \<Rightarrow> handled) \<Rightarrow> handled" where
  "with_eff s eff k = (case eff of (d, es, r) \<Rightarrow> let h = k d r in h\<lparr>hd_events := es @ hd_events h\<rparr>)"

section \<open>Personal links\<close>

record press =
  pr_user :: tg_user
  pr_data :: string
  pr_chat :: "int option"
  pr_group :: bool
  pr_message_id :: "int option"
  pr_thread :: "int option"

datatype delivery = By_ephemeral | By_dm | By_start | Not_delivered

text \<open>
  A message only the user sees; else a private message; else the start link of the bot. A private
  message that fails otherwise than by a refusal raises.
\<close>

definition deliver_personal_link ::
  "inputs \<Rightarrow> press \<Rightarrow> string \<Rightarrow> string option \<Rightarrow> delivery result \<times> ui list" where
  "deliver_personal_link i pr url start_payload =
     (let user = tu_id (pr_user pr); uname = in_bot_username i;
          start = (case start_payload of
             Some p \<Rightarrow> if uname \<noteq> [] \<and> p \<noteq> [] then Some (''https://t.me/'' @ uname @ ''?start='' @ p) else None
           | None \<Rightarrow> None);
          rest = (case start of
             None \<Rightarrow> (Inr Not_delivered, [Answer N_press_start])
           | Some u \<Rightarrow> if in_start i = R_ok then (Inr By_start, [Start_link u]) else (Inr Not_delivered, [Answer N_press_start]));
          dm = (case in_dm i of
             R_ok \<Rightarrow> (Inr By_dm, [Private_link user url, Answer N_sent_in_dm])
           | R_forbidden \<Rightarrow> rest
           | R_bad_request m \<Rightarrow> rest
           | _ \<Rightarrow> (Inl Telegram_error, []))
      in case pr_chat pr of
           Some c \<Rightarrow>
             if ts_personal_link_mode (in_settings i) = ''ephemeral'' \<and> pr_group pr \<and> in_ephemeral i = R_ok
             then (Inr By_ephemeral, [Group_link c user url (pr_thread pr), Answer N_none]) else dm
         | None \<Rightarrow> dm)"

definition delivers :: "inputs \<Rightarrow> dir \<Rightarrow> tg_state \<Rightarrow> press \<Rightarrow> string \<Rightarrow> string option \<Rightarrow> ui list \<Rightarrow> handled" where
  "delivers i d s pr url start more_ui = (case deliver_personal_link i pr url start of
     (Inl e, us) \<Rightarrow> after us (raising d s e)
   | (Inr path, us) \<Rightarrow> showing d s (us @ more_ui))"

text \<open>\<open>_start_payload\<close>: none when it would not fit\<close>

definition start_payload :: "string \<Rightarrow> string \<Rightarrow> json \<Rightarrow> string option result" where
  "start_payload kind vault item_id = (case encode_start_payload kind vault item_id of
     Inr p \<Rightarrow> Inr (Some p) | Inl e \<Rightarrow> if e = Value_error then Inr None else Inl e)"

definition secret_or_none :: "inputs \<Rightarrow> string option" where
  "secret_or_none i = (case bx_secret (in_bridge i) of None \<Rightarrow> None | Some s \<Rightarrow> if s = [] then None else Some s)"

definition personal_args :: "inputs \<Rightarrow> int \<Rightarrow> link_args" where
  "personal_args i user = \<lparr>la_tg_user_id = JInt user, la_base_url = ts_app_base_url (in_settings i), la_fund = None,
     la_governor = None, la_proposal_id = JNull, la_ts = None\<rparr>"

text \<open>A signed link and its start payload, or the exception of either\<close>

definition signed_link ::
  "inputs \<Rightarrow> string \<Rightarrow> string \<Rightarrow> link_args \<Rightarrow> string \<Rightarrow> json \<Rightarrow> (string \<times> string option) result" where
  "signed_link i secret kind a vault item_id =
     and_then (build_link (bx_mac (in_bridge i)) secret (in_now i) kind a) (\<lambda>url.
     and_then (start_payload kind vault item_id) (\<lambda>p. Inr (url, p)))"

section \<open>Buttons\<close>

definition cb_back :: "inputs \<Rightarrow> press \<Rightarrow> int \<Rightarrow> string \<Rightarrow> dir \<Rightarrow> tg_state \<Rightarrow> handled" where
  "cb_back i pr chat who d s =
     with_eff s (gw_toggle_backer (in_bridge i) d chat who (tu_id (pr_user pr))) (\<lambda>d' r. case r of
       Inl (Fund_action_error c) \<Rightarrow> showing d' s [Answer (N_refused c)]
     | Inl e \<Rightarrow> raising d' s e
     | Inr None \<Rightarrow> showing d' s [Answer N_not_found]
     | Inr (Some v) \<Rightarrow> showing d' s
         (Answer (if tu_id (pr_user pr) \<in> set (pv_backers v) then N_backing else N_not_backing)
          # (if in_connected i then [Edit_card chat who v] else [])))"

text \<open>\<open>CallbackFundGateway.proposal\<close>, with the chain read that may be due\<close>

definition gw_proposal ::
  "inputs \<Rightarrow> dir \<Rightarrow> tg_state \<Rightarrow> int \<Rightarrow> string \<Rightarrow> tg_state \<times> proposal_view option effect" where
  "gw_proposal i d s chat pid = (case state_for_chat d chat of
     Inl e \<Rightarrow> (s, d, [], Inl e)
   | Inr None \<Rightarrow> (s, pure_eff d (Inr None))
   | Inr (Some st) \<Rightarrow>
       (case get_proposal (tg_sync s) (in_sync_now i) (in_card i) d (in_sync_ticks i) (f_name (st_fund st)) pid of
          (sync', eff) \<Rightarrow> (s\<lparr>tg_sync := sync'\<rparr>, eff)))"

definition vote_id :: "proposal_view \<Rightarrow> int option" where
  "vote_id v = (case pv_onchain_id v of
     Some n \<Rightarrow> Some n
   | None \<Rightarrow> if isdigit (pv_id v) then Some (digits_val (pv_id v)) else None)"

definition cb_vote :: "inputs \<Rightarrow> press \<Rightarrow> fund_view \<Rightarrow> int \<Rightarrow> string \<Rightarrow> dir \<Rightarrow> tg_state \<Rightarrow> handled" where
  "cb_vote i pr fund chat who d s =
     (case gw_proposal i d s chat who of (s', eff) \<Rightarrow> with_eff s' eff (\<lambda>d' r. case r of
         Inl e \<Rightarrow> raising d' s' e
       | Inr None \<Rightarrow> showing d' s' [Answer N_voting_closed]
       | Inr (Some v) \<Rightarrow>
           if pv_status v \<noteq> Voting then showing d' s' [Answer N_voting_closed]
           else (case vote_id v of
               None \<Rightarrow> showing d' s' [Answer N_not_onchain]
             | Some n \<Rightarrow> (case secret_or_none i of
                 None \<Rightarrow> showing d' s' [Answer N_no_links]
               | Some secret \<Rightarrow>
                   (case signed_link i secret ''vote'' ((personal_args i (tu_id (pr_user pr)))
                       \<lparr>la_governor := Some (or_else (pv_governor v) (fv_governor fund)), la_proposal_id := JInt n\<rparr>)
                       (fv_vault fund) (JInt n) of
                      Inl e \<Rightarrow> raising d' s' e
                    | Inr (url, start) \<Rightarrow> delivers i d' s' pr url start [])))))"

text \<open>A join request is recorded on the way to the link, whatever happens to it.\<close>

definition note_join_request :: "inputs \<Rightarrow> press \<Rightarrow> int \<Rightarrow> dir \<Rightarrow> tg_state \<Rightarrow> dir \<times> fund_event list \<times> tg_state \<times> ui list" where
  "note_join_request i pr chat d s =
     (let p = the (person_from_user (Some (pr_user pr))) in
      case gw_request_membership (in_bridge i) (in_now i) (tg_join s) d chat p of
        (d', es, Inl e) \<Rightarrow> (d', es, s, [])
      | (d', es, Inr (is_new, cards)) \<Rightarrow>
          (d', es, s\<lparr>tg_join := cards\<rparr>, if is_new \<and> in_connected i then [Join_card chat p] else []))"

definition cb_fund_link ::
  "inputs \<Rightarrow> press \<Rightarrow> fund_view \<Rightarrow> int \<Rightarrow> string \<Rightarrow> string \<Rightarrow> dir \<Rightarrow> tg_state \<Rightarrow> handled" where
  "cb_fund_link i pr fund chat action who d s =
     (if lower who \<noteq> lower (fv_vault fund) then showing d s [Answer N_other_fund]
      else case secret_or_none i of
          None \<Rightarrow> showing d s [Answer N_no_links]
        | Some secret \<Rightarrow>
            (case (if action = ''join'' then note_join_request i pr chat d s else (d, [], s, [])) of
               (d', es, s', us) \<Rightarrow>
                 (let h = (case signed_link i secret action
                       ((personal_args i (tu_id (pr_user pr)))\<lparr>la_fund := Some (fv_vault fund)\<rparr>) (fv_vault fund) JNull of
                      Inl e \<Rightarrow> raising d' s' e
                    | Inr (url, start) \<Rightarrow> delivers i d' s' pr url start [])
                  in after us (h\<lparr>hd_events := es @ hd_events h\<rparr>))))"

definition cb_shipit :: "inputs \<Rightarrow> press \<Rightarrow> int \<Rightarrow> string \<Rightarrow> dir \<Rightarrow> tg_state \<Rightarrow> handled" where
  "cb_shipit i pr chat who d s =
     with_eff s (gw_ship_draft (in_bridge i) d chat who (tu_id (pr_user pr))) (\<lambda>d' r. case r of
       Inl (Fund_action_error c) \<Rightarrow> showing d' s [Answer (N_refused c)]
     | Inl e \<Rightarrow> raising d' s e
     | Inr p \<Rightarrow> showing d' s [Answer (N_shipped p), Clear_buttons])"

definition cb_propose :: "inputs \<Rightarrow> press \<Rightarrow> fund_view \<Rightarrow> int \<Rightarrow> string \<Rightarrow> dir \<Rightarrow> tg_state \<Rightarrow> handled" where
  "cb_propose i pr fund chat who d s =
     with_eff s (gw_host_signing_url (in_bridge i) (in_now i) d chat who (tu_id (pr_user pr))) (\<lambda>d' r. case r of
       Inl e \<Rightarrow> raising d' s e
     | Inr None \<Rightarrow> showing d' s [Answer N_not_signable]
     | Inr (Some url) \<Rightarrow> (case start_payload ''propose'' (fv_vault fund) (JStr who) of
           Inl e \<Rightarrow> raising d' s e
         | Inr start \<Rightarrow> delivers i d' s pr url start []))"

text \<open>The three actions of the host; the number of a member may be no number.\<close>

definition host_action :: "inputs \<Rightarrow> press \<Rightarrow> int \<Rightarrow> string \<Rightarrow> string \<Rightarrow> dir \<Rightarrow> notice effect" where
  "host_action i pr chat action who d =
     (let bx = in_bridge i; by_tg = tu_id (pr_user pr) in
      if action = ''approve_member'' then
        (case py_int who of
           None \<Rightarrow> (d, [], Inl Value_error)
         | Some n \<Rightarrow> then_do (gw_approve_member bx d chat n by_tg) (\<lambda>d' (m, body). pure_eff d' (Inr (N_member m))))
      else if action = ''approve_agent'' then
        then_do (gw_approve_agent bx d chat who by_tg) (\<lambda>d' (a, body). pure_eff d' (Inr (N_agent_in a)))
      else then_do (gw_remove_agent bx d chat who by_tg) (\<lambda>d' a. pure_eff d' (Inr (N_agent_out a))))"

text \<open>The signing link after an approval; any exception means none.\<close>

definition action_url :: "inputs \<Rightarrow> press \<Rightarrow> int \<Rightarrow> string \<Rightarrow> string \<Rightarrow> dir \<Rightarrow> string option" where
  "action_url i pr chat action who d =
     (if action = ''approve_member'' \<or> action = ''approve_agent'' then
        (case value_of (gw_host_action_url (in_bridge i) (in_now i) d chat action who (tu_id (pr_user pr))) of
           Inr (Some url) \<Rightarrow> if url = [] then None else Some url
         | _ \<Rightarrow> None)
      else None)"

definition cb_host_action :: "inputs \<Rightarrow> press \<Rightarrow> int \<Rightarrow> string \<Rightarrow> string \<Rightarrow> dir \<Rightarrow> tg_state \<Rightarrow> handled" where
  "cb_host_action i pr chat action who d s =
     (let stamp = Stamp (person_handle (the (person_from_user (Some (pr_user pr))))) in
      with_eff s (host_action i pr chat action who d) (\<lambda>d' r. case r of
        Inl (Fund_action_error c) \<Rightarrow> showing d' s [Answer (N_refused c)]
      | Inl e \<Rightarrow> if e = Value_error then showing d' s [Answer N_bad_data] else raising d' s e
      | Inr toast \<Rightarrow> (case action_url i pr chat action who d' of
            Some url \<Rightarrow> delivers i d' s pr url None [stamp]
          | None \<Rightarrow> showing d' s [Answer toast, stamp])))"

definition CALLBACKS ::
  "(string \<times> (inputs \<Rightarrow> press \<Rightarrow> fund_view \<Rightarrow> int \<Rightarrow> string \<Rightarrow> string \<Rightarrow> dir \<Rightarrow> tg_state \<Rightarrow> handled)) list" where
  "CALLBACKS = [
     (''back'', \<lambda>i pr fund chat action who. cb_back i pr chat who),
     (''vote'', \<lambda>i pr fund chat action who. cb_vote i pr fund chat who),
     (''deposit'', cb_fund_link), (''withdraw'', cb_fund_link), (''join'', cb_fund_link),
     (''shipit'', \<lambda>i pr fund chat action who. cb_shipit i pr chat who),
     (''propose'', \<lambda>i pr fund chat action who. cb_propose i pr fund chat who),
     (''approve_member'', \<lambda>i pr fund. cb_host_action i pr), (''approve_agent'', \<lambda>i pr fund. cb_host_action i pr),
     (''remove_agent'', \<lambda>i pr fund. cb_host_action i pr)]"

definition fund_for_chat :: "inputs \<Rightarrow> dir \<Rightarrow> int \<Rightarrow> fund_view option result" where
  "fund_for_chat i d chat = (if chat_allowed (in_settings i) chat then gw_fund_for_chat d chat else Inr None)"

definition on_callback :: "inputs \<Rightarrow> press \<Rightarrow> dir \<Rightarrow> tg_state \<Rightarrow> handled" where
  "on_callback i pr d s =
     (case parse_cb (pr_data pr) of
        None \<Rightarrow> showing d s [Answer N_none]
      | Some (action, who) \<Rightarrow>
          (case pr_chat pr of
             None \<Rightarrow> showing d s [Answer N_expired]
           | Some chat \<Rightarrow>
               after [Note_person chat (the (person_from_user (Some (pr_user pr))))]
                 (case fund_for_chat i d chat of
                    Inl e \<Rightarrow> raising d s e
                  | Inr None \<Rightarrow> showing d s [Answer N_no_fund]
                  | Inr (Some fund) \<Rightarrow>
                      if action \<in> set HOST_ONLY_ACTIONS \<and> fv_host_tg_id fund \<noteq> Some (tu_id (pr_user pr))
                      then showing d s [Answer N_host_only]
                      else (case map_of CALLBACKS action of
                          None \<Rightarrow> showing d s [Answer N_unknown_action]
                        | Some f \<Rightarrow> f i pr fund chat action who d s))))"

section \<open>Commands and messages\<close>

text \<open>The message of a card is noted for the flow: it is no riff.\<close>

definition card_noted :: "inputs \<Rightarrow> int \<Rightarrow> ui list" where
  "card_noted i chat = (case in_sent i of None \<Rightarrow> [] | Some mid \<Rightarrow> [Note_card chat mid])"

definition on_cmd_fund :: "inputs \<Rightarrow> int \<Rightarrow> dir \<Rightarrow> tg_state \<Rightarrow> handled" where
  "on_cmd_fund i chat d s = (case fund_for_chat i d chat of
     Inl e \<Rightarrow> raising d s e
   | Inr None \<Rightarrow> showing d s (if chat_allowed (in_settings i) chat then [Say N_not_linked] else [])
   | Inr (Some fund) \<Rightarrow> showing d s (Fund_card chat fund # card_noted i chat))"

definition on_cmd_leaderboard :: "inputs \<Rightarrow> int \<Rightarrow> dir \<Rightarrow> tg_state \<Rightarrow> handled" where
  "on_cmd_leaderboard i chat d s = (case fund_for_chat i d chat of
     Inl e \<Rightarrow> raising d s e
   | Inr None \<Rightarrow> showing d s []
   | Inr (Some fund) \<Rightarrow> with_eff s (gw_leaderboard d chat) (\<lambda>d' r. case r of
       Inl e \<Rightarrow> raising d' s e | Inr rows \<Rightarrow> showing d' s (Board_card chat rows # card_noted i chat)))"

text \<open>\<open>^/start(?:@\w+)?\s+(sf[a-z]_\S+)\s*$\<close>\<close>

definition start_argument :: "string \<Rightarrow> string option" where
  "start_argument t =
     (let r = drop 6 t;
          r1 = (if r \<noteq> [] \<and> hd r = CHR ''@'' \<and> takeWhile is_word_char (tl r) \<noteq> [] then dropWhile is_word_char (tl r) else r);
          r2 = dropWhile is_space r1;
          p = takeWhile (\<lambda>c. \<not> is_space c) r2
      in if take 6 t = ''/start'' \<and> r1 \<noteq> [] \<and> is_space (hd r1) \<and> dropWhile (\<lambda>c. \<not> is_space c) r2 = takeWhile is_space (dropWhile (\<lambda>c. \<not> is_space c) r2)
         \<and> 5 \<le> length p \<and> take 2 p = ''sf'' \<and> is_lower_char (p ! 2) \<and> p ! 3 = CHR ''_''
         then Some p else None)"

definition start_link :: "inputs \<Rightarrow> tg_user \<Rightarrow> fund_view \<Rightarrow> string \<Rightarrow> string option \<Rightarrow> dir \<Rightarrow> tg_state \<Rightarrow> handled" where
  "start_link i user fund kind item d s =
     (if kind = ''propose'' then
        (if fv_host_tg_id fund \<noteq> Some (tu_id user) then showing d s [Say N_host_only_sign]
         else with_eff s (gw_host_signing_url (in_bridge i) (in_now i) d
             (case fv_telegram_chat_id fund of None \<Rightarrow> 0 | Some c \<Rightarrow> c)
             (case item of None \<Rightarrow> ''None'' | Some x \<Rightarrow> x) (tu_id user)) (\<lambda>d' r. case r of
               Inl e \<Rightarrow> raising d' s e
             | Inr None \<Rightarrow> showing d' s [Say N_not_signable]
             | Inr (Some url) \<Rightarrow> showing d' s [Reply_link url]))
      else (case secret_or_none i of
          None \<Rightarrow> showing d s [Say N_no_links]
        | Some secret \<Rightarrow>
            (case build_link (bx_mac (in_bridge i)) secret (in_now i) kind
               (if kind = ''vote'' then (personal_args i (tu_id user))\<lparr>la_governor := Some (fv_governor fund),
                   la_proposal_id := (case item of None \<Rightarrow> JNull | Some x \<Rightarrow> JStr x)\<rparr>
                else (personal_args i (tu_id user))\<lparr>la_fund := Some (fv_vault fund)\<rparr>) of
               Inl e \<Rightarrow> raising d s e
             | Inr url \<Rightarrow> showing d s [Reply_link url])))"

definition cmd_start :: "inputs \<Rightarrow> tg_user \<Rightarrow> string \<Rightarrow> dir \<Rightarrow> tg_state \<Rightarrow> handled" where
  "cmd_start i user t d s =
     (case (case start_argument t of None \<Rightarrow> None | Some p \<Rightarrow> decode_start_payload p) of
        None \<Rightarrow> showing d s []
      | Some (kind, vault, item) \<Rightarrow>
          (case gw_fund_by_vault d vault of
             Inl e \<Rightarrow> raising d s e
           | Inr None \<Rightarrow> showing d s [Say N_not_here]
           | Inr (Some fund) \<Rightarrow>
               if (case fv_telegram_chat_id fund of None \<Rightarrow> False | Some c \<Rightarrow> \<not> chat_allowed (in_settings i) c)
               then showing d s [Say N_not_here]
               else start_link i user fund kind item d s))"

text \<open>The observers: what is handed to the pitch flow, of a group that is served.\<close>

definition on_group_message :: "inputs \<Rightarrow> int option \<Rightarrow> tg_message \<Rightarrow> people \<Rightarrow> message option \<times> people" where
  "on_group_message i bot_id m ps =
     (if \<not> tm_group m \<or> \<not> chat_allowed (in_settings i) (tm_chat_id m) then (None, ps)
      else (Some (incoming_from_message bot_id (in_bot_username i) m),
            note_person (Some (tm_chat_id m)) (person_from_user (tm_from m)) ps))"

record tg_reaction =
  tr_chat_id :: int
  tr_group :: bool
  tr_message_id :: int
  tr_user :: "tg_user option"
  tr_old :: "string list"
  tr_new :: "string list"

definition on_reaction :: "inputs \<Rightarrow> tg_reaction \<Rightarrow> people \<Rightarrow> reaction option \<times> people" where
  "on_reaction i m ps =
     (if \<not> tr_group m \<or> \<not> chat_allowed (in_settings i) (tr_chat_id m) then (None, ps)
      else (Some \<lparr>rc_chat_id = tr_chat_id m, rc_message_id = tr_message_id m, rc_user_id = map_option tu_id (tr_user m),
              rc_old = tr_old m, rc_new = tr_new m,
              rc_user_is_bot = (case tr_user m of None \<Rightarrow> False | Some u \<Rightarrow> tu_is_bot u)\<rparr>,
            note_person (Some (tr_chat_id m)) (person_from_user (tr_user m)) ps))"

end
