(* ===== verification/BridgeFacts.thy ===== *)
theory BridgeFacts
  imports Handler
begin

text \<open>
  What the Telegram side may do to the files. \<open>press_relation\<close> is the contract of what anybody may
  press: a member's vote, a request to join, a read of the chain. \<open>bridge_relation\<close> joins it with the
  contract of the tools and the calls only the bridge makes; in it every button, the pitch that earned
  its draft and the start message are shown to respect the relation. It is interpreted on the two
  relations of the tools, and the smaller contract on a third: what only the host decides is kept.
\<close>

section \<open>Effects and what is shown\<close>

lemma dir_of_showing [simp]:
  "hd_dir (showing d s us) = d" "hd_dir (raising d s e) = d" "hd_dir (after us h) = hd_dir h"
  "hd_dir (delivers i d s pr url start us) = d"
  by (simp_all add: showing_def raising_def after_def delivers_def split: prod.split sum.split)

lemma dir_of_case [simp]:
  "hd_dir (case r of Inl e \<Rightarrow> f e | Inr x \<Rightarrow> g x) = (case r of Inl e \<Rightarrow> hd_dir (f e) | Inr x \<Rightarrow> hd_dir (g x))"
  "hd_dir (case v of None \<Rightarrow> h | Some y \<Rightarrow> k y) = (case v of None \<Rightarrow> hd_dir h | Some y \<Rightarrow> hd_dir (k y))"
  by (simp_all split: sum.split option.split)

context dir_relation
begin

lemma stays_map [simp]: "stays d (case eff of (d', es, r) \<Rightarrow> (d', es, f r)) = stays d eff"
  by (cases eff) (simp add: stays_def)

lemma stays_as_action: "stays d eff \<Longrightarrow> stays d (as_action eff)"
  by (simp add: as_action_def)

lemma stays_gw:
  assumes "\<And>name. stays d (k name)"
  shows "stays d (gw_action d chat k)" "stays d (gw_read d chat none k)"
  unfolding gw_action_def gw_read_def using assms by (auto split: option.split intro!: stays_need)

lemma stays_with_eff:
  assumes "stays d eff" and "\<And>d' r. R d' (hd_dir (k d' r))"
  shows "R d (hd_dir (with_eff s eff k))"
proof (cases eff)
  case (fields d1 es r)
  then show ?thesis using chain [of d d1 "hd_dir (k d1 r)"] assms by (simp add: with_eff_def stays_def Let_def)
qed

end

section \<open>What anybody may do\<close>

text \<open>The calls behind the buttons that need no host: a vote of a member, a request, a read of the chain.\<close>

locale press_relation = dir_relation +
  assumes of_member_vote: "record_vote d now wt fund pid voter side ''member'' [] = Inr (p, d', es) \<Longrightarrow> R d d'"
    and of_member_request: "request_membership d now wt fund tg address username = Inr (m, d', es) \<Longrightarrow> R d d'"
    and of_set_chain_state: "set_chain_state d now wt fund pid ag ve re cov = Inr (pc, d', es) \<Longrightarrow> R d d'"
    and of_chain_move: "chain_move d tk fund pid (target_of row) = Inr (d', es) \<Longrightarrow> R d d'"
    and of_fund_card: "store_update d wt fund (fund_card_mutate tc) = Inr (u, d') \<Longrightarrow> R d d'"
begin

lemma stays_toggle: "stays d (toggle_backer bx d name pid tg)"
  unfolding toggle_backer_def Let_def
  by (auto split: option.split intro!: stays_need stays_then stays_did stays_as_action intro: of_member_vote)

lemma stays_request_membership: "stays d (bridge_request_membership bx now cards d name p)"
  unfolding bridge_request_membership_def Let_def
  by (auto split: option.split intro!: stays_need stays_then stays_did intro: of_member_request)

lemma stays_presses:
  "stays d (gw_toggle_backer bx d chat pid tg)" "stays d (gw_request_membership bx now cards d chat p)"
  unfolding gw_toggle_backer_def gw_request_membership_def
  by (rule stays_gw, rule stays_toggle) (rule stays_gw, rule stays_request_membership)

lemma stays_row: "stays d (row_eff d tick fund pid row)"
  unfolding row_eff_def
  by (intro stays_need stays_then stays_did) (auto simp: and_then_Inr_iff intro: of_set_chain_state of_chain_move)

lemma stays_rows: "stays d (rows_eff st d tick fund seen n rows)"
proof (induction rows arbitrary: d tick seen n)
  case (Cons row rows)
  then show ?case by (auto split: option.split intro!: stays_then stays_row)
qed simp

lemma stays_card: "stays d (card_eff d tick fund reply)"
proof -
  have "stays d (did d (and_then (store_update d wt fund (fund_card_mutate c)) (\<lambda>(_, d'). Inr ((), d', []))))" for wt c
    by (rule stays_did) (auto simp: and_then_Inr_iff intro: of_fund_card)
  then show ?thesis
    unfolding card_eff_def by (intro stays_need stays_then) (simp_all add: stays_rows)
qed

lemma stays_sync: "stays d (snd (chain_sync_read cs now reply d tick fund vault))"
  using stays_card [of d tick fund] by (simp add: chain_sync_read_def Let_def split: sum.split)

lemma stays_sync_then:
  assumes "\<And>d' x. stays d' (k d' x)"
  shows "stays d (snd (case chain_sync_read cs t reply d tick fund v of (cs', eff) \<Rightarrow> (Some cs', then_do eff k)))"
proof -
  obtain cs' eff where e: "chain_sync_read cs t reply d tick fund v = (cs', eff)" by (metis surj_pair)
  then have "stays d eff"
    using stays_sync [where cs = cs and now = t and reply = reply and d = d and tick = tick and fund = fund and vault = v]
    by simp
  then show ?thesis using assms e by (simp add: stays_then)
qed

lemma stays_get_proposal: "stays d (snd (get_proposal sync now reply d tick name pid))"
  unfolding get_proposal_def Let_def
  by (auto split: sum.split option.split intro!: stays_sync_then stays_need)

lemma stays_gw_proposal: "stays d (snd (gw_proposal i d s chat pid))"
  using stays_get_proposal by (simp add: gw_proposal_def split: sum.split option.split prod.split) (metis snd_conv)

lemma stays_cb_back: "R d (hd_dir (cb_back i pr chat who d s))"
  unfolding cb_back_def
  by (rule stays_with_eff [OF stays_presses(1)]) (auto simp: same split: sum.split option.split exn.split)

lemma stays_cb_vote: "R d (hd_dir (cb_vote i pr fund chat who d s))"
proof -
  obtain s' eff where Pair: "gw_proposal i d s chat who = (s', eff)" by (metis surj_pair)
  then have "stays d eff" using stays_gw_proposal [of d i s chat who] by simp
  then show ?thesis
    unfolding cb_vote_def using Pair
    by simp (rule stays_with_eff, assumption, auto simp: same split: sum.split option.split prod.split)
qed

lemma stays_note_join: "note_join_request i pr chat d s = (d', es, s', us) \<Longrightarrow> R d d'"
  using stays_presses(2) [of d "in_bridge i" "in_now i" "tg_join s" chat "the (person_from_user (Some (pr_user pr)))"]
  by (auto simp: note_join_request_def Let_def stays_def split: prod.splits sum.splits)

lemma stays_cb_fund_link: "R d (hd_dir (cb_fund_link i pr fund chat action who d s))"
proof (cases "if action = ''join'' then note_join_request i pr chat d s else (d, [], s, [])")
  case (fields d' es s' us)
  then have "R d d'" using stays_note_join same by (auto split: if_splits)
  with fields show ?thesis
    by (auto simp: cb_fund_link_def Let_def same split: option.split sum.split prod.split)
qed

end

section \<open>What the host may do too\<close>

locale bridge_relation = call_relation + press_relation +
  assumes of_ship_draft: "ship_draft d now wt fund pid caller = Inr (p, d', es) \<Longrightarrow> R d d'"
    and of_request_draft: "request_draft d now wt fund agent idea pitch chat mid topic = Inr (c, d', es) \<Longrightarrow> R d d'"
    and of_set_card_message: "set_card_message d wt fund pid mid' = Inr (p', d', es) \<Longrightarrow> R d d'"
begin

lemmas of_bridge = of_ship_draft of_request_draft of_set_card_message

lemma stays_actions:
  "stays d (bridge_ship_draft bx d name draft_id tg)"
  "stays d (bridge_approve_agent bx d name agent_name tg)"
  "stays d (bridge_remove_agent bx d name agent_name tg)"
  unfolding bridge_ship_draft_def bridge_approve_agent_def bridge_remove_agent_def Let_def
  by (auto intro!: stays_need stays_then stays_did stays_as_action intro: of_calls of_bridge)

lemma stays_approve_member: "stays d (bridge_approve_member bx d name tg_id tg)"
  unfolding bridge_approve_member_def
  by (auto split: prod.split intro!: stays_need stays_needs stays_then stays_did stays_as_action stays_ensure_member
      intro: of_calls)

lemma stays_set_card: "stays d (set_card_message_id bx d name pid mid)"
proof -
  have "stays d (did d (set_card_message d (bwtime bx 0) name pid (str_int mid)))"
    by (rule stays_did) (rule of_set_card_message)
  then show ?thesis by (simp add: set_card_message_id_def)
qed

lemma stays_gateway:
  "stays d (gw_set_card_message_id bx d chat pid mid)" "stays d (gw_ship_draft bx d chat pid tg)"
  "stays d (gw_host_signing_url bx now d chat pid tg)" "stays d (gw_host_action_url bx now d chat action who tg)"
  "stays d (gw_approve_member bx d chat n tg)" "stays d (gw_approve_agent bx d chat agent_name tg)"
  "stays d (gw_remove_agent bx d chat agent_name tg)" "stays d (gw_leaderboard d chat)"
  unfolding gw_set_card_message_id_def gw_ship_draft_def gw_host_signing_url_def gw_host_action_url_def
    gw_approve_member_def gw_approve_agent_def gw_remove_agent_def gw_leaderboard_def
  by (auto intro!: stays_gw stays_actions stays_set_card stays_approve_member stays_need)

lemma stays_draft_requested: "stays d (on_draft_requested bx d ev)"
proof -
  have "stays d (need d (draft_agent bx st) (\<lambda>agent.
      did d (request_draft d (bclock bx 0) (bwtime bx 0) f agent idea t chat mid [])))" for st f idea t chat mid
    by (rule stays_need, rule stays_did) (rule of_request_draft)
  then show ?thesis
    unfolding on_draft_requested_def
    by (auto intro!: stays_need split: option.split)
qed

section \<open>Buttons and commands\<close>

lemma stays_cb_shipit: "R d (hd_dir (cb_shipit i pr chat who d s))"
  unfolding cb_shipit_def
  by (rule stays_with_eff [OF stays_gateway(2)]) (auto simp: same split: sum.split exn.split)

lemma stays_cb_propose: "R d (hd_dir (cb_propose i pr fund chat who d s))"
  unfolding cb_propose_def
  by (rule stays_with_eff [OF stays_gateway(3)]) (auto simp: same split: sum.split option.split prod.split)

lemma stays_host_action: "stays d (host_action i pr chat action who d)"
  unfolding host_action_def Let_def
  by (auto split: option.split prod.split intro!: stays_then stays_gateway)

lemma stays_cb_host_action: "R d (hd_dir (cb_host_action i pr chat action who d s))"
  unfolding cb_host_action_def Let_def
  by (rule stays_with_eff [OF stays_host_action]) (auto simp: same split: sum.split option.split exn.split)

lemma stays_callback: "R d (hd_dir (on_callback i pr d s))"
proof -
  have "R d (hd_dir (f i pr fund chat action who d s))" if "map_of CALLBACKS action' = Some f" for f fund chat action who action'
    using map_of_SomeD [OF that] stays_cb_back stays_cb_vote stays_cb_fund_link stays_cb_shipit stays_cb_propose
      stays_cb_host_action
    by (auto simp: CALLBACKS_def)
  then show ?thesis
    by (auto simp: on_callback_def same split: option.split sum.split prod.split)
qed

lemma stays_start: "R d (hd_dir (cmd_start i user t d s))"
proof -
  have "R d (hd_dir (with_eff s (gw_host_signing_url (in_bridge i) (in_now i) d c x u) k))"
    if "\<And>d' r. hd_dir (k d' r) = d'" for c x u k
    by (rule stays_with_eff [OF stays_gateway(3)]) (simp add: that same)
  then show ?thesis
    by (auto simp: cmd_start_def start_link_def same split: option.split sum.split prod.split)
qed

end

section \<open>The two relations\<close>

lemma chain_move_writes:
  assumes "chain_move d tk fund pid target = Inr (d', es)"
  shows "d' = d \<or> (\<exists>q r es. chain_status d (fst tk) (snd tk) fund pid q = Inr (r, d', es))"
proof -
  obtain st where "store_load d fund = Inr st"
    using assms by (auto simp: chain_move_def and_then_Inr_iff)
  then show ?thesis
    using assms by (auto simp: chain_move_def and_then_Inr_iff split: option.splits if_splits)
qed

lemma bindings_of_chain:
  assumes "chain_move d tk fund pid target = Inr (d', es)"
  shows "bindings_kept d d'"
proof -
  have "bindings_kept d d'"
    if u: "store_update d (snd tk) fund (chain_status_mutate (fst tk) pid q) = Inr (r, d')" for q r
  proof (rule bindings_readable [OF u])
    show "local_json.keeps_readable (chain_status_mutate (fst tk) pid q)"
      by (rule keeps_readable_version) (rule chain_status_version)
  qed (auto simp: chain_status_mutate_def Let_def split: option.splits if_splits)
  then show ?thesis
    using chain_move_writes [OF assms] bindings_same by (auto simp: chain_status_def write_op_def and_then_Inr_iff)
qed

lemma get_text_chain_fields [simp]:
  "get_text (f\<lparr>f_cooldown_period := n\<rparr>) k = get_text f k"
  "get_text (f\<lparr>f_veto_threshold_bps := n\<rparr>) k = get_text f k"
  "get_text (f\<lparr>f_cooldown_until := t\<rparr>) k = get_text f k"
  "get_text (f\<lparr>f_agent_fee_bps := fee\<rparr>) k = get_text f k"
  by (simp_all add: get_text_def)

lemma get_text_chain_fund [simp]: "get_text (chain_fund c f) k = get_text f k"
  by (cases "digits_field (cd_gov c) ''cooldownPeriod''"; cases "digits_field (cd_gov c) ''vetoThresholdBps''";
      cases "map_of (cd_gate c) ''cooldownUntil''"; cases "cd_fee c") (simp_all add: chain_fund_def)

lemma bindings_of_card: "fund_card_mutate c st = Inr (u, st') \<Longrightarrow> same_bindings (st_fund st) (st_fund st')"
  by (auto simp: fund_card_mutate_def same_bindings_def)

lemma fund_of_bridge_mutations:
  "ship_draft_mutate now pid caller st = Inr (rp, st') \<Longrightarrow> st_fund st' = st_fund st"
  "set_chain_state_mutate now pid ag v w cov st = Inr (rpc, st') \<Longrightarrow> st_fund st' = st_fund st"
  "set_card_message_mutate pid mid st = Inr (rp, st') \<Longrightarrow> st_fund st' = st_fund st"
  "request_draft_mutate now agent idea pitch chat msg topic st = Inr (rc, st') \<Longrightarrow> st_fund st' = st_fund st"
  subgoal by (cases "proposal_ix st pid") (auto simp: ship_draft_mutate_def and_then_Inr_iff Let_def split: if_splits)
  subgoal by (cases "proposal_ix st pid") (auto simp: set_chain_state_mutate_def Let_def)
  subgoal by (cases "proposal_ix st pid") (auto simp: set_card_message_mutate_def Let_def)
  subgoal using request_draft_effect(1) by fastforce
  done

interpretation bridge_serving: bridge_relation serves
  by unfold_locales (auto intro: serves_call service_call.intros)

interpretation bridge_binding: bridge_relation bindings_kept
proof unfold_locales
  show "bindings_kept d d'" if "store_update d wt fund (fund_card_mutate tc) = Inr (u, d')" for d wt fund tc u d'
    using that is_op_mutations(16) bindings_of_card by (rule bindings_update)
  show "bindings_kept d d'" if "chain_move d tk fund pid (target_of row) = Inr (d', es)" for d tk fund pid row d' es
    using that by (rule bindings_of_chain)
qed (auto simp: service_ops Let_def split: if_splits intro: bindings_by_write [OF _ is_op_mutations(1)]
    bindings_by_write [OF _ is_op_mutations(14)] bindings_by_write [OF _ is_op_mutations(8)]
    bindings_by_write [OF _ is_op_mutations(10)] bindings_by_write [OF _ is_op_mutations(12)]
    bindings_by_write [OF _ is_op_mutations(13)] fund_of_bridge_mutations fund_of_mutations)

section \<open>What only the host decides\<close>

text \<open>The agents, who is a member, which drafts were shipped by whom, and the receipts.\<close>

definition host_side ::
  "fund_state \<Rightarrow> agent list \<times> string list \<times> (string \<times> time option \<times> string) list \<times> receipt list" where
  "host_side st = (st_agents st, map m_telegram_id (filter m_approved (st_members st)),
     map (\<lambda>p. (p_id p, p_shipped_at p, p_shipped_by p)) (st_proposals st), st_receipts st)"

definition host_kept :: "dir \<Rightarrow> dir \<Rightarrow> bool" where
  "host_kept d d' \<longleftrightarrow> (\<forall>f st. store_load d f = Inr st \<longrightarrow>
     (\<exists>st'. store_load d' f = Inr st' \<and> host_side st' = host_side st))"

lemma host_side_bump [simp]: "host_side (bump t st) = host_side st"
  by (simp add: host_side_def bump_def)

lemma host_kept_chain: "host_kept d1 d2 \<Longrightarrow> host_kept d2 d3 \<Longrightarrow> host_kept d1 d3"
  unfolding host_kept_def by metis

interpretation pressing: dir_relation host_kept
  by unfold_locales (simp add: host_kept_def, rule host_kept_chain)

lemma host_update:
  assumes u: "store_update d wt fund m = Inr (r, d')" and k: "local_json.keeps_readable m"
    and m: "\<And>st q st'. m st = Inr (q, st') \<Longrightarrow> host_side st' = host_side st"
  shows "host_kept d d'"
proof -
  obtain s s' where s: "store_load d fund = Inr s" "m s = Inr (r, s')"
    "\<And>g. store_load d' g = (if same_fund fund g then Inr (bump wt s') else store_load d g)"
    using local_json.update_keeps [OF u k] by blast
  have "host_side (bump wt s') = host_side s" using m [OF s(2)] by simp
  then show ?thesis
    using s(1,3) load_same_fund [of fund _ d] by (fastforce simp: host_kept_def)
qed

lemma host_write:
  assumes "write_op d wt fund m evs = Inr (r, d', es)" and "is_op m"
    and "\<And>st q st'. m st = Inr (q, st') \<Longrightarrow> host_side st' = host_side st"
  shows "host_kept d d'"
  using assms by (auto simp: write_op_def and_then_Inr_iff intro: host_update is_op_readable)

lemma map_same: "i < length xs \<Longrightarrow> g x = g (xs ! i) \<Longrightarrow> map g (xs[i := x]) = map g xs"
  by (simp add: map_update list_update_same_conv)

lemma host_side_put:
  assumes "proposal_ix st pid = Some i" and "(p_id p, p_shipped_at p, p_shipped_by p)
    = (p_id (st_proposals st ! i), p_shipped_at (st_proposals st ! i), p_shipped_by (st_proposals st ! i))"
  shows "host_side (put_proposal i p st) = host_side st"
  using map_same [where g = "\<lambda>p. (p_id p, p_shipped_at p, p_shipped_by p)", OF proposal_ix_less [OF assms(1)] assms(2)]
  by (simp add: host_side_def put_proposal_def)

lemma host_side_cooldown [simp]:
  "host_side (start_cooldown now st) = host_side st" "proposal_ix (start_cooldown now st) pid = proposal_ix st pid"
  "st_proposals (start_cooldown now st) = st_proposals st"
  by (auto simp: start_cooldown_def host_side_def proposal_ix_def Let_def split: option.split)

lemma chain_fields_shipped [simp]:
  "p_id (chain_fields a v w c p) = p_id p" "p_shipped_at (chain_fields a v w c p) = p_shipped_at p"
  "p_shipped_by (chain_fields a v w c p) = p_shipped_by p"
  by (cases a; cases v; cases w; cases c; simp add: chain_fields_def)+

lemma moved_shipped [simp]:
  "p_id (moved now q p) = p_id p" "p_shipped_at (moved now q p) = p_shipped_at p"
  "p_shipped_by (moved now q p) = p_shipped_by p"
  by (simp_all add: moved_def Let_def)

lemma host_side_votes:
  assumes "record_vote_mutate now pid voter side ''member'' note st = Inr (p, st')"
  shows "host_side st' = host_side st"
proof -
  obtain i m where i: "proposal_ix st pid = Some i" "member_of st voter = Some m"
    and "st' = put_proposal i (member_vote now (or_else (m_telegram_id m) (m_address m)) side (st_proposals st ! i)) st"
    using assms by (auto simp: record_vote_mutate_def Let_def split: option.splits)
  then show ?thesis using host_side_put [OF i(1)] by (simp add: member_vote_def Let_def)
qed

lemma host_side_requests:
  assumes "request_membership_mutate now tg address username st = Inr (m, st')"
  shows "host_side st' = host_side st"
proof -
  let ?who = "\<lambda>m. (m_approved m, m_telegram_id m)"
  let ?in = "\<lambda>ms. map m_telegram_id (filter m_approved ms)"
  have ids: "?in ms = map snd (filter fst (map ?who ms))" for ms by (induction ms) auto
  obtain st1 i where s1: "(case ref_or (member_ix st tg) (if address \<noteq> [] then member_ix st address else None) of
      Some i \<Rightarrow> (st, i)
    | None \<Rightarrow> (st\<lparr>st_members := st_members st @ [new_member tg [] now]\<rparr>, length (st_members st))) = (st1, i)"
    by fastforce
  have i: "i < length (st_members st1)" and st1: "host_side st1 = host_side st"
    using s1 by (auto simp: ref_or_def host_side_def new_member_def dest: member_ix_less split: option.splits if_splits)
  obtain m2 where m2: "st' = put_member i m2 st1" "?who m2 = ?who (st_members st1 ! i)"
    using assms s1 by (auto simp: request_membership_mutate_def Let_def split: if_splits)
  have "map ?who ((st_members st1)[i := m2]) = map ?who (st_members st1)"
    using i m2(2) by (rule map_same)
  then have "?in ((st_members st1)[i := m2]) = ?in (st_members st1)" by (simp only: ids)
  then show ?thesis using st1 m2(1) by (simp add: host_side_def put_member_def)
qed

lemma host_side_chain:
  "set_chain_state_mutate now pid ag v w cov st = Inr (r, st') \<Longrightarrow> host_side st' = host_side st"
  "chain_status_mutate now pid q st = Inr (x, st') \<Longrightarrow> host_side st' = host_side st"
  subgoal by (cases "proposal_ix st pid") (auto simp: set_chain_state_mutate_def Let_def intro!: host_side_put)
  subgoal by (cases "proposal_ix st pid") (auto simp: chain_status_mutate_def Let_def host_side_put)
  done

lemma host_side_card: "fund_card_mutate c st = Inr (u, st') \<Longrightarrow> host_side st' = host_side st"
proof -
  have "map m_telegram_id (filter m_approved (map (chain_member dep) ms)) = map m_telegram_id (filter m_approved ms)" for dep ms
    by (induction ms) (auto simp: chain_member_def split: option.split)
  then show "fund_card_mutate c st = Inr (u, st') \<Longrightarrow> host_side st' = host_side st"
    by (auto simp: fund_card_mutate_def host_side_def)
qed

lemma host_of_chain:
  assumes "chain_move d tk fund pid target = Inr (d', es)"
  shows "host_kept d d'"
proof -
  have "host_kept d d'" if u: "store_update d (snd tk) fund (chain_status_mutate (fst tk) pid q) = Inr (r, d')" for q r
    by (rule host_update [OF u]) (auto intro: keeps_readable_version chain_status_version host_side_chain(2))
  then show ?thesis
    using chain_move_writes [OF assms] pressing.same by (auto simp: chain_status_def write_op_def and_then_Inr_iff)
qed

interpretation pressing: press_relation host_kept
proof unfold_locales
  show "host_kept d d'" if "record_vote d now wt fund pid voter side ''member'' [] = Inr (p, d', es)"
    for d now wt fund pid voter side p d' es
    using that host_write [OF _ is_op_mutations(14) host_side_votes]
    by (auto simp: record_vote_def Let_def split: if_splits)
  show "host_kept d d'" if "request_membership d now wt fund tg address username = Inr (m, d', es)"
    for d now wt fund tg address username m d' es
    using that host_write [OF _ is_op_mutations(1) host_side_requests] by (simp add: request_membership_def)
  show "host_kept d d'" if "set_chain_state d now wt fund pid ag ve re cov = Inr (pc, d', es)"
    for d now wt fund pid ag ve re cov pc d' es
    using that host_write [OF _ is_op_mutations(12) host_side_chain(1)] by (simp add: set_chain_state_def)
  show "host_kept d d'" if "chain_move d tk fund pid (target_of row) = Inr (d', es)" for d tk fund pid row d' es
    using that by (rule host_of_chain)
  show "host_kept d d'" if "store_update d wt fund (fund_card_mutate tc) = Inr (u, d')" for d wt fund tc u d'
    using that is_op_readable [OF is_op_mutations(16)] host_side_card by (rule host_update)
qed

end
