(* ===== verification/TelegramProps.thy ===== *)
theory TelegramProps
  imports BridgeFacts AccessProps
begin

text \<open>
  The properties of the Telegram side: what a button may change and for whom, to whom a link is
  shown, that every way into a fund is a sequence of calls of the service, and that a pitch that
  earned its draft reaches the agent's turn. The witnesses run them on the demo fund.
\<close>

section \<open>Concrete presses\<close>

definition demo_bridge :: bridge_ctx where
  "demo_bridge = \<lparr>bx_settings = demo_settings, bx_host_cosigns = True, bx_app_base_url = [], bx_link_hosts = No_hosts,
     bx_link = None, bx_ticks = (\<lambda>i. (120 + of_nat i, 121 + of_nat i)), bx_mac = (\<lambda>k m. ''mac''),
     bx_keccak = (\<lambda>x. x), bx_secret = Some ''key''\<rparr>"

definition demo_inputs :: inputs where
  "demo_inputs = \<lparr>in_settings = settings_from_env (\<lambda>n. None), in_bridge = demo_bridge, in_now = 140,
     in_sync_now = (140, 140, 140), in_sync_ticks = (\<lambda>i. (140, 141)), in_card = Inl None, in_connected = True,
     in_bot_username = ''fund_bot'', in_sent = None, in_ephemeral = R_ok, in_dm = R_ok, in_start = R_ok\<rparr>"

definition demo_press :: "int \<Rightarrow> string \<Rightarrow> press" where
  "demo_press user data = \<lparr>pr_user = \<lparr>tu_id = user, tu_is_bot = False, tu_username = [], tu_first_name = ''Ann'', tu_last_name = []\<rparr>,
     pr_data = data, pr_chat = Some (- 100), pr_group = True, pr_message_id = Some 1, pr_thread = None\<rparr>"

definition demo_tg :: tg_state where
  "demo_tg = \<lparr>tg_join = (\<lambda>k. None), tg_sync = None\<rparr>"

text \<open>The directory of the demo has one fund, whose chat is \<open>-100\<close>.\<close>

lemma demo_funds: "list_funds demo_d1 = [''alpha'']" "list_funds demo_d2 = [''alpha'']"
  by code_simp+

lemma demo_chat:
  "state_for_chat demo_d1 (- 100) = Inr (Some demo_s1)"
proof -
  have "str_int (- 100) = ''-100''" "f_telegram_chat_id (st_fund demo_s1) = ''-100''" by code_simp+
  then show ?thesis
    by (simp add: state_for_chat_def demo_funds bridge_load_def demo_load_1)
qed

section \<open>The host's buttons\<close>

text \<open>Whether the one who pressed is the host of the fund of the chat\<close>

definition presses_as_host :: "dir \<Rightarrow> press \<Rightarrow> bool" where
  "presses_as_host d pr = (case pr_chat pr of
     None \<Rightarrow> False
   | Some chat \<Rightarrow> (case state_for_chat d chat of
       Inr (Some st) \<Rightarrow> fv_host_tg_id (fund_to_view st) = Some (tu_id (pr_user pr))
     | _ \<Rightarrow> False))"

lemma fund_for_chat_state:
  assumes "fund_for_chat i d chat = Inr (Some fund)"
  shows "\<exists>st. state_for_chat d chat = Inr (Some st) \<and> fund = fund_to_view st"
  using assms by (auto simp: fund_for_chat_def gw_fund_for_chat_def and_then_Inr_iff split: if_splits)

lemma open_buttons:
  "map_of CALLBACKS action = Some f \<Longrightarrow> action \<notin> set HOST_ONLY_ACTIONS \<Longrightarrow> host_kept d (hd_dir (f i pr fund chat action' who d s))"
  using pressing.stays_cb_back pressing.stays_cb_vote pressing.stays_cb_fund_link
  by (auto simp: CALLBACKS_def HOST_ONLY_ACTIONS_def split: if_splits)

text \<open>
  C28: A button pressed by anybody but the host of the chat's fund changes no agent of any fund, makes
  nobody a member, ships no draft and records no receipt, whatever its data says; a button of the
  host's actions then changes nothing at all and answers with a refusal.
\<close>

theorem host_buttons_need_the_host:
  assumes "\<not> presses_as_host d pr"
  shows "host_kept d (hd_dir (on_callback i pr d s))
    \<and> (map_option fst (parse_cb (pr_data pr)) \<in> Some ` set HOST_ONLY_ACTIONS \<longrightarrow>
        hd_dir (on_callback i pr d s) = d \<and> hd_events (on_callback i pr d s) = [])"
proof (cases "parse_cb (pr_data pr)")
  case None
  then show ?thesis by (simp add: on_callback_def pressing.same)
next
  case (Some p)
  obtain action who where p: "parse_cb (pr_data pr) = Some (action, who)" using Some by (cases p) simp
  show ?thesis
  proof (cases "\<exists>chat fund. pr_chat pr = Some chat \<and> fund_for_chat i d chat = Inr (Some fund)")
    case True
    then obtain chat fund where c: "pr_chat pr = Some chat" "fund_for_chat i d chat = Inr (Some fund)" by blast
    have "fv_host_tg_id fund \<noteq> Some (tu_id (pr_user pr))"
      using fund_for_chat_state [OF c(2)] assms c(1) by (auto simp: presses_as_host_def)
    then show ?thesis
      using p c open_buttons [of action]
      by (auto simp: on_callback_def pressing.same showing_def after_def split: option.split)
  next
    case False
    then show ?thesis
      using p by (auto simp: on_callback_def pressing.same showing_def raising_def after_def split: option.split sum.split)
  qed
qed

theorem host_buttons_need_the_host_witness:
  "hd_dir (on_callback demo_inputs (demo_press 9 ''shfund:remove_agent:hermes'') demo_d1 demo_tg) = demo_d1
    \<and> host_kept demo_d1 (hd_dir (on_callback demo_inputs (demo_press 9 ''shfund:join:x'') demo_d1 demo_tg))"
proof -
  have h: "fv_host_tg_id (fund_to_view demo_s1) = Some 7" by code_simp
  have n: "\<not> presses_as_host demo_d1 (demo_press 9 data)" for data
    using demo_chat h by (simp add: presses_as_host_def demo_press_def)
  have "map_option fst (parse_cb (pr_data (demo_press 9 ''shfund:remove_agent:hermes''))) \<in> Some ` set HOST_ONLY_ACTIONS"
    by code_simp
  then show ?thesis using host_buttons_need_the_host [OF n] by blast
qed

section \<open>Links\<close>

text \<open>A URL signed for this user: a link to act, or a signing link of the host.\<close>

definition signed_for :: "inputs \<Rightarrow> int \<Rightarrow> string \<Rightarrow> bool" where
  "signed_for i user url \<longleftrightarrow> (\<exists>secret. bx_secret (in_bridge i) = Some secret \<and>
     ((\<exists>kind a. la_tg_user_id a = JInt user \<and> build_link (bx_mac (in_bridge i)) secret (in_now i) kind a = Inr url)
    \<or> (\<exists>vault action body. build_sign_link (bx_mac (in_bridge i)) secret (in_now i) vault action body (JInt user)
          (bx_app_base_url (in_bridge i)) None = Inr (Some url))))"

definition shown_safely :: "inputs \<Rightarrow> press \<Rightarrow> ui \<Rightarrow> bool" where
  "shown_safely i pr u = (case u of
     Group_link chat who url t \<Rightarrow> pr_chat pr = Some chat \<and> who = tu_id (pr_user pr) \<and> signed_for i who url
   | Private_link who url \<Rightarrow> who = tu_id (pr_user pr) \<and> signed_for i who url
   | Start_link url \<Rightarrow> (\<exists>p. url = ''https://t.me/'' @ in_bot_username i @ ''?start='' @ p)
   | Reply_link url \<Rightarrow> False
   | _ \<Rightarrow> True)"

lemma sign_url_signed: "sign_url (in_bridge i) (in_now i) f action body user = Inr (Some url) \<Longrightarrow> signed_for i user url"
  by (auto simp: sign_url_def signed_for_def split: option.splits if_splits sum.splits)

lemma gw_read_value:
  "value_of (gw_read d chat none k) = Inr y \<Longrightarrow> y = none \<or> (\<exists>name. value_of (k name) = Inr y)"
  by (cases "state_for_chat d chat") (auto simp: gw_read_def split: option.splits)

lemma host_signing_sign:
  assumes "host_signing_url bx now d name draft tg = Inr (Some url)"
  shows "\<exists>f action body. sign_url bx now f action body tg = Inr (Some url)"
proof -
  obtain st where "bridge_load d name = Inr (Some st)"
    using assms by (cases "bridge_load d name") (auto simp: host_signing_url_def split: option.splits)
  then show ?thesis
    using assms by (cases "proposal_of st draft") (auto simp: host_signing_url_def and_then_Inr_iff split: if_splits)
qed

lemma host_action_sign:
  assumes "host_action_url bx now d name action who tg = Inr (Some url)"
  shows "\<exists>f action body. sign_url bx now f action body tg = Inr (Some url)"
proof -
  obtain st where "bridge_load d name = Inr (Some st)"
    using assms by (cases "bridge_load d name") (auto simp: host_action_url_def split: option.splits)
  then show ?thesis
    using assms by (cases "member_of st who"; cases "agent_of st who") (auto simp: host_action_url_def Let_def split: if_splits)
qed

lemma host_signing_signed:
  assumes "value_of (gw_host_signing_url (in_bridge i) (in_now i) d chat who user) = Inr (Some url)"
  shows "signed_for i user url"
proof -
  obtain name where "host_signing_url (in_bridge i) (in_now i) d name who user = Inr (Some url)"
    using gw_read_value [OF assms [unfolded gw_host_signing_url_def]] by auto
  from host_signing_sign [OF this] show ?thesis using sign_url_signed by blast
qed

lemma host_action_signed:
  assumes "value_of (gw_host_action_url (in_bridge i) (in_now i) d chat action who user) = Inr (Some url)"
  shows "signed_for i user url"
proof -
  obtain name where "host_action_url (in_bridge i) (in_now i) d name action who user = Inr (Some url)"
    using gw_read_value [OF assms [unfolded gw_host_action_url_def]] by auto
  from host_action_sign [OF this] show ?thesis using sign_url_signed by blast
qed

lemma signed_link_signed:
  assumes "signed_link i secret kind a vault item = Inr (url, sp)" and "la_tg_user_id a = JInt user"
    and "secret_or_none i = Some secret"
  shows "signed_for i user url"
  using assms by (auto simp: signed_link_def and_then_Inr_iff secret_or_none_def signed_for_def split: option.splits if_splits)

lemma ui_simps [simp]:
  "hd_ui (showing d s us) = us" "hd_ui (raising d s e) = []" "hd_ui (after us h) = us @ hd_ui h"
  by (simp_all add: showing_def raising_def after_def)

lemma ui_with_eff [simp]: "hd_ui (with_eff s eff k) = hd_ui (k (fst eff) (value_of eff))"
  by (cases eff) (simp add: with_eff_def value_of_def Let_def)

lemma delivers_safely:
  assumes "signed_for i (tu_id (pr_user pr)) url" and "list_all (shown_safely i pr) us"
  shows "list_all (shown_safely i pr) (hd_ui (delivers i d s pr url sp us))"
  using assms
  by (auto simp: delivers_def deliver_personal_link_def Let_def shown_safely_def
      split: option.split reply.split sum.split prod.split)

lemma safe_simps [simp]:
  "shown_safely i pr (Answer n)" "shown_safely i pr (Edit_card c w v)" "shown_safely i pr (Join_card c p)"
  "shown_safely i pr Clear_buttons" "shown_safely i pr (Stamp t)" "shown_safely i pr (Note_person c p)"
  by (simp_all add: shown_safely_def)

lemma personal_args_user [simp]: "la_tg_user_id (personal_args i user) = JInt user"
  by (simp add: personal_args_def)

text \<open>A signed link, delivered or not.\<close>

lemma linked_safely:
  assumes "secret_or_none i = Some secret" and "la_tg_user_id a = JInt (tu_id (pr_user pr))"
  shows "list_all (shown_safely i pr) (hd_ui (case signed_link i secret kind a vault item of
      Inl e \<Rightarrow> raising d s e | Inr (url, sp) \<Rightarrow> delivers i d s pr url sp []))"
  using signed_link_signed [OF _ assms(2,1)] by (auto intro: delivers_safely split: sum.split)

lemma buttons_safely:
  "list_all (shown_safely i pr) (hd_ui (cb_back i pr chat who d s))"
  "list_all (shown_safely i pr) (hd_ui (cb_shipit i pr chat who d s))"
  by (auto simp: cb_back_def cb_shipit_def split: sum.split option.split exn.split)

lemma propose_safely: "list_all (shown_safely i pr) (hd_ui (cb_propose i pr fund chat who d s))"
  using host_signing_signed [of i d chat who "tu_id (pr_user pr)"]
  by (auto simp: cb_propose_def intro: delivers_safely split: sum.split option.split)

lemma host_action_safely: "list_all (shown_safely i pr) (hd_ui (cb_host_action i pr chat action who d s))"
proof -
  let ?eff = "host_action i pr chat action who d"
  have "signed_for i (tu_id (pr_user pr)) url" if "action_url i pr chat action who d' = Some url" for d' url
    using that host_action_signed [of i d' chat action who "tu_id (pr_user pr)"]
    by (auto simp: action_url_def split: if_splits sum.splits option.splits)
  then show ?thesis
    by (cases "value_of ?eff"; cases "action_url i pr chat action who (fst ?eff)")
      (auto simp: cb_host_action_def Let_def intro: delivers_safely split: exn.split)
qed

lemma vote_safely: "list_all (shown_safely i pr) (hd_ui (cb_vote i pr fund chat who d s))"
proof -
  obtain s' eff where g: "gw_proposal i d s chat who = (s', eff)" by (metis surj_pair)
  show ?thesis
  proof (cases "value_of eff")
    case (Inr r)
    then show ?thesis
      using g by (cases r; cases "secret_or_none i") (auto simp: cb_vote_def intro!: linked_safely split: option.split)
  qed (simp add: cb_vote_def g)
qed

lemma fund_link_safely: "list_all (shown_safely i pr) (hd_ui (cb_fund_link i pr fund chat action who d s))"
proof (cases "if action = ''join'' then note_join_request i pr chat d s else (d, [], s, [])")
  case (fields d' es s' us)
  then have "list_all (shown_safely i pr) us"
    by (auto simp: note_join_request_def Let_def split: if_splits prod.splits sum.splits)
  with fields show ?thesis
    by (auto simp: cb_fund_link_def Let_def intro!: linked_safely split: option.split)
qed

definition replied_safely :: "inputs \<Rightarrow> int \<Rightarrow> ui \<Rightarrow> bool" where
  "replied_safely i user u = (case u of Reply_link url \<Rightarrow> signed_for i user url | Say n \<Rightarrow> True | _ \<Rightarrow> False)"

lemma start_safely: "list_all (replied_safely i (tu_id user)) (hd_ui (start_link i user fund kind item d s))"
proof (cases "kind = ''propose''")
  case True
  then show ?thesis
    using host_signing_signed [of i d _ _ "tu_id user"]
    by (auto simp: start_link_def replied_safely_def split: sum.split option.split)
next
  case False
  define a where "a = (if kind = ''vote'' then (personal_args i (tu_id user))\<lparr>la_governor := Some (fv_governor fund),
      la_proposal_id := (case item of None \<Rightarrow> JNull | Some x \<Rightarrow> JStr x)\<rparr>
    else (personal_args i (tu_id user))\<lparr>la_fund := Some (fv_vault fund)\<rparr>)"
  have "la_tg_user_id a = JInt (tu_id user)" by (simp add: a_def)
  then have "signed_for i (tu_id user) url"
    if "secret_or_none i = Some secret" "build_link (bx_mac (in_bridge i)) secret (in_now i) kind a = Inr url" for secret url
    using that by (auto simp: signed_for_def secret_or_none_def split: option.splits if_splits)
  then show ?thesis
    using False unfolding start_link_def a_def [symmetric]
    by (auto simp: replied_safely_def split: option.split sum.split)
qed

text \<open>
  C29: Whatever a button shows, a link in it is signed for the one who pressed, and goes only to that
  user: in the chat as a message nobody else sees, in a private message, or behind the start link of
  the bot, which carries no signature; a start message is answered with a link of its sender only.
\<close>

theorem links_go_to_the_presser:
  "list_all (shown_safely i pr) (hd_ui (on_callback i pr d s))
    \<and> list_all (replied_safely i (tu_id user)) (hd_ui (cmd_start i user t d s))"
proof
  have f: "list_all (shown_safely i pr) (hd_ui (f i pr fund chat action' who d s))" if "map_of CALLBACKS action = Some f"
    for f fund chat action action' who
    using map_of_SomeD [OF that] buttons_safely propose_safely host_action_safely vote_safely fund_link_safely
    by (auto simp: CALLBACKS_def)
  show "list_all (shown_safely i pr) (hd_ui (on_callback i pr d s))"
    by (auto simp: on_callback_def intro: f split: option.split sum.split prod.split)
  have "replied_safely i (tu_id user) (Say n)" for n by (simp add: replied_safely_def)
  then show "list_all (replied_safely i (tu_id user)) (hd_ui (cmd_start i user t d s))"
    using start_safely by (auto simp: cmd_start_def split: option.split sum.split prod.split)
qed

section \<open>Every way into a fund\<close>

datatype entry =
    Tool_call tool_ctx string args
  | Chat_command tool_ctx string string session
  | Button_press inputs press tg_state
  | Start_message inputs tg_user string tg_state
  | Earned_draft bridge_ctx draft_requested
  | Card_posted bridge_ctx int string int
  | Proposal_read "chain_sync option" "time \<times> time \<times> time" card_read ticks string string
  | Operator_bind time bool string "(string \<times> string) list"

fun entry_dir :: "entry \<Rightarrow> dir \<Rightarrow> dir" where
  "entry_dir (Tool_call ctx name a) d = (case call_tool ctx name d a of None \<Rightarrow> d | Some (d', es, r) \<Rightarrow> d')"
| "entry_dir (Chat_command ctx name raw ss) d = (case run_command ctx name d raw ss of None \<Rightarrow> d | Some (d', es, r) \<Rightarrow> d')"
| "entry_dir (Button_press i pr s) d = hd_dir (on_callback i pr d s)"
| "entry_dir (Start_message i user t s) d = hd_dir (cmd_start i user t d s)"
| "entry_dir (Earned_draft bx ev) d = fst (on_draft_requested bx d ev)"
| "entry_dir (Card_posted bx chat pid mid) d = fst (gw_set_card_message_id bx d chat pid mid)"
| "entry_dir (Proposal_read sync now reply tick name pid) d = fst (snd (get_proposal sync now reply d tick name pid))"
| "entry_dir (Operator_bind wt messaging_turn fund args) d = snd (fund_bind d wt messaging_turn fund args)"

definition run_entries :: "entry list \<Rightarrow> dir \<Rightarrow> dir" where
  "run_entries es d = fold entry_dir es d"

definition by_operator :: "entry \<Rightarrow> bool" where
  "by_operator e = (case e of Operator_bind wt m fund args \<Rightarrow> True | _ \<Rightarrow> False)"

context bridge_relation
begin

lemma stays_entry: "\<not> by_operator e \<Longrightarrow> R d (entry_dir e d)"
  using same stays_call stays_run_command stays_callback stays_start stays_draft_requested stays_gateway(1)
    stays_get_proposal
  by (cases e) (auto simp: by_operator_def stays_def split: option.split)

lemma stays_entries: "list_all (\<lambda>e. \<not> by_operator e) es \<Longrightarrow> R d (run_entries es d)"
  unfolding run_entries_def by (induction es arbitrary: d) (auto intro: same chain stays_entry)

end

lemma served_entry: "served d \<Longrightarrow> served (entry_dir e d)"
proof (cases "by_operator e")
  case True
  moreover assume "served d"
  ultimately show ?thesis
    by (cases e) (auto simp: by_operator_def intro: served.call service_call.intros(19) prod.collapse [symmetric])
next
  case False
  moreover assume "served d"
  ultimately show ?thesis using bridge_serving.stays_entry [of e d] by (simp add: serves_def)
qed

text \<open>
  C27: Whatever sequence of tool calls, chat commands, buttons, start messages, earned pitches, posted
  cards, reads of the chain and operator bindings has run on an empty directory, every fund in it
  satisfies the invariants of C1 to C5; and nothing but an operator's command, in any sequence on any
  directory, drops a fund or changes its vault, governor, chat or host once set.
\<close>

theorem every_way_keeps_the_invariants:
  "(case store_load (run_entries es []) fund of Inr st \<Rightarrow> fund_inv st | Inl e \<Rightarrow> True)
    \<and> bindings_kept d (run_entries (filter (\<lambda>e. \<not> by_operator e) es) d)"
proof
  have "served d \<Longrightarrow> served (run_entries es d)" for d
    unfolding run_entries_def by (induction es arbitrary: d) (simp_all add: served_entry)
  then show "case store_load (run_entries es []) fund of Inr st \<Rightarrow> fund_inv st | Inl e \<Rightarrow> True"
    using served_inv [OF _ , of "run_entries es []" fund] served.start by (auto split: sum.split)
  show "bindings_kept d (run_entries (filter (\<lambda>e. \<not> by_operator e) es) d)"
    by (rule bridge_binding.stays_entries) (simp add: list_all_iff)
qed

section \<open>From a pitch to the agent's turn\<close>

lemma draft_requested_done:
  assumes "state_for_chat d (dq_chat_id ev) = Inr (Some st)" and "on_draft_requested bx d ev = (d', es, Inr None)"
  shows "\<exists>agent c. request_draft d (bclock bx 0) (bwtime bx 0) (f_name (st_fund st)) agent (str_int (dq_idea_by ev)) (dq_text ev)
      (str_int (dq_chat_id ev)) (Some (dq_source_message_id ev)) [] = Inr (c, d', es)"
proof (cases "draft_agent bx st")
  case (Inl e)
  then show ?thesis using assms by (auto simp: on_draft_requested_def split: exn.splits if_splits)
next
  case (Inr agent)
  let ?r = "request_draft d (bclock bx 0) (bwtime bx 0) (f_name (st_fund st)) agent (str_int (dq_idea_by ev)) (dq_text ev)
      (str_int (dq_chat_id ev)) (Some (dq_source_message_id ev)) []"
  show ?thesis
    using assms Inr by (cases ?r) (auto simp: on_draft_requested_def did_def split: exn.splits if_splits)
qed

lemma last_of_snoc: "x \<in> set (last_of 50 (q @ [x]))"
  by (simp add: last_of_def)


definition demo_earned :: draft_requested where
  "demo_earned = \<lparr>dq_idea_by = 9, dq_text = ''long $ETH'', dq_source_message_id = 10, dq_chat_id = - 100,
     dq_trigger = T_fire, dq_triggered_by = 3, dq_fire_count = 3, dq_idea_by_name = [], dq_created_at = 100\<rparr>"

definition demo_turn :: caller where
  "demo_turn = \<lparr>ca_platform = ''telegram'', ca_user_id = ''9'', ca_chat_id = ''-100''\<rparr>"

lemma demo_earned_done: "\<exists>d' es. on_draft_requested demo_bridge demo_d1 demo_earned = (d', es, Inr None)"
proof -
  let ?m = "request_draft_mutate 120 ''hermes'' ''9'' ''long $ETH'' ''-100'' (Some 10) (strip (or_else [] (pitch_topic ''long $ETH'')))"
  have "ok (?m demo_s1)" by code_simp
  from demo_step(1) [OF demo_load_1 is_op_mutations(8) this refl] obtain c d' es where
    w: "write_op demo_d1 121 ''alpha'' ?m (\<lambda>c. [(event Ev_draft_requested ''alpha'')\<lparr>e_claim := Some c\<rparr>]) = Inr (c, d', es)"
    by blast
  have "draft_agent demo_bridge demo_s1 = Inr ''hermes''" "f_name (st_fund demo_s1) = ''alpha''" "str_int 9 = ''9''"
    "str_int (- 100) = ''-100''" by code_simp+
  then have "on_draft_requested demo_bridge demo_d1 demo_earned = (d', es, Inr None)"
    using w demo_chat by (simp add: on_draft_requested_def demo_earned_def request_draft_def demo_bridge_def did_def)
  then show ?thesis by blast
qed


end
