(* ===== verification/LiveProps.thy ===== *)
theory LiveProps
  imports LiveCards "HOL-Library.Multiset"
begin

text \<open>
  The properties of the live cards and of the context that waits for an agent's turn: how many
  refreshes a card has, when they end, and to whom what was queued is handed, once.
\<close>

section \<open>Refresh jobs\<close>

text \<open>What is done to the jobs of a bot with a job queue; a tick may end after its job was removed.\<close>

datatype registry_op = Start_refresh string | Stop_refresh "nat option" string | Tick_done string bool

fun registry_step :: "registry_op \<Rightarrow> registry \<Rightarrow> registry" where
  "registry_step (Start_refresh key) rg = start_refresh key rg"
| "registry_step (Stop_refresh cur key) rg = stop_refresh cur key rg"
| "registry_step (Tick_done key keep) rg = job_ticked key keep rg"

definition registry_after :: "registry_op list \<Rightarrow> registry" where
  "registry_after ops = fold registry_step ops (new_registry True)"

definition runners :: "string \<Rightarrow> registry \<Rightarrow> runner list" where
  "runners key rg = filter (\<lambda>r. rn_key r = key) (rg_running rg)"

text \<open>Each entry of \<open>_jobs\<close> is a job that runs, each running job has its entry, and no task is there.\<close>

definition registry_ok :: "registry \<Rightarrow> bool" where
  "registry_ok rg \<longleftrightarrow> rg_queue rg \<and> (\<forall>key. rg_tasks rg key = None)
     \<and> distinct (map rn_id (rg_running rg)) \<and> (\<forall>r \<in> set (rg_running rg). rn_id r < rg_next rg)
     \<and> (\<forall>key. map rn_id (runners key rg) = (case rg_jobs rg key of None \<Rightarrow> [] | Some n \<Rightarrow> [n]))"

lemma registry_new: "registry_ok (new_registry True)"
  by (simp add: registry_ok_def new_registry_def runners_def)

lemma registry_start: "registry_ok rg \<Longrightarrow> registry_ok (start_refresh key rg)"
  by (auto simp: registry_ok_def start_refresh_def is_refreshing_def runners_def Let_def less_Suc_eq)

lemma registry_stop:
  assumes "registry_ok rg"
  shows "registry_ok (stop_refresh cur key rg)"
proof (cases "rg_jobs rg key")
  case None
  then have "stop_refresh cur key rg = rg\<lparr>rg_jobs := (rg_jobs rg)(key := None), rg_tasks := (rg_tasks rg)(key := None)\<rparr>"
    using assms by (simp add: stop_refresh_def registry_ok_def)
  then show ?thesis using assms None by (auto simp: registry_ok_def runners_def)
next
  case (Some n)
  let ?left = "filter (\<lambda>r. rn_id r \<noteq> n) (rg_running rg)"
  have s: "stop_refresh cur key rg = rg\<lparr>rg_jobs := (rg_jobs rg)(key := None), rg_tasks := (rg_tasks rg)(key := None), rg_running := ?left\<rparr>"
    using assms Some by (simp add: stop_refresh_def registry_ok_def)
  have own: "map rn_id (runners k rg) = (case rg_jobs rg k of None \<Rightarrow> [] | Some m \<Rightarrow> [m])" for k
    using assms by (simp add: registry_ok_def)
  have left: "map rn_id (filter (\<lambda>r. rn_key r = k) ?left) = filter (\<lambda>m. m \<noteq> n) (map rn_id (runners k rg))" for k
    by (simp add: runners_def filter_map comp_def conj_commute)
  have at: "r \<in> set (rg_running rg) \<and> rn_key r = k \<and> rn_id r = m" if "runners k rg = [r]" "rg_jobs rg k = Some m" for k r m
  proof -
    have "r \<in> set (runners k rg)" using that(1) by simp
    moreover have "rn_id r = m" using own [of k] that by simp
    ultimately show ?thesis by (auto simp: runners_def)
  qed
  have other: "m \<noteq> n" if k: "k \<noteq> key" "rg_jobs rg k = Some m" for k m
  proof -
    obtain r r' where r: "runners k rg = [r]" "runners key rg = [r']"
      using own [of k] own [of key] k(2) Some by auto
    have d: "distinct (map rn_id (rg_running rg))" using assms by (simp add: registry_ok_def)
    show ?thesis
      using at [OF r(1) k(2)] at [OF r(2) Some] k(1) d by (auto simp: distinct_map dest: inj_onD)
  qed
  have "map rn_id (filter (\<lambda>r. rn_key r = k) ?left) = (case ((rg_jobs rg)(key := None)) k of None \<Rightarrow> [] | Some m \<Rightarrow> [m])" for k
    unfolding left own using Some other by (auto split: option.split)
  then show ?thesis
    using assms unfolding s registry_ok_def runners_def by (simp add: distinct_map inj_on_def)
qed

lemma registry_ticked: "registry_ok rg \<Longrightarrow> registry_ok (job_ticked key keep rg)"
  by (simp add: job_ticked_def registry_stop)

lemma registry_after_ok: "registry_ok (registry_after ops)"
proof -
  have "registry_ok rg \<Longrightarrow> registry_ok (fold registry_step ops rg)" for rg
  proof (induction ops arbitrary: rg)
    case (Cons x ops)
    then show ?case by (cases x) (simp_all add: registry_start registry_stop registry_ticked)
  qed simp
  then show ?thesis using registry_new by (simp add: registry_after_def)
qed


section \<open>The end of a refresh\<close>

text \<open>The job of a card until it is removed; the calls it makes, and what is left.\<close>

fun refresh_run ::
  "'m digest \<Rightarrow> (proposal_view \<Rightarrow> (string \<times> 'm) result) \<Rightarrow> int \<Rightarrow> string \<Rightarrow> (time \<times> proposal_view option result \<times> reply) list
     \<Rightarrow> live \<times> registry \<Rightarrow> 'm call list \<times> live \<times> registry" where
  "refresh_run digest render chat pid [] s = ([], s)"
| "refresh_run digest render chat pid (i # is) s =
     (if is_refreshing (card_key chat pid) (snd s)
      then (case refresh_tick digest render chat pid i s of (call, s1) \<Rightarrow>
        (case refresh_run digest render chat pid is s1 of (calls, s2) \<Rightarrow> ((case call of None \<Rightarrow> [] | Some c \<Rightarrow> [c]) @ calls, s2)))
      else ([], s))"

lemma run_Cons:
  "snd (refresh_run digest render chat pid (i # is) s) = (if is_refreshing (card_key chat pid) (snd s)
     then snd (refresh_run digest render chat pid is (snd (refresh_tick digest render chat pid i s))) else s)"
  by (simp split: prod.split)

lemma stop_stops [simp]: "\<not> is_refreshing key (stop_refresh cur key rg)"
  by (simp add: is_refreshing_def stop_refresh_def Let_def)

lemma refresh_tick_goes_on:
  "is_refreshing (card_key chat pid) (snd s) \<Longrightarrow>
     is_refreshing (card_key chat pid) (snd (snd (refresh_tick digest render chat pid i s)))
       = safe_tick (fst (watch_tick digest render chat (fst i) (fst (snd i)) (snd (snd i)) (fst s)))"
  by (cases i; cases s) (auto simp: refresh_tick_def job_ticked_def split: prod.split)

text \<open>A read of a vote that goes on, or one that fails, and an edit that does not find the message gone.\<close>

fun goes_on :: "time \<times> proposal_view option result \<times> reply \<Rightarrow> bool" where
  "goes_on (now, Inl e, reply) = True"
| "goes_on (now, Inr None, reply) = False"
| "goes_on (now, Inr (Some v), reply) =
     (still_voting now v \<and> (case reply of R_bad_request m \<Rightarrow> is_not_modified m \<or> \<not> is_gone m | _ \<Rightarrow> True))"

lemma refresh_not_gone:
  assumes "fst (cards_refresh digest render chat v reply lv) = Inr Card_gone"
  shows "\<exists>m. reply = R_bad_request m \<and> is_gone m \<and> \<not> is_not_modified m"
  using assms
  by (auto simp: cards_refresh_def live_edit_def Let_def split: prod.splits option.splits sum.splits reply.splits if_splits)

lemma tick_goes_on:
  assumes "goes_on i"
  shows "safe_tick (fst (watch_tick digest render chat (fst i) (fst (snd i)) (snd (snd i)) lv))"
proof (cases i rule: goes_on.cases)
  case (3 now v reply)
  obtain res call lv1 where r: "cards_refresh digest render chat v reply lv = (res, call, lv1)" by (metis surj_pair)
  then have "res \<noteq> Inr Card_gone" using refresh_not_gone [of digest render chat v reply lv] assms 3 by auto
  then show ?thesis using assms 3 r by (auto simp: watch_tick_def split: sum.split edit_result.split)
qed (use assms in \<open>auto simp: watch_tick_def\<close>)

lemma run_goes_on:
  "list_all goes_on is \<Longrightarrow> is_refreshing (card_key chat pid) (snd s) \<Longrightarrow>
     is_refreshing (card_key chat pid) (snd (snd (refresh_run digest render chat pid is s)))"
proof (induction "is" arbitrary: s)
  case (Cons i "is")
  then show ?case
    using refresh_tick_goes_on [of chat pid s digest render i] tick_goes_on [of i digest render chat "fst s"]
    by (simp add: run_Cons del: refresh_run.simps(2))
qed simp

lemma run_stopped: "\<not> is_refreshing (card_key chat pid) (snd s) \<Longrightarrow> refresh_run digest render chat pid is s = ([], s)"
  by (cases "is") simp_all

lemma run_append:
  "snd (refresh_run digest render chat pid (is @ js) s)
     = snd (refresh_run digest render chat pid js (snd (refresh_run digest render chat pid is s)))"
proof (induction "is" arbitrary: s)
  case (Cons i "is")
  show ?case
  proof (cases "is_refreshing (card_key chat pid) (snd s)")
    case True
    then show ?thesis using Cons.IH by (simp add: run_Cons del: refresh_run.simps(2))
  next
    case False
    then show ?thesis by (simp add: run_stopped)
  qed
qed simp

lemma final_tick:
  assumes "\<not> still_voting now v" and "render v = Inr x"
  shows "\<not> is_refreshing (card_key chat pid) (snd (snd (refresh_run digest render chat pid [(now, Inr (Some v), reply)] s)))"
proof -
  obtain res call lv1 where r: "cards_refresh digest render chat v reply (fst s) = (res, call, lv1)" by (metis surj_pair)
  have "\<exists>y. res = Inr y"
    using r assms(2) by (auto simp: cards_refresh_def split: prod.splits option.splits)
  then have "\<not> safe_tick (fst (watch_tick digest render chat now (Inr (Some v)) reply (fst s)))"
    using assms(1) r by (auto simp: watch_tick_def split: edit_result.splits)
  then show ?thesis
    using refresh_tick_goes_on [of chat pid s digest render "(now, Inr (Some v), reply)"]
    by (simp add: run_Cons del: refresh_run.simps(2))
qed


definition demo_view :: "pstatus \<Rightarrow> proposal_view" where
  "demo_view q = \<lparr>pv_id = ''p-1'', pv_governor = [], pv_proposer = [], pv_thesis = [], pv_legs = [], pv_max_capital = 1,
     pv_max_drawdown_bps = 0, pv_bond_wood = 0, pv_status = q, pv_backers = [], pv_objectors = [], pv_idea_by = None,
     pv_card_message_id = Some 4, pv_voting_ends_at = Some 500, pv_against_bps = 0, pv_threshold_bps = 2000,
     pv_image_url = None, pv_capital_symbol = [], pv_onchain_id = Some 4, pv_review_ends_at = None,
     pv_guardian_coverage = [], pv_bond_buffer_status = [], pv_bond_buffer_note = []\<rparr>"

definition demo_render :: "proposal_view \<Rightarrow> (string \<times> unit) result" where
  "demo_render v = Inr (if pv_status v = Voting then ''voting'' else ''over'', ())"

definition demo_live :: "live \<times> registry" where
  "demo_live = (new_live, watch 5 ''p-1'' (Some (demo_view Voting)) (new_registry True))"


section \<open>Context for a turn\<close>

datatype context_op = Queue_context time string "string list" fund_context | Take_context time string string

fun context_step :: "context_op \<Rightarrow> fund_context list \<times> chat_entry list \<Rightarrow> fund_context list \<times> chat_entry list" where
  "context_step (Queue_context now chat senders t) (taken, q) = (taken, queue_chat_context now chat senders t q)"
| "context_step (Take_context now chat sender) (taken, q) =
     (case take_chat_context now chat sender q of (texts, q') \<Rightarrow> (taken @ texts, q'))"

text \<open>All that was handed over in a run, and the queue it leaves.\<close>

definition context_run :: "context_op list \<Rightarrow> fund_context list \<times> chat_entry list" where
  "context_run ops = fold context_step ops ([], [])"

definition queued_texts :: "context_op list \<Rightarrow> fund_context list" where
  "queued_texts ops = concat (map (\<lambda>op. case op of Queue_context now chat senders t \<Rightarrow> [t] | _ \<Rightarrow> []) ops)"

text \<open>The entry an operation adds\<close>

definition entry_of :: "context_op \<Rightarrow> chat_entry list" where
  "entry_of op = (case op of
     Queue_context now chat senders t \<Rightarrow>
       if chat = [] then [] else [\<lparr>ce_created = now, ce_chat = chat, ce_senders = filter (\<lambda>s. s \<noteq> []) senders, ce_text = t\<rparr>]
   | _ \<Rightarrow> [])"

definition fit_for :: "time \<Rightarrow> string \<Rightarrow> string \<Rightarrow> fund_context \<Rightarrow> context_op \<Rightarrow> bool" where
  "fit_for now chat sender t op = (case op of
     Queue_context t0 c senders x \<Rightarrow> x = t \<and> c = chat \<and> now - t0 \<le> CONTEXT_TTL_S
       \<and> (list_all (\<lambda>s. s = []) senders \<or> sender \<in> set senders)
   | _ \<Rightarrow> False)"

lemma mset_last_of: "mset (last_of n xs) \<subseteq># mset xs"
proof -
  have "mset (drop k xs) \<subseteq># mset xs" for k
    by (metis append_take_drop_id mset_append mset_subset_eq_add_right)
  then show ?thesis by (simp add: last_of_def)
qed

lemma context_snoc: "context_run (ops @ [op]) = context_step op (context_run ops)"
  by (simp add: context_run_def)

lemma context_entries: "e \<in> set (snd (context_run ops)) \<Longrightarrow> \<exists>op \<in> set ops. e \<in> set (entry_of op)"
proof (induction ops rule: rev_induct)
  case (snoc op ops)
  obtain taken q where r: "context_run ops = (taken, q)" by (metis surj_pair)
  have "e \<in> set q \<or> e \<in> set (entry_of op)"
  proof (cases op)
    case (Queue_context now chat senders t)
    then show ?thesis
      using snoc.prems r set_mset_mono [OF mset_last_of, of 50]
      by (fastforce simp: context_snoc queue_chat_context_def entry_of_def split: if_splits)
  next
    case (Take_context now chat sender)
    then show ?thesis using snoc.prems r by (auto simp: context_snoc take_chat_context_def Let_def)
  qed
  then show ?case using snoc.IH r by auto
qed (simp add: context_run_def)

lemma mset_parts:
  "mset (map f (filter P (filter L xs))) + mset (map f (filter (\<lambda>x. \<not> P x) (filter L xs))) \<subseteq># mset (map f xs)"
proof -
  have "mset (map f (filter P ys)) + mset (map f (filter (\<lambda>x. \<not> P x) ys)) = mset (map f ys)" for ys
    by (induction ys) auto
  then have "mset (map f (filter P (filter L xs))) + mset (map f (filter (\<lambda>x. \<not> P x) (filter L xs))) = mset (map f (filter L xs))" .
  also have "\<dots> \<subseteq># mset (map f xs)" by (simp add: image_mset_subseteq_mono)
  finally show ?thesis .
qed

lemma context_counts: "mset (fst (context_run ops)) + mset (map ce_text (snd (context_run ops))) \<subseteq># mset (queued_texts ops)"
proof (induction ops rule: rev_induct)
  case (snoc op ops)
  obtain taken q where r: "context_run ops = (taken, q)" by (metis surj_pair)
  have IH: "mset taken + mset (map ce_text q) \<subseteq># mset (queued_texts ops)" using snoc r by simp
  show ?case
  proof (cases op)
    case (Queue_context now chat senders t)
    let ?e = "\<lparr>ce_created = now, ce_chat = chat, ce_senders = filter (\<lambda>s. s \<noteq> []) senders, ce_text = t\<rparr>"
    have "mset (map ce_text (last_of 50 (q @ [?e]))) \<subseteq># mset (map ce_text (q @ [?e]))"
      by (simp only: mset_map image_mset_subseteq_mono [OF mset_last_of])
    moreover have "mset (map ce_text (q @ [?e])) = add_mset t (mset (map ce_text q))" by simp
    moreover have "mset (map ce_text q) \<subseteq># add_mset t (mset (map ce_text q))"
      by (metis add_mset_add_single mset_subset_eq_add_left)
    ultimately have new: "mset (map ce_text (queue_chat_context now chat senders t q)) \<subseteq># add_mset t (mset (map ce_text q))"
      by (cases "chat = []") (simp_all only: queue_chat_context_def if_True if_False simp_thms)
    have "mset taken + add_mset t (mset (map ce_text q)) \<subseteq># add_mset t (mset (queued_texts ops))"
      using IH by simp
    then have "mset taken + mset (map ce_text (queue_chat_context now chat senders t q)) \<subseteq># add_mset t (mset (queued_texts ops))"
      using new by (meson subset_mset.add_left_mono subset_mset.trans)
    then show ?thesis using r Queue_context by (simp add: context_snoc queued_texts_def)
  next
    case (Take_context now chat sender)
    have "mset (map ce_text (filter (meant_for chat sender) live)) + mset (map ce_text (filter (\<lambda>e. \<not> meant_for chat sender e) live))
        \<subseteq># mset (map ce_text q)" if "live = filter (\<lambda>e. now - ce_created e \<le> CONTEXT_TTL_S) q" for live
      unfolding that by (rule mset_parts)
    then have "mset taken + (mset (fst (take_chat_context now chat sender q)) + mset (map ce_text (snd (take_chat_context now chat sender q))))
        \<subseteq># mset (queued_texts ops)"
      using IH unfolding take_chat_context_def Let_def fst_conv snd_conv by (meson subset_mset.add_left_mono subset_mset.trans)
    then show ?thesis using r Take_context by (auto simp: context_snoc queued_texts_def add.assoc split: prod.split)
  qed
qed (simp add: context_run_def)

text \<open>
  What is queued for a turn is handed over at most once, however queuing and turns interleave,
  and a turn is handed only what was queued before it for its chat, at most fifteen minutes ago, and
  for its sender when it was queued for somebody.
\<close>

theorem context_delivered_once:
  "mset (fst (context_run ops)) \<subseteq># mset (queued_texts ops)
    \<and> list_all (\<lambda>t. list_ex (fit_for now chat sender t) ops) (fst (take_chat_context now chat sender (snd (context_run ops))))"
proof
  show "mset (fst (context_run ops)) \<subseteq># mset (queued_texts ops)"
    using context_counts [of ops] by (meson mset_subset_eq_add_left subset_mset.trans)
  have "list_ex (fit_for now chat sender (ce_text e)) ops"
    if e: "e \<in> set (snd (context_run ops))" "now - ce_created e \<le> CONTEXT_TTL_S" "meant_for chat sender e" for e
  proof -
    obtain op where op: "op \<in> set ops" "e \<in> set (entry_of op)" using context_entries [OF e(1)] by blast
    then have "fit_for now chat sender (ce_text e) op"
      using e(2,3)
      by (auto simp: entry_of_def fit_for_def meant_for_def list_all_iff filter_empty_conv split: context_op.splits if_splits)
    then show ?thesis using op(1) by (auto simp: list_ex_iff)
  qed
  then show "list_all (\<lambda>t. list_ex (fit_for now chat sender t) ops)
      (fst (take_chat_context now chat sender (snd (context_run ops))))"
    by (auto simp: list_all_iff take_chat_context_def Let_def)
qed

end
