(* ===== verification/TelegramFindings.thy ===== *)
theory TelegramFindings
  imports LiveProps
begin

text \<open>
  What modelling showed of the Telegram side: behaviours that differ from what the documentation
  next to the code says.
\<close>

section \<open>Signing links\<close>

text \<open>
  \<open>host_signing_url\<close> prepares a draft that is no portfolio without a strategy and without metadata,
  so something is always missing, and the host gets no link to co-sign it.
\<close>

lemma no_signing_link_without_portfolio:
  assumes "bridge_load d name = Inr (Some st)" and "proposal_of st draft = Some p" and "\<not> is_portfolio p"
  shows "host_signing_url bx now d name draft tg \<noteq> Inr (Some url)"
proof -
  have m: "propose_missing (st_fund st) p [] [] \<noteq> []" by (simp add: propose_missing_def)
  then have "\<not> py_ready prep" if "host_prepare bx (st_fund st) p = Inr prep" for prep
    using that assms(3) by (auto simp: host_prepare_def propose_payload_def Let_def make_payload_def)
  then show ?thesis using assms(1,2) by (auto simp: host_signing_url_def and_then_Inr_iff split: if_splits)
qed

section \<open>The final edit\<close>

text \<open>
  The documentation promises one final edit when the window closes. A tick after the vote whose edit
  is refused by the rate limit ends the refresh all the same, and the card keeps showing the vote.
\<close>

lemma final_edit_lost:
  "let (calls, lv, rg) = refresh_run (\<lambda>t m i. t) demo_render 5 ''p-1''
      [(300, Inr (Some (demo_view Voting)), R_ok), (420, Inr (Some (demo_view Vetoed)), R_retry_after),
       (480, Inr (Some (demo_view Vetoed)), R_ok)] demo_live
   in length calls = 2 \<and> lc_last lv (5, 4) = Some ''voting'' \<and> \<not> is_refreshing (card_key 5 ''p-1'') rg"
  by code_simp

section \<open>A new image\<close>

text \<open>
  The reference of a card keeps the image it was made with. After one edit to another image, every
  later edit sends the media again, although only the caption changes.
\<close>

lemma image_kept_in_the_reference:
  assumes "lc_refs lv (card_key chat (pv_id v)) = Some r" and "pv_image_url v = Some img"
    and "img \<noteq> []" and "cr_image_url r \<noteq> Some img"
  shows "lc_refs (snd (snd (cards_refresh digest render chat v reply lv))) (card_key chat (pv_id v)) = Some r
    \<and> (\<exists>c. edit_call r t markup (pv_image_url v) = Edit_media r img c markup)"
proof -
  have "lc_refs (snd (snd (live_edit digest r t m i reply lv))) = lc_refs lv" for t m i
    by (simp add: live_edit_def Let_def split: reply.split option.split)
  then show ?thesis
    using assms
    by (auto simp: cards_refresh_def ref_for_def Let_def edit_call_def has_image_def split: prod.split sum.split)
      (metis snd_conv)
qed

end
