(* ===== verification/Floats.thy ===== *)
theory Floats
  imports Json "HOL-Library.Log_Nat"
begin

text \<open>
  Python's \<open>float\<close> as the monitor uses it: an IEEE double is an exact rational, an infinity or
  not-a-number; every operation rounds its exact result to the nearest double (ties to even).
  The sign of a zero is not kept: no code here divides by a zero or prints one. The lemmas bound
  the error of a rounding, so that a comparison of rounded values says something of the exact ones.
\<close>

datatype pyfloat = Fl rat | Inf_fl bool | NaN_fl

section \<open>Rounding\<close>

text \<open>The binary exponent of a positive number\<close>

definition exp2_of :: "rat \<Rightarrow> int" where
  "exp2_of x = (case quotient_of x of (p, q) \<Rightarrow> let e = bitlen p - bitlen q in
     if of_int p < (of_int q :: rat) * 2 powi e then e - 1 else e)"

definition round_even :: "rat \<Rightarrow> int" where
  "round_even x = (let f = \<lfloor>x\<rfloor>; d = x - of_int f in
     if d < 1 / 2 \<or> (d = 1 / 2 \<and> even f) then f else f + 1)"

text \<open>The distance of two doubles around \<open>x\<close>: 53 bits, and the subnormals below \<open>2 powi -1022\<close>\<close>

definition ulp_of :: "rat \<Rightarrow> rat" where
  "ulp_of x = 2 powi (max (exp2_of \<bar>x\<bar> - 52) (- 1074))"

definition rnd_val :: "rat \<Rightarrow> rat" where
  "rnd_val x = (if x = 0 then 0 else of_int (round_even (x / ulp_of x)) * ulp_of x)"

text \<open>Only a number of the two top binary orders can round past the largest double.\<close>

definition rnd :: "rat \<Rightarrow> pyfloat" where
  "rnd x = (let y = rnd_val x in
     if exp2_of \<bar>x\<bar> < 1023 then Fl y
     else if \<bar>y\<bar> \<ge> 2 ^ 1024 then Inf_fl (x < 0) else Fl y)"

lemma round_even_error: "\<bar>of_int (round_even x) - x\<bar> \<le> 1 / 2"
proof -
  define d where "d = x - of_int \<lfloor>x\<rfloor>"
  have d: "0 \<le> d \<and> d < 1"
    using floor_correct [of x] unfolding d_def of_int_add of_int_1 by linarith
  have x: "x = of_int \<lfloor>x\<rfloor> + d" by (simp add: d_def)
  show ?thesis
    unfolding round_even_def Let_def d_def [symmetric] using d x by (auto simp: abs_if)
qed

lemma round_even_int [simp]: "round_even (of_int n) = n"
  by (simp add: round_even_def)

lemma exp2_of_bounds:
  assumes "x > 0"
  shows "2 powi (exp2_of x) \<le> x \<and> x < 2 powi (exp2_of x + 1)"
proof -
  obtain p q where pq: "quotient_of x = (p, q)" by fastforce
  have q: "q > 0" using quotient_of_denom_pos [OF pq] .
  have x: "x = of_int p / of_int q" using quotient_of_div [OF pq] .
  have p: "p > 0" using assms q by (simp add: x zero_less_divide_iff)
  have conv: "(of_int r :: rat) < 2 powi (bitlen r) \<and> 2 powi (bitlen r - 1) \<le> (of_int r :: rat)"
    if "r > 0" for r
  proof -
    have "bitlen r > 0" using that bitlen_nonneg [of r] bitlen_eq_zero_iff [of r] by linarith
    moreover have "2 ^ nat (bitlen r - 1) \<le> r" "r < 2 ^ nat (bitlen r)"
      using bitlen_bounds [OF that] by auto
    then have "(2 ^ nat (bitlen r - 1) :: rat) \<le> of_int r" "(of_int r :: rat) < 2 ^ nat (bitlen r)"
      by (metis of_int_le_iff of_int_numeral of_int_power, metis of_int_less_iff of_int_numeral of_int_power)
    ultimately show ?thesis by (simp add: power_int_def)
  qed
  define e where "e = bitlen p - bitlen q"
  have up: "(of_int p :: rat) < of_int q * 2 powi (e + 1)"
  proof -
    have "(of_int p :: rat) < 2 powi (bitlen p)" using conv [OF p] by simp
    also have "\<dots> = 2 powi (bitlen q - 1) * 2 powi (e + 1)"
      unfolding e_def by (simp flip: power_int_add)
    also have "\<dots> \<le> of_int q * 2 powi (e + 1)"
      using conv [OF q] by (intro mult_right_mono) simp_all
    finally show ?thesis .
  qed
  have low: "of_int q * 2 powi (e - 1) \<le> (of_int p :: rat)"
  proof -
    have "of_int q * 2 powi (e - 1) \<le> (2 powi (bitlen q) * 2 powi (e - 1) :: rat)"
      using conv [OF q] by (intro mult_right_mono) simp_all
    also have "\<dots> = 2 powi (bitlen p - 1)"
      unfolding e_def by (simp flip: power_int_add)
    also have "\<dots> \<le> of_int p" using conv [OF p] by simp
    finally show ?thesis .
  qed
  have "exp2_of x = (if of_int p < (of_int q :: rat) * 2 powi e then e - 1 else e)"
    by (simp add: exp2_of_def pq e_def)
  then show ?thesis using up low q by (auto simp: x field_simps)
qed

lemma ulp_of_pos [simp]: "ulp_of x > 0" "ulp_of x \<noteq> 0"
  by (simp_all add: ulp_of_def)

lemma ulp_of_le:
  assumes "x \<noteq> 0"
  shows "ulp_of x \<le> \<bar>x\<bar> * 2 powi (- 52) + 2 powi (- 1074)"
proof (cases "exp2_of \<bar>x\<bar> - 52 \<ge> - 1074")
  case True
  then have "max (exp2_of \<bar>x\<bar> - 52) (- 1074) = exp2_of \<bar>x\<bar> + (- 52)" by linarith
  then have "ulp_of x = 2 powi (exp2_of \<bar>x\<bar>) * 2 powi (- 52)"
    unfolding ulp_of_def by (metis power_int_add zero_neq_numeral)
  also have "\<dots> \<le> \<bar>x\<bar> * 2 powi (- 52)"
    using exp2_of_bounds [of "\<bar>x\<bar>"] assms by (intro mult_right_mono) simp_all
  finally show ?thesis by (simp add: add_increasing2)
next
  case False
  then have "ulp_of x = 2 powi (- 1074)" by (simp add: ulp_of_def max_def)
  then show ?thesis by simp
qed

text \<open>The error of one rounding: half a unit in the last place\<close>

lemma rnd_val_error: "\<bar>rnd_val x - x\<bar> \<le> \<bar>x\<bar> * 2 powi (- 53) + 2 powi (- 1075)"
proof (cases "x = 0")
  case True
  then show ?thesis by (simp add: rnd_val_def)
next
  case False
  let ?u = "ulp_of x"
  have "rnd_val x - x = (of_int (round_even (x / ?u)) - x / ?u) * ?u"
    using False by (simp add: rnd_val_def left_diff_distrib)
  then have "\<bar>rnd_val x - x\<bar> = \<bar>of_int (round_even (x / ?u)) - x / ?u\<bar> * ?u"
    by (simp add: abs_mult abs_of_pos)
  also have "\<dots> \<le> 1 / 2 * ?u"
    using round_even_error by (intro mult_right_mono) (simp_all add: less_imp_le)
  also have "\<dots> \<le> 1 / 2 * (\<bar>x\<bar> * 2 powi (- 52) + 2 powi (- 1074))"
    using ulp_of_le [OF False] by simp
  also have "\<dots> = \<bar>x\<bar> * 2 powi (- 53) + 2 powi (- 1075)"
    by (simp add: power_int_def field_simps)
  finally show ?thesis .
qed

lemma round_even_nonneg: "0 \<le> x \<Longrightarrow> 0 \<le> round_even x"
  by (auto simp: round_even_def Let_def)

lemma round_even_nonpos: "x \<le> 0 \<Longrightarrow> round_even x \<le> 0"
proof -
  assume "x \<le> 0"
  then have "of_int (round_even x) < (1 :: rat)" using round_even_error [of x] by linarith
  then show ?thesis by simp
qed

lemma rnd_val_sign: "0 \<le> x \<Longrightarrow> 0 \<le> rnd_val x" "x \<le> 0 \<Longrightarrow> rnd_val x \<le> 0"
  by (auto simp: rnd_val_def less_imp_le intro!: mult_nonneg_nonneg mult_nonpos_nonneg
      round_even_nonneg round_even_nonpos divide_nonneg_nonneg divide_nonpos_nonneg)

lemma rnd_alt: "rnd x = (if \<bar>rnd_val x\<bar> \<ge> 2 ^ 1024 then Inf_fl (x < 0) else Fl (rnd_val x))"
proof (cases "exp2_of \<bar>x\<bar> < 1023")
  case True
  have "\<bar>x\<bar> \<le> 2 ^ 1023"
  proof (cases "x = 0")
    case False
    then have "\<bar>x\<bar> < 2 powi (exp2_of \<bar>x\<bar> + 1)" using exp2_of_bounds [of "\<bar>x\<bar>"] by simp
    also have "\<dots> \<le> 2 powi 1023" using True by (intro power_int_increasing) simp_all
    finally show ?thesis by (simp add: power_int_def)
  qed simp
  then have "\<bar>x\<bar> * 2 powi (- 53) + 2 powi (- 1075) \<le> 2 ^ 1023 * 2 powi (- 53) + 2 powi (- 1075)"
    by (intro add_mono mult_right_mono) simp_all
  moreover have "2 ^ 1023 + (2 ^ 1023 * 2 powi (- 53) + 2 powi (- 1075)) < (2 ^ 1024 :: rat)"
    by (simp add: power_int_def power_divide)
  ultimately have "\<bar>rnd_val x\<bar> < 2 ^ 1024"
    using rnd_val_error [of x] \<open>\<bar>x\<bar> \<le> 2 ^ 1023\<close> by linarith
  with True show ?thesis unfolding rnd_def Let_def by (simp only: if_True not_le [symmetric] if_False not_False_eq_True)
qed (simp add: rnd_def)

lemma rnd_eq_Fl: "\<bar>rnd_val x\<bar> < 2 ^ 1024 \<Longrightarrow> rnd x = Fl (rnd_val x)"
  by (simp add: rnd_alt)

section \<open>Arithmetic and comparison\<close>

text \<open>
  A comparison with not-a-number is false. Every division of the code is by a constant or behind
  a test that the divisor is positive, so the case of a zero divisor does not arise.
\<close>

fun fl_le :: "pyfloat \<Rightarrow> pyfloat \<Rightarrow> bool" where
  "fl_le NaN_fl _ = False"
| "fl_le _ NaN_fl = False"
| "fl_le (Fl a) (Fl b) = (a \<le> b)"
| "fl_le (Inf_fl s) (Inf_fl t) = (s \<or> \<not> t)"
| "fl_le (Inf_fl s) (Fl _) = s"
| "fl_le (Fl _) (Inf_fl t) = (\<not> t)"

fun fl_less :: "pyfloat \<Rightarrow> pyfloat \<Rightarrow> bool" where
  "fl_less NaN_fl _ = False"
| "fl_less _ NaN_fl = False"
| "fl_less (Fl a) (Fl b) = (a < b)"
| "fl_less (Inf_fl s) (Inf_fl t) = (s \<and> \<not> t)"
| "fl_less (Inf_fl s) (Fl _) = s"
| "fl_less (Fl _) (Inf_fl t) = (\<not> t)"

fun fl_neg :: "pyfloat \<Rightarrow> pyfloat" where
  "fl_neg (Fl a) = Fl (- a)"
| "fl_neg (Inf_fl s) = Inf_fl (\<not> s)"
| "fl_neg NaN_fl = NaN_fl"

fun fl_add :: "pyfloat \<Rightarrow> pyfloat \<Rightarrow> pyfloat" where
  "fl_add (Fl a) (Fl b) = rnd (a + b)"
| "fl_add (Inf_fl s) (Inf_fl t) = (if s = t then Inf_fl s else NaN_fl)"
| "fl_add (Inf_fl s) (Fl _) = Inf_fl s"
| "fl_add (Fl _) (Inf_fl t) = Inf_fl t"
| "fl_add _ _ = NaN_fl"

fun fl_mul :: "pyfloat \<Rightarrow> pyfloat \<Rightarrow> pyfloat" where
  "fl_mul (Fl a) (Fl b) = rnd (a * b)"
| "fl_mul (Inf_fl s) (Inf_fl t) = Inf_fl (s \<noteq> t)"
| "fl_mul (Inf_fl s) (Fl b) = (if b = 0 then NaN_fl else Inf_fl (s \<noteq> (b < 0)))"
| "fl_mul (Fl a) (Inf_fl t) = (if a = 0 then NaN_fl else Inf_fl (t \<noteq> (a < 0)))"
| "fl_mul _ _ = NaN_fl"

fun fl_div :: "pyfloat \<Rightarrow> pyfloat \<Rightarrow> pyfloat" where
  "fl_div (Fl a) (Fl b) = rnd (a / b)"
| "fl_div (Fl _) (Inf_fl _) = Fl 0"
| "fl_div (Inf_fl s) (Fl b) = Inf_fl (s \<noteq> (b < 0))"
| "fl_div _ _ = NaN_fl"

text \<open>Comparing with a rounded number is comparing with its value, an overflow included.\<close>

lemma fl_less_rnd: "\<bar>l\<bar> < 2 ^ 1024 \<Longrightarrow> fl_less (Fl l) (rnd x) \<longleftrightarrow> l < rnd_val x"
  using rnd_val_sign [of x] by (cases "x < 0") (auto simp: rnd_alt abs_if split: if_splits)

lemma fl_le_rnd: "\<bar>l\<bar> < 2 ^ 1024 \<Longrightarrow> fl_le (rnd x) (Fl l) \<longleftrightarrow> rnd_val x \<le> l"
  using rnd_val_sign [of x] by (cases "x < 0") (auto simp: rnd_alt abs_if split: if_splits)

text \<open>\<open>int(f)\<close>\<close>

fun fl_int :: "pyfloat \<Rightarrow> int result" where
  "fl_int (Fl a) = Inr (trunc a)"
| "fl_int (Inf_fl _) = Inl Overflow_error"
| "fl_int NaN_fl = Inl Value_error"

text \<open>\<open>round(f, 2)\<close>: correctly rounded to two decimal places, then to the nearest double\<close>

fun fl_round2 :: "pyfloat \<Rightarrow> pyfloat" where
  "fl_round2 (Fl a) = rnd (of_int (round_even (a * 100)) / 100)"
| "fl_round2 f = f"

section \<open>Conversions\<close>

text \<open>\<open>float(i)\<close>: an integer past the largest double raises.\<close>

definition fl_of_int :: "int \<Rightarrow> pyfloat result" where
  "fl_of_int i = (case rnd (of_int i) of Inf_fl _ \<Rightarrow> Inl Overflow_error | f \<Rightarrow> Inr f)"

text \<open>\<open>i / d\<close> of two integers is the correctly rounded quotient.\<close>

definition int_div :: "int \<Rightarrow> int \<Rightarrow> pyfloat result" where
  "int_div i d = (case rnd (of_int i / of_int d) of Inf_fl _ \<Rightarrow> Inl Overflow_error | f \<Rightarrow> Inr f)"

text \<open>\<open>float(text)\<close>\<close>

definition fl_text :: "string \<Rightarrow> pyfloat result" where
  "fl_text s = (case split_sign (strip s) of (neg, body) \<Rightarrow>
     if lower body = ''inf'' \<or> lower body = ''infinity'' then Inr (Inf_fl neg)
     else if lower body = ''nan'' then Inr NaN_fl
     else case float_text s of None \<Rightarrow> Inl Value_error | Some r \<Rightarrow> Inr (rnd r))"

text \<open>\<open>float(v)\<close> and \<open>int(v)\<close> of a JSON value, with the exception each raises\<close>

fun fl_json :: "json \<Rightarrow> pyfloat result" where
  "fl_json (JInt i) = fl_of_int i"
| "fl_json (JBool b) = Inr (Fl (of_bool b))"
| "fl_json (JNum r) = Inr (Fl r)"
| "fl_json (JStr s) = fl_text s"
| "fl_json _ = Inl Type_error"

fun int_json :: "json \<Rightarrow> int result" where
  "int_json (JInt i) = Inr i"
| "int_json (JBool b) = Inr (of_bool b)"
| "int_json (JNum r) = Inr (trunc r)"
| "int_json (JStr s) = (case py_int s of None \<Rightarrow> Inl Value_error | Some i \<Rightarrow> Inr i)"
| "int_json _ = Inl Type_error"

section \<open>Text\<close>

text \<open>\<open>format(n, ",")\<close> of a digit text: a comma before every group of three digits\<close>

fun group3 :: "string \<Rightarrow> string" where
  "group3 (a # b # c # d # r) = a # b # c # CHR '','' # group3 (d # r)"
| "group3 s = s"

definition commas :: "string \<Rightarrow> string" where
  "commas s = rev (group3 (rev s))"

definition pad_left :: "nat \<Rightarrow> string \<Rightarrow> string" where
  "pad_left n s = replicate (n - length s) CHR ''0'' @ s"

text \<open>\<open>format(f, ",.pf")\<close>, with a \<open>+\<close> of a non-negative number where the format asks for it\<close>

definition fixed_body :: "bool \<Rightarrow> nat \<Rightarrow> rat \<Rightarrow> string" where
  "fixed_body grouped p a = (let n = round_even (a * 10 ^ p); w = n div 10 ^ p; f = n mod 10 ^ p
     in (if grouped then commas (str_int w) else str_int w)
        @ (if p = 0 then [] else CHR ''.'' # pad_left p (str_int f)))"

definition fl_fixed :: "bool \<Rightarrow> bool \<Rightarrow> nat \<Rightarrow> pyfloat \<Rightarrow> string" where
  "fl_fixed pl grouped p f = (let sg = (\<lambda>neg. if neg then ''-'' else if pl then ''+'' else []) in
     case f of Fl a \<Rightarrow> sg (a < 0) @ fixed_body grouped p \<bar>a\<bar>
     | Inf_fl neg \<Rightarrow> sg neg @ ''inf''
     | NaN_fl \<Rightarrow> sg False @ ''nan'')"

end
