(* ===== verification/Pyrepr.thy ===== *)
theory Pyrepr
  imports Floats
begin

text \<open>
  The text Python gives a value: \<open>repr\<close> of a string (UTF-8 bytes; what is not ASCII is taken to be
  printable), the shortest decimal text that reads back as a float, and \<open>str\<close> and \<open>repr\<close> of a JSON value.
  An object is written in the order of its list.
\<close>

definition repr_hex :: "int \<Rightarrow> char" where
  "repr_hex n = (if n < 10 then char_of (48 + n) else char_of (87 + n))"

text \<open>\<open>repr(s)\<close>\<close>

definition repr_char :: "char \<Rightarrow> char \<Rightarrow> string" where
  "repr_char q c = (let n = code_of c in
     if c = q \<or> n = 92 then [char_of (92::nat), c]
     else if n = 10 then [char_of (92::nat), CHR ''n'']
     else if n = 13 then [char_of (92::nat), CHR ''r'']
     else if n = 9 then [char_of (92::nat), CHR ''t'']
     else if n < 32 \<or> n = 127
       then [char_of (92::nat), CHR ''x'', repr_hex (n div 16), repr_hex (n mod 16)]
     else [c])"

definition repr_str :: "string \<Rightarrow> string" where
  "repr_str s = (let q = (if char_of (39::nat) \<in> set s \<and> CHR 0x22 \<notin> set s
       then CHR 0x22 else char_of (39::nat))
     in q # concat (map (repr_char q) s) @ [q])"

section \<open>Floats\<close>

definition pow10 :: "int \<Rightarrow> rat" where
  "pow10 k = (if k \<ge> 0 then 10 ^ nat k else 1 / 10 ^ nat (- k))"

text \<open>The decimal exponent of a positive number: the least \<open>k\<close> with \<open>x < pow10 k\<close>\<close>

definition exp10_of :: "rat \<Rightarrow> int" where
  "exp10_of x = (case quotient_of x of (p, q) \<Rightarrow>
     let e = int (length (str_nat p)) - int (length (str_nat q)) in
     if x < pow10 e then e else e + 1)"

text \<open>
  The digits of the shortest decimal that rounds to the double \<open>x\<close>, the nearest one of that length:
  with \<open>n\<close> digits the candidates are the two neighbours of \<open>x\<close>. Seventeen digits always suffice.
\<close>

definition short_candidates :: "rat \<Rightarrow> nat \<Rightarrow> int list" where
  "short_candidates x n = (let u = pow10 (exp10_of x - int n); m = \<lfloor>x / u\<rfloor>
     in filter (\<lambda>m. rnd (of_int m * u) = Fl x) [m, m + 1])"

definition nearest_of :: "rat \<Rightarrow> int list \<Rightarrow> int" where
  "nearest_of y ms = (case ms of [a, b] \<Rightarrow> (if round_even y = a then a else b) | _ \<Rightarrow> hd ms)"

fun short_digits :: "rat \<Rightarrow> nat \<Rightarrow> nat \<Rightarrow> int \<times> int" where
  "short_digits x n 0 = (round_even (x / pow10 (exp10_of x - int n)), exp10_of x - int n)"
| "short_digits x n (Suc k) = (case short_candidates x n of
     [] \<Rightarrow> short_digits x (Suc n) k
   | ms \<Rightarrow> (nearest_of (x / pow10 (exp10_of x - int n)) ms, exp10_of x - int n))"

definition strip_zeros :: "string \<Rightarrow> string" where
  "strip_zeros s = (let r = rev (dropWhile (\<lambda>c. c = CHR ''0'') (rev s)) in if r = [] then ''0'' else r)"

text \<open>\<open>repr(f)\<close>: fixed notation for a decimal point within 16 digits, else an exponent\<close>

definition repr_pos :: "rat \<Rightarrow> string" where
  "repr_pos x = (case short_digits x 1 16 of (m, k) \<Rightarrow>
     let ds = strip_zeros (str_int m); pt = int (length (str_int m)) + k in
     if - 4 < pt \<and> pt \<le> 16
     then (if pt \<le> 0 then ''0.'' @ replicate (nat (- pt)) CHR ''0'' @ ds
           else if int (length ds) \<le> pt then ds @ replicate (nat pt - length ds) CHR ''0'' @ ''.0''
           else take (nat pt) ds @ ''.'' @ drop (nat pt) ds)
     else (case ds of [] \<Rightarrow> [] | c # r \<Rightarrow> [c] @ (if r = [] then [] else ''.'' @ r)
           @ ''e'' @ (if pt - 1 < 0 then ''-'' else ''+'') @ pad_left 2 (str_int \<bar>pt - 1\<bar>)))"

fun repr_float :: "pyfloat \<Rightarrow> string" where
  "repr_float (Fl x) = (if x = 0 then ''0.0'' else if x < 0 then ''-'' @ repr_pos (- x) else repr_pos x)"
| "repr_float (Inf_fl s) = (if s then ''-inf'' else ''inf'')"
| "repr_float NaN_fl = ''nan''"

section \<open>JSON values\<close>

lemma size_snd_less: "kv \<in> set kvs \<Longrightarrow> size (snd kv) < Suc (size_list (\<lambda>x. Suc (size (snd x))) kvs)"
  by (induction kvs) auto

function py_repr :: "json \<Rightarrow> string" where
  "py_repr JNull = ''None''"
| "py_repr (JBool b) = (if b then ''True'' else ''False'')"
| "py_repr (JInt i) = str_int i"
| "py_repr (JNum r) = repr_float (Fl r)"
| "py_repr (JStr s) = repr_str s"
| "py_repr (JList js) = ''['' @ join '', '' (map py_repr js) @ '']''"
| "py_repr (JObj kvs) = ''{'' @ join '', '' (map (\<lambda>kv. repr_str (fst kv) @ '': '' @ py_repr (snd kv)) kvs) @ ''}''"
  by pat_completeness auto
termination
  by (relation "measure size")
    (auto simp: size_list_estimation' less_Suc_eq_le intro: less_imp_le [OF size_snd_less])

text \<open>\<open>str(v)\<close>\<close>

definition str_json :: "json \<Rightarrow> string" where
  "str_json j = (case j of JStr s \<Rightarrow> s | _ \<Rightarrow> py_repr j)"

lemma str_json_str [simp]: "str_json (JStr s) = s"
  by (simp add: str_json_def)

end
