(* ===== verification/Events.thy ===== *)
theory Events
  imports Pyrepr
begin

text \<open>
  What the monitor does with one event of a stream: \<open>models.py\<close> decodes it, \<open>event_buffer.py\<close> keeps
  the blocks the agent's next turn will read (the newest 200), and \<open>handlers.py\<close> writes the block
  and, for some chain events, the summary that goes to the fund's chat. A summary's text is UTF-8.
  The lemmas show the ring buffer is a queue of the newest blocks and which decoding errors exist.
\<close>

section \<open>Records\<close>

record chain_event =
  ce_type :: string
  ce_block :: int
  ce_tx :: string
  ce_args :: "(json \<times> json) list"

record session_message =
  sm_id :: string
  sm_type :: string
  sm_text :: string
  sm_sent_at :: string
  sm_from :: string

datatype event_record = Chain_event chain_event | Session_message session_message

text \<open>The items a value yields when it is iterated\<close>

fun py_iter :: "json \<Rightarrow> json list result" where
  "py_iter (JList l) = Inr l"
| "py_iter (JStr s) = Inr (map (\<lambda>c. JStr [c]) s)"
| "py_iter (JObj kvs) = Inr (map (\<lambda>kv. JStr (fst kv)) kvs)"
| "py_iter _ = Inl Type_error"

text \<open>
  \<open>dict(v)\<close>: of an object a copy, of anything else a dict of the pairs it yields. Equal numbers
  are one key; a list or an object is none.
\<close>

fun key_norm :: "json \<Rightarrow> json" where
  "key_norm (JBool b) = JInt (of_bool b)"
| "key_norm (JNum r) = (if r = of_int \<lfloor>r\<rfloor> then JInt \<lfloor>r\<rfloor> else JNum r)"
| "key_norm j = j"

fun hashable :: "json \<Rightarrow> bool" where
  "hashable (JList _) = False"
| "hashable (JObj _) = False"
| "hashable _ = True"

fun dict_put :: "json \<Rightarrow> json \<Rightarrow> (json \<times> json) list \<Rightarrow> (json \<times> json) list" where
  "dict_put k v [] = [(k, v)]"
| "dict_put k v ((k', v') # r) = (if key_norm k' = key_norm k then (k', v) # r else (k', v') # dict_put k v r)"

definition pair_of :: "json \<Rightarrow> (json \<times> json) result" where
  "pair_of j = and_then (py_iter j) (\<lambda>xs. case xs of
     [k, v] \<Rightarrow> if hashable k then Inr (k, v) else Inl Type_error
   | _ \<Rightarrow> Inl Value_error)"

fun py_dict :: "json \<Rightarrow> (json \<times> json) list result" where
  "py_dict (JObj kvs) = Inr (map (\<lambda>kv. (JStr (fst kv), snd kv)) kvs)"
| "py_dict j = and_then (py_iter j) (\<lambda>xs. and_then (mapM pair_of xs)
     (\<lambda>ps. Inr (foldl (\<lambda>d p. dict_put (fst p) (snd p) d) [] ps)))"

text \<open>\<open>raw.get(k, d)\<close> of a decoded object\<close>

definition key_or :: "(string \<times> json) list \<Rightarrow> string \<Rightarrow> json \<Rightarrow> json" where
  "key_or o' k d = (case map_of o' k of None \<Rightarrow> d | Some v \<Rightarrow> v)"

definition decode_record :: "json \<Rightarrow> event_record result" where
  "decode_record raw = (case raw of
     JObj o' \<Rightarrow>
       if key_or o' ''source'' JNull = JStr ''chain''
       then and_then (int_json (key_or o' ''block'' (JInt 0))) (\<lambda>block.
         and_then (py_dict (key_or o' ''args'' (JObj []))) (\<lambda>args.
         Inr (Chain_event \<lparr>ce_type = str_json (key_or o' ''type'' (JStr [])), ce_block = block,
           ce_tx = str_json (key_or o' ''tx'' (JStr [])), ce_args = args\<rparr>)))
       else if key_or o' ''source'' JNull = JStr ''xmtp''
       then Inr (Session_message \<lparr>sm_id = str_json (key_or o' ''id'' (JStr [])),
         sm_type = str_json (key_or o' ''type'' (JStr [])), sm_text = str_json (key_or o' ''text'' (JStr [])),
         sm_sent_at = str_json (key_or o' ''sentAt'' (JStr [])), sm_from = str_json (key_or o' ''from'' (JStr []))\<rparr>)
       else Inl Value_error
   | _ \<Rightarrow> Inl Value_error)"

section \<open>The ring buffer\<close>

definition DEFAULT_MAX :: nat where "DEFAULT_MAX = 200"

text \<open>\<open>deque(maxlen=n)\<close>: appending to a full one drops its oldest item.\<close>

definition ring_push :: "nat \<Rightarrow> string list \<Rightarrow> string \<Rightarrow> string list" where
  "ring_push n q x = (let q' = q @ [x] in if length q' > n then tl q' else q')"

definition buf_push :: "string list \<Rightarrow> string \<Rightarrow> string list" where
  "buf_push = ring_push DEFAULT_MAX"

definition buf_drain :: "string list \<Rightarrow> string list \<times> string list" where
  "buf_drain q = (q, [])"

definition lastn :: "nat \<Rightarrow> 'a list \<Rightarrow> 'a list" where
  "lastn n xs = drop (length xs - n) xs"

lemma lastn_simps [simp]: "lastn n [] = []" "length (lastn n xs) = min n (length xs)"
  by (simp_all add: lastn_def)

lemma lastn_short [simp]: "length xs \<le> n \<Longrightarrow> lastn n xs = xs"
  by (simp add: lastn_def)

lemma lastn_append: "lastn n (lastn n xs @ ys) = lastn n (xs @ ys)"
proof (cases "length xs \<le> n")
  case False
  then have "lastn n (xs @ ys) = drop (length ys + (length xs - n)) (xs @ ys)" by (simp add: lastn_def add.commute)
  also have "\<dots> = drop (length ys) (lastn n xs @ ys)"
    by (simp add: lastn_def drop_drop [symmetric] del: drop_drop)
  also have "\<dots> = lastn n (lastn n xs @ ys)"
    unfolding lastn_def [of n "lastn n xs @ ys"] using False by simp
  finally show ?thesis ..
qed simp

text \<open>What the streams and the hooks rely on: a queue that keeps the newest items it was given.\<close>

locale newest_queue =
  fixes push :: "'q \<Rightarrow> 'x \<Rightarrow> 'q" and items :: "'q \<Rightarrow> 'x list" and cap :: nat
  assumes items_push: "length (items q) \<le> cap \<Longrightarrow> items (push q x) = lastn cap (items q @ [x])"
begin

lemma push_bounded: "length (items q) \<le> cap \<Longrightarrow> length (items (push q x)) \<le> cap"
  by (simp add: items_push)

lemma fold_push_bounded: "length (items q) \<le> cap \<Longrightarrow> length (items (foldl push q xs)) \<le> cap"
  by (induction xs arbitrary: q) (simp_all add: push_bounded)

lemma fold_push: "length (items q) \<le> cap \<Longrightarrow> items (foldl push q xs) = lastn cap (items q @ xs)"
proof (induction xs rule: rev_induct)
  case Nil
  then show ?case by simp
next
  case (snoc x xs)
  have "items (foldl push q (xs @ [x])) = lastn cap (lastn cap (items q @ xs) @ [x])"
    using snoc fold_push_bounded [OF snoc.prems] by (simp add: items_push)
  also have "\<dots> = lastn cap (items q @ xs @ [x])"
    using lastn_append [of cap "items q @ xs" "[x]"] by simp
  finally show ?case .
qed

lemma newest_stays: "0 < cap \<Longrightarrow> length (items q) \<le> cap \<Longrightarrow> last (items (push q x)) = x"
  by (simp add: items_push lastn_def)

end

lemma ring_push_items: "length q \<le> n \<Longrightarrow> ring_push n q x = lastn n (q @ [x])"
  by (cases "length q = n") (auto simp: ring_push_def lastn_def Let_def drop_Suc simp del: drop_append)

interpretation ring: newest_queue "ring_push n" "\<lambda>q. q" n for n
  by unfold_locales (rule ring_push_items)

interpretation buf: newest_queue buf_push "\<lambda>q. q" DEFAULT_MAX
  unfolding buf_push_def by unfold_locales (rule ring_push_items)

section \<open>Handlers\<close>

record config =
  cf_funds :: "string list"
  cf_auto_start :: bool
  cf_xmtp_summaries :: bool
  cf_sherwood_bin :: string
  cf_backoff_max_seconds :: int
  cf_inject_mentions_only :: bool
  cf_concentration_threshold_pct :: pyfloat
  cf_aum_alert_threshold_pct :: pyfloat
  cf_gas_alert_min_eth :: pyfloat
  cf_gas_rpc_url :: string
  cf_stream_stale_minutes :: int
  cf_proposal_reasoning_enabled :: bool

definition CHAIN_INJECT_ONLY :: "string list" where
  "CHAIN_INJECT_ONLY = [''VoteCast'', ''AgentRegistered'', ''AgentRemoved'', ''DepositorApproved'',
     ''DepositorRemoved'', ''RedemptionsLockedEvent'', ''RedemptionsUnlockedEvent'', ''Deposited'',
     ''Withdrawn'', ''SandboxRun'']"

definition CHAIN_INJECT_AND_POST :: "string list" where
  "CHAIN_INJECT_AND_POST = [''ProposalCreated'', ''ProposalExecuted'', ''ProposalSettled'',
     ''ProposalCancelled'', ''SandboxPayloadStored'', ''ReviewOpened'', ''ReviewResolved'', ''GuardianSlashed'']"

definition nl :: string where "nl = [CHR 0x0A]"
definition dq :: string where "dq = [CHR 0x22]"
definition em_dash :: string where "em_dash = [CHR 0xE2, CHR 0x80, CHR 0x94]"

definition attr :: "string \<Rightarrow> string \<Rightarrow> string" where
  "attr k v = k @ ''='' @ dq @ v @ dq"

definition format_chain_injection :: "string \<Rightarrow> chain_event \<Rightarrow> string \<Rightarrow> string" where
  "format_chain_injection sub ev priority =
    ''<sherwood-event '' @ attr ''fund'' sub @ '' '' @ attr ''source'' ''chain'' @ '' ''
    @ attr ''type'' (ce_type ev) @ '' '' @ attr ''priority'' priority @ '' ''
    @ attr ''block'' (str_int (ce_block ev)) @ '' '' @ attr ''tx'' (ce_tx ev) @ ''>'' @ nl
    @ ''<args>'' @ nl
    @ join nl (map (\<lambda>kv. ''  '' @ str_json (fst kv) @ '': '' @ str_json (snd kv)) (ce_args ev)) @ nl
    @ ''</args>'' @ nl @ ''</sherwood-event>''"

text \<open>\<open>ev.args.get(k, d)\<close>, and its text\<close>

definition arg_or :: "chain_event \<Rightarrow> string \<Rightarrow> string \<Rightarrow> json" where
  "arg_or ev k d = (case map_of (ce_args ev) (JStr k) of None \<Rightarrow> JStr d | Some v \<Rightarrow> v)"

definition arg_str :: "chain_event \<Rightarrow> string \<Rightarrow> string \<Rightarrow> string" where
  "arg_str ev k d = str_json (arg_or ev k d)"

text \<open>\<open>try: m except ValueError: d\<close>; any other exception goes on.\<close>

definition or_value_error :: "'a result \<Rightarrow> 'a \<Rightarrow> 'a result" where
  "or_value_error m d = (case m of Inl e \<Rightarrow> if e = Value_error then Inr d else Inl e | Inr x \<Rightarrow> Inr x)"

definition days_of :: "json \<Rightarrow> string result" where
  "days_of j = or_value_error (and_then (int_json j) (\<lambda>s. Inr (str_int (s div 86400) @ ''d''))) ''?''"

text \<open>Base units of a six-decimal token as dollars\<close>

definition usd_of :: "bool \<Rightarrow> json \<Rightarrow> string result" where
  "usd_of signed j = or_value_error (and_then (int_json j) (\<lambda>n. and_then (int_div n 1000000)
     (\<lambda>f. Inr (''$'' @ fl_fixed signed True 2 f)))) (str_json j)"

definition fmt_wood :: "json \<Rightarrow> string result" where
  "fmt_wood j = or_value_error (and_then (int_json j) (\<lambda>n. and_then (fl_of_int n)
     (\<lambda>f. Inr (fl_fixed False True 2 (fl_div f (Fl (10 ^ 18))) @ '' WOOD'')))) (str_json j)"

definition proposal_no :: "chain_event \<Rightarrow> string" where
  "proposal_no ev = arg_str ev ''proposalId'' ''?''"

definition code_span :: "string \<Rightarrow> string" where "code_span s = ''`'' @ s @ ''`''"

definition format_proposal_created_summary :: "chain_event \<Rightarrow> string result" where
  "format_proposal_created_summary ev = (let d = arg_or ev ''strategyDuration'' ''?'' in
     and_then (if d = JStr ''?'' then Inr ''?'' else days_of d) (\<lambda>days.
     Inr (''**Proposal #'' @ proposal_no ev @ '' '' @ em_dash @ '' '' @ arg_str ev ''metadataName'' ''(unnamed)''
       @ ''**'' @ nl @ arg_str ev ''metadataDescription'' [] @ nl
       @ ''Proposer: '' @ code_span (arg_str ev ''proposer'' ''?'') @ '' | Fee: ''
       @ arg_str ev ''performanceFeeBps'' ''?'' @ '' bps | Duration: '' @ days)))"

definition format_proposal_executed_summary :: "chain_event \<Rightarrow> string result" where
  "format_proposal_executed_summary ev =
     and_then (usd_of False (arg_or ev ''capitalSnapshot'' ''?'')) (\<lambda>usd.
     Inr (''**Proposal #'' @ proposal_no ev @ '' executed** '' @ em_dash @ '' capital deployed: '' @ usd @ '' (USDC)''))"

definition format_proposal_settled_summary :: "chain_event \<Rightarrow> string result" where
  "format_proposal_settled_summary ev =
     and_then (usd_of True (arg_or ev ''pnl'' ''0'')) (\<lambda>pnl.
     and_then (days_of (arg_or ev ''duration'' ''?'')) (\<lambda>days.
     Inr (''**Proposal #'' @ proposal_no ev @ '' settled** '' @ em_dash @ '' pnl: '' @ pnl @ '', duration: '' @ days)))"

definition format_proposal_cancelled_summary :: "chain_event \<Rightarrow> string result" where
  "format_proposal_cancelled_summary ev =
     Inr (''**Proposal #'' @ proposal_no ev @ '' cancelled** by '' @ code_span (arg_str ev ''cancelledBy'' ''?''))"

definition format_sandbox_payload_stored_summary :: "chain_event \<Rightarrow> string result" where
  "format_sandbox_payload_stored_summary ev =
     and_then (usd_of False (arg_or ev ''funding'' ''?'')) (\<lambda>usd.
     Inr (''**Proposal #'' @ proposal_no ev @ '' '' @ em_dash @ '' sandbox payload stored** '' @ em_dash
       @ '' funding: '' @ usd @ '' (USDC), calls: '' @ arg_str ev ''callCount'' ''?''
       @ '', tokens: '' @ arg_str ev ''tokenCount'' ''?'' @ ''. Guardians: payload is ready for review.''))"

definition format_review_opened_summary :: "chain_event \<Rightarrow> string result" where
  "format_review_opened_summary ev =
     and_then (fmt_wood (arg_or ev ''totalStakeAtOpen'' ''?'')) (\<lambda>w.
     Inr (''**Guardian review opened '' @ em_dash @ '' proposal #'' @ proposal_no ev @ ''** '' @ em_dash
       @ '' total stake at open: '' @ w))"

definition format_review_resolved_summary :: "chain_event \<Rightarrow> string result" where
  "format_review_resolved_summary ev =
     (let verdict = (if lower (arg_str ev ''blocked'' ''?'') \<in> {''true'', ''1''} then ''BLOCKED'' else ''cleared'') in
     and_then (fmt_wood (arg_or ev ''slashedAmount'' ''?'')) (\<lambda>w.
     Inr (''**Guardian review resolved '' @ em_dash @ '' proposal #'' @ proposal_no ev @ ''** '' @ em_dash
       @ '' verdict: '' @ verdict @ '', slashed: '' @ w)))"

definition format_guardian_slashed_summary :: "chain_event \<Rightarrow> string result" where
  "format_guardian_slashed_summary ev =
     and_then (fmt_wood (arg_or ev ''ownSlash'' ''?'')) (\<lambda>w.
     Inr (''**Guardian slashed** '' @ em_dash @ '' approver '' @ code_span (arg_str ev ''approver'' ''?'')
       @ '' lost '' @ w @ '' (review '' @ code_span (arg_str ev ''reviewKey'' ''?'') @ '')''))"

definition chain_summary_formatters :: "(string \<times> (chain_event \<Rightarrow> string result)) list" where
  "chain_summary_formatters =
    [(''ProposalCreated'', format_proposal_created_summary),
     (''ProposalExecuted'', format_proposal_executed_summary),
     (''ProposalSettled'', format_proposal_settled_summary),
     (''ProposalCancelled'', format_proposal_cancelled_summary),
     (''SandboxPayloadStored'', format_sandbox_payload_stored_summary),
     (''ReviewOpened'', format_review_opened_summary),
     (''ReviewResolved'', format_review_resolved_summary),
     (''GuardianSlashed'', format_guardian_slashed_summary)]"

text \<open>
  A handler returns the buffer and the summary it posts (\<open>None\<close>: no post). A summary that raises
  leaves the block in the buffer: it was pushed before.
\<close>

definition handle_chain_event ::
  "config \<Rightarrow> string \<Rightarrow> chain_event \<Rightarrow> string list \<Rightarrow> string list \<times> string option result" where
  "handle_chain_event cfg sub ev q =
    (if ce_type ev \<notin> set CHAIN_INJECT_ONLY \<and> ce_type ev \<notin> set CHAIN_INJECT_AND_POST then (q, Inr None)
     else let q' = buf_push q (format_chain_injection sub ev ''normal'') in
       if ce_type ev \<in> set CHAIN_INJECT_AND_POST \<and> cf_xmtp_summaries cfg
       then (case map_of chain_summary_formatters (ce_type ev) of
           None \<Rightarrow> (q', Inr None)
         | Some f \<Rightarrow> (q', and_then (f ev) (\<lambda>s. Inr (Some s))))
       else (q', Inr None))"

definition xmtp_priority :: "(string \<times> string) list" where
  "xmtp_priority = [(''RISK_ALERT'', ''high''), (''APPROVAL_REQUEST'', ''human-escalate''),
     (''STRATEGY_PROPOSAL'', ''normal''), (''TRADE_SIGNAL'', ''normal''), (''POSITION_UPDATE'', ''low''),
     (''LP_REPORT'', ''low''), (''TRADE_EXECUTED'', ''low''), (''MEMBER_JOIN'', ''low''),
     (''RAGEQUIT_NOTICE'', ''normal''), (''AGENT_REGISTERED'', ''low''), (''X402_RESEARCH'', ''normal'')]"

definition XMTP_NEVER_INJECT :: "string list" where "XMTP_NEVER_INJECT = [''REACTION'']"

definition format_xmtp_injection :: "string \<Rightarrow> session_message \<Rightarrow> string \<Rightarrow> string" where
  "format_xmtp_injection sub msg priority =
    ''<sherwood-event '' @ attr ''fund'' sub @ '' '' @ attr ''source'' ''xmtp'' @ '' ''
    @ attr ''type'' (sm_type msg) @ '' '' @ attr ''priority'' priority @ '' '' @ attr ''from'' (sm_from msg) @ '' ''
    @ attr ''sentAt'' (sm_sent_at msg) @ ''>'' @ nl @ sm_text msg @ nl @ ''</sherwood-event>''"

definition handle_xmtp_message :: "config \<Rightarrow> string \<Rightarrow> session_message \<Rightarrow> string list \<Rightarrow> string list" where
  "handle_xmtp_message cfg sub msg q =
    (if sm_type msg \<in> set XMTP_NEVER_INJECT then q
     else if sm_type msg = ''MESSAGE'' then
       (if cf_inject_mentions_only cfg \<and> CHR ''@'' \<notin> set (sm_text msg) then q
        else buf_push q (format_xmtp_injection sub msg ''normal''))
     else case map_of xmtp_priority (sm_type msg) of
       None \<Rightarrow> q
     | Some priority \<Rightarrow> buf_push q (format_xmtp_injection sub msg priority))"

end
