(* ===== verification/Risk.thy ===== *)
theory Risk
  imports Pyrepr
begin

text \<open>
  The risk checks of \<open>risk.py\<close> on a proposal the agent sends from a terminal: the size of the
  position, the exposure of the whole portfolio, and the protocols the mandate allows. Amounts are
  doubles. A check that passes bounds the exact amounts up to the rounding of its own arithmetic
  (one part in \<open>2 ^ 50\<close>, and \<open>2 powi - 1000\<close> for subnormal quotients), and amounts inside the
  limits by that much pass. The theorems ask for finite amounts: what the checks do with an
  infinity or not-a-number is the subject of \<open>nan_passes\<close>.
\<close>

section \<open>The checks\<close>

definition MAX_TOTAL_EXPOSURE_PCT :: rat where "MAX_TOTAL_EXPOSURE_PCT = 1 / 2"
definition MAX_SINGLE_POSITION_PCT :: rat where "MAX_SINGLE_POSITION_PCT = 1 / 4"

text \<open>\<open>RiskVerdict\<close>: \<open>ok\<close>, or a reason\<close>

datatype risk_verdict = Risk_ok | Risk_blocked string

record propose_params =
  pp_subdomain :: string
  pp_size :: pyfloat
  pp_exposure :: pyfloat
  pp_aum :: pyfloat
  pp_protocol :: string
  pp_allowed :: "json list"

text \<open>\<open>int(x * 100)\<close> of a ratio past its limit; an infinite one raises.\<close>

definition percent :: "pyfloat \<Rightarrow> int result" where
  "percent x = fl_int (fl_mul x (Fl 100))"

definition check_portfolio_exposure :: "pyfloat \<Rightarrow> pyfloat \<Rightarrow> pyfloat \<Rightarrow> risk_verdict result" where
  "check_portfolio_exposure s c a =
    (if fl_le a (Fl 0) then Inr (Risk_blocked ''portfolio exposure: vault AUM is zero'')
     else let total = fl_add s c in
       if fl_less (Fl MAX_TOTAL_EXPOSURE_PCT) (fl_div total a)
       then and_then (percent (fl_div total a)) (\<lambda>pct. Inr (Risk_blocked
         (''portfolio exposure would reach '' @ str_int pct @ ''% of AUM (max 50%)'')))
       else Inr Risk_ok)"

text \<open>A protocol that is not a text has no \<open>lower\<close>.\<close>

definition lower_json :: "json \<Rightarrow> string result" where
  "lower_json j = (case j of JStr s \<Rightarrow> Inr (lower s) | _ \<Rightarrow> Inl Attribute_error)"

definition check_mandate_compliance :: "string \<Rightarrow> json list \<Rightarrow> risk_verdict result" where
  "check_mandate_compliance p allowed' =
    (if allowed' = [] then Inr Risk_ok
     else and_then (mapM lower_json allowed') (\<lambda>ls.
       if lower p \<notin> set ls
       then Inr (Risk_blocked (''mandate compliance: protocol '' @ [char_of (39::nat)] @ p @ [char_of (39::nat)]
         @ '' not in allowed list '' @ py_repr (JList allowed')))
       else Inr Risk_ok))"

definition check_position_sizing :: "pyfloat \<Rightarrow> pyfloat \<Rightarrow> risk_verdict result" where
  "check_position_sizing s a =
    (if fl_le a (Fl 0) then Inr (Risk_blocked ''position sizing: vault AUM is zero'')
     else if fl_less (Fl MAX_SINGLE_POSITION_PCT) (fl_div s a)
     then and_then (percent (fl_div s a)) (\<lambda>pct. Inr (Risk_blocked
       (''position sizing: single position at '' @ str_int pct @ ''% of AUM (max 25%)'')))
     else Inr Risk_ok)"

fun first_blocked :: "risk_verdict list \<Rightarrow> risk_verdict" where
  "first_blocked [] = Risk_ok"
| "first_blocked (v # vs) = (if v = Risk_ok then first_blocked vs else v)"

text \<open>The tuple of the three verdicts is built before the loop looks at the first.\<close>

definition evaluate_propose :: "propose_params \<Rightarrow> risk_verdict result" where
  "evaluate_propose p = and_then (check_position_sizing (pp_size p) (pp_aum p)) (\<lambda>v1.
     and_then (check_portfolio_exposure (pp_size p) (pp_exposure p) (pp_aum p)) (\<lambda>v2.
     and_then (check_mandate_compliance (pp_protocol p) (pp_allowed p)) (\<lambda>v3.
     Inr (first_blocked [v1, v2, v3]))))"

section \<open>What a comparison of rounded numbers says\<close>

lemma error_parts:
  assumes "0 \<le> x"
  shows "x * (1 - 2 powi (- 53)) - 2 powi (- 1075) \<le> rnd_val x"
    and "rnd_val x \<le> x * (1 + 2 powi (- 53)) + 2 powi (- 1075)"
  using rnd_val_error [of x] assms by (simp_all add: algebra_simps abs_le_iff)

text \<open>Undoing the error factor costs twice the error.\<close>

lemma rnd_val_le:
  assumes "rnd_val x \<le> y" "0 \<le> y"
  shows "x \<le> (y + 2 powi (- 1075)) * (1 + 2 powi (- 52))"
proof (cases "0 \<le> x")
  case True
  have "x * 1 \<le> x * ((1 - 2 powi (- 53)) * (1 + 2 powi (- 52)))"
    using True by (intro mult_left_mono) (simp_all add: power_int_def power_divide)
  also have "\<dots> = x * (1 - 2 powi (- 53)) * (1 + 2 powi (- 52))" by simp
  also have "\<dots> \<le> (y + 2 powi (- 1075)) * (1 + 2 powi (- 52))"
    using error_parts(1) [OF True] assms(1) by (intro mult_right_mono) (simp_all add: power_int_def)
  finally show ?thesis by simp
next
  case False
  moreover have "0 \<le> (y + 2 powi (- 1075)) * (1 + 2 powi (- 52))" using assms(2) by simp
  ultimately show ?thesis by linarith
qed

lemma fl_div_pos:
  assumes "0 < a"
  shows "fl_div (Fl s) (Fl a) = rnd (s / a)" and "fl_div (Inf_fl False) (Fl a) = Inf_fl False"
  using assms by simp_all

lemma position_passes_iff:
  assumes "0 < a"
  shows "check_position_sizing (Fl s) (Fl a) = Inr Risk_ok \<longleftrightarrow> rnd_val (s / a) \<le> 1 / 4"
  using assms by (auto simp: check_position_sizing_def MAX_SINGLE_POSITION_PCT_def fl_less_rnd
      percent_def and_then_Inr_iff)

lemma portfolio_passes_iff:
  assumes "0 < a" "\<bar>rnd_val (s + c)\<bar> < 2 ^ 1024"
  shows "check_portfolio_exposure (Fl s) (Fl c) (Fl a) = Inr Risk_ok \<longleftrightarrow> rnd_val (rnd_val (s + c) / a) \<le> 1 / 2"
  using assms by (auto simp: check_portfolio_exposure_def MAX_TOTAL_EXPOSURE_PCT_def fl_less_rnd
      percent_def and_then_Inr_iff rnd_eq_Fl)

lemma passes_all:
  "evaluate_propose p = Inr Risk_ok \<longleftrightarrow>
     check_position_sizing (pp_size p) (pp_aum p) = Inr Risk_ok
     \<and> check_portfolio_exposure (pp_size p) (pp_exposure p) (pp_aum p) = Inr Risk_ok
     \<and> check_mandate_compliance (pp_protocol p) (pp_allowed p) = Inr Risk_ok"
  by (auto simp: evaluate_propose_def and_then_Inr_iff split: if_splits)

lemma lower_json_Inr [simp]: "lower_json j = Inr l \<longleftrightarrow> (\<exists>q. j = JStr q \<and> l = lower q)"
  by (cases j) (auto simp: lower_json_def)

lemma mapM_lower: "mapM lower_json js = Inr ls \<Longrightarrow> l \<in> set ls \<longleftrightarrow> (\<exists>q. JStr q \<in> set js \<and> l = lower q)"
  by (induction js arbitrary: ls) (auto simp: and_then_Inr_iff)

lemma mandate_passes:
  "check_mandate_compliance p js = Inr Risk_ok \<Longrightarrow> js = [] \<or> (\<exists>q. JStr q \<in> set js \<and> lower q = lower p)"
  by (auto simp: check_mandate_compliance_def and_then_Inr_iff mapM_lower split: if_splits) metis

lemma portfolio_overflow:
  assumes "0 < a" "0 \<le> x" "2 ^ 1024 \<le> \<bar>rnd_val x\<bar>"
  shows "fl_div (rnd x) (Fl a) = Inf_fl False"
  using assms by (simp add: rnd_alt)

lemma risk_limits:
  assumes ok: "evaluate_propose p = Inr Risk_ok"
    and "pp_size p = Fl s" "pp_exposure p = Fl c" "pp_aum p = Fl a" "0 \<le> s" "0 \<le> c"
  shows "0 < a \<and> s \<le> (1 / 4 + 2 powi (- 50)) * a
    \<and> s + c \<le> (1 / 2 + 2 powi (- 50)) * a + 2 powi (- 1000)
    \<and> (pp_allowed p = [] \<or> (\<exists>q. JStr q \<in> set (pp_allowed p) \<and> lower q = lower (pp_protocol p)))"
proof (intro conjI)
  have pos: "check_position_sizing (Fl s) (Fl a) = Inr Risk_ok"
    and port: "check_portfolio_exposure (Fl s) (Fl c) (Fl a) = Inr Risk_ok"
    and mand: "check_mandate_compliance (pp_protocol p) (pp_allowed p) = Inr Risk_ok"
    using ok assms(2-4) by (simp_all add: passes_all)
  show a: "0 < a" using pos by (auto simp: check_position_sizing_def split: if_splits)
  have "s / a \<le> (1 / 4 + 2 powi (- 1075)) * (1 + 2 powi (- 52))"
    using pos by (intro rnd_val_le) (simp_all add: position_passes_iff [OF a])
  also have "\<dots> \<le> 1 / 4 + 2 powi (- 50)" by (simp add: power_int_def power_divide)
  finally show "s \<le> (1 / 4 + 2 powi (- 50)) * a" using a by (simp add: pos_divide_le_eq)
  have small: "\<bar>rnd_val (s + c)\<bar> < 2 ^ 1024"
  proof (rule ccontr)
    assume "\<not> ?thesis"
    then show False using port a assms(5,6) portfolio_overflow [OF a, of "s + c"]
      by (simp add: check_portfolio_exposure_def MAX_TOTAL_EXPOSURE_PCT_def and_then_Inr_iff)
  qed
  let ?t = "rnd_val (s + c)"
  have t0: "0 \<le> ?t" using assms(5,6) by (simp add: rnd_val_sign)
  have "?t / a \<le> (1 / 2 + 2 powi (- 1075)) * (1 + 2 powi (- 52))"
    using port by (intro rnd_val_le) (simp_all add: portfolio_passes_iff [OF a small])
  also have "\<dots> \<le> 1 / 2 + 2 powi (- 51)" by (simp add: power_int_def power_divide)
  finally have t: "?t \<le> (1 / 2 + 2 powi (- 51)) * a" using a by (simp add: pos_divide_le_eq)
  have "s + c \<le> (?t + 2 powi (- 1075)) * (1 + 2 powi (- 52))"
    using t0 by (intro rnd_val_le) simp_all
  also have "\<dots> \<le> ((1 / 2 + 2 powi (- 51)) * a + 2 powi (- 1075)) * (1 + 2 powi (- 52))"
    using t by (intro mult_right_mono) simp_all
  also have "\<dots> = ((1 / 2 + 2 powi (- 51)) * (1 + 2 powi (- 52))) * a + 2 powi (- 1075) * (1 + 2 powi (- 52))"
    by (simp add: algebra_simps)
  also have "\<dots> \<le> (1 / 2 + 2 powi (- 50)) * a + 2 powi (- 1000)"
    using a by (intro add_mono mult_right_mono) (simp_all add: power_int_def power_divide)
  finally show "s + c \<le> (1 / 2 + 2 powi (- 50)) * a + 2 powi (- 1000)" .
  show "pp_allowed p = [] \<or> (\<exists>q. JStr q \<in> set (pp_allowed p) \<and> lower q = lower (pp_protocol p))"
    using mandate_passes [OF mand] .
qed

text \<open>
  A proposal the risk check lets through, of finite amounts that are not negative, is on a
  vault with assets, takes at most a quarter of them for its position and brings the whole
  exposure to at most a half, each up to one part in \<open>2 ^ 50\<close> of rounding, and its protocol is on
  the mandate's list if the mandate has one.
\<close>

theorem allowed_proposal_within_limits:
  assumes "evaluate_propose p = Inr Risk_ok"
    and "pp_size p = Fl s" "pp_exposure p = Fl c" "pp_aum p = Fl a" "0 \<le> s" "0 \<le> c"
  shows "0 < a \<and> s \<le> (1 / 4 + 2 powi (- 50)) * a
    \<and> s + c \<le> (1 / 2 + 2 powi (- 50)) * a + 2 powi (- 1000)
    \<and> (pp_allowed p = [] \<or> (\<exists>q. JStr q \<in> set (pp_allowed p) \<and> lower q = lower (pp_protocol p)))"
  by (rule risk_limits [OF assms])

lemma rnd_val_ge:
  assumes "0 \<le> x" "x \<le> y" "0 \<le> y"
  shows "rnd_val x \<le> y * (1 + 2 powi (- 53)) + 2 powi (- 1075)"
proof -
  have "rnd_val x \<le> x * (1 + 2 powi (- 53)) + 2 powi (- 1075)" by (rule error_parts(2) [OF assms(1)])
  also have "\<dots> \<le> y * (1 + 2 powi (- 53)) + 2 powi (- 1075)"
    using assms(2) by (intro add_mono mult_right_mono) simp_all
  finally show ?thesis .
qed

text \<open>
  A proposal inside both limits by one part in \<open>2 ^ 50\<close>, on a vault with assets and without a
  mandate, passes the risk check.
\<close>

theorem within_limits_passes:
  assumes "pp_size p = Fl s" "pp_exposure p = Fl c" "pp_aum p = Fl a" "0 \<le> s" "0 \<le> c"
    and a: "2 powi (- 900) \<le> a" "a < 2 ^ 1024" and "pp_allowed p = []"
    and s: "s \<le> (1 / 4 - 2 powi (- 50)) * a" and sc: "s + c \<le> (1 / 2 - 2 powi (- 50)) * a"
  shows "evaluate_propose p = Inr Risk_ok"
proof -
  have "(0 :: rat) < 2 powi (- 900)" by simp
  with a have a0: "0 < a" by linarith
  have pos: "rnd_val (s / a) \<le> 1 / 4"
  proof -
    have "s / a \<le> 1 / 4 - 2 powi (- 50)" using s a0 by (simp add: pos_divide_le_eq)
    then have "rnd_val (s / a) \<le> (1 / 4 - 2 powi (- 50)) * (1 + 2 powi (- 53)) + 2 powi (- 1075)"
      using assms(4) a0 by (intro rnd_val_ge) (simp_all add: power_int_def power_divide)
    also have "\<dots> \<le> 1 / 4" by (simp add: power_int_def power_divide)
    finally show ?thesis .
  qed
  let ?t = "rnd_val (s + c)"
  have t0: "0 \<le> ?t" using assms(4,5) by (simp add: rnd_val_sign)
  have "?t \<le> ((1 / 2 - 2 powi (- 50)) * a) * (1 + 2 powi (- 53)) + 2 powi (- 1075)"
    using assms(4,5) sc a0 by (intro rnd_val_ge) (simp_all add: power_int_def power_divide)
  also have "\<dots> \<le> ((1 / 2 - 2 powi (- 50)) * a) * (1 + 2 powi (- 53)) + 2 powi (- 60) * a"
  proof -
    have "(2 :: rat) powi (- 1075) \<le> 2 powi (- 60) * 2 powi (- 900)"
      by (simp add: power_int_def power_divide)
    also have "\<dots> \<le> 2 powi (- 60) * a" using a(1) by (intro mult_left_mono) simp_all
    finally show ?thesis by simp
  qed
  also have "\<dots> = ((1 / 2 - 2 powi (- 50)) * (1 + 2 powi (- 53)) + 2 powi (- 60)) * a"
    by (simp add: algebra_simps)
  also have "\<dots> \<le> (1 / 2 - 2 powi (- 51)) * a"
    using a0 by (intro mult_right_mono) (simp_all add: power_int_def power_divide)
  finally have t: "?t \<le> (1 / 2 - 2 powi (- 51)) * a" .
  also have "\<dots> < 1 * 2 ^ 1024" using a(2) a0 by (intro mult_strict_mono) (simp_all add: power_int_def power_divide)
  finally have small: "\<bar>?t\<bar> < 2 ^ 1024" using t0 by simp
  have "rnd_val (?t / a) \<le> (1 / 2 - 2 powi (- 51)) * (1 + 2 powi (- 53)) + 2 powi (- 1075)"
    using t t0 a0 by (intro rnd_val_ge) (simp_all add: pos_divide_le_eq power_int_def power_divide)
  also have "\<dots> \<le> 1 / 2" by (simp add: power_int_def power_divide)
  finally have port: "rnd_val (?t / a) \<le> 1 / 2" .
  show ?thesis using pos port
    by (simp add: passes_all assms(1-3,8) position_passes_iff [OF a0] portfolio_passes_iff [OF a0 small]
        check_mandate_compliance_def)
qed

text \<open>
  A size that is not a number passes every limit, however large the exposure, and a size with a
  minus sign makes room for any exposure; an infinite one is not refused either: making the
  reason raises.
\<close>

theorem nan_passes:
  assumes "0 < a" "pp_aum p = Fl a" "pp_size p = NaN_fl" "pp_allowed p = []"
  shows "evaluate_propose p = Inr Risk_ok
    \<and> evaluate_propose (p\<lparr>pp_size := Inf_fl False\<rparr>) = Inl Overflow_error"
  using assms by (cases "pp_exposure p") (simp_all add: evaluate_propose_def check_position_sizing_def
      check_portfolio_exposure_def check_mandate_compliance_def percent_def)

definition risk_example :: propose_params where
  "risk_example = \<lparr>pp_subdomain = ''alpha'', pp_size = Fl 100, pp_exposure = Fl 200, pp_aum = Fl 1000,
     pp_protocol = ''Aave'', pp_allowed = []\<rparr>"

lemma risk_example_passes: "evaluate_propose risk_example = Inr Risk_ok"
  by code_simp

theorem allowed_proposal_within_limits_witness: "(100 :: rat) \<le> (1 / 4 + 2 powi (- 50)) * 1000"
  using allowed_proposal_within_limits [OF risk_example_passes, of 100 200 1000]
  by (simp add: risk_example_def)

theorem within_limits_passes_witness: "evaluate_propose risk_example = Inr Risk_ok"
  using within_limits_passes [of risk_example 100 200 1000]
  by (simp add: risk_example_def power_int_def power_divide)

theorem nan_passes_witness:
  "evaluate_propose (risk_example\<lparr>pp_size := NaN_fl, pp_exposure := Fl 900\<rparr>) = Inr Risk_ok"
  using nan_passes [of 1000 "risk_example\<lparr>pp_size := NaN_fl, pp_exposure := Fl 900\<rparr>"]
  by (simp add: risk_example_def)

end
