(* ===== verification/Hooks.thy ===== *)
theory Hooks
  imports Events Risk
begin

text \<open>
  \<open>hooks.py\<close>, \<open>memory.py\<close> and \<open>state_fetcher.py\<close>: what runs around the agent's turns and tools. Before
  a tool the fund guard is asked, then a proposal command typed in a terminal passes the risk check,
  which needs the vault's state and lets the command run when that is unknown. After a tool a
  settlement is recorded and a reminder block pushed. Before a turn the buffer is drained into its
  context. Regular expressions and \<open>shlex.split\<close> are those of ASCII text.
\<close>

section \<open>Reading a command line\<close>

definition lit :: "string \<Rightarrow> string \<Rightarrow> string option" where
  "lit p s = (if startswith p s then Some (drop (length p) s) else None)"

text \<open>\<open>\s+\<close> before something that is no space, and \<open>(\S+)\<close>: both take all they can\<close>

definition spaces1 :: "string \<Rightarrow> string option" where
  "spaces1 s = (case s of [] \<Rightarrow> None | c # r \<Rightarrow> if is_space c then Some (dropWhile is_space r) else None)"

definition word1 :: "string \<Rightarrow> string option" where
  "word1 s = (let w = takeWhile (\<lambda>c. \<not> is_space c) s in if w = [] then None else Some w)"

definition two_words :: "string \<Rightarrow> string \<Rightarrow> string \<Rightarrow> string option" where
  "two_words a b s = do { s \<leftarrow> lit a s; s \<leftarrow> spaces1 s; s \<leftarrow> lit b s; spaces1 s }"

text \<open>\<open>re.search\<close> of a pattern that starts with a word boundary and a letter\<close>

fun search :: "(string \<Rightarrow> 'a option) \<Rightarrow> bool \<Rightarrow> string \<Rightarrow> 'a option" where
  "search m prev [] = None"
| "search m prev (c # cs) = (case (if prev then None else m (c # cs)) of
     Some x \<Rightarrow> Some x
   | None \<Rightarrow> search m (is_word_char c) cs)"

definition propose_re :: "string \<Rightarrow> string option" where
  "propose_re s = do {
     s \<leftarrow> lit ''sherwood'' s; s \<leftarrow> spaces1 s;
     s \<leftarrow> (case two_words ''strategy'' ''propose'' s of Some r \<Rightarrow> Some r
          | None \<Rightarrow> two_words ''proposal'' ''create'' s);
     word1 s }"

definition settle_re :: "string \<Rightarrow> (string \<times> string) option" where
  "settle_re s = do {
     s \<leftarrow> lit ''sherwood'' s; s \<leftarrow> spaces1 s; s \<leftarrow> lit ''proposal'' s; s \<leftarrow> spaces1 s;
     (action, s) \<leftarrow> (case lit ''execute'' s of Some r \<Rightarrow> Some (''execute'', r)
       | None \<Rightarrow> map_option (Pair ''settle'') (lit ''settle'' s));
     s \<leftarrow> spaces1 s; sub \<leftarrow> word1 s; Some (action, sub) }"

text \<open>
  \<open>shlex.split\<close>: the automaton of CPython's \<open>shlex\<close> in POSIX mode, splitting on white space, without
  comments. The token is reversed; \<open>quoted\<close> marks one that had quotes (it may be empty). An escape
  remembers the state it came from.
\<close>

datatype sh_state = Sh_blank | Sh_word | Sh_quote char | Sh_escape "char option"

definition sh_space :: "char \<Rightarrow> bool" where
  "sh_space c \<longleftrightarrow> c \<in> {CHR '' '', CHR 0x09, CHR 0x0D, CHR 0x0A}"

definition sh_quote :: "char \<Rightarrow> bool" where
  "sh_quote c \<longleftrightarrow> c = CHR 0x27 \<or> c = CHR 0x22"

definition backslash :: char where "backslash = CHR 0x5C"

definition sh_emit :: "string \<Rightarrow> bool \<Rightarrow> string list \<Rightarrow> string list" where
  "sh_emit tok quoted ts = (if tok \<noteq> [] \<or> quoted then rev tok # ts else ts)"

fun sh_tokens :: "sh_state \<Rightarrow> bool \<Rightarrow> string \<Rightarrow> string \<Rightarrow> string list option" where
  "sh_tokens st quoted tok [] = (case st of
     Sh_quote _ \<Rightarrow> None | Sh_escape _ \<Rightarrow> None | _ \<Rightarrow> Some (sh_emit tok quoted []))"
| "sh_tokens st quoted tok (c # cs) = (case st of
     Sh_blank \<Rightarrow>
       if sh_space c then sh_tokens Sh_blank False [] cs
       else if c = backslash then sh_tokens (Sh_escape None) quoted tok cs
       else if sh_quote c then sh_tokens (Sh_quote c) quoted tok cs
       else sh_tokens Sh_word quoted [c] cs
   | Sh_word \<Rightarrow>
       if sh_space c then map_option (sh_emit tok quoted) (sh_tokens Sh_blank False [] cs)
       else if sh_quote c then sh_tokens (Sh_quote c) quoted tok cs
       else if c = backslash then sh_tokens (Sh_escape None) quoted tok cs
       else sh_tokens Sh_word quoted (c # tok) cs
   | Sh_quote q \<Rightarrow>
       if c = q then sh_tokens Sh_word True tok cs
       else if c = backslash \<and> q = CHR 0x22 then sh_tokens (Sh_escape (Some q)) True tok cs
       else sh_tokens (Sh_quote q) True (c # tok) cs
   | Sh_escape q \<Rightarrow> (case q of
       None \<Rightarrow> sh_tokens Sh_word quoted (c # tok) cs
     | Some q' \<Rightarrow> sh_tokens (Sh_quote q') quoted
         (if c \<noteq> backslash \<and> c \<noteq> q' then c # backslash # tok else c # tok) cs))"

definition shlex_split :: "string \<Rightarrow> string list option" where
  "shlex_split s = sh_tokens Sh_blank False [] s"

text \<open>The loop over the tokens: a flag takes the token after it; a size that is no number is skipped.\<close>

fun scan_tokens :: "string list \<Rightarrow> pyfloat \<times> string \<Rightarrow> (pyfloat \<times> string) result" where
  "scan_tokens [] acc = Inr acc"
| "scan_tokens [t] acc = Inr acc"
| "scan_tokens (t # v # ts) acc =
    (if t = ''--size-usd'' then
       (case fl_text v of
          Inr x \<Rightarrow> scan_tokens ts (x, snd acc)
        | Inl e \<Rightarrow> if e = Value_error then scan_tokens ts acc else Inl e)
     else if t = ''--protocol'' then scan_tokens ts (fst acc, v)
     else scan_tokens (v # ts) acc)"

definition parse_propose_command :: "string \<Rightarrow> (string \<times> pyfloat \<times> string) option result" where
  "parse_propose_command command = (case search propose_re False command of
     None \<Rightarrow> Inr None
   | Some sub \<Rightarrow> (case shlex_split command of
       None \<Rightarrow> Inr None
     | Some ts \<Rightarrow> and_then (scan_tokens ts (Fl 0, [])) (\<lambda>(sz, protocol). Inr (Some (sub, sz, protocol)))))"

section \<open>The vault's state\<close>

text \<open>What \<open>sherwood vault info --json\<close> gave: a value, or any failure\<close>

datatype cli_output = Cli_failed | Cli_json json

definition fetch_vault_info :: "cli_output \<Rightarrow> json option" where
  "fetch_vault_info out = (case out of Cli_failed \<Rightarrow> None | Cli_json j \<Rightarrow> if truthy j then Some j else None)"

record vault_state =
  vs_aum :: pyfloat
  vs_exposure :: pyfloat
  vs_allowed :: "json list"

text \<open>A \<open>ValueError\<close> or a \<open>TypeError\<close> is an unknown state; another exception leaves the fetcher.\<close>

definition default_state_fetcher :: "cli_output \<Rightarrow> vault_state option result" where
  "default_state_fetcher out = (case fetch_vault_info out of
     None \<Rightarrow> Inr None
   | Some (JObj o') \<Rightarrow>
       (case and_then (fl_json (key_or o' ''aumUsd'' (JInt 0))) (\<lambda>a.
          and_then (fl_json (key_or o' ''currentExposureUsd'' (JInt 0))) (\<lambda>x.
          and_then (py_iter (key_or o' ''allowedProtocols'' (JList []))) (\<lambda>ps.
          Inr \<lparr>vs_aum = a, vs_exposure = x, vs_allowed = ps\<rparr>))) of
        Inr st \<Rightarrow> Inr (Some st)
      | Inl e \<Rightarrow> if e = Value_error \<or> e = Type_error then Inr None else Inl e)
   | Some _ \<Rightarrow> Inl Attribute_error)"

section \<open>Before a tool\<close>

definition TERMINAL_TOOLS :: "string list" where
  "TERMINAL_TOOLS = [''bash'', ''terminal'', ''shell'']"

text \<open>What a guard answers (\<open>None\<close>, a reason, or a directive of its own) and what the hook answers\<close>

datatype 'd guard_answer = G_none | G_reason string | G_directive 'd

datatype 'd hook_answer = Runs | Blocked string | Guard_broke exn | Directive 'd

text \<open>\<open>args if isinstance(args, dict) else (params or {})\<close>, then \<open>.get("command", "")\<close>\<close>

definition tool_payload :: "json \<Rightarrow> json \<Rightarrow> json" where
  "tool_payload args' params = (if is_obj args' then args' else if truthy params then params else JObj [])"

definition command_of :: "json \<Rightarrow> string result" where
  "command_of payload = (case payload of
     JObj o' \<Rightarrow> (case key_or o' ''command'' (JStr []) of JStr s \<Rightarrow> Inr s | _ \<Rightarrow> Inl Type_error)
   | _ \<Rightarrow> Inl Attribute_error)"

definition risk_check :: "string \<Rightarrow> (string \<Rightarrow> vault_state option result) \<Rightarrow> 'd hook_answer result" where
  "risk_check command fetcher = and_then (parse_propose_command command) (\<lambda>p. case p of
     None \<Rightarrow> Inr Runs
   | Some (sub, sz, protocol) \<Rightarrow> (case fetcher sub of
       Inl e \<Rightarrow> Inr Runs
     | Inr None \<Rightarrow> Inr Runs
     | Inr (Some st) \<Rightarrow> and_then (evaluate_propose \<lparr>pp_subdomain = sub, pp_size = sz,
           pp_exposure = vs_exposure st, pp_aum = vs_aum st, pp_protocol = protocol,
           pp_allowed = vs_allowed st\<rparr>) (\<lambda>v. case v of
         Risk_ok \<Rightarrow> Inr Runs
       | Risk_blocked reason \<Rightarrow> Inr (Blocked reason))))"

definition pre_tool_call ::
  "(string \<Rightarrow> json \<Rightarrow> 'd guard_answer result) \<Rightarrow> (string \<Rightarrow> vault_state option result) \<Rightarrow>
   string \<Rightarrow> json \<Rightarrow> json \<Rightarrow> 'd hook_answer result" where
  "pre_tool_call guard_fn fetcher tool args' params = (let payload = tool_payload args' params in
     case guard_fn tool payload of
       Inl e \<Rightarrow> Inr (Guard_broke e)
     | Inr (G_directive d) \<Rightarrow> Inr (Directive d)
     | Inr g \<Rightarrow>
         if g \<noteq> G_none \<and> g \<noteq> G_reason [] then (case g of G_reason r \<Rightarrow> Inr (Blocked r) | _ \<Rightarrow> Inr Runs)
         else if tool \<notin> set TERMINAL_TOOLS then Inr Runs
         else and_then (command_of payload) (\<lambda>command. risk_check command fetcher))"

section \<open>After a tool\<close>

text \<open>\<open>re.search(r"\b(\d+)\b", s)\<close>: the first run of digits that is a word of its own\<close>

fun find_number :: "nat \<Rightarrow> bool \<Rightarrow> string \<Rightarrow> string option" where
  "find_number 0 prev s = None"
| "find_number (Suc n) prev s = (case s of [] \<Rightarrow> None | c # cs \<Rightarrow>
     if is_digit c then
       (let ds = takeWhile is_digit s; r = dropWhile is_digit s in
        if \<not> prev \<and> (r = [] \<or> \<not> is_word_char (hd r)) then Some ds else find_number n True r)
     else find_number n (is_word_char c) cs)"

definition parse_proposal_id :: "string \<Rightarrow> int option" where
  "parse_proposal_id command = (case rev (split_ws command) of [] \<Rightarrow> None
     | w # _ \<Rightarrow> map_option digits_val (find_number (Suc (length w)) False w))"

record settlement =
  sl_fund :: string
  sl_action :: string
  sl_timestamp :: int
  sl_command :: string
  sl_tx_hash :: json
  sl_proposal_id :: "int option"
  sl_pnl_usd :: "pyfloat option"

text \<open>\<open>result_json\<close> is what \<open>json.loads\<close> makes of the tool's result (\<open>None\<close>: it is not JSON).\<close>

definition result_pnl :: "json \<Rightarrow> pyfloat option result" where
  "result_pnl raw = (if raw = JNull then Inr None else case fl_json raw of
     Inr f \<Rightarrow> Inr (Some (fl_div f (Fl 1000000)))
   | Inl e \<Rightarrow> if e = Value_error \<or> e = Type_error then Inr None else Inl e)"

definition build_record :: "time \<Rightarrow> string \<Rightarrow> string \<Rightarrow> string \<Rightarrow> json option \<Rightarrow> settlement result" where
  "build_record now sub action command result_json =
     (let base = \<lparr>sl_fund = sub, sl_action = action, sl_timestamp = trunc now, sl_command = command,
        sl_tx_hash = JNull, sl_proposal_id = parse_proposal_id command, sl_pnl_usd = None\<rparr> in
      case result_json of
        Some (JObj o') \<Rightarrow>
          let tx = key_or o' ''tx'' JNull; pid = key_or o' ''proposalId'' JNull in
          and_then (result_pnl (key_or o' ''pnl'' JNull)) (\<lambda>pnl.
          Inr (base\<lparr>sl_tx_hash := (if truthy tx then tx else key_or o' ''txHash'' JNull),
            sl_proposal_id := (if truthy pid then (case int_json pid of Inr i \<Rightarrow> Some i
              | Inl _ \<Rightarrow> sl_proposal_id base) else sl_proposal_id base),
            sl_pnl_usd := pnl\<rparr>))
      | _ \<Rightarrow> Inr base)"

definition opt_text :: "('a \<Rightarrow> string) \<Rightarrow> 'a option \<Rightarrow> string" where
  "opt_text f x = (case x of None \<Rightarrow> ''None'' | Some v \<Rightarrow> f v)"

definition format_settlement_block :: "settlement \<Rightarrow> string" where
  "format_settlement_block r =
    ''<sherwood-settlement '' @ attr ''fund'' (sl_fund r) @ '' '' @ attr ''action'' (sl_action r) @ '' ''
    @ attr ''proposal_id'' (opt_text str_int (sl_proposal_id r)) @ '' ''
    @ attr ''pnl_usd'' (opt_text repr_float (sl_pnl_usd r)) @ '' '' @ attr ''tx'' (str_json (sl_tx_hash r)) @ ''>'' @ nl
    @ ''REMEMBER THIS '' @ em_dash @ '' use the remember-settlement skill to persist it to memory.'' @ nl
    @ ''</sherwood-settlement>''"

text \<open>
  The hook returns the buffer and the record handed to the memory writer, whose failure changes
  nothing. An exception of \<open>build_record\<close> leaves the hook.
\<close>

definition post_tool_call ::
  "time \<Rightarrow> string \<Rightarrow> json \<Rightarrow> json \<Rightarrow> json option \<Rightarrow> string list \<Rightarrow> (string list \<times> settlement option) result" where
  "post_tool_call now tool args' params result_json q =
     (if tool \<notin> set TERMINAL_TOOLS then Inr (q, None)
      else and_then (command_of (tool_payload args' params)) (\<lambda>command.
        case search settle_re False command of
          None \<Rightarrow> Inr (q, None)
        | Some (action, sub) \<Rightarrow> and_then (build_record now sub action command result_json) (\<lambda>rec.
            Inr (buf_push q (format_settlement_block rec), Some rec))))"

section \<open>Before a turn\<close>

text \<open>A context source gives a text, nothing, or fails (also nothing).\<close>

definition drain_context :: "string option list \<Rightarrow> string list \<Rightarrow> string option \<times> string list" where
  "drain_context sources q = (case buf_drain q of (blocks, q') \<Rightarrow>
     let all_blocks = blocks @ concat (map (\<lambda>s. case s of Some (c # t) \<Rightarrow> [c # t] | _ \<Rightarrow> []) sources)
     in (if all_blocks = [] then None else Some (join (nl @ nl) all_blocks), q'))"

text \<open>\<open>make_session_finalize_hook\<close>: the streams stop only when Hermes shuts down.\<close>

definition on_session_finalize :: "json \<Rightarrow> bool" where
  "on_session_finalize reason \<longleftrightarrow> reason = JStr ''shutdown''"

section \<open>Plain command lines\<close>

text \<open>Words without white space, quotes or backslashes come back from \<open>shlex.split\<close> as they are.\<close>

definition plain_word :: "string \<Rightarrow> bool" where
  "plain_word w \<longleftrightarrow> w \<noteq> [] \<and> list_all (\<lambda>c. \<not> is_space c \<and> \<not> sh_quote c \<and> c \<noteq> backslash) w"

lemma sh_space_space: "sh_space c \<Longrightarrow> is_space c"
  by (auto simp: sh_space_def is_space_def in_range_def)

lemma sh_word_chars:
  assumes "list_all (\<lambda>c. \<not> is_space c \<and> \<not> sh_quote c \<and> c \<noteq> backslash) w"
  shows "sh_tokens Sh_word q tok (w @ r) = sh_tokens Sh_word q (rev w @ tok) r"
  using assms by (induction w arbitrary: tok) (auto dest: sh_space_space)

lemma sh_plain_word:
  assumes "plain_word w"
  shows "sh_tokens Sh_blank False [] (w @ r) = sh_tokens Sh_word False (rev w) r"
proof -
  obtain c cs where w: "w = c # cs" using assms by (cases w) (auto simp: plain_word_def)
  then have "\<not> sh_space c" "\<not> sh_quote c" "c \<noteq> backslash"
    using assms by (auto simp: plain_word_def dest: sh_space_space)
  then show ?thesis using assms sh_word_chars [of cs False "[c]" r] by (simp add: w plain_word_def)
qed

lemma shlex_plain: "list_all plain_word ws \<Longrightarrow> shlex_split (join '' '' ws) = Some ws"
proof (induction ws)
  case Nil
  then show ?case by (simp add: shlex_split_def sh_emit_def)
next
  case (Cons w ws)
  have sp: "sh_space CHR '' ''" by (simp add: sh_space_def)
  have ne: "w \<noteq> []" using Cons.prems by (simp add: plain_word_def)
  show ?case
  proof (cases ws)
    case Nil
    then show ?thesis using Cons.prems ne sh_plain_word [of w "[]"] by (simp add: shlex_split_def sh_emit_def)
  next
    case (Cons v vs)
    then show ?thesis using Cons.IH Cons.prems sp ne
      by (simp add: shlex_split_def sh_plain_word sh_emit_def)
  qed
qed

lemma startswith_self_append: "lit p (p @ s) = Some s"
  by (simp add: lit_def)

lemma is_space_blank [simp]: "is_space CHR '' ''"
  by (simp add: is_space_def in_range_def)

lemma spaces1_blank: "w \<noteq> [] \<Longrightarrow> \<not> is_space (hd w) \<Longrightarrow> spaces1 (CHR '' '' # w) = Some w"
  by (cases w) (simp_all add: spaces1_def)

lemma word1_plain: "plain_word w \<Longrightarrow> r = [] \<or> is_space (hd r) \<Longrightarrow> word1 (w @ r) = Some w"
proof -
  assume "plain_word w" and r: "r = [] \<or> is_space (hd r)"
  then have w: "w \<noteq> []" "\<forall>c \<in> set w. \<not> is_space c" by (auto simp: plain_word_def list_all_iff)
  then have "takeWhile (\<lambda>c. \<not> is_space c) (w @ r) = w" using r by (cases r) (simp_all add: takeWhile_append)
  then show ?thesis using w(1) by (simp add: word1_def)
qed

definition create_command :: "string \<Rightarrow> string list \<Rightarrow> string list" where
  "create_command sub ws = ''sherwood'' # ''proposal'' # ''create'' # sub # ws"

lemma join_Cons: "ws \<noteq> [] \<Longrightarrow> join sep (w # ws) = w @ sep @ join sep ws"
  by (cases ws) simp_all

lemma search_create:
  assumes "plain_word sub" "list_all plain_word ws"
  shows "search propose_re False (join '' '' (create_command sub ws)) = Some sub"
proof -
  obtain c cs where sub: "sub = c # cs" "\<not> is_space c"
    using assms(1) by (cases sub) (auto simp: plain_word_def)
  define tl' where "tl' = (if ws = [] then [] else '' '' @ join '' '' ws)"
  have cmd: "join '' '' (create_command sub ws) = ''sherwood'' @ '' '' @ ''proposal'' @ '' '' @ ''create'' @ '' '' @ sub @ tl'"
    by (simp add: create_command_def join_Cons tl'_def)
  have sp: "spaces1 ('' '' @ ''proposal'' @ r) = Some (''proposal'' @ r)"
      "spaces1 ('' '' @ ''create'' @ r) = Some (''create'' @ r)"
      "spaces1 ('' '' @ sub @ r) = Some (sub @ r)" for r
    using spaces1_blank [of "''proposal'' @ r"] spaces1_blank [of "''create'' @ r"]
      spaces1_blank [of "sub @ r"] sub by (simp_all add: is_space_def in_range_def)
  have no: "two_words ''strategy'' ''propose'' (''proposal'' @ r) = None" for r
    by (simp add: two_words_def lit_def startswith_def)
  have "word1 (sub @ tl') = Some sub"
    by (rule word1_plain [OF assms(1)]) (simp add: tl'_def)
  then have "propose_re (''sherwood'' @ '' '' @ ''proposal'' @ '' '' @ ''create'' @ '' '' @ sub @ tl') = Some sub"
    unfolding propose_re_def startswith_self_append bind.bind_lunit sp no
    by (simp only: two_words_def startswith_self_append bind.bind_lunit sp option.case)
  then show ?thesis unfolding cmd by simp
qed

text \<open>
  The command line an agent writes, \<open>sherwood proposal create FUND --size-usd N --protocol P\<close> with
  words that need no quoting, is read back as that fund, size and protocol.
\<close>

theorem propose_command_read_back:
  assumes "list_all plain_word [sub, n, p]" "fl_text n = Inr x" "sub \<noteq> ''--size-usd''" "sub \<noteq> ''--protocol''"
  shows "parse_propose_command (join '' '' (create_command sub [''--size-usd'', n, ''--protocol'', p]))
    = Inr (Some (sub, x, p))"
proof -
  let ?ws = "[''--size-usd'', n, ''--protocol'', p]"
  have plain: "list_all plain_word ?ws" "plain_word sub" "list_all plain_word (create_command sub ?ws)"
    using assms(1) by (auto simp: plain_word_def is_space_def in_range_def sh_quote_def backslash_def create_command_def)
  have "scan_tokens (create_command sub ?ws) (Fl 0, []) = Inr (x, p)"
    using assms(2-4) by (simp add: create_command_def)
  then show ?thesis
    by (simp add: parse_propose_command_def search_create [OF plain(2,1)] shlex_plain [OF plain(3)])
qed

theorem propose_command_read_back_witness:
  "parse_propose_command ''sherwood proposal create alpha --size-usd 250.5 --protocol aave''
     = Inr (Some (''alpha'', Fl (501 / 2), ''aave''))"
proof -
  have "list_all plain_word [''alpha'', ''250.5'', ''aave'']" "fl_text ''250.5'' = Inr (Fl (501 / 2))"
    by code_simp+
  from propose_command_read_back [OF this] show ?thesis by (simp add: create_command_def)
qed

section \<open>What the hook lets through\<close>

lemma terminal_command:
  assumes "guard_fn tool (JObj o') = Inr G_none" "tool \<in> set TERMINAL_TOOLS" "key_or o' ''command'' (JStr []) = JStr command"
  shows "pre_tool_call guard_fn fetcher tool (JObj o') params = risk_check command fetcher"
  using assms by (simp add: pre_tool_call_def tool_payload_def is_obj_def command_of_def)

lemma risk_check_known:
  assumes "parse_propose_command command = Inr (Some (sub, sz, protocol))" "fetcher sub = Inr (Some st)"
  shows "risk_check command fetcher = and_then (evaluate_propose \<lparr>pp_subdomain = sub, pp_size = sz,
     pp_exposure = vs_exposure st, pp_aum = vs_aum st, pp_protocol = protocol, pp_allowed = vs_allowed st\<rparr>)
     (\<lambda>v. case v of Risk_ok \<Rightarrow> Inr Runs | Risk_blocked reason \<Rightarrow> Inr (Blocked reason))"
  using assms by (simp add: risk_check_def)

lemma runs_known:
  assumes "risk_check command fetcher = (Inr Runs :: 'a hook_answer result)"
    and "parse_propose_command command = Inr (Some (sub, sz, protocol))" "fetcher sub = Inr (Some st)"
  shows "evaluate_propose \<lparr>pp_subdomain = sub, pp_size = sz, pp_exposure = vs_exposure st,
    pp_aum = vs_aum st, pp_protocol = protocol, pp_allowed = vs_allowed st\<rparr> = Inr Risk_ok"
proof -
  obtain v where v: "evaluate_propose \<lparr>pp_subdomain = sub, pp_size = sz, pp_exposure = vs_exposure st,
      pp_aum = vs_aum st, pp_protocol = protocol, pp_allowed = vs_allowed st\<rparr> = Inr v"
      "(case v of Risk_ok \<Rightarrow> Inr Runs | Risk_blocked reason \<Rightarrow> Inr (Blocked reason)) = (Inr Runs :: exn + 'a hook_answer)"
    using assms(1) by (auto simp: risk_check_known [of command sub sz protocol fetcher st, OF assms(2,3)] and_then_Inr_iff)
  then show ?thesis by (cases v) simp_all
qed


lemma unknown_state:
  assumes "out = Cli_failed \<or> (\<exists>j. out = Cli_json j \<and> \<not> truthy j)
    \<or> (\<exists>kvs e. out = Cli_json (JObj kvs) \<and> fl_json (key_or kvs ''aumUsd'' (JInt 0)) = Inl e)"
  shows "default_state_fetcher out \<noteq> Inr (Some st)"
  using assms by (elim disjE exE conjE) (simp_all add: default_state_fetcher_def fetch_vault_info_def)

lemma unknown_runs:
  assumes "parse_propose_command command = Inr p" "\<And>sub st. fetcher sub \<noteq> Inr (Some st)"
  shows "risk_check command fetcher = Inr Runs"
proof (cases p)
  case None
  then show ?thesis using assms(1) by (simp add: risk_check_def)
next
  case (Some x)
  obtain sub sz pr where x: "x = (sub, sz, pr)" by (metis surj_pair)
  have "(\<exists>e. fetcher sub = Inl e) \<or> fetcher sub = Inr None" using assms(2) [of sub]
    by (metis not_None_eq sum.exhaust)
  then show ?thesis using assms(1) Some x by (auto simp: risk_check_def)
qed

text \<open>
  The check fails open: a proposal command runs when the guard has nothing against it and the
  vault's state is unknown, whether the command line tool failed, printed nothing or printed a
  value whose fields are no numbers.
\<close>

theorem unknown_state_lets_run:
  assumes "guard_fn tool (JObj o') = Inr G_none" "key_or o' ''command'' (JStr []) = JStr command"
    and "parse_propose_command command = Inr p"
    and "\<And>sub. out sub = Cli_failed \<or> (\<exists>j. out sub = Cli_json j \<and> \<not> truthy j)
      \<or> (\<exists>kvs e. out sub = Cli_json (JObj kvs) \<and> fl_json (key_or kvs ''aumUsd'' (JInt 0)) = Inl e)"
  shows "pre_tool_call guard_fn (\<lambda>sub. default_state_fetcher (out sub)) tool (JObj o') params = Inr Runs"
proof -
  have "\<And>sub st. default_state_fetcher (out sub) \<noteq> Inr (Some st)"
    using assms(4) unknown_state by metis
  then have "risk_check command (\<lambda>sub. default_state_fetcher (out sub)) = Inr Runs"
    by (rule unknown_runs [OF assms(3)])
  then show ?thesis
    using assms(1,2) by (cases "tool \<in> set TERMINAL_TOOLS")
      (simp_all add: pre_tool_call_def tool_payload_def is_obj_def command_of_def)
qed

text \<open>
  The hook fails closed where the guard speaks: a guard that raises, gives a reason or a
  directive decides the answer, whatever the tool and whatever the vault.
\<close>

theorem guard_decides_first:
  "guard_fn tool (tool_payload args' params) = g \<Longrightarrow> g \<noteq> Inr G_none \<Longrightarrow> g \<noteq> Inr (G_reason []) \<Longrightarrow>
     pre_tool_call guard_fn fetcher tool args' params = Inr (case g of
       Inl e \<Rightarrow> Guard_broke e | Inr (G_directive d) \<Rightarrow> Directive d | Inr (G_reason r) \<Rightarrow> Blocked r | Inr G_none \<Rightarrow> Runs)"
  by (auto simp: pre_tool_call_def Let_def split: sum.split guard_answer.split)

section \<open>Witnesses\<close>

definition ask_nobody :: "string \<Rightarrow> json \<Rightarrow> unit guard_answer result" where
  "ask_nobody tool payload = Inr G_none"

definition vault_example :: vault_state where
  "vault_example = \<lparr>vs_aum = Fl 1000, vs_exposure = Fl 200, vs_allowed = [JStr ''Aave'']\<rparr>"

definition command_example :: string where
  "command_example = ''sherwood strategy propose alpha --size-usd 100 --protocol aave''"

lemma command_example_parsed:
  "parse_propose_command command_example = Inr (Some (''alpha'', Fl 100, ''aave''))"
  by code_simp

lemma command_example_runs:
  "pre_tool_call ask_nobody (\<lambda>_. Inr (Some vault_example)) ''bash''
     (JObj [(''command'', JStr command_example)]) JNull = Inr Runs"
  by code_simp


theorem unknown_state_lets_run_witness:
  "pre_tool_call ask_nobody (\<lambda>sub. default_state_fetcher Cli_failed) ''bash''
     (JObj [(''command'', JStr command_example)]) JNull = Inr Runs"
  using unknown_state_lets_run [of ask_nobody "''bash''" "[(''command'', JStr command_example)]" command_example
      "Some (''alpha'', Fl 100, ''aave'')" "\<lambda>_. Cli_failed"] command_example_parsed
  by (simp add: ask_nobody_def key_or_def)

theorem guard_decides_first_witness:
  "pre_tool_call (\<lambda>_ _. Inl Value_error :: unit guard_answer result) (\<lambda>_. Inr None) ''bash'' JNull JNull
     = Inr (Guard_broke Value_error)"
  using guard_decides_first [of "\<lambda>_ _. Inl Value_error :: unit guard_answer result" "''bash''" JNull JNull]
  by simp

section \<open>Settlements\<close>

text \<open>
  After a tool, the buffer changes only for a terminal command that executes or settles a
  proposal: then its newest block is the reminder of the record handed to the memory writer, which
  names the command, the action and the fund, and the buffer keeps at most 200 blocks.
\<close>

theorem settlement_leaves_reminder:
  assumes "post_tool_call now tool args' params result_json q = Inr (q', rec)" "length q \<le> 200"
  shows "case rec of
      None \<Rightarrow> q' = q
    | Some r \<Rightarrow> tool \<in> set TERMINAL_TOOLS \<and> last q' = format_settlement_block r \<and> length q' \<le> 200
        \<and> command_of (tool_payload args' params) = Inr (sl_command r)
        \<and> search settle_re False (sl_command r) = Some (sl_action r, sl_fund r)"
proof (cases rec)
  case None
  then show ?thesis using assms(1)
    by (auto simp: post_tool_call_def and_then_Inr_iff split: if_splits option.splits)
next
  case (Some r)
  obtain command action sub where t: "tool \<in> set TERMINAL_TOOLS"
    and c: "command_of (tool_payload args' params) = Inr command"
    and s: "search settle_re False command = Some (action, sub)"
    and b: "build_record now sub action command result_json = Inr r"
    and q: "q' = buf_push q (format_settlement_block r)"
    using assms(1) Some by (auto simp: post_tool_call_def and_then_Inr_iff split: if_splits option.splits)
  have "sl_fund r = sub \<and> sl_action r = action \<and> sl_command r = command"
    using b by (auto simp: build_record_def Let_def and_then_Inr_iff split: option.splits json.splits)
  moreover have "last q' = format_settlement_block r" "length q' \<le> 200"
    using buf.newest_stays [of q] buf.push_bounded [of q] assms(2) by (simp_all add: q DEFAULT_MAX_def)
  ultimately show ?thesis using Some t c s by simp
qed

definition settle_example :: json where
  "settle_example = JObj [(''command'', JStr ''sherwood proposal settle alpha 7'')]"

definition settle_record :: settlement where
  "settle_record = \<lparr>sl_fund = ''alpha'', sl_action = ''settle'', sl_timestamp = 0,
     sl_command = ''sherwood proposal settle alpha 7'', sl_tx_hash = JNull, sl_proposal_id = Some 7, sl_pnl_usd = None\<rparr>"

lemma settle_example_posts:
  "post_tool_call 0 ''bash'' settle_example JNull None [] = Inr ([format_settlement_block settle_record], Some settle_record)"
  by code_simp

theorem settlement_leaves_reminder_witness:
  "search settle_re False (sl_command settle_record) = Some (''settle'', ''alpha'')"
  using settlement_leaves_reminder [OF settle_example_posts] by (simp add: settle_record_def)

end
