(* ===== verification/CronTick.thy ===== *)
theory CronTick
  imports Hooks
begin

text \<open>
  \<open>cron_tick.py\<close>: one tick of a fund asks the command line tool for the session's events and
  messages, keeps the interesting ones past the fund's cursor and moves the cursor to the newest
  thing seen. The cursor file is read at the start of a tick and written at its end; other ticks
  may run in between. Reading an ISO time (\<open>datetime.fromisoformat(...).timestamp()\<close>, which knows
  the local zone) is the argument \<open>ts_of\<close>: \<open>None\<close> is its \<open>ValueError\<close>. The facts show that ticks
  one after the other report every interesting event exactly once.
\<close>

definition INTERESTING_CHAIN :: "string list" where
  "INTERESTING_CHAIN = [''ProposalCreated'', ''ProposalSettled'', ''ProposalCancelled'', ''ProposalExecuted'',
     ''SandboxPayloadStored'', ''SandboxRun'', ''ReviewOpened'', ''ReviewResolved'', ''GuardianSlashed'']"

definition INTERESTING_XMTP :: "string list" where
  "INTERESTING_XMTP = [''RISK_ALERT'', ''APPROVAL_REQUEST'']"

type_synonym fields = "(string \<times> json) list"

text \<open>\<open>{"kind": k, **ev}\<close>: a kind of the event's own wins.\<close>

definition with_kind :: "string \<Rightarrow> fields \<Rightarrow> json" where
  "with_kind k o' = JObj ((''kind'', key_or o' ''kind'' (JStr k)) # filter (\<lambda>kv. fst kv \<noteq> ''kind'') o')"

text \<open>\<open>x.get("type") in SET\<close>: a list or an object cannot be looked up.\<close>

definition type_in :: "string list \<Rightarrow> fields \<Rightarrow> bool result" where
  "type_in names o' = (let t = key_or o' ''type'' JNull in
     if hashable t then Inr (t \<in> JStr ` set names) else Inl Type_error)"

definition fields_of :: "json \<Rightarrow> fields result" where
  "fields_of j = (case j of JObj o' \<Rightarrow> Inr o' | _ \<Rightarrow> Inl Attribute_error)"

section \<open>Filtering\<close>

definition keyed_event :: "json \<Rightarrow> (int \<times> fields) result" where
  "keyed_event e = and_then (fields_of e) (\<lambda>o'. and_then (int_json (key_or o' ''block'' (JInt 0))) (\<lambda>b. Inr (b, o')))"

text \<open>The loop over the sorted events (or messages): the kept ones, and the newest key seen\<close>

fun scan_new :: "string list \<Rightarrow> string \<Rightarrow> 'k::linorder \<Rightarrow> ('k \<times> fields) list \<Rightarrow> 'k \<Rightarrow> (json list \<times> 'k) result" where
  "scan_new names kind cursor [] newest = Inr ([], newest)"
| "scan_new names kind cursor ((k, o') # r) newest =
    (if k \<le> cursor then scan_new names kind cursor r newest
     else and_then (type_in names o') (\<lambda>keep.
       and_then (scan_new names kind cursor r (max newest k)) (\<lambda>(evs, newest').
       Inr ((if keep then [with_kind kind o'] else []) @ evs, newest'))))"

text \<open>A message whose time cannot be read is skipped; one that is no object, or whose time is no text, raises.\<close>

fun timed_messages :: "(string \<Rightarrow> time option) \<Rightarrow> json list \<Rightarrow> (time \<times> fields) list result" where
  "timed_messages ts_of [] = Inr []"
| "timed_messages ts_of (m # ms) = and_then (fields_of m) (\<lambda>o'. case key_or o' ''sentAt'' (JStr []) of
     JStr sent \<Rightarrow> and_then (timed_messages ts_of ms) (\<lambda>r.
       Inr (case ts_of sent of None \<Rightarrow> r | Some t \<Rightarrow> (t, o') # r))
   | _ \<Rightarrow> Inl Attribute_error)"

definition filter_interesting ::
  "(string \<Rightarrow> time option) \<Rightarrow> json \<Rightarrow> int \<Rightarrow> time \<Rightarrow> (json list \<times> int \<times> time) result" where
  "filter_interesting ts_of payload block_cursor ts_cursor =
    and_then (fields_of payload) (\<lambda>p.
    and_then (py_iter (key_or p ''events'' (JList []))) (\<lambda>es.
    and_then (mapM keyed_event es) (\<lambda>kes.
    and_then (scan_new INTERESTING_CHAIN ''chain'' block_cursor (sort_key fst kes) block_cursor) (\<lambda>(chain, max_block).
    and_then (py_iter (key_or p ''messages'' (JList []))) (\<lambda>ms.
    and_then (timed_messages ts_of ms) (\<lambda>tms.
    and_then (scan_new INTERESTING_XMTP ''xmtp'' ts_cursor (sort_key fst tms) ts_cursor) (\<lambda>(xmtp, max_ts).
    Inr (chain @ xmtp, max_block, max_ts))))))))"

section \<open>Ticks\<close>

record cursor =
  cu_block :: int
  cu_timestamp :: time
  cu_last_tick_at :: int

text \<open>The cursor file; a missing or broken one reads as empty.\<close>

type_synonym cursor_file = "string \<Rightarrow> cursor option"

definition fresh_cursor :: cursor where
  "fresh_cursor = \<lparr>cu_block = 0, cu_timestamp = 0, cu_last_tick_at = 0\<rparr>"

text \<open>The snapshot a tick starts from\<close>

definition tick_start :: "string \<Rightarrow> cursor_file \<Rightarrow> cursor" where
  "tick_start sub cf = (case cf sub of None \<Rightarrow> fresh_cursor | Some c \<Rightarrow> c)"

datatype tick_outcome = Check_failed | Ticked "json list" cursor

text \<open>The rest of a tick, on the file as it is by then; an exception of the filter leaves the file alone.\<close>

definition tick_finish ::
  "(string \<Rightarrow> time option) \<Rightarrow> time \<Rightarrow> string \<Rightarrow> cursor \<Rightarrow> cli_output \<Rightarrow> cursor_file \<Rightarrow> (cursor_file \<times> tick_outcome) result" where
  "tick_finish ts_of now sub snap out cf = (case out of
     Cli_failed \<Rightarrow> Inr (cf, Check_failed)
   | Cli_json JNull \<Rightarrow> Inr (cf, Check_failed)
   | Cli_json payload \<Rightarrow>
       and_then (filter_interesting ts_of payload (cu_block snap) (cu_timestamp snap)) (\<lambda>(evs, b, t).
         let c = \<lparr>cu_block = b, cu_timestamp = t, cu_last_tick_at = trunc now\<rparr>
         in Inr (cf(sub \<mapsto> c), Ticked evs c)))"

text \<open>A tick nothing interleaves with\<close>

definition cron_tick ::
  "(string \<Rightarrow> time option) \<Rightarrow> time \<Rightarrow> string \<Rightarrow> cli_output \<Rightarrow> cursor_file \<Rightarrow> (cursor_file \<times> tick_outcome) result" where
  "cron_tick ts_of now sub out cf = tick_finish ts_of now sub (tick_start sub cf) out cf"

section \<open>What a scan keeps\<close>

definition typed :: "fields \<Rightarrow> bool" where
  "typed o' \<longleftrightarrow> hashable (key_or o' ''type'' JNull)"

definition wanted :: "string list \<Rightarrow> fields \<Rightarrow> bool" where
  "wanted names o' \<longleftrightarrow> key_or o' ''type'' JNull \<in> JStr ` set names"

lemma type_in_typed: "typed o' \<Longrightarrow> type_in names o' = Inr (wanted names o')"
  by (simp add: type_in_def typed_def wanted_def)

lemma scan_new_kept:
  assumes "\<And>k o'. (k, o') \<in> set kes \<Longrightarrow> typed o'"
  shows "scan_new names kind cursor kes newest =
    Inr (map (\<lambda>ko. with_kind kind (snd ko)) (filter (\<lambda>ko. cursor < fst ko \<and> wanted names (snd ko)) kes),
         foldl max newest (filter (\<lambda>k. cursor < k) (map fst kes)))"
  using assms
proof (induction names kind cursor kes newest rule: scan_new.induct)
  case (2 names kind cursor k o' r newest)
  have r: "typed o'" "\<And>k o'. (k, o') \<in> set r \<Longrightarrow> typed o'" using "2.prems" by auto
  show ?case
  proof (cases "k \<le> cursor")
    case True
    then show ?thesis using "2.IH"(1) r by auto
  next
    case False
    then show ?thesis using "2.IH"(2) [OF False] r
      by (auto simp: type_in_typed not_le)
  qed
qed simp

lemma foldl_max: "foldl max (c :: 'k :: linorder) ks = Max (insert c (set ks))"
proof (induction ks arbitrary: c)
  case (Cons k ks)
  have "foldl max c (k # ks) = Max (insert (max c k) (set ks))" by (simp add: Cons.IH)
  also have "\<dots> = Max (insert c (set (k # ks)))"
    by (cases "set ks = {}") (simp_all add: max.assoc)
  finally show ?case .
qed simp

lemma foldl_max_new: "(c :: 'k :: linorder) \<le> d \<Longrightarrow> foldl max d (filter (\<lambda>k. c < k) ks) = foldl max d ks"
proof (induction ks arbitrary: d)
  case (Cons k ks)
  then show ?case by (cases "c < k") (simp_all add: le_max_iff_disj max_absorb1 order.trans [of k c d])
qed simp

section \<open>Ticks one after the other\<close>

text \<open>The payload of a session without messages\<close>

definition chain_payload :: "fields list \<Rightarrow> json" where
  "chain_payload evs = JObj [(''events'', JList (map JObj evs))]"

definition block_no :: "fields \<Rightarrow> int" where
  "block_no o' = (case key_or o' ''block'' (JInt 0) of JInt b \<Rightarrow> b | _ \<Rightarrow> 0)"

text \<open>An event as the command line tool prints it: its block is a number, its type a scalar.\<close>

definition good_event :: "fields \<Rightarrow> bool" where
  "good_event o' \<longleftrightarrow> typed o' \<and> key_or o' ''block'' (JInt 0) = JInt (block_no o')"

text \<open>The interesting events of a list, by block\<close>

definition interesting :: "fields list \<Rightarrow> json list" where
  "interesting evs = map (with_kind ''chain'') (filter (wanted INTERESTING_CHAIN) (sort_key block_no evs))"

lemma keyed_good: "list_all good_event evs \<Longrightarrow> mapM keyed_event (map JObj evs) = Inr (map (\<lambda>o'. (block_no o', o')) evs)"
  by (induction evs) (simp_all add: keyed_event_def fields_of_def good_event_def)

lemma sort_pairs: "sort_key fst (map (\<lambda>x. (f x, x)) xs) = map (\<lambda>x. (f x, x)) (sort_key f xs)"
proof -
  have ins: "insort_key fst (f x, x) (map (\<lambda>x. (f x, x)) ys) = map (\<lambda>x. (f x, x)) (insort_key f x ys)" for x ys
    by (induction ys) simp_all
  show ?thesis by (induction xs) (simp_all add: ins)
qed

lemma tick_chain:
  assumes "list_all good_event evs"
  shows "cron_tick ts_of now sub (Cli_json (chain_payload evs)) cf =
    (let c = tick_start sub cf; new = \<lparr>cu_block = foldl max (cu_block c) (map block_no (sort_key block_no evs)),
       cu_timestamp = cu_timestamp c, cu_last_tick_at = trunc now\<rparr>
     in Inr (cf(sub \<mapsto> new), Ticked (interesting (filter (\<lambda>o'. cu_block c < block_no o') evs)) new))"
proof -
  let ?c = "cu_block (tick_start sub cf)"
  let ?kes = "map (\<lambda>o'. (block_no o', o')) (sort_key block_no evs)"
  have typed: "\<And>k o'. (k, o') \<in> set ?kes \<Longrightarrow> typed o'"
    using assms by (auto simp: list_all_iff good_event_def)
  have "scan_new INTERESTING_CHAIN ''chain'' ?c ?kes ?c
    = Inr (interesting (filter (\<lambda>o'. ?c < block_no o') evs), foldl max ?c (map block_no (sort_key block_no evs)))"
    using scan_new_kept [of ?kes INTERESTING_CHAIN "''chain''" ?c ?c, OF typed]
      foldl_max_new [of ?c ?c "map block_no (sort_key block_no evs)"]
    by (simp add: interesting_def filter_map o_def filter_sort [symmetric] conj_commute)
  then show ?thesis
    by (simp add: cron_tick_def tick_finish_def filter_interesting_def chain_payload_def fields_of_def key_or_def
        keyed_good [OF assms] sort_pairs Let_def)
qed

text \<open>Each tick sees all earlier events and a batch of new ones, in later blocks.\<close>

fun run_ticks :: "(string \<Rightarrow> time option) \<Rightarrow> string \<Rightarrow> fields list \<Rightarrow> (time \<times> fields list) list \<Rightarrow> cursor_file \<Rightarrow> json list result" where
  "run_ticks ts_of sub old [] cf = Inr []"
| "run_ticks ts_of sub old ((now, batch) # bs) cf =
     and_then (cron_tick ts_of now sub (Cli_json (chain_payload (old @ batch))) cf) (\<lambda>(cf', r).
     and_then (run_ticks ts_of sub (old @ batch) bs cf') (\<lambda>evs.
     Inr ((case r of Check_failed \<Rightarrow> [] | Ticked new c \<Rightarrow> new) @ evs)))"

fun rising :: "int \<Rightarrow> (time \<times> fields list) list \<Rightarrow> bool" where
  "rising c [] = True"
| "rising c ((now, batch) # bs) = (list_all (\<lambda>o'. good_event o' \<and> c < block_no o') batch
     \<and> rising (foldl max c (map block_no batch)) bs)"

lemma foldl_max_set: "set xs = set ys \<Longrightarrow> foldl max (c :: int) xs = foldl max c ys"
  by (simp add: foldl_max)

lemma foldl_max_below: "list_all (\<lambda>k. k \<le> c) ks \<Longrightarrow> foldl max (c :: int) ks = c"
  by (induction ks) (simp_all add: max_absorb1)

lemma foldl_max_ge: "c \<le> foldl max (c :: int) ks \<and> list_all (\<lambda>k. k \<le> foldl max c ks) ks"
  by (simp add: foldl_max list_all_iff)

lemma run_ticks_once:
  assumes "rising (cu_block (tick_start sub cf)) bs" "list_all good_event old"
    and "list_all (\<lambda>o'. block_no o' \<le> cu_block (tick_start sub cf)) old"
  shows "run_ticks ts_of sub old bs cf = Inr (concat (map (\<lambda>b. interesting (snd b)) bs))"
  using assms
proof (induction bs arbitrary: old cf)
  case (Cons b bs)
  obtain now batch where b: "b = (now, batch)" by (metis surj_pair)
  let ?c = "cu_block (tick_start sub cf)"
  have batch: "list_all good_event batch" "list_all (\<lambda>o'. ?c < block_no o') batch"
    using Cons.prems(1) by (simp_all add: b list_all_iff)
  have good: "list_all good_event (old @ batch)" using Cons.prems(2) batch(1) by simp
  define c' where "c' = foldl max ?c (map block_no (sort_key block_no (old @ batch)))"
  have c': "c' = foldl max ?c (map block_no batch)"
  proof -
    have "c' = foldl max ?c (map block_no (old @ batch))" unfolding c'_def by (rule foldl_max_set) (simp add: image_Un)
    then show ?thesis using foldl_max_below [of ?c "map block_no old"] Cons.prems(3)
      by (simp add: list_all_iff)
  qed
  have new: "filter (\<lambda>o'. ?c < block_no o') (old @ batch) = batch"
    using Cons.prems(3) batch(2) by (simp add: list_all_iff filter_False filter_True leD)
  let ?cur = "\<lparr>cu_block = c', cu_timestamp = cu_timestamp (tick_start sub cf), cu_last_tick_at = trunc now\<rparr>"
  have t: "cron_tick ts_of now sub (Cli_json (chain_payload (old @ batch))) cf
      = Inr (cf(sub \<mapsto> ?cur), Ticked (interesting batch) ?cur)"
    unfolding tick_chain [OF good] Let_def new c'_def [symmetric] ..
  have start: "tick_start sub (cf(sub \<mapsto> ?cur)) = ?cur" by (simp add: tick_start_def)
  have "run_ticks ts_of sub (old @ batch) bs (cf(sub \<mapsto> ?cur)) = Inr (concat (map (\<lambda>b. interesting (snd b)) bs))"
  proof (rule Cons.IH)
    show "rising (cu_block (tick_start sub (cf(sub \<mapsto> ?cur)))) bs"
      unfolding start using Cons.prems(1) by (simp add: b c')
    show "list_all good_event (old @ batch)" by (rule good)
    show "list_all (\<lambda>o'. block_no o' \<le> cu_block (tick_start sub (cf(sub \<mapsto> ?cur)))) (old @ batch)"
      unfolding start using Cons.prems(3) foldl_max_ge [of ?c "map block_no batch"]
      by (auto simp: c' list_all_iff)
  qed
  with t show ?case by (simp add: b)
qed simp


definition event_example :: "string \<Rightarrow> int \<Rightarrow> fields" where
  "event_example ty b = [(''type'', JStr ty), (''block'', JInt b)]"


end
