(* ===== verification/Exposure.thy ===== *)
theory Exposure
  imports CronTick
begin

text \<open>
  \<open>exposure.py\<close>: the capital of several funds, by protocol. Dictionaries are association lists in
  the order of insertion; sums are left to right, in doubles. The facts show that a protocol is in
  a fund's dictionary exactly when the fund reports a position in it, that each sum is the sum of
  those positions in order, and which protocols raise an alert for which funds.
\<close>

section \<open>Aggregation\<close>

definition DEFAULT_CONCENTRATION_PCT :: pyfloat where "DEFAULT_CONCENTRATION_PCT = Fl 30"

type_synonym tally = "(string \<times> pyfloat) list"

record exposure_report =
  er_total_aum_usd :: pyfloat
  er_by_protocol :: tally
  er_concentration_pct :: tally
  er_per_fund :: "(string \<times> tally) list"

record concentration_alert =
  al_protocol :: string
  al_pct :: pyfloat
  al_funds_exposed :: "string list"

text \<open>\<open>d[k] = d.get(k, 0.0) + x\<close>\<close>

fun add_to :: "string \<Rightarrow> pyfloat \<Rightarrow> tally \<Rightarrow> tally" where
  "add_to k x [] = [(k, fl_add (Fl 0) x)]"
| "add_to k x ((k', y) # r) = (if k' = k then (k', fl_add y x) # r else (k', y) # add_to k x r)"

text \<open>A position: its protocol in lower case (empty: skipped) and its dollars\<close>

definition position_of :: "json \<Rightarrow> (string \<times> pyfloat) option result" where
  "position_of p = and_then (fields_of p) (\<lambda>o'.
     let proto = lower (str_json (key_or o' ''protocol'' (JStr []))) in
     if proto = [] then Inr None
     else and_then (fl_json (key_or o' ''usd'' (JInt 0))) (\<lambda>usd. Inr (Some (proto, usd))))"

fun add_positions :: "json list \<Rightarrow> tally \<times> tally \<Rightarrow> (tally \<times> tally) result" where
  "add_positions [] acc = Inr acc"
| "add_positions (p # ps) (by_protocol, per) = and_then (position_of p) (\<lambda>r. case r of
     None \<Rightarrow> add_positions ps (by_protocol, per)
   | Some (proto, usd) \<Rightarrow> add_positions ps (add_to proto usd by_protocol, add_to proto usd per))"

definition or_list :: "json \<Rightarrow> json" where
  "or_list j = (if truthy j then j else JList [])"

text \<open>\<open>per_fund.setdefault(sub, {})\<close>, then what the loop leaves in it\<close>

fun put_fund :: "string \<Rightarrow> tally \<Rightarrow> (string \<times> tally) list \<Rightarrow> (string \<times> tally) list" where
  "put_fund f d [] = [(f, d)]"
| "put_fund f d ((g, e) # r) = (if g = f then (g, d) # r else (g, e) # put_fund f d r)"

definition fund_dict :: "string \<Rightarrow> (string \<times> tally) list \<Rightarrow> tally" where
  "fund_dict f per_fund = (case map_of per_fund f of None \<Rightarrow> [] | Some d \<Rightarrow> d)"

text \<open>One fund's answer; a fund without one is skipped, one with a strange answer raises.\<close>

definition add_fund :: "string \<times> json option \<Rightarrow> pyfloat \<times> tally \<times> (string \<times> tally) list
    \<Rightarrow> (pyfloat \<times> tally \<times> (string \<times> tally) list) result" where
  "add_fund fi acc = (case fi of (f, info) \<Rightarrow> case acc of (tot, by_protocol, per_fund) \<Rightarrow>
     case info of None \<Rightarrow> Inr acc
   | Some j \<Rightarrow> if \<not> truthy j then Inr acc else
       and_then (fields_of j) (\<lambda>o'.
       and_then (fl_json (key_or o' ''aumUsd'' (JInt 0))) (\<lambda>aum.
       and_then (py_iter (or_list (key_or o' ''positions'' (JList [])))) (\<lambda>ps.
       and_then (add_positions ps (by_protocol, fund_dict f per_fund)) (\<lambda>(by', per').
       Inr (fl_add tot aum, by', put_fund f per' per_fund))))))"

fun add_funds :: "(string \<times> json option) list \<Rightarrow> pyfloat \<times> tally \<times> (string \<times> tally) list
    \<Rightarrow> (pyfloat \<times> tally \<times> (string \<times> tally) list) result" where
  "add_funds [] acc = Inr acc"
| "add_funds (x # xs) acc = and_then (add_fund x acc) (add_funds xs)"

definition aggregate_exposure :: "(string \<times> cli_output) list \<Rightarrow> exposure_report result" where
  "aggregate_exposure answers =
     and_then (add_funds (map (\<lambda>(f, out). (f, fetch_vault_info out)) answers) (Fl 0, [], []))
       (\<lambda>(tot, by_protocol, per_fund).
     Inr \<lparr>er_total_aum_usd = tot, er_by_protocol = by_protocol,
       er_concentration_pct = (if fl_less (Fl 0) tot
         then map (\<lambda>(proto, usd). (proto, fl_round2 (fl_mul (fl_div usd tot) (Fl 100)))) by_protocol else []),
       er_per_fund = per_fund\<rparr>)"

definition check_concentration :: "exposure_report \<Rightarrow> pyfloat \<Rightarrow> concentration_alert list" where
  "check_concentration report threshold =
     map (\<lambda>(proto, pct). \<lparr>al_protocol = proto, al_pct = pct,
         al_funds_exposed = map fst (filter (\<lambda>(f, per). proto \<in> fst ` set per) (er_per_fund report))\<rparr>)
       (filter (\<lambda>(proto, pct). fl_le threshold pct) (er_concentration_pct report))"

section \<open>What the sums hold\<close>

text \<open>The positions of an answer, in order\<close>

fun positions_of :: "json list \<Rightarrow> (string \<times> pyfloat) list result" where
  "positions_of [] = Inr []"
| "positions_of (p # ps) = and_then (position_of p) (\<lambda>r. and_then (positions_of ps) (\<lambda>rs.
     Inr (case r of None \<Rightarrow> rs | Some x \<Rightarrow> x # rs)))"

definition add_all :: "(string \<times> pyfloat) list \<Rightarrow> tally \<Rightarrow> tally" where
  "add_all xs d = foldl (\<lambda>d (k, x). add_to k x d) d xs"

lemma add_positions_all:
  "add_positions ps (b, p) = and_then (positions_of ps) (\<lambda>xs. Inr (add_all xs b, add_all xs p))"
proof (induction ps arbitrary: b p)
  case Nil
  then show ?case by (simp add: add_all_def)
next
  case (Cons q qs)
  show ?case
  proof (cases "position_of q")
    case (Inr r)
    then show ?thesis
      by (cases r; cases "positions_of qs") (auto simp: Cons.IH add_all_def)
  qed simp
qed

text \<open>The running sum of a key\<close>

definition total_of :: "string \<Rightarrow> (string \<times> pyfloat) list \<Rightarrow> pyfloat" where
  "total_of k xs = foldl fl_add (Fl 0) (map snd (filter (\<lambda>x. fst x = k) xs))"

lemma add_to_keys: "map fst (add_to k x d) = (if k \<in> fst ` set d then map fst d else map fst d @ [k])"
  by (induction k x d rule: add_to.induct) auto

lemma add_to_get: "map_of (add_to k x d) k' =
    (if k' = k then Some (fl_add (case map_of d k of None \<Rightarrow> Fl 0 | Some y \<Rightarrow> y) x) else map_of d k')"
  by (induction k x d rule: add_to.induct) auto

lemma add_all_snoc: "add_all (xs @ [kx]) d = add_to (fst kx) (snd kx) (add_all xs d)"
  by (simp add: add_all_def split: prod.split)

lemma add_all_distinct: "distinct (map fst d) \<Longrightarrow> distinct (map fst (add_all xs d))"
  by (induction xs rule: rev_induct) (auto simp: add_all_snoc add_to_keys, simp add: add_all_def)

lemma total_of_snoc: "total_of k (xs @ [x]) = (if fst x = k then fl_add (total_of k xs) (snd x) else total_of k xs)"
  by (simp add: total_of_def)

lemma total_of_none: "k \<notin> fst ` set xs \<Longrightarrow> total_of k xs = Fl 0"
proof -
  assume "k \<notin> fst ` set xs"
  then have "filter (\<lambda>x. fst x = k) xs = []" by (auto simp: filter_empty_conv)
  then show ?thesis by (simp add: total_of_def)
qed

lemma add_all_get:
  "map_of (add_all xs []) k = (if k \<in> fst ` set xs then Some (total_of k xs) else None)"
proof (induction xs rule: rev_induct)
  case Nil
  then show ?case by (simp add: add_all_def)
next
  case (snoc x xs)
  show ?case
  proof (cases "k = fst x")
    case True
    then have "map_of (add_all (xs @ [x]) []) k
        = Some (fl_add (case map_of (add_all xs []) k of None \<Rightarrow> Fl 0 | Some y \<Rightarrow> y) (snd x))"
      by (simp add: add_all_snoc add_to_get)
    also have "(case map_of (add_all xs []) k of None \<Rightarrow> Fl 0 | Some y \<Rightarrow> y) = total_of k xs"
      by (cases "k \<in> fst ` set xs") (simp_all add: snoc.IH total_of_none)
    finally show ?thesis using True by (simp add: total_of_snoc)
  next
    case False
    then show ?thesis using snoc.IH by (simp add: add_all_snoc add_to_get total_of_snoc)
  qed
qed

lemma add_all_append: "add_all (xs @ ys) d = add_all ys (add_all xs d)"
  by (simp add: add_all_def)

text \<open>The positions an answer reports, and the funds that answered\<close>

definition positions_in :: "json \<Rightarrow> (string \<times> pyfloat) list" where
  "positions_in j = (case j of
     JObj o' \<Rightarrow> (case and_then (py_iter (or_list (key_or o' ''positions'' (JList [])))) positions_of of
       Inr xs \<Rightarrow> xs | Inl e \<Rightarrow> [])
   | _ \<Rightarrow> [])"

definition answered :: "(string \<times> json option) list \<Rightarrow> (string \<times> (string \<times> pyfloat) list) list" where
  "answered xs = concat (map (\<lambda>(f, info). case info of
     None \<Rightarrow> [] | Some j \<Rightarrow> if truthy j then [(f, positions_in j)] else []) xs)"

lemma put_fund_new: "f \<notin> fst ` set p \<Longrightarrow> put_fund f d p = p @ [(f, d)]"
  by (induction f d p rule: put_fund.induct) auto

lemma fund_dict_new: "f \<notin> fst ` set p \<Longrightarrow> fund_dict f p = []"
  by (simp add: fund_dict_def map_of_eq_None_iff [THEN iffD2])

lemma add_fund_result:
  assumes "add_fund (f, info) (t, b, p) = Inr (t', b', p')" "f \<notin> fst ` set p"
  shows "b' = add_all (concat (map snd (answered [(f, info)]))) b
    \<and> p' = p @ map (\<lambda>(f, xs). (f, add_all xs [])) (answered [(f, info)])"
proof (cases info)
  case None
  then show ?thesis using assms by (simp add: add_fund_def answered_def add_all_def)
next
  case (Some j)
  show ?thesis
  proof (cases "truthy j")
    case False
    then show ?thesis using assms Some by (simp add: add_fund_def answered_def add_all_def)
  next
    case True
    then obtain o' aum ps xs where j: "j = JObj o'"
      and i: "py_iter (or_list (key_or o' ''positions'' (JList []))) = Inr ps"
      and x: "positions_of ps = Inr xs"
      and r: "b' = add_all xs b" "p' = put_fund f (add_all xs (fund_dict f p)) p"
      using assms(1) Some
      by (auto simp: add_fund_def add_positions_all and_then_Inr_iff fields_of_def split: json.splits)
    then show ?thesis using Some True assms(2)
      by (simp add: answered_def positions_in_def put_fund_new fund_dict_new)
  qed
qed

lemma answered_Cons: "answered (x # xs) = answered [x] @ answered xs"
  by (simp add: answered_def)

lemma answered_names: "fst ` set (answered xs) \<subseteq> fst ` set xs"
proof (induction xs)
  case (Cons x xs)
  have "fst ` set (answered [x]) \<subseteq> {fst x}"
    by (cases x) (auto simp: answered_def split: option.splits if_splits)
  with Cons.IH show ?case by (subst answered_Cons) auto
qed (simp add: answered_def)

lemma add_funds_result:
  assumes "add_funds xs (t, b, p) = Inr (t', b', p')" "distinct (map fst xs)" "fst ` set p \<inter> fst ` set xs = {}"
  shows "b' = add_all (concat (map snd (answered xs))) b
    \<and> p' = p @ map (\<lambda>(f, xs). (f, add_all xs [])) (answered xs)"
  using assms
proof (induction xs arbitrary: t b p)
  case Nil
  then show ?case by (simp add: answered_def add_all_def)
next
  case (Cons x xs)
  obtain f info where x: "x = (f, info)" by (metis surj_pair)
  obtain t1 b1 p1 where s: "add_fund x (t, b, p) = Inr (t1, b1, p1)" "add_funds xs (t1, b1, p1) = Inr (t', b', p')"
    using Cons.prems(1) by (auto simp: and_then_Inr_iff)
  have f: "b1 = add_all (concat (map snd (answered [x]))) b"
      "p1 = p @ map (\<lambda>(f, xs). (f, add_all xs [])) (answered [x])"
    using add_fund_result [of f info t b p t1 b1 p1] s(1) Cons.prems(3) x by auto
  have "fst ` set (answered [x]) \<subseteq> {f}" using answered_names [of "[x]"] x by auto
  then have "fst ` set p1 \<inter> fst ` set xs = {}"
    using Cons.prems(2,3) x by (auto simp: f(2) image_Un image_image case_prod_beta)
  from Cons.IH [OF s(2) _ this] Cons.prems(2) f show ?case
    by (simp add: answered_Cons [of x xs] add_all_append)
qed

lemma add_all_keys: "fst ` set (add_all xs []) = fst ` set xs"
proof -
  have "k \<in> fst ` set (add_all xs []) \<longleftrightarrow> k \<in> fst ` set xs" for k
    using add_all_get [of xs k] by (metis map_of_eq_None_iff not_Some_eq)
  then show ?thesis by blast
qed

lemma add_all_mem: "(k, u) \<in> set (add_all xs []) \<longleftrightarrow> k \<in> fst ` set xs \<and> u = total_of k xs"
proof -
  have "distinct (map fst (add_all xs []))" by (rule add_all_distinct) simp
  then have "(k, u) \<in> set (add_all xs []) \<longleftrightarrow> map_of (add_all xs []) k = Some u" by simp
  then show ?thesis by (auto simp: add_all_get)
qed

lemma exposed_funds:
  "map fst (filter (\<lambda>(f, per). k \<in> fst ` set per) (map (\<lambda>(f, xs). (f, add_all xs [])) fs))
     = map fst (filter (\<lambda>(f, xs). k \<in> fst ` set xs) fs)"
  by (induction fs) (simp_all add: add_all_keys case_prod_beta)

lemma mem_map_snd: "(k, p) \<in> set (map (\<lambda>(k, u). (k, g u)) d) \<longleftrightarrow> (\<exists>u. (k, u) \<in> set d \<and> p = g u)"
  by force

lemma report_of:
  assumes "aggregate_exposure answers = Inr report" "distinct (map fst answers)"
  defines "fs \<equiv> answered (map (\<lambda>(f, out). (f, fetch_vault_info out)) answers)"
  shows "er_by_protocol report = add_all (concat (map snd fs)) []"
    and "er_per_fund report = map (\<lambda>(f, xs). (f, add_all xs [])) fs"
    and "er_concentration_pct report = (if fl_less (Fl 0) (er_total_aum_usd report)
      then map (\<lambda>(k, u). (k, fl_round2 (fl_mul (fl_div u (er_total_aum_usd report)) (Fl 100)))) (er_by_protocol report) else [])"
proof -
  let ?as = "map (\<lambda>(f, out). (f, fetch_vault_info out)) answers"
  obtain t b p where r: "add_funds ?as (Fl 0, [], []) = Inr (t, b, p)"
    and rep: "er_total_aum_usd report = t" "er_by_protocol report = b" "er_per_fund report = p"
      "er_concentration_pct report = (if fl_less (Fl 0) t
        then map (\<lambda>(k, u). (k, fl_round2 (fl_mul (fl_div u t) (Fl 100)))) b else [])"
    using assms(1) by (auto simp: aggregate_exposure_def and_then_Inr_iff)
  have d: "distinct (map fst ?as)" using assms(2) by (simp add: o_def case_prod_beta)
  have "b = add_all (concat (map snd (answered ?as))) [] \<and> p = [] @ map (\<lambda>(f, xs). (f, add_all xs [])) (answered ?as)"
    by (rule add_funds_result [OF r d]) simp
  then show "er_by_protocol report = add_all (concat (map snd fs)) []"
    and "er_per_fund report = map (\<lambda>(f, xs). (f, add_all xs [])) fs"
    using rep by (simp_all add: fs_def)
  show "er_concentration_pct report = (if fl_less (Fl 0) (er_total_aum_usd report)
      then map (\<lambda>(k, u). (k, fl_round2 (fl_mul (fl_div u (er_total_aum_usd report)) (Fl 100)))) (er_by_protocol report) else [])"
    using rep by simp
qed


definition answers_example :: "(string \<times> cli_output) list" where
  "answers_example = [(''alpha'', Cli_json (JObj [(''aumUsd'', JInt 100),
     (''positions'', JList [JObj [(''protocol'', JStr ''Aave''), (''usd'', JInt 50)]])])), (''beta'', Cli_failed)]"

definition report_example :: exposure_report where
  "report_example = \<lparr>er_total_aum_usd = Fl 100, er_by_protocol = [(''aave'', Fl 50)],
     er_concentration_pct = [(''aave'', Fl 50)], er_per_fund = [(''alpha'', [(''aave'', Fl 50)])]\<rparr>"

lemma report_example_of: "aggregate_exposure answers_example = Inr report_example"
  by code_simp


end
