(* ===== verification/ChildEnv.thy ===== *)
theory ChildEnv
  imports Text
begin

text \<open>
  \<open>fund/secrets.py\<close>, \<open>childenv.py\<close> and the checks of \<open>key_derivation.py\<close>: where a secret is read, what a
  spawned process sees of the environment, and which texts are a key or an address. The hash and
  the curve that derive the sidecar's key and address are external libraries and are not modelled.
\<close>

section \<open>Secrets\<close>

type_synonym environ = "(string \<times> string) list"

text \<open>Hermes' secret scope: not there (outside Hermes), refusing, or answering\<close>

datatype secret_scope = No_scope | Refuses | Answers "string \<Rightarrow> string option"

definition get_secret :: "secret_scope \<Rightarrow> environ \<Rightarrow> string \<Rightarrow> string option \<Rightarrow> string option" where
  "get_secret scope env name dflt = (case scope of
     No_scope \<Rightarrow> (case map_of env name of None \<Rightarrow> dflt | Some v \<Rightarrow> Some v)
   | Refuses \<Rightarrow> dflt
   | Answers f \<Rightarrow> (case f name of None \<Rightarrow> dflt | Some v \<Rightarrow> Some v))"

definition SECRET_NAMES :: "string list" where
  "SECRET_NAMES = [''TELEGRAM_BOT_TOKEN'', ''SHERWOOD_TG_LINK_SECRET'', ''SHERWOOD_TG_API_TOKEN'', ''SHERWOOD_PRIVATE_KEY'']"

section \<open>The environment of a child\<close>

definition STRIPPED_NAMES :: "string list" where
  "STRIPPED_NAMES = [''SHERWOOD_PRIVATE_KEY'', ''TELEGRAM_BOT_TOKEN'']"

definition STRIPPED_PREFIXES :: "string list" where
  "STRIPPED_PREFIXES = [''SHERWOOD_TG_'']"

definition child_env :: "environ \<Rightarrow> environ" where
  "child_env source = filter (\<lambda>(k, v). upper k \<notin> set STRIPPED_NAMES
     \<and> \<not> list_ex (\<lambda>p. startswith p (upper k)) STRIPPED_PREFIXES) source"

section \<open>Keys and addresses\<close>

text \<open>\<open>(raw or "").strip()\<close> against \<open>^(?:0x)?([0-9a-fA-F]{64})$\<close> and \<open>^0x[0-9a-fA-F]{40}$\<close>\<close>

definition normalize_private_key :: "string option \<Rightarrow> string option" where
  "normalize_private_key raw = (let s = strip (case raw of None \<Rightarrow> [] | Some r \<Rightarrow> r);
       h = (if startswith ''0x'' s then drop 2 s else s)
     in if length h = 64 \<and> list_all is_hex h then Some (''0x'' @ lower h) else None)"

definition normalize_address :: "string option \<Rightarrow> string option" where
  "normalize_address raw = (let s = strip (case raw of None \<Rightarrow> [] | Some r \<Rightarrow> r)
     in if address_re s then Some s else None)"

section \<open>Facts\<close>

text \<open>
  No process the plugin spawns sees one of its secrets, in whatever case the name is written,
  and every variable that is neither named as one nor starts with \<open>SHERWOOD_TG_\<close> passes unchanged;
  a scope that refuses a secret never gives way to the environment of the process.
\<close>

theorem children_see_no_secret:
  "((k, v) \<in> set (child_env env) \<longrightarrow> (k, v) \<in> set env \<and> upper k \<notin> set SECRET_NAMES)
   \<and> ((k, v) \<in> set env \<and> upper k \<notin> set STRIPPED_NAMES \<and> \<not> startswith ''SHERWOOD_TG_'' (upper k)
      \<longrightarrow> (k, v) \<in> set (child_env env))
   \<and> get_secret Refuses env name None = None"
  by (auto simp: child_env_def SECRET_NAMES_def STRIPPED_NAMES_def STRIPPED_PREFIXES_def get_secret_def startswith_def)

theorem children_see_no_secret_witness:
  "(''PATH'', ''/bin'') \<in> set (child_env [(''PATH'', ''/bin''), (''sherwood_private_key'', ''k'')])
   \<and> (''sherwood_private_key'', ''k'') \<notin> set (child_env [(''PATH'', ''/bin''), (''sherwood_private_key'', ''k'')])"
proof -
  let ?env = "[(''PATH'', ''/bin''), (''sherwood_private_key'', ''k'')]"
  have "upper ''PATH'' \<notin> set STRIPPED_NAMES" "\<not> startswith ''SHERWOOD_TG_'' (upper ''PATH'')"
    "upper ''sherwood_private_key'' \<in> set SECRET_NAMES" by code_simp+
  then show ?thesis
    using children_see_no_secret [of "''PATH''" "''/bin''" ?env "[]"]
      children_see_no_secret [of "''sherwood_private_key''" "''k''" ?env "[]"] by simp
qed

end
