(* ===== verification/Watchdog.thy ===== *)
theory Watchdog
  imports Exposure ChildEnv AppLink Links
begin

text \<open>
  \<open>cli_watchdog.py\<close>: four script crons whose output is the alert. \<open>digest\<close> prints what the ticks of
  all funds found and the concentration alerts, \<open>aum\<close> compares the total of the funds with the last
  reading, \<open>gas\<close> the monitor wallet's balance with a floor, \<open>stream\<close> the status file of the supervisor
  with the clock. The state files are arguments and results; which processes are alive, what the
  command line tool printed and what the RPC answered are arguments. Texts are UTF-8.
\<close>

section \<open>A tick with the exposure\<close>

text \<open>
  \<open>cron_tick(..., include_exposure)\<close>: the cursor is written before the exposure is asked for, so an
  exception of the aggregation leaves it moved and loses the events.
\<close>

definition tick_with_exposure ::
  "(string \<Rightarrow> time option) \<Rightarrow> time \<Rightarrow> string \<Rightarrow> cli_output \<Rightarrow> bool \<Rightarrow> (string \<times> cli_output) list \<Rightarrow> pyfloat
   \<Rightarrow> cursor_file \<Rightarrow> cursor_file \<times> (json list \<times> concentration_alert list) result" where
  "tick_with_exposure ts_of now sub out include answers threshold cf =
    (case cron_tick ts_of now sub out cf of
       Inl e \<Rightarrow> (cf, Inl e)
     | Inr (cf', Check_failed) \<Rightarrow> (cf', Inr ([], []))
     | Inr (cf', Ticked evs c) \<Rightarrow> (cf',
         if include \<and> answers \<noteq> []
         then and_then (aggregate_exposure answers) (\<lambda>report. Inr (evs, check_concentration report threshold))
         else Inr (evs, [])))"

section \<open>digest\<close>

text \<open>\<open>json.dumps(v)\<close>\<close>

function dumps :: "json \<Rightarrow> string" where
  "dumps JNull = ''null''"
| "dumps (JBool b) = (if b then ''true'' else ''false'')"
| "dumps (JInt i) = str_int i"
| "dumps (JNum r) = repr_float (Fl r)"
| "dumps (JStr s) = json_string s"
| "dumps (JList js) = ''['' @ join '', '' (map dumps js) @ '']''"
| "dumps (JObj kvs) = ''{'' @ join '', '' (map (\<lambda>kv. json_string (fst kv) @ '': '' @ dumps (snd kv)) kvs) @ ''}''"
  by pat_completeness auto
termination
  by (relation "measure size")
    (auto simp: size_list_estimation' less_Suc_eq_le intro: less_imp_le [OF size_snd_less])

definition first_truthy :: "json \<Rightarrow> json \<Rightarrow> json" where
  "first_truthy a b = (if truthy a then a else b)"

text \<open>\<open>sender[:10]\<close>\<close>

definition slice10 :: "json \<Rightarrow> string result" where
  "slice10 j = (case j of
     JStr s \<Rightarrow> Inr (take 10 s) | JList l \<Rightarrow> Inr (str_json (JList (take 10 l))) | _ \<Rightarrow> Inl Type_error)"

definition ellipsis :: string where "ellipsis = [CHR 0xE2, CHR 0x80, CHR 0xA6]"

definition format_event :: "string \<Rightarrow> json \<Rightarrow> string result" where
  "format_event fund ev = and_then (fields_of ev) (\<lambda>o'.
     let kind = key_or o' ''kind'' JNull in
     if kind = JStr ''chain'' then
       (let pid = first_truthy (key_or o' ''proposalId'' JNull)
            (first_truthy (key_or o' ''id'' JNull) (JStr []))
        in Inr (''- '' @ fund @ '': '' @ str_json (key_or o' ''type'' (JStr ''Event''))
             @ (if truthy pid then '' proposal='' @ str_json pid else [])
             @ '' block='' @ str_json (key_or o' ''block'' (JStr []))))
     else if kind = JStr ''xmtp'' then
       (let sender = key_or o' ''from'' (JStr []) in
        case first_truthy (key_or o' ''text'' JNull)
            (first_truthy (key_or o' ''content'' JNull) (JStr [])) of
          JStr t \<Rightarrow>
            let t = strip t; t = (if length t > 80 then take 77 t @ ''...'' else t) in
            and_then (if truthy sender then and_then (slice10 sender) (\<lambda>s. Inr ('' from='' @ s @ ellipsis)) else Inr [])
              (\<lambda>from_text.
            Inr (''- '' @ fund @ '': '' @ str_json (key_or o' ''type'' (JStr ''MESSAGE'')) @ from_text @ '' '' @ t))
        | _ \<Rightarrow> Inl Attribute_error)
     else Inr (''- '' @ fund @ '': '' @ dumps ev))"

definition format_alert :: "concentration_alert \<Rightarrow> string" where
  "format_alert a = ''- CONCENTRATION: '' @ al_protocol a @ '' '' @ repr_float (al_pct a) @ ''% across [''
     @ join '', '' (al_funds_exposed a) @ '']''"

text \<open>The alerts of one tick that name a protocol not seen yet\<close>

fun new_alerts :: "concentration_alert list \<Rightarrow> string list \<Rightarrow> string list \<times> string list" where
  "new_alerts [] seen = ([], seen)"
| "new_alerts (a # as) seen =
    (if al_protocol a = [] \<or> al_protocol a \<in> set seen then new_alerts as seen
     else case new_alerts as (al_protocol a # seen) of (ls, seen') \<Rightarrow> (format_alert a # ls, seen'))"

text \<open>What one fund's tick is given: the time, the session check, the vault answers of all funds\<close>

record tick_input =
  ti_fund :: string
  ti_now :: time
  ti_session :: cli_output
  ti_vaults :: "(string \<times> cli_output) list"

text \<open>
  The loop over the funds. A tick that raises is logged and skipped; an event that cannot be
  written raises out of the digest, with the cursors as they are by then.
\<close>

fun digest_loop ::
  "(string \<Rightarrow> time option) \<Rightarrow> pyfloat \<Rightarrow> tick_input list \<Rightarrow> string list \<Rightarrow> cursor_file
   \<Rightarrow> cursor_file \<times> (string list \<times> string list) result" where
  "digest_loop ts_of threshold [] seen cf = (cf, Inr ([], []))"
| "digest_loop ts_of threshold (i # is) seen cf =
    (case tick_with_exposure ts_of (ti_now i) (ti_fund i) (ti_session i) True (ti_vaults i) threshold cf of
       (cf', Inl e) \<Rightarrow> digest_loop ts_of threshold is seen cf'
     | (cf', Inr (evs, alerts)) \<Rightarrow> (case mapM (format_event (ti_fund i)) evs of
           Inl e \<Rightarrow> (cf', Inl e)
         | Inr ls \<Rightarrow> (case new_alerts alerts seen of (as, seen') \<Rightarrow>
             (case digest_loop ts_of threshold is seen' cf' of (cf'', r) \<Rightarrow>
               (cf'', and_then r (\<lambda>(ls', as'). Inr (ls @ ls', as @ as')))))))"

definition digest_text :: "string list \<Rightarrow> string list \<Rightarrow> string" where
  "digest_text ls as = (if ls = [] \<and> as = [] then [] else
     join nl ((if ls = [] then [] else ''Sherwood digest:'' # ls)
       @ (if as = [] then [] else (if ls = [] then [] else [[]]) @ ''Concentration alerts:'' # as)))"

definition digest :: "(string \<Rightarrow> time option) \<Rightarrow> pyfloat \<Rightarrow> tick_input list \<Rightarrow> cursor_file \<Rightarrow> cursor_file \<times> string result" where
  "digest ts_of threshold is cf = (case digest_loop ts_of threshold is [] cf of (cf', r) \<Rightarrow>
     (cf', and_then r (\<lambda>(ls, as). Inr (digest_text ls as))))"

section \<open>aum\<close>

definition fl_abs :: "pyfloat \<Rightarrow> pyfloat" where
  "fl_abs f = (if fl_less f (Fl 0) then fl_neg f else f)"

definition delta_sign :: string where "delta_sign = [CHR 0xCE, CHR 0x94]"
definition arrow :: string where "arrow = [CHR 0xE2, CHR 0x86, CHR 0x92]"

definition delta_pct :: "pyfloat \<Rightarrow> pyfloat \<Rightarrow> pyfloat" where
  "delta_pct prior current = fl_mul (fl_div (fl_add current (fl_neg prior)) prior) (Fl 100)"

definition aum_alert :: "pyfloat \<Rightarrow> pyfloat option \<Rightarrow> pyfloat \<Rightarrow> string" where
  "aum_alert threshold prior current = (case prior of
     None \<Rightarrow> []
   | Some p \<Rightarrow>
       if fl_less (Fl 0) p \<and> fl_le threshold (fl_abs (delta_pct p current))
       then ''Sherwood AUM '' @ delta_sign @ '' '' @ (if fl_le (Fl 0) (delta_pct p current) then ''+'' else [])
         @ fl_fixed False False 2 (delta_pct p current) @ ''% (prev $'' @ fl_fixed False True 0 p @ '' '' @ arrow
         @ '' now $'' @ fl_fixed False True 0 current @ '')''
       else [])"

text \<open>The state file holds the last reading; it is replaced whenever there is a new one.\<close>

definition aum :: "config \<Rightarrow> (string \<times> cli_output) list \<Rightarrow> pyfloat option \<Rightarrow> pyfloat option \<times> string" where
  "aum cfg answers prior =
    (if fl_le (cf_aum_alert_threshold_pct cfg) (Fl 0) \<or> cf_funds cfg = [] then (prior, [])
     else case aggregate_exposure answers of
       Inl e \<Rightarrow> (prior, [])
     | Inr report \<Rightarrow> (Some (er_total_aum_usd report),
         aum_alert (cf_aum_alert_threshold_pct cfg) prior (er_total_aum_usd report)))"

section \<open>gas\<close>

definition is_http_url :: "string \<Rightarrow> bool" where
  "is_http_url url = (case urlsplit url of Inl e \<Rightarrow> False
     | Inr u \<Rightarrow> up_scheme u \<in> {''http'', ''https''} \<and> host_of u \<noteq> [])"

text \<open>\<open>None\<close> stands for a request that failed; any other failure is no balance either.\<close>

definition eth_balance :: "string \<Rightarrow> json option \<Rightarrow> pyfloat option" where
  "eth_balance rpc_url body = (if \<not> is_http_url rpc_url then None else case body of
     Some (JObj o') \<Rightarrow> (case key_or o' ''result'' JNull of
         JStr s \<Rightarrow> (case py_int16 s of None \<Rightarrow> None
           | Some wei \<Rightarrow> (case fl_of_int wei of Inl e \<Rightarrow> None | Inr f \<Rightarrow> Some (fl_div f (Fl (10 ^ 18)))))
       | _ \<Rightarrow> None)
   | _ \<Rightarrow> None)"

text \<open>The address of a key comes from an external library: \<open>derive\<close>, \<open>None\<close> when it raises.\<close>

definition agent_address :: "(string \<Rightarrow> string option) \<Rightarrow> string option \<Rightarrow> string option \<Rightarrow> string option" where
  "agent_address derive raw_address raw_key =
    (if raw_address \<noteq> None \<and> raw_address \<noteq> Some [] then normalize_address raw_address
     else if raw_key \<noteq> None \<and> raw_key \<noteq> Some [] then
       (case normalize_private_key raw_key of None \<Rightarrow> None | Some k \<Rightarrow> derive k)
     else None)"

definition gas :: "config \<Rightarrow> string option \<Rightarrow> json option \<Rightarrow> string" where
  "gas cfg address body = (case address of None \<Rightarrow> []
   | Some a \<Rightarrow>
       let rpc_url = strip (cf_gas_rpc_url cfg) in
       if rpc_url = [] then []
       else (case eth_balance rpc_url body of None \<Rightarrow> []
       | Some balance \<Rightarrow>
           if fl_le (cf_gas_alert_min_eth cfg) balance then []
           else ''Sherwood gas alert '' @ em_dash @ '' agent '' @ a @ '':'' @ nl @ ''- robinhood: ''
             @ fl_fixed False False 6 balance @ '' ETH (below '' @ repr_float (cf_gas_alert_min_eth cfg) @ '' ETH floor)''))"

section \<open>stream\<close>

definition pid_alive :: "(int \<Rightarrow> bool) \<Rightarrow> json \<Rightarrow> bool" where
  "pid_alive alive pid = (case pid of JInt p \<Rightarrow> 0 < p \<and> alive p | _ \<Rightarrow> False)"

text \<open>What the watchdog says of one row of the status file\<close>

datatype stream_state = Skipped | Dead string string | Stale string | Fine

definition event_age :: "int \<Rightarrow> json \<Rightarrow> int option" where
  "event_age now j = (case j of
     JInt i \<Rightarrow> if 0 < i then Some (now - i) else None
   | JBool b \<Rightarrow> if b then Some (now - 1) else None
   | JNum r \<Rightarrow> if 0 < r then Some (now - trunc r) else None
   | _ \<Rightarrow> None)"

definition stream_row :: "(int \<Rightarrow> bool) \<Rightarrow> bool \<Rightarrow> int \<Rightarrow> int \<Rightarrow> json \<Rightarrow> stream_state" where
  "stream_row alive host_alive now stale_minutes item = (case item of
     JObj o' \<Rightarrow>
       let sub = str_json (key_or o' ''subdomain'' (JStr ''?'')); pid = key_or o' ''pid'' (JInt 0) in
       if \<not> host_alive then Dead sub ''Hermes is not running''
       else if \<not> truthy (key_or o' ''restarting'' JNull) \<and> \<not> pid_alive alive pid
       then Dead sub (''pid='' @ str_json (first_truthy pid (JInt 0)))
       else (case event_age now (key_or o' ''last_event_at'' JNull) of
           None \<Rightarrow> Fine
         | Some age \<Rightarrow> if age > stale_minutes * 60
             then Stale (sub @ '' ('' @ str_int (age div 60) @ ''m since last event)'') else Fine)
   | _ \<Rightarrow> Skipped)"

definition dead_line :: "stream_state \<Rightarrow> string list" where
  "dead_line s = (case s of Dead sub why \<Rightarrow> [''- '' @ sub @ '': NO SUPERVISOR ('' @ why @ '')''] | _ \<Rightarrow> [])"

definition stale_line :: "int \<Rightarrow> stream_state \<Rightarrow> string list" where
  "stale_line minutes s = (case s of
     Stale entry' \<Rightarrow> [''- '' @ entry' @ '': stale, threshold '' @ str_int minutes @ ''m''] | _ \<Rightarrow> [])"

text \<open>\<open>payload\<close> is the status file (\<open>None\<close>: missing, unreadable or not JSON).\<close>

definition stream :: "(int \<Rightarrow> bool) \<Rightarrow> config \<Rightarrow> time \<Rightarrow> json option \<Rightarrow> string" where
  "stream alive cfg now payload = (case payload of
     Some (JObj p) \<Rightarrow> (case key_or p ''funds'' JNull of
         JList items \<Rightarrow>
           let rows = map (stream_row alive (pid_alive alive (key_or p ''host_pid'' JNull)) (trunc now)
                 (cf_stream_stale_minutes cfg)) items;
               ls = concat (map dead_line rows) @ concat (map (stale_line (cf_stream_stale_minutes cfg)) rows)
           in if ls = [] then [] else join nl (''Sherwood stream health:'' # ls)
       | _ \<Rightarrow> [])
   | _ \<Rightarrow> [])"

end
