(* ===== verification/Router.thy ===== *)
theory Router
  imports Events
begin

text \<open>
  \<open>router.py\<close>: the events of a fund's streams go to the handlers. A chat message arrives on two
  paths, so the router remembers the last 128 message ids of each fund (an LRU list, the oldest
  first) and drops a message whose id it still knows. \<open>Supervisor._read_stdout\<close> feeds it the lines
  of one stream. The facts show that the list holds the 128 most recent distinct ids, that
  the buffer holds the newest blocks, and what ends a reader.
\<close>

section \<open>The router\<close>

definition DEDUPE_CAPACITY :: nat where "DEDUPE_CAPACITY = 128"

record router =
  ro_buffer :: "string list"
  ro_count :: "string \<Rightarrow> int"
  ro_last :: "string \<Rightarrow> time option"
  ro_seen :: "string \<Rightarrow> string list"

definition fresh_router :: "string list \<Rightarrow> router" where
  "fresh_router q = \<lparr>ro_buffer = q, ro_count = (\<lambda>_. 0), ro_last = (\<lambda>_. None), ro_seen = (\<lambda>_. [])\<rparr>"

text \<open>What one call did: nothing (not decoded, or a duplicate), or a handler ran.\<close>

datatype routed = Not_decoded | Duplicate | Handled "string option" | Handler_failed exn

definition remember :: "string list \<Rightarrow> string \<Rightarrow> string list" where
  "remember s i = (let s' = s @ [i] in if length s' > DEDUPE_CAPACITY then tl s' else s')"

definition count_event :: "string \<Rightarrow> time \<Rightarrow> router \<Rightarrow> router" where
  "count_event sub now r = r\<lparr>ro_count := (ro_count r)(sub := ro_count r sub + 1),
     ro_last := (ro_last r)(sub := Some now)\<rparr>"

definition handle_record :: "config \<Rightarrow> string \<Rightarrow> event_record \<Rightarrow> router \<Rightarrow> router \<times> routed" where
  "handle_record cfg sub rec r = (case rec of
     Chain_event ev \<Rightarrow> (case handle_chain_event cfg sub ev (ro_buffer r) of (q, p) \<Rightarrow>
       (r\<lparr>ro_buffer := q\<rparr>, case p of Inl e \<Rightarrow> Handler_failed e | Inr s \<Rightarrow> Handled s))
   | Session_message msg \<Rightarrow> (r\<lparr>ro_buffer := handle_xmtp_message cfg sub msg (ro_buffer r)\<rparr>, Handled None))"

text \<open>Only a \<open>ValueError\<close> of the decoder is caught.\<close>

definition route :: "config \<Rightarrow> time \<Rightarrow> string \<Rightarrow> json \<Rightarrow> router \<Rightarrow> (router \<times> routed) result" where
  "route cfg now sub raw r = (case decode_record raw of
     Inl e \<Rightarrow> if e = Value_error then Inr (r, Not_decoded) else Inl e
   | Inr rec \<Rightarrow> (case rec of
       Chain_event ev \<Rightarrow> Inr (handle_record cfg sub rec (count_event sub now r))
     | Session_message msg \<Rightarrow>
         let seen = ro_seen r sub in
         if sm_id msg \<in> set seen
         then Inr (r\<lparr>ro_seen := (ro_seen r)(sub := removeAll (sm_id msg) seen @ [sm_id msg])\<rparr>, Duplicate)
         else Inr (handle_record cfg sub rec (count_event sub now
                (r\<lparr>ro_seen := (ro_seen r)(sub := remember seen (sm_id msg))\<rparr>)))))"

section \<open>Reading a stream\<close>

text \<open>A line of the child's output: blank, not JSON, or a value (with the time it is read).\<close>

datatype stream_line = Blank_line | Malformed_line | Json_line time json

text \<open>The reader ends with the stream (\<open>None\<close>), or with the exception a line raised.\<close>

fun read_stdout :: "config \<Rightarrow> string \<Rightarrow> stream_line list \<Rightarrow> router \<Rightarrow> router \<times> routed list \<times> exn option" where
  "read_stdout cfg sub [] r = (r, [], None)"
| "read_stdout cfg sub (l # ls) r = (case l of
     Json_line now raw \<Rightarrow> (case route cfg now sub raw r of
         Inl e \<Rightarrow> (r, [], Some e)
       | Inr (r', d) \<Rightarrow> (case read_stdout cfg sub ls r' of (r'', ds, e) \<Rightarrow> (r'', d # ds, e)))
   | _ \<Rightarrow> read_stdout cfg sub ls r)"

section \<open>The list of known ids\<close>

text \<open>The distinct ids of a history, the most recent occurrence last\<close>

fun recency :: "'a list \<Rightarrow> 'a list" where
  "recency [] = []"
| "recency (x # xs) = (if x \<in> set xs then recency xs else x # recency xs)"

lemma set_recency [simp]: "set (recency xs) = set xs"
  by (induction xs) auto

lemma distinct_recency [simp]: "distinct (recency xs)"
  by (induction xs) auto

lemma recency_snoc: "recency (xs @ [x]) = removeAll x (recency xs) @ [x]"
  by (induction xs) auto

lemma lastn_removeAll:
  assumes "distinct xs" "x \<notin> set (lastn n xs)"
  shows "lastn n (removeAll x xs) = lastn n xs"
proof -
  let ?a = "take (length xs - n) xs" and ?b = "lastn n xs"
  have split: "xs = ?a @ ?b" by (simp add: lastn_def)
  have "removeAll x xs = removeAll x ?a @ ?b"
    by (subst split) (simp add: removeAll_id assms(2) del: append_take_drop_id)
  moreover have "x \<notin> set xs \<or> n \<le> length xs"
    using assms(2) by (cases "length xs \<le> n") auto
  ultimately show ?thesis
    by (cases "n \<le> length xs") (auto simp: lastn_def removeAll_id)
qed

lemma lastn_removeAll_in:
  assumes "distinct xs" "x \<in> set (lastn n xs)"
  shows "lastn n (removeAll x xs @ [x]) = removeAll x (lastn n xs) @ [x]"
proof -
  let ?a = "take (length xs - n) xs" and ?b = "lastn n xs"
  have split: "xs = ?a @ ?b" by (simp add: lastn_def)
  have "x \<notin> set ?a" using assms
    by (metis split distinct_append disjoint_iff)
  then have 1: "removeAll x xs = ?a @ removeAll x ?b"
    by (subst split) (simp add: removeAll_id del: append_take_drop_id)
  have "distinct ?b" using assms(1) by (simp add: lastn_def)
  then have "length (removeAll x ?b) = length ?b - 1"
    using assms(2) by (simp add: distinct_remove1_removeAll [symmetric] length_remove1)
  moreover have "length ?b > 0" using assms(2) by (cases ?b) auto
  ultimately have "length (removeAll x ?b @ [x]) = length ?b" by simp
  then show ?thesis unfolding 1 append_assoc
    by (auto simp: lastn_def min_def)
qed

lemma remember_ring: "remember = ring_push DEDUPE_CAPACITY"
  by (simp add: remember_def ring_push_def fun_eq_iff Let_def)

interpretation seen_ids: newest_queue remember "\<lambda>q. q" DEDUPE_CAPACITY
  unfolding remember_ring by unfold_locales (rule ring_push_items)

definition known :: "string list \<Rightarrow> string list" where
  "known ids = lastn DEDUPE_CAPACITY (recency ids)"

lemma known_new:
  assumes "i \<notin> set (known ids)"
  shows "remember (known ids) i = known (ids @ [i])"
proof -
  have "remember (known ids) i = lastn DEDUPE_CAPACITY (known ids @ [i])"
    by (rule seen_ids.items_push) (simp add: known_def)
  also have "\<dots> = lastn DEDUPE_CAPACITY (lastn DEDUPE_CAPACITY (removeAll i (recency ids)) @ [i])"
    using assms by (simp add: known_def lastn_removeAll)
  also have "\<dots> = known (ids @ [i])" by (simp add: lastn_append known_def recency_snoc)
  finally show ?thesis .
qed

lemma known_again:
  assumes "i \<in> set (known ids)"
  shows "removeAll i (known ids) @ [i] = known (ids @ [i])"
  using assms by (simp add: known_def recency_snoc lastn_removeAll_in)

section \<open>What the router promises\<close>

text \<open>The block an event gives, if any\<close>

definition block_of :: "config \<Rightarrow> string \<Rightarrow> event_record \<Rightarrow> string list" where
  "block_of cfg sub rec = (case rec of
     Chain_event ev \<Rightarrow>
       if ce_type ev \<in> set (CHAIN_INJECT_ONLY @ CHAIN_INJECT_AND_POST)
       then [format_chain_injection sub ev ''normal''] else []
   | Session_message msg \<Rightarrow>
       if sm_type msg = ''MESSAGE''
       then (if cf_inject_mentions_only cfg \<and> CHR ''@'' \<notin> set (sm_text msg) then []
             else [format_xmtp_injection sub msg ''normal''])
       else (case map_of xmtp_priority (sm_type msg) of
           None \<Rightarrow> [] | Some p \<Rightarrow> [format_xmtp_injection sub msg p]))"

lemma no_priority_for_reactions: "map_of xmtp_priority ''REACTION'' = None"
  by (simp add: xmtp_priority_def)

lemma buffer_of_handle:
  "ro_buffer (fst (handle_record cfg sub rec r)) = foldl buf_push (ro_buffer r) (block_of cfg sub rec)"
  "ro_seen (fst (handle_record cfg sub rec r)) = ro_seen r"
  by (auto simp: handle_record_def handle_chain_event_def handle_xmtp_message_def block_of_def
      XMTP_NEVER_INJECT_def no_priority_for_reactions Let_def
      split: event_record.split option.split if_splits)

text \<open>
  The specification keeps whole histories: every id a fund received, and every block since the
  last turn read them. A step of the world is an arriving value or a turn that drains the buffer.
\<close>

datatype happening = Arrives time string json | Turn_reads

record history =
  hi_ids :: "string \<Rightarrow> string list"
  hi_blocks :: "string list"

definition spec_step :: "config \<Rightarrow> happening \<Rightarrow> history \<Rightarrow> history" where
  "spec_step cfg h s = (case h of
     Turn_reads \<Rightarrow> s\<lparr>hi_blocks := []\<rparr>
   | Arrives now sub raw \<Rightarrow> (case decode_record raw of
       Inl e \<Rightarrow> s
     | Inr (Chain_event ev) \<Rightarrow> s\<lparr>hi_blocks := hi_blocks s @ block_of cfg sub (Chain_event ev)\<rparr>
     | Inr (Session_message m) \<Rightarrow>
         s\<lparr>hi_ids := (hi_ids s)(sub := hi_ids s sub @ [sm_id m]),
           hi_blocks := hi_blocks s @ (if sm_id m \<in> set (known (hi_ids s sub)) then []
             else block_of cfg sub (Session_message m))\<rparr>))"

definition router_step :: "config \<Rightarrow> happening \<Rightarrow> router \<Rightarrow> router" where
  "router_step cfg h r = (case h of
     Turn_reads \<Rightarrow> r\<lparr>ro_buffer := snd (buf_drain (ro_buffer r))\<rparr>
   | Arrives now sub raw \<Rightarrow> (case route cfg now sub raw r of Inl e \<Rightarrow> r | Inr p \<Rightarrow> fst p))"

definition window :: "history \<Rightarrow> (string \<Rightarrow> string list) \<times> string list" where
  "window s = (\<lambda>f. known (hi_ids s f), lastn DEFAULT_MAX (hi_blocks s))"

lemma push_window:
  "foldl buf_push (lastn DEFAULT_MAX q) xs = lastn DEFAULT_MAX (q @ xs)"
proof -
  have "foldl buf_push (lastn DEFAULT_MAX q) xs = lastn DEFAULT_MAX (lastn DEFAULT_MAX q @ xs)"
    by (rule buf.fold_push) simp
  also have "\<dots> = lastn DEFAULT_MAX (q @ xs)" by (rule lastn_append)
  finally show ?thesis .
qed

lemma route_keeps_window:
  assumes "(ro_seen r, ro_buffer r) = window s"
  shows "(ro_seen (router_step cfg h r), ro_buffer (router_step cfg h r)) = window (spec_step cfg h s)"
proof (cases h)
  case Turn_reads
  then show ?thesis using assms by (simp add: router_step_def spec_step_def window_def buf_drain_def)
next
  case (Arrives now sub raw)
  have seen: "ro_seen r f = known (hi_ids s f)" and buf: "ro_buffer r = lastn DEFAULT_MAX (hi_blocks s)" for f
    using assms by (simp_all add: window_def)
  show ?thesis
  proof (cases "decode_record raw")
    case (Inl e)
    then show ?thesis using assms Arrives by (simp add: router_step_def spec_step_def route_def)
  next
    case (Inr rec)
    then show ?thesis
      using Arrives seen buf
      by (cases rec) (auto simp: router_step_def spec_step_def route_def window_def Let_def fun_eq_iff
          buffer_of_handle push_window known_new known_again count_event_def split: prod.split)
  qed
qed

definition run_router :: "config \<Rightarrow> happening list \<Rightarrow> router" where
  "run_router cfg hs = foldl (\<lambda>r h. router_step cfg h r) (fresh_router []) hs"

definition run_history :: "config \<Rightarrow> happening list \<Rightarrow> history" where
  "run_history cfg hs = foldl (\<lambda>s h. spec_step cfg h s) \<lparr>hi_ids = (\<lambda>_. []), hi_blocks = []\<rparr> hs"

lemma run_window: "(ro_seen (run_router cfg hs), ro_buffer (run_router cfg hs)) = window (run_history cfg hs)"
proof (induction hs rule: rev_induct)
  case Nil
  show ?case by (simp add: run_router_def run_history_def fresh_router_def window_def known_def)
next
  case (snoc h hs)
  then show ?case using route_keeps_window [of "run_router cfg hs" "run_history cfg hs" cfg h]
    by (simp add: run_router_def run_history_def)
qed

lemma decode_message: "route cfg now sub raw r = (case decode_record raw of
    Inr (Session_message m) \<Rightarrow> if sm_id m \<in> set (ro_seen r sub)
      then Inr (r\<lparr>ro_seen := (ro_seen r)(sub := removeAll (sm_id m) (ro_seen r sub) @ [sm_id m])\<rparr>, Duplicate)
      else Inr (handle_record cfg sub (Session_message m) (count_event sub now
            (r\<lparr>ro_seen := (ro_seen r)(sub := remember (ro_seen r sub) (sm_id m))\<rparr>)))
  | Inr (Chain_event ev) \<Rightarrow> Inr (handle_record cfg sub (Chain_event ev) (count_event sub now r))
  | Inl e \<Rightarrow> if e = Value_error then Inr (r, Not_decoded) else Inl e)"
  by (auto simp: route_def Let_def split: sum.split event_record.split)

text \<open>Decoding raises a \<open>ValueError\<close> or a \<open>TypeError\<close>, nothing else.\<close>

lemma int_json_errors: "int_json j = Inl e \<Longrightarrow> e = Value_error \<or> e = Type_error"
  by (cases j) (auto split: option.splits)

lemma py_iter_errors: "py_iter j = Inl e \<Longrightarrow> e = Type_error"
  by (cases j) auto

lemma pair_of_errors: "pair_of j = Inl e \<Longrightarrow> e = Value_error \<or> e = Type_error"
  by (cases "py_iter j") (auto simp: pair_of_def dest: py_iter_errors split: list.splits if_splits)

lemma mapM_errors: "mapM f xs = Inl e \<Longrightarrow> \<exists>x \<in> set xs. f x = Inl e"
proof (induction xs)
  case (Cons x xs)
  then show ?case by (cases "f x"; cases "mapM f xs") auto
qed simp

lemma py_dict_errors:
  assumes "py_dict j = Inl e"
  shows "e = Value_error \<or> e = Type_error"
proof (cases "py_iter j")
  case (Inl e')
  then show ?thesis using assms by (cases j) auto
next
  case (Inr xs)
  then have "mapM pair_of xs = Inl e" using assms
    by (cases j; cases "mapM pair_of xs") auto
  then show ?thesis using mapM_errors pair_of_errors by blast
qed

lemma decode_errors: "decode_record raw = Inl e \<Longrightarrow> e = Value_error \<or> e = Type_error"
proof (cases raw)
  case (JObj o')
  assume d: "decode_record raw = Inl e"
  show ?thesis
  proof (cases "int_json (key_or o' ''block'' (JInt 0))")
    case (Inl e')
    then show ?thesis using d JObj int_json_errors [OF Inl] by (auto simp: decode_record_def split: if_splits)
  next
    case (Inr b)
    then show ?thesis using d JObj py_dict_errors
      by (cases "py_dict (key_or o' ''args'' (JObj []))") (auto simp: decode_record_def split: if_splits)
  qed
qed (auto simp: decode_record_def)

section \<open>Properties\<close>

text \<open>
  C34: Whatever arrives on the streams of whatever funds, and whenever turns read in between, the
  router holds exactly the 128 most recent distinct message ids of each fund and the 200 newest
  blocks that no turn has read, as the specification with the whole histories says.
\<close>

theorem router_refines_history:
  "ro_seen (run_router cfg hs) f = lastn 128 (recency (hi_ids (run_history cfg hs) f))
   \<and> ro_buffer (run_router cfg hs) = lastn 200 (hi_blocks (run_history cfg hs))"
  using run_window [of cfg hs] by (simp add: window_def known_def DEDUPE_CAPACITY_def DEFAULT_MAX_def)

text \<open>
  A chat message is handled if and only if its id is not among the last 128 distinct ids of its
  fund; a dropped one changes no buffer, count or time, and a handled one counts once.
\<close>

theorem message_handled_once:
  assumes "decode_record raw = Inr (Session_message m)"
  shows "\<exists>r' d. route cfg now sub raw (run_router cfg hs) = Inr (r', d)
    \<and> (if sm_id m \<in> set (lastn 128 (recency (hi_ids (run_history cfg hs) sub)))
       then d = Duplicate \<and> ro_buffer r' = ro_buffer (run_router cfg hs)
         \<and> ro_count r' = ro_count (run_router cfg hs) \<and> ro_last r' = ro_last (run_router cfg hs)
       else d = Handled None \<and> ro_count r' sub = ro_count (run_router cfg hs) sub + 1 \<and> ro_last r' sub = Some now)"
proof -
  have seen: "ro_seen (run_router cfg hs) sub = lastn 128 (recency (hi_ids (run_history cfg hs) sub))"
    using run_window [of cfg hs] by (simp add: window_def known_def DEDUPE_CAPACITY_def)
  show ?thesis
    by (simp add: decode_message assms seen handle_record_def count_event_def)
qed

text \<open>
  The router refuses an event it cannot decode without touching its state, and the only
  exception that leaves it is a \<open>TypeError\<close> of the decoder.
\<close>

theorem only_type_errors_leave_the_router:
  "(route cfg now sub raw r = Inl e \<longrightarrow> e = Type_error \<and> decode_record raw = Inl Type_error)
   \<and> (route cfg now sub raw r = Inr (r', Not_decoded) \<longrightarrow> r' = r \<and> decode_record raw = Inl Value_error)"
proof (intro conjI impI)
  assume "route cfg now sub raw r = Inl e"
  then show "e = Type_error" "decode_record raw = Inl Type_error"
    using decode_errors [of raw]
    by (auto simp: decode_message split: sum.splits event_record.splits if_splits)
next
  assume "route cfg now sub raw r = Inr (r', Not_decoded)"
  then show "r' = r" "decode_record raw = Inl Value_error"
    by (auto simp: decode_message handle_record_def split: sum.splits event_record.splits if_splits prod.splits)
qed

text \<open>
  A chain event of a known kind puts its block in the buffer before anything is posted, and a
  summary goes to the fund's chat exactly for the eight kinds that have one, when the
  configuration asks for summaries.
\<close>

theorem chain_event_posts:
  "handle_chain_event cfg sub ev q =
     (foldl buf_push q (block_of cfg sub (Chain_event ev)),
      if cf_xmtp_summaries cfg \<and> ce_type ev \<in> set CHAIN_INJECT_AND_POST
      then and_then (the (map_of chain_summary_formatters (ce_type ev)) ev) (\<lambda>s. Inr (Some s)) else Inr None)"
proof -
  have "ce_type ev \<in> set CHAIN_INJECT_AND_POST \<Longrightarrow> map_of chain_summary_formatters (ce_type ev) \<noteq> None"
    by (auto simp: CHAIN_INJECT_AND_POST_def chain_summary_formatters_def)
  then show ?thesis by (auto simp: handle_chain_event_def block_of_def Let_def)
qed

end
