(* ===== verification/Supervisor.thy ===== *)
theory Supervisor
  imports Watchdog Router
begin

text \<open>
  \<open>supervisor.py\<close>: one child process per fund, restarted with a growing delay, and the status file the
  stream watchdog reads. A stream is what the supervisor knows of its task; the moves are the
  points where it changes: a start, a child spawned, a run that ended, the end of the delay, an event
  routed, a stop. Process ids, the clock and the router are given to each move; a status write may
  fail (\<open>ok\<close>). The facts bound the delay and relate the file to what the watchdog says of it.
\<close>

section \<open>Streams and their status\<close>

record sup_stream =
  ss_pid :: "int option"
  ss_started_at :: time
  ss_run_start :: time
  ss_stop_requested :: bool
  ss_restarting :: bool
  ss_done :: bool
  ss_backoff :: int

record supervisor =
  su_streams :: "(string \<times> sup_stream) list"
  su_last_write :: time
  su_file :: "json option"

definition STATUS_WRITE_MIN_INTERVAL_S :: time where "STATUS_WRITE_MIN_INTERVAL_S = 30"

definition new_stream :: "time \<Rightarrow> sup_stream" where
  "new_stream now = \<lparr>ss_pid = None, ss_started_at = 0, ss_run_start = now, ss_stop_requested = False,
     ss_restarting = False, ss_done = False, ss_backoff = 1\<rparr>"

definition pid_or_zero :: "sup_stream \<Rightarrow> int" where
  "pid_or_zero s = (case ss_pid s of None \<Rightarrow> 0 | Some p \<Rightarrow> p)"

text \<open>A row of \<open>status()\<close>, and the row the file gets (no stderr tail)\<close>

definition stream_status_fields :: "time \<Rightarrow> router \<Rightarrow> string \<times> sup_stream \<Rightarrow> fields" where
  "stream_status_fields now r ss = (case ss of (sub, s) \<Rightarrow>
     [(''subdomain'', JStr sub), (''pid'', JInt (pid_or_zero s)),
      (''uptime_seconds'', JInt (if ss_started_at s = 0 then 0 else trunc (now - ss_started_at s))),
      (''events_seen'', JInt (ro_count r sub)),
      (''last_event_at'', case ro_last r sub of None \<Rightarrow> JNull | Some t \<Rightarrow> JNum t)])"

definition status_row :: "time \<Rightarrow> router \<Rightarrow> string \<times> sup_stream \<Rightarrow> json" where
  "status_row now r ss = JObj (stream_status_fields now r ss @ [(''restarting'', JBool (ss_restarting (snd ss)))])"

definition status_payload :: "time \<Rightarrow> int \<Rightarrow> router \<Rightarrow> (string \<times> sup_stream) list \<Rightarrow> json" where
  "status_payload now host_pid r streams = JObj [(''written_at'', JInt (trunc now)), (''host_pid'', JInt host_pid),
     (''funds'', JList (map (status_row now r) (filter (\<lambda>ss. \<not> ss_stop_requested (snd ss)) streams)))]"

definition write_status :: "bool \<Rightarrow> bool \<Rightarrow> time \<Rightarrow> int \<Rightarrow> router \<Rightarrow> supervisor \<Rightarrow> supervisor" where
  "write_status force ok now host_pid r su =
    (if \<not> force \<and> now - su_last_write su < STATUS_WRITE_MIN_INTERVAL_S then su
     else su\<lparr>su_last_write := now,
       su_file := (if ok then Some (status_payload now host_pid r (su_streams su)) else su_file su)\<rparr>)"

text \<open>At boot: a file that lists funds and was left by another process that is gone is blanked.\<close>

definition clear_stale_status ::
  "(int \<Rightarrow> bool) \<Rightarrow> bool \<Rightarrow> time \<Rightarrow> int \<Rightarrow> router \<Rightarrow> supervisor \<Rightarrow> supervisor \<times> bool" where
  "clear_stale_status alive ok now host_pid r su = (case su_file su of
     None \<Rightarrow> (su, False)
   | Some j \<Rightarrow>
       let pid = (case j of JObj p \<Rightarrow> key_or p ''host_pid'' JNull | _ \<Rightarrow> JNull);
           funds = (case j of JObj p \<Rightarrow> key_or p ''funds'' JNull | _ \<Rightarrow> JNull)
       in if \<not> truthy funds \<or> key_norm pid = JInt host_pid \<or> pid_alive alive pid then (su, False)
          else (write_status True ok now host_pid r su, True))"

section \<open>Moves\<close>

fun stream_put :: "string \<Rightarrow> sup_stream \<Rightarrow> (string \<times> sup_stream) list \<Rightarrow> (string \<times> sup_stream) list" where
  "stream_put k s [] = [(k, s)]"
| "stream_put k s ((k', s') # r) = (if k' = k then (k', s) # r else (k', s') # stream_put k s r)"

definition set_stream :: "string \<Rightarrow> sup_stream \<Rightarrow> supervisor \<Rightarrow> supervisor" where
  "set_stream sub s su = su\<lparr>su_streams := stream_put sub s (su_streams su)\<rparr>"

text \<open>A stream whose task still runs is left alone.\<close>

definition sup_start :: "time \<Rightarrow> string \<Rightarrow> supervisor \<Rightarrow> supervisor" where
  "sup_start now sub su = (case map_of (su_streams su) sub of
     Some s \<Rightarrow> if \<not> ss_done s then su else set_stream sub (new_stream now) su
   | None \<Rightarrow> set_stream sub (new_stream now) su)"

definition run_spawned :: "bool \<Rightarrow> time \<Rightarrow> int \<Rightarrow> int \<Rightarrow> router \<Rightarrow> string \<Rightarrow> sup_stream \<Rightarrow> supervisor \<Rightarrow> supervisor" where
  "run_spawned ok now host_pid pid r sub s su =
     write_status True ok now host_pid r
       (set_stream sub (s\<lparr>ss_pid := Some pid, ss_started_at := now, ss_restarting := False\<rparr>) su)"

text \<open>The end of a run: with the delay reset after a minute's run, or the end of the task\<close>

definition run_ended :: "bool \<Rightarrow> time \<Rightarrow> int \<Rightarrow> router \<Rightarrow> string \<Rightarrow> sup_stream \<Rightarrow> supervisor \<Rightarrow> supervisor" where
  "run_ended ok now host_pid r sub s su =
    (if ss_stop_requested s then set_stream sub (s\<lparr>ss_done := True\<rparr>) su
     else write_status True ok now host_pid r
       (set_stream sub (s\<lparr>ss_backoff := (if now - ss_run_start s > 60 then 1 else ss_backoff s),
          ss_restarting := True\<rparr>) su))"

text \<open>After the delay the loop looks at the stop flag and runs again.\<close>

definition delay_over :: "int \<Rightarrow> time \<Rightarrow> string \<Rightarrow> sup_stream \<Rightarrow> supervisor \<Rightarrow> supervisor" where
  "delay_over backoff_max now sub s su =
     set_stream sub (s\<lparr>ss_backoff := min backoff_max (ss_backoff s * 2), ss_run_start := now,
       ss_done := ss_stop_requested s\<rparr>) su"

definition sup_stop :: "bool \<Rightarrow> time \<Rightarrow> int \<Rightarrow> router \<Rightarrow> string \<Rightarrow> supervisor \<Rightarrow> supervisor" where
  "sup_stop ok now host_pid r sub su = (case map_of (su_streams su) sub of
     None \<Rightarrow> su
   | Some s \<Rightarrow> write_status True ok now host_pid r
       (set_stream sub (s\<lparr>ss_stop_requested := True, ss_done := True\<rparr>) su))"

definition kill_all_sync :: "bool \<Rightarrow> time \<Rightarrow> int \<Rightarrow> router \<Rightarrow> supervisor \<Rightarrow> supervisor" where
  "kill_all_sync ok now host_pid r su = write_status True ok now host_pid r
     (su\<lparr>su_streams := map (\<lambda>(k, s). (k, s\<lparr>ss_stop_requested := True\<rparr>)) (su_streams su)\<rparr>)"

inductive sup_step :: "int \<Rightarrow> supervisor \<Rightarrow> supervisor \<Rightarrow> bool" for backoff_max where
  started: "sup_step backoff_max su (sup_start now sub su)"
| spawned: "map_of (su_streams su) sub = Some s \<Longrightarrow> \<not> ss_done s \<Longrightarrow>
    sup_step backoff_max su (run_spawned ok now host_pid pid r sub s su)"
| ended: "map_of (su_streams su) sub = Some s \<Longrightarrow> \<not> ss_done s \<Longrightarrow>
    sup_step backoff_max su (run_ended ok now host_pid r sub s su)"
| again: "map_of (su_streams su) sub = Some s \<Longrightarrow> \<not> ss_done s \<Longrightarrow>
    sup_step backoff_max su (delay_over backoff_max now sub s su)"
| routed: "sup_step backoff_max su (write_status False ok now host_pid r su)"
| stopped: "sup_step backoff_max su (sup_stop ok now host_pid r sub su)"
| killed: "sup_step backoff_max su (kill_all_sync ok now host_pid r su)"

section \<open>Invariants\<close>

lemma stream_put_set: "(k, s) \<in> set (stream_put k' s' d) \<Longrightarrow> (k = k' \<and> s = s') \<or> (k, s) \<in> set d"
  by (induction k' s' d rule: stream_put.induct) (auto split: if_splits)

lemma stream_put_keys: "map fst (stream_put k s d) = (if k \<in> fst ` set d then map fst d else map fst d @ [k])"
  by (induction k s d rule: stream_put.induct) auto

lemma stream_put_get: "map_of (stream_put k s d) k' = (if k' = k then Some s else map_of d k')"
  by (induction k s d rule: stream_put.induct) auto

lemma write_status_streams [simp]: "su_streams (write_status force ok now host_pid r su) = su_streams su"
  by (simp add: write_status_def)

lemma set_stream_streams [simp]: "su_streams (set_stream sub s su) = stream_put sub s (su_streams su)"
  by (simp add: set_stream_def)

definition sup_ok :: "int \<Rightarrow> supervisor \<Rightarrow> bool" where
  "sup_ok backoff_max su \<longleftrightarrow> distinct (map fst (su_streams su))
     \<and> (\<forall>(k, s) \<in> set (su_streams su). 1 \<le> ss_backoff s \<and> ss_backoff s \<le> max 1 backoff_max)"

lemma sup_ok_put:
  assumes "sup_ok m su" "1 \<le> ss_backoff s" "ss_backoff s \<le> max 1 m"
  shows "sup_ok m (set_stream sub s su)"
  using assms by (auto simp: sup_ok_def stream_put_keys dest!: stream_put_set)

lemma sup_ok_write [simp]: "sup_ok m (write_status force ok now host_pid r su) = sup_ok m su"
  by (simp add: sup_ok_def)

lemma sup_ok_get:
  assumes "sup_ok m su" "map_of (su_streams su) sub = Some s"
  shows "1 \<le> ss_backoff s \<and> ss_backoff s \<le> max 1 m"
  using assms by (auto simp: sup_ok_def dest: map_of_SomeD)

lemma sup_ok_step:
  assumes "sup_step m su su'" "sup_ok m su" "1 \<le> m"
  shows "sup_ok m su'"
  using assms
proof (cases rule: sup_step.cases)
  case (started now sub)
  have "sup_ok m (set_stream sub (new_stream now) su)"
    using assms(2) by (rule sup_ok_put) (simp_all add: new_stream_def)
  then show ?thesis using assms(2) started by (simp add: sup_start_def split: option.split)
next
  case (spawned sub s ok now host_pid pid r)
  then show ?thesis using sup_ok_get [OF assms(2) spawned(2)] assms(2)
    by (simp add: run_spawned_def sup_ok_put)
next
  case (ended sub s ok now host_pid r)
  then show ?thesis using sup_ok_get [OF assms(2) ended(2)] assms(2)
    by (simp add: run_ended_def sup_ok_put)
next
  case (again sub s now)
  then show ?thesis using sup_ok_get [OF assms(2) again(2)] assms(2,3)
    by (simp add: delay_over_def sup_ok_put)
next
  case (routed ok now host_pid r)
  then show ?thesis using assms(2) by simp
next
  case (stopped ok now host_pid r sub)
  then show ?thesis using assms(2) sup_ok_get [OF assms(2)]
    by (auto simp: sup_stop_def sup_ok_put split: option.split)
next
  case (killed ok now host_pid r)
  then show ?thesis using assms(2) by (auto simp: kill_all_sync_def sup_ok_def o_def case_prod_beta)
qed

section \<open>What the watchdog says of the file\<close>

text \<open>Seconds since the last event of a fund, if the router had one\<close>

definition silence :: "int \<Rightarrow> router \<Rightarrow> string \<Rightarrow> int option" where
  "silence now r sub = (case ro_last r sub of None \<Rightarrow> None
     | Some t \<Rightarrow> if 0 < t then Some (now - trunc t) else None)"

definition running :: "(int \<Rightarrow> bool) \<Rightarrow> sup_stream \<Rightarrow> bool" where
  "running alive s \<longleftrightarrow> (\<exists>p. ss_pid s = Some p \<and> 0 < p \<and> alive p)"

lemma pid_text: "str_json (first_truthy (JInt p) (JInt 0)) = str_int p"
  by (cases "p = 0") (simp_all add: first_truthy_def str_json_def)

lemma stream_row_status:
  "stream_row alive True now m (status_row t r (sub, s)) =
    (if \<not> ss_restarting s \<and> \<not> running alive s then Dead sub (''pid='' @ str_int (pid_or_zero s))
     else case silence now r sub of None \<Rightarrow> Fine
       | Some age \<Rightarrow> if age > m * 60 then Stale (sub @ '' ('' @ str_int (age div 60) @ ''m since last event)'') else Fine)"
  by (simp add: stream_row_def status_row_def stream_status_fields_def key_or_def pid_alive_def running_def
      pid_or_zero_def pid_text event_age_def silence_def Let_def split: option.split)

lemma header_ne: "join nl (''Sherwood stream health:'' # ls) \<noteq> []"
  by (cases ls) simp_all

lemma report_empty: "(if ls = [] then [] else join nl (''Sherwood stream health:'' # ls)) = [] \<longleftrightarrow> ls = []"
  using header_ne by (simp del: join.simps)

lemma stream_on_payload:
  assumes "pid_alive alive (JInt host_pid)"
  shows "stream alive cfg now (Some (status_payload t host_pid r streams)) =
    (let rows = map (\<lambda>ss. stream_row alive True (trunc now) (cf_stream_stale_minutes cfg) (status_row t r ss))
           (filter (\<lambda>ss. \<not> ss_stop_requested (snd ss)) streams);
         ls = concat (map dead_line rows) @ concat (map (stale_line (cf_stream_stale_minutes cfg)) rows)
     in if ls = [] then [] else join nl (''Sherwood stream health:'' # ls))"
  using assms by (simp add: stream_def status_payload_def key_or_def o_def Let_def)

text \<open>
  C37: While Hermes runs, the stream watchdog is silent on a status file of the supervisor exactly
  when every stream that was not stopped is waiting for its restart or has a living child, and no
  fund that had an event has been silent for longer than the limit.
\<close>

theorem watchdog_reads_supervisor:
  assumes "0 < host_pid" "alive host_pid"
  shows "stream alive cfg now (Some (status_payload t host_pid r streams)) = [] \<longleftrightarrow>
    (\<forall>(sub, s) \<in> set streams. \<not> ss_stop_requested s \<longrightarrow> (ss_restarting s \<or> running alive s)
      \<and> (\<forall>age. silence (trunc now) r sub = Some age \<longrightarrow> age \<le> cf_stream_stale_minutes cfg * 60))"
proof -
  let ?row = "\<lambda>ss. stream_row alive True (trunc now) (cf_stream_stale_minutes cfg) (status_row t r ss)"
  have "stream alive cfg now (Some (status_payload t host_pid r streams)) = [] \<longleftrightarrow>
      (\<forall>ss \<in> set streams. \<not> ss_stop_requested (snd ss) \<longrightarrow>
        dead_line (?row ss) = [] \<and> stale_line (cf_stream_stale_minutes cfg) (?row ss) = [])"
  proof -
    have "pid_alive alive (JInt host_pid)" using assms by (simp add: pid_alive_def)
    then show ?thesis unfolding stream_on_payload [OF \<open>pid_alive alive (JInt host_pid)\<close>] Let_def report_empty
      by fastforce
  qed
  also have "\<dots> \<longleftrightarrow> (\<forall>(sub, s) \<in> set streams. \<not> ss_stop_requested s \<longrightarrow> (ss_restarting s \<or> running alive s)
      \<and> (\<forall>age. silence (trunc now) r sub = Some age \<longrightarrow> age \<le> cf_stream_stale_minutes cfg * 60))"
  proof -
    have "(dead_line (?row ss) = [] \<and> stale_line (cf_stream_stale_minutes cfg) (?row ss) = []) \<longleftrightarrow>
        (case ss of (sub, s) \<Rightarrow> (ss_restarting s \<or> running alive s)
          \<and> (\<forall>age. silence (trunc now) r sub = Some age \<longrightarrow> age \<le> cf_stream_stale_minutes cfg * 60))" for ss
      by (cases ss) (auto simp: stream_row_status dead_line_def stale_line_def split: option.split)
    then show ?thesis by auto
  qed
  finally show ?thesis .
qed

definition no_streams :: supervisor where
  "no_streams = \<lparr>su_streams = [], su_last_write = 0, su_file = None\<rparr>"

text \<open>
  Whatever is started, stopped, spawned and ended, each fund has one stream and the delay before
  its restart is at least a second and at most the configured maximum.
\<close>

theorem delays_are_bounded:
  assumes "(sup_step backoff_max)\<^sup>*\<^sup>* no_streams su" "1 \<le> backoff_max"
  shows "distinct (map fst (su_streams su))
    \<and> (\<forall>(sub, s) \<in> set (su_streams su). 1 \<le> ss_backoff s \<and> ss_backoff s \<le> backoff_max)"
proof -
  have "sup_ok backoff_max su"
    using assms(1)
  proof (induction rule: rtranclp_induct)
    case base
    show ?case by (simp add: sup_ok_def no_streams_def)
  next
    case (step su su')
    then show ?case using sup_ok_step assms(2) by blast
  qed
  then show ?thesis using assms(2) by (simp add: sup_ok_def max_absorb2)
qed

lemma put_stopped:
  assumes "distinct (map fst d)" "sub \<in> fst ` set d" "ss_stop_requested s"
  shows "filter (\<lambda>ss. \<not> ss_stop_requested (snd ss)) (stream_put sub s d)
    = filter (\<lambda>ss. \<not> ss_stop_requested (snd ss)) (filter (\<lambda>ss. fst ss \<noteq> sub) d)"
  using assms
proof (induction sub s d rule: stream_put.induct)
  case (2 k s k' s' r)
  have "k' = k \<Longrightarrow> filter (\<lambda>ss. fst ss \<noteq> k) r = r"
    using "2.prems"(1) by (auto simp: filter_id_conv image_iff)
  then show ?case using 2 by auto
qed simp

text \<open>
  A stopped stream is gone from the file the stop writes, and the watchdog never names it;
  the other rows are those of the streams nobody stopped.
\<close>

theorem stop_takes_the_row_away:
  assumes "map_of (su_streams su) sub = Some s" "distinct (map fst (su_streams su))"
  shows "su_file (sup_stop True now host_pid r sub su) = Some (status_payload now host_pid r
      (filter (\<lambda>ss. fst ss \<noteq> sub) (su_streams su)))"
proof -
  have "sub \<in> fst ` set (su_streams su)" using assms(1) by (force dest: map_of_SomeD)
  then show ?thesis using assms
    by (simp add: sup_stop_def write_status_def status_payload_def put_stopped)
qed

definition stream_example :: sup_stream where
  "stream_example = (new_stream 0)\<lparr>ss_pid := Some 9\<rparr>"

theorem watchdog_reads_supervisor_witness:
  "\<forall>cfg. stream (\<lambda>p. p \<in> {7, 9}) cfg 0 (Some (status_payload 0 7 (fresh_router []) [(''alpha'', stream_example)])) = []"
proof
  fix cfg
  show "stream (\<lambda>p. p \<in> {7, 9}) cfg 0 (Some (status_payload 0 7 (fresh_router []) [(''alpha'', stream_example)])) = []"
    using watchdog_reads_supervisor [of 7 "\<lambda>p. p \<in> {7, 9}" cfg 0 0 "fresh_router []" "[(''alpha'', stream_example)]"]
    by (simp add: stream_example_def new_stream_def running_def silence_def fresh_router_def)
qed

theorem delays_are_bounded_witness:
  "ss_backoff (snd (hd (su_streams (sup_start 0 ''alpha'' no_streams)))) \<le> 30"
proof -
  have "(sup_step 30)\<^sup>*\<^sup>* no_streams (sup_start 0 ''alpha'' no_streams)"
    by (intro r_into_rtranclp sup_step.started)
  from delays_are_bounded [OF this] show ?thesis
    by (simp add: sup_start_def no_streams_def)
qed

theorem stop_takes_the_row_away_witness:
  "su_file (sup_stop True 1 7 (fresh_router []) ''alpha'' (sup_start 0 ''alpha'' no_streams))
     = Some (status_payload 1 7 (fresh_router []) [])"
  using stop_takes_the_row_away [of "sup_start 0 ''alpha'' no_streams" "''alpha''" "new_stream 0" 1 7 "fresh_router []"]
  by (simp add: sup_start_def no_streams_def)

end
