(* ===== verification/Sidecar.thy ===== *)
theory Sidecar
  imports CronTick
begin

text \<open>
  The JSON-RPC client of \<open>sidecar.py\<close>: calls are written one at a time and answered in any order. A
  call takes the next id and waits for a response with that id or for its timeout; the reader
  resolves waiting calls and buffers every other response. The state is what the client's
  dictionaries hold, the moves are those of calls, of the reader and of the clock; \<open>rp_lines\<close> and
  \<open>rp_ended\<close> record what was read and how each call ended. The facts show that each call ends at
  most once, with the response to its own id, and what becomes of a response that comes too late.
\<close>

section \<open>State and moves\<close>

text \<open>How a call ends: its result, the sidecar's error, an exception of its own, or the timeout\<close>

datatype call_end = Returned json | Sidecar_error json json | Call_raised exn | Timed_out

record rpc =
  rp_next :: int
  rp_pending :: "int list"
  rp_resolved :: "(int \<times> json) list"
  rp_buffer :: "(json \<times> json) list"
  rp_reader :: bool
  rp_lines :: "json list"
  rp_ended :: "(int \<times> call_end) list"

definition rpc_start :: rpc where
  "rpc_start = \<lparr>rp_next = 1, rp_pending = [], rp_resolved = [], rp_buffer = [], rp_reader = True,
     rp_lines = [], rp_ended = []\<rparr>"

text \<open>A call takes its id and registers its future before it writes its line.\<close>

definition call_begin :: "rpc \<Rightarrow> rpc" where
  "call_begin st = st\<lparr>rp_next := rp_next st + 1, rp_pending := rp_next st # rp_pending st\<rparr>"

text \<open>After the write it takes a response that was buffered for its id, if it has none yet.\<close>

definition call_written :: "int \<Rightarrow> rpc \<Rightarrow> rpc" where
  "call_written i st = (case map_of (rp_buffer st) (JInt i) of
     None \<Rightarrow> st
   | Some m \<Rightarrow> st\<lparr>rp_buffer := filter (\<lambda>b. fst b \<noteq> JInt i) (rp_buffer st),
       rp_resolved := (if map_of (rp_resolved st) i = None then (i, m) # rp_resolved st else rp_resolved st)\<rparr>)"

text \<open>What a response makes of its call\<close>

definition end_of :: "json \<Rightarrow> call_end" where
  "end_of m = (case m of
     JObj o' \<Rightarrow> (case map_of o' ''error'' of
         Some (JObj err) \<Rightarrow> Sidecar_error (key_or err ''code'' (JInt (- 1))) (key_or err ''message'' (JStr ''unknown''))
       | Some _ \<Rightarrow> Call_raised Attribute_error
       | None \<Rightarrow> Returned (key_or o' ''result'' (JObj [])))
   | _ \<Rightarrow> Call_raised Type_error)"

definition call_resume :: "int \<Rightarrow> json \<Rightarrow> rpc \<Rightarrow> rpc" where
  "call_resume i m st = st\<lparr>rp_pending := removeAll i (rp_pending st), rp_ended := (i, end_of m) # rp_ended st\<rparr>"

definition call_timeout :: "int \<Rightarrow> rpc \<Rightarrow> rpc" where
  "call_timeout i st = st\<lparr>rp_pending := removeAll i (rp_pending st), rp_ended := (i, Timed_out) # rp_ended st\<rparr>"

text \<open>Ids are compared as dictionary keys: \<open>1\<close> and \<open>1.0\<close> are one key.\<close>

definition id_of :: "fields \<Rightarrow> json" where
  "id_of o' = key_norm (key_or o' ''id'' JNull)"

definition waiting_for :: "rpc \<Rightarrow> json \<Rightarrow> int option" where
  "waiting_for st k = (case k of JInt i \<Rightarrow>
       if i \<in> set (rp_pending st) \<and> map_of (rp_resolved st) i = None then Some i else None
   | _ \<Rightarrow> None)"

text \<open>
  A line of the sidecar: a notification goes to the callbacks, whose exceptions are logged; a
  response resolves its call or is buffered. Anything but an object ends the reader.
\<close>

definition read_line :: "json \<Rightarrow> rpc \<Rightarrow> rpc" where
  "read_line msg st = (let st' = st\<lparr>rp_lines := rp_lines st @ [msg]\<rparr> in
     if \<not> rp_reader st then st else
     case msg of
       JObj o' \<Rightarrow>
         if map_of o' ''id'' = None then st'
         else if \<not> hashable (key_or o' ''id'' JNull) then st'\<lparr>rp_reader := False\<rparr>
         else (case waiting_for st (id_of o') of
             Some i \<Rightarrow> st'\<lparr>rp_resolved := (i, msg) # rp_resolved st\<rparr>
           | None \<Rightarrow> if id_of o' = JNull then st'
               else st'\<lparr>rp_buffer := (id_of o', msg) # filter (\<lambda>b. fst b \<noteq> id_of o') (rp_buffer st)\<rparr>)
     | _ \<Rightarrow> st'\<lparr>rp_reader := False\<rparr>)"

inductive rpc_step :: "rpc \<Rightarrow> rpc \<Rightarrow> bool" where
  called: "rpc_step st (call_begin st)"
| written: "i \<in> set (rp_pending st) \<Longrightarrow> rpc_step st (call_written i st)"
| line_read: "rpc_step st (read_line msg st)"
| resumed: "i \<in> set (rp_pending st) \<Longrightarrow> map_of (rp_resolved st) i = Some m \<Longrightarrow> rpc_step st (call_resume i m st)"
| timed_out: "i \<in> set (rp_pending st) \<Longrightarrow> map_of (rp_resolved st) i = None \<Longrightarrow> rpc_step st (call_timeout i st)"

inductive_cases rpc_stepE: "rpc_step st st'"

section \<open>The invariant\<close>

text \<open>A response: an object that carries the id\<close>

definition answers_call :: "int \<Rightarrow> json \<Rightarrow> bool" where
  "answers_call i m \<longleftrightarrow> (\<exists>o'. m = JObj o' \<and> id_of o' = JInt i)"

definition rpc_ok :: "rpc \<Rightarrow> bool" where
  "rpc_ok st \<longleftrightarrow> 1 \<le> rp_next st \<and> distinct (rp_pending st) \<and> distinct (map fst (rp_ended st))
     \<and> set (rp_pending st) \<inter> fst ` set (rp_ended st) = {}
     \<and> (\<forall>i. i \<in> set (rp_pending st) \<union> fst ` set (rp_ended st) \<longleftrightarrow> 1 \<le> i \<and> i < rp_next st)
     \<and> (\<forall>(i, m) \<in> set (rp_resolved st). answers_call i m \<and> m \<in> set (rp_lines st) \<and> i < rp_next st)
     \<and> (\<forall>(k, m) \<in> set (rp_buffer st). m \<in> set (rp_lines st) \<and> (\<forall>i. k = JInt i \<longrightarrow> answers_call i m))
     \<and> (\<forall>(i, e) \<in> set (rp_ended st). e = Timed_out \<or> (\<exists>m \<in> set (rp_lines st). answers_call i m \<and> e = end_of m))"

lemma rpc_ok_start: "rpc_ok rpc_start"
  by (auto simp: rpc_ok_def rpc_start_def)

lemma rpc_ok_call: "rpc_ok st \<Longrightarrow> rpc_ok (call_begin st)"
  by (auto simp: rpc_ok_def call_begin_def)

lemma rpc_ok_written: "rpc_ok st \<Longrightarrow> i \<in> set (rp_pending st) \<Longrightarrow> rpc_ok (call_written i st)"
  by (auto simp: rpc_ok_def call_written_def split: option.split dest!: map_of_SomeD)

lemma waiting_for_Some:
  "waiting_for st k = Some i \<Longrightarrow> k = JInt i \<and> i \<in> set (rp_pending st) \<and> map_of (rp_resolved st) i = None"
  by (auto simp: waiting_for_def split: json.splits if_splits)

lemma rpc_ok_mono:
  assumes "rpc_ok st"
  shows "rpc_ok (st\<lparr>rp_lines := rp_lines st @ [m]\<rparr>)" and "rpc_ok (st\<lparr>rp_reader := b\<rparr>)"
  using assms by (force simp: rpc_ok_def)+

lemma rpc_ok_resolve:
  assumes "rpc_ok st" "answers_call i m" "m \<in> set (rp_lines st)" "i \<in> set (rp_pending st)"
  shows "rpc_ok (st\<lparr>rp_resolved := (i, m) # rp_resolved st\<rparr>)"
  using assms by (auto simp: rpc_ok_def)

lemma rpc_ok_buffer:
  assumes "rpc_ok st" "m \<in> set (rp_lines st)" "\<And>i. k = JInt i \<Longrightarrow> answers_call i m"
  shows "rpc_ok (st\<lparr>rp_buffer := (k, m) # filter (\<lambda>b. fst b \<noteq> k) (rp_buffer st)\<rparr>)"
  using assms by (auto simp: rpc_ok_def)

lemma rpc_ok_line:
  assumes "rpc_ok st"
  shows "rpc_ok (read_line msg st)"
proof (cases msg)
  case (JObj o')
  let ?st = "st\<lparr>rp_lines := rp_lines st @ [msg]\<rparr>"
  have ok: "rpc_ok ?st" by (rule rpc_ok_mono [OF assms])
  have ans: "\<And>i. id_of o' = JInt i \<Longrightarrow> answers_call i msg" by (simp add: answers_call_def JObj)
  show ?thesis
  proof (cases "waiting_for st (id_of o')")
    case None
    have "rpc_ok (?st\<lparr>rp_buffer := (id_of o', msg) # filter (\<lambda>b. fst b \<noteq> id_of o') (rp_buffer ?st)\<rparr>)"
      by (rule rpc_ok_buffer [OF ok]) (simp_all add: ans)
    then show ?thesis using assms ok rpc_ok_mono(2) [OF ok, of False] None
      by (simp add: read_line_def JObj Let_def)
  next
    case (Some i)
    have "rpc_ok (?st\<lparr>rp_resolved := (i, msg) # rp_resolved ?st\<rparr>)"
      using waiting_for_Some [OF Some] by (intro rpc_ok_resolve [OF ok]) (simp_all add: ans)
    then show ?thesis using assms ok rpc_ok_mono(2) [OF ok, of False] Some
      by (simp add: read_line_def JObj Let_def)
  qed
qed (use assms rpc_ok_mono in \<open>auto simp: read_line_def Let_def\<close>)

lemma rpc_ok_end:
  assumes "rpc_ok st" "i \<in> set (rp_pending st)" "e = Timed_out \<or> (\<exists>m \<in> set (rp_lines st). answers_call i m \<and> e = end_of m)"
  shows "rpc_ok (st\<lparr>rp_pending := removeAll i (rp_pending st), rp_ended := (i, e) # rp_ended st\<rparr>)"
proof -
  have "distinct (removeAll i (rp_pending st))" using assms(1) by (simp add: rpc_ok_def distinct_removeAll)
  moreover have "i \<notin> fst ` set (rp_ended st)" using assms(1,2) by (auto simp: rpc_ok_def)
  moreover have "(j \<in> set (removeAll i (rp_pending st)) \<union> fst ` set ((i, e) # rp_ended st)) \<longleftrightarrow>
      j \<in> set (rp_pending st) \<union> fst ` set (rp_ended st)" for j
    using assms(2) by auto
  ultimately show ?thesis using assms(1,3) unfolding rpc_ok_def by auto
qed

lemma rpc_ok_step: "rpc_step st st' \<Longrightarrow> rpc_ok st \<Longrightarrow> rpc_ok st'"
proof (induction rule: rpc_step.induct)
  case (resumed i st m)
  then have "answers_call i m \<and> m \<in> set (rp_lines st)" by (auto simp: rpc_ok_def dest!: map_of_SomeD)
  with resumed show ?case unfolding call_resume_def by (intro rpc_ok_end) auto
next
  case (timed_out i st)
  then show ?case unfolding call_timeout_def by (intro rpc_ok_end) auto
qed (simp_all add: rpc_ok_call rpc_ok_written rpc_ok_line)

lemma rpc_ok_run: "rpc_step\<^sup>*\<^sup>* rpc_start st \<Longrightarrow> rpc_ok st"
  by (induction rule: rtranclp_induct) (auto simp: rpc_ok_start rpc_ok_step)

text \<open>
  C38: However calls, responses and timeouts interleave, every id handed out belongs to one call, which
  is waiting or has ended exactly once, and a call that did not time out ended with what a line
  carrying its own id says.
\<close>

theorem calls_get_their_response:
  assumes "rpc_step\<^sup>*\<^sup>* rpc_start st"
  shows "distinct (map fst (rp_ended st)) \<and> (\<forall>i. 1 \<le> i \<and> i < rp_next st \<longleftrightarrow>
      (i \<in> set (rp_pending st)) \<noteq> (i \<in> fst ` set (rp_ended st)))
    \<and> ((i, e) \<in> set (rp_ended st) \<longrightarrow> e = Timed_out
      \<or> (\<exists>o'. JObj o' \<in> set (rp_lines st) \<and> id_of o' = JInt i \<and> e = end_of (JObj o')))"
proof -
  note ok = rpc_ok_run [OF assms]
  have "distinct (map fst (rp_ended st))" using ok by (simp add: rpc_ok_def)
  moreover have "(1 \<le> i \<and> i < rp_next st) = ((i \<in> set (rp_pending st)) \<noteq> (i \<in> fst ` set (rp_ended st)))" for i
  proof -
    have "i \<in> set (rp_pending st) \<union> fst ` set (rp_ended st) \<longleftrightarrow> 1 \<le> i \<and> i < rp_next st"
      "set (rp_pending st) \<inter> fst ` set (rp_ended st) = {}"
      using ok unfolding rpc_ok_def by blast+
    then show ?thesis by blast
  qed
  moreover have "\<forall>(i, e) \<in> set (rp_ended st). e = Timed_out \<or> (\<exists>m \<in> set (rp_lines st). answers_call i m \<and> e = end_of m)"
    using ok by (simp add: rpc_ok_def)
  ultimately show ?thesis unfolding answers_call_def by blast
qed

definition response_example :: json where
  "response_example = JObj [(''id'', JInt 1), (''result'', JStr ''pong'')]"

theorem calls_get_their_response_witness:
  "\<exists>st::rpc. rp_ended st = [(1, Returned (JStr ''pong''))] \<and> distinct (map fst (rp_ended st)) \<and> rp_next st = 2"
proof -
  let ?a = "call_begin rpc_start" and ?m = response_example
  have "rpc_step\<^sup>*\<^sup>* rpc_start ?a" by (intro r_into_rtranclp rpc_step.called)
  moreover have "rpc_step ?a (read_line ?m ?a)" by (rule rpc_step.line_read)
  moreover have "rpc_step (read_line ?m ?a) (call_resume 1 ?m (read_line ?m ?a))"
    by (rule rpc_step.resumed) (simp_all add: response_example_def read_line_def call_begin_def rpc_start_def
        id_of_def key_or_def waiting_for_def)
  ultimately have run: "rpc_step\<^sup>*\<^sup>* rpc_start (call_resume 1 ?m (read_line ?m ?a))" by (meson rtranclp.rtrancl_into_rtrancl)
  have "rp_ended (call_resume 1 ?m (read_line ?m ?a)) = [(1, Returned (JStr ''pong''))]"
    "rp_next (call_resume 1 ?m (read_line ?m ?a)) = 2"
    by (simp_all add: response_example_def call_resume_def read_line_def call_begin_def rpc_start_def
        id_of_def key_or_def waiting_for_def end_of_def)
  with calls_get_their_response [OF run, THEN conjunct1] show ?thesis by (intro exI [of _ "call_resume 1 ?m (read_line ?m ?a)"]) simp
qed

section \<open>Late responses\<close>

lemma next_grows: "rpc_step st st' \<Longrightarrow> rp_next st \<le> rp_next st'"
  by (induction rule: rpc_step.induct)
    (auto simp: call_begin_def call_written_def read_line_def call_resume_def call_timeout_def Let_def
      split: option.split json.split)

lemma buffered_not_pending:
  "rpc_step st st' \<Longrightarrow> i \<notin> set (rp_pending st) \<Longrightarrow> i < rp_next st \<Longrightarrow> i \<notin> set (rp_pending st') \<and> i < rp_next st'"
  by (induction rule: rpc_step.induct)
    (auto simp: call_begin_def call_written_def read_line_def call_resume_def call_timeout_def Let_def
      split: option.split json.split)

lemma keys_put: "fst ` set b \<subseteq> fst ` set ((k, m) # filter (\<lambda>x. fst x \<noteq> k) b)"
  by auto

lemma read_line_buffer: "fst ` set (rp_buffer st) \<subseteq> fst ` set (rp_buffer (read_line msg st))"
proof (cases msg)
  case (JObj o')
  have "fst ` set (rp_buffer st) \<subseteq> fst ` set ((id_of o', msg) # filter (\<lambda>b. fst b \<noteq> id_of o') (rp_buffer st))"
    by (rule keys_put)
  then show ?thesis unfolding read_line_def JObj Let_def by (simp split: option.split)
qed (simp_all add: read_line_def Let_def)

lemma buffered_stays_step:
  assumes "rpc_step st st'" "JInt i \<in> fst ` set (rp_buffer st)" "i \<notin> set (rp_pending st)"
  shows "JInt i \<in> fst ` set (rp_buffer st')"
  using assms
proof (induction rule: rpc_step.induct)
  case (written j st)
  then have "i \<noteq> j" by auto
  obtain m where "(JInt i, m) \<in> set (rp_buffer st)" using written by auto
  with \<open>i \<noteq> j\<close> show ?case by (force simp: call_written_def split: option.split)
next
  case (line_read st msg)
  then show ?case using read_line_buffer by blast
qed (simp_all add: call_begin_def call_resume_def call_timeout_def)

text \<open>
  A response that arrives after its call timed out is kept for ever: no later call has its id.
\<close>

lemma late_response_stays:
  assumes "rpc_step\<^sup>*\<^sup>* st st'" "JInt i \<in> fst ` set (rp_buffer st)" "i \<notin> set (rp_pending st)" "i < rp_next st"
  shows "JInt i \<in> fst ` set (rp_buffer st')"
proof -
  have "JInt i \<in> fst ` set (rp_buffer st') \<and> i \<notin> set (rp_pending st') \<and> i < rp_next st'"
    using assms
  proof (induction rule: rtranclp_induct)
    case (step y z)
    then show ?case using buffered_stays_step buffered_not_pending by metis
  qed simp
  then show ?thesis ..
qed

end
