(* ===== verification/Preflight.thy ===== *)
theory Preflight
  imports Watchdog
begin

text \<open>
  \<open>config.py\<close> and \<open>preflight.py\<close>: what the monitor reads at load. The YAML parser is an external library
  and gives a value; the command line tool gives an exit code and its output; the sidecar gives
  answers. Defaults are those of \<open>Config\<close>.
\<close>

section \<open>Configuration\<close>

definition DEFAULT_GAS_RPC_URL :: string where
  "DEFAULT_GAS_RPC_URL = ''https://rpc.mainnet.chain.robinhood.com''"

definition monitor_defaults :: config where
  "monitor_defaults = \<lparr>cf_funds = [], cf_auto_start = False, cf_xmtp_summaries = True, cf_sherwood_bin = ''sherwood'',
     cf_backoff_max_seconds = 30, cf_inject_mentions_only = True, cf_concentration_threshold_pct = Fl 30,
     cf_aum_alert_threshold_pct = Fl 5, cf_gas_alert_min_eth = rnd (2 / 1000), cf_gas_rpc_url = DEFAULT_GAS_RPC_URL,
     cf_stream_stale_minutes = 30, cf_proposal_reasoning_enabled = True\<rparr>"

text \<open>\<open>raw.get(k, d)\<close> through \<open>bool\<close>, \<open>float\<close> and \<open>int\<close>, where the default needs none\<close>

definition bool_or :: "fields \<Rightarrow> string \<Rightarrow> bool \<Rightarrow> bool" where
  "bool_or o' k d = (case map_of o' k of None \<Rightarrow> d | Some j \<Rightarrow> truthy j)"

definition float_or :: "fields \<Rightarrow> string \<Rightarrow> pyfloat \<Rightarrow> pyfloat result" where
  "float_or o' k d = (case map_of o' k of None \<Rightarrow> Inr d | Some j \<Rightarrow> fl_json j)"

definition int_or :: "fields \<Rightarrow> string \<Rightarrow> int \<Rightarrow> int result" where
  "int_or o' k d = int_json (key_or o' k (JInt d))"

text \<open>The file: missing (a default one is written), not YAML, or a value\<close>

datatype config_file = No_file | Bad_yaml | Yaml json

definition config_of :: "fields \<Rightarrow> config result" where
  "config_of raw = (case key_or raw ''funds'' (JList []) of
     JList funds \<Rightarrow>
       and_then (int_or raw ''backoff_max_seconds'' 30) (\<lambda>backoff.
       if backoff \<le> 0 then Inl Value_error else
       and_then (int_or raw ''stream_stale_minutes'' 30) (\<lambda>stale.
       if stale \<le> 0 then Inl Value_error else
       and_then (float_or raw ''concentration_threshold_pct'' (Fl 30)) (\<lambda>conc.
       and_then (float_or raw ''aum_alert_threshold_pct'' (Fl 5)) (\<lambda>aum_pct.
       and_then (float_or raw ''gas_alert_min_eth'' (cf_gas_alert_min_eth monitor_defaults)) (\<lambda>floor_eth.
       let url = key_or raw ''gas_rpc_url'' JNull in
       Inr \<lparr>cf_funds = map str_json funds, cf_auto_start = bool_or raw ''auto_start'' False,
         cf_xmtp_summaries = bool_or raw ''xmtp_summaries'' True,
         cf_sherwood_bin = str_json (key_or raw ''sherwood_bin'' (JStr ''sherwood'')),
         cf_backoff_max_seconds = backoff, cf_inject_mentions_only = bool_or raw ''inject_mentions_only'' True,
         cf_concentration_threshold_pct = conc, cf_aum_alert_threshold_pct = aum_pct, cf_gas_alert_min_eth = floor_eth,
         cf_gas_rpc_url = strip (str_json (first_truthy url (JStr DEFAULT_GAS_RPC_URL))),
         cf_stream_stale_minutes = stale, cf_proposal_reasoning_enabled = bool_or raw ''proposal_reasoning_enabled'' True\<rparr>)))))
   | _ \<Rightarrow> Inl Value_error)"

definition load_config :: "config_file \<Rightarrow> config result" where
  "load_config file' = (case file' of
     No_file \<Rightarrow> Inr monitor_defaults
   | Bad_yaml \<Rightarrow> Inl Value_error
   | Yaml j \<Rightarrow> if \<not> truthy j then config_of []
       else (case j of JObj o' \<Rightarrow> config_of o' | _ \<Rightarrow> Inl Attribute_error))"

section \<open>The command line tool\<close>

definition MIN_CLI_VERSION :: string where "MIN_CLI_VERSION = ''0.71.0''"

definition parse_version :: "string \<Rightarrow> int list" where
  "parse_version s = map digits_val (filter isdigit (split_on CHR ''.'' [] (strip s)))"

text \<open>\<open><\<close> on tuples\<close>

fun tuple_less :: "int list \<Rightarrow> int list \<Rightarrow> bool" where
  "tuple_less [] ys = (ys \<noteq> [])"
| "tuple_less (x # xs) [] = False"
| "tuple_less (x # xs) (y # ys) = (x < y \<or> x = y \<and> tuple_less xs ys)"

text \<open>Not found or timed out, or an exit code and the standard output\<close>

datatype version_run = Not_run | Exited int string

definition check_cli_installed :: "version_run \<Rightarrow> string \<Rightarrow> (bool \<times> string option) result" where
  "check_cli_installed run min_version = (case run of
     Not_run \<Rightarrow> Inr (False, None)
   | Exited rc out \<Rightarrow> if rc \<noteq> 0 then Inr (False, None)
       else (case rev (split_ws out) of
           [] \<Rightarrow> Inl Index_error
         | version # _ \<Rightarrow> Inr (\<not> tuple_less (parse_version version) (parse_version min_version), Some version)))"

text \<open>Membership of the sidecar in each fund's group; an error counts as missing.\<close>

definition check_memberships :: "(string \<Rightarrow> bool result) \<Rightarrow> string list \<Rightarrow> string list" where
  "check_memberships is_member funds = filter (\<lambda>f. is_member f \<noteq> Inr True) funds"

definition version_warning :: "string option \<Rightarrow> string" where
  "version_warning v = (case v of
     None \<Rightarrow> ''Sherwood CLI not found. Install: npm i -g @sherwoodagent/cli''
   | Some w \<Rightarrow> ''Sherwood CLI version '' @ w @ '' is below minimum '' @ MIN_CLI_VERSION
       @ ''. Upgrade: npm i -g @sherwoodagent/cli@latest'')"

text \<open>The warnings of \<open>run_preflight\<close>; \<open>sidecar_dir\<close> is a path and whether it holds a build.\<close>

definition run_preflight :: "version_run \<Rightarrow> (string \<times> bool) option \<Rightarrow> bool \<Rightarrow> (bool \<times> string option \<times> bool \<times> string list) result" where
  "run_preflight run sidecar_dir xmtp_configured =
     and_then (check_cli_installed run MIN_CLI_VERSION) (\<lambda>(ok, version).
       let built = (case sidecar_dir of None \<Rightarrow> False | Some (path, b) \<Rightarrow> b);
           w1 = (if ok then [] else [version_warning version]);
           w2 = (if \<not> xmtp_configured \<or> built then [] else [case sidecar_dir of
               None \<Rightarrow> ''XMTP sidecar directory not configured. Set sidecar_dir to enable XMTP streams.''
             | Some (path, b) \<Rightarrow> ''XMTP sidecar not built. Run: cd '' @ path @ '' && npm ci && npm run build''])
       in Inr (ok, version, built, w1 @ w2))"

section \<open>Facts\<close>

text \<open>
  A configuration that loads has a positive restart delay and a positive staleness limit, and
  funds that are texts; a file that is no mapping or whose funds are no list is refused.
\<close>

theorem config_is_usable:
  assumes "load_config file' = Inr c"
  shows "1 \<le> cf_backoff_max_seconds c \<and> 1 \<le> cf_stream_stale_minutes c
    \<and> (\<forall>j. file' = Yaml j \<and> truthy j \<longrightarrow> (\<exists>o' fs. j = JObj o' \<and> key_or o' ''funds'' (JList []) = JList fs
        \<and> cf_funds c = map str_json fs))"
proof -
  have "1 \<le> cf_backoff_max_seconds c \<and> 1 \<le> cf_stream_stale_minutes c
      \<and> (\<exists>fs. key_or raw ''funds'' (JList []) = JList fs \<and> cf_funds c = map str_json fs)"
    if "config_of raw = Inr c" for raw
    using that by (auto simp: config_of_def Let_def and_then_Inr_iff split: json.splits if_splits)
  then show ?thesis using assms
    by (auto simp: load_config_def monitor_defaults_def split: config_file.splits if_splits json.splits)
qed

text \<open>A version's parts that are not all digits are dropped, and so are the pre-release parts.\<close>

lemma prerelease_passes:
  "check_cli_installed (Exited 0 ''sherwood/cli 0.71.0-beta.1'') MIN_CLI_VERSION = Inr (True, Some ''0.71.0-beta.1'')"
  by code_simp

end
