(* ===== verification/Wiring.thy ===== *)
theory Wiring
  imports Supervisor Sidecar Preflight Guard
begin

text \<open>
  \<open>__init__.py\<close> and \<open>tools.py\<close>: how the parts of the monitor meet. The fund guard rides on the hook
  before a tool; a chat message of the sidecar becomes a record for the router; the streams start at
  the first turn and end with the process; five tools show the monitor to the agent. Parsing JSON text
  is the argument \<open>loads\<close> (\<open>None\<close>: it raises), the text of an exception \<open>exn_text\<close>.
\<close>

section \<open>The guard on the hook\<close>

text \<open>\<open>make_fund_guard\<close>: the guard's directive is a reason or a directive; either way not silence.\<close>

definition fund_guard_hook :: "string list \<Rightarrow> tool_ctx \<Rightarrow> dir \<Rightarrow> string \<Rightarrow> json \<Rightarrow> directive guard_answer result" where
  "fund_guard_hook markers ctx d tool payload = (case payload of
     JObj a \<Rightarrow> (case guard markers ctx tool d a of
         Inl e \<Rightarrow> Inl e
       | Inr None \<Rightarrow> Inr G_none
       | Inr (Some x) \<Rightarrow> Inr (G_directive x))
   | _ \<Rightarrow> Inl Attribute_error)"

section \<open>A message of the sidecar\<close>

text \<open>An envelope in the text of the message overrides its type, its text and its sender.\<close>

definition stream_record :: "(string \<Rightarrow> json option) \<Rightarrow> (json \<Rightarrow> string) \<Rightarrow> fields \<Rightarrow> json result" where
  "stream_record loads iso_of params =
    (let content = key_or params ''content'' (JStr []);
         sender = key_or params ''sender_inbox_id'' (JStr []);
         rec = (\<lambda>ty text' from'. JObj [(''source'', JStr ''xmtp''), (''id'', key_or params ''message_id'' (JStr [])),
           (''from'', from'), (''type'', ty), (''text'', text'),
           (''sentAt'', JStr (iso_of (key_or params ''sent_at_ns'' (JInt 0))))])
     in case content of
       JStr c \<Rightarrow> (case loads c of
           Some (JObj env) \<Rightarrow> (case map_of env ''type'' of
               Some ty \<Rightarrow> Inr (rec ty (key_or env ''text'' content) (key_or env ''from'' sender))
             | None \<Rightarrow> Inr (rec (JStr ''MESSAGE'') content sender))
         | _ \<Rightarrow> Inr (rec (JStr ''MESSAGE'') content sender))
     | _ \<Rightarrow> Inl Type_error)"

definition on_stream_event ::
  "(string \<Rightarrow> json option) \<Rightarrow> (json \<Rightarrow> string) \<Rightarrow> config \<Rightarrow> time \<Rightarrow> (string \<Rightarrow> string option) \<Rightarrow> fields \<Rightarrow> router \<Rightarrow> router" where
  "on_stream_event loads iso_of cfg now groups params r = (case stream_record loads iso_of params of
     Inl e \<Rightarrow> r
   | Inr raw \<Rightarrow> (case key_or params ''group_id'' (JStr []) of
       JStr g \<Rightarrow> (case groups g of None \<Rightarrow> r | Some sub \<Rightarrow> router_step cfg (Arrives now sub raw) r)
     | _ \<Rightarrow> r))"

section \<open>The life of the streams\<close>

record lifecycle =
  lc_streams_started :: bool
  lc_closed :: bool

text \<open>What a call does: start the streams of these funds, stop everything, or nothing\<close>

datatype life_act = Start_streams "string list" | Stop_all

datatype life_call = Ensure | Teardown

definition life_step :: "config \<Rightarrow> life_call \<Rightarrow> lifecycle \<Rightarrow> lifecycle \<times> life_act list" where
  "life_step cfg c l = (case c of
     Ensure \<Rightarrow> if lc_streams_started l \<or> lc_closed l then (l, [])
       else (l\<lparr>lc_streams_started := True\<rparr>, [Start_streams (if cf_auto_start cfg then cf_funds cfg else [])])
   | Teardown \<Rightarrow> if lc_closed l then (l, []) else (l\<lparr>lc_closed := True\<rparr>, [Stop_all]))"

fun life_run :: "config \<Rightarrow> life_call list \<Rightarrow> lifecycle \<Rightarrow> life_act list" where
  "life_run cfg [] l = []"
| "life_run cfg (c # cs) l = (case life_step cfg c l of (l', as) \<Rightarrow> as @ life_run cfg cs l')"

definition lifecycle0 :: lifecycle where
  "lifecycle0 = \<lparr>lc_streams_started = False, lc_closed = False\<rparr>"

section \<open>The tools\<close>

definition error_json :: "string \<Rightarrow> json" where
  "error_json t = JObj [(''error'', JStr t)]"

definition or_error :: "(exn \<Rightarrow> string) \<Rightarrow> json result \<Rightarrow> string" where
  "or_error exn_text r = (case r of Inl e \<Rightarrow> dumps (error_json (exn_text e)) | Inr j \<Rightarrow> dumps j)"

text \<open>\<open>args.get("subdomain")\<close>, refused when it is empty\<close>

definition with_subdomain :: "fields \<Rightarrow> (json \<Rightarrow> json result) \<Rightarrow> json result" where
  "with_subdomain a k = (let sub = key_or a ''subdomain'' JNull in
     if \<not> truthy sub then Inr (error_json ''subdomain required'') else k sub)"

definition monitor_start :: "(exn \<Rightarrow> string) \<Rightarrow> (json \<Rightarrow> int result) \<Rightarrow> fields \<Rightarrow> string" where
  "monitor_start exn_text start' a = or_error exn_text (with_subdomain a (\<lambda>sub. and_then (start' sub)
     (\<lambda>pid. Inr (JObj [(''started'', JBool True), (''pid'', JInt pid)]))))"

definition monitor_stop :: "(exn \<Rightarrow> string) \<Rightarrow> (json \<Rightarrow> unit result) \<Rightarrow> fields \<Rightarrow> string" where
  "monitor_stop exn_text stop' a = or_error exn_text (with_subdomain a (\<lambda>sub. and_then (stop' sub)
     (\<lambda>_. Inr (JObj [(''stopped'', JBool True)]))))"

text \<open>\<open>json.dumps\<close> of a double, of an object and of a list whose values are texts already\<close>

definition dumps_float :: "pyfloat \<Rightarrow> string" where
  "dumps_float f = (case f of Fl r \<Rightarrow> repr_float f | Inf_fl neg \<Rightarrow> (if neg then ''-Infinity'' else ''Infinity'')
     | NaN_fl \<Rightarrow> ''NaN'')"

definition obj_text :: "(string \<times> string) list \<Rightarrow> string" where
  "obj_text kvs = ''{'' @ join '', '' (map (\<lambda>(k, v). json_string k @ '': '' @ v) kvs) @ ''}''"

definition list_text :: "string list \<Rightarrow> string" where
  "list_text ts = ''['' @ join '', '' ts @ '']''"

definition tally_text :: "tally \<Rightarrow> string" where
  "tally_text d = obj_text (map (\<lambda>(k, x). (k, dumps_float x)) d)"

definition alert_text :: "string \<Rightarrow> concentration_alert \<Rightarrow> string" where
  "alert_text funds_key a = obj_text [(''protocol'', json_string (al_protocol a)), (''pct'', dumps_float (al_pct a)),
     (funds_key, list_text (map json_string (al_funds_exposed a)))]"

definition monitor_exposure :: "(exn \<Rightarrow> string) \<Rightarrow> config \<Rightarrow> (string \<times> cli_output) list \<Rightarrow> string" where
  "monitor_exposure exn_text cfg answers = (case aggregate_exposure answers of
     Inl e \<Rightarrow> dumps (error_json (exn_text e))
   | Inr report \<Rightarrow> obj_text [(''total_aum_usd'', dumps_float (er_total_aum_usd report)),
       (''by_protocol'', tally_text (er_by_protocol report)),
       (''concentration_pct'', tally_text (er_concentration_pct report)),
       (''alerts'', list_text (map (alert_text ''funds_exposed'')
          (check_concentration report (cf_concentration_threshold_pct cfg))))])"

section \<open>Facts\<close>

text \<open>
  C39: With the fund guard on the hook, a draft tool runs exactly when the verdict on the draft allows
  it: a guard that raises, blocks or asks a human stops the tool.
\<close>

theorem hook_runs_allowed_drafts:
  "pre_tool_call (fund_guard_hook markers ctx d) fetcher ''fund_draft_proposal'' (JObj a) params = Inr Runs
     \<longleftrightarrow> draft_verdict ctx d a = Inr Allow"
proof -
  have "''fund_draft_proposal'' \<notin> set TERMINAL_TOOLS" by (simp add: TERMINAL_TOOLS_def)
  then have "pre_tool_call (fund_guard_hook markers ctx d) fetcher ''fund_draft_proposal'' (JObj a) params = Inr Runs
     \<longleftrightarrow> guard markers ctx ''fund_draft_proposal'' d a = Inr None"
    by (auto simp: pre_tool_call_def tool_payload_def is_obj_def fund_guard_hook_def split: sum.split option.split)
  then show ?thesis by (simp add: guard_draft)
qed

lemma life_closed: "lc_closed l \<Longrightarrow> life_run cfg cs l = []"
  by (induction cs) (auto simp: life_step_def split: life_call.split)

lemma life_started:
  "lc_streams_started l \<Longrightarrow> \<not> lc_closed l \<Longrightarrow> life_run cfg cs l = [] \<or> life_run cfg cs l = [Stop_all]"
proof (induction cs)
  case (Cons c cs)
  then show ?case by (cases c) (simp_all add: life_step_def life_closed)
qed simp

text \<open>
  However turns, sessions and shutdowns call in, the streams are started at most once, before
  everything is stopped at most once.
\<close>

theorem streams_live_once:
  "life_run cfg cs lifecycle0 \<in> (let st = Start_streams (if cf_auto_start cfg then cf_funds cfg else [])
     in {[], [st], [st, Stop_all], [Stop_all]})"
proof (induction cs)
  case (Cons c cs)
  have "lc_streams_started (lifecycle0\<lparr>lc_streams_started := True\<rparr>)"
    "\<not> lc_closed (lifecycle0\<lparr>lc_streams_started := True\<rparr>)" by (simp_all add: lifecycle0_def)
  from life_started [OF this, of cfg cs] show ?case
    by (cases c) (auto simp: life_step_def lifecycle0_def life_closed Let_def)
qed (simp add: Let_def)

end
