(* ===== verification/Cards.thy ===== *)
theory Cards
  imports Handler Watchdog AppLink
begin

text \<open>
  \<open>telegram/cards.py\<close>: the renderers. A card is its HTML text and its rows of buttons; a renderer raises
  when a button's data is too long, an address is none, or a number has no text. Symbols outside
  ASCII are their UTF-8 bytes; the lengths that are cut count characters of ASCII text. A float of a view
  is the double nearest to its fraction. Fields that the mapping of the fund never fills (the
  value of the fund, its positions, the first and last names) extend the records of \<open>Views\<close>.
\<close>

section \<open>Symbols\<close>

definition FILLED :: string where "FILLED = [CHR 0xE2, CHR 0x96, CHR 0xAE]"
definition EMPTY_CELL :: string where "EMPTY_CELL = [CHR 0xE2, CHR 0x96, CHR 0x91]"
definition MIDDLE_DOT :: string where "MIDDLE_DOT = [CHR 0xC2, CHR 0xB7]"
definition MEMO :: string where "MEMO = [CHR 0xF0, CHR 0x9F, CHR 0x93, CHR 0x9D]"
definition INCOMING_ENVELOPE :: string where "INCOMING_ENVELOPE = [CHR 0xF0, CHR 0x9F, CHR 0x93, CHR 0xA8]"
definition BALLOT_BOX_WITH_BALLOT :: string where "BALLOT_BOX_WITH_BALLOT = [CHR 0xF0, CHR 0x9F, CHR 0x97, CHR 0xB3]"
definition WHITE_HEAVY_CHECK_MARK :: string where "WHITE_HEAVY_CHECK_MARK = [CHR 0xE2, CHR 0x9C, CHR 0x85]"
definition SHIELD :: string where "SHIELD = [CHR 0xF0, CHR 0x9F, CHR 0x9B, CHR 0xA1]"
definition NO_ENTRY :: string where "NO_ENTRY = [CHR 0xE2, CHR 0x9B, CHR 0x94]"
definition HIGH_VOLTAGE_SIGN :: string where "HIGH_VOLTAGE_SIGN = [CHR 0xE2, CHR 0x9A, CHR 0xA1]"
definition CHEQUERED_FLAG :: string where "CHEQUERED_FLAG = [CHR 0xF0, CHR 0x9F, CHR 0x8F, CHR 0x81]"
definition HEAVY_MULTIPLICATION_X :: string where "HEAVY_MULTIPLICATION_X = [CHR 0xE2, CHR 0x9C, CHR 0x96, CHR 0xEF, CHR 0xB8, CHR 0x8F]"
definition ALMOST_EQUAL_TO :: string where "ALMOST_EQUAL_TO = [CHR 0xE2, CHR 0x89, CHR 0x88]"
definition APOSTROPHE :: string where "APOSTROPHE = [CHR 0x27]"
definition BAR_CHART :: string where "BAR_CHART = [CHR 0xF0, CHR 0x9F, CHR 0x93, CHR 0x8A]"
definition THUMBS_UP_SIGN :: string where "THUMBS_UP_SIGN = [CHR 0xF0, CHR 0x9F, CHR 0x91, CHR 0x8D]"
definition CROSS_MARK :: string where "CROSS_MARK = [CHR 0xE2, CHR 0x9D, CHR 0x8C]"
definition BULLET :: string where "BULLET = [CHR 0xE2, CHR 0x80, CHR 0xA2]"
definition HOURGLASS_WITH_FLOWING_SAND :: string where "HOURGLASS_WITH_FLOWING_SAND = [CHR 0xE2, CHR 0x8F, CHR 0xB3]"
definition BANK :: string where "BANK = [CHR 0xF0, CHR 0x9F, CHR 0x8F, CHR 0xA6]"
definition MONEY_BAG :: string where "MONEY_BAG = [CHR 0xF0, CHR 0x9F, CHR 0x92, CHR 0xB0]"
definition LEFTWARDS_ARROW_WITH_HOOK :: string where "LEFTWARDS_ARROW_WITH_HOOK = [CHR 0xE2, CHR 0x86, CHR 0xA9, CHR 0xEF, CHR 0xB8, CHR 0x8F]"
definition ADMISSION_TICKETS :: string where "ADMISSION_TICKETS = [CHR 0xF0, CHR 0x9F, CHR 0x8E, CHR 0x9F]"
definition LINK_SYMBOL :: string where "LINK_SYMBOL = [CHR 0xF0, CHR 0x9F, CHR 0x94, CHR 0x97]"
definition CLOCKWISE_RIGHTWARDS_AND_LEFTWARDS_OPEN_CIRCLE_ARROWS :: string where "CLOCKWISE_RIGHTWARDS_AND_LEFTWARDS_OPEN_CIRCLE_ARROWS = [CHR 0xF0, CHR 0x9F, CHR 0x94, CHR 0x81]"
definition WARNING_SIGN :: string where "WARNING_SIGN = [CHR 0xE2, CHR 0x9A, CHR 0xA0, CHR 0xEF, CHR 0xB8, CHR 0x8F]"
definition RIGHTWARDS_ARROW :: string where "RIGHTWARDS_ARROW = [CHR 0xE2, CHR 0x86, CHR 0x92]"
definition ROCKET :: string where "ROCKET = [CHR 0xF0, CHR 0x9F, CHR 0x9A, CHR 0x80]"
definition WRITING_HAND :: string where "WRITING_HAND = [CHR 0xE2, CHR 0x9C, CHR 0x8D, CHR 0xEF, CHR 0xB8, CHR 0x8F]"
definition HAPPY_PERSON_RAISING_ONE_HAND :: string where "HAPPY_PERSON_RAISING_ONE_HAND = [CHR 0xF0, CHR 0x9F, CHR 0x99, CHR 0x8B]"
definition WASTEBASKET :: string where "WASTEBASKET = [CHR 0xF0, CHR 0x9F, CHR 0x97, CHR 0x91]"
definition ROBOT_FACE :: string where "ROBOT_FACE = [CHR 0xF0, CHR 0x9F, CHR 0xA4, CHR 0x96]"
definition TROPHY :: string where "TROPHY = [CHR 0xF0, CHR 0x9F, CHR 0x8F, CHR 0x86]"
definition CLOSED_LOCK_WITH_KEY :: string where "CLOSED_LOCK_WITH_KEY = [CHR 0xF0, CHR 0x9F, CHR 0x94, CHR 0x90]"

lemmas glyph_defs = FILLED_def EMPTY_CELL_def MIDDLE_DOT_def MEMO_def INCOMING_ENVELOPE_def BALLOT_BOX_WITH_BALLOT_def WHITE_HEAVY_CHECK_MARK_def SHIELD_def NO_ENTRY_def HIGH_VOLTAGE_SIGN_def CHEQUERED_FLAG_def HEAVY_MULTIPLICATION_X_def ALMOST_EQUAL_TO_def APOSTROPHE_def BAR_CHART_def THUMBS_UP_SIGN_def CROSS_MARK_def BULLET_def HOURGLASS_WITH_FLOWING_SAND_def BANK_def MONEY_BAG_def LEFTWARDS_ARROW_WITH_HOOK_def ADMISSION_TICKETS_def LINK_SYMBOL_def CLOCKWISE_RIGHTWARDS_AND_LEFTWARDS_OPEN_CIRCLE_ARROWS_def WARNING_SIGN_def RIGHTWARDS_ARROW_def ROCKET_def WRITING_HAND_def HAPPY_PERSON_RAISING_ONE_HAND_def WASTEBASKET_def ROBOT_FACE_def TROPHY_def CLOSED_LOCK_WITH_KEY_def

section \<open>Escaping and numbers\<close>

text \<open>\<open>html.escape(text, quote=False)\<close>\<close>

fun esc :: "string \<Rightarrow> string" where
  "esc [] = []"
| "esc (c # s) = (if c = CHR ''&'' then ''&amp;'' else if c = CHR ''<'' then ''&lt;''
     else if c = CHR ''>'' then ''&gt;'' else [c]) @ esc s"

definition bold :: "string \<Rightarrow> string" where "bold s = ''<b>'' @ s @ ''</b>''"
definition italic :: "string \<Rightarrow> string" where "italic s = ''<i>'' @ s @ ''</i>''"
definition code_tag :: "string \<Rightarrow> string" where "code_tag s = ''<code>'' @ s @ ''</code>''"

definition DOT_SEP :: string where "DOT_SEP = '' '' @ MIDDLE_DOT @ '' ''"

text \<open>\<open>format(n, ",")\<close>\<close>

definition int_commas :: "int \<Rightarrow> string" where
  "int_commas n = (if n < 0 then ''-'' else []) @ commas (str_nat \<bar>n\<bar>)"

text \<open>\<open>round(f)\<close>\<close>

fun fl_round :: "pyfloat \<Rightarrow> int result" where
  "fl_round (Fl a) = Inr (round_even a)"
| "fl_round (Inf_fl _) = Inl Overflow_error"
| "fl_round NaN_fl = Inl Value_error"

text \<open>\<open>round(f, 1)\<close>\<close>

fun fl_round1 :: "pyfloat \<Rightarrow> pyfloat" where
  "fl_round1 (Fl a) = rnd (of_int (round_even (a * 10)) / 10)"
| "fl_round1 f = f"

definition tiny :: pyfloat where "tiny = rnd (1 / 10 ^ 9)"

text \<open>\<open>abs(v - round(v)) < 1e-9\<close>\<close>

definition nearly_int :: "pyfloat \<Rightarrow> int \<Rightarrow> bool" where
  "nearly_int v n \<longleftrightarrow> fl_less (fl_abs (fl_add v (Fl (of_int (- n))))) tiny"

definition no_zeros :: "string \<Rightarrow> string" where
  "no_zeros s = rstrip_of (CHR ''.'') (rstrip_of (CHR ''0'') s)"

definition fmt_amount :: "pyfloat \<Rightarrow> string result" where
  "fmt_amount v = and_then (fl_round v) (\<lambda>n. Inr (
     if nearly_int v n then int_commas n else no_zeros (fl_fixed False True 2 v)))"

definition fmt_usd :: "pyfloat \<Rightarrow> string" where
  "fmt_usd v = ''$'' @ fl_fixed False True 2 v"

text \<open>\<open>int(bps) / 100.0\<close>\<close>

definition pct_of :: "int \<Rightarrow> pyfloat result" where
  "pct_of bps = and_then (fl_of_int bps) (\<lambda>b. Inr (fl_div b (Fl 100)))"

definition fmt_pct :: "bool \<Rightarrow> int \<Rightarrow> string result" where
  "fmt_pct signed bps = and_then (pct_of bps) (\<lambda>pct. Inr (fl_fixed signed False 1 pct @ ''%''))"

definition fmt_weight :: "int \<Rightarrow> string result" where
  "fmt_weight bps = and_then (pct_of bps) (\<lambda>pct. and_then (fl_round pct) (\<lambda>n. Inr (
     (if nearly_int pct n then str_int n else no_zeros (fl_fixed False False 2 pct)) @ ''%'')))"

section \<open>Meters and clocks\<close>

definition METER_CELLS :: int where "METER_CELLS = 8"
definition GOAL_CELLS :: int where "GOAL_CELLS = 10"

text \<open>\<open>max(0.0, min(1.0, f))\<close> and \<open>floor(frac * cells + 1e-9)\<close>\<close>

definition clamp01 :: "pyfloat \<Rightarrow> pyfloat" where
  "clamp01 f = (let m = (if fl_less f (Fl 1) then f else Fl 1) in if fl_less (Fl 0) m then m else Fl 0)"

definition filled_cells :: "pyfloat \<Rightarrow> int \<Rightarrow> int" where
  "filled_cells fraction cells = (let frac = clamp01 fraction in
     case fl_add (fl_mul frac (Fl (of_int cells))) tiny of
       Fl a \<Rightarrow> if fl_less (Fl 0) frac \<and> \<lfloor>a\<rfloor> = 0 then 1 else \<lfloor>a\<rfloor>
     | _ \<Rightarrow> 0)"

definition times :: "int \<Rightarrow> string \<Rightarrow> string" where
  "times n s = concat (replicate (nat n) s)"

definition bar_of :: "pyfloat \<Rightarrow> int \<Rightarrow> string" where
  "bar_of fraction cells = (let filled = filled_cells fraction cells in
     times filled FILLED @ times (cells - filled) EMPTY_CELL)"

definition veto_meter :: "int \<Rightarrow> int \<Rightarrow> string result" where
  "veto_meter against_bps threshold_bps = (let threshold = max 1 threshold_bps in
     and_then (fmt_pct False against_bps) (\<lambda>pct. and_then (int_div against_bps threshold) (\<lambda>frac.
     and_then (fmt_weight threshold) (\<lambda>w.
       Inr (''Against '' @ pct @ '' '' @ bar_of frac METER_CELLS @ '' '' @ w)))))"

definition two_digits :: "int \<Rightarrow> string" where
  "two_digits n = pad_left 2 (str_int n)"

definition countdown :: "int option \<Rightarrow> time \<Rightarrow> string" where
  "countdown ends_at now = (case ends_at of None \<Rightarrow> []
   | Some e \<Rightarrow> let remaining = of_int e - now; minutes = \<lceil>remaining / 60\<rceil> in
       if remaining \<le> 0 then ''voting closed''
       else if remaining < 60 then ''ends in <1m''
       else if minutes < 60 then ''ends in '' @ str_int minutes @ ''m''
       else if minutes div 60 < 24 then ''ends in '' @ str_int (minutes div 60) @ ''h '' @ two_digits (minutes mod 60) @ ''m''
       else ''ends in '' @ str_int (minutes div 60 div 24) @ ''d '' @ str_int (minutes div 60 mod 24) @ ''h'')"

definition goal_bar :: "pyfloat \<Rightarrow> pyfloat \<Rightarrow> string result" where
  "goal_bar max_capital nav = (if nav = Fl 0 \<or> fl_le nav (Fl 0) then Inr []
     else let frac = fl_div max_capital nav in
       and_then (fl_round (fl_mul frac (Fl 100))) (\<lambda>n.
         Inr (bar_of frac GOAL_CELLS @ '' '' @ str_int n @ ''% of NAV'')))"

fun status_chip :: "pstatus \<Rightarrow> string" where
  "status_chip Draft = (MEMO @ '' DRAFT'')"
| "status_chip Proposed = (INCOMING_ENVELOPE @ '' PROPOSED'')"
| "status_chip Voting = (BALLOT_BOX_WITH_BALLOT @ '' VOTING'')"
| "status_chip Passed = (WHITE_HEAVY_CHECK_MARK @ '' PASSED'')"
| "status_chip Review = (SHIELD @ '' GUARDIAN REVIEW'')"
| "status_chip Approved = (SHIELD @ '' GUARDIAN APPROVED'')"
| "status_chip Vetoed = (NO_ENTRY @ '' VETOED'')"
| "status_chip Executed = (HIGH_VOLTAGE_SIGN @ '' EXECUTED'')"
| "status_chip Settled = (CHEQUERED_FLAG @ '' SETTLED'')"
| "status_chip Cancelled = (HEAVY_MULTIPLICATION_X @ '' CANCELLED'')"

text \<open>A day as year, month and day (\<open>datetime.fromtimestamp\<close> in UTC); a year it does not know raises.\<close>

definition civil_date :: "int \<Rightarrow> int \<times> int \<times> int" where
  "civil_date days = (let z = days + 719468; era = z div 146097; doe = z mod 146097;
     yoe = (doe - doe div 1460 + doe div 36524 - doe div 146096) div 365;
     doy = doe - (365 * yoe + yoe div 4 - yoe div 100); mp = (5 * doy + 2) div 153;
     m = (if mp < 10 then mp + 3 else mp - 9)
     in (yoe + era * 400 + (if m \<le> 2 then 1 else 0), m, doy - (153 * mp + 2) div 5 + 1))"

definition utc_date :: "int \<Rightarrow> (int \<times> int \<times> int) result" where
  "utc_date ts = (case civil_date (ts div 86400) of (y, m, d) \<Rightarrow>
     if y < 1 \<or> 9999 < y then Inl Value_error else Inr (y, m, d))"

definition MONTHS :: "string list" where
  "MONTHS = [''Jan'', ''Feb'', ''Mar'', ''Apr'', ''May'', ''Jun'', ''Jul'', ''Aug'', ''Sep'', ''Oct'', ''Nov'', ''Dec'']"

definition month_name :: "int \<Rightarrow> string" where
  "month_name m = (if 1 \<le> m \<and> m \<le> 12 then MONTHS ! nat (m - 1) else [])"

definition date_text :: "int option \<Rightarrow> string result" where
  "date_text ts = (case ts of None \<Rightarrow> Inr [] | Some t \<Rightarrow> if t = 0 then Inr []
     else and_then (utc_date t) (\<lambda>(y, m, d). Inr (month_name m @ '' '' @ str_int d @ '', '' @ str_int y)))"

definition hhmm_text :: "int \<Rightarrow> string result" where
  "hhmm_text t = and_then (utc_date t) (\<lambda>_.
     Inr (two_digits (t mod 86400 div 3600) @ '':'' @ two_digits (t mod 3600 div 60)))"

section \<open>People, legs, bond\<close>

definition people_handle :: "(int \<Rightarrow> person option) \<Rightarrow> int option \<Rightarrow> string" where
  "people_handle people tg_id = (case tg_id of None \<Rightarrow> ''someone''
   | Some i \<Rightarrow> esc (case people i of Some p \<Rightarrow> person_handle p | None \<Rightarrow> ''user'' @ str_int i))"

definition MAX_AVATARS :: nat where "MAX_AVATARS = 5"

definition once_each :: "int list \<Rightarrow> int list" where
  "once_each ids = foldl (\<lambda>u i. if i \<in> set u then u else u @ [i]) [] ids"

definition avatars :: "(int \<Rightarrow> person option) \<Rightarrow> int list \<Rightarrow> string" where
  "avatars people ids = (let u = once_each ids; extra = length u - MAX_AVATARS in
     join '' '' (map (\<lambda>i. people_handle people (Some i)) (take MAX_AVATARS u)
       @ (if extra > 0 then [''+'' @ str_int (int extra)] else [])))"

definition legs_line :: "leg_view list \<Rightarrow> string result" where
  "legs_line legs = and_then (mapM (\<lambda>l. if lv_weight_bps l > 0
       then and_then (fmt_weight (lv_weight_bps l)) (\<lambda>w. Inr (bold (esc (lv_symbol l)) @ '' '' @ w))
       else Inr (esc (lv_symbol l))) legs) (\<lambda>ts. Inr (join DOT_SEP ts))"

text \<open>\<open> (about $x)\<close>, when the price is known and not zero\<close>

definition usd_note :: "pyfloat \<Rightarrow> pyfloat option \<Rightarrow> string" where
  "usd_note amount_wood wood_usd = (case wood_usd of None \<Rightarrow> []
   | Some w \<Rightarrow> if w = Fl 0 then [] else ('' ('' @ ALMOST_EQUAL_TO) @ fmt_usd (fl_mul amount_wood w) @ '')'')"

definition bond_line :: "pyfloat \<Rightarrow> pyfloat option \<Rightarrow> string result" where
  "bond_line bond_wood wood_usd = and_then (fmt_amount (fl_round2 bond_wood)) (\<lambda>a.
     Inr (''bond '' @ a @ '' WOOD'' @ usd_note bond_wood wood_usd @ ('' '' @ MIDDLE_DOT @ '' agent'' @ APOSTROPHE @ ''s skin in the game'')))"

definition cut_at :: "nat \<Rightarrow> string \<Rightarrow> string" where
  "cut_at limit t = (if length t > limit then rstrip (take (limit - 1) t) @ ELLIPSIS else t)"

definition THESIS_MAX :: nat where "THESIS_MAX = 600"

definition thesis_text :: "string \<Rightarrow> string" where
  "thesis_text t = esc (cut_at THESIS_MAX (strip t))"

definition short_text :: "nat \<Rightarrow> string \<Rightarrow> string" where
  "short_text limit t = esc (cut_at limit (join '' '' (split_ws t)))"

section \<open>Buttons\<close>

datatype button = Url_button string string | Callback_button string string

type_synonym card = "string \<times> button list list"

definition kb :: "button list list \<Rightarrow> button list list" where
  "kb rows = filter (\<lambda>r. r \<noteq> []) rows"

definition cb_button :: "string \<Rightarrow> string \<Rightarrow> string \<Rightarrow> button result" where
  "cb_button label action who = and_then (cb action who) (\<lambda>data. Inr (Callback_button label data))"

definition view_button :: "string \<Rightarrow> string \<Rightarrow> string \<Rightarrow> button result" where
  "view_button label vault base_url = and_then (fund_page_url vault base_url) (\<lambda>u. Inr (Url_button label u))"

text \<open>The values a card shows beside what the mapping of a fund carries\<close>

record card_position =
  cp_symbol :: string
  cp_value :: pyfloat
  cp_pnl_bps :: "int option"

record card_fund = fund_view +
  cf_nav :: pyfloat
  cf_pnl_bps :: int
  cf_positions :: "card_position list"

record card_member = member_view +
  cm_first_name :: string
  cm_last_name :: string

definition member_person :: "card_member \<Rightarrow> person" where
  "member_person m = \<lparr>pe_tg_id = mv_tg_id m, pe_username = mv_username m,
     pe_first_name = cm_first_name m, pe_last_name = cm_last_name m\<rparr>"

definition view_row :: "string \<Rightarrow> card_fund option \<Rightarrow> button list list result" where
  "view_row base_url fund = (case fund of None \<Rightarrow> Inr []
   | Some f \<Rightarrow> and_then (view_button (BAR_CHART @ '' View fund'') (fv_vault f) base_url) (\<lambda>b. Inr [[b]]))"

section \<open>The proposal card\<close>

definition capital_line :: "proposal_view \<Rightarrow> string result" where
  "capital_line p = and_then (fmt_amount (rnd (pv_max_capital p))) (\<lambda>cap.
     and_then (fmt_pct False (pv_max_drawdown_bps p)) (\<lambda>dd.
       Inr (''Max capital '' @ bold (cap @ '' '' @ esc (pv_capital_symbol p)) @ ('' '' @ MIDDLE_DOT @ '' max drawdown '') @ bold dd)))"

definition size_lines :: "proposal_view \<Rightarrow> card_fund option \<Rightarrow> string list result" where
  "size_lines p fund = (case fund of None \<Rightarrow> Inr []
   | Some f \<Rightarrow> and_then (goal_bar (rnd (pv_max_capital p)) (cf_nav f)) (\<lambda>goal.
       Inr (if goal = [] then [] else [''Size '' @ goal])))"

definition METERED :: "pstatus list" where
  "METERED = [Voting, Passed, Review, Approved, Vetoed, Executed, Settled]"

definition vote_lines :: "proposal_view \<Rightarrow> time \<Rightarrow> string list result" where
  "vote_lines p now = (if pv_status p \<notin> set METERED then Inr []
     else and_then (veto_meter (pv_against_bps p) (pv_threshold_bps p)) (\<lambda>meter.
       let clock = countdown (pv_voting_ends_at p) now in
       Inr [if pv_status p = Voting \<and> clock \<noteq> [] then meter @ DOT_SEP @ clock else meter]))"

text \<open>The clock of the review, with \<open>voting closed\<close> replaced; no other clock contains it.\<close>

definition review_clock :: "proposal_view \<Rightarrow> time \<Rightarrow> string" where
  "review_clock p now = (let clock = countdown (pv_review_ends_at p) now in
     if clock = ''voting closed'' then ''review closed'' else clock)"

definition review_lines :: "proposal_view \<Rightarrow> time \<Rightarrow> string list" where
  "review_lines p now =
     (let cover = (if pv_guardian_coverage p \<noteq> [] then ('' '' @ MIDDLE_DOT @ '' coverage '') @ esc (pv_guardian_coverage p) else []);
          clock = review_clock p now in
      if pv_status p = Review
      then [(SHIELD @ '' Guardian review'') @ (if clock \<noteq> [] then DOT_SEP @ clock else []) @ cover]
      else if pv_status p = Approved then [(SHIELD @ '' Guardian approved'') @ cover]
      else [])"

definition one_line :: "string list \<Rightarrow> string list" where
  "one_line parts = (if parts = [] then [] else [join DOT_SEP parts])"

definition social_lines :: "(int \<Rightarrow> person option) \<Rightarrow> proposal_view \<Rightarrow> string list" where
  "social_lines people p = one_line
     ((if pv_backers p \<noteq> [] then [(THUMBS_UP_SIGN @ '' '') @ avatars people (pv_backers p)] else [])
      @ (if pv_objectors p \<noteq> [] then [(CROSS_MARK @ '' '') @ avatars people (pv_objectors p)] else []))"

definition credit_lines :: "(int \<Rightarrow> person option) \<Rightarrow> proposal_view \<Rightarrow> string list" where
  "credit_lines people p = one_line
     ((if pv_idea_by p \<noteq> None then [''idea by '' @ people_handle people (pv_idea_by p)] else [])
      @ (if pv_proposer p \<noteq> [] then [''agent '' @ esc (pv_proposer p)] else []))"

definition foot_lines :: "proposal_view \<Rightarrow> string list result" where
  "foot_lines p = (if pv_status p = Voting
     then and_then (fmt_weight (pv_threshold_bps p)) (\<lambda>w. Inr [[], italic
       (''Only Against counts. Silence = pass unless Against reaches '' @ w @ '' of shares before the window ends.'')])
     else if pv_status p = Vetoed then Inr [italic (''Vetoed. The agent'' @ APOSTROPHE @ ''s bond comes back at once.'')]
     else Inr [])"

definition shown_id :: "proposal_view \<Rightarrow> string" where
  "shown_id p = (case pv_onchain_id p of Some n \<Rightarrow> str_int n | None \<Rightarrow> pv_id p)"

definition proposal_lines ::
  "proposal_view \<Rightarrow> card_fund option \<Rightarrow> (int \<Rightarrow> person option) \<Rightarrow> pyfloat option \<Rightarrow> time \<Rightarrow> string list result" where
  "proposal_lines p fund people wood_usd now =
     and_then (legs_line (pv_legs p)) (\<lambda>legs. and_then (capital_line p) (\<lambda>capital.
     and_then (size_lines p fund) (\<lambda>sz. and_then (vote_lines p now) (\<lambda>votes.
     and_then (bond_line (rnd (pv_bond_wood p)) wood_usd) (\<lambda>bond. and_then (foot_lines p) (\<lambda>foot.
     Inr ([status_chip (pv_status p) @ DOT_SEP @ bold (''Proposal #'' @ esc (shown_id p)), italic (thesis_text (pv_thesis p)), []]
       @ (if legs \<noteq> [] then [legs] else []) @ [capital] @ sz @ [[]]
       @ votes @ review_lines p now @ social_lines people p @ credit_lines people p @ [bond] @ foot)))))))"

definition proposal_rows :: "proposal_view \<Rightarrow> button list list result" where
  "proposal_rows p = (if pv_status p \<noteq> Proposed \<and> pv_status p \<noteq> Voting then Inr []
     else and_then (cb_button (if pv_backers p \<noteq> []
           then (THUMBS_UP_SIGN @ '' Back it '' @ MIDDLE_DOT @ '' '') @ str_int (int (card (set (pv_backers p)))) else (THUMBS_UP_SIGN @ '' Back it'')) ''back'' (pv_id p)) (\<lambda>back.
       if pv_status p = Voting
       then and_then (cb_button (CROSS_MARK @ '' Object'') ''vote'' (pv_id p)) (\<lambda>obj. Inr [[back, obj]])
       else Inr [[back]]))"

definition render_proposal_card ::
  "proposal_view \<Rightarrow> card_fund option \<Rightarrow> (int \<Rightarrow> person option) \<Rightarrow> pyfloat option \<Rightarrow> string \<Rightarrow> time \<Rightarrow> card result" where
  "render_proposal_card p fund people wood_usd base_url now =
     and_then (proposal_lines p fund people wood_usd now) (\<lambda>lines.
     and_then (proposal_rows p) (\<lambda>rows. and_then (view_row base_url fund) (\<lambda>view.
       Inr (rstrip (join nl lines), kb (rows @ view)))))"

section \<open>The fund card\<close>

definition position_line :: "card_fund \<Rightarrow> card_position \<Rightarrow> string result" where
  "position_line f pos =
     and_then (case cp_pnl_bps pos of None \<Rightarrow> Inr []
       | Some b \<Rightarrow> and_then (fmt_pct True b) (\<lambda>t. Inr ('' ('' @ t @ '')''))) (\<lambda>pnl.
     and_then (fmt_amount (fl_round2 (cp_value pos))) (\<lambda>v.
       Inr ((BULLET @ '' '') @ esc (cp_symbol pos) @ '' '' @ v @ '' '' @ esc (fv_nav_symbol f) @ pnl)))"

definition open_line :: "time \<Rightarrow> proposal_view \<Rightarrow> string" where
  "open_line now p = (BULLET @ '' #'') @ esc (shown_id p) @ '' '' @ short_text 40 (pv_thesis p) @ DOT_SEP @ status_chip (pv_status p)
     @ (let clock = countdown (pv_voting_ends_at p) now in
        if pv_status p = Voting \<and> clock \<noteq> [] then DOT_SEP @ clock else [])"

definition cooldown_lines :: "time \<Rightarrow> int option \<Rightarrow> string list result" where
  "cooldown_lines now until = (case until of None \<Rightarrow> Inr []
   | Some u \<Rightarrow> if u \<noteq> 0 \<and> now < of_int u
       then and_then (hhmm_text u) (\<lambda>t. Inr [[], (HOURGLASS_WITH_FLOWING_SAND @ '' Next proposal possible at '') @ t @ '' UTC''])
       else Inr [])"

definition fund_lines :: "card_fund \<Rightarrow> time \<Rightarrow> string \<Rightarrow> string list result" where
  "fund_lines f now notice =
     and_then (fmt_amount (fl_round2 (cf_nav f))) (\<lambda>nav. and_then (fmt_pct True (cf_pnl_bps f)) (\<lambda>pnl.
     and_then (mapM (position_line f) (cf_positions f)) (\<lambda>positions.
     and_then (cooldown_lines now (fv_cooldown_until f)) (\<lambda>cool.
     Inr ([(BANK @ '' '') @ bold (esc (fv_name f)),
          ''NAV '' @ bold (nav @ '' '' @ esc (fv_nav_symbol f)) @ ('' '' @ MIDDLE_DOT @ '' P&amp;L '') @ bold pnl, [], bold ''Positions'']
       @ (if cf_positions f \<noteq> [] then positions else [(BULLET @ '' none yet'')])
       @ (if fv_open_proposals f \<noteq> [] then [[], bold ''Open proposals''] @ map (open_line now) (fv_open_proposals f) else [])
       @ cool
       @ [[], ''Members '' @ str_int (int (length (fv_members f))) @ ('' '' @ MIDDLE_DOT @ '' Agents '')
            @ (if fv_agents f \<noteq> [] then join '', '' (map esc (fv_agents f)) else ''none'')]
       @ (if notice \<noteq> [] then [[], italic (esc notice)] else []))))))"

definition fund_rows :: "card_fund \<Rightarrow> string \<Rightarrow> button list list result" where
  "fund_rows f base_url =
     and_then (view_button (BAR_CHART @ '' View'') (fv_vault f) base_url) (\<lambda>view.
     and_then (cb_button (MONEY_BAG @ '' Deposit'') ''deposit'' (lower (fv_vault f))) (\<lambda>dep.
     and_then (cb_button (LEFTWARDS_ARROW_WITH_HOOK @ '' Withdraw'') ''withdraw'' (lower (fv_vault f))) (\<lambda>wd.
     and_then (cb_button (ADMISSION_TICKETS @ '' Join'') ''join'' (lower (fv_vault f))) (\<lambda>jn.
       Inr [[view], [dep, wd], [jn]]))))"

definition render_fund_card :: "card_fund \<Rightarrow> string \<Rightarrow> time \<Rightarrow> string \<Rightarrow> card result" where
  "render_fund_card f base_url now notice =
     and_then (fund_lines f now notice) (\<lambda>lines. and_then (fund_rows f base_url) (\<lambda>rows.
       Inr (join nl lines, kb rows)))"

section \<open>Members, receipts, drafts\<close>

definition render_member_card :: "card_member \<Rightarrow> card_fund \<Rightarrow> string \<Rightarrow> card result" where
  "render_member_card m fund base_url =
     and_then (date_text (mv_joined_at m)) (\<lambda>joined. and_then (fmt_pct False (mv_share_bps m)) (\<lambda>share.
     and_then (view_button (BAR_CHART @ '' View fund'') (fv_vault fund) base_url) (\<lambda>view.
     Inr (join nl ([(if mv_number m > 0 then (ADMISSION_TICKETS @ '' '') @ bold (''Member #'' @ str_int (mv_number m)) else (ADMISSION_TICKETS @ '' '') @ bold ''Member'')
             @ DOT_SEP @ esc (person_handle (member_person m)),
           share @ '' of shares'' @ (if joined \<noteq> [] then ('' '' @ MIDDLE_DOT @ '' joined '') @ joined else []), bold (esc (fv_name fund))]
         @ (if mv_number m \<le> 0
            then [italic ''Your member number is your deposit order: it shows after your first deposit.''] else [])
         @ (if mv_address m \<noteq> [] then [(LINK_SYMBOL @ '' wallet linked '') @ code_tag (esc (mv_address m))] else [])),
       kb [[view]]))))"

definition BOND_CHALLENGE_DAYS :: int where "BOND_CHALLENGE_DAYS = 14"

definition render_settle_receipt ::
  "receipt_view \<Rightarrow> (int \<Rightarrow> person option) \<Rightarrow> card_fund option \<Rightarrow> string \<Rightarrow> card result" where
  "render_settle_receipt r people fund base_url = and_then (fmt_pct True (rw_pnl_bps r)) (\<lambda>pnl.
     and_then (view_row base_url fund) (\<lambda>view.
     Inr (join nl [(CHEQUERED_FLAG @ '' '') @ bold (''Proposal #'' @ esc (rw_proposal_id r) @ '' settled''),
         join DOT_SEP ([bold pnl @ '' on '' @ esc (rw_symbol r)]
           @ (if rw_idea_by r \<noteq> None then [''idea by '' @ people_handle people (rw_idea_by r)] else [])
           @ [''backed by '' @ str_int (rw_backers r)]),
         italic ((''The agent'' @ APOSTROPHE @ ''s bond stays in escrow for the '') @ str_int BOND_CHALLENGE_DAYS @ ''-day challenge window.'')],
       kb view)))"

definition receipt_plain :: "receipt_view \<Rightarrow> (int \<Rightarrow> person option) \<Rightarrow> string result" where
  "receipt_plain r people = and_then (fmt_pct True (rw_pnl_bps r)) (\<lambda>pnl.
     Inr (join DOT_SEP ([pnl @ '' on '' @ rw_symbol r]
       @ (case rw_idea_by r of None \<Rightarrow> [] | Some i \<Rightarrow>
           [''idea by '' @ (case people i of Some p \<Rightarrow> person_handle p | None \<Rightarrow> ''user'' @ str_int i)])
       @ [''backed by '' @ str_int (rw_backers r)])))"

definition BOND_BUFFER_LINES :: "(string \<times> string) list" where
  "BOND_BUFFER_LINES = [
     (''swap'', (CLOCKWISE_RIGHTWARDS_AND_LEFTWARDS_OPEN_CIRCLE_ARROWS @ '' bond buffer: the WOOD swap goes first in the bundle'')),
     (''insufficient-usdg'', (WARNING_SIGN @ '' the proposer'' @ APOSTROPHE @ ''s USDG can'' @ APOSTROPHE @ ''t pay the WOOD swap: fund it before propose'')),
     (''premium-over-cap'', (WARNING_SIGN @ '' the WOOD swap is priced over the feed cap: host, accept it on the signing page or fund WOOD'')),
     (''unavailable'', (WARNING_SIGN @ '' the bond-buffer swap is unavailable: fund the proposer with WOOD'')),
     (''no-route'', (WARNING_SIGN @ '' no USDG'' @ RIGHTWARDS_ARROW @ ''WOOD route: fund the proposer with WOOD''))]"

definition bond_buffer_line :: "proposal_view \<Rightarrow> string" where
  "bond_buffer_line p = (case map_of BOND_BUFFER_LINES (lower (pv_bond_buffer_status p)) of
     None \<Rightarrow> []
   | Some line \<Rightarrow> line @ (if pv_bond_buffer_note p \<noteq> [] then '' ('' @ short_text 120 (pv_bond_buffer_note p) @ '')'' else []))"

text \<open>The WOOD that is still missing, when there is any\<close>

definition shortfall_lines :: "pyfloat option \<Rightarrow> pyfloat option \<Rightarrow> string list result" where
  "shortfall_lines missing wood_usd = (case missing of None \<Rightarrow> Inr []
   | Some w \<Rightarrow> if fl_less (Fl 0) w
       then and_then (fmt_amount (fl_round1 w)) (\<lambda>a.
         Inr [''needs ~'' @ a @ '' WOOD'' @ usd_note w wood_usd @ ('', swapping'' @ ELLIPSIS)])
       else Inr [])"

definition draft_lines ::
  "proposal_view \<Rightarrow> card_fund option \<Rightarrow> (int \<Rightarrow> person option) \<Rightarrow> pyfloat option \<Rightarrow> pyfloat option \<Rightarrow> string list result" where
  "draft_lines p fund people wood_usd missing =
     and_then (legs_line (pv_legs p)) (\<lambda>legs. and_then (capital_line p) (\<lambda>capital.
     and_then (size_lines p fund) (\<lambda>sz. and_then (bond_line (rnd (pv_bond_wood p)) wood_usd) (\<lambda>bond.
     and_then (shortfall_lines missing wood_usd) (\<lambda>needs.
     Inr ([status_chip Draft @ DOT_SEP @ bold (''Draft #'' @ esc (pv_id p))
            @ (if pv_idea_by p \<noteq> None then ('' '' @ MIDDLE_DOT @ '' from '') @ people_handle people (pv_idea_by p) @ (APOSTROPHE @ ''s idea'') else []),
          italic (thesis_text (pv_thesis p)), []]
       @ (if legs \<noteq> [] then [legs] else []) @ [capital] @ sz
       @ (if pv_proposer p \<noteq> [] then [''agent '' @ esc (pv_proposer p)] else []) @ [bond] @ needs
       @ (if bond_buffer_line p \<noteq> [] then [bond_buffer_line p] else [])
       @ [[], italic (''Host: '' @ ROCKET @ '' Ship it sends this to a vote.'')]))))))"

definition render_draft_card ::
  "proposal_view \<Rightarrow> card_fund option \<Rightarrow> (int \<Rightarrow> person option) \<Rightarrow> pyfloat option \<Rightarrow> pyfloat option \<Rightarrow> bool \<Rightarrow> card result" where
  "render_draft_card p fund people wood_usd missing requires_host_cosign =
     and_then (draft_lines p fund people wood_usd missing) (\<lambda>lines.
     and_then (cb_button (ROCKET @ '' Ship it'') ''shipit'' (pv_id p)) (\<lambda>ship.
     if requires_host_cosign
     then and_then (cb_button (WRITING_HAND @ '' Co-sign (host)'') ''propose'' (pv_id p)) (\<lambda>sign. Inr (join nl lines, kb [[ship, sign]]))
     else Inr (join nl lines, kb [[ship]])))"

section \<open>Prompts, requests, leaderboard\<close>

definition render_join_prompt :: "card_fund \<Rightarrow> string \<Rightarrow> card result" where
  "render_join_prompt f base_url =
     and_then (cb_button (ADMISSION_TICKETS @ '' Join'') ''join'' (lower (fv_vault f))) (\<lambda>jn.
     and_then (view_button (BAR_CHART @ '' View fund'') (fv_vault f) base_url) (\<lambda>view.
     Inr (join nl [(ADMISSION_TICKETS @ '' '') @ bold (''Join '' @ esc (fv_name f)),
         ''Members pool capital, agents propose trades, and the group can veto any of them.'',
         ''Tap Join for your personal link. Your wallet signs in the browser; nothing moves from this chat.''],
       kb [[jn, view]])))"

definition render_member_request :: "card_fund \<Rightarrow> person \<Rightarrow> card result" where
  "render_member_request f p =
     and_then (cb_button (WHITE_HEAVY_CHECK_MARK @ '' Approve member'') ''approve_member'' (str_int (pe_tg_id p))) (\<lambda>b.
     Inr ((HAPPY_PERSON_RAISING_ONE_HAND @ '' '') @ esc (person_handle p) @ '' wants to join '' @ bold (esc (fv_name f)) @ ''.'' @ nl
       @ ''Host: approve to let them deposit.'', kb [[b]]))"

definition render_agent_card :: "card_fund \<Rightarrow> string \<Rightarrow> bool \<Rightarrow> card result" where
  "render_agent_card f agent pending = (if pending
     then and_then (cb_button (WHITE_HEAVY_CHECK_MARK @ '' Approve agent'') ''approve_agent'' agent) (\<lambda>a.
       and_then (cb_button (WASTEBASKET @ '' Remove'') ''remove_agent'' agent) (\<lambda>r.
       Inr ((ROBOT_FACE @ '' Agent '') @ bold (esc agent) @ '' asks to propose trades for '' @ bold (esc (fv_name f)) @ ''.'', kb [[a, r]])))
     else and_then (cb_button (WASTEBASKET @ '' Remove agent'') ''remove_agent'' agent) (\<lambda>r.
       Inr ((ROBOT_FACE @ '' Agent '') @ bold (esc agent) @ '' proposes trades for '' @ bold (esc (fv_name f)) @ ''.'', kb [[r]])))"

definition leader_key :: "leader_row \<Rightarrow> int \<times> int \<times> int" where
  "leader_key r = (- lr_pnl_bps r, - lr_ideas r, lr_tg_id r)"

definition leader_line :: "(int \<Rightarrow> person option) \<Rightarrow> nat \<times> leader_row \<Rightarrow> string result" where
  "leader_line people ir = (case ir of (i, r) \<Rightarrow> and_then (fmt_pct True (lr_pnl_bps r)) (\<lambda>pnl.
     Inr (str_int (int i) @ ''. '' @ people_handle people (Some (lr_tg_id r)) @ '' '' @ bold pnl @ DOT_SEP
       @ str_int (lr_ideas r) @ '' idea'' @ (if lr_ideas r = 1 then [] else ''s''))))"

definition render_leaderboard ::
  "leader_row list \<Rightarrow> card_fund option \<Rightarrow> (int \<Rightarrow> person option) \<Rightarrow> string \<Rightarrow> card result" where
  "render_leaderboard rows fund people base_url = (let ranked = take 10 (sort_key leader_key rows) in
     and_then (mapM (leader_line people) (zip [1..<Suc (length ranked)] ranked)) (\<lambda>lines.
     and_then (view_row base_url fund) (\<lambda>view.
     Inr (join nl ([(TROPHY @ '' '') @ bold ''Leaderboard'' @ (case fund of None \<Rightarrow> [] | Some f \<Rightarrow> DOT_SEP @ esc (fv_name f))]
         @ (if ranked = [] then [''No settled ideas yet. Pitch one: mention me with a trade idea.''] else [])
         @ lines), kb view))))"

section \<open>Personal links\<close>

text \<open>\<open>unquote_plus\<close>: a \<open>%\<close> that two hexadecimal digits do not follow stays.\<close>

fun unquote_plus :: "string \<Rightarrow> string" where
  "unquote_plus [] = []"
| "unquote_plus (c # s) = (if c = CHR ''+'' then CHR '' '' # unquote_plus s
     else if c = CHR ''%'' \<and> length s \<ge> 2 \<and> is_hex (s ! 0) \<and> is_hex (s ! 1)
     then char_of (hex_digit_val (s ! 0) * 16 + hex_digit_val (s ! 1)) # unquote_plus (drop 2 s)
     else c # unquote_plus s)"

definition after_char :: "char \<Rightarrow> string \<Rightarrow> string" where
  "after_char c s = (case split_at (\<lambda>x. x = c) s of (_, Some r) \<Rightarrow> r | _ \<Rightarrow> [])"

definition query_of :: "string \<Rightarrow> string" where
  "query_of url = after_char (CHR ''?'') (takeWhile (\<lambda>c. c \<noteq> CHR ''#'') url)"

text \<open>
  \<open>parse_qs(query)\<close>: parts without a value are left out; the first value of a name. A URL is one
  without blanks, control characters and brackets, which \<open>urlsplit\<close> treats apart.
\<close>

definition query_value :: "string \<Rightarrow> string \<Rightarrow> string" where
  "query_value query name =
     (let pairs = map (\<lambda>part. case split_at (\<lambda>x. x = CHR ''='') part of
            (k, Some v) \<Rightarrow> (unquote_plus k, unquote_plus v) | (k, None) \<Rightarrow> (unquote_plus k, []))
          (split_on (CHR ''&'') [] query)
      in case map_of (filter (\<lambda>kv. snd kv \<noteq> []) pairs) name of Some v \<Rightarrow> v | None \<Rightarrow> [])"

definition SIGN_DETAIL_KEYS :: "(string \<times> string) list" where
  "SIGN_DETAIL_KEYS = [(''depositor'', ''Depositor''), (''depositors'', ''Depositors''), (''agentAddress'', ''Agent wallet''),
     (''agentId'', ''Agent id''), (''proposer'', ''Proposer''), (''vault'', ''Vault'')]"

definition detail_value :: "json \<Rightarrow> json" where
  "detail_value v = (case v of JList vs \<Rightarrow> JStr (join '', '' (map str_json vs)) | _ \<Rightarrow> v)"

definition detail_lines :: "json \<Rightarrow> string list" where
  "detail_lines body = concat (map (\<lambda>(k, label).
     let v = detail_value (case body of JObj o' \<Rightarrow> key_or o' k JNull | _ \<Rightarrow> JNull) in
     if v = JNull \<or> v = JStr [] then [] else [label @ '': '' @ code_tag (esc (str_json v))]) SIGN_DETAIL_KEYS)"

definition sign_link_details :: "(string \<Rightarrow> json result) \<Rightarrow> string \<Rightarrow> string list" where
  "sign_link_details loads url =
     (let action = query_value (query_of url) ''action'' in
      case decode_sign_body loads (query_value (query_of url) ''body'') of
        Inl e \<Rightarrow> []
      | Inr body \<Rightarrow> (if action \<noteq> [] then [''Action: '' @ code_tag (esc action)] else []) @ detail_lines body)"

definition LINK_LABELS :: "(string \<times> string \<times> string) list" where
  "LINK_LABELS = [(''join'', ''join'', (ADMISSION_TICKETS @ '' Join in browser'')), (''deposit'', ''deposit'', (MONEY_BAG @ '' Deposit in browser'')),
     (''withdraw'', ''withdraw'', (LEFTWARDS_ARROW_WITH_HOOK @ '' Withdraw in browser'')), (''vote'', ''vote'', (CROSS_MARK @ '' Cast Against in browser'')),
     (''propose'', ''host co-sign'', (WRITING_HAND @ '' Co-sign in browser'')), (''sign'', ''host signing'', (WRITING_HAND @ '' Sign in browser''))]"

definition render_personal_link :: "(string \<Rightarrow> json result) \<Rightarrow> string \<Rightarrow> string \<Rightarrow> string \<Rightarrow> card" where
  "render_personal_link loads kind url fund_name =
     (let (noun, label) = (case map_of LINK_LABELS kind of Some nl' \<Rightarrow> nl' | None \<Rightarrow> (kind, ''Open in browser''));
          ttl = link_ttl_s kind;
          expires = (if ttl \<ge> 3600 then str_int (ttl div 3600) @ '' hours'' else str_int (ttl div 60) @ '' minutes'');
          details = (if kind = ''sign'' then sign_link_details loads url else [])
      in ((CLOSED_LOCK_WITH_KEY @ '' Your personal '') @ esc noun @ '' link for '' @ bold (esc fund_name) @ ''.'' @ nl
          @ ''It is tied to your Telegram account and expires in '' @ expires @ ''. Your wallet signs in the browser.''
          @ (if details = [] then [] else nl @ nl @ ''Check before you sign:'' @ nl @ join nl details),
        kb [[Url_button label url]]))"

end
