(* ===== verification/CardProps.thy ===== *)
theory CardProps
  imports Cards Demo
begin

text \<open>
  What the cards promise to Telegram: a text in its HTML mode is taken apart into characters, the
  three tags of the cards and the three escapes, with every tag closed in order. The scanner
  \<open>scan\<close> carries the open tags; a text that leaves every stack as it was is \<open>neutral\<close>, and
  neutral texts compose. Telegram refuses a message whose text does not scan.
\<close>

section \<open>Scanning markup\<close>

definition TAGS :: "string list" where "TAGS = [''b'', ''i'', ''code'']"
definition ESCAPES :: "string list" where "ESCAPES = [''amp'', ''lt'', ''gt'']"

lemma split_at_shorter: "split_at P s = (a, Some r) \<Longrightarrow> length r < length s"
proof -
  assume "split_at P s = (a, Some r)"
  then obtain c where "dropWhile (\<lambda>c. \<not> P c) s = c # r" by (auto simp: split_at_def split: list.splits)
  then show ?thesis using length_dropWhile_le [of "\<lambda>c. \<not> P c" s] by simp
qed

function scan :: "string list \<Rightarrow> string \<Rightarrow> string list option" where
  "scan st [] = Some st"
| "scan st (c # s) =
     (if c = CHR ''<'' then (case split_at (\<lambda>x. x = CHR ''>'') s of
        (name, Some r) \<Rightarrow>
          if name \<in> set TAGS then scan (name # st) r
          else if st \<noteq> [] \<and> name = CHR ''/'' # hd st then scan (tl st) r
          else None
      | _ \<Rightarrow> None)
      else if c = CHR ''&'' then (case split_at (\<lambda>x. x = CHR '';'') s of
        (name, Some r) \<Rightarrow> if name \<in> set ESCAPES then scan st r else None
      | _ \<Rightarrow> None)
      else if c = CHR ''>'' then None
      else scan st s)"
  by pat_completeness auto
termination
  by (relation "measure (\<lambda>(st, s). length s)") (auto dest: split_at_shorter [OF sym])

text \<open>A text Telegram takes\<close>

definition html_ok :: "string \<Rightarrow> bool" where
  "html_ok s \<longleftrightarrow> scan [] s = Some []"

definition neutral :: "string \<Rightarrow> bool" where
  "neutral s \<longleftrightarrow> (\<forall>st. scan st s = Some st)"

definition plain_char :: "char \<Rightarrow> bool" where
  "plain_char c \<longleftrightarrow> c \<noteq> CHR ''<'' \<and> c \<noteq> CHR ''>'' \<and> c \<noteq> CHR ''&''"

lemma split_at_append: "split_at P s = (a, Some r) \<Longrightarrow> split_at P (s @ t) = (a, Some (r @ t))"
  by (induction s arbitrary: a) (auto simp: split_at_def split: if_splits list.splits)

lemma scan_append: "scan st s = Some st' \<Longrightarrow> scan st (s @ t) = scan st' t"
proof (induction st s rule: scan.induct)
  case (2 st c s)
  then show ?case
    by (auto simp: scan.simps split_at_append split: prod.splits option.splits if_splits)
qed simp

lemma scan_plain: "plain_char c \<Longrightarrow> scan st (c # s) = scan st s"
  by (simp add: plain_char_def)

declare scan.simps(2) [simp del]

lemma neutral_Nil [simp]: "neutral []"
  by (simp add: neutral_def)

lemma neutral_Cons: "plain_char c \<Longrightarrow> neutral s \<Longrightarrow> neutral (c # s)"
  by (simp add: neutral_def scan_plain)

lemma neutral_append: "neutral s \<Longrightarrow> neutral t \<Longrightarrow> neutral (s @ t)"
  by (simp add: neutral_def scan_append)

lemma neutral_plain: "list_all plain_char s \<Longrightarrow> neutral s"
  by (induction s) (simp_all add: neutral_Cons)

lemma neutral_ok: "neutral s \<Longrightarrow> html_ok s"
  by (simp add: neutral_def html_ok_def)

lemma scan_tag:
  assumes "t \<in> set TAGS"
  shows "scan st (CHR ''<'' # t @ CHR ''>'' # s) = scan (t # st) s"
    and "scan (t # st) (CHR ''<'' # CHR ''/'' # t @ CHR ''>'' # s) = scan st s"
  using assms by (auto simp: TAGS_def split_at_def scan.simps)

lemma neutral_tagged:
  assumes "t \<in> set TAGS" "neutral s"
  shows "neutral (CHR ''<'' # t @ CHR ''>'' # s @ CHR ''<'' # CHR ''/'' # t @ ''>'')"
proof -
  have "scan st (CHR ''<'' # t @ CHR ''>'' # s @ CHR ''<'' # CHR ''/'' # t @ ''>'') = Some st" for st
    using assms scan_tag [OF assms(1)] by (simp add: neutral_def scan_append)
  then show ?thesis by (simp add: neutral_def)
qed

lemma neutral_tags:
  "neutral s \<Longrightarrow> neutral (bold s)" "neutral s \<Longrightarrow> neutral (italic s)" "neutral s \<Longrightarrow> neutral (code_tag s)"
  using neutral_tagged [of "''b''" s] neutral_tagged [of "''i''" s] neutral_tagged [of "''code''" s]
  by (simp_all add: TAGS_def bold_def italic_def code_tag_def)

lemma neutral_esc [simp]: "neutral (esc s)"
proof (induction s)
  case (Cons c s)
  have "neutral ''&amp;''" "neutral ''&lt;''" "neutral ''&gt;''"
    by (simp_all add: neutral_def scan.simps split_at_def ESCAPES_def)
  then have "neutral (if c = CHR ''&'' then ''&amp;'' else if c = CHR ''<'' then ''&lt;'' else if c = CHR ''>'' then ''&gt;'' else [c])"
    using neutral_Cons [of c "[]"] by (simp add: plain_char_def)
  from neutral_append [OF this Cons.IH] show ?case by simp
qed simp

lemma neutral_amp: "neutral s \<Longrightarrow> neutral (CHR ''&'' # CHR ''a'' # CHR ''m'' # CHR ''p'' # CHR '';'' # s)"
proof -
  assume "neutral s"
  then have "neutral (esc ''&'' @ s)" by (rule neutral_append [OF neutral_esc])
  then show ?thesis by simp
qed

lemma neutral_escs [simp]: "list_all neutral (map esc ss)"
  by (simp add: list_all_iff)

lemma neutral_join: "neutral sep \<Longrightarrow> list_all neutral ss \<Longrightarrow> neutral (join sep ss)"
  by (induction sep ss rule: join.induct) (simp_all add: neutral_append)

text \<open>Blanks at the end of a text do not matter.\<close>

lemma split_at_missing: "split_at P s = (a, None) \<Longrightarrow> list_all (\<lambda>c. \<not> P c) ws \<Longrightarrow> split_at P (s @ ws) = (s @ ws, None)"
proof -
  assume "split_at P s = (a, None)" "list_all (\<lambda>c. \<not> P c) ws"
  then have "\<forall>c \<in> set (s @ ws). \<not> P c"
    by (auto simp: split_at_def dropWhile_eq_Nil_conv list_all_iff split: list.splits)
  then have "takeWhile (\<lambda>c. \<not> P c) (s @ ws) = s @ ws" "dropWhile (\<lambda>c. \<not> P c) (s @ ws) = []"
    unfolding takeWhile_eq_all_conv dropWhile_eq_Nil_conv by blast+
  then show ?thesis unfolding split_at_def by (simp only: list.case)
qed

lemma scan_blanks:
  assumes "list_all (\<lambda>c. plain_char c \<and> c \<noteq> CHR '';'') ws"
  shows "scan st (s @ ws) = scan st s"
proof (induction st s rule: scan.induct)
  case (1 st)
  have "neutral ws" using assms by (intro neutral_plain) (simp add: list_all_iff)
  then show ?case by (simp add: neutral_def)
next
  case (2 st c s)
  have gt: "list_all (\<lambda>x. x \<noteq> CHR ''>'') ws" and sc: "list_all (\<lambda>x. x \<noteq> CHR '';'') ws"
    using assms by (auto simp: list_all_iff plain_char_def)
  consider (tag) "c = CHR ''<''" | (escape) "c = CHR ''&''" | (other) "c \<noteq> CHR ''<''" "c \<noteq> CHR ''&''" by blast
  then show ?case
  proof cases
    case tag
    then show ?thesis
    proof (cases "split_at (\<lambda>x. x = CHR ''>'') s")
      case (Pair name r)
      then show ?thesis using tag 2(1,2) [OF tag Pair [symmetric]] split_at_missing [OF _ gt, of s] split_at_append [of "\<lambda>x. x = CHR ''>''" s]
        by (cases r) (auto simp: scan.simps)
    qed
  next
    case escape
    then show ?thesis
    proof (cases "split_at (\<lambda>x. x = CHR '';'') s")
      case (Pair name r)
      then show ?thesis using escape 2(3) [OF _ escape Pair [symmetric]] split_at_missing [OF _ sc, of s] split_at_append [of "\<lambda>x. x = CHR '';''" s]
        by (cases r) (auto simp: scan.simps)
    qed
  next
    case other
    then show ?thesis using 2(4) by (auto simp: scan.simps)
  qed
qed

lemma rstrip_blanks: "\<exists>ws. s = rstrip s @ ws \<and> list_all is_space ws"
proof -
  have "rev s = takeWhile is_space (rev s) @ dropWhile is_space (rev s)" by simp
  then have "s = rstrip s @ rev (takeWhile is_space (rev s))"
    unfolding rstrip_def by (metis rev_append rev_rev_ident)
  then show ?thesis by (intro exI [of _ "rev (takeWhile is_space (rev s))"]) (auto simp: list_all_iff dest: set_takeWhileD)
qed

lemma space_plain: "is_space c \<Longrightarrow> plain_char c \<and> c \<noteq> CHR '';''"
  by (auto simp: is_space_def plain_char_def char_eval)

lemma html_ok_rstrip [simp]: "html_ok (rstrip s) \<longleftrightarrow> html_ok s"
proof -
  obtain ws where ws: "s = rstrip s @ ws" "list_all is_space ws" using rstrip_blanks by blast
  then have "list_all (\<lambda>c. plain_char c \<and> c \<noteq> CHR '';'') ws" using space_plain by (simp add: list_all_iff)
  from scan_blanks [OF this, of "[]" "rstrip s"] ws(1) show ?thesis by (simp add: html_ok_def)
qed

section \<open>The texts of a card\<close>

definition plain :: "string \<Rightarrow> bool" where
  "plain s \<longleftrightarrow> list_all plain_char s"

lemma plain_simps [simp]:
  "plain []" "plain (c # s) \<longleftrightarrow> plain_char c \<and> plain s" "plain (s @ t) \<longleftrightarrow> plain s \<and> plain t"
  by (simp_all add: plain_def)

lemma plain_subset: "plain s \<Longrightarrow> set t \<subseteq> set s \<union> {CHR '',''} \<Longrightarrow> plain t"
  by (auto simp: plain_def list_all_iff plain_char_def)

lemma plain_neutral: "plain s \<Longrightarrow> neutral s"
  by (simp add: plain_def neutral_plain)

lemma plain_glyphs [simp]:
  "plain FILLED" "plain EMPTY_CELL" "plain MIDDLE_DOT" "plain MEMO" "plain INCOMING_ENVELOPE"
  "plain BALLOT_BOX_WITH_BALLOT" "plain WHITE_HEAVY_CHECK_MARK" "plain SHIELD" "plain NO_ENTRY"
  "plain HIGH_VOLTAGE_SIGN" "plain CHEQUERED_FLAG" "plain HEAVY_MULTIPLICATION_X"
  "plain ALMOST_EQUAL_TO" "plain APOSTROPHE" "plain BAR_CHART" "plain THUMBS_UP_SIGN" "plain CROSS_MARK"
  "plain BULLET" "plain HOURGLASS_WITH_FLOWING_SAND" "plain BANK" "plain MONEY_BAG"
  "plain LEFTWARDS_ARROW_WITH_HOOK" "plain ADMISSION_TICKETS" "plain LINK_SYMBOL"
  "plain CLOCKWISE_RIGHTWARDS_AND_LEFTWARDS_OPEN_CIRCLE_ARROWS" "plain WARNING_SIGN"
  "plain RIGHTWARDS_ARROW" "plain ROCKET" "plain WRITING_HAND" "plain HAPPY_PERSON_RAISING_ONE_HAND"
  "plain WASTEBASKET" "plain ROBOT_FACE" "plain TROPHY" "plain CLOSED_LOCK_WITH_KEY" "plain ELLIPSIS"
  "plain DOT_SEP"
  by (simp_all add: plain_char_def glyph_defs DOT_SEP_def ELLIPSIS_def)

lemma plain_digits: "list_all is_digit s \<Longrightarrow> plain s"
  by (auto simp: plain_def list_all_iff plain_char_def char_eval)

lemma plain_str_nat [simp]: "0 \<le> n \<Longrightarrow> plain (str_nat n)"
  by (rule plain_digits) (rule str_nat_digits)

lemma plain_str_int [simp]: "plain (str_int n)"
  by (simp add: str_int_def plain_char_def)

lemma set_group3: "set (group3 s) \<subseteq> set s \<union> {CHR '',''}"
  by (induction s rule: group3.induct) auto

lemma plain_commas [simp]: "plain s \<Longrightarrow> plain (commas s)"
  by (erule plain_subset) (use set_group3 [of "rev s"] in \<open>auto simp: commas_def\<close>)

lemma plain_rstrip_of [simp]: "plain s \<Longrightarrow> plain (rstrip_of c s)"
  by (erule plain_subset) (auto simp: rstrip_of_def dest: set_dropWhileD)

lemma plain_replicate [simp]: "plain_char c \<Longrightarrow> plain (replicate n c)"
  by (induction n) simp_all

lemma plain_pad [simp]: "plain s \<Longrightarrow> plain (pad_left n s)"
  by (simp add: pad_left_def plain_char_def)

lemma plain_fixed_body [simp]: "0 \<le> a \<Longrightarrow> plain (fixed_body g p a)"
  by (simp add: fixed_body_def Let_def plain_char_def)

lemma plain_fl_fixed [simp]: "plain (fl_fixed pl g p f)"
  by (cases f) (simp_all add: fl_fixed_def Let_def plain_char_def)

lemma plain_int_commas [simp]: "plain (int_commas n)"
  by (simp add: int_commas_def plain_char_def)

lemma plain_times [simp]: "plain s \<Longrightarrow> plain (times n s)"
  by (auto simp: times_def plain_def list_all_iff)

lemma plain_bar [simp]: "plain (bar_of f n)"
  by (simp add: bar_of_def Let_def)

lemma plain_fmt_usd [simp]: "plain (fmt_usd v)"
  by (simp add: fmt_usd_def plain_char_def)

lemma plain_two_digits [simp]: "plain (two_digits n)"
  by (simp add: two_digits_def)

lemma plain_results:
  "fmt_amount v = Inr t \<Longrightarrow> plain t" "fmt_pct b bps = Inr t \<Longrightarrow> plain t" "fmt_weight bps = Inr t \<Longrightarrow> plain t"
  by (auto simp: fmt_amount_def fmt_pct_def fmt_weight_def no_zeros_def and_then_Inr_iff plain_char_def)

lemma plain_veto_meter: "veto_meter a b = Inr t \<Longrightarrow> plain t"
  by (auto simp: veto_meter_def and_then_Inr_iff Let_def plain_char_def plain_results)

lemma plain_goal_bar: "goal_bar m n = Inr t \<Longrightarrow> plain t"
  by (auto simp: goal_bar_def and_then_Inr_iff Let_def plain_char_def split: if_splits)

lemma plain_month [simp]: "plain (month_name m)"
proof (cases "1 \<le> m \<and> m \<le> 12")
  case True
  have "length MONTHS = 12" by (simp add: MONTHS_def)
  with True have "MONTHS ! nat (m - 1) \<in> set MONTHS" by (intro nth_mem) arith
  moreover have "list_all plain MONTHS" by (simp add: MONTHS_def plain_char_def)
  ultimately show ?thesis using True by (simp add: month_name_def list_all_iff)
qed (auto simp: month_name_def)

section \<open>The last minute\<close>

definition last_minute :: "int option \<Rightarrow> time \<Rightarrow> bool" where
  "last_minute ends_at now \<longleftrightarrow> (\<exists>e. ends_at = Some e \<and> 0 < of_int e - now \<and> of_int e - now < 60)"

lemma countdown_last: "last_minute e now \<Longrightarrow> countdown e now = ''ends in <1m''"
  by (auto simp: last_minute_def countdown_def)

lemma countdown_plain: "\<not> last_minute e now \<Longrightarrow> plain (countdown e now)"
  by (cases e) (simp_all add: last_minute_def countdown_def Let_def plain_char_def)

text \<open>A text after which nothing scans\<close>

definition breaks :: "string \<Rightarrow> bool" where
  "breaks s \<longleftrightarrow> (\<forall>st t. scan st (s @ t) = None)"

lemma breaks_append: "breaks s \<Longrightarrow> breaks (s @ t)" "neutral s \<Longrightarrow> breaks t \<Longrightarrow> breaks (s @ t)"
  by (simp_all add: breaks_def neutral_def scan_append)

lemma breaks_last: "breaks ''ends in <1m''"
proof -
  have "scan st (''<1m'' @ t) = None" for st t
    by (simp add: scan.simps split_at_def TAGS_def split: option.split)
  then have "breaks ''<1m''" by (simp add: breaks_def)
  moreover have "neutral ''ends in ''" by (rule plain_neutral) (simp add: plain_char_def)
  ultimately show ?thesis using breaks_append(2) [of "''ends in ''" "''<1m''"] by simp
qed

lemma breaks_not_ok: "breaks s \<Longrightarrow> \<not> html_ok s"
  unfolding breaks_def html_ok_def by (metis append_Nil2 option.distinct(1))

lemma join_append: "xs \<noteq> [] \<Longrightarrow> ys \<noteq> [] \<Longrightarrow> join sep (xs @ ys) = join sep xs @ sep @ join sep ys"
  by (induction sep xs rule: join.induct) (auto simp: neq_Nil_conv)

lemma breaks_join:
  assumes "list_all neutral xs" "neutral sep" "breaks y"
  shows "breaks (join sep (xs @ y # ys))"
proof -
  have "breaks (join sep (y # ys))" using assms(3) by (cases ys) (simp_all add: breaks_append)
  then show ?thesis using assms(1,2) neutral_join [OF assms(2,1)]
    by (cases "xs = []") (simp_all add: join_append breaks_append)
qed

lemma neutral_nl [simp]: "neutral nl"
  by (rule plain_neutral) (simp add: nl_def plain_char_def)

section \<open>The lines of a card\<close>

lemmas neutral_rules = neutral_append neutral_Cons neutral_join neutral_tags plain_neutral

lemma mapM_all: "mapM f xs = Inr ys \<Longrightarrow> (\<And>x y. f x = Inr y \<Longrightarrow> P y) \<Longrightarrow> list_all P ys"
  by (induction xs arbitrary: ys) (auto simp: and_then_Inr_iff)

lemma neutral_handle [simp]: "neutral (people_handle people i)"
  by (cases i) (simp_all add: people_handle_def neutral_rules plain_char_def)

lemma neutral_avatars [simp]: "neutral (avatars people ids)"
  by (simp add: avatars_def Let_def neutral_rules plain_char_def list_all_iff)

lemma neutral_texts [simp]: "neutral (thesis_text t)" "neutral (short_text n t)"
  by (simp_all add: thesis_text_def short_text_def)

lemma plain_chip [simp]: "plain (status_chip s)"
  by (cases s) (simp_all add: plain_char_def)

lemma plain_usd_note [simp]: "plain (usd_note a w)"
  by (cases w) (simp_all add: usd_note_def plain_char_def)

lemma plain_bond_line: "bond_line b w = Inr t \<Longrightarrow> plain t"
  by (auto simp: bond_line_def and_then_Inr_iff plain_results plain_char_def)

lemma neutral_legs: "legs_line legs = Inr t \<Longrightarrow> neutral t"
proof -
  assume "legs_line legs = Inr t"
  then obtain ts where m: "mapM (\<lambda>l. if lv_weight_bps l > 0
       then and_then (fmt_weight (lv_weight_bps l)) (\<lambda>w. Inr (bold (esc (lv_symbol l)) @ '' '' @ w))
       else Inr (esc (lv_symbol l))) legs = Inr ts" and t: "t = join DOT_SEP ts"
    by (auto simp: legs_line_def and_then_Inr_iff)
  from m have "list_all neutral ts"
    by (rule mapM_all) (auto simp: and_then_Inr_iff neutral_rules plain_results plain_char_def split: if_splits)
  then show ?thesis by (simp add: t neutral_rules)
qed

lemma neutral_capital: "capital_line p = Inr t \<Longrightarrow> neutral t"
  by (auto simp: capital_line_def and_then_Inr_iff neutral_rules plain_results plain_char_def)

lemma neutral_size: "size_lines p fund = Inr ts \<Longrightarrow> list_all neutral ts"
  by (auto simp: size_lines_def and_then_Inr_iff neutral_rules plain_goal_bar plain_char_def split: option.splits)

lemma neutral_one_line: "list_all neutral ts \<Longrightarrow> list_all neutral (one_line ts)"
  by (simp add: one_line_def neutral_rules)

lemma neutral_social [simp]: "list_all neutral (social_lines people p)" "list_all neutral (credit_lines people p)"
  unfolding social_lines_def credit_lines_def
  by (rule neutral_one_line, simp add: neutral_rules plain_char_def)+

lemma neutral_foot: "foot_lines p = Inr ts \<Longrightarrow> list_all neutral ts"
  by (auto simp: foot_lines_def and_then_Inr_iff neutral_rules plain_results plain_char_def split: if_splits)

text \<open>When the card shows a clock in its last minute\<close>

definition clock_breaks :: "proposal_view \<Rightarrow> time \<Rightarrow> bool" where
  "clock_breaks p now \<longleftrightarrow> (pv_status p = Voting \<and> last_minute (pv_voting_ends_at p) now)
     \<or> (pv_status p = Review \<and> last_minute (pv_review_ends_at p) now)"

lemma vote_lines_neutral: "vote_lines p now = Inr ts \<Longrightarrow> \<not> clock_breaks p now \<Longrightarrow> list_all neutral ts"
  by (auto simp: vote_lines_def and_then_Inr_iff Let_def clock_breaks_def neutral_rules plain_veto_meter countdown_plain split: if_splits)

lemma vote_lines_break:
  assumes "vote_lines p now = Inr ts" "pv_status p = Voting" "last_minute (pv_voting_ends_at p) now"
  shows "\<exists>t. ts = [t] \<and> breaks t"
proof -
  from assms obtain m where m: "veto_meter (pv_against_bps p) (pv_threshold_bps p) = Inr m" "ts = [(m @ DOT_SEP) @ ''ends in <1m'']"
    by (auto simp: vote_lines_def METERED_def and_then_Inr_iff Let_def countdown_last)
  then have "breaks ((m @ DOT_SEP) @ ''ends in <1m'')"
    by (intro breaks_append(2) [OF _ breaks_last] plain_neutral) (simp add: plain_veto_meter)
  with m(2) show ?thesis by blast
qed

lemma review_clock_neutral: "\<not> last_minute (pv_review_ends_at p) now \<Longrightarrow> plain (review_clock p now)"
  by (simp add: review_clock_def Let_def countdown_plain plain_char_def)

lemma review_lines_neutral: "\<not> clock_breaks p now \<Longrightarrow> list_all neutral (review_lines p now)"
  by (simp add: review_lines_def Let_def clock_breaks_def review_clock_neutral neutral_rules plain_char_def)

lemma review_lines_break:
  assumes "pv_status p = Review" "last_minute (pv_review_ends_at p) now"
  shows "\<exists>t. review_lines p now = [t] \<and> breaks t"
proof -
  have c: "review_clock p now = ''ends in <1m''" using assms(2) by (simp add: review_clock_def countdown_last)
  have "neutral (SHIELD @ '' Guardian review'' @ DOT_SEP)" by (intro plain_neutral) (simp add: plain_char_def)
  from breaks_append(2) [OF this breaks_append(1) [OF breaks_last]] show ?thesis
    using assms(1) by (simp add: review_lines_def Let_def c)
qed

section \<open>Properties\<close>

lemma proposal_card_scans:
  assumes "render_proposal_card p fund people wood_usd base_url now = Inr (shown, rows)"
  shows "html_ok shown \<longleftrightarrow> \<not> clock_breaks p now"
proof -
  obtain legs capital sz votes bond foot where parts: "legs_line (pv_legs p) = Inr legs" "capital_line p = Inr capital"
      "size_lines p fund = Inr sz" "vote_lines p now = Inr votes" "bond_line (rnd (pv_bond_wood p)) wood_usd = Inr bond"
      "foot_lines p = Inr foot"
    and shown: "shown = rstrip (join nl ([status_chip (pv_status p) @ DOT_SEP @ bold (''Proposal #'' @ esc (shown_id p)),
       italic (thesis_text (pv_thesis p)), []] @ (if legs \<noteq> [] then [legs] else []) @ [capital] @ sz @ [[]]
       @ votes @ review_lines p now @ social_lines people p @ credit_lines people p @ [bond] @ foot))"
    using assms unfolding render_proposal_card_def proposal_lines_def and_then_Inr_iff by blast
  let ?pre = "[status_chip (pv_status p) @ DOT_SEP @ bold (''Proposal #'' @ esc (shown_id p)),
       italic (thesis_text (pv_thesis p)), []] @ (if legs \<noteq> [] then [legs] else []) @ [capital] @ sz @ [[]]"
  let ?post = "social_lines people p @ credit_lines people p @ [bond] @ foot"
  have pre: "list_all neutral ?pre"
    using neutral_legs [OF parts(1)] neutral_capital [OF parts(2)] neutral_size [OF parts(3)]
    by (simp add: neutral_rules plain_char_def)
  have post: "list_all neutral ?post"
    using neutral_foot [OF parts(6)] plain_bond_line [OF parts(5)] by (simp add: plain_neutral)
  have ok: "html_ok shown = html_ok (join nl (?pre @ votes @ review_lines p now @ ?post))"
    unfolding shown html_ok_rstrip by (simp only: append_assoc)
  consider (fine) "\<not> clock_breaks p now" | (voting) "pv_status p = Voting" "last_minute (pv_voting_ends_at p) now"
    | (reviewing) "pv_status p = Review" "last_minute (pv_review_ends_at p) now" "pv_status p \<noteq> Voting"
    unfolding clock_breaks_def by fastforce
  then show ?thesis
  proof cases
    case fine
    then have "list_all neutral (?pre @ votes @ review_lines p now @ ?post)"
      using pre post vote_lines_neutral [OF parts(4) fine] review_lines_neutral [OF fine] by simp
    from neutral_ok [OF neutral_join [OF neutral_nl this]] fine ok show ?thesis by blast
  next
    case voting
    from vote_lines_break [OF parts(4) this] obtain t where t: "votes = [t]" "breaks t" by blast
    from breaks_not_ok [OF breaks_join [OF pre neutral_nl t(2), of "review_lines p now @ ?post"]] show ?thesis
      using ok t(1) voting by (simp add: clock_breaks_def)
  next
    case reviewing
    from review_lines_break [OF this(1,2)] obtain t where t: "review_lines p now = [t]" "breaks t" by blast
    have "list_all neutral votes" using parts(4) reviewing(3)
      by (auto simp: vote_lines_def and_then_Inr_iff Let_def plain_neutral plain_veto_meter split: if_splits)
    with pre have "list_all neutral (?pre @ votes)" by simp
    from breaks_not_ok [OF breaks_join [OF this neutral_nl t(2), of ?post]] show ?thesis
      using ok t(1) reviewing by (simp add: clock_breaks_def)
  qed
qed

text \<open>
  C40: Whatever the members wrote, a proposal card is a text that Telegram takes, except in the last
  minute of the vote or of the review: its clock then reads \<open>ends in <1m\<close>, which is no tag.
\<close>

theorem proposal_card_is_markup:
  assumes "render_proposal_card p fund people wood_usd base_url now = Inr (shown, rows)"
  shows "html_ok shown \<longleftrightarrow> \<not> clock_breaks p now"
  by (rule proposal_card_scans [OF assms])

definition card_example :: proposal_view where
  "card_example = \<lparr>pv_id = ''7'', pv_governor = [], pv_proposer = ''hermes'', pv_thesis = ''<script> & co'',
     pv_legs = [\<lparr>lv_symbol = ''NVDA'', lv_weight_bps = 6000\<rparr>], pv_max_capital = 3000, pv_max_drawdown_bps = 500,
     pv_bond_wood = 10, pv_status = Voting, pv_backers = [11], pv_objectors = [], pv_idea_by = Some 11,
     pv_card_message_id = None, pv_voting_ends_at = Some 1000, pv_against_bps = 500, pv_threshold_bps = 2000,
     pv_image_url = None, pv_capital_symbol = ''USDG'', pv_onchain_id = None, pv_review_ends_at = None,
     pv_guardian_coverage = [], pv_bond_buffer_status = [], pv_bond_buffer_note = []\<rparr>"

theorem proposal_card_is_markup_witness:
  "\<exists>shown rows. render_proposal_card card_example None (\<lambda>_. None) None [] 0 = Inr (shown, rows) \<and> html_ok shown"
proof -
  have "ok (render_proposal_card card_example None (\<lambda>_. None) None [] 0)" by code_simp
  then obtain shown rows where r: "render_proposal_card card_example None (\<lambda>_. None) None [] 0 = Inr (shown, rows)"
    by (auto simp: ok_def split: sum.splits)
  have "\<not> clock_breaks card_example 0" by (simp add: clock_breaks_def last_minute_def card_example_def)
  with proposal_card_is_markup [OF r] r show ?thesis by blast
qed

text \<open>The fund's card is marked up well unless a proposal it lists is in the last minute of its vote.\<close>

lemma open_line_neutral:
  "\<not> (pv_status p = Voting \<and> last_minute (pv_voting_ends_at p) now) \<Longrightarrow> neutral (open_line now p)"
  by (auto simp: open_line_def Let_def countdown_plain neutral_rules plain_char_def)

lemma open_line_breaks:
  assumes "pv_status p = Voting" "last_minute (pv_voting_ends_at p) now"
  shows "breaks (open_line now p)"
proof -
  let ?pre = "BULLET @ '' #'' @ esc (shown_id p) @ '' '' @ short_text 40 (pv_thesis p) @ DOT_SEP @ status_chip (pv_status p) @ DOT_SEP"
  have "neutral ?pre" by (simp add: neutral_rules plain_char_def)
  from breaks_append(2) [OF this breaks_last] show ?thesis
    using assms(1) countdown_last [OF assms(2)] by (simp add: open_line_def)
qed

lemma neutral_position: "position_line f pos = Inr t \<Longrightarrow> neutral t"
  by (auto simp: position_line_def and_then_Inr_iff neutral_rules plain_results plain_char_def split: option.splits)

lemma neutral_cooldown: "cooldown_lines now u = Inr ts \<Longrightarrow> list_all neutral ts"
  by (auto simp: cooldown_lines_def hhmm_text_def and_then_Inr_iff neutral_rules plain_char_def split: option.splits if_splits)

theorem fund_card_is_markup:
  assumes "render_fund_card f base_url now notice = Inr (shown, rows)"
  shows "html_ok shown \<longleftrightarrow> \<not> (\<exists>p \<in> set (fv_open_proposals f). pv_status p = Voting \<and> last_minute (pv_voting_ends_at p) now)"
proof -
  obtain nav pnl positions cool where parts: "fmt_amount (fl_round2 (cf_nav f)) = Inr nav" "fmt_pct True (cf_pnl_bps f) = Inr pnl"
      "mapM (position_line f) (cf_positions f) = Inr positions" "cooldown_lines now (fv_cooldown_until f) = Inr cool"
    and body: "shown = join nl ([BANK @ '' '' @ bold (esc (fv_name f)),
          ''NAV '' @ bold (nav @ '' '' @ esc (fv_nav_symbol f)) @ ('' '' @ MIDDLE_DOT @ '' P&amp;L '') @ bold pnl, [], bold ''Positions'']
       @ (if cf_positions f \<noteq> [] then positions else [BULLET @ '' none yet''])
       @ (if fv_open_proposals f \<noteq> [] then [[], bold ''Open proposals''] @ map (open_line now) (fv_open_proposals f) else [])
       @ cool
       @ [[], ''Members '' @ str_int (int (length (fv_members f))) @ ('' '' @ MIDDLE_DOT @ '' Agents '')
            @ (if fv_agents f \<noteq> [] then join '', '' (map esc (fv_agents f)) else ''none'')]
       @ (if notice \<noteq> [] then [[], italic (esc notice)] else []))"
    using assms unfolding render_fund_card_def fund_lines_def and_then_Inr_iff by auto
  let ?head = "[BANK @ '' '' @ bold (esc (fv_name f)),
          ''NAV '' @ bold (nav @ '' '' @ esc (fv_nav_symbol f)) @ ('' '' @ MIDDLE_DOT @ '' P&amp;L '') @ bold pnl, [], bold ''Positions'']
       @ (if cf_positions f \<noteq> [] then positions else [BULLET @ '' none yet''])
       @ (if fv_open_proposals f \<noteq> [] then [[], bold ''Open proposals''] else [])"
  let ?open = "map (open_line now) (fv_open_proposals f)"
  let ?post = "cool @ [[], ''Members '' @ str_int (int (length (fv_members f))) @ ('' '' @ MIDDLE_DOT @ '' Agents '')
            @ (if fv_agents f \<noteq> [] then join '', '' (map esc (fv_agents f)) else ''none'')]
       @ (if notice \<noteq> [] then [[], italic (esc notice)] else [])"
  have "list_all neutral positions" using mapM_all [OF parts(3) neutral_position] .
  then have head: "list_all neutral ?head"
    using plain_results(1) [OF parts(1)] plain_results(2) [OF parts(2)]
    by (simp add: neutral_rules neutral_amp plain_char_def)
  have post: "list_all neutral ?post"
    using neutral_cooldown [OF parts(4)] by (simp add: neutral_rules plain_char_def)
  have body': "shown = join nl (?head @ ?open @ ?post)" unfolding body by simp
  show ?thesis
  proof (cases "\<exists>p \<in> set (fv_open_proposals f). pv_status p = Voting \<and> last_minute (pv_voting_ends_at p) now")
    case True
    then obtain xs p ys where op: "fv_open_proposals f = xs @ p # ys"
        "\<forall>q \<in> set xs. \<not> (pv_status q = Voting \<and> last_minute (pv_voting_ends_at q) now)"
        "pv_status p = Voting" "last_minute (pv_voting_ends_at p) now"
      by (auto simp: split_list_first_prop_iff)
    have "list_all neutral (map (open_line now) xs)" using op(2) by (simp add: list_all_iff open_line_neutral)
    then have "list_all neutral (?head @ map (open_line now) xs)"
      by (rule iffD2 [OF list_all_append conjI [OF head]])
    from breaks_join [OF this neutral_nl open_line_breaks [OF op(3,4)], of "map (open_line now) ys @ ?post"]
    have "breaks shown" unfolding body' op(1) by simp
    with True breaks_not_ok show ?thesis by blast
  next
    case False
    then have "list_all neutral ?open" by (simp add: list_all_iff open_line_neutral)
    with head post have "list_all neutral (?head @ ?open @ ?post)" by simp
    from neutral_ok [OF neutral_join [OF neutral_nl this]] body' False show ?thesis by simp
  qed
qed

text \<open>Every other card is marked up well.\<close>

lemma neutral_view: "render_draft_card p fund people wood_usd missing cosign = Inr (shown, rows) \<Longrightarrow> html_ok shown"
proof -
  assume "render_draft_card p fund people wood_usd missing cosign = Inr (shown, rows)"
  then obtain ts where ts: "draft_lines p fund people wood_usd missing = Inr ts" and shown: "shown = join nl ts"
    by (auto simp: render_draft_card_def and_then_Inr_iff split: if_splits)
  obtain legs capital sz bond needs where parts: "legs_line (pv_legs p) = Inr legs" "capital_line p = Inr capital"
      "size_lines p fund = Inr sz" "bond_line (rnd (pv_bond_wood p)) wood_usd = Inr bond"
      "shortfall_lines missing wood_usd = Inr needs"
    and body: "ts = [status_chip Draft @ DOT_SEP @ bold (''Draft #'' @ esc (pv_id p))
            @ (if pv_idea_by p \<noteq> None then ('' '' @ MIDDLE_DOT @ '' from '') @ people_handle people (pv_idea_by p) @ (APOSTROPHE @ ''s idea'') else []),
          italic (thesis_text (pv_thesis p)), []]
       @ (if legs \<noteq> [] then [legs] else []) @ [capital] @ sz
       @ (if pv_proposer p \<noteq> [] then [''agent '' @ esc (pv_proposer p)] else []) @ [bond] @ needs
       @ (if bond_buffer_line p \<noteq> [] then [bond_buffer_line p] else [])
       @ [[], italic (''Host: '' @ ROCKET @ '' Ship it sends this to a vote.'')]"
    using ts unfolding draft_lines_def and_then_Inr_iff by auto
  have "list_all neutral needs" using parts(5)
    by (auto simp: shortfall_lines_def and_then_Inr_iff neutral_rules plain_results plain_char_def split: option.splits if_splits)
  moreover have "list_all plain (map snd BOND_BUFFER_LINES)" by (simp add: BOND_BUFFER_LINES_def plain_char_def)
  then have "neutral (bond_buffer_line p)"
    by (auto simp: bond_buffer_line_def list_all_iff neutral_rules plain_char_def split: option.split dest!: map_of_SomeD)
  ultimately have "list_all neutral ts"
    using neutral_legs [OF parts(1)] neutral_capital [OF parts(2)] neutral_size [OF parts(3)] plain_bond_line [OF parts(4)]
    unfolding body by (simp add: neutral_rules plain_char_def)
  then show ?thesis unfolding shown by (rule neutral_ok [OF neutral_join [OF neutral_nl]])
qed

lemma plain_date: "date_text d = Inr t \<Longrightarrow> plain t"
  by (auto simp: date_text_def and_then_Inr_iff plain_char_def split: option.splits if_splits)

lemma ok_lines: "list_all neutral ts \<Longrightarrow> html_ok (join nl ts)"
  by (rule neutral_ok [OF neutral_join [OF neutral_nl]])

lemma neutral_member: "render_member_card m f base_url = Inr (shown, rows) \<Longrightarrow> html_ok shown"
proof -
  assume r: "render_member_card m f base_url = Inr (shown, rows)"
  obtain joined share where p: "date_text (mv_joined_at m) = Inr joined" "fmt_pct False (mv_share_bps m) = Inr share"
    and shown: "shown = join nl ([(if mv_number m > 0 then (ADMISSION_TICKETS @ '' '') @ bold (''Member #'' @ str_int (mv_number m))
             else (ADMISSION_TICKETS @ '' '') @ bold ''Member'') @ DOT_SEP @ esc (person_handle (member_person m)),
           share @ '' of shares'' @ (if joined \<noteq> [] then ('' '' @ MIDDLE_DOT @ '' joined '') @ joined else []), bold (esc (fv_name f))]
         @ (if mv_number m \<le> 0
            then [italic ''Your member number is your deposit order: it shows after your first deposit.''] else [])
         @ (if mv_address m \<noteq> [] then [(LINK_SYMBOL @ '' wallet linked '') @ code_tag (esc (mv_address m))] else []))"
    using r unfolding render_member_card_def and_then_Inr_iff by auto
  show ?thesis unfolding shown using plain_date [OF p(1)] plain_results(2) [OF p(2)]
    by (intro ok_lines) (simp add: neutral_rules plain_char_def)
qed

lemma neutral_receipt: "render_settle_receipt r people fund base_url = Inr (shown, rows) \<Longrightarrow> html_ok shown"
  by (auto simp: render_settle_receipt_def and_then_Inr_iff neutral_rules plain_results plain_char_def
      intro!: neutral_ok)

lemma neutral_prompts:
  "render_join_prompt f base_url = Inr (shown, rows) \<Longrightarrow> html_ok shown"
  "render_member_request f who = Inr (shown, rows) \<Longrightarrow> html_ok shown"
  "render_agent_card f agent pending = Inr (shown, rows) \<Longrightarrow> html_ok shown"
  unfolding render_join_prompt_def render_member_request_def render_agent_card_def
  by (auto simp only: and_then_Inr_iff prod.inject Inr_inject split: if_splits intro!: neutral_ok neutral_join)
    (simp_all add: neutral_rules plain_char_def)

lemma neutral_leaders: "render_leaderboard ls fund people base_url = Inr (shown, rows) \<Longrightarrow> html_ok shown"
proof -
  assume r: "render_leaderboard ls fund people base_url = Inr (shown, rows)"
  let ?ranked = "take 10 (sort_key leader_key ls)"
  from r obtain lines where m: "mapM (leader_line people) (zip [1..<Suc (length ?ranked)] ?ranked) = Inr lines"
    and shown: "shown = join nl ([TROPHY @ '' '' @ bold ''Leaderboard'' @ (case fund of None \<Rightarrow> [] | Some f \<Rightarrow> DOT_SEP @ esc (fv_name f))]
         @ (if ?ranked = [] then [''No settled ideas yet. Pitch one: mention me with a trade idea.''] else []) @ lines)"
    unfolding render_leaderboard_def Let_def and_then_Inr_iff by auto
  have "neutral l" if "leader_line people ir = Inr l" for ir l
    using that by (cases ir) (auto simp: leader_line_def and_then_Inr_iff neutral_rules plain_results plain_char_def)
  from mapM_all [OF m this] show ?thesis unfolding shown
    by (intro neutral_ok neutral_join) (auto simp: neutral_rules plain_char_def split: option.split)
qed

lemma neutral_details: "list_all neutral (sign_link_details loads url)"
proof -
  have labels: "list_all plain (map snd SIGN_DETAIL_KEYS)" by (simp add: SIGN_DETAIL_KEYS_def plain_char_def)
  have "neutral t" if t: "t \<in> set (detail_lines body)" for t body
  proof -
    obtain k label v where k: "(k, label) \<in> set SIGN_DETAIL_KEYS" and v: "t = label @ '': '' @ code_tag (esc v)"
      using t unfolding detail_lines_def by (auto simp: Let_def split: if_splits)
    have "plain label" using labels k by (force simp: list_all_iff)
    then show ?thesis unfolding v by (simp add: neutral_rules plain_char_def)
  qed
  moreover have "neutral (''Action: '' @ code_tag (esc action))" for action by (simp add: neutral_rules plain_char_def)
  ultimately show ?thesis unfolding sign_link_details_def Let_def list_all_iff by (auto split: sum.splits if_splits)
qed

lemma neutral_link: "html_ok (fst (render_personal_link loads kind url fund_name))"
proof -
  obtain noun label where l: "(case map_of LINK_LABELS kind of None \<Rightarrow> (kind, ''Open in browser'') | Some x \<Rightarrow> x) = (noun, label)"
    by (metis surj_pair)
  have d: "neutral (join nl (if kind = ''sign'' then sign_link_details loads url else []))"
    using neutral_join [OF neutral_nl neutral_details [of loads url]] by simp
  have e: "plain (if link_ttl_s kind \<ge> 3600 then str_int (link_ttl_s kind div 3600) @ '' hours''
      else str_int (link_ttl_s kind div 60) @ '' minutes'')"
    by (simp add: plain_char_def)
  show ?thesis unfolding render_personal_link_def l Let_def prod.case fst_conv
    by (intro neutral_ok neutral_append neutral_tags neutral_esc neutral_nl plain_neutral [OF e])
      (use d in \<open>simp_all add: neutral_rules plain_char_def\<close>)
qed

section \<open>What Telegram refuses all the same\<close>

text \<open>
  A text that is too long is cut where the limit falls. When that is inside the thesis, the cut card
  has an open tag and Telegram refuses it: a thesis full of escaped characters is five times as long
  as its limit says.
\<close>

lemma scan_no_tag: "CHR ''<'' \<notin> set s \<Longrightarrow> scan st s = None \<or> scan st s = Some st"
proof (induction st s rule: scan.induct)
  case (2 st c s)
  have "CHR ''<'' \<notin> set r" if "split_at (\<lambda>x. x = CHR '';'') s = (a, Some r)" for a r
  proof -
    have "set r \<subseteq> set s" using that
      by (auto simp: split_at_def split: list.splits) (metis list.set_intros(2) set_dropWhileD)
    then show ?thesis using 2(5) by auto
  qed
  then show ?case using 2 by (auto simp: scan.simps split: prod.splits option.splits)
qed simp

lemma esc_no_tag: "CHR ''<'' \<notin> set (esc s)"
  by (induction s) auto

theorem clipped_card_is_refused:
  assumes "render_proposal_card p fund people wood_usd base_url now = Inr (shown, rows)"
    and "first = status_chip (pv_status p) @ DOT_SEP @ bold (''Proposal #'' @ esc (shown_id p))"
    and "length first + 4 < limit" "limit \<le> length first + 5 + length (thesis_text (pv_thesis p))" "limit < length shown"
  shows "\<not> html_ok (clip shown limit)"
proof -
  obtain rest where rest: "shown = rstrip (join nl (first # italic (thesis_text (pv_thesis p)) # [] # rest))" "rest \<noteq> []"
    using assms(1) unfolding render_proposal_card_def proposal_lines_def and_then_Inr_iff assms(2) by auto
  let ?s = "first @ nl @ ''<i>'' @ thesis_text (pv_thesis p) @ ''</i>''"
  let ?tail = "nl @ nl @ join nl rest"
  have all: "join nl (first # italic (thesis_text (pv_thesis p)) # [] # rest) = ?s @ ?tail"
    using rest(2) by (cases rest) (simp_all add: italic_def)
  obtain ws where ws: "?s @ ?tail = shown @ ws" using rstrip_blanks [of "?s @ ?tail"] rest(1) all by metis
  let ?k = "limit - length first - 5"
  have "take (limit - 1) shown = take (limit - 1) (shown @ ws)" using assms(5) by simp
  also have "\<dots> = take (limit - 1) (?s @ ?tail)" by (simp only: ws)
  also have "\<dots> = first @ nl @ ''<i>'' @ take ?k (thesis_text (pv_thesis p))"
    using assms(3,4) by (simp add: nl_def take_Cons' eval_nat_numeral)
  finally have cut: "clip shown limit = (first @ nl) @ ''<i>'' @ take ?k (thesis_text (pv_thesis p)) @ ELLIPSIS"
    using assms(5) by (simp add: clip_def)
  have "neutral (first @ nl)" unfolding assms(2) by (simp add: neutral_rules plain_char_def)
  then have "scan [] (clip shown limit) = scan [''i''] (take ?k (thesis_text (pv_thesis p)) @ ELLIPSIS)"
    using scan_tag(1) [of "''i''" "[]"] unfolding cut neutral_def by (simp add: scan_append TAGS_def del: append_assoc)
  moreover have "CHR ''<'' \<notin> set (take ?k (thesis_text (pv_thesis p)) @ ELLIPSIS)"
    using esc_no_tag in_set_takeD by (fastforce simp: thesis_text_def ELLIPSIS_def)
  ultimately show ?thesis using scan_no_tag unfolding html_ok_def by (metis list.distinct(1) option.distinct(1) option.inject)
qed

text \<open>A guest agent with a long name can ask to join, but the card with the host's buttons is not made.\<close>

theorem long_agent_name_has_no_card:
  "43 < length agent \<Longrightarrow> render_agent_card f agent True = Inl Value_error"
  by (simp add: render_agent_card_def cb_button_def cb_def CALLBACK_MAX_BYTES_def Let_def)

text \<open>In the last minute of a vote the card cannot be posted or edited.\<close>

theorem last_minute_card_is_refused:
  assumes "pv_status p = Voting" "pv_voting_ends_at p = Some e" "of_int e - 60 < now" "now < of_int e"
    and "render_proposal_card p fund people wood_usd base_url now = Inr (shown, rows)"
  shows "\<not> html_ok shown"
  using proposal_card_scans [OF assms(5)] assms(1-4) by (simp add: clock_breaks_def last_minute_def)

section \<open>Buttons\<close>

lemma cb_read_back: "cb action who = Inr data \<Longrightarrow> action \<noteq> [] \<Longrightarrow> CHR '':'' \<notin> set action \<Longrightarrow>
    parse_cb data = Some (action, who) \<and> length data \<le> 64"
proof -
  assume a: "cb action who = Inr data" "action \<noteq> []" "CHR '':'' \<notin> set action"
  then have d: "data = ''shfund'' @ CHR '':'' # action @ CHR '':'' # who" "length data \<le> 64"
    by (auto simp: cb_def Let_def CALLBACK_MAX_BYTES_def split: if_splits)
  have s: "split_at (\<lambda>c. c = CHR '':'') (x @ CHR '':'' # y) = (x, Some y)" if "CHR '':'' \<notin> set x" for x y
    using that by (induction x) (auto simp: split_at_def)
  have "split_at (\<lambda>c. c = CHR '':'') data = (''shfund'', Some (action @ CHR '':'' # who))"
    unfolding d(1) by (rule s) simp
  then show ?thesis using s [OF a(3), of who] a(2) d(2) by (simp add: parse_cb_def)
qed

text \<open>The data of every button of a card reads back as its action on what the card shows.\<close>

definition reads_back :: "(string \<times> string) set \<Rightarrow> button list list \<Rightarrow> bool" where
  "reads_back acts rows \<longleftrightarrow> (\<forall>row \<in> set rows. \<forall>b \<in> set row. case b of
     Url_button l u \<Rightarrow> True
   | Callback_button l d \<Rightarrow> length d \<le> 64 \<and> (\<exists>a \<in> acts. parse_cb d = Some a))"

lemma cb_button_reads: "cb_button l action who = Inr b \<Longrightarrow> action \<noteq> [] \<Longrightarrow> CHR '':'' \<notin> set action \<Longrightarrow>
    \<exists>d. b = Callback_button l d \<and> length d \<le> 64 \<and> parse_cb d = Some (action, who)"
  using cb_read_back by (auto simp: cb_button_def and_then_Inr_iff)

lemma view_row_urls: "view_row base_url fund = Inr rows \<Longrightarrow> reads_back S rows"
  by (auto simp: view_row_def view_button_def and_then_Inr_iff reads_back_def split: option.splits)

lemma reads_back_append: "reads_back S (kb (xs @ ys)) \<longleftrightarrow> reads_back S (kb xs) \<and> reads_back S (kb ys)"
  by (auto simp: reads_back_def kb_def)

lemma reads_back_kb: "reads_back S rows \<Longrightarrow> reads_back S (kb rows)"
  by (auto simp: reads_back_def kb_def)

lemma proposal_rows_read: "proposal_rows p = Inr rows \<Longrightarrow> reads_back {(''back'', pv_id p), (''vote'', pv_id p)} rows"
  by (auto simp: proposal_rows_def and_then_Inr_iff reads_back_def split: if_splits dest!: cb_button_reads)

theorem proposal_buttons_read_back:
  assumes "render_proposal_card p fund people wood_usd base_url now = Inr (shown, rows)"
  shows "reads_back {(''back'', pv_id p), (''vote'', pv_id p)} rows"
proof -
  obtain own view where "proposal_rows p = Inr own" "view_row base_url fund = Inr view" "rows = kb (own @ view)"
    using assms unfolding render_proposal_card_def and_then_Inr_iff by blast
  then show ?thesis using proposal_rows_read view_row_urls reads_back_kb by (simp add: reads_back_append)
qed

theorem agent_buttons_read_back:
  assumes "render_agent_card f agent pending = Inr (shown, rows)"
  shows "reads_back {(''approve_agent'', agent), (''remove_agent'', agent)} rows"
  using assms by (auto simp: render_agent_card_def and_then_Inr_iff reads_back_def kb_def split: if_splits dest!: cb_button_reads)

end
