(* ===== verification/FundCards.thy ===== *)
theory FundCards
  imports Cards
begin

text \<open>
  \<open>fund/cards.py\<close>: the plain texts of the fund, as the slash commands and the tools answer with them, and the
  buttons of the status card. A button is a public link, a personal link that only its callback asks
  for, or a host's action. The facts show that no personal link is ever part of a text and that
  the buttons read back.
\<close>

section \<open>Numbers and times\<close>

text \<open>\<open>format(x, "g")\<close>: six significant digits, without trailing zeros\<close>

definition g_digits :: "rat \<Rightarrow> int \<times> int" where
  "g_digits x = (let k = exp10_of x - 6; n = round_even (x / pow10 k)
     in if n = 10 ^ 6 then (10 ^ 5, k + 1) else (n, k))"

definition fmt_g_pos :: "rat \<Rightarrow> string" where
  "fmt_g_pos x = (case g_digits x of (n, k) \<Rightarrow> let e = k + 5 in
     if - 4 \<le> e \<and> e < 6
     then (let d = nat (- k) in no_zeros (if d = 0 then str_int n @ ''.'' else
       str_int (n div 10 ^ d) @ ''.'' @ pad_left d (str_int (n mod 10 ^ d))))
     else no_zeros (str_int (n div 10 ^ 5) @ ''.'' @ pad_left 5 (str_int (n mod 10 ^ 5)))
       @ ''e'' @ (if e < 0 then ''-'' else ''+'') @ two_digits \<bar>e\<bar>)"

fun fmt_g :: "pyfloat \<Rightarrow> string" where
  "fmt_g (Fl x) = (if x = 0 then ''0'' else if x < 0 then ''-'' @ fmt_g_pos (- x) else fmt_g_pos x)"
| "fmt_g (Inf_fl neg) = (if neg then ''-inf'' else ''inf'')"
| "fmt_g NaN_fl = ''nan''"

definition percent_g :: "int \<Rightarrow> string result" where
  "percent_g bps = and_then (int_div bps 100) (\<lambda>x. Inr (fmt_g x @ ''%''))"

definition fund_hhmm :: "time \<Rightarrow> string" where
  "fund_hhmm ts = two_digits (\<lfloor>ts\<rfloor> mod 86400 div 3600) @ '':'' @ two_digits (\<lfloor>ts\<rfloor> mod 3600 div 60)"

definition minutes_text :: "time \<Rightarrow> string" where
  "minutes_text seconds = (let m = max 0 \<lfloor>seconds / 60\<rfloor> in
     if m < 120 then str_int m @ ''m'' else str_int (m div 60) @ ''h'')"

definition short_addr :: "string \<Rightarrow> string" where
  "short_addr addr = (if addr \<noteq> [] \<and> 12 < length addr then take 6 addr @ ELLIPSIS @ drop (length addr - 4) addr
     else or_else addr em_dash)"

text \<open>\<open>amount\<close> of an integer, and of the text of one\<close>

definition amount_of :: "fund_state \<Rightarrow> int \<Rightarrow> string result" where
  "amount_of st units = and_then (format_units units (asset_decimals (st_fund st)) (Some 2)) (\<lambda>t.
     Inr (t @ '' '' @ f_asset (st_fund st)))"

definition int_text_of :: "string \<Rightarrow> int result" where
  "int_text_of s = (case py_int s of None \<Rightarrow> Inl Value_error | Some n \<Rightarrow> Inr n)"

definition wood_text :: "int \<Rightarrow> string result" where
  "wood_text units = and_then (format_units units WOOD_DECIMALS (Some 4)) (\<lambda>t. Inr (t @ '' WOOD''))"

section \<open>Buttons\<close>

record card_button =
  bt_label :: string
  bt_url :: string
  bt_link :: string
  bt_action :: string
  bt_arg :: string

definition callback_data :: "card_button \<Rightarrow> string" where
  "callback_data b = (let kind = or_else (bt_link b) (bt_action b) in
     if kind \<noteq> [] then ''shfund:'' @ kind @ '':'' @ bt_arg b else [])"

record text_card =
  fc_text :: string
  fc_buttons :: "card_button list"

definition button_text :: "card_button \<Rightarrow> string list" where
  "button_text b = (if bt_url b \<noteq> [] then [''['' @ bt_label b @ ''] '' @ bt_url b]
     else if bt_link b \<noteq> [] then [''['' @ bt_label b @ ''] personal link: tap it on the fund card in the group'']
     else [])"

definition as_text :: "text_card \<Rightarrow> string" where
  "as_text c = (let parts = concat (map button_text (fc_buttons c)) in
     fc_text c @ (if fc_buttons c \<noteq> [] \<and> parts \<noteq> [] then nl @ nl @ ''Buttons: '' @ join DOT_SEP parts else []))"

section \<open>The status card\<close>

definition status_label :: "pstatus \<Rightarrow> string" where
  "status_label s = (case s of Review \<Rightarrow> ''guardian review'' | Approved \<Rightarrow> ''guardian approved'' | _ \<Rightarrow> status_str s)"

definition bond_note :: "pstatus \<Rightarrow> string" where
  "bond_note s = (case s of
     Vetoed \<Rightarrow> ''Bond: returned to the agent at once (reclaim-bond right after the veto).''
   | Settled \<Rightarrow> ''Bond: locked in escrow for the 14-day challenge window (reclaimable after executedAt + duration + 14 days).''
   | _ \<Rightarrow> [])"

definition window_text :: "string \<Rightarrow> time option \<Rightarrow> time \<Rightarrow> string" where
  "window_text what ends now = (case ends of None \<Rightarrow> []
   | Some e \<Rightarrow> if e = 0 then [] else if now < e then '', '' @ minutes_text (e - now) @ '' left'' else '', '' @ what @ '' ended'')"

definition when_text :: "proposal \<Rightarrow> time \<Rightarrow> string" where
  "when_text p now = (if p_status p = Proposed \<or> p_status p = Voting then window_text ''voting'' (p_voting_ends_at p) now
     else if p_status p = Review then window_text ''review'' (p_review_ends_at p) now
       @ (if window_text ''review'' (p_review_ends_at p) now \<noteq> [] \<and> p_guardian_coverage p \<noteq> []
          then '', coverage '' @ p_guardian_coverage p else [])
     else [])"

definition proposal_line :: "fund_state \<Rightarrow> proposal \<Rightarrow> time \<Rightarrow> string result" where
  "proposal_line st p now =
     (let tag = (case p_onchain_id p of Some n \<Rightarrow> ''#'' @ str_int n | None \<Rightarrow> p_id p);
          tally = (if p_backers p \<noteq> [] \<or> p_objectors p \<noteq> [] then ('' '' @ MIDDLE_DOT @ '' '') @ str_int (int (length (p_backers p))) @ '' back / ''
            @ str_int (int (length (p_objectors p))) @ '' object'' else []);
          reviews = (if p_reviews p \<noteq> [] then ('' '' @ MIDDLE_DOT @ '' '') @ str_int (int (length (p_reviews p))) @ '' agent review(s)'' else [])
      in and_then (if p_against_bps p = 0 then Inr [] else and_then (percent_g (p_against_bps p)) (\<lambda>t. Inr (('' '' @ MIDDLE_DOT @ '' Against '') @ t))) (\<lambda>against.
      and_then (int_text_of (p_max_capital p)) (\<lambda>units. and_then (amount_of st units) (\<lambda>cap.
      Inr (tag @ '' '' @ or_else (p_topic p) (take 40 (p_thesis p)) @ '' by '' @ p_proposer_agent p @ ('' '' @ MIDDLE_DOT @ '' '')
        @ status_label (p_status p) @ when_text p now @ ('' '' @ MIDDLE_DOT @ '' max '') @ cap @ against @ tally @ reviews)))))"

definition agent_tag :: "agent \<Rightarrow> string" where
  "agent_tag a = a_name a @ (if a_role a = ''host'' then '' (host)'' else if a_registered a then '' (co-manager)''
     else if a_approved a then '' (approved, waiting for registerAgent)'' else '' (asked to join)'')"

definition receipt_line :: "fund_state \<Rightarrow> receipt \<Rightarrow> string result" where
  "receipt_line st r = and_then (int_text_of (r_pnl r)) (\<lambda>pnl. and_then (amount_of st \<bar>pnl\<bar>) (\<lambda>t.
     Inr ((case r_onchain_id r of Some n \<Rightarrow> ''#'' @ str_int n | None \<Rightarrow> r_proposal_id r) @ '' ''
       @ (if pnl \<ge> 0 then ''+'' else ''-'') @ t @ '' ('' @ (if r_pnl_bps r \<ge> 0 then ''+'' else []) @ str_int (r_pnl_bps r)
       @ '' bps) by '' @ r_agent r)))"

text \<open>\<open>if x and x > now\<close> of an optional time\<close>

definition ahead :: "time option \<Rightarrow> time \<Rightarrow> bool" where
  "ahead t now \<longleftrightarrow> (case t of None \<Rightarrow> False | Some u \<Rightarrow> u \<noteq> 0 \<and> now < u)"

definition claim_line :: "time \<Rightarrow> claim \<Rightarrow> string" where
  "claim_line now c = ''Drafting: '' @ c_agent c @ '' on '' @ repr_str (c_topic c) @ '' ('' @ minutes_text (c_expires_at c - now)
     @ '' left on the claim)''"

definition cooldown_text :: "fund_state \<Rightarrow> time \<Rightarrow> string list" where
  "cooldown_text st now = (if ahead (f_cooldown_until (st_fund st)) now
     then [''Next proposal possible at '' @ fund_hhmm (the (f_cooldown_until (st_fund st)))
       @ '' UTC (governor cooldown after the last veto/settle)''] else [])"

definition fee_lines :: "fund_state \<Rightarrow> string list result" where
  "fee_lines st = (case f_agent_fee_bps (st_fund st) of None \<Rightarrow> Inr []
   | Some fee \<Rightarrow> and_then (percent_g fee) (\<lambda>t. and_then (percent_g MAX_AGENT_FEE_BPS) (\<lambda>m.
       Inr [''Agent fee '' @ t @ '' (max '' @ m @ '' so guardians can approve)''])))"

definition last_settle :: "fund_state \<Rightarrow> string list result" where
  "last_settle st = (if st_receipts st = [] then Inr []
     else and_then (receipt_line st (last (st_receipts st))) (\<lambda>t. Inr [''Last settle: '' @ t]))"

definition fund_buttons :: "fund \<Rightarrow> string \<Rightarrow> card_button list result" where
  "fund_buttons f app_base_url = (if \<not> is_address (f_vault f) then Inr []
     else let b = (\<lambda>label link. \<lparr>bt_label = label, bt_url = [], bt_link = link, bt_action = [], bt_arg = lower (f_vault f)\<rparr>) in
       and_then (fund_page_url (lower (f_vault f)) app_base_url) (\<lambda>url.
       Inr [\<lparr>bt_label = (BAR_CHART @ '' View''), bt_url = url, bt_link = [], bt_action = [], bt_arg = []\<rparr>,
         b (MONEY_BAG @ '' Deposit'') ''deposit'', b (LEFTWARDS_ARROW_WITH_HOOK @ '' Withdraw'') ''withdraw'', b (ADMISSION_TICKETS @ '' Join'') ''join'']))"

definition fund_text_lines :: "fund_state \<Rightarrow> time \<Rightarrow> string list result" where
  "fund_text_lines st now =
     (let f = st_fund st; waiting = length (filter (\<lambda>m. \<not> m_approved m) (st_members st));
          agents = filter (\<lambda>a. \<not> a_removed a) (st_agents st); op = open_proposals st
      in and_then (percent_g (f_veto_threshold_bps f)) (\<lambda>veto. and_then (mapM (\<lambda>p. proposal_line st p now) op) (\<lambda>lines.
      and_then (fee_lines st) (\<lambda>fee. and_then (last_settle st) (\<lambda>settled.
      Inr ([f_name f @ ('' '' @ MIDDLE_DOT @ '' '') @ f_asset f @ '' on Robinhood Chain ('' @ str_int (f_chain_id f) @ '')'',
          ''Vault '' @ short_addr (f_vault f) @ ('' '' @ MIDDLE_DOT @ '' voting '') @ minutes_text (of_int (f_voting_period f)) @ ('' '' @ MIDDLE_DOT @ '' veto at '') @ veto @ '' Against'',
          ''Members: '' @ str_int (int (length (filter m_approved (st_members st)))) @ '' approved''
            @ (if waiting > 0 then '', '' @ str_int (int waiting) @ '' waiting for the host'' else []),
          ''Agents: '' @ (if agents \<noteq> [] then join '', '' (map agent_tag agents) else ''none''),
          (if op \<noteq> [] then ''Open proposals ('' @ str_int (int (length op)) @ ''/'' @ str_int (int MAX_OPEN_PER_FUND) @ ''):''
           else ''No open proposals.'')]
        @ map (\<lambda>l. ''  '' @ l) lines @ map (claim_line now) (active_claims st now) @ cooldown_text st now @ fee
        @ (if check_proposable_asset st \<noteq> Allow
           then [f_asset f @ '' fund: deposits work, proposals cannot (PortfolioStrategy needs USDG).''] else [])
        @ settled @ [''Bring your Hermes: its owner runs /join-fund '' @ f_name f @ ''; the host approves it here.'']))))))"

definition render_fund_text :: "fund_state \<Rightarrow> time \<Rightarrow> string \<Rightarrow> text_card result" where
  "render_fund_text st now app_base_url = and_then (fund_text_lines st now) (\<lambda>lines.
     and_then (fund_buttons (st_fund st) app_base_url) (\<lambda>buttons. Inr \<lparr>fc_text = join nl lines, fc_buttons = buttons\<rparr>))"

section \<open>Agents and receipts\<close>

definition agent_line :: "fund_state \<Rightarrow> time \<Rightarrow> agent \<Rightarrow> string" where
  "agent_line st now a = ''- '' @ a_name a @ '': '' @ join DOT_SEP
     ([a_role a, (if a_identity_id a \<noteq> [] then ''identity #'' @ a_identity_id a else ''no identity''), short_addr (a_address a),
       (if a_removed a then ''removed'' else if a_registered a then ''registered''
        else if a_approved a then ''approved, registerAgent pending'' else ''waiting: host runs /fund-approve '' @ a_name a)]
      @ (if open_proposals_of st (a_name a) \<noteq> [] then [''open: '' @ join '', '' (map p_id (open_proposals_of st (a_name a)))] else [])
      @ (case claim_of st (a_name a) now of None \<Rightarrow> [] | Some c \<Rightarrow> [''drafting '' @ repr_str (c_topic c)]))"

definition render_agents :: "fund_state \<Rightarrow> time \<Rightarrow> string" where
  "render_agents st now = (if st_agents st = [] then f_name (st_fund st) @ '' has no agents yet.''
     else join nl ((''Agents in '' @ f_name (st_fund st) @ '':'') # map (agent_line st now) (st_agents st)))"

definition render_receipt :: "fund_state \<Rightarrow> receipt \<Rightarrow> string result" where
  "render_receipt st r = and_then (receipt_line st r) (\<lambda>line.
     Inr (join nl ([''Settled '' @ line]
       @ (if r_thesis r \<noteq> [] then [''Thesis: '' @ r_thesis r] else [])
       @ (if r_idea_by r \<noteq> [] then [''Idea by member '' @ r_idea_by r] else [])
       @ (if r_tx_hash r \<noteq> [] then [''Tx: '' @ r_tx_hash r] else [])
       @ [bond_note Settled]
       @ (case f_cooldown_until (st_fund st) of None \<Rightarrow> [] | Some u \<Rightarrow> if u = 0 then []
            else [''Next proposal possible at '' @ fund_hhmm u @ '' UTC (governor cooldown).'']))))"

section \<open>Facts\<close>

text \<open>
  The buttons of the status card: one public page, and the three personal links as callbacks that
  the handler reads back as its action on the vault; they fit whatever the fund is.
\<close>

theorem fund_buttons_read_back:
  assumes "fund_buttons f app_base_url = Inr bs" "b \<in> set bs"
  shows "(bt_url b \<noteq> [] \<and> callback_data b = [])
    \<or> (bt_url b = [] \<and> bt_link b \<in> {''deposit'', ''withdraw'', ''join''} \<and> parse_cb (callback_data b) = Some (bt_link b, lower (f_vault f)))"
proof -
  have read: "parse_cb (''shfund:deposit:'' @ who) = Some (''deposit'', who)"
      "parse_cb (''shfund:withdraw:'' @ who) = Some (''withdraw'', who)"
      "parse_cb (''shfund:join:'' @ who) = Some (''join'', who)" for who
    by (simp_all add: parse_cb_def split_at_def)
  show ?thesis using assms
    by (auto simp: fund_buttons_def Let_def and_then_Inr_iff callback_data_def or_else_def fund_page_url_def
        read [simplified append_Cons append_Nil] split: if_splits)
qed

text \<open>The text of a card never holds a personal link: it names public pages and points at the card.\<close>

theorem texts_hold_public_links:
  "as_text c = fc_text c \<or> as_text c = fc_text c @ nl @ nl @ ''Buttons: '' @ join DOT_SEP (concat (map button_text (fc_buttons c)))
     \<and> (\<forall>t \<in> set (concat (map button_text (fc_buttons c))). \<exists>b \<in> set (fc_buttons c).
          t = ''['' @ bt_label b @ ''] '' @ bt_url b \<or> t = ''['' @ bt_label b @ ''] personal link: tap it on the fund card in the group'')"
  by (auto simp: as_text_def Let_def button_text_def)

lemma percent_texts: "percent_g 2000 = Inr ''20%''" "percent_g 1550 = Inr ''15.5%''" "percent_g (- 3) = Inr ''-0.03%''"
  by code_simp+

end
