(* ===== verification/Session.thy ===== *)
theory Session
  imports Wiring
begin

text \<open>
  The start of a session (\<open>hooks.py\<close>) and the calls the plugin makes of its sidecar (\<open>sidecar.py\<close>,
  \<open>xmtp_post.py\<close>). A session start asks the command line tool for what each fund missed and pushes
  it as a block; then the streams are made to run. A method of the sidecar is one or two calls, each
  answered as \<open>Sidecar\<close> says; \<open>asked\<close> records what was asked. The facts show what a session start
  leaves in the buffer and that a text is sent to the group its fund resolves to.
\<close>

section \<open>Catching up\<close>

text \<open>\<open>json.dumps(j, indent=2)\<close> at an indentation\<close>

definition indented :: "nat \<Rightarrow> string \<Rightarrow> string \<Rightarrow> string list \<Rightarrow> string" where
  "indented n opening closing items = (if items = [] then opening @ closing
     else let pad = nl @ replicate (n + 2) (CHR '' '')
       in opening @ pad @ join ('','' @ pad) items @ nl @ replicate n (CHR '' '') @ closing)"

function dumps_indent :: "nat \<Rightarrow> json \<Rightarrow> string" where
  "dumps_indent n JNull = ''null''"
| "dumps_indent n (JBool b) = (if b then ''true'' else ''false'')"
| "dumps_indent n (JInt i) = str_int i"
| "dumps_indent n (JNum r) = repr_float (Fl r)"
| "dumps_indent n (JStr s) = json_string s"
| "dumps_indent n (JList js) = indented n ''['' '']'' (map (dumps_indent (n + 2)) js)"
| "dumps_indent n (JObj kvs) = indented n ''{'' ''}''
     (map (\<lambda>kv. json_string (fst kv) @ '': '' @ dumps_indent (n + 2) (snd kv)) kvs)"
  by pat_completeness auto
termination
  by (relation "measure (\<lambda>(n, j). size j)")
    (auto simp: size_list_estimation' less_Suc_eq_le intro: less_imp_le [OF size_snd_less])

definition format_catchup_injection :: "string \<Rightarrow> json \<Rightarrow> string result" where
  "format_catchup_injection sub payload = (case payload of
     JObj o' \<Rightarrow> (case key_or o' ''meta'' (JObj []) of
         JObj m \<Rightarrow> Inr (''<sherwood-catchup fund='' @ dq @ sub @ dq @ ''>'' @ nl
           @ str_json (key_or m ''newMessages'' (JInt 0)) @ '' new messages, ''
           @ str_json (key_or m ''newEvents'' (JInt 0)) @ '' new events since last check.'' @ nl
           @ dumps_indent 0 payload @ nl @ ''</sherwood-catchup>'')
       | _ \<Rightarrow> Inl Attribute_error)
   | _ \<Rightarrow> Inl Attribute_error)"

text \<open>What \<open>sherwood session check\<close> answered for each fund, in order; no output is an empty object.\<close>

definition catchup_one :: "cli_output \<Rightarrow> json option" where
  "catchup_one out = (case out of Cli_failed \<Rightarrow> None | Cli_json JNull \<Rightarrow> None | Cli_json j \<Rightarrow> Some j)"

fun catch_up :: "(string \<times> cli_output) list \<Rightarrow> string list \<Rightarrow> string list \<times> exn option" where
  "catch_up [] buf = (buf, None)"
| "catch_up ((sub, out) # r) buf = (case catchup_one out of
     None \<Rightarrow> catch_up r buf
   | Some payload \<Rightarrow> (case format_catchup_injection sub payload of
       Inl e \<Rightarrow> (buf, Some e)
     | Inr block \<Rightarrow> catch_up r (buf_push buf block)))"

text \<open>The hook: the streams are ensured once the catch-up is through.\<close>

definition on_session_start :: "(string \<times> cli_output) list \<Rightarrow> string list \<Rightarrow> string list \<times> exn option \<times> life_call list" where
  "on_session_start answers buf = (case catch_up answers buf of
     (buf', Some e) \<Rightarrow> (buf', Some e, [])
   | (buf', None) \<Rightarrow> (buf', None, [Ensure]))"

section \<open>Methods of the sidecar\<close>

type_synonym answering = "string \<Rightarrow> fields \<Rightarrow> call_end"

type_synonym 'a asked = "(string \<times> fields) list \<times> 'a result"

text \<open>\<open>call\<close>: \<open>SidecarError\<close> is a \<open>RuntimeError\<close>, the timeout an \<open>OSError\<close>.\<close>

definition rpc_call :: "answering \<Rightarrow> string \<Rightarrow> fields \<Rightarrow> json asked" where
  "rpc_call ask m ps = ([(m, ps)], case ask m ps of
     Returned j \<Rightarrow> Inr j | Sidecar_error c t \<Rightarrow> Inl Runtime_error | Call_raised e \<Rightarrow> Inl e | Timed_out \<Rightarrow> Inl Os_error)"

definition and_ask :: "'a asked \<Rightarrow> ('a \<Rightarrow> 'b asked) \<Rightarrow> 'b asked" where
  "and_ask m k = (case m of (qs, Inl e) \<Rightarrow> (qs, Inl e) | (qs, Inr x) \<Rightarrow> (case k x of (qs', r) \<Rightarrow> (qs @ qs', r)))"

text \<open>\<open>result[key]\<close> and \<open>result.get(key, d)\<close>\<close>

definition item_of :: "string \<Rightarrow> json \<Rightarrow> json result" where
  "item_of k j = (case j of JObj o' \<Rightarrow> (case map_of o' k of None \<Rightarrow> Inl Key_error | Some v \<Rightarrow> Inr v) | _ \<Rightarrow> Inl Type_error)"

definition get_of :: "string \<Rightarrow> json \<Rightarrow> json \<Rightarrow> json result" where
  "get_of k d j = (case j of JObj o' \<Rightarrow> Inr (key_or o' k d) | _ \<Rightarrow> Inl Attribute_error)"

definition asked_nothing :: "'a result \<Rightarrow> 'a asked" where
  "asked_nothing r = ([], r)"

definition resolve_group :: "answering \<Rightarrow> string \<Rightarrow> json asked" where
  "resolve_group ask sub = and_ask (rpc_call ask ''resolve_subdomain'' [(''subdomain'', JStr sub)])
     (\<lambda>j. asked_nothing (item_of ''group_id'' j))"

definition send_text :: "answering \<Rightarrow> json option \<Rightarrow> string option \<Rightarrow> string \<Rightarrow> bool \<Rightarrow> json asked" where
  "send_text ask group_id sub body markdown =
     and_ask (case group_id of Some g \<Rightarrow> asked_nothing (Inr g)
       | None \<Rightarrow> (case sub of None \<Rightarrow> asked_nothing (Inl Value_error) | Some s \<Rightarrow> resolve_group ask s)) (\<lambda>g.
     and_ask (rpc_call ask ''send_text'' ([(''group_id'', g), (''text'', JStr body)]
       @ (if markdown then [(''markdown'', JBool True)] else []))) (\<lambda>j. asked_nothing (item_of ''message_id'' j)))"

definition is_member :: "answering \<Rightarrow> string \<Rightarrow> bool asked" where
  "is_member ask sub = and_ask (resolve_group ask sub) (\<lambda>g.
     and_ask (rpc_call ask ''get_conversation'' [(''group_id'', g)]) (\<lambda>j.
       asked_nothing (and_then (get_of ''member_of'' (JBool False) j) (\<lambda>v. Inr (truthy v)))))"

definition stream_start :: "answering \<Rightarrow> string \<Rightarrow> json asked" where
  "stream_start ask sub = and_ask (resolve_group ask sub) (\<lambda>g.
     and_ask (rpc_call ask ''stream_start'' [(''group_id'', g)]) (\<lambda>j. asked_nothing (item_of ''stream_id'' j)))"

definition stream_stop :: "answering \<Rightarrow> string \<Rightarrow> bool asked" where
  "stream_stop ask sid = and_ask (rpc_call ask ''stream_stop'' [(''stream_id'', JStr sid)]) (\<lambda>j.
     asked_nothing (and_then (get_of ''stopped'' (JBool False) j) (\<lambda>v. Inr (truthy v))))"

text \<open>\<open>post_summary\<close> swallows every exception; what it asked remains.\<close>

definition post_summary :: "answering \<Rightarrow> string \<Rightarrow> string \<Rightarrow> (string \<times> fields) list" where
  "post_summary ask sub markdown = fst (send_text ask None (Some sub) markdown True)"

section \<open>The process\<close>

record sidecar_proc =
  sp_running :: bool
  sp_address :: json
  sp_ok :: bool

text \<open>
  \<open>start\<close>, once the program is built and the process spawned: the key derived from the plugin's own goes
  in over the pipe (\<open>derive\<close>), and a call that fails leaves the process running and not ready.
\<close>

definition sidecar_start :: "answering \<Rightarrow> (string \<Rightarrow> string \<Rightarrow> string result) \<Rightarrow> string \<Rightarrow> string \<Rightarrow> string \<Rightarrow> string \<Rightarrow>
    sidecar_proc \<Rightarrow> sidecar_proc \<times> json asked" where
  "sidecar_start ask derive primary_key salt db_path env s = (let s' = s\<lparr>sp_running := True\<rparr> in
     case derive primary_key salt of Inl e \<Rightarrow> (s', asked_nothing (Inl e))
     | Inr key \<Rightarrow> (case rpc_call ask ''create_client'' [(''private_key_hex'', JStr key), (''db_path'', JStr db_path), (''env'', JStr env)] of
         (qs, Inl e) \<Rightarrow> (s', (qs, Inl e))
       | (qs, Inr j) \<Rightarrow> (case get_of ''address'' JNull j of
             Inl e \<Rightarrow> (s', (qs, Inl e))
           | Inr a \<Rightarrow> (s'\<lparr>sp_address := a, sp_ok := True\<rparr>, (qs, Inr j)))))"

datatype proc_act = Ask_shutdown | Terminate | Kill | Cancel_readers

text \<open>\<open>shutdown\<close>: the answer to the first request does not matter; \<open>exits\<close>: the process ends within the grace\<close>

definition sidecar_shutdown :: "bool \<Rightarrow> sidecar_proc \<Rightarrow> sidecar_proc \<times> proc_act list" where
  "sidecar_shutdown exits s = (if \<not> sp_running s then (s, [])
     else (s\<lparr>sp_running := False, sp_ok := False\<rparr>,
       [Ask_shutdown, Terminate] @ (if exits then [] else [Kill]) @ [Cancel_readers]))"

section \<open>Facts\<close>

text \<open>
  When every answer is an object with an object as its \<open>meta\<close>, or none, a session start pushes one
  block per fund that answered, in order, and ensures the streams.
\<close>

definition catchup_blocks :: "(string \<times> cli_output) list \<Rightarrow> string result list" where
  "catchup_blocks answers = map (\<lambda>(sub, p). format_catchup_injection sub p)
     (concat (map (\<lambda>(sub, out). case catchup_one out of None \<Rightarrow> [] | Some p \<Rightarrow> [(sub, p)]) answers))"

lemma catch_up_blocks:
  "list_all (\<lambda>b. \<not> isl b) (catchup_blocks answers) \<Longrightarrow>
    catch_up answers buf = (foldl buf_push buf (map projr (catchup_blocks answers)), None)"
proof (induction answers arbitrary: buf)
  case (Cons a r)
  obtain sub out where a: "a = (sub, out)" by fastforce
  show ?case
  proof (cases "catchup_one out")
    case None
    then show ?thesis using Cons by (simp add: a catchup_blocks_def)
  next
    case (Some p)
    then obtain t where t: "format_catchup_injection sub p = Inr t"
      using Cons.prems by (cases "format_catchup_injection sub p") (simp_all add: a catchup_blocks_def)
    show ?thesis using Some t Cons by (simp add: a catchup_blocks_def)
  qed
qed (simp add: catchup_blocks_def)

theorem session_start_catches_up:
  assumes "list_all (\<lambda>b. \<not> isl b) (catchup_blocks answers)" "length buf \<le> 200"
  shows "on_session_start answers buf = (lastn 200 (buf @ map projr (catchup_blocks answers)), None, [Ensure])"
proof -
  have "foldl buf_push buf bs = lastn 200 (buf @ bs)" if "length buf \<le> 200" for bs
    using that
  proof (induction bs rule: rev_induct)
    case (snoc b bs)
    then have "foldl buf_push buf (bs @ [b]) = buf_push (lastn 200 (buf @ bs)) b" by simp
    also have "\<dots> = lastn 200 (lastn 200 (buf @ bs) @ [b])"
      unfolding buf_push_def DEFAULT_MAX_def by (rule ring_push_items) simp
    also have "\<dots> = lastn 200 (buf @ bs @ [b])" by (simp add: lastn_append)
    finally show ?case .
  qed simp
  then show ?thesis using assms catch_up_blocks [OF assms(1)] by (simp add: on_session_start_def)
qed

definition catchup_example :: "(string \<times> cli_output) list" where
  "catchup_example = [(''alpha'', Cli_json (JObj [(''meta'', JObj [(''newEvents'', JInt 2)])])), (''beta'', Cli_failed)]"

theorem session_start_catches_up_witness:
  "length (fst (on_session_start catchup_example [''old''])) = 2 \<and> snd (on_session_start catchup_example [''old'']) = (None, [Ensure])"
proof -
  have b: "list_all (\<lambda>b. \<not> isl b) (catchup_blocks catchup_example)"
    by (simp add: catchup_blocks_def catchup_example_def catchup_one_def format_catchup_injection_def key_or_def)
  have "length (catchup_blocks catchup_example) = 1"
    by (simp add: catchup_blocks_def catchup_example_def catchup_one_def)
  then show ?thesis using session_start_catches_up [OF b, of "[''old'']"] by simp
qed

text \<open>An answer that is JSON but no object raises, and the streams are not ensured.\<close>

theorem bad_answer_skips_the_streams:
  "on_session_start ((sub, Cli_json (JList js)) # r) buf = (buf, Some Attribute_error, [])"
  by (simp add: on_session_start_def catchup_one_def format_catchup_injection_def)

text \<open>
  A summary is asked to be sent at most once, with its text, and only to the group the sidecar
  resolves its fund to; when that is not known nothing is sent.
\<close>

theorem summary_goes_to_its_group:
  "post_summary ask sub body = (let q = (''resolve_subdomain'', [(''subdomain'', JStr sub)]) in
     case resolve_group ask sub of
       (_, Inl e) \<Rightarrow> [q]
     | (_, Inr g) \<Rightarrow> [q, (''send_text'', [(''group_id'', g), (''text'', JStr body), (''markdown'', JBool True)])])"
  by (simp add: post_summary_def send_text_def resolve_group_def and_ask_def rpc_call_def asked_nothing_def
      split: call_end.split sum.split prod.split)

text \<open>A sidecar is ready exactly when its process runs and the client was created; a shutdown always ends that.\<close>

theorem ready_means_running:
  assumes "sp_ok s \<Longrightarrow> sp_running s"
  shows "sp_ok (fst (sidecar_start ask derive k salt db env s)) \<longrightarrow> sp_running (fst (sidecar_start ask derive k salt db env s))"
    and "\<not> sp_running (fst (sidecar_shutdown exits s)) \<and> \<not> sp_ok (fst (sidecar_shutdown exits s))"
  using assms by (auto simp: sidecar_start_def sidecar_shutdown_def Let_def split: sum.split prod.split)

end
