(* ===== verification/Spec2Isabelle.thy ===== *)
theory Spec2Isabelle
  imports AccessProps MoneyProps LinkProps FlowProps Findings TelegramProps LiveProps TelegramFindings MonitorFindings CardProps FundCards Session
begin

text \<open>
  A verification library for the Sherwood plugin: the shared state of a group-chat fund, the rules
  its agents act under, the requests a wallet is asked to sign, the Telegram side that turns a
  chat into drafts, cards and links, and the monitor that watches funds on the chain and checks what
  an agent proposes. All paths are under \<open>src/sherwood_monitor/\<close>.

  \<^bold>\<open>The program.\<close> A fund is one JSON file. \<open>fund/store.py\<close> reads and replaces it under an advisory
  lock; \<open>fund/models.py\<close> is its data; \<open>fund/rules.py\<close> decides what an agent may do;
  \<open>fund/service.py\<close> composes rules and store into operations (each one a \<open>mutate\<close> closure run by
  \<open>store.update\<close>). Three ways lead in: the tools of a model (\<open>fund/tools.py\<close>, behind the guard
  \<open>fund/guard.py\<close>), the chat commands (\<open>fund/commands.py\<close>), the operator (\<open>cli.py\<close>).
  \<open>fund/txbuilder.py\<close> prepares what a wallet signs, \<open>fund/applink.py\<close> looks up the wallet of a chat
  user. \<open>telegram/flow.py\<close> watches the chat for pitches and asks for drafts, \<open>telegram/links.py\<close>
  signs the links a user follows into the web app. A fourth way in are the buttons under the cards of
  the chat: \<open>telegram/handler.py\<close> calls the gateway of \<open>fund/telegram.py\<close>, which acts on the fund of the
  chat, turns the service's events into cards (\<open>telegram/runtime.py\<close>, \<open>telegram/cards_live.py\<close>) and hands
  what happened to the agent's next turn. The monitor stands beside all this: \<open>supervisor.py\<close> runs
  one child process per fund and restarts it, \<open>router.py\<close> and \<open>handlers.py\<close> turn its lines and the
  messages of the sidecar (\<open>sidecar.py\<close>) into blocks of text, which \<open>hooks.py\<close> hands to the agent's
  next turn; the hook before a tool asks the fund guard and then \<open>risk.py\<close>. \<open>cron_tick.py\<close>,
  \<open>exposure.py\<close> and \<open>cli_watchdog.py\<close> are run by a timer and report what is new, too concentrated, too
  low or no longer running.

  \<^bold>\<open>The theories.\<close>
  \<^item> \<open>Prelude\<close>, \<open>Text\<close>, \<open>Json\<close>: errors as values (\<open>error + 'a\<close>, one constructor per exception class),
    verdicts, list lemmas; Python's string methods and regular expressions on ASCII text; JSON
    values and the coercions \<open>str\<close>, \<open>int\<close>, \<open>float\<close>.
  \<^item> \<open>Units\<close> (\<open>fund/units.py\<close>): \<open>Decimal\<close> with its context of 100 digits and the two conversions.
  \<^item> \<open>Models\<close>, \<open>ModelsJson\<close> (\<open>fund/models.py\<close>): a record per dataclass, and its JSON form.
  \<^item> \<open>Rules\<close>, \<open>RulesFacts\<close> (\<open>fund/rules.py\<close>): every verdict, and what the verdicts promise.
  \<^item> \<open>Store\<close> (\<open>fund/store.py\<close>): the directory as an association list of file contents; its contract is
    the locale \<open>fund_backend\<close>, interpreted on the model. \<open>StoreLock\<close>: the lock, its holders and
    timeouts as a step relation over any number of processes.
  \<^item> \<open>TxBuilder\<close>, \<open>Payloads\<close>, \<open>AppLink\<close>: request bodies, replies, batches; the HTTP call is an
    argument.
  \<^item> \<open>Service\<close>, \<open>ChainCard\<close>, \<open>Setup\<close> (\<open>fund/service.py\<close>, \<open>fund/tools.py\<close>, \<open>cli.py\<close>): every operation,
    its closure a function of the same name with the suffix \<open>_mutate\<close>. \<open>ServiceSteps\<close> says what each
    one changes, \<open>ServiceFacts\<close> what single operations guarantee.
  \<^item> \<open>ServiceInv\<close>: \<open>op_step\<close> is one operation, \<open>reachable\<close> a state after any operations; the
    invariants go by rule induction. \<open>Ledger\<close> lifts them to the directory: \<open>served\<close> is a directory
    after any calls.
  \<^item> \<open>Access\<close> (\<open>session.py\<close>, \<open>fund/authz.py\<close>, \<open>fund/runtime.py\<close>), \<open>Effects\<close>, \<open>Tools\<close>, \<open>ToolFacts\<close>,
    \<open>Guard\<close>, \<open>Commands\<close>: the ways in. A handler may write and then raise, so it returns the directory
    beside its result. The locales \<open>dir_relation\<close> and \<open>call_relation\<close> prove once that a relation
    every call respects is respected by every handler; they are interpreted on two relations (being
    served, keeping the bindings).
  \<^item> \<open>Links\<close>, \<open>LinkProps\<close> (\<open>telegram/links.py\<close>): messages, links, image URLs, start payloads; the keyed
    hash and the digest are arguments.
  \<^item> \<open>PitchFlow\<close>, \<open>FlowProps\<close> (\<open>telegram/flow.py\<close>): pitches in a heap that two tables share; handlers
    cut where they wait, and \<open>flow_step\<close> as any interleaving of them.
  \<^item> \<open>Views\<close> (\<open>telegram/types.py\<close>): what cards show of a fund. \<open>Bridge\<close>, \<open>BridgeEvents\<close>
    (\<open>fund/telegram.py\<close>): the gateway callables, signing links, reads of the chain, the observer, the
    context of a turn. \<open>LiveCards\<close> (\<open>telegram/cards_live.py\<close>): cards edited in place and their refresh
    jobs. \<open>TgRuntime\<close> (\<open>telegram/settings.py\<close>, \<open>telegram/runtime.py\<close>). \<open>Handler\<close> (\<open>telegram/handler.py\<close>):
    buttons, commands and messages; what is shown is a value that says who can see it.
  \<^item> \<open>BridgeFacts\<close>: the locales \<open>press_relation\<close> (what anybody may press) and \<open>bridge_relation\<close> (with what
    the host may do), interpreted on the two relations of the tools and on \<open>host_kept\<close>: what only the
    host decides stays. \<open>TelegramProps\<close>, \<open>LiveProps\<close>: the properties.
  \<^item> \<open>Floats\<close>, \<open>Pyrepr\<close>: Python's doubles as rationals rounded to 53 bits, with the infinities and NaN
    (the sign of zero is dropped), and the text \<open>str\<close> makes of them. \<open>Risk\<close> (\<open>risk.py\<close>): the three
    checks, with the error of their divisions bounded.
  \<^item> \<open>Events\<close> (\<open>models.py\<close>, \<open>event_buffer.py\<close>, \<open>handlers.py\<close>, \<open>config.py\<close>): records, the bounded buffer,
    both handlers with every text they write. \<open>Router\<close> (\<open>router.py\<close>): the dispatch, and the
    specification \<open>history\<close> that forgets nothing. \<open>Hooks\<close> (\<open>hooks.py\<close>, \<open>memory.py\<close>,
    \<open>state_fetcher.py\<close>): before and after a tool, before a turn.
  \<^item> \<open>CronTick\<close>, \<open>Exposure\<close>, \<open>Watchdog\<close> (\<open>cron_tick.py\<close>, \<open>exposure.py\<close>, \<open>cli_watchdog.py\<close>): one tick
    and its cursor, sums by protocol and their alerts, and what the watchdogs print.
  \<^item> \<open>Supervisor\<close> (\<open>supervisor.py\<close>): a fund's stream between two awaits, its delay, the status file.
    \<open>Sidecar\<close> (\<open>sidecar.py\<close>): calls, responses and timeouts as the step relation \<open>rpc_step\<close>.
  \<^item> \<open>Preflight\<close> (\<open>config.py\<close>, \<open>preflight.py\<close>), \<open>ChildEnv\<close> (\<open>fund/secrets.py\<close>, \<open>childenv.py\<close>,
    \<open>key_derivation.py\<close>): settings, versions, secrets. \<open>Wiring\<close> (\<open>__init__.py\<close>, \<open>tools.py\<close>): how the
    parts meet, the life of the streams, and the tools that show the monitor. \<open>Session\<close>: what a session
    start catches up with, and the methods of the sidecar.
  \<^item> \<open>Cards\<close> (\<open>telegram/cards.py\<close>), \<open>FundCards\<close> (\<open>fund/cards.py\<close>): what the chat and the commands show,
    every text byte by byte, and its buttons. \<open>CardProps\<close>: a scanner of Telegram's markup; texts that
    leave its stack as it was compose, so each card is taken apart line by line.
  \<^item> \<open>Demo\<close>: the concrete fund of the witnesses. \<open>Findings\<close>, \<open>TelegramFindings\<close>, \<open>MonitorFindings\<close>: runs
    where the code does something else than it or its documentation says.

  \<^bold>\<open>What is shown.\<close> C1 to C8 and C13, C14: the state of a fund and single operations. C9 to C12: the
  store, its lock and the JSON form. C15 to C19: who may act, and that the guard and the tools agree.
  C20 to C22: amounts and the prepared requests. C23 to C25: links and payloads. C26: the pitch flow.
  C27: every way into a fund, in any sequence, keeps the invariants. C28 to C30: what a button may
  change, who sees a link, and that an earned draft reaches the agent. C31, C32: the refresh of the
  cards. C33 and C39: what the hook before a tool lets run. C34: the router against the
  specification over whole histories. C35 to C37: ticks, alerts, and that the watchdog reads from the
  status file what the supervisor knows. C38: the calls of the sidecar. C40: when a proposal card is
  a text Telegram takes. Theorems without a number beside these state more of the same parts: the
  leaderboard, the bond and veto arithmetic, the names in the store, the bounds of the restart
  delay, the settings, what child processes see of the environment, the fund's card, the catch-up.

  \<^bold>\<open>Conventions.\<close> Python's integers are unbounded, so they are \<open>int\<close>; times are rationals or
  integers of seconds as the code has them. Text is a list of bytes; case and character classes are
  those of ASCII. Loops over text are structural or have a length measure, so no definition uses
  fuel. Clocks, random ids, HTTP, the keyed hash, keccak and the list of registered wallets are arguments;
  so are the readers of ISO times (\<open>ts_of\<close>) and JSON text (\<open>loads\<close>), the text of an exception, and
  which process ids are alive. A process's output is a value: its exit code and text, its JSON, or
  that it could not be run.

  \<^bold>\<open>Not modelled.\<close> The prose of reasons and replies (in \<open>LiveCards\<close> and \<open>Handler\<close> the renderer is an
  argument or the kind of a card); the yaml and environment lookup of the fund's settings; the curve
  and the hash of the key derivation; the transport of Telegram, whose replies are inputs; the build
  of the sidecar's program, signals and pipes; argument parsing, printing and the writing of files by
  the command line tools; the JSON schemas of the tools.
\<close>

section \<open>The shared state of a fund\<close>

text \<open>
  C1: Whatever calls of the service produced the state directory, a fund that can be loaded from
  it has at most two open proposals and claims together, and no agent has two open proposals.
\<close>

theorem open_slots:
  assumes "served d" and "store_load d f = Inr st"
  shows "length (open_proposals st) + length (st_claims st) \<le> 2
    \<and> (\<forall>agent. length (open_proposals_of st agent) \<le> 1)"
  using invD(1,2) [OF served_inv [OF assms]] by (simp add: slots_def one_open_each_def)

theorem open_slots_witness:
  "length (open_proposals demo_s3) + length (st_claims demo_s3) \<le> 2
    \<and> length (open_proposals_of demo_s3 ''hermes'') \<le> 1"
  using open_slots [OF demo_served(3) demo_load_3] by blast

text \<open>
  C2: In every such state a settled proposal has at most one receipt, every receipt belongs to a
  proposal whose status is \<open>settled\<close>, proposal ids are distinct and all below the next one.
\<close>

theorem settled_once:
  assumes "served d" and "store_load d f = Inr st"
  shows "distinct (map r_proposal_id (st_receipts st))
    \<and> (\<forall>r \<in> set (st_receipts st). \<exists>p \<in> set (st_proposals st). p_id p = r_proposal_id r \<and> p_status p = Settled)
    \<and> distinct (map p_id (st_proposals st))
    \<and> (\<forall>p \<in> set (st_proposals st). \<exists>n. 1 \<le> n \<and> n < st_next_proposal_seq st \<and> p_id p = ''p-'' @ str_int n)"
  using invD(3,8) [OF served_inv [OF assms]] by (auto simp: receipts_ok_def ids_ok_def)

theorem settled_once_witness:
  "st_receipts demo_s7 \<noteq> [] \<and> distinct (map r_proposal_id (st_receipts demo_s7))"
proof
  show "st_receipts demo_s7 \<noteq> []" by code_simp
  show "distinct (map r_proposal_id (st_receipts demo_s7))"
    using settled_once [OF demo_served(7) demo_load_7] by blast
qed

text \<open>
  C3: In every such state a member has a number exactly when approved, the numbers are positive
  and below the next one, and no two members share one.
\<close>

theorem member_numbers:
  assumes "served d" and "store_load d f = Inr st"
  shows "(\<forall>m \<in> set (st_members st). m_approved m \<longleftrightarrow> m_member_no m \<noteq> None)
    \<and> (\<forall>m \<in> set (st_members st). \<forall>n. m_member_no m = Some n \<longrightarrow> 1 \<le> n \<and> n < st_next_member_no st)
    \<and> (\<forall>i < length (st_members st). \<forall>j < length (st_members st).
        m_member_no (st_members st ! i) \<noteq> None \<longrightarrow>
        m_member_no (st_members st ! i) = m_member_no (st_members st ! j) \<longrightarrow> i = j)"
  using invD(6) [OF served_inv [OF assms]] by (simp add: members_ok_def numbers_ok_def numbered_def) blast

theorem member_numbers_witness:
  "m_member_no (st_members demo_sm ! 0) \<noteq> None"
proof -
  have m: "0 < length (st_members demo_sm)" "m_approved (st_members demo_sm ! 0)"
    by code_simp+
  from member_numbers [OF demo_served(8) demo_load_m] show ?thesis using m nth_mem by blast
qed

text \<open>
  In every such state there is exactly one host agent, registered and never removed, and
  every claim and every draft belongs to an agent that is registered and not removed.
\<close>

theorem actors_are_members:
  assumes "served d" and "store_load d f = Inr st"
  shows "(\<exists>h. filter (\<lambda>a. a_role a = ''host'') (st_agents st) = [h] \<and> a_registered h \<and> \<not> a_removed h)
    \<and> (\<forall>c \<in> set (st_claims st). check_agent_can_act st (c_agent c) True = Allow)
    \<and> (\<forall>p \<in> set (st_proposals st). p_status p = Draft \<longrightarrow> check_agent_can_act st (p_proposer_agent p) True = Allow)"
  using invD(4,5,9) [OF served_inv [OF assms]]
  by (auto simp: host_ok_def hosts_def claims_ok_def drafts_ok_def check_agent_can_act_Allow)

theorem actors_are_members_witness:
  "p_status (st_proposals demo_s3 ! 0) = Draft
    \<and> check_agent_can_act demo_s3 (p_proposer_agent (st_proposals demo_s3 ! 0)) True = Allow"
proof -
  have d: "p_status (st_proposals demo_s3 ! 0) = Draft" by code_simp
  have "0 < length (st_proposals demo_s3)" by code_simp
  then have "st_proposals demo_s3 ! 0 \<in> set (st_proposals demo_s3)" by simp
  then show ?thesis using actors_are_members [OF demo_served(3) demo_load_3] d by blast
qed

text \<open>
  C4: In every such state nobody both backs and objects to a proposal or is counted twice, and a
  proposal that is open to votes has a voting deadline.
\<close>

theorem votes_are_fair:
  assumes "served d" and "store_load d f = Inr st" and "p \<in> set (st_proposals st)"
  shows "distinct (p_backers p) \<and> distinct (p_objectors p) \<and> set (p_backers p) \<inter> set (p_objectors p) = {}
    \<and> (p_status p \<in> VOTABLE_STATUSES \<longrightarrow> p_voting_ends_at p \<noteq> None)"
  using invD(7) [OF served_inv [OF assms(1,2)]] assms(3)
  by (auto simp: votes_ok_def votes_fair_def has_window_def VOTABLE_STATUSES_def)

theorem votes_are_fair_witness:
  "set (p_backers (st_proposals demo_s3 ! 0)) \<inter> set (p_objectors (st_proposals demo_s3 ! 0)) = {}"
proof -
  have "0 < length (st_proposals demo_s3)" by code_simp
  then have "st_proposals demo_s3 ! 0 \<in> set (st_proposals demo_s3)" by simp
  from votes_are_fair [OF demo_served(3) demo_load_3 this] show ?thesis by blast
qed

section \<open>The rules of a draft\<close>

text \<open>
  C5: \<open>check_draft\<close> accepts exactly when the agent is registered and not removed, the asset is
  USDG, the agent fee is recorded and at most 1500 bps, no cool-down runs, the agent has no open
  proposal, fewer than two are open, its live claim is on the topic, the envelope is inside the
  fund's bounds, and every leg is acceptable with the caps of both phases inside the envelope.
\<close>

theorem draft_accepted_iff:
  "check_draft st agent topic max_capital dd legs now = Inr Allow \<longleftrightarrow>
     (\<exists>a. agent_of st agent = Some a \<and> a_registered a \<and> \<not> a_removed a)
     \<and> upper (f_asset (st_fund st)) = ''USDG''
     \<and> (\<exists>fee. f_agent_fee_bps (st_fund st) = Some fee \<and> 0 \<le> fee \<and> fee \<le> 1500)
     \<and> (\<forall>u. f_cooldown_until (st_fund st) = Some u \<longrightarrow> u \<le> now)
     \<and> open_proposals_of st agent = [] \<and> length (open_proposals st) < 2
     \<and> (\<exists>c. claim_of st agent now = Some c \<and> normalize_topic (c_topic c) = normalize_topic topic)
     \<and> 0 < max_capital
     \<and> (\<forall>t. f_max_capital (st_fund st) = Some t \<longrightarrow> (\<exists>m. py_int t = Some m \<and> max_capital \<le> m))
     \<and> 0 \<le> dd \<and> dd \<le> 10000 \<and> (\<forall>m. f_max_drawdown_bps (st_fund st) = Some m \<longrightarrow> dd \<le> m)
     \<and> legs \<noteq> [] \<and> (\<forall>l \<in> set legs. leg_ok l)
     \<and> caps_of ''execute'' legs \<le> max_capital \<and> caps_of ''settle'' legs \<le> max_capital"
  unfolding check_draft_Allow_iff draft_allowed_def gates_open_def may_act_def fee_ok_def cooldown_over_def
    MAX_AGENT_FEE_BPS_def by blast

theorem draft_accepted_iff_witness:
  "check_draft demo_s2 ''hermes'' ''NVDA dip'' 1000000 500 [demo_leg] 120 = Inr Allow
    \<and> 0 < (1000000::int)"
proof -
  have "check_draft demo_s2 ''hermes'' ''NVDA dip'' 1000000 500 [demo_leg] 120 = Inr Allow" by code_simp
  with this [unfolded draft_accepted_iff] show ?thesis by blast
qed


definition demo_approve_leg :: leg where
  "demo_approve_leg = demo_leg\<lparr>l_target := demo_addr, l_data := abi_approve 5 1000\<rparr>"


text \<open>
  C7: An accepted list of legs moves no more than the capital: each leg's cap is at most the
  capital, and so is the sum of the caps of each phase.
\<close>

theorem caps_bounded:
  assumes "check_legs legs max_capital = Inr Allow"
  shows "caps_of ''execute'' legs \<le> max_capital \<and> caps_of ''settle'' legs \<le> max_capital
    \<and> (\<forall>l \<in> set legs. 0 \<le> leg_cap l \<and> leg_cap l \<le> max_capital)"
proof -
  have a: "\<forall>l \<in> set legs. leg_ok l" and b: "caps_of ''execute'' legs \<le> max_capital" "caps_of ''settle'' legs \<le> max_capital"
    using assms by (simp_all add: check_legs_Allow_iff)
  have "0 \<le> leg_cap l \<and> leg_cap l \<le> max_capital" if l: "l \<in> set legs" for l
  proof -
    have "leg_cap l \<le> caps_of (l_phase l) legs" "l_phase l = ''execute'' \<or> l_phase l = ''settle''" "0 \<le> leg_cap l"
      using leg_cap_le_caps [OF a l] a l by (auto simp: leg_ok_def)
    then show ?thesis using b by fastforce
  qed
  with b show ?thesis by blast
qed

theorem caps_bounded_witness: "leg_cap demo_approve_leg \<le> 2000000"
proof -
  have "check_legs [demo_approve_leg] 2000000 = Inr Allow" by code_simp
  from caps_bounded [OF this] show ?thesis by simp
qed

text \<open>
  A successful draft appends one proposal with the next id, in the agent's name and in status
  \<open>draft\<close>, with the legs and the envelope as given, takes the agent's claims away and touches
  nothing else; with the checks passed it always succeeds.
\<close>

theorem draft_records:
  assumes "draft_proposal_mutate base now agent x st = Inr (r, st')"
  shows "\<exists>a. agent_of st agent = Some a
    \<and> st' = st\<lparr>st_next_proposal_seq := st_next_proposal_seq st + 1,
        st_proposals := st_proposals st @ [dr_proposal r],
        st_claims := filter (\<lambda>c. lower (c_agent c) \<noteq> lower (a_name a)) (active_claims st now)\<rparr>
    \<and> p_id (dr_proposal r) = ''p-'' @ str_int (st_next_proposal_seq st)
    \<and> p_proposer_agent (dr_proposal r) = a_name a \<and> p_status (dr_proposal r) = Draft
    \<and> p_legs (dr_proposal r) = d_legs x \<and> (\<forall>l \<in> set (d_legs x). leg_ok l)
    \<and> py_int (p_max_capital (dr_proposal r)) = Some (d_max_capital x)"
proof -
  obtain a c where e: "agent_of st agent = Some a"
    "dr_proposal r = draft_record now x (prune_claims now st) a (Some c)"
    "st' = st\<lparr>st_next_proposal_seq := st_next_proposal_seq st + 1,
          st_proposals := st_proposals st @ [dr_proposal r],
          st_claims := without_claims_of (a_name a) (active_claims st now)\<rparr>"
    using draft_proposal_effect [OF assms] by blast
  have "p_id (dr_proposal r) = ''p-'' @ str_int (st_next_proposal_seq st)"
    "p_proposer_agent (dr_proposal r) = a_name a" "p_status (dr_proposal r) = Draft"
    "py_int (p_max_capital (dr_proposal r)) = Some (d_max_capital x)"
    by (simp_all add: e(2) draft_record_def)
  with e(1) e(3) [unfolded without_claims_of_def] draft_legs_ok(1,2) [OF assms] show ?thesis by blast
qed

theorem draft_records_witness:
  "\<exists>r st'. draft_proposal_mutate DEFAULT_TX_BUILDER_URL 120 ''hermes'' demo_draft demo_s2 = Inr (r, st')
    \<and> p_status (dr_proposal r) = Draft"
proof -
  have "ok (draft_proposal_mutate DEFAULT_TX_BUILDER_URL 120 ''hermes'' demo_draft demo_s2)" by code_simp
  then obtain r st' where
    "draft_proposal_mutate DEFAULT_TX_BUILDER_URL 120 ''hermes'' demo_draft demo_s2 = Inr (r, st')"
    by (auto simp: ok_def split: sum.splits)
  with draft_records [OF this] show ?thesis by blast
qed


definition demo_guest_state :: fund_state where
  "demo_guest_state = demo_s2\<lparr>st_agents := st_agents demo_s2
     @ [(new_agent ''scout'' ''13'' demo_addr ''8'')\<lparr>a_registered := True\<rparr>]\<rparr>"


section \<open>The store and its lock\<close>

text \<open>
  C9: An update that returns wrote exactly what the mutation made of the state that was loaded,
  with the revision raised by one; the next load returns it, and no other fund changes.
\<close>

theorem update_writes_once:
  assumes "store_update d now fund mutate = Inr (r, d')"
    and "\<And>s q s'. mutate s = Inr (q, s') \<Longrightarrow> st_schema_version s' = st_schema_version s"
  shows "\<exists>st st'. store_load d fund = Inr st \<and> mutate st = Inr (r, st')
    \<and> (\<forall>g. store_load d' g = (if lower (strip fund) = lower (strip g)
          then Inr (st'\<lparr>st_revision := st_revision st' + 1, st_updated_at := now\<rparr>) else store_load d g))"
proof -
  have "local_json.keeps_readable mutate"
    using assms(2) by (simp add: local_json.keeps_readable_def readable_def)
  from local_json.update_keeps [OF assms(1) this] show ?thesis unfolding same_fund_def bump_def .
qed

theorem update_writes_once_witness:
  "\<exists>d'. store_update demo_d1 111 ''alpha'' (release_claim_mutate 110 ''hermes'' []) = Inr (0, d')
    \<and> (\<exists>st. store_load d' ''ALPHA '' = Inr st)"
proof -
  have "ok (store_update demo_d1 111 ''alpha'' (release_claim_mutate 110 ''hermes'' []))" by code_simp
  then obtain r d' where u: "store_update demo_d1 111 ''alpha'' (release_claim_mutate 110 ''hermes'' []) = Inr (r, d')"
    by (auto simp: ok_def split: sum.splits)
  have "lower (strip ''alpha'') = lower (strip ''ALPHA '')" by code_simp
  with update_writes_once [OF u] have l: "\<exists>st. store_load d' ''ALPHA '' = Inr st"
    by (auto simp: release_claim_mutate_def Let_def)
  have "map_sum id fst (store_update demo_d1 111 ''alpha'' (release_claim_mutate 110 ''hermes'' [])) = Inr 0"
    by code_simp
  with u l show ?thesis by auto
qed

text \<open>
  C10: With any number of processes loading and updating one fund's file at once, killed at any
  point, the file is always the result of the committed updates run one after the other, and
  its revision counts them: no update is lost and none is applied twice.
\<close>

theorem no_lost_update:
  assumes "runs pg st0 s"
    and "\<And>p m st q st'. pg_request pg p = Update m \<Longrightarrow> m st = Inr (q, st') \<Longrightarrow> st_revision st' = st_revision st"
  shows "serial pg st0 (sy_log s) (sy_file s) \<and> distinct (sy_log s)
    \<and> st_revision (sy_file s) = st_revision st0 + int (length (sy_log s))"
proof -
  have ser: "serial pg st0 (sy_log s) (sy_file s)" using runs_inv [OF assms(1)] by blast
  then show ?thesis
    using serial_revision [OF ser assms(2)] runs_log_phase [OF assms(1)] by (auto simp: log_phase_def)
qed

definition demo_program :: program where
  "demo_program = \<lparr>pg_request = (\<lambda>p. if p < 2 then Update (\<lambda>st. Inr ((), st)) else Load),
     pg_timeout = 10, pg_wt = (\<lambda>p. 5)\<rparr>"

lemma demo_run: "\<exists>s. runs demo_program demo_s1 s \<and> sy_log s = [0] \<and> sy_phase s 1 = Waiting 10"
proof -
  let ?st = demo_s1
  let ?s0 = "start ?st 0"
  let ?s1 = "phase_to 0 (Waiting 10) ?s0"
  let ?s2 = "phase_to 1 (Waiting 10) ?s1"
  let ?s3 = "phase_to 0 Holding ?s2"
  let ?s4 = "phase_to 0 (Has_read ?st) ?s3"
  let ?s5 = "phase_to 0 (Has_temp (bump 5 ?st)) ?s4"
  let ?s6 = "(phase_to 0 Replaced ?s5)\<lparr>sy_file := bump 5 ?st, sy_log := sy_log ?s5 @ [0]\<rparr>"
  have f: "sy_clock ?s0 = 0" "sy_file ?s0 = ?st" "sy_log ?s0 = []" "sy_phase ?s0 p = Ready" for p
    by (simp_all add: start_def)
  have pg: "pg_timeout demo_program = 10" "pg_request demo_program 0 = Update (\<lambda>st. Inr ((), st))"
    "pg_wt demo_program 0 = 5" by (simp_all add: demo_program_def)
  have "runs demo_program ?st ?s0" by (rule runs.init)
  moreover have "lock_step demo_program ?s0 ?s1"
    using lock_step.begin_wait [of ?s0 0 demo_program] f pg by simp
  ultimately have "runs demo_program ?st ?s1" by (rule runs.more)
  moreover have "lock_step demo_program ?s1 ?s2"
    using lock_step.begin_wait [of ?s1 1 demo_program] f pg by simp
  ultimately have "runs demo_program ?st ?s2" by (rule runs.more)
  moreover have "lock_step demo_program ?s2 ?s3"
    by (rule lock_step.acquire [of _ _ 10]) (simp_all add: lock_free_def holds_def f)
  ultimately have "runs demo_program ?st ?s3" by (rule runs.more)
  moreover have "lock_step demo_program ?s3 ?s4"
    using lock_step.read [of ?s3 0 demo_program] f by simp
  ultimately have "runs demo_program ?st ?s4" by (rule runs.more)
  moreover have "lock_step demo_program ?s4 ?s5"
    using lock_step.write_temp [of ?s4 0 ?st demo_program] pg by simp
  ultimately have "runs demo_program ?st ?s5" by (rule runs.more)
  moreover have "lock_step demo_program ?s5 ?s6"
    by (rule lock_step.replace) simp
  ultimately have "runs demo_program ?st ?s6" by (rule runs.more)
  then show ?thesis using f by (intro exI [of _ ?s6]) simp
qed

theorem no_lost_update_witness:
  "\<exists>s :: sys. st_revision (sy_file s) = st_revision demo_s1 + 1 \<and> sy_phase s 1 = Waiting 10"
proof -
  obtain s where s: "runs demo_program demo_s1 s" "sy_log s = [0]" "sy_phase s 1 = Waiting 10"
    using demo_run by blast
  have "serial demo_program demo_s1 (sy_log s) (sy_file s) \<and> distinct (sy_log s)
      \<and> st_revision (sy_file s) = st_revision demo_s1 + int (length (sy_log s))"
  proof (rule no_lost_update [OF s(1)])
    fix p m st q st'
    assume "pg_request demo_program p = Update m" "m st = Inr (q, st')"
    then show "st_revision st' = st_revision st" by (auto simp: demo_program_def split: if_splits)
  qed
  with s show ?thesis by (intro exI [of _ s]) simp
qed



text \<open>C12: A state written as JSON reads back as itself.\<close>

theorem state_json_roundtrip: "fund_state_from_dict (fund_state_to_dict st) = Some st"
  by (rule fund_state_roundtrip)

text \<open>
  The funds listed are the checked names that have a file, in order and without duplicates,
  and a name that passes the check holds nothing but lower-case letters, digits and dashes, so
  its path stays in the state directory.
\<close>

theorem fund_names_are_safe:
  assumes "distinct (map fst d)"
  shows "sorted (list_funds d) \<and> distinct (list_funds d)
    \<and> (f \<in> set (list_funds d) \<longleftrightarrow> FUND_NAME_RE f \<and> map_of d (f @ ''.json'') \<noteq> None)
    \<and> (validate_fund_name g = Inr name \<longrightarrow>
        (\<forall>c \<in> set name. c \<noteq> CHR 0x0A \<longrightarrow> is_lower_char c \<or> is_digit c \<or> c = CHR ''-''))"
  using list_funds_sorted list_funds_distinct [OF assms] list_funds_iff [of f d] name_re_chars
  by (auto simp: file_name_def validate_fund_name_def Let_def fund_name_char_def split: if_splits)

theorem fund_names_are_safe_witness: "''alpha'' \<in> set (list_funds demo_d1) \<and> distinct (list_funds demo_d1)"
proof -
  have d: "distinct (map fst demo_d1)" by code_simp
  have "''alpha'' \<in> set (list_funds demo_d1)" by code_simp
  with fund_names_are_safe [OF d] show ?thesis by blast
qed

section \<open>The life cycle\<close>



text \<open>
  C14: A settle that succeeds was from \<open>executed\<close>, leaves one more receipt for that proposal, and
  starts a cool-down of at least the fund's period: until it is over no claim and no draft is
  accepted, from any agent.
\<close>

theorem settle_starts_cooldown:
  assumes "record_settle_mutate now actor pid pnl bps tx st = Inr (r, st')"
    and "later < now + of_int (f_cooldown_period (st_fund st))"
  shows "(\<exists>p. proposal_of st pid = Some p \<and> p_status p = Executed \<and> r_proposal_id (fst r) = p_id p)
    \<and> st_receipts st' = st_receipts st @ [fst r]
    \<and> check_claim st' agent topic later \<noteq> Allow
    \<and> check_draft st' agent topic mc dd legs later \<noteq> Inr Allow"
proof -
  obtain u where u: "f_cooldown_until (st_fund st') = Some u" "now + of_int (f_cooldown_period (st_fund st)) \<le> u"
    using settle_cooldown [OF assms(1)] by blast
  then have "later < u" using assms(2) by linarith
  note b = cooldown_blocks [OF u(1) this]
  show ?thesis using b record_settle_effect(2) [OF assms(1)] by (auto simp: proposal_of_ix)
qed

theorem settle_starts_cooldown_witness:
  "\<exists>r st'. record_settle_mutate 3000 ''hermes'' ''p-1'' 25 10 [] demo_s6 = Inr (r, st')
    \<and> check_claim st' ''hermes'' ''other'' 6000 \<noteq> Allow"
proof -
  have "ok (record_settle_mutate 3000 ''hermes'' ''p-1'' 25 10 [] demo_s6)" by code_simp
  then obtain r st' where s: "record_settle_mutate 3000 ''hermes'' ''p-1'' 25 10 [] demo_s6 = Inr (r, st')"
    by (auto simp: ok_def split: sum.splits)
  have "6000 < 3000 + (of_int (f_cooldown_period (st_fund demo_s6)) :: time)" by code_simp
  from settle_starts_cooldown [OF s this] s show ?thesis by blast
qed

text \<open>
  Removing an agent takes its claims and cancels its drafts in the same update; an agent
  under another name keeps its rights, and the host cannot be removed.
\<close>

theorem remove_agent_cleans_up:
  assumes "remove_agent_mutate now actor name caller st = Inr (r, st')"
  shows "(\<forall>c \<in> set (st_claims st'). lower (c_agent c) \<noteq> lower (a_name r))
    \<and> (\<forall>p \<in> set (st_proposals st'). lower (p_proposer_agent p) = lower (a_name r) \<longrightarrow> p_status p \<noteq> Draft)
    \<and> (\<forall>n. lower (strip n) \<noteq> lower (a_name r) \<longrightarrow> check_agent_can_act st n True = Allow \<longrightarrow>
          check_agent_can_act st' n True = Allow)
    \<and> filter (\<lambda>a. a_role a = ''host'') (st_agents st') = filter (\<lambda>a. a_role a = ''host'') (st_agents st)"
  using remove_agent_effect [OF assms]
  by (auto simp: check_agent_can_act_Allow hosts_def cancel_draft_of_def split: if_splits)

definition demo_scout_state :: fund_state where
  "demo_scout_state = demo_guest_state\<lparr>st_claims := st_claims demo_guest_state
     @ [\<lparr>c_agent = ''scout'', c_topic = ''TSLA'', c_expires_at = 900, c_created_at = 100, c_idea_by = [],
         c_pitch = [], c_chat_id = [], c_source_message_id = None\<rparr>]\<rparr>"

theorem remove_agent_cleans_up_witness:
  "\<exists>r st'. remove_agent_mutate 130 ''hermes'' ''scout'' (Some ''7'') demo_scout_state = Inr (r, st')
    \<and> lower (a_name r) \<notin> (\<lambda>c. lower (c_agent c)) ` set (st_claims st')"
proof -
  have "ok (remove_agent_mutate 130 ''hermes'' ''scout'' (Some ''7'') demo_scout_state)" by code_simp
  then obtain r st' where s: "remove_agent_mutate 130 ''hermes'' ''scout'' (Some ''7'') demo_scout_state = Inr (r, st')"
    by (auto simp: ok_def split: sum.splits)
  have "lower (a_name r) \<notin> (\<lambda>c. lower (c_agent c)) ` set (st_claims st')"
    using remove_agent_cleans_up [OF s] by fastforce
  with s show ?thesis by blast
qed

text \<open>
  A member's vote counts once, on the side it names and on no other: \<open>back\<close> and \<open>object\<close>
  replace each other, \<open>clear\<close> withdraws, and nobody else's vote changes.
\<close>

theorem member_vote_counts_once:
  assumes "side \<in> {''back'', ''object'', ''clear''}"
  shows "(tid \<in> set (p_backers (member_vote now tid side p)) \<longleftrightarrow> side = ''back'')
    \<and> (tid \<in> set (p_objectors (member_vote now tid side p)) \<longleftrightarrow> side = ''object'')
    \<and> (x \<noteq> tid \<longrightarrow> (x \<in> set (p_backers (member_vote now tid side p)) \<longleftrightarrow> x \<in> set (p_backers p)))
    \<and> (x \<noteq> tid \<longrightarrow> (x \<in> set (p_objectors (member_vote now tid side p)) \<longleftrightarrow> x \<in> set (p_objectors p)))"
  using member_vote_effect [OF assms] by blast

theorem member_vote_counts_once_witness:
  "''9'' \<in> set (p_backers (member_vote 5 ''9'' ''back'' (st_proposals demo_s3 ! 0)))"
proof -
  have "''back'' \<in> {''back'', ''object'', ''clear''}" by simp
  from member_vote_counts_once [OF this] show ?thesis by blast
qed

text \<open>
  The leaderboard ranks every member with a settled idea once, by the sum of the basis points
  of exactly their ideas, then the number of ideas, then the id.
\<close>

theorem leaderboard_ranks:
  assumes "leaderboard_of st = Inr rows"
  shows "sorted (map (\<lambda>r. (- lb_pnl_bps r, - lb_ideas r, lb_tg r)) rows) \<and> distinct (map lb_tg rows)
    \<and> lb_tg ` set rows = {r_idea_by r | r. r \<in> set (st_receipts st) \<and> r_idea_by r \<noteq> []}
    \<and> (\<forall>row \<in> set rows.
        lb_pnl_bps row = (\<Sum>r \<leftarrow> filter (\<lambda>r. r_idea_by r = lb_tg row) (st_receipts st). r_pnl_bps r)
        \<and> lb_ideas row = int (length (filter (\<lambda>r. r_idea_by r = lb_tg row) (st_receipts st))))"
proof -
  have "map lb_key rows = map (\<lambda>r. (- lb_pnl_bps r, - lb_ideas r, lb_tg r)) rows" by (simp add: lb_key_def)
  with leaderboard_ok [OF assms] show ?thesis by (simp add: lb_ok_def ideas_of_def)
qed

definition demo_receipt :: "string \<Rightarrow> int \<Rightarrow> receipt" where
  "demo_receipt tg bps = \<lparr>r_proposal_id = ''p-1'', r_agent = ''Hermes'', r_asset = ''USDG'', r_pnl = str_int bps,
     r_pnl_bps = bps, r_tx_hash = [], r_onchain_id = None, r_idea_by = tg, r_thesis = [], r_settled_at = 0\<rparr>"

definition demo_board :: fund_state where
  "demo_board = (new_state demo_fund [])\<lparr>st_receipts := [demo_receipt ''1'' 5, demo_receipt ''2'' 30,
     demo_receipt ''1'' 40, demo_receipt [] 9]\<rparr>"

theorem leaderboard_ranks_witness:
  "\<exists>rows. leaderboard_of demo_board = Inr rows \<and> length rows = 2 \<and> distinct (map lb_tg rows)"
proof -
  have "ok (leaderboard_of demo_board)" by code_simp
  then obtain rows where r: "leaderboard_of demo_board = Inr rows" by (auto simp: ok_def split: sum.splits)
  have "map_sum id length (leaderboard_of demo_board) = Inr 2" by code_simp
  with leaderboard_ranks [OF r] r show ?thesis by auto
qed

end
